(* ===== verification/Prelude.thy ===== *)
theory Prelude
  imports Main "HOL-Library.Word" "HOL-Library.Multiset"
begin

text \<open>
  Shared vocabulary of the development: machine integers at their C widths, little-endian
  byte strings (the target is an ARM Cortex-M33, and every wire and EEPROM structure is packed),
  and first-match loops over arrays.
  The \<open>named_theorems\<close> collections gather the facts the component theories hand to
  \<open>simp\<close> and \<open>intro\<close>.
\<close>

unbundle bit_operations_syntax

section \<open>Machine integers and errno values\<close>

type_synonym u8 = "8 word"
type_synonym u16 = "16 word"
type_synonym u32 = "32 word"
type_synonym u64 = "64 word"

text \<open>\<open>int16_t\<close> and \<open>int64_t\<close> values are words that the code compares as signed.\<close>
type_synonym s16 = "16 word"
type_synonym s8 = "8 word"
type_synonym s64 = "64 word"

type_synonym bytes = "u8 list"

text \<open>The negative errno results the firmware returns itself (Zephyr's numbering).\<close>
abbreviation (input) ENOENT :: int where "ENOENT \<equiv> 2"
abbreviation (input) EIO :: int where "EIO \<equiv> 5"
abbreviation (input) ENOMEM :: int where "ENOMEM \<equiv> 12"
abbreviation (input) ENODEV :: int where "ENODEV \<equiv> 19"
abbreviation (input) EINVAL :: int where "EINVAL \<equiv> 22"
abbreviation (input) EBADMSG :: int where "EBADMSG \<equiv> 77"
abbreviation (input) EILSEQ :: int where "EILSEQ \<equiv> 138"

named_theorems wf_intros \<comment> \<open>preservation of the well-formedness invariants\<close>
named_theorems wire_simps \<comment> \<open>layouts of the packed structures\<close>
named_theorems frame_simps \<comment> \<open>what an operation leaves unchanged\<close>

section \<open>First match in an array prefix\<close>

text \<open>\<open>for (i = 0; i < n; i++) if (p(xs[i])) return i;\<close>\<close>

fun find_idx :: "('a \<Rightarrow> bool) \<Rightarrow> 'a list \<Rightarrow> nat option" where
  "find_idx p [] = None"
| "find_idx p (x # xs) = (if p x then Some 0 else map_option Suc (find_idx p xs))"

lemma find_idx_None_iff: "find_idx p xs = None \<longleftrightarrow> (\<forall>x\<in>set xs. \<not> p x)"
  by (induction xs) auto

lemma find_idx_SomeD:
  "find_idx p xs = Some i \<Longrightarrow> i < length xs \<and> p (xs ! i) \<and> (\<forall>j<i. \<not> p (xs ! j))"
proof (induction xs arbitrary: i)
  case (Cons x xs)
  show ?case
  proof (cases "p x")
    case False
    with Cons.prems obtain k where k: "find_idx p xs = Some k" "i = Suc k" by auto
    with Cons.IH[OF k(1)] False show ?thesis by (auto simp: less_Suc_eq_0_disj)
  qed (use Cons.prems in auto)
qed simp

lemma find_idx_less: "find_idx p xs = Some i \<Longrightarrow> i < length xs"
  by (simp add: find_idx_SomeD)

lemma find_idx_nth: "find_idx p xs = Some i \<Longrightarrow> p (xs ! i)"
  by (simp add: find_idx_SomeD)

lemma find_idx_ex: "x \<in> set xs \<Longrightarrow> p x \<Longrightarrow> \<exists>i. find_idx p xs = Some i"
  by (metis find_idx_None_iff option.exhaust)

lemma find_idx_cong: "(\<And>x. x \<in> set xs \<Longrightarrow> p x = q x) \<Longrightarrow> find_idx p xs = find_idx q xs"
  by (induction xs) auto

lemma find_idx_take_less: "find_idx p (take n xs) = Some i \<Longrightarrow> i < n \<and> i < length xs"
  by (drule find_idx_less) simp

lemma find_idx_take_nth: "find_idx p (take n xs) = Some i \<Longrightarrow> p (xs ! i)"
  using find_idx_nth[of p "take n xs" i] find_idx_take_less[of p n xs i] by simp

section \<open>Little-endian byte strings\<close>

primrec le_bytes :: "nat \<Rightarrow> 'a::len word \<Rightarrow> bytes" where
  "le_bytes 0 w = []"
| "le_bytes (Suc n) w = ucast w # le_bytes n (drop_bit 8 w)"

primrec of_le :: "bytes \<Rightarrow> 'a::len word" where
  "of_le [] = 0"
| "of_le (b # bs) = ucast b OR push_bit 8 (of_le bs)"

lemma length_le_bytes [simp]: "length (le_bytes n w) = n"
  by (induction n arbitrary: w) auto

lemma le_bytes_numeral [simp]:
  "le_bytes (numeral k) w = ucast w # le_bytes (pred_numeral k) (drop_bit 8 w)"
  by (simp add: numeral_eq_Suc)

lemma of_le_le_bytes_take_bit: "of_le (le_bytes n w) = (take_bit (8 * n) w :: 'a::len word)"
proof (induction n arbitrary: w)
  case (Suc n)
  have "(ucast (ucast w :: u8) :: 'a word) OR push_bit 8 (take_bit (8 * n) (drop_bit 8 w))
    = take_bit (8 + 8 * n) w"
    by (rule bit_word_eqI) (auto simp: bit_simps)
  with Suc.IH show ?case by simp
qed simp

lemma of_le_le_bytes: "LENGTH('a) \<le> 8 * n \<Longrightarrow> of_le (le_bytes n w) = (w :: 'a::len word)"
  by (simp add: of_le_le_bytes_take_bit take_bit_word_eq_self)

declare le_bytes_numeral [simp del]

text \<open>Reading a field of \<open>n\<close> bytes at an offset of a packed structure.\<close>

definition rd_bytes :: "nat \<Rightarrow> nat \<Rightarrow> bytes \<Rightarrow> bytes" where
  "rd_bytes off n bs = take n (drop off bs)"

definition rd_u8 :: "nat \<Rightarrow> bytes \<Rightarrow> u8" where
  "rd_u8 off bs = of_le (rd_bytes off 1 bs)"

definition rd_u16 :: "nat \<Rightarrow> bytes \<Rightarrow> u16" where
  "rd_u16 off bs = of_le (rd_bytes off 2 bs)"

definition rd_u32 :: "nat \<Rightarrow> bytes \<Rightarrow> u32" where
  "rd_u32 off bs = of_le (rd_bytes off 4 bs)"

definition rd_u64 :: "nat \<Rightarrow> bytes \<Rightarrow> u64" where
  "rd_u64 off bs = of_le (rd_bytes off 8 bs)"

definition by8 :: "u8 \<Rightarrow> bytes" where "by8 w = le_bytes 1 w"
definition by16 :: "u16 \<Rightarrow> bytes" where "by16 w = le_bytes 2 w"
definition by32 :: "u32 \<Rightarrow> bytes" where "by32 w = le_bytes 4 w"
definition by64 :: "u64 \<Rightarrow> bytes" where "by64 w = le_bytes 8 w"

lemmas by_defs = by8_def by16_def by32_def by64_def

lemma length_by [simp]:
  "length (by8 w8) = 1" "length (by16 w16) = 2" "length (by32 w32) = 4" "length (by64 w64) = 8"
  by (simp_all add: by_defs)

lemmas rd_defs = rd_u8_def rd_u16_def rd_u32_def rd_u64_def rd_bytes_def

lemma rd_append_left [wire_simps]:
  "length a \<le> off \<Longrightarrow> rd_bytes off n (a @ b) = rd_bytes (off - length a) n b"
  "length a \<le> off \<Longrightarrow> rd_u8 off (a @ b) = rd_u8 (off - length a) b"
  "length a \<le> off \<Longrightarrow> rd_u16 off (a @ b) = rd_u16 (off - length a) b"
  "length a \<le> off \<Longrightarrow> rd_u32 off (a @ b) = rd_u32 (off - length a) b"
  "length a \<le> off \<Longrightarrow> rd_u64 off (a @ b) = rd_u64 (off - length a) b"
  by (simp_all add: rd_defs)

lemma rd_append_right [wire_simps]:
  "n = length a \<Longrightarrow> rd_bytes 0 n (a @ b) = a"
  "rd_u8 0 (by8 w8 @ b) = w8"
  "rd_u16 0 (by16 w16 @ b) = w16"
  "rd_u32 0 (by32 w32 @ b) = w32"
  "rd_u64 0 (by64 w64 @ b) = w64"
  by (simp_all add: rd_defs by_defs of_le_le_bytes)

lemma rd_exact [wire_simps]:
  "n = length a \<Longrightarrow> rd_bytes 0 n a = a"
  "rd_u8 0 (by8 w8) = w8"
  "rd_u16 0 (by16 w16) = w16"
  "rd_u32 0 (by32 w32) = w32"
  "rd_u64 0 (by64 w64) = w64"
  by (simp_all add: rd_defs by_defs of_le_le_bytes)

lemma length_rd_bytes: "off + n \<le> length bs \<Longrightarrow> length (rd_bytes off n bs) = n"
  by (simp add: rd_bytes_def)

section \<open>Byte-addressed memories\<close>

text \<open>The contents of an external memory chip, one byte per address.\<close>
type_synonym memory = "nat \<Rightarrow> u8"

definition put_bytes :: "memory \<Rightarrow> nat \<Rightarrow> bytes \<Rightarrow> memory" where
  "put_bytes m a bs = (\<lambda>i. if a \<le> i \<and> i < a + length bs then bs ! (i - a) else m i)"

definition get_bytes :: "memory \<Rightarrow> nat \<Rightarrow> nat \<Rightarrow> bytes" where
  "get_bytes m a n = map m [a..<a + n]"

lemma length_get_bytes [simp]: "length (get_bytes m a n) = n"
  by (simp add: get_bytes_def)

lemma get_put_bytes_same [simp]: "get_bytes (put_bytes m a bs) a (length bs) = bs"
  by (rule nth_equalityI) (simp_all add: get_bytes_def put_bytes_def)

lemma get_put_bytes_disjoint:
  "b + n \<le> a \<or> a + length bs \<le> b \<Longrightarrow> get_bytes (put_bytes m a bs) b n = get_bytes m b n"
  by (rule nth_equalityI) (auto simp: get_bytes_def put_bytes_def)

lemma put_bytes_Nil [simp]: "put_bytes m a [] = m"
  by (auto simp: put_bytes_def fun_eq_iff)

lemma get_bytes_0 [simp]: "get_bytes m a 0 = []"
  by (simp add: get_bytes_def)

lemma put_bytes_append: "put_bytes (put_bytes m a xs) (a + length xs) ys = put_bytes m a (xs @ ys)"
  by (auto simp: put_bytes_def fun_eq_iff nth_append)

lemma get_bytes_append: "get_bytes m a n @ get_bytes m (a + n) k = get_bytes m a (n + k)"
  unfolding get_bytes_def
  by (metis add.assoc le_add1 map_append upt_add_eq_append)

lemma get_put_bytes_within:
  "a \<le> b \<Longrightarrow> b + n \<le> a + length bs \<Longrightarrow>
    get_bytes (put_bytes m a bs) b n = take n (drop (b - a) bs)"
  by (rule nth_equalityI) (auto simp: get_bytes_def put_bytes_def)

end
