(* ===== verification/Protocol.thy ===== *)
theory Protocol
  imports Prelude
begin

text \<open>
  The wire protocol of src/protocol.h: the constants, the packed packet structures as records,
  and their little-endian layouts. \<open>enc_x\<close> is the byte string that \<open>memcpy\<close> of a packed
  \<open>x_t\<close> produces and \<open>dec_x\<close> the one a pointer cast reads back; every structure has its
  size, its round trip and the fact that the common header is its prefix.
\<close>

section \<open>Constants\<close>

abbreviation (input) MAX_DEPTH :: nat where "MAX_DEPTH \<equiv> 4"
abbreviation (input) MAX_ANCHORS :: nat where "MAX_ANCHORS \<equiv> 8"
abbreviation (input) MAX_SENSORS :: nat where "MAX_SENSORS \<equiv> 64"
abbreviation (input) MAX_DEVICES :: nat where "MAX_DEVICES \<equiv> 256"

text \<open>\<open>device_type_t\<close>, \<open>data_type_t\<close> and \<open>packet_type_t\<close> travel as one byte.\<close>
abbreviation (input) DEVICE_TYPE_UNKNOWN :: u8 where "DEVICE_TYPE_UNKNOWN \<equiv> 0"
abbreviation (input) DEVICE_TYPE_GATEWAY :: u8 where "DEVICE_TYPE_GATEWAY \<equiv> 1"
abbreviation (input) DEVICE_TYPE_ANCHOR :: u8 where "DEVICE_TYPE_ANCHOR \<equiv> 2"
abbreviation (input) DEVICE_TYPE_SENSOR :: u8 where "DEVICE_TYPE_SENSOR \<equiv> 3"
abbreviation (input) DATA_TYPE_UNKNOWN :: u8 where "DATA_TYPE_UNKNOWN \<equiv> 0"
abbreviation (input) DATA_TYPE_REPORT :: u8 where "DATA_TYPE_REPORT \<equiv> 1"
abbreviation (input) DATA_TYPE_CONFIG :: u8 where "DATA_TYPE_CONFIG \<equiv> 2"
abbreviation (input) DATA_TYPE_LARGE_DATA :: u8 where "DATA_TYPE_LARGE_DATA \<equiv> 3"
abbreviation (input) DATA_TYPE_OTA :: u8 where "DATA_TYPE_OTA \<equiv> 4"
abbreviation (input) PACKET_UNKNOWN :: u8 where "PACKET_UNKNOWN \<equiv> 0"
abbreviation (input) PACKET_PAIR_REQUEST :: u8 where "PACKET_PAIR_REQUEST \<equiv> 1"
abbreviation (input) PACKET_PAIR_RESPONSE :: u8 where "PACKET_PAIR_RESPONSE \<equiv> 2"
abbreviation (input) PACKET_PAIR_CONFIRM :: u8 where "PACKET_PAIR_CONFIRM \<equiv> 3"
abbreviation (input) PACKET_PAIR_ACK :: u8 where "PACKET_PAIR_ACK \<equiv> 4"
abbreviation (input) PACKET_JOINED_NETWORK :: u8 where "PACKET_JOINED_NETWORK \<equiv> 5"
abbreviation (input) PACKET_JOINED_NETWORK_ACK :: u8 where "PACKET_JOINED_NETWORK_ACK \<equiv> 6"
abbreviation (input) PACKET_PING_DEVICE :: u8 where "PACKET_PING_DEVICE \<equiv> 7"
abbreviation (input) PACKET_PING_ACK :: u8 where "PACKET_PING_ACK \<equiv> 8"
abbreviation (input) PACKET_DEVICE_UPDATED :: u8 where "PACKET_DEVICE_UPDATED \<equiv> 9"
abbreviation (input) PACKET_DEVICE_UPDATED_ACK :: u8 where "PACKET_DEVICE_UPDATED_ACK \<equiv> 10"
abbreviation (input) PACKET_REPAIR_REQUEST :: u8 where "PACKET_REPAIR_REQUEST \<equiv> 11"
abbreviation (input) PACKET_REPAIR_RESPONSE :: u8 where "PACKET_REPAIR_RESPONSE \<equiv> 12"
abbreviation (input) PACKET_ROUTE_DISCOVERY :: u8 where "PACKET_ROUTE_DISCOVERY \<equiv> 13"
abbreviation (input) PACKET_ROUTE_DISCOVERY_ACK :: u8 where "PACKET_ROUTE_DISCOVERY_ACK \<equiv> 14"
abbreviation (input) PACKET_ROUTE_INFO :: u8 where "PACKET_ROUTE_INFO \<equiv> 15"
abbreviation (input) PACKET_ROUTE_INFO_ACK :: u8 where "PACKET_ROUTE_INFO_ACK \<equiv> 16"
abbreviation (input) PACKET_REPORT_INIT :: u8 where "PACKET_REPORT_INIT \<equiv> 17"
abbreviation (input) PACKET_REPORT_INIT_ACK :: u8 where "PACKET_REPORT_INIT_ACK \<equiv> 18"
abbreviation (input) PACKET_REPORT_CHUNK :: u8 where "PACKET_REPORT_CHUNK \<equiv> 19"
abbreviation (input) PACKET_REPORT_CHUNK_ACK :: u8 where "PACKET_REPORT_CHUNK_ACK \<equiv> 20"
abbreviation (input) PACKET_REPORT_RECEIVED :: u8 where "PACKET_REPORT_RECEIVED \<equiv> 21"
abbreviation (input) PACKET_REPORT_RECEIVED_ACK :: u8 where "PACKET_REPORT_RECEIVED_ACK \<equiv> 22"
abbreviation (input) PACKET_CONFIG :: u8 where "PACKET_CONFIG \<equiv> 23"
abbreviation (input) PACKET_CONFIG_ACK :: u8 where "PACKET_CONFIG_ACK \<equiv> 24"
abbreviation (input) PACKET_CONFIG_RECEIVED :: u8 where "PACKET_CONFIG_RECEIVED \<equiv> 25"
abbreviation (input) PACKET_CONFIG_RECEIVED_ACK :: u8 where "PACKET_CONFIG_RECEIVED_ACK \<equiv> 26"
abbreviation (input) PACKET_LARGE_DATA_INIT :: u8 where "PACKET_LARGE_DATA_INIT \<equiv> 27"
abbreviation (input) PACKET_LARGE_DATA_INIT_ACK :: u8 where "PACKET_LARGE_DATA_INIT_ACK \<equiv> 28"
abbreviation (input) PACKET_LARGE_DATA_CHUNK :: u8 where "PACKET_LARGE_DATA_CHUNK \<equiv> 29"
abbreviation (input) PACKET_LARGE_DATA_CHUNK_ACK :: u8 where "PACKET_LARGE_DATA_CHUNK_ACK \<equiv> 30"
abbreviation (input) PACKET_LARGE_DATA_RECEIVED :: u8 where "PACKET_LARGE_DATA_RECEIVED \<equiv> 31"
abbreviation (input) PACKET_LARGE_DATA_RECEIVED_ACK :: u8 where "PACKET_LARGE_DATA_RECEIVED_ACK \<equiv> 32"
abbreviation (input) PACKET_OTA_INIT :: u8 where "PACKET_OTA_INIT \<equiv> 33"
abbreviation (input) PACKET_OTA_INIT_ACK :: u8 where "PACKET_OTA_INIT_ACK \<equiv> 34"
abbreviation (input) PACKET_OTA_CHUNK :: u8 where "PACKET_OTA_CHUNK \<equiv> 35"
abbreviation (input) PACKET_OTA_CHUNK_ACK :: u8 where "PACKET_OTA_CHUNK_ACK \<equiv> 36"
abbreviation (input) PACKET_OTA_RECEIVED :: u8 where "PACKET_OTA_RECEIVED \<equiv> 37"
abbreviation (input) PACKET_OTA_RECEIVED_ACK :: u8 where "PACKET_OTA_RECEIVED_ACK \<equiv> 38"

text \<open>Packet priorities and the status codes shared by every packet.\<close>
abbreviation (input) PACKET_PRIORITY_HIGH :: u8 where "PACKET_PRIORITY_HIGH \<equiv> 0"
abbreviation (input) PACKET_PRIORITY_MEDIUM :: u8 where "PACKET_PRIORITY_MEDIUM \<equiv> 1"
abbreviation (input) PACKET_PRIORITY_LOW :: u8 where "PACKET_PRIORITY_LOW \<equiv> 2"
abbreviation (input) STATUS_SUCCESS :: u8 where "STATUS_SUCCESS \<equiv> 0"
abbreviation (input) STATUS_FAILURE :: u8 where "STATUS_FAILURE \<equiv> 1"
abbreviation (input) STATUS_CRC_FAIL :: u8 where "STATUS_CRC_FAIL \<equiv> 2"
abbreviation (input) STATUS_TIMEOUT :: u8 where "STATUS_TIMEOUT \<equiv> 3"
abbreviation (input) STATUS_RESOURCE_UNAVAILABLE :: u8 where "STATUS_RESOURCE_UNAVAILABLE \<equiv> 4"
abbreviation (input) STATUS_INVALID_PARAMETER :: u8 where "STATUS_INVALID_PARAMETER \<equiv> 5"
abbreviation (input) STATUS_NOT_SUPPORTED :: u8 where "STATUS_NOT_SUPPORTED \<equiv> 6"
abbreviation (input) STATUS_REJECTED :: u8 where "STATUS_REJECTED \<equiv> 7"
abbreviation (input) STATUS_ALREADY_EXISTS :: u8 where "STATUS_ALREADY_EXISTS \<equiv> 8"
abbreviation (input) STATUS_NOT_FOUND :: u8 where "STATUS_NOT_FOUND \<equiv> 9"
abbreviation (input) STATUS_BUSY :: u8 where "STATUS_BUSY \<equiv> 10"
abbreviation (input) STATUS_VERSION_MISMATCH :: u8 where "STATUS_VERSION_MISMATCH \<equiv> 11"
abbreviation (input) STATUS_DEVICE_JOINED :: u8 where "STATUS_DEVICE_JOINED \<equiv> 12"
abbreviation (input) STATUS_STORAGE_FULL :: u8 where "STATUS_STORAGE_FULL \<equiv> 13"
abbreviation (input) STATUS_DEVICE_REMOVED :: u8 where "STATUS_DEVICE_REMOVED \<equiv> 14"
abbreviation (input) STATUS_AUTH_FAILED :: u8 where "STATUS_AUTH_FAILED \<equiv> 15"
abbreviation (input) STATUS_COMPLETE :: u8 where "STATUS_COMPLETE \<equiv> 16"
abbreviation (input) STATUS_NO_ROUTE :: u8 where "STATUS_NO_ROUTE \<equiv> 17"
abbreviation (input) STATUS_PING_DEVICE :: u8 where "STATUS_PING_DEVICE \<equiv> 18"
abbreviation (input) STATUS_VENDOR_SPECIFIC :: u8 where "STATUS_VENDOR_SPECIFIC \<equiv> 31"

section \<open>The common header and route entries\<close>

record packet_header =
  ph_packet_type :: u8
  ph_device_type :: u8
  ph_priority :: u8
  ph_tracking_id :: u8
  ph_device_id :: u16
  ph_status :: u8

definition enc_header :: "packet_header \<Rightarrow> bytes" where
  "enc_header h = by8 (ph_packet_type h) @ by8 (ph_device_type h) @ by8 (ph_priority h) @
     by8 (ph_tracking_id h) @ by16 (ph_device_id h) @ by8 (ph_status h)"

definition dec_header :: "bytes \<Rightarrow> packet_header" where
  "dec_header bs = \<lparr>ph_packet_type = rd_u8 0 bs, ph_device_type = rd_u8 1 bs,
     ph_priority = rd_u8 2 bs, ph_tracking_id = rd_u8 3 bs, ph_device_id = rd_u16 4 bs,
     ph_status = rd_u8 6 bs\<rparr>"

abbreviation (input) HEADER_SIZE :: nat where "HEADER_SIZE \<equiv> 7"

lemma length_enc_header [simp]: "length (enc_header h) = 7"
  by (simp add: enc_header_def)

lemma dec_enc_header [wire_simps]: "dec_header (enc_header h @ rest) = h"
  by (simp add: enc_header_def dec_header_def wire_simps)

lemma dec_enc_header_exact [wire_simps]: "dec_header (enc_header h) = h"
  using dec_enc_header[of h "[]"] by simp

lemma enc_header_priority: "2 < length bs \<Longrightarrow> ph_priority (dec_header bs) = bs ! 2"
  by (simp add: dec_header_def rd_defs take_Suc_conv_app_nth hd_drop_conv_nth Cons_nth_drop_Suc[symmetric])

record route_info_entry =
  ri_device_id :: u16
  ri_hop_num :: u8

definition enc_route_entry :: "route_info_entry \<Rightarrow> bytes" where
  "enc_route_entry e = by16 (ri_device_id e) @ by8 (ri_hop_num e)"

definition dec_route_entry :: "nat \<Rightarrow> bytes \<Rightarrow> route_info_entry" where
  "dec_route_entry off bs = \<lparr>ri_device_id = rd_u16 off bs, ri_hop_num = rd_u8 (off + 2) bs\<rparr>"

text \<open>An array \<open>route_info_entry_t route_info[MAX_DEPTH]\<close> inside a packet.\<close>

definition enc_route :: "route_info_entry list \<Rightarrow> bytes" where
  "enc_route r = concat (map enc_route_entry r)"

definition dec_route :: "nat \<Rightarrow> bytes \<Rightarrow> route_info_entry list" where
  "dec_route off bs = map (\<lambda>i. dec_route_entry (off + 3 * i) bs) [0..<MAX_DEPTH]"

text \<open>A zero-initialised route array.\<close>
definition zero_route :: "route_info_entry list" where
  "zero_route = replicate MAX_DEPTH \<lparr>ri_device_id = 0, ri_hop_num = 0\<rparr>"

lemma length_enc_route_entry [simp]: "length (enc_route_entry e) = 3"
  by (simp add: enc_route_entry_def)

lemma length_enc_route [simp]: "length (enc_route r) = 3 * length r"
  by (induction r) (simp_all add: enc_route_def)

lemma length_dec_route [simp]: "length (dec_route off bs) = 4"
  by (simp add: dec_route_def)

lemma length_zero_route [simp]: "length zero_route = 4"
  by (simp add: zero_route_def)

lemma dec_route_entry_shift [wire_simps]:
  "length a \<le> off \<Longrightarrow> dec_route_entry off (a @ b) = dec_route_entry (off - length a) b"
  by (simp add: dec_route_entry_def wire_simps del: add_2_eq_Suc')

lemma dec_enc_route_entry [wire_simps]: "dec_route_entry 0 (enc_route_entry e @ rest) = e"
  by (simp add: enc_route_entry_def dec_route_entry_def wire_simps del: add_2_eq_Suc')

lemma dec_route_shift [wire_simps]:
  "length a \<le> off \<Longrightarrow> dec_route off (a @ b) = dec_route (off - length a) b"
  by (simp add: dec_route_def wire_simps)

lemma dec_enc_route [wire_simps]: "length r = 4 \<Longrightarrow> dec_route 0 (enc_route r @ rest) = r"
proof -
  assume "length r = 4"
  then obtain a b c d where r: "r = [a, b, c, d]"
    by (auto simp: numeral_eq_Suc length_Suc_conv)
  have u: "[0..<4] = [0, 1, 2, 3 :: nat]" by (simp add: upt_rec)
  show ?thesis
    by (simp add: r u dec_route_def enc_route_def wire_simps)
qed

lemma dec_enc_route_exact [wire_simps]: "length r = 4 \<Longrightarrow> dec_route 0 (enc_route r) = r"
  using dec_enc_route[of r "[]"] by simp

section \<open>The packets\<close>

subsection \<open>\<open>pair_request_t\<close>\<close>

record pair_request =
  prq_hdr :: packet_header
  prq_random_num :: u32
  prq_hash :: u32

definition enc_pair_request :: "pair_request \<Rightarrow> bytes" where
  "enc_pair_request p =
     enc_header (prq_hdr p) @ by32 (prq_random_num p) @ by32 (prq_hash p)"

definition dec_pair_request :: "bytes \<Rightarrow> pair_request" where
  "dec_pair_request bs =
     \<lparr>prq_hdr = dec_header bs, prq_random_num = rd_u32 7 bs, prq_hash = rd_u32 11 bs\<rparr>"

lemma length_enc_pair_request [simp]: "length (enc_pair_request p) = 15"
  by (simp add: enc_pair_request_def)

lemma dec_enc_pair_request [wire_simps]:
  "dec_pair_request (enc_pair_request p @ rest) = p"
  by (simp add: enc_pair_request_def dec_pair_request_def wire_simps)

lemma header_enc_pair_request [wire_simps]:
  "dec_header (enc_pair_request p @ rest) = prq_hdr p"
  by (simp add: enc_pair_request_def wire_simps)

subsection \<open>\<open>pair_response_t\<close>\<close>

record pair_response =
  prs_hdr :: packet_header
  prs_hop_num :: u8

definition enc_pair_response :: "pair_response \<Rightarrow> bytes" where
  "enc_pair_response p =
     enc_header (prs_hdr p) @ by8 (prs_hop_num p)"

definition dec_pair_response :: "bytes \<Rightarrow> pair_response" where
  "dec_pair_response bs =
     \<lparr>prs_hdr = dec_header bs, prs_hop_num = rd_u8 7 bs\<rparr>"

lemma length_enc_pair_response [simp]: "length (enc_pair_response p) = 8"
  by (simp add: enc_pair_response_def)

lemma dec_enc_pair_response [wire_simps]:
  "dec_pair_response (enc_pair_response p @ rest) = p"
  by (simp add: enc_pair_response_def dec_pair_response_def wire_simps)

lemma header_enc_pair_response [wire_simps]:
  "dec_header (enc_pair_response p @ rest) = prs_hdr p"
  by (simp add: enc_pair_response_def wire_simps)

subsection \<open>\<open>pair_confirm_t\<close>\<close>

record pair_confirm =
  pcf_hdr :: packet_header
  pcf_version :: u16
  pcf_hop_num :: u8

definition enc_pair_confirm :: "pair_confirm \<Rightarrow> bytes" where
  "enc_pair_confirm p =
     enc_header (pcf_hdr p) @ by16 (pcf_version p) @ by8 (pcf_hop_num p)"

definition dec_pair_confirm :: "bytes \<Rightarrow> pair_confirm" where
  "dec_pair_confirm bs =
     \<lparr>pcf_hdr = dec_header bs, pcf_version = rd_u16 7 bs, pcf_hop_num = rd_u8 9 bs\<rparr>"

lemma length_enc_pair_confirm [simp]: "length (enc_pair_confirm p) = 10"
  by (simp add: enc_pair_confirm_def)

lemma dec_enc_pair_confirm [wire_simps]:
  "dec_pair_confirm (enc_pair_confirm p @ rest) = p"
  by (simp add: enc_pair_confirm_def dec_pair_confirm_def wire_simps)

lemma header_enc_pair_confirm [wire_simps]:
  "dec_header (enc_pair_confirm p @ rest) = pcf_hdr p"
  by (simp add: enc_pair_confirm_def wire_simps)

subsection \<open>\<open>pair_ack_t\<close>\<close>

record pair_ack =
  pak_hdr :: packet_header
  pak_version :: u16
  pak_hop_num :: u8

definition enc_pair_ack :: "pair_ack \<Rightarrow> bytes" where
  "enc_pair_ack p =
     enc_header (pak_hdr p) @ by16 (pak_version p) @ by8 (pak_hop_num p)"

definition dec_pair_ack :: "bytes \<Rightarrow> pair_ack" where
  "dec_pair_ack bs =
     \<lparr>pak_hdr = dec_header bs, pak_version = rd_u16 7 bs, pak_hop_num = rd_u8 9 bs\<rparr>"

lemma length_enc_pair_ack [simp]: "length (enc_pair_ack p) = 10"
  by (simp add: enc_pair_ack_def)

lemma dec_enc_pair_ack [wire_simps]:
  "dec_pair_ack (enc_pair_ack p @ rest) = p"
  by (simp add: enc_pair_ack_def dec_pair_ack_def wire_simps)

lemma header_enc_pair_ack [wire_simps]:
  "dec_header (enc_pair_ack p @ rest) = pak_hdr p"
  by (simp add: enc_pair_ack_def wire_simps)

subsection \<open>\<open>joined_network_t\<close>\<close>

record joined_network =
  jn_hdr :: packet_header
  jn_device_type :: u8
  jn_device_id :: u16
  jn_serial_num :: u64
  jn_version :: u16
  jn_connected_device_id :: u16
  jn_hop_num :: u8
  jn_sensor_count :: u8

definition enc_joined_network :: "joined_network \<Rightarrow> bytes" where
  "enc_joined_network p =
     enc_header (jn_hdr p) @ by8 (jn_device_type p) @ by16 (jn_device_id p) @
     by64 (jn_serial_num p) @ by16 (jn_version p) @ by16 (jn_connected_device_id p) @
     by8 (jn_hop_num p) @ by8 (jn_sensor_count p)"

definition dec_joined_network :: "bytes \<Rightarrow> joined_network" where
  "dec_joined_network bs =
     \<lparr>jn_hdr = dec_header bs, jn_device_type = rd_u8 7 bs, jn_device_id = rd_u16 8 bs,
      jn_serial_num = rd_u64 10 bs, jn_version = rd_u16 18 bs,
      jn_connected_device_id = rd_u16 20 bs, jn_hop_num = rd_u8 22 bs,
      jn_sensor_count = rd_u8 23 bs\<rparr>"

lemma length_enc_joined_network [simp]: "length (enc_joined_network p) = 24"
  by (simp add: enc_joined_network_def)

lemma dec_enc_joined_network [wire_simps]:
  "dec_joined_network (enc_joined_network p @ rest) = p"
  by (simp add: enc_joined_network_def dec_joined_network_def wire_simps)

lemma header_enc_joined_network [wire_simps]:
  "dec_header (enc_joined_network p @ rest) = jn_hdr p"
  by (simp add: enc_joined_network_def wire_simps)

subsection \<open>\<open>joined_network_ack_t\<close>\<close>

record joined_network_ack =
  jna_hdr :: packet_header
  jna_dst_device_id :: u16
  jna_dst_device_type :: u8

definition enc_joined_network_ack :: "joined_network_ack \<Rightarrow> bytes" where
  "enc_joined_network_ack p =
     enc_header (jna_hdr p) @ by16 (jna_dst_device_id p) @ by8 (jna_dst_device_type p)"

definition dec_joined_network_ack :: "bytes \<Rightarrow> joined_network_ack" where
  "dec_joined_network_ack bs =
     \<lparr>jna_hdr = dec_header bs, jna_dst_device_id = rd_u16 7 bs,
      jna_dst_device_type = rd_u8 9 bs\<rparr>"

lemma length_enc_joined_network_ack [simp]: "length (enc_joined_network_ack p) = 10"
  by (simp add: enc_joined_network_ack_def)

lemma dec_enc_joined_network_ack [wire_simps]:
  "dec_joined_network_ack (enc_joined_network_ack p @ rest) = p"
  by (simp add: enc_joined_network_ack_def dec_joined_network_ack_def wire_simps)

lemma header_enc_joined_network_ack [wire_simps]:
  "dec_header (enc_joined_network_ack p @ rest) = jna_hdr p"
  by (simp add: enc_joined_network_ack_def wire_simps)

subsection \<open>\<open>ping_device_t\<close>\<close>

record ping_device =
  pd_hdr :: packet_header
  pd_dst_device_id :: u16
  pd_hop_num :: u8
  pd_version :: u16
  pd_total_devices :: u16
  pd_timestamp :: u64

definition enc_ping_device :: "ping_device \<Rightarrow> bytes" where
  "enc_ping_device p =
     enc_header (pd_hdr p) @ by16 (pd_dst_device_id p) @ by8 (pd_hop_num p) @
     by16 (pd_version p) @ by16 (pd_total_devices p) @ by64 (pd_timestamp p)"

definition dec_ping_device :: "bytes \<Rightarrow> ping_device" where
  "dec_ping_device bs =
     \<lparr>pd_hdr = dec_header bs, pd_dst_device_id = rd_u16 7 bs, pd_hop_num = rd_u8 9 bs,
      pd_version = rd_u16 10 bs, pd_total_devices = rd_u16 12 bs,
      pd_timestamp = rd_u64 14 bs\<rparr>"

lemma length_enc_ping_device [simp]: "length (enc_ping_device p) = 22"
  by (simp add: enc_ping_device_def)

lemma dec_enc_ping_device [wire_simps]:
  "dec_ping_device (enc_ping_device p @ rest) = p"
  by (simp add: enc_ping_device_def dec_ping_device_def wire_simps)

lemma header_enc_ping_device [wire_simps]:
  "dec_header (enc_ping_device p @ rest) = pd_hdr p"
  by (simp add: enc_ping_device_def wire_simps)

subsection \<open>\<open>ping_ack_t\<close>\<close>

record ping_ack =
  pa_hdr :: packet_header
  pa_dst_device_id :: u16
  pa_hop_num :: u8
  pa_version :: u16
  pa_timestamp :: u64

definition enc_ping_ack :: "ping_ack \<Rightarrow> bytes" where
  "enc_ping_ack p =
     enc_header (pa_hdr p) @ by16 (pa_dst_device_id p) @ by8 (pa_hop_num p) @
     by16 (pa_version p) @ by64 (pa_timestamp p)"

definition dec_ping_ack :: "bytes \<Rightarrow> ping_ack" where
  "dec_ping_ack bs =
     \<lparr>pa_hdr = dec_header bs, pa_dst_device_id = rd_u16 7 bs, pa_hop_num = rd_u8 9 bs,
      pa_version = rd_u16 10 bs, pa_timestamp = rd_u64 12 bs\<rparr>"

lemma length_enc_ping_ack [simp]: "length (enc_ping_ack p) = 20"
  by (simp add: enc_ping_ack_def)

lemma dec_enc_ping_ack [wire_simps]:
  "dec_ping_ack (enc_ping_ack p @ rest) = p"
  by (simp add: enc_ping_ack_def dec_ping_ack_def wire_simps)

lemma header_enc_ping_ack [wire_simps]:
  "dec_header (enc_ping_ack p @ rest) = pa_hdr p"
  by (simp add: enc_ping_ack_def wire_simps)

subsection \<open>\<open>device_updated_t\<close>\<close>

record device_updated =
  du_hdr :: packet_header
  du_device_type :: u8
  du_device_id :: u16
  du_serial_num :: u64
  du_version :: u16
  du_connected_device_id :: u16
  du_hop_num :: u8
  du_sensor_count :: u8

definition enc_device_updated :: "device_updated \<Rightarrow> bytes" where
  "enc_device_updated p =
     enc_header (du_hdr p) @ by8 (du_device_type p) @ by16 (du_device_id p) @
     by64 (du_serial_num p) @ by16 (du_version p) @ by16 (du_connected_device_id p) @
     by8 (du_hop_num p) @ by8 (du_sensor_count p)"

definition dec_device_updated :: "bytes \<Rightarrow> device_updated" where
  "dec_device_updated bs =
     \<lparr>du_hdr = dec_header bs, du_device_type = rd_u8 7 bs, du_device_id = rd_u16 8 bs,
      du_serial_num = rd_u64 10 bs, du_version = rd_u16 18 bs,
      du_connected_device_id = rd_u16 20 bs, du_hop_num = rd_u8 22 bs,
      du_sensor_count = rd_u8 23 bs\<rparr>"

lemma length_enc_device_updated [simp]: "length (enc_device_updated p) = 24"
  by (simp add: enc_device_updated_def)

lemma dec_enc_device_updated [wire_simps]:
  "dec_device_updated (enc_device_updated p @ rest) = p"
  by (simp add: enc_device_updated_def dec_device_updated_def wire_simps)

lemma header_enc_device_updated [wire_simps]:
  "dec_header (enc_device_updated p @ rest) = du_hdr p"
  by (simp add: enc_device_updated_def wire_simps)

subsection \<open>\<open>device_updated_ack_t\<close>\<close>

record device_updated_ack =
  dua_hdr :: packet_header
  dua_dst_device_id :: u16
  dua_dst_device_type :: u8

definition enc_device_updated_ack :: "device_updated_ack \<Rightarrow> bytes" where
  "enc_device_updated_ack p =
     enc_header (dua_hdr p) @ by16 (dua_dst_device_id p) @ by8 (dua_dst_device_type p)"

definition dec_device_updated_ack :: "bytes \<Rightarrow> device_updated_ack" where
  "dec_device_updated_ack bs =
     \<lparr>dua_hdr = dec_header bs, dua_dst_device_id = rd_u16 7 bs,
      dua_dst_device_type = rd_u8 9 bs\<rparr>"

lemma length_enc_device_updated_ack [simp]: "length (enc_device_updated_ack p) = 10"
  by (simp add: enc_device_updated_ack_def)

lemma dec_enc_device_updated_ack [wire_simps]:
  "dec_device_updated_ack (enc_device_updated_ack p @ rest) = p"
  by (simp add: enc_device_updated_ack_def dec_device_updated_ack_def wire_simps)

lemma header_enc_device_updated_ack [wire_simps]:
  "dec_header (enc_device_updated_ack p @ rest) = dua_hdr p"
  by (simp add: enc_device_updated_ack_def wire_simps)

subsection \<open>\<open>repair_request_t\<close>\<close>

record repair_request =
  rrq_hdr :: packet_header
  rrq_random_num :: u32
  rrq_hash :: u32
  rrq_version :: u16
  rrq_hop_num :: u8

definition enc_repair_request :: "repair_request \<Rightarrow> bytes" where
  "enc_repair_request p =
     enc_header (rrq_hdr p) @ by32 (rrq_random_num p) @ by32 (rrq_hash p) @
     by16 (rrq_version p) @ by8 (rrq_hop_num p)"

definition dec_repair_request :: "bytes \<Rightarrow> repair_request" where
  "dec_repair_request bs =
     \<lparr>rrq_hdr = dec_header bs, rrq_random_num = rd_u32 7 bs, rrq_hash = rd_u32 11 bs,
      rrq_version = rd_u16 15 bs, rrq_hop_num = rd_u8 17 bs\<rparr>"

lemma length_enc_repair_request [simp]: "length (enc_repair_request p) = 18"
  by (simp add: enc_repair_request_def)

lemma dec_enc_repair_request [wire_simps]:
  "dec_repair_request (enc_repair_request p @ rest) = p"
  by (simp add: enc_repair_request_def dec_repair_request_def wire_simps)

lemma header_enc_repair_request [wire_simps]:
  "dec_header (enc_repair_request p @ rest) = rrq_hdr p"
  by (simp add: enc_repair_request_def wire_simps)

subsection \<open>\<open>repair_response_t\<close>\<close>

record repair_response =
  rrs_hdr :: packet_header
  rrs_version :: u16
  rrs_hop_num :: u8

definition enc_repair_response :: "repair_response \<Rightarrow> bytes" where
  "enc_repair_response p =
     enc_header (rrs_hdr p) @ by16 (rrs_version p) @ by8 (rrs_hop_num p)"

definition dec_repair_response :: "bytes \<Rightarrow> repair_response" where
  "dec_repair_response bs =
     \<lparr>rrs_hdr = dec_header bs, rrs_version = rd_u16 7 bs, rrs_hop_num = rd_u8 9 bs\<rparr>"

lemma length_enc_repair_response [simp]: "length (enc_repair_response p) = 10"
  by (simp add: enc_repair_response_def)

lemma dec_enc_repair_response [wire_simps]:
  "dec_repair_response (enc_repair_response p @ rest) = p"
  by (simp add: enc_repair_response_def dec_repair_response_def wire_simps)

lemma header_enc_repair_response [wire_simps]:
  "dec_header (enc_repair_response p @ rest) = rrs_hdr p"
  by (simp add: enc_repair_response_def wire_simps)

subsection \<open>\<open>route_discovery_t\<close>\<close>

record route_discovery =
  rdc_hdr :: packet_header
  rdc_device_id :: u16
  rdc_device_type :: u8
  rdc_hop_num :: u8
  rdc_data_type :: u8
  rdc_data_id :: u16

definition enc_route_discovery :: "route_discovery \<Rightarrow> bytes" where
  "enc_route_discovery p =
     enc_header (rdc_hdr p) @ by16 (rdc_device_id p) @ by8 (rdc_device_type p) @
     by8 (rdc_hop_num p) @ by8 (rdc_data_type p) @ by16 (rdc_data_id p)"

definition dec_route_discovery :: "bytes \<Rightarrow> route_discovery" where
  "dec_route_discovery bs =
     \<lparr>rdc_hdr = dec_header bs, rdc_device_id = rd_u16 7 bs, rdc_device_type = rd_u8 9 bs,
      rdc_hop_num = rd_u8 10 bs, rdc_data_type = rd_u8 11 bs, rdc_data_id = rd_u16 12 bs\<rparr>"

lemma length_enc_route_discovery [simp]: "length (enc_route_discovery p) = 14"
  by (simp add: enc_route_discovery_def)

lemma dec_enc_route_discovery [wire_simps]:
  "dec_route_discovery (enc_route_discovery p @ rest) = p"
  by (simp add: enc_route_discovery_def dec_route_discovery_def wire_simps)

lemma header_enc_route_discovery [wire_simps]:
  "dec_header (enc_route_discovery p @ rest) = rdc_hdr p"
  by (simp add: enc_route_discovery_def wire_simps)

subsection \<open>\<open>route_discovery_ack_t\<close>\<close>

record route_discovery_ack =
  rda_hdr :: packet_header
  rda_device_id :: u16
  rda_device_type :: u8
  rda_hop_num :: u8

definition enc_route_discovery_ack :: "route_discovery_ack \<Rightarrow> bytes" where
  "enc_route_discovery_ack p =
     enc_header (rda_hdr p) @ by16 (rda_device_id p) @ by8 (rda_device_type p) @
     by8 (rda_hop_num p)"

definition dec_route_discovery_ack :: "bytes \<Rightarrow> route_discovery_ack" where
  "dec_route_discovery_ack bs =
     \<lparr>rda_hdr = dec_header bs, rda_device_id = rd_u16 7 bs, rda_device_type = rd_u8 9 bs,
      rda_hop_num = rd_u8 10 bs\<rparr>"

lemma length_enc_route_discovery_ack [simp]: "length (enc_route_discovery_ack p) = 11"
  by (simp add: enc_route_discovery_ack_def)

lemma dec_enc_route_discovery_ack [wire_simps]:
  "dec_route_discovery_ack (enc_route_discovery_ack p @ rest) = p"
  by (simp add: enc_route_discovery_ack_def dec_route_discovery_ack_def wire_simps)

lemma header_enc_route_discovery_ack [wire_simps]:
  "dec_header (enc_route_discovery_ack p @ rest) = rda_hdr p"
  by (simp add: enc_route_discovery_ack_def wire_simps)

subsection \<open>\<open>route_info_t\<close>\<close>

record route_info =
  rti_hdr :: packet_header
  rti_device_id :: u16
  rti_device_type :: u8
  rti_data_type :: u8
  rti_data_id :: u16
  rti_route_info :: "route_info_entry list"

definition enc_route_info :: "route_info \<Rightarrow> bytes" where
  "enc_route_info p =
     enc_header (rti_hdr p) @ by16 (rti_device_id p) @ by8 (rti_device_type p) @
     by8 (rti_data_type p) @ by16 (rti_data_id p) @ enc_route (rti_route_info p)"

definition dec_route_info :: "bytes \<Rightarrow> route_info" where
  "dec_route_info bs =
     \<lparr>rti_hdr = dec_header bs, rti_device_id = rd_u16 7 bs, rti_device_type = rd_u8 9 bs,
      rti_data_type = rd_u8 10 bs, rti_data_id = rd_u16 11 bs,
      rti_route_info = dec_route 13 bs\<rparr>"

lemma length_enc_route_info [simp]: "length (rti_route_info p) = MAX_DEPTH \<Longrightarrow> length (enc_route_info p) = 25"
  by (simp add: enc_route_info_def)

lemma dec_enc_route_info [wire_simps]:
  "length (rti_route_info p) = MAX_DEPTH \<Longrightarrow> dec_route_info (enc_route_info p @ rest) = p"
  by (simp add: enc_route_info_def dec_route_info_def wire_simps)

lemma header_enc_route_info [wire_simps]:
  "dec_header (enc_route_info p @ rest) = rti_hdr p"
  by (simp add: enc_route_info_def wire_simps)

subsection \<open>\<open>route_info_ack_t\<close>\<close>

record route_info_ack =
  ria_hdr :: packet_header
  ria_device_id :: u16
  ria_device_type :: u8
  ria_data_type :: u8
  ria_data_id :: u16

definition enc_route_info_ack :: "route_info_ack \<Rightarrow> bytes" where
  "enc_route_info_ack p =
     enc_header (ria_hdr p) @ by16 (ria_device_id p) @ by8 (ria_device_type p) @
     by8 (ria_data_type p) @ by16 (ria_data_id p)"

definition dec_route_info_ack :: "bytes \<Rightarrow> route_info_ack" where
  "dec_route_info_ack bs =
     \<lparr>ria_hdr = dec_header bs, ria_device_id = rd_u16 7 bs, ria_device_type = rd_u8 9 bs,
      ria_data_type = rd_u8 10 bs, ria_data_id = rd_u16 11 bs\<rparr>"

lemma length_enc_route_info_ack [simp]: "length (enc_route_info_ack p) = 13"
  by (simp add: enc_route_info_ack_def)

lemma dec_enc_route_info_ack [wire_simps]:
  "dec_route_info_ack (enc_route_info_ack p @ rest) = p"
  by (simp add: enc_route_info_ack_def dec_route_info_ack_def wire_simps)

lemma header_enc_route_info_ack [wire_simps]:
  "dec_header (enc_route_info_ack p @ rest) = ria_hdr p"
  by (simp add: enc_route_info_ack_def wire_simps)

subsection \<open>\<open>report_init_t\<close>\<close>

record report_init =
  rpi_hdr :: packet_header
  rpi_gen_device_id :: u16
  rpi_data_id :: u8
  rpi_report_time_ms :: u64
  rpi_total_size :: u16
  rpi_chunk_count :: u8
  rpi_last_chunk_size :: u8
  rpi_crc32 :: u32

definition enc_report_init :: "report_init \<Rightarrow> bytes" where
  "enc_report_init p =
     enc_header (rpi_hdr p) @ by16 (rpi_gen_device_id p) @ by8 (rpi_data_id p) @
     by64 (rpi_report_time_ms p) @ by16 (rpi_total_size p) @ by8 (rpi_chunk_count p) @
     by8 (rpi_last_chunk_size p) @ by32 (rpi_crc32 p)"

definition dec_report_init :: "bytes \<Rightarrow> report_init" where
  "dec_report_init bs =
     \<lparr>rpi_hdr = dec_header bs, rpi_gen_device_id = rd_u16 7 bs, rpi_data_id = rd_u8 9 bs,
      rpi_report_time_ms = rd_u64 10 bs, rpi_total_size = rd_u16 18 bs,
      rpi_chunk_count = rd_u8 20 bs, rpi_last_chunk_size = rd_u8 21 bs,
      rpi_crc32 = rd_u32 22 bs\<rparr>"

lemma length_enc_report_init [simp]: "length (enc_report_init p) = 26"
  by (simp add: enc_report_init_def)

lemma dec_enc_report_init [wire_simps]:
  "dec_report_init (enc_report_init p @ rest) = p"
  by (simp add: enc_report_init_def dec_report_init_def wire_simps)

lemma header_enc_report_init [wire_simps]:
  "dec_header (enc_report_init p @ rest) = rpi_hdr p"
  by (simp add: enc_report_init_def wire_simps)

subsection \<open>\<open>report_init_ack_t\<close>\<close>

record report_init_ack =
  rpia_hdr :: packet_header
  rpia_gen_device_id :: u16
  rpia_data_id :: u8

definition enc_report_init_ack :: "report_init_ack \<Rightarrow> bytes" where
  "enc_report_init_ack p =
     enc_header (rpia_hdr p) @ by16 (rpia_gen_device_id p) @ by8 (rpia_data_id p)"

definition dec_report_init_ack :: "bytes \<Rightarrow> report_init_ack" where
  "dec_report_init_ack bs =
     \<lparr>rpia_hdr = dec_header bs, rpia_gen_device_id = rd_u16 7 bs, rpia_data_id = rd_u8 9 bs\<rparr>"

lemma length_enc_report_init_ack [simp]: "length (enc_report_init_ack p) = 10"
  by (simp add: enc_report_init_ack_def)

lemma dec_enc_report_init_ack [wire_simps]:
  "dec_report_init_ack (enc_report_init_ack p @ rest) = p"
  by (simp add: enc_report_init_ack_def dec_report_init_ack_def wire_simps)

lemma header_enc_report_init_ack [wire_simps]:
  "dec_header (enc_report_init_ack p @ rest) = rpia_hdr p"
  by (simp add: enc_report_init_ack_def wire_simps)

subsection \<open>\<open>report_chunk_t\<close>\<close>

record report_chunk =
  rpc_hdr :: packet_header
  rpc_gen_device_id :: u16
  rpc_data_id :: u8
  rpc_chunk_index :: u8
  rpc_data :: bytes

definition enc_report_chunk :: "report_chunk \<Rightarrow> bytes" where
  "enc_report_chunk p =
     enc_header (rpc_hdr p) @ by16 (rpc_gen_device_id p) @ by8 (rpc_data_id p) @
     by8 (rpc_chunk_index p) @ rpc_data p"

definition dec_report_chunk :: "bytes \<Rightarrow> report_chunk" where
  "dec_report_chunk bs =
     \<lparr>rpc_hdr = dec_header bs, rpc_gen_device_id = rd_u16 7 bs, rpc_data_id = rd_u8 9 bs,
      rpc_chunk_index = rd_u8 10 bs, rpc_data = rd_bytes 11 180 bs\<rparr>"

lemma length_enc_report_chunk [simp]: "length (rpc_data p) = 180 \<Longrightarrow> length (enc_report_chunk p) = 191"
  by (simp add: enc_report_chunk_def)

lemma dec_enc_report_chunk [wire_simps]:
  "length (rpc_data p) = 180 \<Longrightarrow> dec_report_chunk (enc_report_chunk p @ rest) = p"
  by (simp add: enc_report_chunk_def dec_report_chunk_def wire_simps)

lemma header_enc_report_chunk [wire_simps]:
  "dec_header (enc_report_chunk p @ rest) = rpc_hdr p"
  by (simp add: enc_report_chunk_def wire_simps)

subsection \<open>\<open>report_chunk_ack_t\<close>\<close>

record report_chunk_ack =
  rpca_hdr :: packet_header
  rpca_gen_device_id :: u16
  rpca_data_id :: u8
  rpca_chunk_index :: u8

definition enc_report_chunk_ack :: "report_chunk_ack \<Rightarrow> bytes" where
  "enc_report_chunk_ack p =
     enc_header (rpca_hdr p) @ by16 (rpca_gen_device_id p) @ by8 (rpca_data_id p) @
     by8 (rpca_chunk_index p)"

definition dec_report_chunk_ack :: "bytes \<Rightarrow> report_chunk_ack" where
  "dec_report_chunk_ack bs =
     \<lparr>rpca_hdr = dec_header bs, rpca_gen_device_id = rd_u16 7 bs,
      rpca_data_id = rd_u8 9 bs, rpca_chunk_index = rd_u8 10 bs\<rparr>"

lemma length_enc_report_chunk_ack [simp]: "length (enc_report_chunk_ack p) = 11"
  by (simp add: enc_report_chunk_ack_def)

lemma dec_enc_report_chunk_ack [wire_simps]:
  "dec_report_chunk_ack (enc_report_chunk_ack p @ rest) = p"
  by (simp add: enc_report_chunk_ack_def dec_report_chunk_ack_def wire_simps)

lemma header_enc_report_chunk_ack [wire_simps]:
  "dec_header (enc_report_chunk_ack p @ rest) = rpca_hdr p"
  by (simp add: enc_report_chunk_ack_def wire_simps)

subsection \<open>\<open>report_received_t\<close>\<close>

record report_received =
  rpr_hdr :: packet_header
  rpr_gen_device_id :: u16
  rpr_data_id :: u8
  rpr_route_info :: "route_info_entry list"

definition enc_report_received :: "report_received \<Rightarrow> bytes" where
  "enc_report_received p =
     enc_header (rpr_hdr p) @ by16 (rpr_gen_device_id p) @ by8 (rpr_data_id p) @
     enc_route (rpr_route_info p)"

definition dec_report_received :: "bytes \<Rightarrow> report_received" where
  "dec_report_received bs =
     \<lparr>rpr_hdr = dec_header bs, rpr_gen_device_id = rd_u16 7 bs, rpr_data_id = rd_u8 9 bs,
      rpr_route_info = dec_route 10 bs\<rparr>"

lemma length_enc_report_received [simp]: "length (rpr_route_info p) = MAX_DEPTH \<Longrightarrow> length (enc_report_received p) = 22"
  by (simp add: enc_report_received_def)

lemma dec_enc_report_received [wire_simps]:
  "length (rpr_route_info p) = MAX_DEPTH \<Longrightarrow> dec_report_received (enc_report_received p @ rest) = p"
  by (simp add: enc_report_received_def dec_report_received_def wire_simps)

lemma header_enc_report_received [wire_simps]:
  "dec_header (enc_report_received p @ rest) = rpr_hdr p"
  by (simp add: enc_report_received_def wire_simps)

subsection \<open>\<open>report_received_ack_t\<close>\<close>

record report_received_ack =
  rpra_hdr :: packet_header
  rpra_gen_device_id :: u16
  rpra_data_id :: u8

definition enc_report_received_ack :: "report_received_ack \<Rightarrow> bytes" where
  "enc_report_received_ack p =
     enc_header (rpra_hdr p) @ by16 (rpra_gen_device_id p) @ by8 (rpra_data_id p)"

definition dec_report_received_ack :: "bytes \<Rightarrow> report_received_ack" where
  "dec_report_received_ack bs =
     \<lparr>rpra_hdr = dec_header bs, rpra_gen_device_id = rd_u16 7 bs, rpra_data_id = rd_u8 9 bs\<rparr>"

lemma length_enc_report_received_ack [simp]: "length (enc_report_received_ack p) = 10"
  by (simp add: enc_report_received_ack_def)

lemma dec_enc_report_received_ack [wire_simps]:
  "dec_report_received_ack (enc_report_received_ack p @ rest) = p"
  by (simp add: enc_report_received_ack_def dec_report_received_ack_def wire_simps)

lemma header_enc_report_received_ack [wire_simps]:
  "dec_header (enc_report_received_ack p @ rest) = rpra_hdr p"
  by (simp add: enc_report_received_ack_def wire_simps)

subsection \<open>\<open>large_data_init_t\<close>\<close>

record large_data_init =
  ldi_hdr :: packet_header
  ldi_gen_device_id :: u16
  ldi_data_id :: u8
  ldi_report_time_ms :: u64
  ldi_total_size :: u32
  ldi_page_count :: u8
  ldi_last_chunk_size :: u16
  ldi_crc32 :: u32

definition enc_large_data_init :: "large_data_init \<Rightarrow> bytes" where
  "enc_large_data_init p =
     enc_header (ldi_hdr p) @ by16 (ldi_gen_device_id p) @ by8 (ldi_data_id p) @
     by64 (ldi_report_time_ms p) @ by32 (ldi_total_size p) @ by8 (ldi_page_count p) @
     by16 (ldi_last_chunk_size p) @ by32 (ldi_crc32 p)"

definition dec_large_data_init :: "bytes \<Rightarrow> large_data_init" where
  "dec_large_data_init bs =
     \<lparr>ldi_hdr = dec_header bs, ldi_gen_device_id = rd_u16 7 bs, ldi_data_id = rd_u8 9 bs,
      ldi_report_time_ms = rd_u64 10 bs, ldi_total_size = rd_u32 18 bs,
      ldi_page_count = rd_u8 22 bs, ldi_last_chunk_size = rd_u16 23 bs,
      ldi_crc32 = rd_u32 25 bs\<rparr>"

lemma length_enc_large_data_init [simp]: "length (enc_large_data_init p) = 29"
  by (simp add: enc_large_data_init_def)

lemma dec_enc_large_data_init [wire_simps]:
  "dec_large_data_init (enc_large_data_init p @ rest) = p"
  by (simp add: enc_large_data_init_def dec_large_data_init_def wire_simps)

lemma header_enc_large_data_init [wire_simps]:
  "dec_header (enc_large_data_init p @ rest) = ldi_hdr p"
  by (simp add: enc_large_data_init_def wire_simps)

subsection \<open>\<open>large_data_init_ack_t\<close>\<close>

record large_data_init_ack =
  ldia_hdr :: packet_header
  ldia_gen_device_id :: u16
  ldia_data_id :: u8

definition enc_large_data_init_ack :: "large_data_init_ack \<Rightarrow> bytes" where
  "enc_large_data_init_ack p =
     enc_header (ldia_hdr p) @ by16 (ldia_gen_device_id p) @ by8 (ldia_data_id p)"

definition dec_large_data_init_ack :: "bytes \<Rightarrow> large_data_init_ack" where
  "dec_large_data_init_ack bs =
     \<lparr>ldia_hdr = dec_header bs, ldia_gen_device_id = rd_u16 7 bs, ldia_data_id = rd_u8 9 bs\<rparr>"

lemma length_enc_large_data_init_ack [simp]: "length (enc_large_data_init_ack p) = 10"
  by (simp add: enc_large_data_init_ack_def)

lemma dec_enc_large_data_init_ack [wire_simps]:
  "dec_large_data_init_ack (enc_large_data_init_ack p @ rest) = p"
  by (simp add: enc_large_data_init_ack_def dec_large_data_init_ack_def wire_simps)

lemma header_enc_large_data_init_ack [wire_simps]:
  "dec_header (enc_large_data_init_ack p @ rest) = ldia_hdr p"
  by (simp add: enc_large_data_init_ack_def wire_simps)

subsection \<open>\<open>large_data_chunk_t\<close>\<close>

record large_data_chunk =
  ldc_hdr :: packet_header
  ldc_gen_device_id :: u16
  ldc_data_id :: u8
  ldc_page_index :: u8
  ldc_chunk_index :: u8
  ldc_data :: bytes

definition enc_large_data_chunk :: "large_data_chunk \<Rightarrow> bytes" where
  "enc_large_data_chunk p =
     enc_header (ldc_hdr p) @ by16 (ldc_gen_device_id p) @ by8 (ldc_data_id p) @
     by8 (ldc_page_index p) @ by8 (ldc_chunk_index p) @ ldc_data p"

definition dec_large_data_chunk :: "bytes \<Rightarrow> large_data_chunk" where
  "dec_large_data_chunk bs =
     \<lparr>ldc_hdr = dec_header bs, ldc_gen_device_id = rd_u16 7 bs, ldc_data_id = rd_u8 9 bs,
      ldc_page_index = rd_u8 10 bs, ldc_chunk_index = rd_u8 11 bs,
      ldc_data = rd_bytes 12 180 bs\<rparr>"

lemma length_enc_large_data_chunk [simp]: "length (ldc_data p) = 180 \<Longrightarrow> length (enc_large_data_chunk p) = 192"
  by (simp add: enc_large_data_chunk_def)

lemma dec_enc_large_data_chunk [wire_simps]:
  "length (ldc_data p) = 180 \<Longrightarrow> dec_large_data_chunk (enc_large_data_chunk p @ rest) = p"
  by (simp add: enc_large_data_chunk_def dec_large_data_chunk_def wire_simps)

lemma header_enc_large_data_chunk [wire_simps]:
  "dec_header (enc_large_data_chunk p @ rest) = ldc_hdr p"
  by (simp add: enc_large_data_chunk_def wire_simps)

subsection \<open>\<open>large_data_chunk_ack_t\<close>\<close>

record large_data_chunk_ack =
  ldca_hdr :: packet_header
  ldca_gen_device_id :: u16
  ldca_data_id :: u8
  ldca_page_index :: u8
  ldca_chunk_index :: u8

definition enc_large_data_chunk_ack :: "large_data_chunk_ack \<Rightarrow> bytes" where
  "enc_large_data_chunk_ack p =
     enc_header (ldca_hdr p) @ by16 (ldca_gen_device_id p) @ by8 (ldca_data_id p) @
     by8 (ldca_page_index p) @ by8 (ldca_chunk_index p)"

definition dec_large_data_chunk_ack :: "bytes \<Rightarrow> large_data_chunk_ack" where
  "dec_large_data_chunk_ack bs =
     \<lparr>ldca_hdr = dec_header bs, ldca_gen_device_id = rd_u16 7 bs,
      ldca_data_id = rd_u8 9 bs, ldca_page_index = rd_u8 10 bs,
      ldca_chunk_index = rd_u8 11 bs\<rparr>"

lemma length_enc_large_data_chunk_ack [simp]: "length (enc_large_data_chunk_ack p) = 12"
  by (simp add: enc_large_data_chunk_ack_def)

lemma dec_enc_large_data_chunk_ack [wire_simps]:
  "dec_large_data_chunk_ack (enc_large_data_chunk_ack p @ rest) = p"
  by (simp add: enc_large_data_chunk_ack_def dec_large_data_chunk_ack_def wire_simps)

lemma header_enc_large_data_chunk_ack [wire_simps]:
  "dec_header (enc_large_data_chunk_ack p @ rest) = ldca_hdr p"
  by (simp add: enc_large_data_chunk_ack_def wire_simps)

subsection \<open>\<open>large_data_received_t\<close>\<close>

record large_data_received =
  ldr_hdr :: packet_header
  ldr_gen_device_id :: u16
  ldr_data_id :: u8

definition enc_large_data_received :: "large_data_received \<Rightarrow> bytes" where
  "enc_large_data_received p =
     enc_header (ldr_hdr p) @ by16 (ldr_gen_device_id p) @ by8 (ldr_data_id p)"

definition dec_large_data_received :: "bytes \<Rightarrow> large_data_received" where
  "dec_large_data_received bs =
     \<lparr>ldr_hdr = dec_header bs, ldr_gen_device_id = rd_u16 7 bs, ldr_data_id = rd_u8 9 bs\<rparr>"

lemma length_enc_large_data_received [simp]: "length (enc_large_data_received p) = 10"
  by (simp add: enc_large_data_received_def)

lemma dec_enc_large_data_received [wire_simps]:
  "dec_large_data_received (enc_large_data_received p @ rest) = p"
  by (simp add: enc_large_data_received_def dec_large_data_received_def wire_simps)

lemma header_enc_large_data_received [wire_simps]:
  "dec_header (enc_large_data_received p @ rest) = ldr_hdr p"
  by (simp add: enc_large_data_received_def wire_simps)

subsection \<open>\<open>large_data_received_ack_t\<close>\<close>

record large_data_received_ack =
  ldra_hdr :: packet_header
  ldra_gen_device_id :: u16
  ldra_data_id :: u8

definition enc_large_data_received_ack :: "large_data_received_ack \<Rightarrow> bytes" where
  "enc_large_data_received_ack p =
     enc_header (ldra_hdr p) @ by16 (ldra_gen_device_id p) @ by8 (ldra_data_id p)"

definition dec_large_data_received_ack :: "bytes \<Rightarrow> large_data_received_ack" where
  "dec_large_data_received_ack bs =
     \<lparr>ldra_hdr = dec_header bs, ldra_gen_device_id = rd_u16 7 bs, ldra_data_id = rd_u8 9 bs\<rparr>"

lemma length_enc_large_data_received_ack [simp]: "length (enc_large_data_received_ack p) = 10"
  by (simp add: enc_large_data_received_ack_def)

lemma dec_enc_large_data_received_ack [wire_simps]:
  "dec_large_data_received_ack (enc_large_data_received_ack p @ rest) = p"
  by (simp add: enc_large_data_received_ack_def dec_large_data_received_ack_def wire_simps)

lemma header_enc_large_data_received_ack [wire_simps]:
  "dec_header (enc_large_data_received_ack p @ rest) = ldra_hdr p"
  by (simp add: enc_large_data_received_ack_def wire_simps)

subsection \<open>\<open>config_t\<close>\<close>

record config_t =
  cfg_hdr :: packet_header
  cfg_dst_device_id :: u16
  cfg_dst_device_type :: u8
  cfg_data_type :: u8
  cfg_data_id :: u16
  cfg_route_info :: "route_info_entry list"
  cfg_config_len :: u8
  cfg_config_crc32 :: u32
  cfg_config :: bytes

definition enc_config_t :: "config_t \<Rightarrow> bytes" where
  "enc_config_t p =
     enc_header (cfg_hdr p) @ by16 (cfg_dst_device_id p) @ by8 (cfg_dst_device_type p) @
     by8 (cfg_data_type p) @ by16 (cfg_data_id p) @ enc_route (cfg_route_info p) @
     by8 (cfg_config_len p) @ by32 (cfg_config_crc32 p) @ cfg_config p"

definition dec_config_t :: "bytes \<Rightarrow> config_t" where
  "dec_config_t bs =
     \<lparr>cfg_hdr = dec_header bs, cfg_dst_device_id = rd_u16 7 bs,
      cfg_dst_device_type = rd_u8 9 bs, cfg_data_type = rd_u8 10 bs,
      cfg_data_id = rd_u16 11 bs, cfg_route_info = dec_route 13 bs,
      cfg_config_len = rd_u8 25 bs, cfg_config_crc32 = rd_u32 26 bs,
      cfg_config = rd_bytes 30 128 bs\<rparr>"

lemma length_enc_config_t [simp]: "length (cfg_route_info p) = MAX_DEPTH \<Longrightarrow> length (cfg_config p) = 128 \<Longrightarrow> length (enc_config_t p) = 158"
  by (simp add: enc_config_t_def)

lemma dec_enc_config_t [wire_simps]:
  "length (cfg_route_info p) = MAX_DEPTH \<Longrightarrow> length (cfg_config p) = 128 \<Longrightarrow> dec_config_t (enc_config_t p @ rest) = p"
  by (simp add: enc_config_t_def dec_config_t_def wire_simps)

lemma header_enc_config_t [wire_simps]:
  "dec_header (enc_config_t p @ rest) = cfg_hdr p"
  by (simp add: enc_config_t_def wire_simps)

subsection \<open>\<open>config_ack_t\<close>\<close>

record config_ack =
  cfa_hdr :: packet_header
  cfa_dst_device_id :: u16
  cfa_dst_device_type :: u8
  cfa_data_type :: u8
  cfa_data_id :: u16

definition enc_config_ack :: "config_ack \<Rightarrow> bytes" where
  "enc_config_ack p =
     enc_header (cfa_hdr p) @ by16 (cfa_dst_device_id p) @ by8 (cfa_dst_device_type p) @
     by8 (cfa_data_type p) @ by16 (cfa_data_id p)"

definition dec_config_ack :: "bytes \<Rightarrow> config_ack" where
  "dec_config_ack bs =
     \<lparr>cfa_hdr = dec_header bs, cfa_dst_device_id = rd_u16 7 bs,
      cfa_dst_device_type = rd_u8 9 bs, cfa_data_type = rd_u8 10 bs,
      cfa_data_id = rd_u16 11 bs\<rparr>"

lemma length_enc_config_ack [simp]: "length (enc_config_ack p) = 13"
  by (simp add: enc_config_ack_def)

lemma dec_enc_config_ack [wire_simps]:
  "dec_config_ack (enc_config_ack p @ rest) = p"
  by (simp add: enc_config_ack_def dec_config_ack_def wire_simps)

lemma header_enc_config_ack [wire_simps]:
  "dec_header (enc_config_ack p @ rest) = cfa_hdr p"
  by (simp add: enc_config_ack_def wire_simps)

subsection \<open>\<open>config_received_t\<close>\<close>

record config_received =
  cfr_hdr :: packet_header
  cfr_dst_device_id :: u16
  cfr_dst_device_type :: u8
  cfr_data_type :: u8
  cfr_data_id :: u16

definition enc_config_received :: "config_received \<Rightarrow> bytes" where
  "enc_config_received p =
     enc_header (cfr_hdr p) @ by16 (cfr_dst_device_id p) @ by8 (cfr_dst_device_type p) @
     by8 (cfr_data_type p) @ by16 (cfr_data_id p)"

definition dec_config_received :: "bytes \<Rightarrow> config_received" where
  "dec_config_received bs =
     \<lparr>cfr_hdr = dec_header bs, cfr_dst_device_id = rd_u16 7 bs,
      cfr_dst_device_type = rd_u8 9 bs, cfr_data_type = rd_u8 10 bs,
      cfr_data_id = rd_u16 11 bs\<rparr>"

lemma length_enc_config_received [simp]: "length (enc_config_received p) = 13"
  by (simp add: enc_config_received_def)

lemma dec_enc_config_received [wire_simps]:
  "dec_config_received (enc_config_received p @ rest) = p"
  by (simp add: enc_config_received_def dec_config_received_def wire_simps)

lemma header_enc_config_received [wire_simps]:
  "dec_header (enc_config_received p @ rest) = cfr_hdr p"
  by (simp add: enc_config_received_def wire_simps)

subsection \<open>\<open>config_received_ack_t\<close>\<close>

record config_received_ack =
  cfra_hdr :: packet_header
  cfra_dst_device_id :: u16
  cfra_dst_device_type :: u8
  cfra_data_type :: u8
  cfra_data_id :: u16

definition enc_config_received_ack :: "config_received_ack \<Rightarrow> bytes" where
  "enc_config_received_ack p =
     enc_header (cfra_hdr p) @ by16 (cfra_dst_device_id p) @
     by8 (cfra_dst_device_type p) @ by8 (cfra_data_type p) @ by16 (cfra_data_id p)"

definition dec_config_received_ack :: "bytes \<Rightarrow> config_received_ack" where
  "dec_config_received_ack bs =
     \<lparr>cfra_hdr = dec_header bs, cfra_dst_device_id = rd_u16 7 bs,
      cfra_dst_device_type = rd_u8 9 bs, cfra_data_type = rd_u8 10 bs,
      cfra_data_id = rd_u16 11 bs\<rparr>"

lemma length_enc_config_received_ack [simp]: "length (enc_config_received_ack p) = 13"
  by (simp add: enc_config_received_ack_def)

lemma dec_enc_config_received_ack [wire_simps]:
  "dec_config_received_ack (enc_config_received_ack p @ rest) = p"
  by (simp add: enc_config_received_ack_def dec_config_received_ack_def wire_simps)

lemma header_enc_config_received_ack [wire_simps]:
  "dec_header (enc_config_received_ack p @ rest) = cfra_hdr p"
  by (simp add: enc_config_received_ack_def wire_simps)


end
