(* ===== verification/Platform.thy ===== *)
theory Platform
  imports Protocol
begin

text \<open>
  What the firmware calls and src/ does not contain (Zephyr's message queues, EEPROM and SPI
  drivers, its CRC and random-number functions) as one record of parameters. The parameters are
  arguments of every operation that uses them; the predicates below name the documented
  behaviour that some properties rely on, and \<open>ref_platform\<close> satisfies all of them.

  The external chips are byte memories. A driver call gets the chip's contents and returns its
  errno result with the new contents, so failures may depend on everything the chip holds
  (addresses past the chip's size are free to carry hidden state).
\<close>

section \<open>Queue items (src/queue.h)\<close>

abbreviation (input) QUEUE_DATA_MAX :: nat where "QUEUE_DATA_MAX \<equiv> 200"
abbreviation (input) QUEUE_DEPTH :: nat where "QUEUE_DEPTH \<equiv> 50"

text \<open>The \<open>data\<close> field is the whole array of \<open>QUEUE_DATA_MAX\<close> bytes.\<close>

record rx_data_item =
  rx_sender_id :: u16
  rx_rssi_2 :: s16
  rx_data_len :: u16
  rx_data :: bytes

record tx_data_item =
  tx_data_len :: u16
  tx_data :: bytes

section \<open>The parameters\<close>

text \<open>
  \<open>pf_rxq_put q item\<close> is \<open>k_msgq_put(q, item, K_NO_WAIT)\<close>: its result and the queue after it;
  \<open>pf_rxq_get q item\<close> is \<open>k_msgq_get(q, item, ...)\<close>, which may overwrite \<open>item\<close>.
  \<open>pf_spi_transceive chip tx n\<close> clocks \<open>tx\<close> out, skips as many bytes and reads \<open>n\<close> bytes.
  \<open>pf_crc16 seed\<close> is \<open>crc16_ccitt\<close>, \<open>pf_crc16_poly poly seed\<close> is \<open>crc16\<close>.
  \<open>pf_rand k\<close> is the \<open>k\<close>-th value of \<open>sys_rand_get\<close>; \<open>pf_gpio_configure i\<close> and \<open>pf_gpio_get i\<close>
  are the driver's answers for strap pin \<open>i\<close>, \<open>pf_hw_id\<close> what \<open>hwinfo_get_device_id\<close> leaves in its
  buffer, and \<open>pf_phy_tx\<close> the result of handing the modem a packet length code and the data.
  \<open>pf_uart_write out s\<close> is the interrupt-driven AT transport: the result of writing \<open>s\<close> after
  \<open>out\<close> went out, and what has gone out then.
\<close>

record platform =
  pf_rxq_put :: "rx_data_item list \<Rightarrow> rx_data_item \<Rightarrow> int \<times> rx_data_item list"
  pf_rxq_get :: "rx_data_item list \<Rightarrow> rx_data_item \<Rightarrow> int \<times> rx_data_item \<times> rx_data_item list"
  pf_txq_put :: "tx_data_item list \<Rightarrow> tx_data_item \<Rightarrow> int \<times> tx_data_item list"
  pf_txq_get :: "tx_data_item list \<Rightarrow> tx_data_item \<Rightarrow> int \<times> tx_data_item \<times> tx_data_item list"
  pf_ee_ready :: bool
  pf_ee_read :: "memory \<Rightarrow> nat \<Rightarrow> nat \<Rightarrow> int \<times> bytes"
  pf_ee_write :: "memory \<Rightarrow> nat \<Rightarrow> bytes \<Rightarrow> int \<times> memory"
  pf_spi_ready :: bool
  pf_spi_write :: "memory \<Rightarrow> bytes \<Rightarrow> int \<times> memory"
  pf_spi_transceive :: "memory \<Rightarrow> bytes \<Rightarrow> nat \<Rightarrow> int \<times> bytes \<times> memory"
  pf_crc32 :: "bytes \<Rightarrow> u32"
  pf_crc32_continue :: "u32 \<Rightarrow> bytes \<Rightarrow> u32"
  pf_crc16 :: "u16 \<Rightarrow> bytes \<Rightarrow> u16"
  pf_crc16_poly :: "u16 \<Rightarrow> u16 \<Rightarrow> bytes \<Rightarrow> u16"
  pf_rand :: "nat \<Rightarrow> u32"
  pf_gpio_ready :: bool
  pf_gpio_configure :: "nat \<Rightarrow> int"
  pf_gpio_get :: "nat \<Rightarrow> int"
  pf_hw_id :: u16
  pf_phy_tx :: "u8 \<Rightarrow> bytes \<Rightarrow> int"
  pf_uart_write :: "string \<Rightarrow> string \<Rightarrow> int \<times> string"

section \<open>Documented behaviour\<close>

text \<open>\<open>k_msgq\<close>: a bounded FIFO that refuses a message when full and reports an empty queue.\<close>

definition msgq_put_ok :: "('i list \<Rightarrow> 'i \<Rightarrow> int \<times> 'i list) \<Rightarrow> bool" where
  "msgq_put_ok put \<longleftrightarrow> (\<forall>q x.
     (length q < QUEUE_DEPTH \<longrightarrow> put q x = (0, q @ [x])) \<and>
     (QUEUE_DEPTH \<le> length q \<longrightarrow> fst (put q x) \<noteq> 0 \<and> snd (put q x) = q))"

definition msgq_get_ok :: "('i list \<Rightarrow> 'i \<Rightarrow> int \<times> 'i \<times> 'i list) \<Rightarrow> bool" where
  "msgq_get_ok get \<longleftrightarrow> (\<forall>q y.
     (q = [] \<longrightarrow> fst (get q y) \<noteq> 0 \<and> snd (get q y) = (y, [])) \<and>
     (q \<noteq> [] \<longrightarrow> get q y = (0, hd q, tl q)))"

definition msgq_ok :: "platform \<Rightarrow> bool" where
  "msgq_ok P \<longleftrightarrow> msgq_put_ok (pf_rxq_put P) \<and> msgq_get_ok (pf_rxq_get P) \<and>
     msgq_put_ok (pf_txq_put P) \<and> msgq_get_ok (pf_txq_get P)"

text \<open>The EEPROM partitions end at 0x3480; below it a working part reads back what was written.\<close>

abbreviation (input) EEPROM_USED :: nat where "EEPROM_USED \<equiv> 0x3480"

definition eeprom_ok :: "platform \<Rightarrow> bool" where
  "eeprom_ok P \<longleftrightarrow> pf_ee_ready P \<and>
     (\<forall>m a n. a + n \<le> EEPROM_USED \<longrightarrow> pf_ee_read P m a n = (0, get_bytes m a n)) \<and>
     (\<forall>m a bs. a + length bs \<le> EEPROM_USED \<longrightarrow> pf_ee_write P m a bs = (0, put_bytes m a bs))"

text \<open>
  APS6404L: command 0x02 and 0x03 with a 24-bit address write and read a burst, as long as the
  burst stays inside one 1024-byte page.
\<close>

abbreviation (input) PSRAM_PAGE :: nat where "PSRAM_PAGE \<equiv> 1024"

definition cmd_addr :: "u8 \<Rightarrow> nat \<Rightarrow> bytes" where
  "cmd_addr c a = [c, word_of_nat (a div 0x10000), word_of_nat (a div 0x100), word_of_nat a]"

definition psram_chip_ok :: "platform \<Rightarrow> bool" where
  "psram_chip_ok P \<longleftrightarrow>
     (\<forall>m a bs. a < 2 ^ 24 \<and> a mod PSRAM_PAGE + length bs \<le> PSRAM_PAGE \<longrightarrow>
        pf_spi_write P m (cmd_addr 0x02 a @ bs) = (0, put_bytes m a bs)) \<and>
     (\<forall>m a n. a < 2 ^ 24 \<and> a mod PSRAM_PAGE + n \<le> PSRAM_PAGE \<longrightarrow>
        pf_spi_transceive P m (cmd_addr 0x03 a) n = (0, get_bytes m a n, m))"

text \<open>\<open>crc32_ieee_update\<close> continues a checksum over the bytes that follow.\<close>

definition crc32_ok :: "platform \<Rightarrow> bool" where
  "crc32_ok P \<longleftrightarrow> (\<forall>xs ys. pf_crc32_continue P (pf_crc32 P xs) ys = pf_crc32 P (xs @ ys))"

definition platform_ok :: "platform \<Rightarrow> bool" where
  "platform_ok P \<longleftrightarrow> msgq_ok P \<and> eeprom_ok P \<and> psram_chip_ok P \<and> crc32_ok P"

lemma platform_okD:
  assumes "platform_ok P"
  shows "msgq_ok P" "eeprom_ok P" "psram_chip_ok P" "crc32_ok P"
  using assms by (simp_all add: platform_ok_def)

lemma msgq_okD:
  assumes "msgq_ok P"
  shows "msgq_put_ok (pf_rxq_put P)" "msgq_get_ok (pf_rxq_get P)"
    "msgq_put_ok (pf_txq_put P)" "msgq_get_ok (pf_txq_get P)"
  using assms by (simp_all add: msgq_ok_def)

lemma msgq_put_okD:
  assumes "msgq_put_ok put"
  shows "length q < QUEUE_DEPTH \<Longrightarrow> put q x = (0, q @ [x])"
    "QUEUE_DEPTH \<le> length q \<Longrightarrow> fst (put q x) \<noteq> 0"
    "QUEUE_DEPTH \<le> length q \<Longrightarrow> snd (put q x) = q"
  using assms by (simp_all add: msgq_put_ok_def)

lemma msgq_get_okD:
  assumes "msgq_get_ok get"
  shows "fst (get [] y) \<noteq> 0" "snd (get [] y) = (y, [])" "get (z # zs) y = (0, z, zs)"
  using assms by (simp_all add: msgq_get_ok_def)

lemma eeprom_okD:
  assumes "eeprom_ok P"
  shows "pf_ee_ready P"
    "a + n \<le> EEPROM_USED \<Longrightarrow> pf_ee_read P m a n = (0, get_bytes m a n)"
    "a + length bs \<le> EEPROM_USED \<Longrightarrow> pf_ee_write P m a bs = (0, put_bytes m a bs)"
  using assms by (simp_all add: eeprom_ok_def)

lemma psram_chip_okD:
  assumes "psram_chip_ok P" "a < 2 ^ 24"
  shows "a mod PSRAM_PAGE + length bs \<le> PSRAM_PAGE \<Longrightarrow>
      pf_spi_write P m (cmd_addr 0x02 a @ bs) = (0, put_bytes m a bs)"
    "a mod PSRAM_PAGE + n \<le> PSRAM_PAGE \<Longrightarrow>
      pf_spi_transceive P m (cmd_addr 0x03 a) n = (0, get_bytes m a n, m)"
  using assms by (simp_all add: psram_chip_ok_def)

section \<open>A platform that behaves as documented\<close>

text \<open>
  Used by the witnesses only. The two checksums are byte sums: no property depends on which
  function they are.
\<close>

definition ref_put :: "'i list \<Rightarrow> 'i \<Rightarrow> int \<times> 'i list" where
  "ref_put q x = (if length q < QUEUE_DEPTH then (0, q @ [x]) else (- 35, q))"

definition ref_get :: "'i list \<Rightarrow> 'i \<Rightarrow> int \<times> 'i \<times> 'i list" where
  "ref_get q y = (case q of [] \<Rightarrow> (- 35, y, []) | x # xs \<Rightarrow> (0, x, xs))"

definition ref_addr :: "bytes \<Rightarrow> nat" where
  "ref_addr tx = unat (tx ! 1) * 0x10000 + unat (tx ! 2) * 0x100 + unat (tx ! 3)"

definition ref_platform :: platform where
  "ref_platform = \<lparr>
     pf_rxq_put = ref_put, pf_rxq_get = ref_get, pf_txq_put = ref_put, pf_txq_get = ref_get,
     pf_ee_ready = True,
     pf_ee_read = (\<lambda>m a n. (0, get_bytes m a n)),
     pf_ee_write = (\<lambda>m a bs. (0, put_bytes m a bs)),
     pf_spi_ready = True,
     pf_spi_write = (\<lambda>m tx. (0, put_bytes m (ref_addr tx) (drop 4 tx))),
     pf_spi_transceive = (\<lambda>m tx n. (0, get_bytes m (ref_addr tx) n, m)),
     pf_crc32 = (\<lambda>bs. sum_list (map ucast bs)),
     pf_crc32_continue = (\<lambda>c bs. c + sum_list (map ucast bs)),
     pf_crc16 = (\<lambda>s bs. s + sum_list (map ucast bs)),
     pf_crc16_poly = (\<lambda>p s bs. s + sum_list (map ucast bs)),
     pf_rand = (\<lambda>k. word_of_nat (k + 1)),
     pf_gpio_ready = True, pf_gpio_configure = (\<lambda>i. 0), pf_gpio_get = (\<lambda>i. if i = 1 then 1 else 0),
     pf_hw_id = 0x1234, pf_phy_tx = (\<lambda>l bs. 0), pf_uart_write = (\<lambda>out s. (0, out @ s))\<rparr>"

lemma ref_addr_cmd:
  assumes "a < 2 ^ 24"
  shows "ref_addr (cmd_addr c a @ bs) = a"
proof -
  have horner: "q * 0x10000 + r * 0x100 + s = (q * 0x100 + r) * 0x100 + s" for q r s :: nat
    by simp
  have "a div 0x10000 < 0x100" using assms by simp
  then have "unat (word_of_nat (a div 0x10000) :: u8) = a div 0x10000"
    by (simp add: unat_of_nat)
  moreover have "unat (word_of_nat (a div 0x100) :: u8) = a div 0x100 mod 0x100"
    "unat (word_of_nat a :: u8) = a mod 0x100"
    by (simp_all add: unat_of_nat)
  moreover have "a div 0x10000 = a div 0x100 div 0x100"
    by (simp add: div_mult2_eq[symmetric])
  ultimately have "ref_addr (cmd_addr c a @ bs)
    = a div 0x100 div 0x100 * 0x10000 + a div 0x100 mod 0x100 * 0x100 + a mod 0x100"
    by (simp add: ref_addr_def cmd_addr_def)
  also have "\<dots> = (a div 0x100 div 0x100 * 0x100 + a div 0x100 mod 0x100) * 0x100 + a mod 0x100"
    by (rule horner)
  also have "\<dots> = a" by (metis div_mult_mod_eq)
  finally show ?thesis .
qed

lemma ref_platform_ok: "platform_ok ref_platform"
proof -
  have "drop 4 (cmd_addr c a @ bs) = bs" for c a bs by (simp add: cmd_addr_def)
  moreover have "ref_addr (cmd_addr c a) = a" if "a < 2 ^ 24" for c a
    using ref_addr_cmd[OF that, of c "[]"] by simp
  ultimately show ?thesis
    using ref_addr_cmd
    by (auto simp: platform_ok_def msgq_ok_def msgq_put_ok_def msgq_get_ok_def eeprom_ok_def
        psram_chip_ok_def crc32_ok_def ref_platform_def ref_put_def ref_get_def split: list.splits)
qed

end
