(* ===== verification/Queue.thy ===== *)
theory Queue
  imports Platform
begin

text \<open>
  src/queue.c: the receive and the transmit side, each three bounded message queues (high,
  medium, low priority). \<open>rx_queue_put\<close> and \<open>tx_queue_put\<close> choose the queue of a priority,
  unknown priorities falling back to low; the \<open>get\<close> functions drain high before medium before
  low. The contract is the locale \<open>prio_queue\<close>, interpreted on both sides.
\<close>

section \<open>State and operations\<close>

record queues =
  rxq_hi :: "rx_data_item list"
  rxq_med :: "rx_data_item list"
  rxq_lo :: "rx_data_item list"
  txq_hi :: "tx_data_item list"
  txq_med :: "tx_data_item list"
  txq_lo :: "tx_data_item list"

definition queues_empty :: queues where
  "queues_empty = \<lparr>rxq_hi = [], rxq_med = [], rxq_lo = [], txq_hi = [], txq_med = [], txq_lo = []\<rparr>"

abbreviation (input) QUEUE_PRIO_COUNT :: nat where "QUEUE_PRIO_COUNT \<equiv> 3"

text \<open>An out-of-range \<open>enum queue_priority\<close> is treated as \<open>QUEUE_PRIO_LOW\<close>.\<close>
definition clamp_prio :: "u8 \<Rightarrow> nat" where
  "clamp_prio prio = (if QUEUE_PRIO_COUNT \<le> unat prio then 2 else unat prio)"

definition rx_queue_put :: "platform \<Rightarrow> queues \<Rightarrow> rx_data_item \<Rightarrow> u8 \<Rightarrow> int \<times> queues" where
  "rx_queue_put P q item prio = (
     let p = clamp_prio prio in
     if p = 0 then let (err, l) = pf_rxq_put P (rxq_hi q) item in (err, q\<lparr>rxq_hi := l\<rparr>)
     else if p = 1 then let (err, l) = pf_rxq_put P (rxq_med q) item in (err, q\<lparr>rxq_med := l\<rparr>)
     else let (err, l) = pf_rxq_put P (rxq_lo q) item in (err, q\<lparr>rxq_lo := l\<rparr>))"

definition rx_queue_get :: "platform \<Rightarrow> queues \<Rightarrow> rx_data_item \<Rightarrow> int \<times> rx_data_item \<times> queues" where
  "rx_queue_get P q item = (
     let (err, item, l) = pf_rxq_get P (rxq_hi q) item; q = q\<lparr>rxq_hi := l\<rparr> in
     if err = 0 then (0, item, q)
     else let (err, item, l) = pf_rxq_get P (rxq_med q) item; q = q\<lparr>rxq_med := l\<rparr> in
     if err = 0 then (0, item, q)
     else let (err, item, l) = pf_rxq_get P (rxq_lo q) item in (err, item, q\<lparr>rxq_lo := l\<rparr>))"

text \<open>The zeroed item that \<open>tx_queue_put\<close> fills with at most \<open>QUEUE_DATA_MAX\<close> bytes.\<close>
definition tx_item :: "bytes \<Rightarrow> nat \<Rightarrow> tx_data_item" where
  "tx_item data len = (
     let len = (if QUEUE_DATA_MAX < len then QUEUE_DATA_MAX else len) in
     \<lparr>tx_data_len = word_of_nat len,
      tx_data = take len data @ replicate (QUEUE_DATA_MAX - length (take len data)) 0\<rparr>)"

definition tx_put_item :: "platform \<Rightarrow> queues \<Rightarrow> tx_data_item \<Rightarrow> u8 \<Rightarrow> int \<times> queues" where
  "tx_put_item P q item prio = (
     let p = clamp_prio prio in
     if p = 0 then let (err, l) = pf_txq_put P (txq_hi q) item in (err, q\<lparr>txq_hi := l\<rparr>)
     else if p = 1 then let (err, l) = pf_txq_put P (txq_med q) item in (err, q\<lparr>txq_med := l\<rparr>)
     else let (err, l) = pf_txq_put P (txq_lo q) item in (err, q\<lparr>txq_lo := l\<rparr>))"

definition tx_queue_put :: "platform \<Rightarrow> queues \<Rightarrow> bytes \<Rightarrow> nat \<Rightarrow> u8 \<Rightarrow> int \<times> queues" where
  "tx_queue_put P q data len prio = tx_put_item P q (tx_item data len) prio"

definition tx_queue_get :: "platform \<Rightarrow> queues \<Rightarrow> tx_data_item \<Rightarrow> int \<times> tx_data_item \<times> queues" where
  "tx_queue_get P q item = (
     let (err, item, l) = pf_txq_get P (txq_hi q) item; q = q\<lparr>txq_hi := l\<rparr> in
     if err = 0 then (0, item, q)
     else let (err, item, l) = pf_txq_get P (txq_med q) item; q = q\<lparr>txq_med := l\<rparr> in
     if err = 0 then (0, item, q)
     else let (err, item, l) = pf_txq_get P (txq_lo q) item in (err, item, q\<lparr>txq_lo := l\<rparr>))"

section \<open>The contract of a priority queue\<close>

locale prio_queue =
  fixes ok :: "'c \<Rightarrow> bool"
    and put :: "'c \<Rightarrow> 's \<Rightarrow> 'i \<Rightarrow> u8 \<Rightarrow> int \<times> 's"
    and get :: "'c \<Rightarrow> 's \<Rightarrow> 'i \<Rightarrow> int \<times> 'i \<times> 's"
    and items :: "'s \<Rightarrow> nat \<Rightarrow> 'i list"
  assumes put_room: "ok c \<Longrightarrow> length (items s (clamp_prio p)) < QUEUE_DEPTH \<Longrightarrow>
      fst (put c s x p) = 0 \<and>
      items (snd (put c s x p)) j = (if j = clamp_prio p then items s j @ [x] else items s j)"
    and put_full: "ok c \<Longrightarrow> QUEUE_DEPTH \<le> length (items s (clamp_prio p)) \<Longrightarrow>
      fst (put c s x p) \<noteq> 0 \<and> snd (put c s x p) = s"
    and get_empty: "ok c \<Longrightarrow> items s 0 = [] \<Longrightarrow> items s 1 = [] \<Longrightarrow> items s 2 = [] \<Longrightarrow>
      fst (get c s y) \<noteq> 0 \<and> snd (get c s y) = (y, s)"
    and get_first: "ok c \<Longrightarrow> items s k = x # xs \<Longrightarrow> k < 3 \<Longrightarrow> (\<And>j. j < k \<Longrightarrow> items s j = []) \<Longrightarrow>
      \<exists>s'. get c s y = (0, x, s') \<and> (\<forall>j. items s' j = (if j = k then xs else items s j))"
begin

text \<open>All waiting items in the order they will be served.\<close>
definition pending :: "'s \<Rightarrow> 'i list" where
  "pending s = items s 0 @ items s 1 @ items s 2"

text \<open>\<open>n\<close> calls of \<open>get\<close>, collecting the items delivered.\<close>
primrec drain :: "'c \<Rightarrow> 'i \<Rightarrow> nat \<Rightarrow> 's \<Rightarrow> 'i list \<times> 's" where
  "drain c y 0 s = ([], s)"
| "drain c y (Suc n) s = (case get c s y of (err, x, s') \<Rightarrow>
     if err = 0 then (let (xs, s'') = drain c y n s' in (x # xs, s'')) else ([], s'))"

lemma get_pending:
  assumes "ok c" "pending s = x # xs"
  shows "\<exists>s'. get c s y = (0, x, s') \<and> pending s' = xs"
proof -
  consider (hi) ys where "items s 0 = x # ys" "xs = ys @ items s 1 @ items s 2"
    | (med) ys where "items s 0 = []" "items s 1 = x # ys" "xs = ys @ items s 2"
    | (lo) "items s 0 = []" "items s 1 = []" "items s 2 = x # xs"
    using assms(2) unfolding pending_def by (cases "items s 0"; cases "items s 1") auto
  then show ?thesis
  proof cases
    case (hi ys)
    then show ?thesis using get_first[OF assms(1) hi(1), of y] by (auto simp: pending_def)
  next
    case (med ys)
    then show ?thesis
      using get_first[OF assms(1) med(2), of y] by (auto simp: pending_def less_Suc_eq)
  next
    case lo
    then have "\<And>j. j < 2 \<Longrightarrow> items s j = []" by (auto simp: numeral_2_eq_2 less_Suc_eq)
    with lo show ?thesis using get_first[OF assms(1) lo(3), of y] by (auto simp: pending_def)
  qed
qed

lemma get_none:
  assumes "ok c" "pending s = []"
  shows "fst (get c s y) \<noteq> 0" "snd (get c s y) = (y, s)"
  using get_empty[OF assms(1), of s y] assms(2) by (auto simp: pending_def)

lemma drain_pending:
  assumes "ok c"
  shows "fst (drain c y n s) = take n (pending s) \<and> pending (snd (drain c y n s)) = drop n (pending s)"
proof (induction n arbitrary: s)
  case (Suc n)
  show ?case
  proof (cases "pending s")
    case Nil
    obtain e z t where g: "get c s y = (e, z, t)" by (cases "get c s y") auto
    then have "e \<noteq> 0" "t = s" using get_none[OF assms Nil, of y] by auto
    with g Nil show ?thesis by simp
  next
    case (Cons x xs)
    then obtain s' where "get c s y = (0, x, s')" "pending s' = xs"
      using get_pending[OF assms] by blast
    with Suc.IH[of s'] Cons show ?thesis by (simp add: split_beta Let_def)
  qed
qed simp

lemma put_pending:
  assumes "ok c" "length (items s (clamp_prio p)) < QUEUE_DEPTH"
  shows "\<exists>before after. pending s = before @ after \<and>
    pending (snd (put c s x p)) = before @ [x] @ after \<and>
    before = concat (map (items s) [0..<Suc (clamp_prio p)])"
proof -
  let ?k = "clamp_prio p" and ?t = "snd (put c s x p)"
  have it: "items ?t j = (if j = ?k then items s j @ [x] else items s j)" for j
    using put_room[OF assms] by blast
  have "?k = 0 \<or> ?k = 1 \<or> ?k = 2" by (simp add: clamp_prio_def) linarith
  then show ?thesis
  proof (elim disjE)
    assume "?k = 0"
    then show ?thesis by (simp add: pending_def it)
  next
    assume "?k = 1"
    then show ?thesis by (simp add: pending_def it)
  next
    assume "?k = 2"
    then show ?thesis by (simp add: pending_def it upt_rec numeral_2_eq_2)
  qed
qed

end

section \<open>Both sides keep the contract\<close>

definition rx_items :: "queues \<Rightarrow> nat \<Rightarrow> rx_data_item list" where
  "rx_items q k = (if k = 0 then rxq_hi q else if k = 1 then rxq_med q
     else if k = 2 then rxq_lo q else [])"

definition tx_items :: "queues \<Rightarrow> nat \<Rightarrow> tx_data_item list" where
  "tx_items q k = (if k = 0 then txq_hi q else if k = 1 then txq_med q
     else if k = 2 then txq_lo q else [])"

lemma clamp_prio_cases: "clamp_prio p = 0 \<or> clamp_prio p = 1 \<or> clamp_prio p = 2"
  by (auto simp: clamp_prio_def)

interpretation rxq: prio_queue msgq_ok rx_queue_put rx_queue_get rx_items
proof (unfold_locales, goal_cases)
  case (1 c s p x j)
  note put = msgq_put_okD[OF msgq_okD(1)[OF 1(1)]]
  show ?case
    using clamp_prio_cases[of p] 1(2) by (auto simp: rx_queue_put_def rx_items_def put Let_def)
next
  case (2 c s p x)
  note put = msgq_put_okD[OF msgq_okD(1)[OF 2(1)]]
  show ?case
    using clamp_prio_cases[of p] 2(2)
    by (auto simp: rx_queue_put_def rx_items_def put Let_def split_beta)
next
  case (3 c s y)
  note get = msgq_get_okD[OF msgq_okD(2)[OF 3(1)]]
  show ?case using 3(2-4) by (simp add: rx_queue_get_def rx_items_def get Let_def split_beta)
next
  case (4 c s k x xs y)
  note get = msgq_get_okD[OF msgq_okD(2)[OF 4(1)]]
  have "k = 0 \<or> k = 1 \<or> k = 2" using 4(3) by auto
  then show ?case using 4(2) 4(4)[of 0] 4(4)[of 1]
    by (auto simp: rx_queue_get_def rx_items_def get Let_def split_beta)
qed

interpretation txq: prio_queue msgq_ok tx_put_item tx_queue_get tx_items
proof (unfold_locales, goal_cases)
  case (1 c s p x j)
  note put = msgq_put_okD[OF msgq_okD(3)[OF 1(1)]]
  show ?case
    using clamp_prio_cases[of p] 1(2) by (auto simp: tx_put_item_def tx_items_def put Let_def)
next
  case (2 c s p x)
  note put = msgq_put_okD[OF msgq_okD(3)[OF 2(1)]]
  show ?case
    using clamp_prio_cases[of p] 2(2)
    by (auto simp: tx_put_item_def tx_items_def put Let_def split_beta)
next
  case (3 c s y)
  note get = msgq_get_okD[OF msgq_okD(4)[OF 3(1)]]
  show ?case using 3(2-4) by (simp add: tx_queue_get_def tx_items_def get Let_def split_beta)
next
  case (4 c s k x xs y)
  note get = msgq_get_okD[OF msgq_okD(4)[OF 4(1)]]
  have "k = 0 \<or> k = 1 \<or> k = 2" using 4(3) by auto
  then show ?case using 4(2) 4(4)[of 0] 4(4)[of 1]
    by (auto simp: tx_queue_get_def tx_items_def get Let_def split_beta)
qed

section \<open>Facts for the clients\<close>

lemma length_tx_item_data [simp]: "length (tx_data (tx_item data len)) = QUEUE_DATA_MAX"
  by (simp add: tx_item_def)

lemma unat_tx_item_len: "unat (tx_data_len (tx_item data len)) = min QUEUE_DATA_MAX len"
  by (auto simp: tx_item_def unat_of_nat min_def)

lemma tx_item_payload:
  "len \<le> length data \<Longrightarrow> len \<le> QUEUE_DATA_MAX \<Longrightarrow>
    take (unat (tx_data_len (tx_item data len))) (tx_data (tx_item data len)) = take len data"
  by (subst unat_tx_item_len) (simp add: tx_item_def)

section \<open>Properties\<close>

definition tx_pending :: "queues \<Rightarrow> tx_data_item list" where
  "tx_pending q = txq_hi q @ txq_med q @ txq_lo q"

definition rx_pending :: "queues \<Rightarrow> rx_data_item list" where
  "rx_pending q = rxq_hi q @ rxq_med q @ rxq_lo q"

lemma pending_eq: "txq.pending q = tx_pending q" "rxq.pending r = rx_pending r"
  by (simp_all add: txq.pending_def rxq.pending_def tx_items_def rx_items_def tx_pending_def rx_pending_def)

text \<open>
  C31: Both sides serve strictly by priority and first-in first-out inside a priority: a \<open>get\<close>
  delivers the first item of high, then medium, then low, and removes only that item; on empty
  queues it reports an error and leaves the caller's item alone.
\<close>

theorem queue_get_order:
  assumes "msgq_ok P"
  shows "(tx_pending q = x # xs \<longrightarrow> (\<exists>q'. tx_queue_get P q y = (0, x, q') \<and> tx_pending q' = xs)) \<and>
    (rx_pending r = a # as \<longrightarrow> (\<exists>r'. rx_queue_get P r b = (0, a, r') \<and> rx_pending r' = as)) \<and>
    (tx_pending q = [] \<longrightarrow> fst (tx_queue_get P q y) \<noteq> 0 \<and> snd (tx_queue_get P q y) = (y, q)) \<and>
    (rx_pending r = [] \<longrightarrow> fst (rx_queue_get P r b) \<noteq> 0 \<and> snd (rx_queue_get P r b) = (b, r))"
  using txq.get_pending[OF assms] rxq.get_pending[OF assms] txq.get_none[OF assms] rxq.get_none[OF assms]
  unfolding pending_eq by blast

definition ref_queues :: queues where
  "ref_queues = queues_empty\<lparr>txq_lo := [tx_item [1] 1], txq_hi := [tx_item [2] 1]\<rparr>"

theorem queue_get_order_witness:
  "\<exists>q'. tx_queue_get ref_platform ref_queues (tx_item [] 0) = (0, tx_item [2] 1, q') \<and>
    tx_pending q' = [tx_item [1] 1]"
proof -
  have "tx_pending ref_queues = [tx_item [2] 1, tx_item [1] 1]"
    by (simp add: tx_pending_def ref_queues_def queues_empty_def)
  then show ?thesis using queue_get_order[OF platform_okD(1)[OF ref_platform_ok]] by blast
qed

text \<open>
  A packet of at most 200 bytes put into a queue with room comes out unchanged, after
  everything of its own or a higher priority that was waiting and before everything of a lower
  one; a full queue refuses it and keeps its contents.
\<close>

theorem tx_queue_put_order:
  assumes "msgq_ok P" "length data \<le> QUEUE_DATA_MAX"
  shows "(length (tx_items q (clamp_prio prio)) < QUEUE_DEPTH \<longrightarrow>
      (\<exists>before after q'. tx_queue_put P q data (length data) prio = (0, q') \<and>
        tx_pending q = before @ after \<and> tx_pending q' = before @ [tx_item data (length data)] @ after \<and>
        before = concat (map (tx_items q) [0..<Suc (clamp_prio prio)]))) \<and>
    (QUEUE_DEPTH \<le> length (tx_items q (clamp_prio prio)) \<longrightarrow>
      fst (tx_queue_put P q data (length data) prio) \<noteq> 0 \<and>
      snd (tx_queue_put P q data (length data) prio) = q) \<and>
    take (unat (tx_data_len (tx_item data (length data)))) (tx_data (tx_item data (length data))) = data"
proof (intro conjI impI)
  show "take (unat (tx_data_len (tx_item data (length data)))) (tx_data (tx_item data (length data))) = data"
    using tx_item_payload[OF _ assms(2)] by simp
next
  let ?it = "tx_item data (length data)"
  assume r: "length (tx_items q (clamp_prio prio)) < QUEUE_DEPTH"
  obtain before after where "txq.pending q = before @ after"
    "txq.pending (snd (tx_put_item P q ?it prio)) = before @ [?it] @ after"
    "before = concat (map (tx_items q) [0..<Suc (clamp_prio prio)])"
    using txq.put_pending[OF assms(1) r] by blast
  moreover have "fst (tx_put_item P q ?it prio) = 0" using txq.put_room[OF assms(1) r] by blast
  ultimately show "\<exists>before after q'. tx_queue_put P q data (length data) prio = (0, q') \<and>
        tx_pending q = before @ after \<and> tx_pending q' = before @ [?it] @ after \<and>
        before = concat (map (tx_items q) [0..<Suc (clamp_prio prio)])"
    unfolding pending_eq tx_queue_put_def by (metis prod.collapse)
qed (use txq.put_full[OF assms(1)] in \<open>auto simp: tx_queue_put_def\<close>)

theorem tx_queue_put_order_witness:
  "\<exists>before after q'. tx_queue_put ref_platform ref_queues [7] 1 PACKET_PRIORITY_MEDIUM = (0, q') \<and>
    tx_pending q' = before @ [tx_item [7] 1] @ after \<and> before = [tx_item [2] 1]"
proof -
  have "clamp_prio PACKET_PRIORITY_MEDIUM = 1" by (simp add: clamp_prio_def)
  moreover have "length (tx_items ref_queues 1) < QUEUE_DEPTH"
    by (simp add: tx_items_def ref_queues_def queues_empty_def)
  moreover have "concat (map (tx_items ref_queues) [0..<Suc 1]) = [tx_item [2] 1]"
    by (simp add: tx_items_def ref_queues_def queues_empty_def)
  ultimately show ?thesis
    using tx_queue_put_order[OF platform_okD(1)[OF ref_platform_ok], of "[7]" ref_queues PACKET_PRIORITY_MEDIUM]
    by auto
qed

end
