(* ===== verification/Byte_Store.thy ===== *)
theory Byte_Store
  imports Platform
begin

text \<open>
  The contract the firmware expects of its two external memories: a call inside the bounds
  succeeds, reads what is stored and stores what it is given. The lemmas of the locale are used
  by the device tables (EEPROM) and by the retransmission payloads (PSRAM): write/read-back,
  framing, and arrays of fixed-size slots.
\<close>

lemma concat_slot:
  assumes "\<And>x. x \<in> set xs \<Longrightarrow> length x = w" "i < length xs"
  shows "take w (drop (w * i) (concat xs)) = xs ! i"
  using assms
proof (induction xs arbitrary: i)
  case (Cons x xs)
  then show ?case by (cases i) (simp_all add: add.commute)
qed simp

lemma length_concat_slots:
  "(\<And>x. x \<in> set xs \<Longrightarrow> length x = w) \<Longrightarrow> length (concat xs) = w * length xs"
  by (induction xs) auto

lemma get_slot_put_slots:
  assumes "\<And>x. x \<in> set xs \<Longrightarrow> length x = w" "i < length xs"
  shows "get_bytes (put_bytes m b (concat xs)) (b + w * i) w = xs ! i"
proof -
  have "w * i + w \<le> w * length xs"
    using assms(2) by (metis Suc_leI add.commute mult_Suc_right mult_le_mono2)
  then have "get_bytes (put_bytes m b (concat xs)) (b + w * i) w = take w (drop (w * i) (concat xs))"
    by (subst get_put_bytes_within) (simp_all add: length_concat_slots[OF assms(1)])
  with concat_slot[OF assms] show ?thesis by simp
qed

locale byte_store =
  fixes ok :: "'c \<Rightarrow> 's \<Rightarrow> bool"
    and size :: nat
    and view :: "'s \<Rightarrow> memory"
    and rd :: "'c \<Rightarrow> 's \<Rightarrow> nat \<Rightarrow> nat \<Rightarrow> int \<times> bytes \<times> 's"
    and wr :: "'c \<Rightarrow> 's \<Rightarrow> nat \<Rightarrow> bytes \<Rightarrow> int \<times> 's"
  assumes rd_ok: "ok c s \<Longrightarrow> a + n \<le> size \<Longrightarrow> rd c s a n = (0, get_bytes (view s) a n, s)"
    and wr_err: "ok c s \<Longrightarrow> a + length bs \<le> size \<Longrightarrow> fst (wr c s a bs) = 0"
    and wr_view: "ok c s \<Longrightarrow> a + length bs \<le> size \<Longrightarrow>
      view (snd (wr c s a bs)) = put_bytes (view s) a bs"
    and wr_keeps: "ok c s \<Longrightarrow> a + length bs \<le> size \<Longrightarrow> ok c (snd (wr c s a bs))"
begin

lemma write_read_back:
  assumes "ok c s" "a + length bs \<le> size"
  shows "rd c (snd (wr c s a bs)) a (length bs) = (0, bs, snd (wr c s a bs))"
  using assms by (simp add: rd_ok wr_view wr_keeps)

lemma write_frame:
  assumes "ok c s" "a + length bs \<le> size" "b + n \<le> size" "b + n \<le> a \<or> a + length bs \<le> b"
  shows "rd c (snd (wr c s a bs)) b n = (0, get_bytes (view s) b n, snd (wr c s a bs))"
  using assms by (simp add: rd_ok wr_view wr_keeps get_put_bytes_disjoint)

text \<open>Slots of \<open>w\<close> bytes from \<open>b\<close> on: writing one leaves every other one alone.\<close>
lemma slot_frame:
  assumes "ok c s" "i \<noteq> j" "length bs \<le> w" "n \<le> w"
    "b + w * i + w \<le> size" "b + w * j + w \<le> size"
  shows "rd c (snd (wr c s (b + w * i) bs)) (b + w * j) n
    = (0, get_bytes (view s) (b + w * j) n, snd (wr c s (b + w * i) bs))"
proof (rule write_frame)
  have "w * i + w \<le> w * j \<or> w * j + w \<le> w * i"
    using assms(2) by (metis Suc_leI add.commute linorder_neqE_nat mult_Suc_right mult_le_mono2)
  then show "b + w * j + n \<le> b + w * i \<or> b + w * i + length bs \<le> b + w * j"
    using assms(3,4) by linarith
qed (use assms in auto)

end

section \<open>The EEPROM driver keeps the contract\<close>

definition ee_rd :: "platform \<Rightarrow> memory \<Rightarrow> nat \<Rightarrow> nat \<Rightarrow> int \<times> bytes \<times> memory" where
  "ee_rd P m a n = (case pf_ee_read P m a n of (err, bs) \<Rightarrow> (err, bs, m))"

interpretation eeprom: byte_store "\<lambda>P m. eeprom_ok P" EEPROM_USED "\<lambda>m. m" ee_rd pf_ee_write
  by unfold_locales (simp_all add: ee_rd_def eeprom_okD)

end
