(* ===== verification/Bubble_Sort.thy ===== *)
theory Bubble_Sort
  imports Prelude
begin

text \<open>
  The bubble sort that \<open>sort_infra_devices()\<close> (\<open>src/src/storage.c\<close>) and
  \<open>sort_candidates()\<close> (\<open>src/src/mesh_layers/mesh_pairing.c\<close>) both write out: it
  sorts the first \<open>n\<close> entries of a longer array in place. The locale states what the loop needs
  of its exchange test (a strict weak order), and proves once that the prefix comes out sorted.
\<close>

definition swap_at :: "nat \<Rightarrow> 'a list \<Rightarrow> 'a list" where
  "swap_at j xs = xs[j := xs ! Suc j, Suc j := xs ! j]"

definition bubble_step :: "('a \<Rightarrow> 'a \<Rightarrow> bool) \<Rightarrow> nat \<Rightarrow> 'a list \<Rightarrow> 'a list" where
  "bubble_step gt j xs = (if gt (xs ! j) (xs ! Suc j) then swap_at j xs else xs)"

text \<open>One run of the inner loop: \<open>for (j = 0; j < m; j++)\<close>.\<close>
definition bubble_pass :: "('a \<Rightarrow> 'a \<Rightarrow> bool) \<Rightarrow> nat \<Rightarrow> 'a list \<Rightarrow> 'a list" where
  "bubble_pass gt m xs = fold (bubble_step gt) [0..<m] xs"

text \<open>\<open>for (i = 0; i < n - 1; i++)\<close> around it; nothing happens for \<open>n < 2\<close>.\<close>
definition bubble_sort :: "('a \<Rightarrow> 'a \<Rightarrow> bool) \<Rightarrow> nat \<Rightarrow> 'a list \<Rightarrow> 'a list" where
  "bubble_sort gt n xs = fold (\<lambda>i. bubble_pass gt (n - i - 1)) [0..<n - 1] xs"

section \<open>What holds for every exchange test\<close>

lemma length_bubble_step [simp]: "length (bubble_step gt j xs) = length xs"
  by (simp add: bubble_step_def swap_at_def)

lemma mset_swap_at: "Suc j < length xs \<Longrightarrow> mset (swap_at j xs) = mset xs"
  unfolding swap_at_def by (rule mset_swap) auto

lemma mset_bubble_step: "Suc j < length xs \<Longrightarrow> mset (bubble_step gt j xs) = mset xs"
  by (simp add: bubble_step_def mset_swap_at)

lemma bubble_step_nth_other: "k \<noteq> j \<Longrightarrow> k \<noteq> Suc j \<Longrightarrow> bubble_step gt j xs ! k = xs ! k"
  by (simp add: bubble_step_def swap_at_def)

lemma bubble_pass_0 [simp]: "bubble_pass gt 0 xs = xs"
  by (simp add: bubble_pass_def)

lemma bubble_pass_Suc: "bubble_pass gt (Suc m) xs = bubble_step gt m (bubble_pass gt m xs)"
  by (simp add: bubble_pass_def)

lemma length_bubble_pass [simp]: "length (bubble_pass gt m xs) = length xs"
  by (induction m) (simp_all add: bubble_pass_Suc)

lemma mset_bubble_pass: "m < length xs \<Longrightarrow> mset (bubble_pass gt m xs) = mset xs"
  by (induction m) (simp_all add: bubble_pass_Suc mset_bubble_step)

lemma bubble_pass_beyond: "m < k \<Longrightarrow> bubble_pass gt m xs ! k = xs ! k"
  by (induction m) (simp_all add: bubble_pass_Suc bubble_step_nth_other)

lemma drop_bubble_pass:
  assumes "m < n" shows "drop n (bubble_pass gt m xs) = drop n xs"
  using assms by (intro nth_equalityI) (simp_all add: bubble_pass_beyond)

lemma mset_take_bubble_pass:
  assumes "m < n" "n \<le> length xs"
  shows "mset (take n (bubble_pass gt m xs)) = mset (take n xs)"
proof -
  have "mset (take n ys) + mset (drop n ys) = mset ys" for ys :: "'a list"
    by (metis append_take_drop_id mset_append)
  from this[of "bubble_pass gt m xs"] this[of xs] assms show ?thesis
    by (metis add_right_imp_eq drop_bubble_pass mset_bubble_pass order_less_le_trans)
qed

text \<open>The first \<open>i\<close> runs of the outer loop.\<close>
definition bubble_runs :: "('a \<Rightarrow> 'a \<Rightarrow> bool) \<Rightarrow> nat \<Rightarrow> nat \<Rightarrow> 'a list \<Rightarrow> 'a list" where
  "bubble_runs gt n i xs = fold (\<lambda>i. bubble_pass gt (n - i - 1)) [0..<i] xs"

lemma bubble_runs_0 [simp]: "bubble_runs gt n 0 xs = xs"
  by (simp add: bubble_runs_def)

lemma bubble_runs_Suc:
  "bubble_runs gt n (Suc i) xs = bubble_pass gt (n - i - 1) (bubble_runs gt n i xs)"
  by (simp add: bubble_runs_def)

lemma bubble_sort_runs: "bubble_sort gt n xs = bubble_runs gt n (n - 1) xs"
  by (simp add: bubble_sort_def bubble_runs_def)

lemma length_bubble_runs [simp]: "length (bubble_runs gt n i xs) = length xs"
  by (induction i) (simp_all add: bubble_runs_Suc)

lemma mset_take_bubble_runs:
  "i < n \<Longrightarrow> n \<le> length xs \<Longrightarrow> mset (take n (bubble_runs gt n i xs)) = mset (take n xs)"
  by (induction i) (simp_all add: bubble_runs_Suc mset_take_bubble_pass)

lemma drop_bubble_runs: "i < n \<Longrightarrow> drop n (bubble_runs gt n i xs) = drop n xs"
  by (induction i) (simp_all add: bubble_runs_Suc drop_bubble_pass)

lemma length_bubble_sort [simp]: "length (bubble_sort gt n xs) = length xs"
  by (simp add: bubble_sort_runs)

lemma mset_take_bubble_sort:
  "n \<le> length xs \<Longrightarrow> mset (take n (bubble_sort gt n xs)) = mset (take n xs)"
  by (cases n) (simp_all add: bubble_sort_runs mset_take_bubble_runs)

lemma drop_bubble_sort: "drop n (bubble_sort gt n xs) = drop n xs"
  by (cases n) (simp_all add: bubble_sort_runs drop_bubble_runs)

lemma set_take_bubble_sort: "n \<le> length xs \<Longrightarrow> set (take n (bubble_sort gt n xs)) = set (take n xs)"
  by (metis mset_take_bubble_sort mset_eq_setD)

lemma bubble_sort_beyond:
  assumes "n \<le> k" "k < length xs" shows "bubble_sort gt n xs ! k = xs ! k"
proof -
  have "drop n (bubble_sort gt n xs) ! (k - n) = drop n xs ! (k - n)"
    by (simp add: drop_bubble_sort)
  with assms show ?thesis by simp
qed

section \<open>The sorted prefix, for a strict weak order\<close>

locale exchange_order =
  fixes gt :: "'a \<Rightarrow> 'a \<Rightarrow> bool"
  assumes asym: "gt a b \<Longrightarrow> \<not> gt b a"
    and neg_trans: "\<not> gt a b \<Longrightarrow> \<not> gt b c \<Longrightarrow> \<not> gt a c"
begin

lemma bubble_pass_max:
  assumes "m < length xs"
  shows "\<forall>k\<le>m. \<not> gt (bubble_pass gt m xs ! k) (bubble_pass gt m xs ! m)"
  using assms
proof (induction m)
  case 0
  then show ?case using asym by auto
next
  case (Suc m)
  let ?p = "bubble_pass gt m xs"
  from Suc have IH: "\<forall>k\<le>m. \<not> gt (?p ! k) (?p ! m)" and l: "Suc m < length ?p" by simp_all
  show ?case
  proof (cases "gt (?p ! m) (?p ! Suc m)")
    case True
    with l have "bubble_pass gt (Suc m) xs = ?p[m := ?p ! Suc m, Suc m := ?p ! m]"
      by (simp add: bubble_pass_Suc bubble_step_def swap_at_def)
    with l True IH asym show ?thesis by (auto simp: nth_list_update le_Suc_eq)
  next
    case False
    then have e: "bubble_pass gt (Suc m) xs = ?p"
      by (simp add: bubble_pass_Suc bubble_step_def)
    from False IH neg_trans asym show ?thesis unfolding e by (metis le_SucE)
  qed
qed

lemma bubble_pass_set_prefix:
  assumes "m < length xs"
  shows "set (take (Suc m) (bubble_pass gt m xs)) = set (take (Suc m) xs)"
  using mset_take_bubble_pass[of m "Suc m" xs gt] assms by (metis Suc_leI lessI mset_eq_setD)

text \<open>After \<open>i\<close> runs the last \<open>i\<close> places of the prefix are final.\<close>

lemma bubble_runs_suffix:
  assumes "n \<le> length xs"
  shows "i < n \<Longrightarrow> n - i \<le> b \<Longrightarrow> b < n \<Longrightarrow> a \<le> b \<Longrightarrow>
    \<not> gt (bubble_runs gt n i xs ! a) (bubble_runs gt n i xs ! b)"
proof (induction i arbitrary: a b)
  case (Suc i)
  let ?r = "bubble_runs gt n i xs" and ?m = "n - i - 1"
  have m: "?m < length ?r" using Suc.prems assms by simp
  have step: "bubble_runs gt n (Suc i) xs = bubble_pass gt ?m ?r"
    by (simp add: bubble_runs_Suc)
  show ?case
  proof (cases "b = ?m")
    case True
    then show ?thesis using bubble_pass_max[OF m] Suc.prems(4) by (simp add: step)
  next
    case False
    with Suc.prems have b: "?m < b" "n - i \<le> b" by simp_all
    show ?thesis
    proof (cases "?m < a")
      case True
      then show ?thesis using Suc b by (simp add: step bubble_pass_beyond)
    next
      case below: False
      have "bubble_pass gt ?m ?r ! a \<in> set (take (Suc ?m) (bubble_pass gt ?m ?r))"
        using below m by (auto simp: in_set_conv_nth intro!: exI[of _ a])
      then have "bubble_pass gt ?m ?r ! a \<in> set (take (Suc ?m) ?r)"
        by (simp only: bubble_pass_set_prefix[OF m])
      then obtain c where "c < length (take (Suc ?m) ?r)"
          "take (Suc ?m) ?r ! c = bubble_pass gt ?m ?r ! a"
        by (meson in_set_conv_nth)
      then have "c \<le> ?m" "bubble_pass gt ?m ?r ! a = ?r ! c" by simp_all
      then show ?thesis using Suc.IH[of b c] Suc.prems b by (simp add: step bubble_pass_beyond)
    qed
  qed
qed simp

theorem bubble_sort_sorted:
  assumes "n \<le> length xs" "a \<le> b" "b < n"
  shows "\<not> gt (bubble_sort gt n xs ! a) (bubble_sort gt n xs ! b)"
proof (cases "b = 0")
  case True
  with assms asym show ?thesis by blast
next
  case False
  with assms show ?thesis
    using bubble_runs_suffix[OF assms(1), of "n - 1" b a] by (simp add: bubble_sort_runs)
qed

lemma bubble_sort_first_best:
  assumes "n \<le> length xs" "0 < n" "x \<in> set (take n xs)"
  shows "\<not> gt (bubble_sort gt n xs ! 0) x"
proof -
  from assms have "x \<in> set (take n (bubble_sort gt n xs))" by (simp add: set_take_bubble_sort)
  then obtain b where "b < n" "x = bubble_sort gt n xs ! b" by (auto simp: in_set_conv_nth)
  with bubble_sort_sorted[OF assms(1), of 0 b] show ?thesis by simp
qed

end

end
