(* ===== verification/Storage.thy ===== *)
theory Storage
  imports Byte_Store Bubble_Sort
begin

text \<open>
  src/storage.c and src/storage.h: the three device tables. The infrastructure and the sensor
  table are RAM arrays written back to the EEPROM as a whole after each change, the mesh table
  of the gateway keeps its full entries in the EEPROM and a reduced copy in RAM. Each partition
  is a four-byte header (magic, count) followed by packed entries ending in a CRC32.

  Counts are natural numbers; \<open>storage_init\<close>, the only place that does not bound them, writes
  their truncation out. An array access out of bounds is the result \<open>None\<close> there; every other
  operation is guarded by the count.
\<close>

section \<open>Data\<close>

abbreviation (input) STORAGE_INFRA_OFFSET :: nat where "STORAGE_INFRA_OFFSET \<equiv> 0"
abbreviation (input) STORAGE_INFRA_SIZE :: nat where "STORAGE_INFRA_SIZE \<equiv> 0x80"
abbreviation (input) STORAGE_SENSOR_OFFSET :: nat where "STORAGE_SENSOR_OFFSET \<equiv> 0x80"
abbreviation (input) STORAGE_SENSOR_SIZE :: nat where "STORAGE_SENSOR_SIZE \<equiv> 0x400"
abbreviation (input) STORAGE_MESH_OFFSET :: nat where "STORAGE_MESH_OFFSET \<equiv> 0x480"
abbreviation (input) STORAGE_MESH_SIZE :: nat where "STORAGE_MESH_SIZE \<equiv> 0x3000"
abbreviation (input) STORAGE_HEADER_SIZE :: nat where "STORAGE_HEADER_SIZE \<equiv> 4"
abbreviation (input) STORAGE_MAGIC_0 :: u8 where "STORAGE_MAGIC_0 \<equiv> 0xDE"
abbreviation (input) STORAGE_MAGIC_1 :: u8 where "STORAGE_MAGIC_1 \<equiv> 0xC7"

record infra_entry =
  ie_device_type :: u8
  ie_device_id :: u16
  ie_hop_num :: u8
  ie_version :: u16
  ie_rssi_2 :: s16
  ie_crc32 :: u32

record infra =
  in_entry :: infra_entry
  in_last_comm_ms :: u64
  in_comm_failures :: u8
  in_ping_sent :: bool

record sensor_entry =
  se_device_id :: u16
  se_version :: u16
  se_crc32 :: u32

record sensor =
  sn_entry :: sensor_entry
  sn_last_comm_ms :: u64
  sn_comm_failures :: u8
  sn_ping_sent :: bool

record mesh_entry =
  me_device_type :: u8
  me_device_id :: u16
  me_serial_num :: u64
  me_version :: u16
  me_connected_device_id :: u16
  me_hop_num :: u8
  me_sensor_count :: u8
  me_crc32 :: u32

record mesh =
  ms_device_type :: u8
  ms_device_id :: u16
  ms_serial_num :: u64
  ms_connected_device_id :: u16
  ms_hop_num :: u8

text \<open>The globals of src/storage.c and the EEPROM they are mirrored in.\<close>

record storage =
  st_infra_count :: nat
  st_infra :: "infra list"
  st_sensor_count :: nat
  st_sensors :: "sensor list"
  st_mesh_count :: nat
  st_mesh :: "mesh list"
  st_ee :: memory

abbreviation infra_devs :: "storage \<Rightarrow> infra list" where
  "infra_devs s \<equiv> take (st_infra_count s) (st_infra s)"

abbreviation sensor_devs :: "storage \<Rightarrow> sensor list" where
  "sensor_devs s \<equiv> take (st_sensor_count s) (st_sensors s)"

abbreviation mesh_devs :: "storage \<Rightarrow> mesh list" where
  "mesh_devs s \<equiv> take (st_mesh_count s) (st_mesh s)"

definition enc_infra_entry :: "infra_entry \<Rightarrow> bytes" where
  "enc_infra_entry e = by8 (ie_device_type e) @ by16 (ie_device_id e) @ by8 (ie_hop_num e) @
     by16 (ie_version e) @ by16 (ie_rssi_2 e) @ by32 (ie_crc32 e)"

definition dec_infra_entry :: "bytes \<Rightarrow> infra_entry" where
  "dec_infra_entry bs = \<lparr>ie_device_type = rd_u8 0 bs, ie_device_id = rd_u16 1 bs,
     ie_hop_num = rd_u8 3 bs, ie_version = rd_u16 4 bs, ie_rssi_2 = rd_u16 6 bs,
     ie_crc32 = rd_u32 8 bs\<rparr>"

definition enc_sensor_entry :: "sensor_entry \<Rightarrow> bytes" where
  "enc_sensor_entry e = by16 (se_device_id e) @ by16 (se_version e) @ by32 (se_crc32 e)"

definition dec_sensor_entry :: "bytes \<Rightarrow> sensor_entry" where
  "dec_sensor_entry bs = \<lparr>se_device_id = rd_u16 0 bs, se_version = rd_u16 2 bs,
     se_crc32 = rd_u32 4 bs\<rparr>"

definition enc_mesh_entry :: "mesh_entry \<Rightarrow> bytes" where
  "enc_mesh_entry e = by8 (me_device_type e) @ by16 (me_device_id e) @ by64 (me_serial_num e) @
     by16 (me_version e) @ by16 (me_connected_device_id e) @ by8 (me_hop_num e) @
     by8 (me_sensor_count e) @ by32 (me_crc32 e)"

definition dec_mesh_entry :: "bytes \<Rightarrow> mesh_entry" where
  "dec_mesh_entry bs = \<lparr>me_device_type = rd_u8 0 bs, me_device_id = rd_u16 1 bs,
     me_serial_num = rd_u64 3 bs, me_version = rd_u16 11 bs,
     me_connected_device_id = rd_u16 13 bs, me_hop_num = rd_u8 15 bs,
     me_sensor_count = rd_u8 16 bs, me_crc32 = rd_u32 17 bs\<rparr>"

abbreviation (input) INFRA_ENTRY_SIZE :: nat where "INFRA_ENTRY_SIZE \<equiv> 12"
abbreviation (input) SENSOR_ENTRY_SIZE :: nat where "SENSOR_ENTRY_SIZE \<equiv> 8"
abbreviation (input) MESH_ENTRY_SIZE :: nat where "MESH_ENTRY_SIZE \<equiv> 21"

lemma length_enc_entries [simp]:
  "length (enc_infra_entry ie) = 12" "length (enc_sensor_entry se) = 8"
  "length (enc_mesh_entry me) = 21"
  by (simp_all add: enc_infra_entry_def enc_sensor_entry_def enc_mesh_entry_def)

lemma dec_enc_entries [wire_simps]:
  "dec_infra_entry (enc_infra_entry ie) = ie" "dec_sensor_entry (enc_sensor_entry se) = se"
  "dec_mesh_entry (enc_mesh_entry me) = me"
  by (simp_all add: enc_infra_entry_def dec_infra_entry_def enc_sensor_entry_def
      dec_sensor_entry_def enc_mesh_entry_def dec_mesh_entry_def wire_simps)

section \<open>EEPROM helpers\<close>

definition read_header :: "platform \<Rightarrow> memory \<Rightarrow> nat \<Rightarrow> int \<times> nat" where
  "read_header P ee base = (
     let (err, hdr) = pf_ee_read P ee base STORAGE_HEADER_SIZE in
     if err \<noteq> 0 then (err, 0)
     else if hdr ! 0 \<noteq> STORAGE_MAGIC_0 \<or> hdr ! 1 \<noteq> STORAGE_MAGIC_1 then (0, 0)
     else (0, unat (rd_u16 2 hdr)))"

definition write_header :: "platform \<Rightarrow> memory \<Rightarrow> nat \<Rightarrow> nat \<Rightarrow> int \<times> memory" where
  "write_header P ee base cnt =
     pf_ee_write P ee base ([STORAGE_MAGIC_0, STORAGE_MAGIC_1] @ by16 (word_of_nat cnt))"

definition read_entry :: "platform \<Rightarrow> memory \<Rightarrow> nat \<Rightarrow> nat \<Rightarrow> nat \<Rightarrow> int \<times> bytes" where
  "read_entry P ee base index entry_size =
     pf_ee_read P ee (base + STORAGE_HEADER_SIZE + entry_size * index) entry_size"

definition write_entry :: "platform \<Rightarrow> memory \<Rightarrow> nat \<Rightarrow> nat \<Rightarrow> bytes \<Rightarrow> int \<times> memory" where
  "write_entry P ee base index entry =
     pf_ee_write P ee (base + STORAGE_HEADER_SIZE + length entry * index) entry"

text \<open>CRC32 over an entry without its trailing four-byte \<open>crc32\<close> field.\<close>
definition entry_crc32 :: "platform \<Rightarrow> bytes \<Rightarrow> u32" where
  "entry_crc32 P entry = pf_crc32 P (take (length entry - 4) entry)"

definition entry_crc_ok :: "platform \<Rightarrow> bytes \<Rightarrow> bool" where
  "entry_crc_ok P entry \<longleftrightarrow> entry_crc32 P entry = rd_u32 (length entry - 4) entry"

definition stamp_entry :: "platform \<Rightarrow> bytes \<Rightarrow> bytes" where
  "stamp_entry P entry = take (length entry - 4) entry @ by32 (entry_crc32 P entry)"

definition write_entry_with_crc :: "platform \<Rightarrow> memory \<Rightarrow> nat \<Rightarrow> nat \<Rightarrow> bytes \<Rightarrow> int \<times> memory" where
  "write_entry_with_crc P ee base index entry = write_entry P ee base index (stamp_entry P entry)"

text \<open>
  The body that \<open>flush_infra_to_eeprom\<close> and \<open>flush_sensors_to_eeprom\<close> share: stamp each entry's
  CRC in RAM, write it, stop at the first error, and write the header at the end.
\<close>

primrec flush_entries :: "platform \<Rightarrow> nat \<Rightarrow> ('a \<Rightarrow> 'a) \<Rightarrow> ('a \<Rightarrow> bytes) \<Rightarrow> nat list \<Rightarrow> 'a list \<Rightarrow>
    memory \<Rightarrow> int \<times> 'a list \<times> memory" where
  "flush_entries P base stamp enc [] xs ee = (0, xs, ee)"
| "flush_entries P base stamp enc (i # is) xs ee = (
     let xs = xs[i := stamp (xs ! i)];
         (err, ee) = write_entry P ee base i (enc (xs ! i)) in
     if err \<noteq> 0 then (err, xs, ee) else flush_entries P base stamp enc is xs ee)"

definition stamp_infra :: "platform \<Rightarrow> infra \<Rightarrow> infra" where
  "stamp_infra P d = d\<lparr>in_entry := (in_entry d)\<lparr>ie_crc32 := entry_crc32 P (enc_infra_entry (in_entry d))\<rparr>\<rparr>"

definition stamp_sensor :: "platform \<Rightarrow> sensor \<Rightarrow> sensor" where
  "stamp_sensor P d = d\<lparr>sn_entry := (sn_entry d)\<lparr>se_crc32 := entry_crc32 P (enc_sensor_entry (sn_entry d))\<rparr>\<rparr>"

text \<open>\<open>for (i = index + 1; i < n; i++) xs[i - 1] = xs[i];\<close>\<close>
definition shift_down :: "nat \<Rightarrow> nat \<Rightarrow> 'a list \<Rightarrow> 'a list" where
  "shift_down index n xs = foldl (\<lambda>xs i. xs[i - 1 := xs ! i]) xs [index + 1..<n]"

section \<open>Infrastructure table\<close>

text \<open>The exchange test of \<open>sort_infra_devices\<close>: worse hop count, or same hop and weaker signal.\<close>
definition infra_gt :: "infra \<Rightarrow> infra \<Rightarrow> bool" where
  "infra_gt a b \<longleftrightarrow> ie_hop_num (in_entry b) < ie_hop_num (in_entry a) \<or>
     ie_hop_num (in_entry a) = ie_hop_num (in_entry b) \<and>
     ie_rssi_2 (in_entry a) <s ie_rssi_2 (in_entry b)"

definition sort_infra_devices :: "storage \<Rightarrow> storage" where
  "sort_infra_devices s = (if st_infra_count s < 2 then s
     else s\<lparr>st_infra := bubble_sort infra_gt (st_infra_count s) (st_infra s)\<rparr>)"

definition flush_infra_to_eeprom :: "platform \<Rightarrow> storage \<Rightarrow> int \<times> storage" where
  "flush_infra_to_eeprom P s = (
     let (err, xs, ee) = flush_entries P STORAGE_INFRA_OFFSET (stamp_infra P)
           (enc_infra_entry \<circ> in_entry) [0..<st_infra_count s] (st_infra s) (st_ee s);
         s = s\<lparr>st_infra := xs, st_ee := ee\<rparr> in
     if err \<noteq> 0 then (err, s)
     else let (err, ee) = write_header P ee STORAGE_INFRA_OFFSET (st_infra_count s) in
       (err, s\<lparr>st_ee := ee\<rparr>))"

definition storage_infra_add :: "platform \<Rightarrow> storage \<Rightarrow> infra_entry \<Rightarrow> int \<times> storage" where
  "storage_infra_add P s entry = (
     if MAX_ANCHORS \<le> st_infra_count s then (- ENOMEM, s)
     else flush_infra_to_eeprom P (sort_infra_devices
       (s\<lparr>st_infra := (st_infra s)[st_infra_count s := \<lparr>in_entry = entry, in_last_comm_ms = 0,
            in_comm_failures = 0, in_ping_sent = False\<rparr>],
          st_infra_count := st_infra_count s + 1\<rparr>)))"

definition storage_infra_update :: "platform \<Rightarrow> storage \<Rightarrow> nat \<Rightarrow> infra_entry \<Rightarrow> int \<times> storage" where
  "storage_infra_update P s index entry = (
     if st_infra_count s \<le> index then (- EINVAL, s)
     else flush_infra_to_eeprom P (sort_infra_devices
       (s\<lparr>st_infra := (st_infra s)[index := (st_infra s ! index)\<lparr>in_entry := entry\<rparr>]\<rparr>)))"

definition storage_infra_get :: "storage \<Rightarrow> nat \<Rightarrow> int + infra_entry" where
  "storage_infra_get s index = (
     if st_infra_count s \<le> index then Inl (- EINVAL) else Inr (in_entry (st_infra s ! index)))"

definition storage_infra_remove :: "platform \<Rightarrow> storage \<Rightarrow> nat \<Rightarrow> int \<times> storage" where
  "storage_infra_remove P s index = (
     if st_infra_count s \<le> index then (- EINVAL, s)
     else flush_infra_to_eeprom P
       (s\<lparr>st_infra := shift_down index (st_infra_count s) (st_infra s),
          st_infra_count := st_infra_count s - 1\<rparr>))"

definition storage_infra_clear :: "platform \<Rightarrow> storage \<Rightarrow> int \<times> storage" where
  "storage_infra_clear P s = (
     let s = s\<lparr>st_infra_count := 0,
               st_infra := map (\<lambda>d. d\<lparr>in_entry := (in_entry d)\<lparr>ie_device_id := 0xFFFF\<rparr>\<rparr>) (st_infra s)\<rparr>;
         (err, ee) = write_header P (st_ee s) STORAGE_INFRA_OFFSET 0 in
     (err, s\<lparr>st_ee := ee\<rparr>))"

section \<open>Sensor table\<close>

definition flush_sensors_to_eeprom :: "platform \<Rightarrow> storage \<Rightarrow> int \<times> storage" where
  "flush_sensors_to_eeprom P s = (
     let (err, xs, ee) = flush_entries P STORAGE_SENSOR_OFFSET (stamp_sensor P)
           (enc_sensor_entry \<circ> sn_entry) [0..<st_sensor_count s] (st_sensors s) (st_ee s);
         s = s\<lparr>st_sensors := xs, st_ee := ee\<rparr> in
     if err \<noteq> 0 then (err, s)
     else let (err, ee) = write_header P ee STORAGE_SENSOR_OFFSET (st_sensor_count s) in
       (err, s\<lparr>st_ee := ee\<rparr>))"

definition storage_sensor_add :: "platform \<Rightarrow> storage \<Rightarrow> sensor_entry \<Rightarrow> int \<times> storage" where
  "storage_sensor_add P s entry = (
     if MAX_SENSORS \<le> st_sensor_count s then (- ENOMEM, s)
     else flush_sensors_to_eeprom P
       (s\<lparr>st_sensors := (st_sensors s)[st_sensor_count s := \<lparr>sn_entry = entry,
            sn_last_comm_ms = 0, sn_comm_failures = 0, sn_ping_sent = False\<rparr>],
          st_sensor_count := st_sensor_count s + 1\<rparr>))"

definition storage_sensor_update :: "platform \<Rightarrow> storage \<Rightarrow> nat \<Rightarrow> sensor_entry \<Rightarrow> int \<times> storage" where
  "storage_sensor_update P s index entry = (
     if st_sensor_count s \<le> index then (- EINVAL, s)
     else flush_sensors_to_eeprom P
       (s\<lparr>st_sensors := (st_sensors s)[index := (st_sensors s ! index)\<lparr>sn_entry := entry\<rparr>]\<rparr>))"

definition storage_sensor_get :: "storage \<Rightarrow> nat \<Rightarrow> int + sensor_entry" where
  "storage_sensor_get s index = (
     if st_sensor_count s \<le> index then Inl (- EINVAL) else Inr (sn_entry (st_sensors s ! index)))"

definition storage_sensor_remove :: "platform \<Rightarrow> storage \<Rightarrow> nat \<Rightarrow> int \<times> storage" where
  "storage_sensor_remove P s index = (
     if st_sensor_count s \<le> index then (- EINVAL, s)
     else flush_sensors_to_eeprom P
       (s\<lparr>st_sensors := shift_down index (st_sensor_count s) (st_sensors s),
          st_sensor_count := st_sensor_count s - 1\<rparr>))"

definition storage_sensor_clear :: "platform \<Rightarrow> storage \<Rightarrow> int \<times> storage" where
  "storage_sensor_clear P s = (
     let s = s\<lparr>st_sensor_count := 0,
               st_sensors := map (\<lambda>d. d\<lparr>sn_entry := (sn_entry d)\<lparr>se_device_id := 0xFFFF\<rparr>\<rparr>) (st_sensors s)\<rparr>;
         (err, ee) = write_header P (st_ee s) STORAGE_SENSOR_OFFSET 0 in
     (err, s\<lparr>st_ee := ee\<rparr>))"

section \<open>Mesh table\<close>

definition mesh_of_entry :: "mesh_entry \<Rightarrow> mesh" where
  "mesh_of_entry e = \<lparr>ms_device_type = me_device_type e, ms_device_id = me_device_id e,
     ms_serial_num = me_serial_num e, ms_connected_device_id = me_connected_device_id e,
     ms_hop_num = me_hop_num e\<rparr>"

definition storage_mesh_add :: "platform \<Rightarrow> storage \<Rightarrow> mesh_entry \<Rightarrow> int \<times> storage" where
  "storage_mesh_add P s entry = (
     if MAX_DEVICES \<le> st_mesh_count s then (- ENOMEM, s)
     else let (err, ee) = write_entry_with_crc P (st_ee s) STORAGE_MESH_OFFSET (st_mesh_count s)
                (enc_mesh_entry entry);
              s = s\<lparr>st_ee := ee\<rparr> in
     if err \<noteq> 0 then (err, s)
     else let s = s\<lparr>st_mesh := (st_mesh s)[st_mesh_count s := mesh_of_entry entry],
                    st_mesh_count := st_mesh_count s + 1\<rparr>;
              (err, ee) = write_header P (st_ee s) STORAGE_MESH_OFFSET (st_mesh_count s) in
     (err, s\<lparr>st_ee := ee\<rparr>))"

definition storage_mesh_update :: "platform \<Rightarrow> storage \<Rightarrow> nat \<Rightarrow> mesh_entry \<Rightarrow> int \<times> storage" where
  "storage_mesh_update P s index entry = (
     if st_mesh_count s \<le> index then (- EINVAL, s)
     else let (err, ee) = write_entry_with_crc P (st_ee s) STORAGE_MESH_OFFSET index
                (enc_mesh_entry entry) in
     (err, s\<lparr>st_ee := ee\<rparr>))"

definition storage_mesh_get :: "platform \<Rightarrow> storage \<Rightarrow> nat \<Rightarrow> int + mesh_entry" where
  "storage_mesh_get P s index = (
     if st_mesh_count s \<le> index then Inl (- EINVAL)
     else let (err, entry) = read_entry P (st_ee s) STORAGE_MESH_OFFSET index MESH_ENTRY_SIZE in
     if err \<noteq> 0 then Inl err
     else if \<not> entry_crc_ok P entry then Inl (- EBADMSG)
     else Inr (dec_mesh_entry entry))"

definition storage_mesh_clear :: "platform \<Rightarrow> storage \<Rightarrow> int \<times> storage" where
  "storage_mesh_clear P s = (
     let (err, ee) = write_header P (st_ee s) STORAGE_MESH_OFFSET 0 in
     (err, s\<lparr>st_mesh_count := 0, st_ee := ee\<rparr>))"

text \<open>The EEPROM block behind \<open>index\<close> moves through a static buffer; nothing to move is no I/O.\<close>
definition mesh_move :: "platform \<Rightarrow> memory \<Rightarrow> nat \<Rightarrow> nat \<Rightarrow> int \<times> memory" where
  "mesh_move P ee index move = (
     if move = 0 then (0, ee)
     else let src = STORAGE_MESH_OFFSET + STORAGE_HEADER_SIZE + (index + 1) * MESH_ENTRY_SIZE;
              dst = STORAGE_MESH_OFFSET + STORAGE_HEADER_SIZE + index * MESH_ENTRY_SIZE;
              (err, buf) = pf_ee_read P ee src (move * MESH_ENTRY_SIZE) in
     if err \<noteq> 0 then (err, ee) else pf_ee_write P ee dst buf)"

definition storage_mesh_remove :: "platform \<Rightarrow> storage \<Rightarrow> nat \<Rightarrow> int \<times> storage" where
  "storage_mesh_remove P s index = (
     if st_mesh_count s \<le> index then (- EINVAL, s)
     else let s = s\<lparr>st_mesh := shift_down index (st_mesh_count s) (st_mesh s)\<rparr>;
              (err, ee) = mesh_move P (st_ee s) index (st_mesh_count s - 1 - index);
              s = s\<lparr>st_ee := ee\<rparr> in
     if err \<noteq> 0 then (err, s)
     else let s = s\<lparr>st_mesh_count := st_mesh_count s - 1\<rparr>;
              (err, ee) = write_header P (st_ee s) STORAGE_MESH_OFFSET (st_mesh_count s) in
     (err, s\<lparr>st_ee := ee\<rparr>))"

section \<open>Loading the tables at boot\<close>

definition load_infra :: "platform \<Rightarrow> storage \<Rightarrow> nat \<Rightarrow> storage" where
  "load_infra P s i = (
     let (err, bs) = read_entry P (st_ee s) STORAGE_INFRA_OFFSET i INFRA_ENTRY_SIZE;
         d = st_infra s ! i in
     s\<lparr>st_infra := (st_infra s)[i :=
        if err \<noteq> 0 \<or> \<not> entry_crc_ok P bs
        then d\<lparr>in_entry := (in_entry d)\<lparr>ie_device_id := 0xFFFF\<rparr>\<rparr>
        else \<lparr>in_entry = dec_infra_entry bs, in_last_comm_ms = 0, in_comm_failures = 0,
              in_ping_sent = False\<rparr>]\<rparr>)"

definition load_sensor :: "platform \<Rightarrow> storage \<Rightarrow> nat \<Rightarrow> storage" where
  "load_sensor P s i = (
     let (err, bs) = read_entry P (st_ee s) STORAGE_SENSOR_OFFSET i SENSOR_ENTRY_SIZE;
         d = st_sensors s ! i in
     s\<lparr>st_sensors := (st_sensors s)[i :=
        if err \<noteq> 0 \<or> \<not> entry_crc_ok P bs
        then d\<lparr>sn_entry := (sn_entry d)\<lparr>se_device_id := 0xFFFF\<rparr>\<rparr>
        else \<lparr>sn_entry = dec_sensor_entry bs, sn_last_comm_ms = 0, sn_comm_failures = 0,
              sn_ping_sent = False\<rparr>]\<rparr>)"

definition load_mesh :: "platform \<Rightarrow> storage \<Rightarrow> nat \<Rightarrow> storage" where
  "load_mesh P s i = (case storage_mesh_get P s i of
       Inl err \<Rightarrow> s
     | Inr entry \<Rightarrow> s\<lparr>st_mesh := (st_mesh s)[i := mesh_of_entry entry]\<rparr>)"

text \<open>
  \<open>infra_count = (uint8_t)count\<close> truncates. \<open>None\<close> is an array written past its end. The third
  component is the mesh count that \<open>set_mesh_devices_count\<close> is called with, on the gateway only.
\<close>

definition storage_init :: "platform \<Rightarrow> u8 \<Rightarrow> storage \<Rightarrow> (int \<times> storage \<times> nat option) option" where
  "storage_init P dev_type s = (
     if \<not> pf_ee_ready P then Some (- ENODEV, s, None)
     else let (err, count) = read_header P (st_ee s) STORAGE_INFRA_OFFSET in
     if err \<noteq> 0 then Some (err, s, None)
     else let s = s\<lparr>st_infra_count := count mod 256\<rparr>;
              (err, count) = read_header P (st_ee s) STORAGE_SENSOR_OFFSET in
     if err \<noteq> 0 then Some (err, s, None)
     else let s = s\<lparr>st_sensor_count := count mod 256\<rparr>;
              (err, count) = read_header P (st_ee s) STORAGE_MESH_OFFSET in
     if err \<noteq> 0 then Some (err, s, None)
     else let s = s\<lparr>st_mesh_count := count\<rparr> in
     if MAX_ANCHORS < st_infra_count s then None
     else let s = foldl (load_infra P) s [0..<st_infra_count s] in
     if (dev_type = DEVICE_TYPE_GATEWAY \<or> dev_type = DEVICE_TYPE_ANCHOR) \<and>
        MAX_SENSORS < st_sensor_count s then None
     else let s = (if dev_type = DEVICE_TYPE_GATEWAY \<or> dev_type = DEVICE_TYPE_ANCHOR
                   then foldl (load_sensor P) s [0..<st_sensor_count s] else s) in
     if dev_type \<noteq> DEVICE_TYPE_GATEWAY then Some (0, s, None)
     else if MAX_DEVICES < st_mesh_count s then None
     else Some (0, foldl (load_mesh P) s [0..<st_mesh_count s], Some (st_mesh_count s)))"

end
