(* ===== verification/Storage_Lemmas.thy ===== *)
theory Storage_Lemmas
  imports Storage
begin

text \<open>
  Correctness of the device tables. \<open>storage_wf\<close> (array sizes and counts) is kept by every
  operation on any EEPROM; \<open>storage_ok\<close> (the infrastructure table is sorted, and each partition
  of the EEPROM holds exactly what the RAM table holds, with valid checksums) is kept by every
  operation on an EEPROM that works, and makes \<open>storage_init\<close> restore the tables after a reboot.
\<close>

section \<open>Shifting entries down\<close>

lemma length_shift_down [simp]: "length (shift_down i n xs) = length xs"
proof -
  have "length (foldl (\<lambda>xs i. xs[i - 1 := xs ! i]) ys js) = length ys" for js and ys :: "'a list"
    by (induction js arbitrary: ys) auto
  then show ?thesis by (simp add: shift_down_def)
qed

lemma shift_down_eq:
  "i < n \<Longrightarrow> n \<le> length xs \<Longrightarrow>
    shift_down i n xs = take i xs @ drop (Suc i) (take n xs) @ drop (n - 1) xs"
proof (induction n)
  case (Suc n)
  show ?case
  proof (cases "i = n")
    case True
    then show ?thesis using Suc.prems by (simp add: shift_down_def)
  next
    case False
    with Suc have IH: "shift_down i n xs = take i xs @ drop (Suc i) (take n xs) @ drop (n - 1) xs"
      and "i < n" by auto
    have "shift_down i (Suc n) xs = (shift_down i n xs)[n - 1 := shift_down i n xs ! n]"
      using \<open>i < n\<close> by (simp add: shift_down_def)
    also have "shift_down i n xs ! n = xs ! n"
      using \<open>i < n\<close> Suc.prems diff_le_mono2[of i "Suc i" n]
      by (auto simp: IH nth_append min_def not_less)
    also have "(shift_down i n xs)[n - 1 := xs ! n]
        = take i xs @ drop (Suc i) (take (Suc n) xs) @ drop n xs"
    proof (rule nth_equalityI)
      fix k assume "k < length ((shift_down i n xs)[n - 1 := xs ! n])"
      then have k: "k < length xs" by simp
      show "(shift_down i n xs)[n - 1 := xs ! n] ! k
          = (take i xs @ drop (Suc i) (take (Suc n) xs) @ drop n xs) ! k"
        using k \<open>i < n\<close> Suc.prems
        by (cases "k = n - 1") (auto simp: IH nth_append nth_list_update min_def)
    qed (use \<open>i < n\<close> Suc.prems in simp)
    finally show ?thesis by simp
  qed
qed simp

lemma take_shift_down:
  assumes "i < n" "n \<le> length xs"
  shows "take (n - 1) (shift_down i n xs) = take i xs @ drop (Suc i) (take n xs)"
proof -
  have "n - 1 \<le> i \<Longrightarrow> i = n - 1" using assms by simp
  then show ?thesis using assms by (auto simp: shift_down_eq min_def not_le)
qed

section \<open>Headers\<close>

definition header_bytes :: "nat \<Rightarrow> bytes" where
  "header_bytes n = [STORAGE_MAGIC_0, STORAGE_MAGIC_1] @ by16 (word_of_nat n)"

lemma length_header_bytes [simp]: "length (header_bytes n) = 4"
  by (simp add: header_bytes_def)

lemma write_header_ok:
  assumes "eeprom_ok P" "base + 4 \<le> EEPROM_USED"
  shows "write_header P ee base n = (0, put_bytes ee base (header_bytes n))"
  using assms eeprom_okD(3)[OF assms(1), of base "header_bytes n" ee]
  by (simp add: write_header_def header_bytes_def)

lemma read_header_ok:
  assumes "eeprom_ok P" "base + 4 \<le> EEPROM_USED" "get_bytes ee base 4 = header_bytes n" "n < 2 ^ 16"
  shows "read_header P ee base = (0, n)"
proof -
  have "rd_u16 2 (header_bytes n) = word_of_nat n"
    using rd_append_left(3)[of "[STORAGE_MAGIC_0, STORAGE_MAGIC_1]" 2 "by16 (word_of_nat n)"]
    by (simp add: header_bytes_def rd_exact)
  then have "unat (rd_u16 2 (header_bytes n)) = n"
    using assms(4) by (simp add: unat_of_nat)
  moreover have "header_bytes n ! 0 = STORAGE_MAGIC_0" "header_bytes n ! 1 = STORAGE_MAGIC_1"
    by (simp_all add: header_bytes_def)
  ultimately show ?thesis
    using eeprom_okD(2)[OF assms(1,2), of ee] assms(3) by (simp add: read_header_def)
qed

section \<open>What a partition holds\<close>

text \<open>The header counts the entries and slot \<open>i\<close> contains the \<open>i\<close>-th of them.\<close>
definition holds_table :: "memory \<Rightarrow> nat \<Rightarrow> nat \<Rightarrow> bytes list \<Rightarrow> bool" where
  "holds_table ee base w bss \<longleftrightarrow> get_bytes ee base 4 = header_bytes (length bss) \<and>
     (\<forall>i<length bss. get_bytes ee (base + 4 + w * i) w = bss ! i)"

lemma holds_table_frame:
  assumes "holds_table ee base w bss"
    "a + length bs \<le> base \<or> base + 4 + w * length bss \<le> a"
  shows "holds_table (put_bytes ee a bs) base w bss"
proof -
  have in_part: "base + 4 + w * i + w \<le> base + 4 + w * length bss" if "i < length bss" for i
    using that by (metis Suc_leI add_le_cancel_left add.assoc add.commute mult_Suc_right mult_le_mono2)
  have "get_bytes (put_bytes ee a bs) base 4 = get_bytes ee base 4"
    by (rule get_put_bytes_disjoint) (use assms(2) in auto)
  moreover have "get_bytes (put_bytes ee a bs) (base + 4 + w * i) w = get_bytes ee (base + 4 + w * i) w"
    if "i < length bss" for i
    by (rule get_put_bytes_disjoint) (use assms(2) in_part[OF that] in auto)
  ultimately show ?thesis using assms(1) by (simp add: holds_table_def)
qed

text \<open>The image that a flush leaves.\<close>
definition table_image :: "memory \<Rightarrow> nat \<Rightarrow> bytes list \<Rightarrow> memory" where
  "table_image ee base bss =
     put_bytes (put_bytes ee (base + 4) (concat bss)) base (header_bytes (length bss))"

lemma holds_table_image:
  assumes "\<And>x. x \<in> set bss \<Longrightarrow> length x = w"
  shows "holds_table (table_image ee base bss) base w bss"
proof -
  let ?m = "put_bytes ee (base + 4) (concat bss)"
  have "get_bytes (put_bytes ?m base (header_bytes (length bss))) base 4 = header_bytes (length bss)"
    using get_put_bytes_same[of ?m base "header_bytes (length bss)"] by simp
  moreover have "get_bytes (put_bytes ?m base (header_bytes (length bss))) (base + 4 + w * i) w = bss ! i"
    if "i < length bss" for i
    using get_slot_put_slots[OF assms that, of ee "base + 4"]
    by (subst get_put_bytes_disjoint) auto
  ultimately show ?thesis by (simp add: holds_table_def table_image_def)
qed

lemma holds_table_image_other:
  assumes "holds_table ee b w bss" "\<And>x. x \<in> set css \<Longrightarrow> length x = v"
    "base + 4 + v * length css \<le> b \<or> b + 4 + w * length bss \<le> base"
  shows "holds_table (table_image ee base css) b w bss"
proof -
  have "holds_table (put_bytes ee (base + 4) (concat css)) b w bss"
    by (rule holds_table_frame[OF assms(1)])
      (use assms(3) in \<open>auto simp: length_concat_slots[OF assms(2)]\<close>)
  then show ?thesis
    unfolding table_image_def by (rule holds_table_frame) (use assms(3) in auto)
qed

section \<open>Flushing and loading a RAM table\<close>

lemma flush_entries_append:
  "flush_entries P base stamp enc (is @ js) xs ee =
    (case flush_entries P base stamp enc is xs ee of (err, xs', ee') \<Rightarrow>
       if err \<noteq> 0 then (err, xs', ee') else flush_entries P base stamp enc js xs' ee')"
  by (induction "is" arbitrary: xs ee) (auto simp: Let_def split_beta)

locale device_table =
  fixes base esize cap :: nat
    and enc :: "'a \<Rightarrow> bytes"
    and stamp :: "platform \<Rightarrow> 'a \<Rightarrow> 'a"
  assumes length_enc: "length (enc d) = esize"
    and stamp_crc: "entry_crc_ok P (enc (stamp P d))"
    and stamp_stamp: "stamp P (stamp P d) = stamp P d"
    and fits: "base + 4 + esize * cap \<le> EEPROM_USED"
begin

lemma flush_ok:
  assumes "eeprom_ok P" "n \<le> length xs" "n \<le> cap"
  shows "flush_entries P base (stamp P) enc [0..<n] xs ee =
    (0, map (stamp P) (take n xs) @ drop n xs,
     put_bytes ee (base + 4) (concat (map (\<lambda>d. enc (stamp P d)) (take n xs))))"
  using assms(2,3)
proof (induction n)
  case (Suc n)
  let ?ys = "map (stamp P) (take n xs) @ drop n xs"
  let ?c = "concat (map (\<lambda>d. enc (stamp P d)) (take n xs))"
  have "length ?c = esize * n"
    by (subst length_concat_slots[of _ esize]) (use Suc.prems in \<open>auto simp: length_enc\<close>)
  moreover have "esize * n + esize \<le> esize * cap"
    using Suc.prems by (metis add.commute mult_Suc_right mult_le_mono2)
  then have "base + 4 + esize * n + esize \<le> EEPROM_USED" using fits by linarith
  then have "write_entry P (put_bytes ee (base + 4) ?c) base n (enc (stamp P (xs ! n)))
    = (0, put_bytes (put_bytes ee (base + 4) ?c) (base + 4 + esize * n) (enc (stamp P (xs ! n))))"
    using eeprom_okD(3)[OF assms(1)] by (simp add: write_entry_def length_enc)
  ultimately have w: "write_entry P (put_bytes ee (base + 4) ?c) base n (enc (stamp P (xs ! n)))
    = (0, put_bytes ee (base + 4) (?c @ enc (stamp P (xs ! n))))"
    using put_bytes_append[of ee "base + 4" ?c "enc (stamp P (xs ! n))"] by simp
  have "flush_entries P base (stamp P) enc [0..<Suc n] xs ee =
    flush_entries P base (stamp P) enc [n] ?ys (put_bytes ee (base + 4) ?c)"
    using Suc by (simp add: flush_entries_append)
  also have "\<dots> = (0, ?ys[n := stamp P (xs ! n)],
     put_bytes ee (base + 4) (?c @ enc (stamp P (xs ! n))))"
    using Suc.prems w by (simp add: nth_append)
  also have "?ys[n := stamp P (xs ! n)] = map (stamp P) (take (Suc n) xs) @ drop (Suc n) xs"
    using Suc.prems
    by (simp add: list_update_append take_Suc_conv_app_nth Cons_nth_drop_Suc[symmetric])
  finally show ?case using Suc.prems by (simp add: take_Suc_conv_app_nth)
qed simp

text \<open>A slot that holds a stamped entry reads back without an error and with a valid checksum.\<close>
lemma read_slot:
  assumes "eeprom_ok P" "i < length ds" "length ds \<le> cap"
    "\<forall>d\<in>set ds. stamp P d = d" "holds_table ee base esize (map enc ds)"
  shows "read_entry P ee base i esize = (0, enc (ds ! i))" "entry_crc_ok P (enc (ds ! i))"
proof -
  have "esize * i + esize \<le> esize * cap"
    using assms(2,3) by (metis Suc_leI add.commute le_trans mult_Suc_right mult_le_mono2)
  then have "base + 4 + esize * i + esize \<le> EEPROM_USED" using fits by linarith
  then show "read_entry P ee base i esize = (0, enc (ds ! i))"
    using assms eeprom_okD(2)[OF assms(1), of "base + 4 + esize * i" esize ee]
    by (simp add: read_entry_def holds_table_def)
  show "entry_crc_ok P (enc (ds ! i))"
    using stamp_crc[of P "ds ! i"] assms(2,4) by simp
qed

end

lemma entry_crc_ok_stamped:
  "entry_crc_ok P (bs @ by32 c) \<longleftrightarrow> c = pf_crc32 P bs"
  by (auto simp: entry_crc_ok_def entry_crc32_def wire_simps)

lemma entry_crc32_append: "entry_crc32 P (bs @ by32 c) = pf_crc32 P bs"
  by (simp add: entry_crc32_def)

definition infra_body :: "infra_entry \<Rightarrow> bytes" where
  "infra_body e = by8 (ie_device_type e) @ by16 (ie_device_id e) @ by8 (ie_hop_num e) @
     by16 (ie_version e) @ by16 (ie_rssi_2 e)"

definition sensor_body :: "sensor_entry \<Rightarrow> bytes" where
  "sensor_body e = by16 (se_device_id e) @ by16 (se_version e)"

lemma body_simps [simp]:
  "length (infra_body ie) = 8" "infra_body (ie\<lparr>ie_crc32 := c\<rparr>) = infra_body ie"
  "length (sensor_body se) = 4" "sensor_body (se\<lparr>se_crc32 := c\<rparr>) = sensor_body se"
  by (simp_all add: infra_body_def sensor_body_def)

lemma enc_infra_entry_body: "enc_infra_entry e = infra_body e @ by32 (ie_crc32 e)"
  by (simp add: enc_infra_entry_def infra_body_def)

lemma enc_sensor_entry_body: "enc_sensor_entry e = sensor_body e @ by32 (se_crc32 e)"
  by (simp add: enc_sensor_entry_def sensor_body_def)

lemma stamp_infra_eq:
  "stamp_infra P d = d\<lparr>in_entry := (in_entry d)\<lparr>ie_crc32 := pf_crc32 P (infra_body (in_entry d))\<rparr>\<rparr>"
  by (simp add: stamp_infra_def enc_infra_entry_body entry_crc32_append)

lemma stamp_sensor_eq:
  "stamp_sensor P d = d\<lparr>sn_entry := (sn_entry d)\<lparr>se_crc32 := pf_crc32 P (sensor_body (sn_entry d))\<rparr>\<rparr>"
  by (simp add: stamp_sensor_def enc_sensor_entry_body entry_crc32_append)

interpretation infra_tab: device_table STORAGE_INFRA_OFFSET INFRA_ENTRY_SIZE MAX_ANCHORS
  "enc_infra_entry \<circ> in_entry" stamp_infra
  by unfold_locales
    (simp_all add: stamp_infra_eq enc_infra_entry_body entry_crc_ok_stamped)

interpretation sensor_tab: device_table STORAGE_SENSOR_OFFSET SENSOR_ENTRY_SIZE MAX_SENSORS
  "enc_sensor_entry \<circ> sn_entry" stamp_sensor
  by unfold_locales
    (simp_all add: stamp_sensor_eq enc_sensor_entry_body entry_crc_ok_stamped)

section \<open>The sort order\<close>

interpretation infra_order: exchange_order infra_gt
  by unfold_locales (auto simp: infra_gt_def word_sless_alt)

lemma infra_gt_stamp [simp]: "infra_gt (stamp_infra P a) (stamp_infra Q b) = infra_gt a b"
  by (simp add: infra_gt_def stamp_infra_eq)

end
