(* ===== verification/Storage_Correct.thy ===== *)
theory Storage_Correct
  imports Storage_Lemmas
begin

text \<open>
  The two invariants of the device tables and the theorems about the operations of
  src/storage.c that rest on them.
\<close>

section \<open>Well-formed tables\<close>

definition storage_wf :: "storage \<Rightarrow> bool" where
  "storage_wf s \<longleftrightarrow>
     length (st_infra s) = MAX_ANCHORS \<and> st_infra_count s \<le> MAX_ANCHORS \<and>
     length (st_sensors s) = MAX_SENSORS \<and> st_sensor_count s \<le> MAX_SENSORS \<and>
     length (st_mesh s) = MAX_DEVICES \<and> st_mesh_count s \<le> MAX_DEVICES"

lemma storage_wfD:
  assumes "storage_wf s"
  shows "length (st_infra s) = MAX_ANCHORS" "st_infra_count s \<le> MAX_ANCHORS"
    "length (st_sensors s) = MAX_SENSORS" "st_sensor_count s \<le> MAX_SENSORS"
    "length (st_mesh s) = MAX_DEVICES" "st_mesh_count s \<le> MAX_DEVICES"
  using assms by (simp_all add: storage_wf_def)

lemma length_flush_entries:
  "length (fst (snd (flush_entries P base stamp enc is xs ee))) = length xs"
  by (induction "is" arbitrary: xs ee) (auto simp: Let_def split_beta)

lemma flush_infra_counts [frame_simps]:
  "st_infra_count (snd (flush_infra_to_eeprom P s)) = st_infra_count s"
  "length (st_infra (snd (flush_infra_to_eeprom P s))) = length (st_infra s)"
  "st_sensor_count (snd (flush_infra_to_eeprom P s)) = st_sensor_count s"
  "st_sensors (snd (flush_infra_to_eeprom P s)) = st_sensors s"
  "st_mesh_count (snd (flush_infra_to_eeprom P s)) = st_mesh_count s"
  "st_mesh (snd (flush_infra_to_eeprom P s)) = st_mesh s"
  by (simp_all add: flush_infra_to_eeprom_def split_beta Let_def length_flush_entries)

lemma flush_sensors_counts [frame_simps]:
  "st_infra_count (snd (flush_sensors_to_eeprom P s)) = st_infra_count s"
  "st_infra (snd (flush_sensors_to_eeprom P s)) = st_infra s"
  "st_sensor_count (snd (flush_sensors_to_eeprom P s)) = st_sensor_count s"
  "length (st_sensors (snd (flush_sensors_to_eeprom P s))) = length (st_sensors s)"
  "st_mesh_count (snd (flush_sensors_to_eeprom P s)) = st_mesh_count s"
  "st_mesh (snd (flush_sensors_to_eeprom P s)) = st_mesh s"
  by (simp_all add: flush_sensors_to_eeprom_def split_beta Let_def length_flush_entries)

lemma sort_infra_counts [frame_simps]:
  "st_infra_count (sort_infra_devices s) = st_infra_count s"
  "length (st_infra (sort_infra_devices s)) = length (st_infra s)"
  "st_sensor_count (sort_infra_devices s) = st_sensor_count s"
  "st_sensors (sort_infra_devices s) = st_sensors s"
  "st_mesh_count (sort_infra_devices s) = st_mesh_count s"
  "st_mesh (sort_infra_devices s) = st_mesh s"
  "st_ee (sort_infra_devices s) = st_ee s"
  by (simp_all add: sort_infra_devices_def)

text \<open>No assumption on the EEPROM: every operation, on every branch, keeps the tables well formed.\<close>

lemma storage_wf_infra [wf_intros]:
  assumes "storage_wf s"
  shows "storage_wf (snd (storage_infra_add P s e))" "storage_wf (snd (storage_infra_update P s i e))"
    "storage_wf (snd (storage_infra_remove P s i))" "storage_wf (snd (storage_infra_clear P s))"
  using assms
  by (auto simp: storage_wf_def storage_infra_add_def storage_infra_update_def
      storage_infra_remove_def storage_infra_clear_def frame_simps split_beta Let_def)

lemma storage_wf_sensor [wf_intros]:
  assumes "storage_wf s"
  shows "storage_wf (snd (storage_sensor_add P s se))" "storage_wf (snd (storage_sensor_update P s i se))"
    "storage_wf (snd (storage_sensor_remove P s i))" "storage_wf (snd (storage_sensor_clear P s))"
  using assms
  by (auto simp: storage_wf_def storage_sensor_add_def storage_sensor_update_def
      storage_sensor_remove_def storage_sensor_clear_def frame_simps split_beta Let_def)

lemma storage_wf_mesh [wf_intros]:
  assumes "storage_wf s"
  shows "storage_wf (snd (storage_mesh_add P s me))" "storage_wf (snd (storage_mesh_update P s i me))"
    "storage_wf (snd (storage_mesh_remove P s i))" "storage_wf (snd (storage_mesh_clear P s))"
  using assms
  by (auto simp: storage_wf_def storage_mesh_add_def storage_mesh_update_def
      storage_mesh_remove_def storage_mesh_clear_def frame_simps split_beta Let_def)

section \<open>Tables and EEPROM in step\<close>

definition infra_sorted :: "storage \<Rightarrow> bool" where
  "infra_sorted s \<longleftrightarrow> sorted_wrt (\<lambda>a b. \<not> infra_gt a b) (infra_devs s)"

definition infra_synced :: "platform \<Rightarrow> storage \<Rightarrow> bool" where
  "infra_synced P s \<longleftrightarrow> (\<forall>d\<in>set (infra_devs s). stamp_infra P d = d) \<and>
     holds_table (st_ee s) STORAGE_INFRA_OFFSET INFRA_ENTRY_SIZE
       (map (enc_infra_entry \<circ> in_entry) (infra_devs s))"

definition sensor_synced :: "platform \<Rightarrow> storage \<Rightarrow> bool" where
  "sensor_synced P s \<longleftrightarrow> (\<forall>d\<in>set (sensor_devs s). stamp_sensor P d = d) \<and>
     holds_table (st_ee s) STORAGE_SENSOR_OFFSET SENSOR_ENTRY_SIZE
       (map (enc_sensor_entry \<circ> sn_entry) (sensor_devs s))"

definition mesh_slot :: "memory \<Rightarrow> nat \<Rightarrow> bytes" where
  "mesh_slot ee i = get_bytes ee (STORAGE_MESH_OFFSET + STORAGE_HEADER_SIZE + MESH_ENTRY_SIZE * i)
     MESH_ENTRY_SIZE"

definition mesh_synced :: "platform \<Rightarrow> storage \<Rightarrow> bool" where
  "mesh_synced P s \<longleftrightarrow>
     get_bytes (st_ee s) STORAGE_MESH_OFFSET 4 = header_bytes (st_mesh_count s) \<and>
     (\<forall>i < st_mesh_count s. entry_crc_ok P (mesh_slot (st_ee s) i) \<and>
        mesh_of_entry (dec_mesh_entry (mesh_slot (st_ee s) i)) = st_mesh s ! i)"

definition storage_ok :: "platform \<Rightarrow> storage \<Rightarrow> bool" where
  "storage_ok P s \<longleftrightarrow> storage_wf s \<and> infra_sorted s \<and> infra_synced P s \<and> sensor_synced P s \<and>
     mesh_synced P s"

lemma storage_okD:
  assumes "storage_ok P s"
  shows "storage_wf s" "infra_sorted s" "infra_synced P s" "sensor_synced P s" "mesh_synced P s"
  using assms by (simp_all add: storage_ok_def)

text \<open>Each part depends on its own table and its own partition only.\<close>

lemma mesh_synced_frame:
  assumes "mesh_synced P s" "a + length bs \<le> STORAGE_MESH_OFFSET"
    "st_mesh_count s' = st_mesh_count s" "st_mesh s' = st_mesh s" "st_ee s' = put_bytes (st_ee s) a bs"
  shows "mesh_synced P s'"
  using assms by (simp add: mesh_synced_def mesh_slot_def get_put_bytes_disjoint)

lemma mesh_synced_image:
  assumes "mesh_synced P s" "\<And>x. x \<in> set bss \<Longrightarrow> length x = w"
    "base + 4 + w * length bss \<le> STORAGE_MESH_OFFSET"
    "st_mesh_count s' = st_mesh_count s" "st_mesh s' = st_mesh s" "st_ee s' = table_image (st_ee s) base bss"
  shows "mesh_synced P s'"
proof -
  let ?t = "s\<lparr>st_ee := put_bytes (st_ee s) (base + 4) (concat bss)\<rparr>"
  have "mesh_synced P ?t"
    by (rule mesh_synced_frame[OF assms(1)])
      (use assms(3) in \<open>simp_all add: length_concat_slots[OF assms(2)]\<close>)
  then show ?thesis
    by (rule mesh_synced_frame) (use assms(3-6) in \<open>simp_all add: table_image_def\<close>)
qed

lemma infra_synced_cong:
  "infra_devs s' = infra_devs s \<Longrightarrow> st_ee s' = st_ee s \<Longrightarrow> infra_synced P s' = infra_synced P s"
  by (simp add: infra_synced_def)

section \<open>Infrastructure table\<close>

lemma flush_infra_ok:
  assumes "eeprom_ok P" "storage_wf s"
  shows "flush_infra_to_eeprom P s = (0, s\<lparr>
    st_infra := map (stamp_infra P) (infra_devs s) @ drop (st_infra_count s) (st_infra s),
    st_ee := table_image (st_ee s) STORAGE_INFRA_OFFSET
      (map (\<lambda>d. enc_infra_entry (in_entry (stamp_infra P d))) (infra_devs s))\<rparr>)"
  using storage_wfD[OF assms(2)] assms(1)
  by (simp add: flush_infra_to_eeprom_def infra_tab.flush_ok write_header_ok table_image_def)

lemma flush_infra_storage_ok:
  assumes "eeprom_ok P" "storage_wf s" "sorted_wrt (\<lambda>a b. \<not> infra_gt a b) (infra_devs s)"
    "sensor_synced P s" "mesh_synced P s"
  shows "fst (flush_infra_to_eeprom P s) = 0" "storage_ok P (snd (flush_infra_to_eeprom P s))"
    "infra_devs (snd (flush_infra_to_eeprom P s)) = map (stamp_infra P) (infra_devs s)"
proof -
  let ?bss = "map (\<lambda>d. enc_infra_entry (in_entry (stamp_infra P d))) (infra_devs s)"
  let ?s = "snd (flush_infra_to_eeprom P s)"
  note wf = storage_wfD[OF assms(2)]
  note eq = flush_infra_ok[OF assms(1,2)]
  show "fst (flush_infra_to_eeprom P s) = 0" by (simp add: eq)
  show devs: "infra_devs ?s = map (stamp_infra P) (infra_devs s)"
    using wf by (simp add: eq min_def)
  have len: "x \<in> set ?bss \<Longrightarrow> length x = 12" for x by auto
  have room: "4 + 12 * length ?bss \<le> 0x80" using wf by simp
  have "storage_wf ?s" using wf by (simp add: storage_wf_def eq)
  moreover have "infra_sorted ?s"
    using assms(3) unfolding infra_sorted_def devs by (simp add: sorted_wrt_map)
  moreover have "infra_synced P ?s"
    unfolding infra_synced_def devs
    using holds_table_image[of ?bss 12 "st_ee s" 0, OF len]
    by (auto simp: eq comp_def infra_tab.stamp_stamp)
  moreover have "sensor_synced P ?s"
    using assms(4) holds_table_image_other[where css = ?bss and v = 12 and base = 0 and b = "0x80"] room len
    by (auto simp: sensor_synced_def eq)
  moreover have "mesh_synced P ?s"
    by (rule mesh_synced_image[OF assms(5) len, where base = 0]) (use room in \<open>simp_all add: eq\<close>)
  ultimately show "storage_ok P ?s" by (simp add: storage_ok_def)
qed

lemma sort_infra_devs:
  assumes "storage_wf s"
  shows "sorted_wrt (\<lambda>a b. \<not> infra_gt a b) (infra_devs (sort_infra_devices s))"
    "mset (infra_devs (sort_infra_devices s)) = mset (infra_devs s)"
proof -
  note wf = storage_wfD[OF assms]
  have n: "st_infra_count s \<le> length (st_infra s)" using wf by simp
  show "mset (infra_devs (sort_infra_devices s)) = mset (infra_devs s)"
    using n by (simp add: sort_infra_devices_def mset_take_bubble_sort)
  show "sorted_wrt (\<lambda>a b. \<not> infra_gt a b) (infra_devs (sort_infra_devices s))"
  proof (cases "st_infra_count s < 2")
    case True
    then have "infra_devs s = [] \<or> (\<exists>x. infra_devs s = [x])"
      by (cases "infra_devs s" rule: list.exhaust; cases "tl (infra_devs s)")
        (auto dest!: arg_cong[where f = length])
    then show ?thesis using True by (auto simp: sort_infra_devices_def)
  next
    case False
    then show ?thesis
      using infra_order.bubble_sort_sorted[OF n] n
      by (simp add: sort_infra_devices_def sorted_wrt_iff_nth_less)
  qed
qed

lemma storage_wf_sort [wf_intros]: "storage_wf s \<Longrightarrow> storage_wf (sort_infra_devices s)"
  by (simp add: storage_wf_def frame_simps)

text \<open>Sorting and flushing any well-formed table.\<close>
lemma sort_flush_ok:
  assumes "eeprom_ok P" "storage_wf s" "sensor_synced P s" "mesh_synced P s"
  defines "r \<equiv> flush_infra_to_eeprom P (sort_infra_devices s)"
  shows "fst r = 0" "storage_ok P (snd r)"
    "mset (infra_devs (snd r)) = image_mset (stamp_infra P) (mset (infra_devs s))"
proof -
  note wf = storage_wf_sort[OF assms(2)]
  have "sensor_synced P (sort_infra_devices s)" "mesh_synced P (sort_infra_devices s)"
    using assms(3,4) by (simp_all add: sensor_synced_def mesh_synced_def frame_simps)
  note f = flush_infra_storage_ok[OF assms(1) wf sort_infra_devs(1)[OF assms(2)] this]
  show "fst r = 0" "storage_ok P (snd r)" using f unfolding r_def by auto
  have "mset (infra_devs (snd r)) = mset (map (stamp_infra P) (infra_devs (sort_infra_devices s)))"
    unfolding r_def f(3) ..
  also have "\<dots> = image_mset (stamp_infra P) (mset (infra_devs s))"
    using sort_infra_devs(2)[OF assms(2)] by simp
  finally show "mset (infra_devs (snd r)) = image_mset (stamp_infra P) (mset (infra_devs s))" .
qed

lemma stamped_image:
  assumes "infra_synced P s"
  shows "image_mset (stamp_infra P) (mset (infra_devs s)) = mset (infra_devs s)"
  using assms
  by (metis (no_types, lifting) infra_synced_def map_idI mset_map)

text \<open>
  Every operation keeps \<open>storage_ok\<close>. \<open>new_infra\<close> is the RAM record of a freshly added entry.
\<close>

definition new_infra :: "infra_entry \<Rightarrow> infra" where
  "new_infra e = \<lparr>in_entry = e, in_last_comm_ms = 0, in_comm_failures = 0, in_ping_sent = False\<rparr>"

lemma storage_infra_add_lemma:
  assumes "eeprom_ok P" "storage_ok P s" "st_infra_count s < MAX_ANCHORS"
  shows "fst (storage_infra_add P s e) = 0" "storage_ok P (snd (storage_infra_add P s e))"
    "mset (infra_devs (snd (storage_infra_add P s e)))
      = add_mset (stamp_infra P (new_infra e)) (mset (infra_devs s))"
proof -
  let ?t = "s\<lparr>st_infra := (st_infra s)[st_infra_count s := new_infra e],
    st_infra_count := st_infra_count s + 1\<rparr>"
  note ok = storage_okD[OF assms(2)]
  note wf = storage_wfD[OF ok(1)]
  have eq: "storage_infra_add P s e = flush_infra_to_eeprom P (sort_infra_devices ?t)"
    using assms(3) by (simp add: storage_infra_add_def new_infra_def)
  have wft: "storage_wf ?t" using wf assms(3) by (simp add: storage_wf_def)
  have sy: "sensor_synced P ?t" "mesh_synced P ?t"
    using ok by (simp_all add: sensor_synced_def mesh_synced_def)
  note r = sort_flush_ok[OF assms(1) wft sy]
  show "fst (storage_infra_add P s e) = 0" "storage_ok P (snd (storage_infra_add P s e))"
    using r by (simp_all add: eq)
  have "infra_devs ?t = infra_devs s @ [new_infra e]"
    using wf assms(3) by (simp add: take_Suc_conv_app_nth)
  then show "mset (infra_devs (snd (storage_infra_add P s e)))
      = add_mset (stamp_infra P (new_infra e)) (mset (infra_devs s))"
    using r(3) stamped_image[OF ok(3)] by (simp add: eq)
qed

lemma storage_infra_update_lemma:
  assumes "eeprom_ok P" "storage_ok P s" "i < st_infra_count s"
  shows "fst (storage_infra_update P s i e) = 0" "storage_ok P (snd (storage_infra_update P s i e))"
    "mset (infra_devs (snd (storage_infra_update P s i e)))
      = image_mset (stamp_infra P) (mset ((infra_devs s)[i := (st_infra s ! i)\<lparr>in_entry := e\<rparr>]))"
proof -
  let ?t = "s\<lparr>st_infra := (st_infra s)[i := (st_infra s ! i)\<lparr>in_entry := e\<rparr>]\<rparr>"
  note ok = storage_okD[OF assms(2)]
  have eq: "storage_infra_update P s i e = flush_infra_to_eeprom P (sort_infra_devices ?t)"
    using assms(3) by (simp add: storage_infra_update_def)
  have wft: "storage_wf ?t" using ok(1) by (simp add: storage_wf_def)
  have sy: "sensor_synced P ?t" "mesh_synced P ?t"
    using ok by (simp_all add: sensor_synced_def mesh_synced_def)
  note r = sort_flush_ok[OF assms(1) wft sy]
  show "fst (storage_infra_update P s i e) = 0" "storage_ok P (snd (storage_infra_update P s i e))"
    using r by (simp_all add: eq)
  show "mset (infra_devs (snd (storage_infra_update P s i e)))
      = image_mset (stamp_infra P) (mset ((infra_devs s)[i := (st_infra s ! i)\<lparr>in_entry := e\<rparr>]))"
    using r(3) by (simp add: eq take_update_swap)
qed

lemma set_remove_nth: "d \<in> set (take i xs @ drop j xs) \<Longrightarrow> d \<in> set xs"
  by (auto dest: in_set_takeD in_set_dropD)

lemma sorted_wrt_remove:
  assumes "sorted_wrt R xs"
  shows "sorted_wrt R (take i xs @ drop (Suc i) xs)"
proof (cases "i < length xs")
  case True
  have "sorted_wrt R (take i xs @ xs ! i # drop (Suc i) xs)"
    using assms by (simp add: id_take_nth_drop[OF True, symmetric])
  then show ?thesis by (simp add: sorted_wrt_append)
qed (use assms in simp)

lemma storage_infra_remove_lemma:
  assumes "eeprom_ok P" "storage_ok P s" "i < st_infra_count s"
  shows "fst (storage_infra_remove P s i) = 0" "storage_ok P (snd (storage_infra_remove P s i))"
    "infra_devs (snd (storage_infra_remove P s i)) = take i (infra_devs s) @ drop (Suc i) (infra_devs s)"
proof -
  let ?t = "s\<lparr>st_infra := shift_down i (st_infra_count s) (st_infra s),
    st_infra_count := st_infra_count s - 1\<rparr>"
  note ok = storage_okD[OF assms(2)]
  note wf = storage_wfD[OF ok(1)]
  have eq: "storage_infra_remove P s i = flush_infra_to_eeprom P ?t"
    using assms(3) by (simp add: storage_infra_remove_def)
  have wft: "storage_wf ?t" using wf by (simp add: storage_wf_def)
  have devs: "infra_devs ?t = take i (infra_devs s) @ drop (Suc i) (infra_devs s)"
    using take_shift_down[of i "st_infra_count s" "st_infra s"] assms(3) wf by (simp add: min_def)
  have so: "sorted_wrt (\<lambda>a b. \<not> infra_gt a b) (infra_devs ?t)"
    unfolding devs by (rule sorted_wrt_remove) (use ok in \<open>simp add: infra_sorted_def\<close>)
  have sy: "sensor_synced P ?t" "mesh_synced P ?t"
    using ok by (simp_all add: sensor_synced_def mesh_synced_def)
  note r = flush_infra_storage_ok[OF assms(1) wft so sy]
  show "fst (storage_infra_remove P s i) = 0" "storage_ok P (snd (storage_infra_remove P s i))"
    using r by (simp_all add: eq)
  have "\<forall>d\<in>set (infra_devs ?t). stamp_infra P d = d"
    using ok(3) unfolding devs infra_synced_def by (blast dest: set_remove_nth)
  then have "map (stamp_infra P) (infra_devs ?t) = infra_devs ?t" by (simp add: map_idI)
  then show "infra_devs (snd (storage_infra_remove P s i))
      = take i (infra_devs s) @ drop (Suc i) (infra_devs s)"
    using r(3) devs by (simp add: eq)
qed

end
