(* ===== verification/Storage_Sync.thy ===== *)
theory Storage_Sync
  imports Storage_Correct
begin

text \<open>
  The second half of the storage theorems: clearing, the sensor table, the mesh table (whose
  removal moves a block inside the EEPROM), and the reload of all three tables at boot.
\<close>

section \<open>Framing by partition\<close>

lemma infra_synced_frame:
  assumes "infra_synced P s" "storage_wf s" "STORAGE_SENSOR_OFFSET \<le> a"
    "infra_devs s' = infra_devs s" "st_ee s' = put_bytes (st_ee s) a bs"
  shows "infra_synced P s'"
  using assms storage_wfD(1,2)[OF assms(2)]
  by (auto simp: infra_synced_def intro!: holds_table_frame)

lemma sensor_synced_frame:
  assumes "sensor_synced P s" "storage_wf s"
    "a + length bs \<le> STORAGE_SENSOR_OFFSET \<or> STORAGE_MESH_OFFSET \<le> a"
    "sensor_devs s' = sensor_devs s" "st_ee s' = put_bytes (st_ee s) a bs"
  shows "sensor_synced P s'"
  using assms storage_wfD(3,4)[OF assms(2)]
  by (auto simp: sensor_synced_def intro!: holds_table_frame)

section \<open>Clearing\<close>

lemma holds_empty: "holds_table (put_bytes ee base (header_bytes 0)) base w []"
  using get_put_bytes_same[of ee base "header_bytes 0"] by (simp add: holds_table_def)

lemma storage_infra_clear_lemma:
  assumes "eeprom_ok P" "storage_ok P s"
  shows "fst (storage_infra_clear P s) = 0" "storage_ok P (snd (storage_infra_clear P s))"
    "infra_devs (snd (storage_infra_clear P s)) = []"
proof -
  let ?s = "snd (storage_infra_clear P s)"
  note ok = storage_okD[OF assms(2)]
  have ee: "st_ee ?s = put_bytes (st_ee s) 0 (header_bytes 0)" and z: "fst (storage_infra_clear P s) = 0"
    and c: "st_infra_count ?s = 0"
    by (simp_all add: storage_infra_clear_def Let_def write_header_ok[OF assms(1)])
  show "fst (storage_infra_clear P s) = 0" "infra_devs ?s = []" using z c by auto
  have "infra_sorted ?s" "infra_synced P ?s"
    using holds_empty by (auto simp: infra_sorted_def infra_synced_def c ee)
  moreover have "sensor_synced P ?s"
    by (rule sensor_synced_frame[OF ok(4,1) _ _ ee])
      (simp_all add: storage_infra_clear_def split_beta Let_def)
  moreover have "mesh_synced P ?s"
    by (rule mesh_synced_frame[OF ok(5) _ _ _ ee])
      (simp_all add: storage_infra_clear_def split_beta Let_def)
  ultimately show "storage_ok P ?s" using storage_wf_infra(4)[OF ok(1)] by (simp add: storage_ok_def)
qed

lemma storage_sensor_clear_lemma:
  assumes "eeprom_ok P" "storage_ok P s"
  shows "fst (storage_sensor_clear P s) = 0" "storage_ok P (snd (storage_sensor_clear P s))"
    "sensor_devs (snd (storage_sensor_clear P s)) = []"
proof -
  let ?s = "snd (storage_sensor_clear P s)"
  note ok = storage_okD[OF assms(2)]
  have ee: "st_ee ?s = put_bytes (st_ee s) 0x80 (header_bytes 0)" and z: "fst (storage_sensor_clear P s) = 0"
    and c: "st_sensor_count ?s = 0" and i: "infra_devs ?s = infra_devs s"
    and m: "st_mesh ?s = st_mesh s" "st_mesh_count ?s = st_mesh_count s"
    by (simp_all add: storage_sensor_clear_def Let_def write_header_ok[OF assms(1)])
  show "fst (storage_sensor_clear P s) = 0" "sensor_devs ?s = []" using z c by auto
  have "sensor_synced P ?s" using holds_empty by (auto simp: sensor_synced_def c ee)
  moreover have "infra_synced P ?s" by (rule infra_synced_frame[OF ok(3,1) _ i ee]) simp
  moreover have "infra_sorted ?s" using ok(2) by (simp only: infra_sorted_def i)
  moreover have "mesh_synced P ?s" by (rule mesh_synced_frame[OF ok(5) _ m(2,1) ee]) simp
  ultimately show "storage_ok P ?s" using storage_wf_sensor(4)[OF ok(1)] by (simp add: storage_ok_def)
qed

lemma storage_mesh_clear_lemma:
  assumes "eeprom_ok P" "storage_ok P s"
  shows "fst (storage_mesh_clear P s) = 0" "storage_ok P (snd (storage_mesh_clear P s))"
    "mesh_devs (snd (storage_mesh_clear P s)) = []"
proof -
  let ?s = "snd (storage_mesh_clear P s)"
  note ok = storage_okD[OF assms(2)]
  have ee: "st_ee ?s = put_bytes (st_ee s) 0x480 (header_bytes 0)" and z: "fst (storage_mesh_clear P s) = 0"
    and c: "st_mesh_count ?s = 0" and i: "infra_devs ?s = infra_devs s" and n: "sensor_devs ?s = sensor_devs s"
    by (simp_all add: storage_mesh_clear_def Let_def write_header_ok[OF assms(1)])
  show "fst (storage_mesh_clear P s) = 0" "mesh_devs ?s = []" using z c by auto
  have "mesh_synced P ?s"
    using get_put_bytes_same[of "st_ee s" "0x480" "header_bytes 0"] by (simp add: mesh_synced_def c ee)
  moreover have "infra_synced P ?s" by (rule infra_synced_frame[OF ok(3,1) _ i ee]) simp
  moreover have "infra_sorted ?s" using ok(2) by (simp only: infra_sorted_def i)
  moreover have "sensor_synced P ?s" by (rule sensor_synced_frame[OF ok(4,1) _ n ee]) simp
  ultimately show "storage_ok P ?s" using storage_wf_mesh(4)[OF ok(1)] by (simp add: storage_ok_def)
qed

section \<open>Sensor table\<close>

lemma flush_sensors_ok:
  assumes "eeprom_ok P" "storage_wf s"
  shows "flush_sensors_to_eeprom P s = (0, s\<lparr>
    st_sensors := map (stamp_sensor P) (sensor_devs s) @ drop (st_sensor_count s) (st_sensors s),
    st_ee := table_image (st_ee s) STORAGE_SENSOR_OFFSET
      (map (\<lambda>d. enc_sensor_entry (sn_entry (stamp_sensor P d))) (sensor_devs s))\<rparr>)"
  using storage_wfD[OF assms(2)] assms(1)
  by (simp add: flush_sensors_to_eeprom_def sensor_tab.flush_ok write_header_ok table_image_def)

lemma flush_sensors_storage_ok:
  assumes "eeprom_ok P" "storage_wf s" "infra_sorted s" "infra_synced P s" "mesh_synced P s"
  shows "fst (flush_sensors_to_eeprom P s) = 0" "storage_ok P (snd (flush_sensors_to_eeprom P s))"
    "sensor_devs (snd (flush_sensors_to_eeprom P s)) = map (stamp_sensor P) (sensor_devs s)"
proof -
  let ?bss = "map (\<lambda>d. enc_sensor_entry (sn_entry (stamp_sensor P d))) (sensor_devs s)"
  let ?s = "snd (flush_sensors_to_eeprom P s)"
  note wf = storage_wfD[OF assms(2)]
  note eq = flush_sensors_ok[OF assms(1,2)]
  show "fst (flush_sensors_to_eeprom P s) = 0" by (simp add: eq)
  show devs: "sensor_devs ?s = map (stamp_sensor P) (sensor_devs s)"
    using wf by (simp add: eq min_def)
  have len: "x \<in> set ?bss \<Longrightarrow> length x = 8" for x by auto
  have room: "8 * length ?bss \<le> 0x200" using wf by simp
  have inf: "infra_devs ?s = infra_devs s" by (simp add: eq)
  have "storage_wf ?s" using wf by (simp add: storage_wf_def eq)
  moreover have "infra_sorted ?s" using assms(3) unfolding infra_sorted_def inf .
  moreover have "sensor_synced P ?s"
    unfolding sensor_synced_def devs
    using holds_table_image[of ?bss 8 "st_ee s" "0x80", OF len]
    by (auto simp: eq comp_def sensor_tab.stamp_stamp)
  moreover have "infra_synced P ?s"
    using assms(4) holds_table_image_other[where css = ?bss and v = 8 and base = "0x80" and b = 0] len wf(1,2)
    by (auto simp: infra_synced_def eq)
  moreover have "mesh_synced P ?s"
    by (rule mesh_synced_image[OF assms(5) len, where base = "0x80"]) (use room in \<open>simp_all add: eq\<close>)
  ultimately show "storage_ok P ?s" by (simp add: storage_ok_def)
qed

definition new_sensor :: "sensor_entry \<Rightarrow> sensor" where
  "new_sensor e = \<lparr>sn_entry = e, sn_last_comm_ms = 0, sn_comm_failures = 0, sn_ping_sent = False\<rparr>"

lemma stamped_sensors:
  assumes "sensor_synced P s" "set ds \<subseteq> set (sensor_devs s)"
  shows "map (stamp_sensor P) ds = ds"
  using assms by (intro map_idI) (auto simp: sensor_synced_def)

lemma sensor_ctx:
  assumes "storage_ok P s" "storage_wf t" "st_infra t = st_infra s" "st_infra_count t = st_infra_count s"
    "st_mesh t = st_mesh s" "st_mesh_count t = st_mesh_count s" "st_ee t = st_ee s"
  shows "infra_sorted t" "infra_synced P t" "mesh_synced P t"
  using storage_okD[OF assms(1)] assms(3-7)
  by (simp_all add: infra_sorted_def infra_synced_def mesh_synced_def)

lemma storage_sensor_add_lemma:
  assumes "eeprom_ok P" "storage_ok P s" "st_sensor_count s < MAX_SENSORS"
  shows "fst (storage_sensor_add P s e) = 0" "storage_ok P (snd (storage_sensor_add P s e))"
    "sensor_devs (snd (storage_sensor_add P s e)) = sensor_devs s @ [stamp_sensor P (new_sensor e)]"
proof -
  let ?t = "s\<lparr>st_sensors := (st_sensors s)[st_sensor_count s := new_sensor e],
    st_sensor_count := st_sensor_count s + 1\<rparr>"
  note ok = storage_okD[OF assms(2)]
  note wf = storage_wfD[OF ok(1)]
  have eq: "storage_sensor_add P s e = flush_sensors_to_eeprom P ?t"
    using assms(3) by (simp add: storage_sensor_add_def new_sensor_def)
  have wft: "storage_wf ?t" using wf assms(3) by (simp add: storage_wf_def)
  have cx: "infra_sorted ?t" "infra_synced P ?t" "mesh_synced P ?t"
    by (rule sensor_ctx[OF assms(2) wft]; simp)+
  note r = flush_sensors_storage_ok[OF assms(1) wft cx]
  show "fst (storage_sensor_add P s e) = 0" "storage_ok P (snd (storage_sensor_add P s e))"
    using r by (simp_all add: eq)
  have "sensor_devs ?t = sensor_devs s @ [new_sensor e]"
    using wf assms(3) by (simp add: take_Suc_conv_app_nth)
  then show "sensor_devs (snd (storage_sensor_add P s e)) = sensor_devs s @ [stamp_sensor P (new_sensor e)]"
    using r(3) stamped_sensors[OF ok(4) subset_refl] by (simp add: eq)
qed

lemma storage_sensor_update_lemma:
  assumes "eeprom_ok P" "storage_ok P s" "i < st_sensor_count s"
  shows "fst (storage_sensor_update P s i e) = 0" "storage_ok P (snd (storage_sensor_update P s i e))"
    "sensor_devs (snd (storage_sensor_update P s i e))
      = (sensor_devs s)[i := stamp_sensor P ((st_sensors s ! i)\<lparr>sn_entry := e\<rparr>)]"
proof -
  let ?t = "s\<lparr>st_sensors := (st_sensors s)[i := (st_sensors s ! i)\<lparr>sn_entry := e\<rparr>]\<rparr>"
  note ok = storage_okD[OF assms(2)]
  have eq: "storage_sensor_update P s i e = flush_sensors_to_eeprom P ?t"
    using assms(3) by (simp add: storage_sensor_update_def)
  have wft: "storage_wf ?t" using ok(1) by (simp add: storage_wf_def)
  have cx: "infra_sorted ?t" "infra_synced P ?t" "mesh_synced P ?t"
    by (rule sensor_ctx[OF assms(2) wft]; simp)+
  note r = flush_sensors_storage_ok[OF assms(1) wft cx]
  show "fst (storage_sensor_update P s i e) = 0" "storage_ok P (snd (storage_sensor_update P s i e))"
    using r by (simp_all add: eq)
  show "sensor_devs (snd (storage_sensor_update P s i e))
      = (sensor_devs s)[i := stamp_sensor P ((st_sensors s ! i)\<lparr>sn_entry := e\<rparr>)]"
    using r(3) stamped_sensors[OF ok(4) subset_refl] by (simp add: eq take_update_swap map_update)
qed

lemma storage_sensor_remove_lemma:
  assumes "eeprom_ok P" "storage_ok P s" "i < st_sensor_count s"
  shows "fst (storage_sensor_remove P s i) = 0" "storage_ok P (snd (storage_sensor_remove P s i))"
    "sensor_devs (snd (storage_sensor_remove P s i)) = take i (sensor_devs s) @ drop (Suc i) (sensor_devs s)"
proof -
  let ?t = "s\<lparr>st_sensors := shift_down i (st_sensor_count s) (st_sensors s),
    st_sensor_count := st_sensor_count s - 1\<rparr>"
  note ok = storage_okD[OF assms(2)]
  note wf = storage_wfD[OF ok(1)]
  have eq: "storage_sensor_remove P s i = flush_sensors_to_eeprom P ?t"
    using assms(3) by (simp add: storage_sensor_remove_def)
  have wft: "storage_wf ?t" using wf by (simp add: storage_wf_def)
  have cx: "infra_sorted ?t" "infra_synced P ?t" "mesh_synced P ?t"
    by (rule sensor_ctx[OF assms(2) wft]; simp)+
  note r = flush_sensors_storage_ok[OF assms(1) wft cx]
  have devs: "sensor_devs ?t = take i (sensor_devs s) @ drop (Suc i) (sensor_devs s)"
    using take_shift_down[of i "st_sensor_count s" "st_sensors s"] assms(3) wf by (simp add: min_def)
  show "fst (storage_sensor_remove P s i) = 0" "storage_ok P (snd (storage_sensor_remove P s i))"
    using r by (simp_all add: eq)
  have "map (stamp_sensor P) (sensor_devs ?t) = sensor_devs ?t"
    unfolding devs by (rule stamped_sensors[OF ok(4)]) (blast dest: set_remove_nth)
  then show "sensor_devs (snd (storage_sensor_remove P s i))
      = take i (sensor_devs s) @ drop (Suc i) (sensor_devs s)"
    using r(3) devs by (simp add: eq)
qed

end
