(* ===== verification/Storage_Reload.thy ===== *)
theory Storage_Reload
  imports Storage_Sync
begin

text \<open>
  The mesh table of the gateway (whose removal moves a block inside the EEPROM), and the reload
  of the tables by \<open>storage_init\<close>: after a reboot a device knows the same peers it had stored.
\<close>

section \<open>Mesh table\<close>

definition mesh_body :: "mesh_entry \<Rightarrow> bytes" where
  "mesh_body e = by8 (me_device_type e) @ by16 (me_device_id e) @ by64 (me_serial_num e) @
     by16 (me_version e) @ by16 (me_connected_device_id e) @ by8 (me_hop_num e) @
     by8 (me_sensor_count e)"

lemma mesh_body_simps [simp]:
  "length (mesh_body e) = 17" "mesh_body (e\<lparr>me_crc32 := c\<rparr>) = mesh_body e"
  "mesh_of_entry (e\<lparr>me_crc32 := c\<rparr>) = mesh_of_entry e"
  by (simp_all add: mesh_body_def mesh_of_entry_def)

lemma enc_mesh_entry_body: "enc_mesh_entry e = mesh_body e @ by32 (me_crc32 e)"
  by (simp add: enc_mesh_entry_def mesh_body_def)

lemma stamp_mesh_entry:
  "stamp_entry P (enc_mesh_entry e) = enc_mesh_entry (e\<lparr>me_crc32 := pf_crc32 P (mesh_body e)\<rparr>)"
  by (simp add: stamp_entry_def enc_mesh_entry_body entry_crc32_append)

lemma stamped_mesh_ok: "entry_crc_ok P (enc_mesh_entry (e\<lparr>me_crc32 := pf_crc32 P (mesh_body e)\<rparr>))"
  by (simp add: enc_mesh_entry_body entry_crc_ok_stamped)

lemma write_mesh_entry_ok:
  assumes "eeprom_ok P" "i < MAX_DEVICES"
  shows "write_entry_with_crc P ee STORAGE_MESH_OFFSET i (enc_mesh_entry e)
    = (0, put_bytes ee (STORAGE_MESH_OFFSET + STORAGE_HEADER_SIZE + MESH_ENTRY_SIZE * i)
        (enc_mesh_entry (e\<lparr>me_crc32 := pf_crc32 P (mesh_body e)\<rparr>)))"
  using assms(2)
  by (simp add: write_entry_with_crc_def write_entry_def stamp_mesh_entry eeprom_okD(3)[OF assms(1)])

lemma mesh_slot_put_slot:
  assumes "length bs = MESH_ENTRY_SIZE"
  shows "mesh_slot (put_bytes ee (STORAGE_MESH_OFFSET + STORAGE_HEADER_SIZE + MESH_ENTRY_SIZE * i) bs) j
    = (if j = i then bs else mesh_slot ee j)"
proof (cases "j = i")
  case True
  then show ?thesis
    using get_put_bytes_same[of ee "STORAGE_MESH_OFFSET + STORAGE_HEADER_SIZE + MESH_ENTRY_SIZE * i" bs]
      assms by (simp add: mesh_slot_def)
next
  case False
  then show ?thesis using assms by (simp add: mesh_slot_def) (subst get_put_bytes_disjoint; simp; linarith)
qed

lemma mesh_slot_put_header:
  "length h = 4 \<Longrightarrow> mesh_slot (put_bytes ee STORAGE_MESH_OFFSET h) i = mesh_slot ee i"
  by (simp add: mesh_slot_def get_put_bytes_disjoint)

text \<open>Writes at or above the mesh partition keep the other two.\<close>

lemma get_bytes_cong: "(\<And>i. a \<le> i \<Longrightarrow> i < a + n \<Longrightarrow> m i = m' i) \<Longrightarrow> get_bytes m a n = get_bytes m' a n"
  by (simp add: get_bytes_def)

lemma holds_table_cong:
  assumes "holds_table ee base w bss" "\<And>i. i < base + 4 + w * length bss \<Longrightarrow> ee' i = ee i"
  shows "holds_table ee' base w bss"
proof -
  have in_part: "base + 4 + w * i + w \<le> base + 4 + w * length bss" if "i < length bss" for i
    using that by (metis Suc_leI add_le_cancel_left add.assoc add.commute mult_Suc_right mult_le_mono2)
  have "get_bytes ee' base 4 = get_bytes ee base 4"
    by (rule get_bytes_cong) (simp add: assms(2))
  moreover have "get_bytes ee' (base + 4 + w * i) w = get_bytes ee (base + 4 + w * i) w"
    if "i < length bss" for i
    using in_part[OF that] by (intro get_bytes_cong) (simp add: assms(2))
  ultimately show ?thesis using assms(1) by (simp add: holds_table_def)
qed

lemma storage_ok_mesh_part:
  assumes "storage_ok P s" "\<And>a. a < STORAGE_MESH_OFFSET \<Longrightarrow> st_ee s' a = st_ee s a"
    "infra_devs s' = infra_devs s" "sensor_devs s' = sensor_devs s" "storage_wf s'" "mesh_synced P s'"
  shows "storage_ok P s'"
proof -
  note ok = storage_okD[OF assms(1)]
  note wf = storage_wfD[OF ok(1)]
  have "infra_synced P s'"
    using ok(3) wf(1,2) unfolding infra_synced_def assms(3)
    by (auto intro!: holds_table_cong[of "st_ee s"] assms(2))
  moreover have "sensor_synced P s'"
    using ok(4) wf(3,4) unfolding sensor_synced_def assms(4)
    by (auto intro!: holds_table_cong[of "st_ee s"] assms(2))
  moreover have "infra_sorted s'" using ok(2) unfolding infra_sorted_def assms(3) .
  ultimately show ?thesis using assms(5,6) by (simp add: storage_ok_def)
qed

lemma storage_mesh_add_lemma:
  assumes "eeprom_ok P" "storage_ok P s" "st_mesh_count s < MAX_DEVICES"
  shows "fst (storage_mesh_add P s e) = 0" "storage_ok P (snd (storage_mesh_add P s e))"
    "mesh_devs (snd (storage_mesh_add P s e)) = mesh_devs s @ [mesh_of_entry e]"
proof -
  let ?n = "st_mesh_count s" and ?e = "e\<lparr>me_crc32 := pf_crc32 P (mesh_body e)\<rparr>"
  let ?t = "s\<lparr>st_ee := put_bytes (st_ee s) (0x484 + 21 * ?n) (enc_mesh_entry ?e)\<rparr>"
  let ?s = "snd (storage_mesh_add P s e)"
  note ok = storage_okD[OF assms(2)]
  note wf = storage_wfD[OF ok(1)]
  have eq: "storage_mesh_add P s e = (0, ?t\<lparr>st_mesh := (st_mesh s)[?n := mesh_of_entry e],
      st_mesh_count := ?n + 1, st_ee := put_bytes (st_ee ?t) 0x480 (header_bytes (?n + 1))\<rparr>)"
    using assms(3) write_mesh_entry_ok[OF assms(1,3), of "st_ee s" e]
    by (simp add: storage_mesh_add_def Let_def write_header_ok[OF assms(1)])
  show "fst (storage_mesh_add P s e) = 0" by (simp add: eq)
  show "mesh_devs ?s = mesh_devs s @ [mesh_of_entry e]"
    using assms(3) wf by (simp add: eq take_Suc_conv_app_nth)
  have wfs: "storage_wf ?s" by (rule storage_wf_mesh(1)[OF ok(1)])
  have slot: "mesh_slot (st_ee ?s) i = (if i = ?n then enc_mesh_entry ?e else mesh_slot (st_ee s) i)" for i
    using mesh_slot_put_slot[of "enc_mesh_entry ?e" "st_ee s" ?n i]
    by (simp add: eq mesh_slot_put_header)
  have m: "mesh_synced P ?s"
    using ok(5) wf assms(3) get_put_bytes_same[of "st_ee ?t" "0x480" "header_bytes (?n + 1)"]
    by (auto simp: mesh_synced_def slot stamped_mesh_ok wire_simps less_Suc_eq)
      (simp_all add: eq)
  show "storage_ok P ?s"
    by (rule storage_ok_mesh_part[OF assms(2) _ _ _ wfs m]) (simp_all add: eq put_bytes_def)
qed

lemma storage_mesh_update_lemma:
  assumes "eeprom_ok P" "storage_wf s" "i < st_mesh_count s"
  shows "fst (storage_mesh_update P s i e) = 0"
    "storage_mesh_get P (snd (storage_mesh_update P s i e)) i
      = Inr (e\<lparr>me_crc32 := pf_crc32 P (mesh_body e)\<rparr>)"
    "mesh_synced P s \<Longrightarrow> j < st_mesh_count s \<Longrightarrow> j \<noteq> i \<Longrightarrow>
      storage_mesh_get P (snd (storage_mesh_update P s i e)) j = storage_mesh_get P s j"
proof -
  let ?e = "e\<lparr>me_crc32 := pf_crc32 P (mesh_body e)\<rparr>"
  have n: "st_mesh_count s \<le> 256" and i: "i < 256"
    using storage_wfD(6)[OF assms(2)] assms(3) by auto
  have eq: "storage_mesh_update P s i e
    = (0, s\<lparr>st_ee := put_bytes (st_ee s) (0x484 + 21 * i) (enc_mesh_entry ?e)\<rparr>)"
    using assms(3) write_mesh_entry_ok[OF assms(1) i, of "st_ee s" e]
    by (simp add: storage_mesh_update_def)
  have rd: "read_entry P ee 0x480 j 21 = (0, mesh_slot ee j)" if "j < 256" for ee j
    using that eeprom_okD(2)[OF assms(1), of "0x484 + 21 * j" 21 ee]
    by (simp add: read_entry_def mesh_slot_def)
  have slot: "mesh_slot (put_bytes (st_ee s) (0x484 + 21 * i) (enc_mesh_entry ?e)) j
    = (if j = i then enc_mesh_entry ?e else mesh_slot (st_ee s) j)" for j
    using mesh_slot_put_slot[of "enc_mesh_entry ?e" "st_ee s" i j] by simp
  show "fst (storage_mesh_update P s i e) = 0" by (simp add: eq)
  show "storage_mesh_get P (snd (storage_mesh_update P s i e)) i = Inr ?e"
    using assms(3) i by (simp add: storage_mesh_get_def eq rd slot stamped_mesh_ok wire_simps)
  show "storage_mesh_get P (snd (storage_mesh_update P s i e)) j = storage_mesh_get P s j"
    if "mesh_synced P s" "j < st_mesh_count s" "j \<noteq> i"
    using that n by (simp add: storage_mesh_get_def eq rd slot)
qed

lemma storage_mesh_get_ok:
  assumes "eeprom_ok P" "storage_ok P s" "i < st_mesh_count s"
  shows "storage_mesh_get P s i = Inr (dec_mesh_entry (mesh_slot (st_ee s) i))"
    "mesh_of_entry (dec_mesh_entry (mesh_slot (st_ee s) i)) = st_mesh s ! i"
proof -
  note ok = storage_okD[OF assms(2)]
  have "i < 256" using storage_wfD(6)[OF ok(1)] assms(3) by simp
  then have "read_entry P (st_ee s) 0x480 i 21 = (0, mesh_slot (st_ee s) i)"
    using eeprom_okD(2)[OF assms(1), of "0x484 + 21 * i" 21 "st_ee s"]
    by (simp add: read_entry_def mesh_slot_def)
  then show "storage_mesh_get P s i = Inr (dec_mesh_entry (mesh_slot (st_ee s) i))"
    "mesh_of_entry (dec_mesh_entry (mesh_slot (st_ee s) i)) = st_mesh s ! i"
    using ok(5) assms(3) by (simp_all add: storage_mesh_get_def mesh_synced_def)
qed

text \<open>Removing entry \<open>i\<close>: the slots behind it move down by one, in RAM and in the EEPROM.\<close>

lemma get_bytes_sub: "k + n \<le> len \<Longrightarrow> take n (drop k (get_bytes m a len)) = get_bytes m (a + k) n"
  by (rule nth_equalityI) (auto simp: get_bytes_def add.assoc)

lemma mesh_move_ok:
  assumes "eeprom_ok P" "i + move < MAX_DEVICES"
  shows "\<exists>ee'. mesh_move P ee i move = (0, ee') \<and> (\<forall>a<0x484. ee' a = ee a) \<and>
    (\<forall>j<i. mesh_slot ee' j = mesh_slot ee j) \<and>
    (\<forall>j. i \<le> j \<and> j < i + move \<longrightarrow> mesh_slot ee' j = mesh_slot ee (j + 1))"
proof (cases "move = 0")
  case True
  then show ?thesis by (auto simp: mesh_move_def)
next
  case False
  let ?buf = "get_bytes ee (0x484 + 21 * (i + 1)) (21 * move)"
  let ?ee = "put_bytes ee (0x484 + 21 * i) ?buf"
  have "mesh_move P ee i move = (0, ?ee)"
    using False assms(2) eeprom_okD(2)[OF assms(1), of "0x484 + 21 * (i + 1)" "21 * move" ee]
      eeprom_okD(3)[OF assms(1), of "0x484 + 21 * i" ?buf ee]
    by (simp add: mesh_move_def Let_def algebra_simps)
  moreover have "mesh_slot ?ee j = mesh_slot ee j" if "j < i" for j
    using that by (simp add: mesh_slot_def get_put_bytes_disjoint)
  moreover have "mesh_slot ?ee j = mesh_slot ee (j + 1)" if "i \<le> j" "j < i + move" for j
  proof -
    have "mesh_slot ?ee j = take 21 (drop (21 * (j - i)) ?buf)"
      using that unfolding mesh_slot_def by (subst get_put_bytes_within) (simp_all add: algebra_simps)
    also have "\<dots> = get_bytes ee (0x484 + 21 * (i + 1) + 21 * (j - i)) 21"
      using that by (intro get_bytes_sub) simp
    finally show ?thesis using that by (simp add: mesh_slot_def algebra_simps)
  qed
  ultimately show ?thesis by (auto simp: put_bytes_def)
qed

lemma storage_mesh_remove_lemma:
  assumes "eeprom_ok P" "storage_ok P s" "i < st_mesh_count s"
  shows "fst (storage_mesh_remove P s i) = 0" "storage_ok P (snd (storage_mesh_remove P s i))"
    "mesh_devs (snd (storage_mesh_remove P s i)) = take i (mesh_devs s) @ drop (Suc i) (mesh_devs s)"
proof -
  let ?n = "st_mesh_count s" and ?s = "snd (storage_mesh_remove P s i)"
  note ok = storage_okD[OF assms(2)]
  note wf = storage_wfD[OF ok(1)]
  have "i + (?n - 1 - i) < 256" using assms(3) wf by simp
  from mesh_move_ok[OF assms(1) this, of "st_ee s"] obtain ee where
    mv: "mesh_move P (st_ee s) i (?n - 1 - i) = (0, ee)" and low: "\<And>a. a < 0x484 \<Longrightarrow> ee a = st_ee s a"
    and s1: "\<And>j. j < i \<Longrightarrow> mesh_slot ee j = mesh_slot (st_ee s) j"
    and s2: "\<And>j. i \<le> j \<Longrightarrow> j < i + (?n - 1 - i) \<Longrightarrow> mesh_slot ee j = mesh_slot (st_ee s) (j + 1)"
    by blast
  have eq: "storage_mesh_remove P s i = (0, s\<lparr>st_mesh := shift_down i ?n (st_mesh s),
      st_mesh_count := ?n - 1, st_ee := put_bytes ee 0x480 (header_bytes (?n - 1))\<rparr>)"
    using assms(3) mv by (simp add: storage_mesh_remove_def Let_def write_header_ok[OF assms(1)])
  show "fst (storage_mesh_remove P s i) = 0" by (simp add: eq)
  have devs: "mesh_devs ?s = take i (mesh_devs s) @ drop (Suc i) (mesh_devs s)"
    using take_shift_down[of i ?n "st_mesh s"] assms(3) wf by (simp add: eq min_def)
  then show "mesh_devs ?s = take i (mesh_devs s) @ drop (Suc i) (mesh_devs s)" .
  have nth: "st_mesh ?s ! j = (if j < i then st_mesh s ! j else st_mesh s ! (j + 1))" if "j < ?n - 1" for j
    using arg_cong[OF devs, of "\<lambda>xs. xs ! j"] that assms(3) wf by (auto simp: eq nth_append)
  have "mesh_slot (st_ee ?s) j = (if j < i then mesh_slot (st_ee s) j else mesh_slot (st_ee s) (j + 1))"
    if "j < ?n - 1" for j
    using s1[of j] s2[of j] that by (simp add: eq mesh_slot_put_header)
  then have m: "mesh_synced P ?s"
    using ok(5) nth get_put_bytes_same[of ee "0x480" "header_bytes (?n - 1)"]
    by (auto simp: mesh_synced_def) (auto simp: eq)
  show "storage_ok P ?s"
    by (rule storage_ok_mesh_part[OF assms(2) _ _ _ storage_wf_mesh(3)[OF ok(1)] m])
      (simp_all add: eq put_bytes_def low)
qed

section \<open>Reload at boot\<close>

lemma load_infra_all:
  assumes "eeprom_ok P" "infra_synced P s" "storage_wf s" "st_ee r = st_ee s"
    "length (st_infra r) = MAX_ANCHORS" "n \<le> st_infra_count s"
  shows "foldl (load_infra P) r [0..<n]
    = r\<lparr>st_infra := map (new_infra \<circ> in_entry) (take n (st_infra s)) @ drop n (st_infra r)\<rparr>"
  using assms(6)
proof (induction n)
  case (Suc n)
  let ?ds = "infra_devs s"
  note wf = storage_wfD[OF assms(3)]
  have rd: "read_entry P (st_ee s) 0 n 12 = (0, enc_infra_entry (in_entry (st_infra s ! n)))"
    "entry_crc_ok P (enc_infra_entry (in_entry (st_infra s ! n)))"
    using infra_tab.read_slot[OF assms(1), of n ?ds "st_ee s"] Suc.prems wf assms(2)
    by (simp_all add: infra_synced_def)
  have "foldl (load_infra P) r [0..<Suc n] = load_infra P (r\<lparr>st_infra :=
      map (new_infra \<circ> in_entry) (take n (st_infra s)) @ drop n (st_infra r)\<rparr>) n"
    using Suc by (simp add: comp_def)
  also have "\<dots> = r\<lparr>st_infra := (map (new_infra \<circ> in_entry) (take n (st_infra s)) @ drop n (st_infra r))
      [n := new_infra (in_entry (st_infra s ! n))]\<rparr>"
    using rd assms(4) by (simp add: load_infra_def new_infra_def wire_simps Let_def)
  finally show ?case
    using Suc.prems wf assms(5)
    by (simp add: list_update_append take_Suc_conv_app_nth min_def Cons_nth_drop_Suc[symmetric])
qed simp

lemma load_sensor_all:
  assumes "eeprom_ok P" "sensor_synced P s" "storage_wf s" "st_ee r = st_ee s"
    "length (st_sensors r) = MAX_SENSORS" "n \<le> st_sensor_count s"
  shows "foldl (load_sensor P) r [0..<n]
    = r\<lparr>st_sensors := map (new_sensor \<circ> sn_entry) (take n (st_sensors s)) @ drop n (st_sensors r)\<rparr>"
  using assms(6)
proof (induction n)
  case (Suc n)
  let ?ds = "sensor_devs s"
  note wf = storage_wfD[OF assms(3)]
  have rd: "read_entry P (st_ee s) 0x80 n 8 = (0, enc_sensor_entry (sn_entry (st_sensors s ! n)))"
    "entry_crc_ok P (enc_sensor_entry (sn_entry (st_sensors s ! n)))"
    using sensor_tab.read_slot[OF assms(1), of n ?ds "st_ee s"] Suc.prems wf assms(2)
    by (simp_all add: sensor_synced_def)
  have "foldl (load_sensor P) r [0..<Suc n] = load_sensor P (r\<lparr>st_sensors :=
      map (new_sensor \<circ> sn_entry) (take n (st_sensors s)) @ drop n (st_sensors r)\<rparr>) n"
    using Suc by (simp add: comp_def)
  also have "\<dots> = r\<lparr>st_sensors := (map (new_sensor \<circ> sn_entry) (take n (st_sensors s)) @ drop n (st_sensors r))
      [n := new_sensor (sn_entry (st_sensors s ! n))]\<rparr>"
    using rd assms(4) by (simp add: load_sensor_def new_sensor_def wire_simps Let_def)
  finally show ?case
    using Suc.prems wf assms(5)
    by (simp add: list_update_append take_Suc_conv_app_nth min_def Cons_nth_drop_Suc[symmetric])
qed simp

lemma load_mesh_all:
  assumes "eeprom_ok P" "storage_ok P s" "st_ee r = st_ee s" "st_mesh_count r = st_mesh_count s"
    "length (st_mesh r) = MAX_DEVICES" "n \<le> st_mesh_count s"
  shows "foldl (load_mesh P) r [0..<n] = r\<lparr>st_mesh := take n (st_mesh s) @ drop n (st_mesh r)\<rparr>"
  using assms(6)
proof (induction n)
  case (Suc n)
  let ?r = "r\<lparr>st_mesh := take n (st_mesh s) @ drop n (st_mesh r)\<rparr>"
  note wf = storage_wfD[OF storage_okD(1)[OF assms(2)]]
  have "storage_mesh_get P ?r n = storage_mesh_get P s n"
    using assms(3,4) by (simp add: storage_mesh_get_def)
  then have "load_mesh P ?r n = r\<lparr>st_mesh := (take n (st_mesh s) @ drop n (st_mesh r))[n := st_mesh s ! n]\<rparr>"
    using storage_mesh_get_ok[OF assms(1,2), of n] Suc.prems by (simp add: load_mesh_def)
  then show ?case
    using Suc wf assms(5)
    by (simp add: list_update_append take_Suc_conv_app_nth min_def Cons_nth_drop_Suc[symmetric])
qed simp

lemma sorted_wrt_infra_entries:
  "map in_entry xs = map in_entry ys \<Longrightarrow>
    sorted_wrt (\<lambda>a b. \<not> infra_gt a b) xs = sorted_wrt (\<lambda>a b. \<not> infra_gt a b) ys"
proof -
  have "sorted_wrt (\<lambda>a b. \<not> infra_gt a b) zs
      = sorted_wrt (\<lambda>a b. \<not> infra_gt (new_infra a) (new_infra b)) (map in_entry zs)" for zs
    by (simp add: sorted_wrt_map infra_gt_def new_infra_def)
  then show "map in_entry xs = map in_entry ys \<Longrightarrow> ?thesis" by metis
qed

lemma read_headers_synced:
  assumes "eeprom_ok P" "storage_ok P s"
  shows "read_header P (st_ee s) STORAGE_INFRA_OFFSET = (0, st_infra_count s)"
    "read_header P (st_ee s) STORAGE_SENSOR_OFFSET = (0, st_sensor_count s)"
    "read_header P (st_ee s) STORAGE_MESH_OFFSET = (0, st_mesh_count s)"
proof -
  note ok = storage_okD[OF assms(2)]
  note wf = storage_wfD[OF ok(1)]
  show "read_header P (st_ee s) STORAGE_INFRA_OFFSET = (0, st_infra_count s)"
    "read_header P (st_ee s) STORAGE_SENSOR_OFFSET = (0, st_sensor_count s)"
    "read_header P (st_ee s) STORAGE_MESH_OFFSET = (0, st_mesh_count s)"
    by (rule read_header_ok[OF assms(1)];
        use ok wf in \<open>simp add: infra_synced_def sensor_synced_def mesh_synced_def holds_table_def min_def\<close>)+
qed

text \<open>
  C5: After a reboot the tables are the ones the device had stored. Whatever well-formed contents
  the RAM arrays start with, if the EEPROM was left in step with the tables of \<open>s\<close> then
  \<open>storage_init\<close> succeeds and reloads the infrastructure entries of \<open>s\<close> in the same order, on a
  gateway or anchor its sensor entries, and on a gateway its mesh table and the mesh device count.
\<close>

theorem storage_init_reload:
  assumes "eeprom_ok P" "storage_ok P s" "storage_wf r" "st_ee r = st_ee s"
  shows "\<exists>r'. storage_init P t r = Some (0, r', if t = DEVICE_TYPE_GATEWAY then Some (st_mesh_count s) else None) \<and>
    storage_wf r' \<and> infra_sorted r' \<and> st_ee r' = st_ee s \<and>
    map in_entry (infra_devs r') = map in_entry (infra_devs s) \<and>
    (t \<in> {DEVICE_TYPE_GATEWAY, DEVICE_TYPE_ANCHOR} \<longrightarrow>
      map sn_entry (sensor_devs r') = map sn_entry (sensor_devs s)) \<and>
    (t = DEVICE_TYPE_GATEWAY \<longrightarrow> mesh_devs r' = mesh_devs s)"
proof -
  note ok = storage_okD[OF assms(2)]
  note wf = storage_wfD[OF ok(1)] and wfr = storage_wfD[OF assms(3)]
  let ?i = "map (new_infra \<circ> in_entry) (infra_devs s) @ drop (st_infra_count s) (st_infra r)"
  let ?n = "map (new_sensor \<circ> sn_entry) (sensor_devs s) @ drop (st_sensor_count s) (st_sensors r)"
  let ?m = "mesh_devs s @ drop (st_mesh_count s) (st_mesh r)"
  let ?r0 = "r\<lparr>st_infra_count := st_infra_count s, st_sensor_count := st_sensor_count s,
      st_mesh_count := st_mesh_count s\<rparr>"
  let ?r1 = "?r0\<lparr>st_infra := ?i\<rparr>"
  let ?r2 = "if t = 1 \<or> t = 2 then ?r1\<lparr>st_sensors := ?n\<rparr> else ?r1"
  let ?r3 = "if t = 1 then ?r2\<lparr>st_mesh := ?m\<rparr> else ?r2"
  have 1: "foldl (load_infra P) ?r0 [0..<st_infra_count s] = ?r1"
    using load_infra_all[OF assms(1) ok(3,1), of ?r0 "st_infra_count s"] assms(4) wfr by simp
  have 2: "foldl (load_sensor P) ?r1 [0..<st_sensor_count s] = ?r1\<lparr>st_sensors := ?n\<rparr>"
    using load_sensor_all[OF assms(1) ok(4,1), of ?r1 "st_sensor_count s"] assms(4) wfr by simp
  have 3: "foldl (load_mesh P) ?r2 [0..<st_mesh_count s] = ?r2\<lparr>st_mesh := ?m\<rparr>"
    using load_mesh_all[OF assms(1,2), of ?r2 "st_mesh_count s"] assms(4) wfr by simp
  have hd: "read_header P (st_ee r) 0 = (0, st_infra_count s)"
    "read_header P (st_ee r) 0x80 = (0, st_sensor_count s)"
    "read_header P (st_ee r) 0x480 = (0, st_mesh_count s)"
    using read_headers_synced[OF assms(1,2)] assms(4) by simp_all
  have "storage_init P t r = Some (0, ?r3, if t = 1 then Some (st_mesh_count s) else None)"
    using eeprom_okD(1)[OF assms(1)] 1 2 3 hd wf by (auto simp: storage_init_def)
  moreover have e: "map in_entry (infra_devs ?r3) = map in_entry (infra_devs s)"
    using wf by (simp add: new_infra_def min_def)
  moreover have "storage_wf ?r3" using wf wfr by (simp add: storage_wf_def)
  moreover have "infra_sorted ?r3"
    using sorted_wrt_infra_entries[OF e] ok(2) by (simp add: infra_sorted_def)
  moreover have "map sn_entry (sensor_devs ?r3) = map sn_entry (sensor_devs s)" if "t \<in> {1, 2}"
    using wf that by (auto simp: new_sensor_def min_def)
  moreover have "mesh_devs ?r3 = mesh_devs s" if "t = 1" using wf that by simp
  ultimately show ?thesis using assms(4) by (intro exI[of _ ?r3]) auto
qed

end
