(* ===== verification/Storage_Props.thy ===== *)
theory Storage_Props
  imports Storage_Reload
begin

text \<open>
  The properties of the device tables, each with a witness: a storage whose tables were cleared
  on the reference platform, with entries added to it.
\<close>

section \<open>Clearing any EEPROM gives consistent empty tables\<close>

definition storage_clear_all :: "platform \<Rightarrow> storage \<Rightarrow> storage" where
  "storage_clear_all P s =
     snd (storage_mesh_clear P (snd (storage_sensor_clear P (snd (storage_infra_clear P s)))))"

lemma storage_clear_all_ok:
  assumes "eeprom_ok P" "storage_wf s"
  shows "storage_ok P (storage_clear_all P s)" "infra_devs (storage_clear_all P s) = []"
    "sensor_devs (storage_clear_all P s) = []" "mesh_devs (storage_clear_all P s) = []"
proof -
  let ?s = "storage_clear_all P s" and ?h = "header_bytes 0"
  have ee: "st_ee ?s = put_bytes (put_bytes (put_bytes (st_ee s) 0 ?h) 0x80 ?h) 0x480 ?h"
    and c: "st_infra_count ?s = 0" "st_sensor_count ?s = 0" "st_mesh_count ?s = 0"
    by (simp_all add: storage_clear_all_def storage_infra_clear_def storage_sensor_clear_def
        storage_mesh_clear_def Let_def write_header_ok[OF assms(1)])
  have "get_bytes (st_ee ?s) 0 4 = ?h" "get_bytes (st_ee ?s) 0x80 4 = ?h" "get_bytes (st_ee ?s) 0x480 4 = ?h"
    unfolding ee using get_put_bytes_same[of _ _ ?h] by (simp_all add: get_put_bytes_disjoint)
  then have "infra_sorted ?s \<and> infra_synced P ?s \<and> sensor_synced P ?s \<and> mesh_synced P ?s"
    by (simp add: infra_sorted_def infra_synced_def sensor_synced_def mesh_synced_def holds_table_def c)
  moreover have "storage_wf ?s"
    unfolding storage_clear_all_def using assms(2) by (intro wf_intros)
  ultimately show "storage_ok P ?s" by (simp add: storage_ok_def)
  show "infra_devs ?s = []" "sensor_devs ?s = []" "mesh_devs ?s = []" by (simp_all add: c)
qed

lemma storage_clear_all_counts [simp]:
  "st_infra_count (storage_clear_all P s) = 0" "st_sensor_count (storage_clear_all P s) = 0"
  "st_mesh_count (storage_clear_all P s) = 0"
  by (simp_all add: storage_clear_all_def storage_mesh_clear_def storage_sensor_clear_def
      storage_infra_clear_def split_beta Let_def)

section \<open>Reference tables\<close>

definition zero_infra_entry :: infra_entry where
  "zero_infra_entry = \<lparr>ie_device_type = 0, ie_device_id = 0, ie_hop_num = 0, ie_version = 0,
     ie_rssi_2 = 0, ie_crc32 = 0\<rparr>"

definition zero_sensor_entry :: sensor_entry where
  "zero_sensor_entry = \<lparr>se_device_id = 0, se_version = 0, se_crc32 = 0\<rparr>"

definition zero_mesh_entry :: mesh_entry where
  "zero_mesh_entry = \<lparr>me_device_type = 0, me_device_id = 0, me_serial_num = 0, me_version = 0,
     me_connected_device_id = 0, me_hop_num = 0, me_sensor_count = 0, me_crc32 = 0\<rparr>"

text \<open>The zero-initialised globals of src/storage.c with an erased EEPROM.\<close>
definition boot_storage :: "memory \<Rightarrow> storage" where
  "boot_storage ee = \<lparr>st_infra_count = 0, st_infra = replicate MAX_ANCHORS (new_infra zero_infra_entry),
     st_sensor_count = 0, st_sensors = replicate MAX_SENSORS (new_sensor zero_sensor_entry),
     st_mesh_count = 0, st_mesh = replicate MAX_DEVICES (mesh_of_entry zero_mesh_entry), st_ee = ee\<rparr>"

lemma boot_storage_wf [wf_intros]: "storage_wf (boot_storage ee)"
  by (simp add: storage_wf_def boot_storage_def)

definition ref_storage :: storage where
  "ref_storage = storage_clear_all ref_platform (boot_storage (\<lambda>a. 0xFF))"

lemma ref_storage_ok: "storage_ok ref_platform ref_storage"
  unfolding ref_storage_def
  by (rule storage_clear_all_ok(1)[OF platform_okD(2)[OF ref_platform_ok] boot_storage_wf])

lemma ref_storage_counts:
  "st_infra_count ref_storage = 0" "st_sensor_count ref_storage = 0" "st_mesh_count ref_storage = 0"
  by (simp_all add: ref_storage_def)

text \<open>A gateway with one anchor (hop 1) and one device in its mesh table.\<close>
definition ref_anchor :: infra_entry where
  "ref_anchor = zero_infra_entry\<lparr>ie_device_type := DEVICE_TYPE_ANCHOR, ie_device_id := 7, ie_hop_num := 1\<rparr>"

definition ref_mesh_entry :: mesh_entry where
  "ref_mesh_entry = zero_mesh_entry\<lparr>me_device_type := DEVICE_TYPE_ANCHOR, me_device_id := 7,
     me_serial_num := 7, me_hop_num := 1\<rparr>"

definition ref_storage1 :: storage where
  "ref_storage1 = snd (storage_mesh_add ref_platform
     (snd (storage_infra_add ref_platform ref_storage ref_anchor)) ref_mesh_entry)"

lemma ref_storage1_ok:
  "storage_ok ref_platform ref_storage1" "st_infra_count ref_storage1 = 1" "st_mesh_count ref_storage1 = 1"
proof -
  note ee = platform_okD(2)[OF ref_platform_ok]
  let ?s = "snd (storage_infra_add ref_platform ref_storage ref_anchor)"
  have s: "storage_ok ref_platform ?s" "st_infra_count ?s = 1" "st_mesh_count ?s = 0"
    using storage_infra_add_lemma[OF ee ref_storage_ok]
    by (simp_all add: ref_storage_counts storage_infra_add_def frame_simps)
  show "storage_ok ref_platform ref_storage1"
    unfolding ref_storage1_def by (rule storage_mesh_add_lemma(2)[OF ee s(1)]) (simp add: s)
  have i: "st_infra_count (snd (storage_mesh_add ref_platform ?s ref_mesh_entry)) = st_infra_count ?s"
    by (simp add: storage_mesh_add_def split_beta Let_def)
  show "st_infra_count ref_storage1 = 1" unfolding ref_storage1_def i by (rule s(2))
  have "mesh_devs ref_storage1 = mesh_devs ?s @ [mesh_of_entry ref_mesh_entry]"
    unfolding ref_storage1_def by (rule storage_mesh_add_lemma(3)[OF ee s(1)]) (simp add: s)
  then have "length (mesh_devs ref_storage1) = 1" by (simp add: s)
  then show "st_mesh_count ref_storage1 = 1"
    using storage_wfD(5,6)[OF storage_okD(1)[OF \<open>storage_ok ref_platform ref_storage1\<close>]] by simp
qed

theorem storage_init_reload_witness:
  "\<exists>r'. storage_init ref_platform DEVICE_TYPE_GATEWAY (boot_storage (st_ee ref_storage1))
      = Some (0, r', Some 1) \<and> mesh_devs r' = mesh_devs ref_storage1"
  using storage_init_reload[OF platform_okD(2)[OF ref_platform_ok] ref_storage1_ok(1) boot_storage_wf,
      of "st_ee ref_storage1" DEVICE_TYPE_GATEWAY]
  by (auto simp: ref_storage1_ok boot_storage_def)

section \<open>Properties\<close>

text \<open>
  C27: Adding an infrastructure entry to a table with room succeeds, keeps the table sorted by
  hop count and signal and in step with the EEPROM, and adds exactly that entry (with its
  checksum stamped); a full table is refused with -ENOMEM and left as it is.
\<close>

theorem storage_infra_add_correct:
  assumes "eeprom_ok P" "storage_ok P s"
  shows "storage_ok P (snd (storage_infra_add P s e)) \<and>
    (if st_infra_count s < MAX_ANCHORS
     then fst (storage_infra_add P s e) = 0 \<and>
       mset (infra_devs (snd (storage_infra_add P s e)))
         = add_mset (stamp_infra P (new_infra e)) (mset (infra_devs s))
     else storage_infra_add P s e = (- ENOMEM, s))"
  using storage_infra_add_lemma[OF assms, of e] assms(2)
  by (cases "st_infra_count s < MAX_ANCHORS") (auto simp: storage_infra_add_def)

theorem storage_infra_add_correct_witness:
  "fst (storage_infra_add ref_platform ref_storage ref_anchor) = 0"
  using storage_infra_add_correct[OF platform_okD(2)[OF ref_platform_ok] ref_storage_ok, of ref_anchor]
  by (simp add: ref_storage_counts)

text \<open>
  C28: Removing the \<open>i\<close>-th mesh table entry of a gateway deletes exactly that entry and keeps the
  order of the others, in RAM and in the EEPROM alike; an index past the count is refused with
  -EINVAL.
\<close>

theorem storage_mesh_remove_correct:
  assumes "eeprom_ok P" "storage_ok P s"
  shows "storage_ok P (snd (storage_mesh_remove P s i)) \<and>
    (if i < st_mesh_count s
     then fst (storage_mesh_remove P s i) = 0 \<and>
       mesh_devs (snd (storage_mesh_remove P s i)) = take i (mesh_devs s) @ drop (Suc i) (mesh_devs s)
     else storage_mesh_remove P s i = (- EINVAL, s))"
  using storage_mesh_remove_lemma[OF assms, of i] assms(2)
  by (cases "i < st_mesh_count s") (auto simp: storage_mesh_remove_def)

theorem storage_mesh_remove_correct_witness:
  "fst (storage_mesh_remove ref_platform ref_storage1 0) = 0 \<and>
   mesh_devs (snd (storage_mesh_remove ref_platform ref_storage1 0)) = drop 1 (mesh_devs ref_storage1)"
  using storage_mesh_remove_correct[OF platform_okD(2)[OF ref_platform_ok] ref_storage1_ok(1), of 0]
  by (simp add: ref_storage1_ok)

text \<open>
  Every operation on the three tables, on every branch and whatever the EEPROM driver
  answers, keeps the RAM arrays at their sizes and the counts within them.
\<close>

theorem storage_ops_wf:
  assumes "storage_wf s"
  shows "storage_wf (snd (storage_infra_add P s ie)) \<and> storage_wf (snd (storage_infra_update P s i ie)) \<and>
    storage_wf (snd (storage_infra_remove P s i)) \<and> storage_wf (snd (storage_infra_clear P s)) \<and>
    storage_wf (snd (storage_sensor_add P s se)) \<and> storage_wf (snd (storage_sensor_update P s i se)) \<and>
    storage_wf (snd (storage_sensor_remove P s i)) \<and> storage_wf (snd (storage_sensor_clear P s)) \<and>
    storage_wf (snd (storage_mesh_add P s me)) \<and> storage_wf (snd (storage_mesh_update P s i me)) \<and>
    storage_wf (snd (storage_mesh_remove P s i)) \<and> storage_wf (snd (storage_mesh_clear P s))"
  using assms by (intro conjI wf_intros)

theorem storage_ops_wf_witness:
  "storage_wf (snd (storage_infra_add ref_platform (boot_storage (\<lambda>a. 0)) ref_anchor))"
  using storage_ops_wf[OF boot_storage_wf] by blast

end
