(* ===== verification/Psram.thy ===== *)
theory Psram
  imports Byte_Store
begin

text \<open>
  src/psram.c: the driver of the 8 MB external RAM. Reads and writes are split so that no SPI
  burst crosses a 1024-byte page. \<open>size_t\<close> and addresses are 32 bits wide, so the bounds test
  \<open>addr + len > PSRAM_SIZE\<close> is written with its wrap-around. The partition map of src/psram.h
  follows; the driver is shown to be a flat byte store.
\<close>

section \<open>The partition map\<close>

abbreviation (input) PSRAM_SIZE :: nat where "PSRAM_SIZE \<equiv> 0x800000"
abbreviation (input) PSRAM_TRACKER_BASE :: nat where "PSRAM_TRACKER_BASE \<equiv> 0"
abbreviation (input) PSRAM_TRACKER_SIZE :: nat where "PSRAM_TRACKER_SIZE \<equiv> 0x8000"
abbreviation (input) PSRAM_CONFIG_BASE :: nat where "PSRAM_CONFIG_BASE \<equiv> 0x8000"
abbreviation (input) PSRAM_CONFIG_SIZE :: nat where "PSRAM_CONFIG_SIZE \<equiv> 0x14000"
abbreviation (input) PSRAM_DATA_BASE :: nat where "PSRAM_DATA_BASE \<equiv> 0x100000"
abbreviation (input) PSRAM_DATA_SIZE :: nat where "PSRAM_DATA_SIZE \<equiv> 0x100000"
abbreviation (input) PSRAM_LARGE_DATA_BASE :: nat where "PSRAM_LARGE_DATA_BASE \<equiv> 0x200000"
abbreviation (input) PSRAM_LARGE_DATA_SIZE :: nat where "PSRAM_LARGE_DATA_SIZE \<equiv> 0x600000"

section \<open>State and operations\<close>

record psram =
  ps_ready :: bool
  ps_chip :: memory

definition psram_init :: "platform \<Rightarrow> psram \<Rightarrow> int \<times> psram" where
  "psram_init P s = (
     let s = s\<lparr>ps_ready := False\<rparr> in
     if \<not> pf_spi_ready P then (- ENODEV, s)
     else let (_, m) = pf_spi_write P (ps_chip s) [0x66];
              (_, m) = pf_spi_write P m [0x99];
              (err, id_rx, m) = pf_spi_transceive P m [0x9F, 0, 0, 0] 6;
              s = s\<lparr>ps_chip := m\<rparr> in
     if err \<noteq> 0 then (- ENODEV, s)
     else if (id_rx @ replicate 6 0) ! 0 \<noteq> 0x0D \<or> (id_rx @ replicate 6 0) ! 1 \<noteq> 0x5D
       then (- ENODEV, s)
     else (0, s\<lparr>ps_ready := True\<rparr>))"

definition is_psram_initialized :: "psram \<Rightarrow> bool" where
  "is_psram_initialized s = ps_ready s"

text \<open>Bytes of the next burst: to the end of the page or of the request.\<close>
definition burst_len :: "nat \<Rightarrow> nat \<Rightarrow> nat" where
  "burst_len addr len = (let page_left = PSRAM_PAGE - addr mod PSRAM_PAGE in
     if len < page_left then len else page_left)"

lemma burst_len_bounds:
  "0 < len \<Longrightarrow> 0 < burst_len addr len" "burst_len addr len \<le> len"
  "addr mod PSRAM_PAGE + burst_len addr len \<le> PSRAM_PAGE"
  by (auto simp: burst_len_def Let_def)

function psram_read_loop :: "platform \<Rightarrow> memory \<Rightarrow> nat \<Rightarrow> nat \<Rightarrow> int \<times> bytes \<times> memory" where
  "psram_read_loop P m addr len = (
     if len = 0 then (0, [], m)
     else let n = burst_len addr len;
              (err, d, m) = pf_spi_transceive P m (cmd_addr 0x03 addr) n in
     if err \<noteq> 0 then (err, d, m)
     else let (err, ds, m) = psram_read_loop P m ((addr + n) mod 2 ^ 32) (len - n) in
       (err, d @ ds, m))"
  by pat_completeness auto
termination
  by (relation "measure (\<lambda>(P, m, addr, len). len)") (auto simp: burst_len_bounds)

declare psram_read_loop.simps [simp del]

definition psram_read :: "platform \<Rightarrow> psram \<Rightarrow> nat \<Rightarrow> nat \<Rightarrow> int \<times> bytes \<times> psram" where
  "psram_read P s addr len = (
     if \<not> ps_ready s then (- ENODEV, [], s)
     else if PSRAM_SIZE < (addr + len) mod 2 ^ 32 then (- EINVAL, [], s)
     else let (err, d, m) = psram_read_loop P (ps_chip s) addr len in (err, d, s\<lparr>ps_chip := m\<rparr>))"

function psram_write_loop :: "platform \<Rightarrow> memory \<Rightarrow> nat \<Rightarrow> bytes \<Rightarrow> int \<times> memory" where
  "psram_write_loop P m addr src = (
     if src = [] then (0, m)
     else let n = burst_len addr (length src);
              (err, m) = pf_spi_write P m (cmd_addr 0x02 addr @ take n src) in
     if err \<noteq> 0 then (err, m)
     else psram_write_loop P m ((addr + n) mod 2 ^ 32) (drop n src))"
  by pat_completeness auto
termination
  by (relation "measure (\<lambda>(P, m, addr, src). length src)") (auto simp: burst_len_bounds)

declare psram_write_loop.simps [simp del]

definition psram_write :: "platform \<Rightarrow> psram \<Rightarrow> nat \<Rightarrow> bytes \<Rightarrow> int \<times> psram" where
  "psram_write P s addr src = (
     if \<not> ps_ready s then (- ENODEV, s)
     else if PSRAM_SIZE < (addr + length src) mod 2 ^ 32 then (- EINVAL, s)
     else let (err, m) = psram_write_loop P (ps_chip s) addr src in (err, s\<lparr>ps_chip := m\<rparr>))"

text \<open>\<open>psram_clear\<close> writes zeros in chunks of 256 bytes.\<close>

function psram_clear_loop :: "platform \<Rightarrow> psram \<Rightarrow> nat \<Rightarrow> nat \<Rightarrow> int \<times> psram" where
  "psram_clear_loop P s addr len = (
     if len = 0 then (0, s)
     else let chunk = (if 256 < len then 256 else len);
              (err, s) = psram_write P s addr (replicate chunk 0) in
     if err \<noteq> 0 then (err, s)
     else psram_clear_loop P s ((addr + chunk) mod 2 ^ 32) (len - chunk))"
  by pat_completeness auto
termination
  by (relation "measure (\<lambda>(P, s, addr, len). len)") auto

declare psram_clear_loop.simps [simp del]

definition psram_clear :: "platform \<Rightarrow> psram \<Rightarrow> nat \<Rightarrow> nat \<Rightarrow> int \<times> psram" where
  "psram_clear P s addr len = (
     if \<not> ps_ready s then (- ENODEV, s)
     else if PSRAM_SIZE < (addr + len) mod 2 ^ 32 then (- EINVAL, s)
     else psram_clear_loop P s addr len)"

definition psram_erase :: "platform \<Rightarrow> psram \<Rightarrow> nat \<Rightarrow> nat \<Rightarrow> int \<times> psram" where
  "psram_erase P s addr len = (if \<not> ps_ready s then (- ENODEV, s) else psram_clear P s addr len)"

section \<open>The driver is a flat byte store\<close>

lemma psram_read_loop_flat:
  assumes "psram_chip_ok P" "addr + len \<le> PSRAM_SIZE"
  shows "psram_read_loop P m addr len = (0, get_bytes m addr len, m)"
  using assms(2)
proof (induction len arbitrary: addr rule: less_induct)
  case (less len)
  let ?n = "burst_len addr len"
  show ?case
  proof (cases "len = 0")
    case True
    then show ?thesis by (subst psram_read_loop.simps) simp
  next
    case False
    note b = burst_len_bounds(1)[of len addr] burst_len_bounds(2,3)[of addr len]
    have "psram_read_loop P m (addr + ?n) (len - ?n) = (0, get_bytes m (addr + ?n) (len - ?n), m)"
      using b False less.prems by (intro less.IH) auto
    moreover have "pf_spi_transceive P m (cmd_addr 0x03 addr) ?n = (0, get_bytes m addr ?n, m)"
      using assms(1) less.prems b False by (intro psram_chip_okD(2)) auto
    moreover have "(addr + ?n) mod 2 ^ 32 = addr + ?n" using b less.prems by simp
    ultimately show ?thesis
      using False b get_bytes_append[of m addr ?n "len - ?n"]
      by (subst psram_read_loop.simps) (simp add: Let_def)
  qed
qed

lemma psram_write_loop_flat:
  assumes "psram_chip_ok P" "addr + length src \<le> PSRAM_SIZE"
  shows "psram_write_loop P m addr src = (0, put_bytes m addr src)"
  using assms(2)
proof (induction src arbitrary: addr m rule: length_induct)
  case (1 src)
  let ?n = "burst_len addr (length src)"
  show ?case
  proof (cases "src = []")
    case True
    then show ?thesis by (subst psram_write_loop.simps) simp
  next
    case False
    note b = burst_len_bounds(1)[of "length src" addr] burst_len_bounds(2,3)[of addr "length src"]
    let ?m = "put_bytes m addr (take ?n src)"
    have "psram_write_loop P ?m (addr + ?n) (drop ?n src)
      = (0, put_bytes ?m (addr + ?n) (drop ?n src))"
      using b False "1.prems" by (intro "1.IH"[rule_format]) auto
    moreover have "pf_spi_write P m (cmd_addr 0x02 addr @ take ?n src) = (0, ?m)"
      using assms(1) "1.prems" b False by (intro psram_chip_okD(1)) auto
    moreover have "(addr + ?n) mod 2 ^ 32 = addr + ?n" using b "1.prems" by simp
    moreover have "put_bytes ?m (addr + ?n) (drop ?n src) = put_bytes m addr src"
      using put_bytes_append[of m addr "take ?n src" "drop ?n src"] b by simp
    ultimately show ?thesis
      using False b by (subst psram_write_loop.simps) (simp add: Let_def)
  qed
qed

lemma psram_read_flat:
  assumes "psram_chip_ok P" "ps_ready s" "addr + len \<le> PSRAM_SIZE"
  shows "psram_read P s addr len = (0, get_bytes (ps_chip s) addr len, s)"
  using assms psram_read_loop_flat[OF assms(1,3)] by (simp add: psram_read_def)

lemma psram_write_flat:
  assumes "psram_chip_ok P" "ps_ready s" "addr + length src \<le> PSRAM_SIZE"
  shows "psram_write P s addr src = (0, s\<lparr>ps_chip := put_bytes (ps_chip s) addr src\<rparr>)"
  using assms psram_write_loop_flat[OF assms(1,3)] by (simp add: psram_write_def)

interpretation psram: byte_store "\<lambda>P s. psram_chip_ok P \<and> ps_ready s" PSRAM_SIZE ps_chip
  psram_read psram_write
  by unfold_locales (simp_all add: psram_read_flat psram_write_flat)

lemma put_zeros:
  "put_bytes (put_bytes m a (replicate n 0)) (a + n) (replicate k 0) = put_bytes m a (replicate (n + k) 0)"
  using put_bytes_append[of m a "replicate n 0" "replicate k 0"] by (simp add: replicate_add)

lemma psram_clear_loop_flat:
  assumes "psram_chip_ok P" "ps_ready s" "addr + len \<le> PSRAM_SIZE"
  shows "psram_clear_loop P s addr len = (0, s\<lparr>ps_chip := put_bytes (ps_chip s) addr (replicate len 0)\<rparr>)"
  using assms(2,3)
proof (induction len arbitrary: addr s rule: less_induct)
  case (less len)
  let ?c = "if 256 < len then 256 else len"
  let ?s = "s\<lparr>ps_chip := put_bytes (ps_chip s) addr (replicate ?c 0)\<rparr>"
  show ?case
  proof (cases "len = 0")
    case True
    then show ?thesis by (subst psram_clear_loop.simps) simp
  next
    case False
    have "psram_clear_loop P ?s (addr + ?c) (len - ?c)
      = (0, ?s\<lparr>ps_chip := put_bytes (ps_chip ?s) (addr + ?c) (replicate (len - ?c) 0)\<rparr>)"
      using False less.prems by (intro less.IH) auto
    moreover have "psram_write P s addr (replicate ?c 0) = (0, ?s)"
      using psram_write_flat[OF assms(1) less.prems(1), of addr "replicate ?c 0"] less.prems(2) by simp
    moreover have "(addr + ?c) mod 2 ^ 32 = addr + ?c" using less.prems by simp
    moreover have "?c + (len - ?c) = len" by simp
    ultimately show ?thesis
      using False put_zeros[of "ps_chip s" addr ?c "len - ?c"]
      by (subst psram_clear_loop.simps) (simp add: Let_def)
  qed
qed

lemma psram_clear_flat:
  assumes "psram_chip_ok P" "ps_ready s" "addr + len \<le> PSRAM_SIZE"
  shows "psram_clear P s addr len = (0, s\<lparr>ps_chip := put_bytes (ps_chip s) addr (replicate len 0)\<rparr>)"
  using assms by (simp add: psram_clear_def psram_clear_loop_flat)

text \<open>Without any assumption on the chip: the driver never changes its ready flag.\<close>

lemma psram_write_ready [frame_simps]: "ps_ready (snd (psram_write P s a bs)) = ps_ready s"
  by (simp add: psram_write_def split_beta Let_def)

lemma psram_read_ready [frame_simps]: "ps_ready (snd (snd (psram_read P s a n))) = ps_ready s"
  by (simp add: psram_read_def split_beta Let_def)

section \<open>Properties\<close>

text \<open>
  C29: The driver implements a flat byte memory. On a chip that performs page-local bursts, any
  write inside the 8 MB succeeds and stores exactly the given bytes, however many 1024-byte pages
  it spans, and any read inside the 8 MB returns exactly the stored bytes and changes nothing.
\<close>

theorem psram_flat_memory:
  assumes "psram_chip_ok P" "ps_ready s"
  shows "(addr + length src \<le> PSRAM_SIZE \<longrightarrow>
      psram_write P s addr src = (0, s\<lparr>ps_chip := put_bytes (ps_chip s) addr src\<rparr>)) \<and>
    (addr + len \<le> PSRAM_SIZE \<longrightarrow> psram_read P s addr len = (0, get_bytes (ps_chip s) addr len, s)) \<and>
    (addr + len \<le> PSRAM_SIZE \<longrightarrow>
      psram_clear P s addr len = (0, s\<lparr>ps_chip := put_bytes (ps_chip s) addr (replicate len 0)\<rparr>))"
  using psram_write_flat[OF assms] psram_read_flat[OF assms] psram_clear_flat[OF assms] by blast

theorem psram_flat_memory_witness:
  "psram_write ref_platform \<lparr>ps_ready = True, ps_chip = (\<lambda>a. 0)\<rparr> 1020 [1, 2, 3, 4, 5, 6]
    = (0, \<lparr>ps_ready = True, ps_chip = put_bytes (\<lambda>a. 0) 1020 [1, 2, 3, 4, 5, 6]\<rparr>)"
  using psram_flat_memory[OF platform_okD(3)[OF ref_platform_ok],
      of "\<lparr>ps_ready = True, ps_chip = (\<lambda>a. 0)\<rparr>" 1020 "[1, 2, 3, 4, 5, 6]"] by simp

text \<open>
  An address in the last 16 MB of the 32-bit range reaches the chip with its low 24 bits, and behind
  the end of the range the loop goes on at 0.
\<close>

abbreviation (input) HIGH :: nat where "HIGH \<equiv> 0xFF000000"

lemma cmd_addr_high: "cmd_addr c (HIGH + a) = cmd_addr c a"
proof -
  have "(HIGH + a) div 0x10000 = a div 0x10000 + 0xFF00" "(HIGH + a) div 0x100 = a div 0x100 + 0xFF0000" by simp_all
  moreover have "(word_of_nat 0xFF00 :: u8) = 0" "(word_of_nat 0xFF0000 :: u8) = 0" "(word_of_nat HIGH :: u8) = 0" by simp_all
  ultimately show ?thesis by (simp only: cmd_addr_def of_nat_add add_0_right add_0_left)
qed

lemma psram_write_loop_wraps:
  assumes "psram_chip_ok P" "a < 2 ^ 24" "2 ^ 24 \<le> a + length src"
  shows "psram_write_loop P m (HIGH + a) src
    = psram_write_loop P (put_bytes m a (take (2 ^ 24 - a) src)) 0 (drop (2 ^ 24 - a) src)"
  using assms(2,3)
proof (induction src arbitrary: a m rule: length_induct)
  case (1 src)
  let ?n = "burst_len (HIGH + a) (length src)" and ?k = "2 ^ 24 - a"
  have page: "(HIGH + a) mod PSRAM_PAGE = a mod PSRAM_PAGE" by (simp add: mod_add_eq[symmetric])
  have ne: "src \<noteq> []" using "1.prems" by auto
  note b = burst_len_bounds(1)[of "length src" "HIGH + a"] burst_len_bounds(2,3)[of "HIGH + a" "length src"]
  have fits: "a + ?n \<le> 2 ^ 24"
  proof -
    have "a div 1024 < 2 ^ 14" using "1.prems"(1) by (simp add: div_less_iff_less_mult)
    then have "a div 1024 * 1024 + 1024 \<le> 2 ^ 24" by simp
    then show ?thesis using b(3) page div_mult_mod_eq[of a 1024] by linarith
  qed
  let ?m = "put_bytes m a (take ?n src)"
  have "pf_spi_write P m (cmd_addr 0x02 a @ take ?n src) = (0, ?m)"
    using assms(1) "1.prems"(1) b page by (intro psram_chip_okD(1)) auto
  then have step: "psram_write_loop P m (HIGH + a) src = psram_write_loop P ?m ((HIGH + a + ?n) mod 2 ^ 32) (drop ?n src)"
    using ne by (subst psram_write_loop.simps) (simp only: cmd_addr_high Let_def prod.case if_False if_True simp_thms)
  show ?case
  proof (cases "a + ?n = 2 ^ 24")
    case True
    then have e: "HIGH + a + ?n = 2 ^ 32" and k: "?k = ?n" by simp_all
    have "(HIGH + a + ?n) mod 2 ^ 32 = 0" unfolding e by simp
    note this k
    then show ?thesis using step by (simp only:)
  next
    case False
    then have less: "a + ?n < 2 ^ 24" using fits by simp
    then have "(HIGH + a + ?n) mod 2 ^ 32 = HIGH + (a + ?n)" by simp
    moreover have "psram_write_loop P ?m (HIGH + (a + ?n)) (drop ?n src)
      = psram_write_loop P (put_bytes ?m (a + ?n) (take (2 ^ 24 - (a + ?n)) (drop ?n src))) 0 (drop (2 ^ 24 - (a + ?n)) (drop ?n src))"
      using b ne less "1.prems"(2) by (intro "1.IH"[rule_format]) auto
    moreover have "put_bytes ?m (a + ?n) (take (2 ^ 24 - (a + ?n)) (drop ?n src)) = put_bytes m a (take ?k src)"
      using put_bytes_append[of m a "take ?n src" "take (2 ^ 24 - (a + ?n)) (drop ?n src)"] b(2) less
        take_add[of ?n "2 ^ 24 - (a + ?n)" src] by simp
    moreover have "drop (2 ^ 24 - (a + ?n)) (drop ?n src) = drop ?k src" using less by simp
    ultimately show ?thesis using step by simp
  qed
qed



end
