(* ===== verification/Timeout.thy ===== *)
theory Timeout
  imports Prelude
begin

text \<open>
  Non-blocking timeouts (\<open>src/src/timeout.c\<close>). The clock is an argument: \<open>now\<close> is what
  \<open>k_uptime_get()\<close> returns at the call.
\<close>

record nbtimeout =
  deadline_ms :: s64
  duration_ms :: u32
  retries :: u8
  max_retries :: u8

definition nbtimeout_init :: "u32 \<Rightarrow> u8 \<Rightarrow> nbtimeout" where
  "nbtimeout_init duration maxr =
     \<lparr>deadline_ms = 0, duration_ms = duration, retries = 1, max_retries = maxr\<rparr>"

definition nbtimeout_start :: "s64 \<Rightarrow> nbtimeout \<Rightarrow> nbtimeout" where
  "nbtimeout_start now t = t\<lparr>deadline_ms := now + ucast (duration_ms t)\<rparr>"

definition nbtimeout_stop :: "nbtimeout \<Rightarrow> nbtimeout" where
  "nbtimeout_stop t = t\<lparr>deadline_ms := 0\<rparr>"

definition nbtimeout_is_active :: "nbtimeout \<Rightarrow> bool" where
  "nbtimeout_is_active t \<longleftrightarrow> deadline_ms t \<noteq> 0"

definition nbtimeout_expired :: "s64 \<Rightarrow> nbtimeout \<Rightarrow> bool" where
  "nbtimeout_expired now t \<longleftrightarrow> (if deadline_ms t = 0 then False else deadline_ms t \<le>s now)"

text \<open>Returns whether the retries are exhausted, and the timeout after the call.\<close>

definition nbtimeout_retry :: "s64 \<Rightarrow> nbtimeout \<Rightarrow> bool \<times> nbtimeout" where
  "nbtimeout_retry now t =
     (let t1 = t\<lparr>retries := retries t + 1\<rparr>
      in if max_retries t1 < retries t1 then (True, nbtimeout_stop t1)
         else (False, nbtimeout_start now t1))"

definition nbtimeout_reset :: "nbtimeout \<Rightarrow> nbtimeout" where
  "nbtimeout_reset t = t\<lparr>retries := 0, deadline_ms := 0\<rparr>"

definition nbtimeout_retries :: "nbtimeout \<Rightarrow> u8" where
  "nbtimeout_retries t = retries t"

definition nbtimeout_max_retries :: "nbtimeout \<Rightarrow> u8" where
  "nbtimeout_max_retries t = max_retries t"

section \<open>How often a timeout is retried\<close>

text \<open>The results of \<open>nbtimeout_retry\<close> at the given times, up to the one that is exhausted.\<close>

primrec retry_results :: "s64 list \<Rightarrow> nbtimeout \<Rightarrow> bool list" where
  "retry_results [] t = []"
| "retry_results (now # ts) t = (let (exhausted, t') = nbtimeout_retry now t in
     exhausted # (if exhausted then [] else retry_results ts t'))"

lemma retry_fields [simp]:
  "retries (snd (nbtimeout_retry now t)) = retries t + 1"
  "max_retries (snd (nbtimeout_retry now t)) = max_retries t"
  "duration_ms (snd (nbtimeout_retry now t)) = duration_ms t"
  by (simp_all add: nbtimeout_retry_def nbtimeout_stop_def nbtimeout_start_def Let_def)

lemma retry_exhausted: "fst (nbtimeout_retry now t) \<longleftrightarrow> max_retries t < retries t + 1"
  by (simp add: nbtimeout_retry_def Let_def)

lemma retry_deadline:
  "deadline_ms (snd (nbtimeout_retry now t))
    = (if fst (nbtimeout_retry now t) then 0 else now + ucast (duration_ms t))"
  by (simp add: nbtimeout_retry_def nbtimeout_stop_def nbtimeout_start_def Let_def)

lemma retry_results_count:
  assumes "unat (retries t) + k = unat (max_retries t)" "max_retries t < 255" "k < length ts"
  shows "retry_results ts t = replicate k False @ [True]"
  using assms
proof (induction ts arbitrary: t k)
  case (Cons now ts)
  have m: "unat (max_retries t) < 255" using Cons.prems(2) by (simp add: word_less_nat_alt)
  then have s: "unat (retries t + 1) = unat (retries t) + 1"
    using Cons.prems(1) by (simp add: unat_word_ariths)
  show ?case
  proof (cases k)
    case 0
    then have "max_retries t < retries t + 1" using s Cons.prems(1) by (simp add: word_less_nat_alt)
    then show ?thesis using 0 by (simp add: split_beta Let_def retry_exhausted)
  next
    case (Suc k')
    then have "\<not> max_retries t < retries t + 1" using s Cons.prems(1) by (simp add: word_less_nat_alt)
    then show ?thesis
      using Suc Cons.IH[of "snd (nbtimeout_retry now t)" k'] Cons.prems s
      by (simp add: split_beta Let_def retry_exhausted)
  qed
qed simp

text \<open>
  A timeout started with \<open>m\<close> maximal retries, \<open>1 \<le> m < 255\<close>, is re-armed \<open>m - 1\<close> times and
  exhausted at its \<open>m\<close>-th expiry: the retry counter starts at 1, so a tracked packet is put on the
  air \<open>m\<close> times in all (5 for \<open>PACKET_MAX_RETRIES\<close>), and no more.
\<close>

theorem nbtimeout_retry_count:
  assumes "1 \<le> m" "m < 255" "unat m \<le> length ts"
  shows "retry_results ts (nbtimeout_start now (nbtimeout_init d m)) = replicate (unat m - 1) False @ [True]"
proof (rule retry_results_count)
  have "1 \<le> unat m" using assms(1) by (simp add: word_le_nat_alt)
  then show "unat (retries (nbtimeout_start now (nbtimeout_init d m))) + (unat m - 1)
      = unat (max_retries (nbtimeout_start now (nbtimeout_init d m)))"
    and "unat m - 1 < length ts"
    using assms(3) by (simp_all add: nbtimeout_start_def nbtimeout_init_def)
  show "max_retries (nbtimeout_start now (nbtimeout_init d m)) < 255"
    using assms(2) by (simp add: nbtimeout_start_def nbtimeout_init_def)
qed

theorem nbtimeout_retry_count_witness:
  "retry_results [750, 1500, 2250, 3000, 3750] (nbtimeout_start 0 (nbtimeout_init 750 5))
    = [False, False, False, False, True]"
proof -
  have "replicate 4 False = [False, False, False, False]" by (simp add: numeral_eq_Suc)
  then show ?thesis
    using nbtimeout_retry_count[of 5 "[750, 1500, 2250, 3000, 3750]" 0 750]
    by (simp del: retry_results.simps)
qed

end
