(* ===== verification/Tracker.thy ===== *)
theory Tracker
  imports Psram Timeout
begin

text \<open>
  src/tracker.c: the pool of packets that await an acknowledgment. The index is in RAM, the
  payloads are in PSRAM slots of 202 bytes (200 bytes and a CRC16). The operations take the pool
  and the PSRAM as two states; the expiry loop is split into one step per pool index
  (\<open>tracker_tick_step\<close>), because its callback works on the whole device.
\<close>

section \<open>State\<close>

abbreviation (input) TRACKER_MAX_ENTRIES :: nat where "TRACKER_MAX_ENTRIES \<equiv> 128"
abbreviation (input) TRACKER_PAYLOAD_MAX :: nat where "TRACKER_PAYLOAD_MAX \<equiv> 200"
abbreviation (input) TRACKER_SLOT_SIZE :: nat where "TRACKER_SLOT_SIZE \<equiv> 202"

record tracker_index =
  ti_dst_id :: u16
  ti_prev_id :: u16
  ti_tracking_id :: u8
  ti_packet_type :: u8
  ti_timeout :: nbtimeout
  ti_active :: bool
  ti_payload_len :: nat

record data_tracker =
  dt_dst_id :: u16
  dt_prev_id :: u16
  dt_tracking_id :: u8
  dt_packet_type :: u8
  dt_timeout :: nbtimeout
  dt_active :: bool
  dt_payload_len :: nat
  dt_payload :: bytes

text \<open>\<open>tr_temp_payload\<close> is the payload buffer of the static \<open>temp_entry\<close>.\<close>

record tracker =
  tr_pool :: "tracker_index list"
  tr_next_id :: u8
  tr_temp_payload :: bytes

definition psram_slot_addr :: "nat \<Rightarrow> nat" where
  "psram_slot_addr idx = PSRAM_TRACKER_BASE + TRACKER_SLOT_SIZE * idx"

definition fill_from_index :: "tracker \<Rightarrow> nat \<Rightarrow> data_tracker" where
  "fill_from_index tr idx = (let e = tr_pool tr ! idx in
     \<lparr>dt_dst_id = ti_dst_id e, dt_prev_id = ti_prev_id e, dt_tracking_id = ti_tracking_id e,
      dt_packet_type = ti_packet_type e, dt_timeout = ti_timeout e, dt_active = ti_active e,
      dt_payload_len = ti_payload_len e, dt_payload = tr_temp_payload tr\<rparr>)"

section \<open>Payloads in PSRAM\<close>

definition psram_payload_write :: "platform \<Rightarrow> psram \<Rightarrow> nat \<Rightarrow> bytes \<Rightarrow> int \<times> psram" where
  "psram_payload_write P ps idx payload = (
     if \<not> is_psram_initialized ps then (- ENODEV, ps)
     else psram_write P ps (psram_slot_addr idx) (payload @ by16 (pf_crc16 P 0xFFFF payload)))"

definition psram_payload_read :: "platform \<Rightarrow> psram \<Rightarrow> nat \<Rightarrow> nat \<Rightarrow> int \<times> bytes \<times> psram" where
  "psram_payload_read P ps idx len = (
     if \<not> is_psram_initialized ps then (- ENODEV, [], ps)
     else let (err, buf, ps) = psram_read P ps (psram_slot_addr idx) (len + 2) in
     if err \<noteq> 0 then (err, [], ps)
     else if rd_u16 len buf \<noteq> pf_crc16 P 0xFFFF (take len buf) then (- EILSEQ, [], ps)
     else (0, take len buf, ps))"

section \<open>Operations\<close>

definition tracker_init :: "tracker \<Rightarrow> tracker" where
  "tracker_init tr = tr\<lparr>tr_pool := map (\<lambda>e. e\<lparr>ti_active := False\<rparr>) (tr_pool tr), tr_next_id := 1\<rparr>"

text \<open>\<open>tracker_add\<close> with a payload pointer that is not NULL, as at every call; returns the index or -1.\<close>

definition tracker_add :: "platform \<Rightarrow> s64 \<Rightarrow> u16 \<Rightarrow> u16 \<Rightarrow> u8 \<Rightarrow> u8 \<Rightarrow> u32 \<Rightarrow> u8 \<Rightarrow> bytes \<Rightarrow> nat \<Rightarrow>
    tracker \<Rightarrow> psram \<Rightarrow> int \<times> tracker \<times> psram" where
  "tracker_add P now dst_id prev_id tracking_id packet_type timeout_ms maxr payload payload_len tr ps = (
     case find_idx (\<lambda>e. \<not> ti_active e) (tr_pool tr) of
       None \<Rightarrow> (- 1, tr, ps)
     | Some i \<Rightarrow>
         let len = (if TRACKER_PAYLOAD_MAX < payload_len then TRACKER_PAYLOAD_MAX else payload_len);
             e = \<lparr>ti_dst_id = dst_id, ti_prev_id = prev_id, ti_tracking_id = tracking_id,
                  ti_packet_type = packet_type,
                  ti_timeout = nbtimeout_start now (nbtimeout_init timeout_ms maxr),
                  ti_active = True, ti_payload_len = len\<rparr>;
             (_, ps) = (if 0 < payload_len then psram_payload_write P ps i (take len payload) else (0, ps)) in
         (int i, tr\<lparr>tr_pool := (tr_pool tr)[i := e]\<rparr>, ps))"

abbreviation is_tracking :: "u8 \<Rightarrow> tracker_index \<Rightarrow> bool" where
  "is_tracking tid e \<equiv> ti_active e \<and> ti_tracking_id e = tid"

abbreviation is_dst_packet :: "u16 \<Rightarrow> u8 \<Rightarrow> tracker_index \<Rightarrow> bool" where
  "is_dst_packet dst pt e \<equiv> ti_active e \<and> ti_dst_id e = dst \<and> ti_packet_type e = pt"

definition tracker_get_by_tracking_id :: "u8 \<Rightarrow> tracker \<Rightarrow> data_tracker option" where
  "tracker_get_by_tracking_id tid tr =
     map_option (fill_from_index tr) (find_idx (is_tracking tid) (tr_pool tr))"

definition tracker_get_by_dst :: "u16 \<Rightarrow> u8 \<Rightarrow> tracker \<Rightarrow> data_tracker option" where
  "tracker_get_by_dst dst pt tr =
     map_option (fill_from_index tr) (find_idx (is_dst_packet dst pt) (tr_pool tr))"

definition deactivate :: "tracker_index \<Rightarrow> tracker_index" where
  "deactivate e = e\<lparr>ti_active := False, ti_timeout := nbtimeout_stop (ti_timeout e)\<rparr>"

definition tracker_remove_by_tracking_id :: "u8 \<Rightarrow> tracker \<Rightarrow> tracker" where
  "tracker_remove_by_tracking_id tid tr = (case find_idx (is_tracking tid) (tr_pool tr) of
       None \<Rightarrow> tr
     | Some i \<Rightarrow> tr\<lparr>tr_pool := (tr_pool tr)[i := deactivate (tr_pool tr ! i)]\<rparr>)"

definition tracker_remove_by_dst :: "u16 \<Rightarrow> u8 \<Rightarrow> tracker \<Rightarrow> tracker" where
  "tracker_remove_by_dst dst pt tr = (case find_idx (is_dst_packet dst pt) (tr_pool tr) of
       None \<Rightarrow> tr
     | Some i \<Rightarrow> tr\<lparr>tr_pool := (tr_pool tr)[i := deactivate (tr_pool tr ! i)]\<rparr>)"

definition tracker_remove_by_device :: "u16 \<Rightarrow> tracker \<Rightarrow> tracker" where
  "tracker_remove_by_device dst tr = tr\<lparr>tr_pool :=
     map (\<lambda>e. if ti_active e \<and> ti_dst_id e = dst then deactivate e else e) (tr_pool tr)\<rparr>"

definition tracker_update_payload :: "platform \<Rightarrow> u8 \<Rightarrow> bytes \<Rightarrow> nat \<Rightarrow> tracker \<Rightarrow> psram \<Rightarrow> int \<times> tracker \<times> psram" where
  "tracker_update_payload P tid payload payload_len tr ps = (
     case find_idx (is_tracking tid) (tr_pool tr) of
       None \<Rightarrow> (- ENOENT, tr, ps)
     | Some i \<Rightarrow>
         let len = (if TRACKER_PAYLOAD_MAX < payload_len then TRACKER_PAYLOAD_MAX else payload_len);
             (err, ps) = psram_payload_write P ps i (take len payload) in
         (err, tr\<lparr>tr_pool := (tr_pool tr)[i := (tr_pool tr ! i)\<lparr>ti_payload_len := len\<rparr>]\<rparr>, ps))"

text \<open>
  One iteration of \<open>tracker_tick\<close>: nothing unless entry \<open>i\<close> is active and expired, else the retry
  and the entry handed to the callback, with whether it is exhausted.
\<close>

definition tracker_tick_step :: "platform \<Rightarrow> s64 \<Rightarrow> nat \<Rightarrow> tracker \<Rightarrow> psram \<Rightarrow>
    (data_tracker \<times> bool) option \<times> tracker \<times> psram" where
  "tracker_tick_step P now i tr ps = (
     let e = tr_pool tr ! i in
     if \<not> ti_active e then (None, tr, ps)
     else if \<not> nbtimeout_expired now (ti_timeout e) then (None, tr, ps)
     else let (exhausted, t) = nbtimeout_retry now (ti_timeout e);
              e = e\<lparr>ti_timeout := t, ti_active := (if exhausted then False else ti_active e)\<rparr>;
              tr = tr\<lparr>tr_pool := (tr_pool tr)[i := e]\<rparr>;
              entry = fill_from_index tr i in
     if dt_payload_len entry = 0 then (Some (entry, exhausted), tr, ps)
     else let (err, data, ps) = psram_payload_read P ps i (dt_payload_len entry) in
     if err \<noteq> 0 then (Some (entry\<lparr>dt_payload_len := 0\<rparr>, exhausted), tr, ps)
     else let payload = data @ drop (length data) (tr_temp_payload tr) in
       (Some (entry\<lparr>dt_payload := payload\<rparr>, exhausted), tr\<lparr>tr_temp_payload := payload\<rparr>, ps))"

definition tracker_active_count :: "tracker \<Rightarrow> nat" where
  "tracker_active_count tr = length (filter ti_active (tr_pool tr))"

definition tracker_next_id :: "tracker \<Rightarrow> u8 \<times> tracker" where
  "tracker_next_id tr = (let n = tr_next_id tr + 1 in
     (tr_next_id tr, tr\<lparr>tr_next_id := if 255 \<le> n then 1 else n\<rparr>))"

section \<open>Invariant\<close>

definition tracker_wf :: "tracker \<Rightarrow> bool" where
  "tracker_wf tr \<longleftrightarrow> length (tr_pool tr) = TRACKER_MAX_ENTRIES \<and>
     1 \<le> tr_next_id tr \<and> tr_next_id tr \<le> 254 \<and> length (tr_temp_payload tr) = TRACKER_PAYLOAD_MAX \<and>
     (\<forall>e\<in>set (tr_pool tr). ti_payload_len e \<le> TRACKER_PAYLOAD_MAX)"

lemma tracker_wfD:
  assumes "tracker_wf tr"
  shows "length (tr_pool tr) = TRACKER_MAX_ENTRIES" "1 \<le> tr_next_id tr" "tr_next_id tr \<le> 254"
    "length (tr_temp_payload tr) = TRACKER_PAYLOAD_MAX"
    "i < TRACKER_MAX_ENTRIES \<Longrightarrow> ti_payload_len (tr_pool tr ! i) \<le> TRACKER_PAYLOAD_MAX"
  using assms by (simp_all add: tracker_wf_def)

lemma tracker_wf_pool_update:
  "tracker_wf tr \<Longrightarrow> ti_payload_len e \<le> TRACKER_PAYLOAD_MAX \<Longrightarrow>
    tracker_wf (tr\<lparr>tr_pool := (tr_pool tr)[i := e]\<rparr>)"
  by (auto simp: tracker_wf_def dest: set_update_subset_insert[THEN subsetD])

lemma tracker_wf_init [wf_intros]: "tracker_wf tr \<Longrightarrow> tracker_wf (tracker_init tr)"
  by (auto simp: tracker_wf_def tracker_init_def)

lemma tracker_wf_add [wf_intros]:
  "tracker_wf tr \<Longrightarrow> tracker_wf (fst (snd (tracker_add P now d p t pt to mr pl len tr ps)))"
  by (auto simp: tracker_add_def Let_def split_beta split: option.splits intro!: tracker_wf_pool_update)

lemma deactivate_len [simp]: "ti_payload_len (deactivate e) = ti_payload_len e"
  by (simp add: deactivate_def)

lemma tracker_wf_remove [wf_intros]:
  assumes "tracker_wf tr"
  shows "tracker_wf (tracker_remove_by_tracking_id tid tr)" "tracker_wf (tracker_remove_by_dst dst pt tr)"
    "tracker_wf (tracker_remove_by_device dst tr)"
proof -
  have "ti_payload_len (tr_pool tr ! i) \<le> TRACKER_PAYLOAD_MAX" if "find_idx p (tr_pool tr) = Some i" for p i
    using tracker_wfD(1,5)[OF assms] find_idx_less[OF that] by simp
  then show "tracker_wf (tracker_remove_by_tracking_id tid tr)" "tracker_wf (tracker_remove_by_dst dst pt tr)"
    using assms
    by (auto simp: tracker_remove_by_tracking_id_def tracker_remove_by_dst_def split: option.splits
        intro!: tracker_wf_pool_update)
  show "tracker_wf (tracker_remove_by_device dst tr)"
    using assms by (auto simp: tracker_wf_def tracker_remove_by_device_def)
qed

lemma tracker_wf_update_payload [wf_intros]:
  "tracker_wf tr \<Longrightarrow> tracker_wf (fst (snd (tracker_update_payload P tid pl len tr ps)))"
  by (auto simp: tracker_update_payload_def Let_def split_beta split: option.splits
      intro!: tracker_wf_pool_update)

lemma tracker_next_id_wf [wf_intros]: "tracker_wf tr \<Longrightarrow> tracker_wf (snd (tracker_next_id tr))"
proof -
  assume wf: "tracker_wf tr"
  let ?n = "tr_next_id tr"
  have b: "1 \<le> unat ?n" "unat ?n \<le> 254"
    using tracker_wfD(2,3)[OF wf] by (simp_all add: word_le_nat_alt)
  then have "unat (?n + 1) = unat ?n + 1" by (simp add: unat_word_ariths)
  then have "\<not> 255 \<le> ?n + 1 \<Longrightarrow> 1 \<le> ?n + 1 \<and> ?n + 1 \<le> 254" by (simp add: word_le_nat_alt)
  then show ?thesis using wf by (auto simp: tracker_next_id_def tracker_wf_def Let_def)
qed

lemma psram_payload_read_length:
  "psram_payload_read P ps i len = (0, data, ps') \<Longrightarrow> length data \<le> len"
  by (auto simp: psram_payload_read_def Let_def split_beta split: if_splits)

lemma tracker_wf_tick_step [wf_intros]:
  assumes "tracker_wf tr" "i < TRACKER_MAX_ENTRIES"
  shows "tracker_wf (fst (snd (tracker_tick_step P now i tr ps)))"
proof -
  note len = tracker_wfD(5)[OF assms]
  have up: "tracker_wf (tr\<lparr>tr_pool := (tr_pool tr)[i := (tr_pool tr ! i)\<lparr>ti_timeout := t, ti_active := b\<rparr>]\<rparr>)" for t b
    by (rule tracker_wf_pool_update[OF assms(1)]) (use len in simp)
  have temp: "tracker_wf (s\<lparr>tr_temp_payload := d @ drop (length d) (tr_temp_payload s)\<rparr>)"
    if "tracker_wf s" "length d \<le> TRACKER_PAYLOAD_MAX" for s d
    using that by (simp add: tracker_wf_def)
  show ?thesis
    using up len assms tracker_wfD(1)[OF assms(1)]
    by (auto simp: tracker_tick_step_def Let_def fill_from_index_def split: prod.splits
        intro!: temp[where s = "tr\<lparr>tr_pool := xs\<rparr>" for xs, simplified] dest!: psram_payload_read_length)
qed

end
