(* ===== verification/Tracker_Props.thy ===== *)
theory Tracker_Props
  imports Tracker
begin

text \<open>
  The properties of the tracker: payload slots in PSRAM do not disturb each other, what is
  retransmitted is what was tracked, tracking ids stay within 1 to 254, and an acknowledged packet
  is never retried again.
\<close>

section \<open>Payload slots\<close>

lemma slot_in_psram: "i < TRACKER_MAX_ENTRIES \<Longrightarrow> psram_slot_addr i + TRACKER_SLOT_SIZE \<le> PSRAM_TRACKER_SIZE"
  by (simp add: psram_slot_addr_def)

lemma payload_write_ok:
  assumes "psram_chip_ok P" "ps_ready ps" "i < TRACKER_MAX_ENTRIES" "length pl \<le> TRACKER_PAYLOAD_MAX"
  shows "psram_payload_write P ps i pl = (0, ps\<lparr>ps_chip :=
    put_bytes (ps_chip ps) (psram_slot_addr i) (pl @ by16 (pf_crc16 P 0xFFFF pl))\<rparr>)"
  using assms slot_in_psram[OF assms(3)]
  by (simp add: psram_payload_write_def is_psram_initialized_def psram_write_flat)

lemma payload_read_ok:
  assumes "psram_chip_ok P" "ps_ready ps" "i < TRACKER_MAX_ENTRIES" "length pl \<le> TRACKER_PAYLOAD_MAX"
    "get_bytes (ps_chip ps) (psram_slot_addr i) (length pl + 2) = pl @ by16 (pf_crc16 P 0xFFFF pl)"
  shows "psram_payload_read P ps i (length pl) = (0, pl, ps)"
  using assms slot_in_psram[OF assms(3)]
  by (simp add: psram_payload_read_def is_psram_initialized_def psram_read_flat wire_simps)

lemma payload_read_back:
  assumes "psram_chip_ok P" "ps_ready ps" "i < TRACKER_MAX_ENTRIES" "length pl \<le> TRACKER_PAYLOAD_MAX"
  shows "psram_payload_read P (snd (psram_payload_write P ps i pl)) i (length pl)
    = (0, pl, snd (psram_payload_write P ps i pl))"
  using payload_write_ok[OF assms] assms
    get_put_bytes_same[of "ps_chip ps" "psram_slot_addr i" "pl @ by16 (pf_crc16 P 0xFFFF pl)"]
  by (intro payload_read_ok) simp_all

lemma payload_read_other:
  assumes "psram_chip_ok P" "ps_ready ps" "i < TRACKER_MAX_ENTRIES" "j < TRACKER_MAX_ENTRIES" "i \<noteq> j"
    "length pl \<le> TRACKER_PAYLOAD_MAX" "n \<le> TRACKER_PAYLOAD_MAX"
  shows "fst (psram_payload_read P (snd (psram_payload_write P ps i pl)) j n) = fst (psram_payload_read P ps j n)"
    "fst (snd (psram_payload_read P (snd (psram_payload_write P ps i pl)) j n))
      = fst (snd (psram_payload_read P ps j n))"
proof -
  let ?w = "pl @ by16 (pf_crc16 P 0xFFFF pl)"
  have "psram_read P (snd (psram_payload_write P ps i pl)) (psram_slot_addr j) (n + 2)
    = (0, get_bytes (ps_chip ps) (psram_slot_addr j) (n + 2), snd (psram_payload_write P ps i pl))"
    using psram.slot_frame[of P ps i j ?w TRACKER_SLOT_SIZE "n + 2" 0] assms
    by (simp add: psram_payload_write_def is_psram_initialized_def psram_slot_addr_def)
  moreover have "psram_read P ps (psram_slot_addr j) (n + 2)
    = (0, get_bytes (ps_chip ps) (psram_slot_addr j) (n + 2), ps)"
    using assms slot_in_psram[OF assms(4)] by (intro psram_read_flat) simp_all
  moreover have "ps_ready (snd (psram_payload_write P ps i pl))"
    using assms by (simp add: psram_payload_write_def is_psram_initialized_def frame_simps)
  ultimately show "fst (psram_payload_read P (snd (psram_payload_write P ps i pl)) j n) = fst (psram_payload_read P ps j n)"
    "fst (snd (psram_payload_read P (snd (psram_payload_write P ps i pl)) j n))
      = fst (snd (psram_payload_read P ps j n))"
    using assms(2) by (simp_all add: psram_payload_read_def is_psram_initialized_def)
qed

section \<open>What is retried\<close>

text \<open>Entry \<open>i\<close> awaits an acknowledgment and its slot holds the payload \<open>pl\<close>.\<close>
definition tracks :: "platform \<Rightarrow> nat \<Rightarrow> bytes \<Rightarrow> tracker \<Rightarrow> psram \<Rightarrow> bool" where
  "tracks P i pl tr ps \<longleftrightarrow> i < TRACKER_MAX_ENTRIES \<and> ti_active (tr_pool tr ! i) \<and>
     ti_payload_len (tr_pool tr ! i) = length pl \<and> 0 < length pl \<and> length pl \<le> TRACKER_PAYLOAD_MAX \<and>
     get_bytes (ps_chip ps) (psram_slot_addr i) (length pl + 2) = pl @ by16 (pf_crc16 P 0xFFFF pl)"

lemma tracker_add_tracks:
  assumes "psram_chip_ok P" "ps_ready ps" "tracker_wf tr" "0 < length pl" "length pl \<le> TRACKER_PAYLOAD_MAX"
    "find_idx (\<lambda>e. \<not> ti_active e) (tr_pool tr) = Some i"
  shows "\<exists>tr' ps'. tracker_add P now d p t pt to mr pl (length pl) tr ps = (int i, tr', ps') \<and>
    tracks P i pl tr' ps' \<and> ps_ready ps' \<and> tracker_wf tr' \<and>
    ti_timeout (tr_pool tr' ! i) = nbtimeout_start now (nbtimeout_init to mr) \<and>
    ti_tracking_id (tr_pool tr' ! i) = t \<and> (\<forall>j. j \<noteq> i \<longrightarrow> tr_pool tr' ! j = tr_pool tr ! j)"
proof -
  have i: "i < 128" using find_idx_less[OF assms(6)] tracker_wfD(1)[OF assms(3)] by simp
  note w = payload_write_ok[OF assms(1,2) i assms(5)]
  show ?thesis
    using assms i tracker_wfD(1)[OF assms(3)] tracker_wf_add[OF assms(3), of P now d p t pt to mr pl "length pl" ps]
      get_put_bytes_same[of "ps_chip ps" "psram_slot_addr i" "pl @ by16 (pf_crc16 P 0xFFFF pl)"]
    by (simp add: tracker_add_def tracks_def w Let_def)
qed

lemma tracks_add_other:
  assumes "psram_chip_ok P" "ps_ready ps" "tracker_wf tr" "tracks P i pl tr ps"
  shows "tracks P i pl (fst (snd (tracker_add P now d p t pt to mr q len tr ps)))
    (snd (snd (tracker_add P now d p t pt to mr q len tr ps)))"
proof (cases "find_idx (\<lambda>e. \<not> ti_active e) (tr_pool tr)")
  case None
  then show ?thesis using assms(4) by (simp add: tracker_add_def)
next
  case (Some j)
  let ?q = "take (if 200 < len then 200 else len) q"
  let ?w = "?q @ by16 (pf_crc16 P 0xFFFF ?q)"
  have j: "j < 128" using find_idx_less[OF Some] tracker_wfD(1)[OF assms(3)] by simp
  have ne: "i \<noteq> j" using find_idx_nth[OF Some] assms(4) by (auto simp: tracks_def)
  have lq: "length ?q \<le> 200" by (simp add: min_def)
  note w = payload_write_ok[OF assms(1,2) j lq]
  have "202 * i + 202 \<le> 202 * j \<or> 202 * j + 202 \<le> 202 * i" using ne by linarith
  then have dj: "psram_slot_addr i + (length pl + 2) \<le> psram_slot_addr j \<or>
      psram_slot_addr j + length ?w \<le> psram_slot_addr i"
    using lq assms(4) unfolding psram_slot_addr_def tracks_def by (simp add: algebra_simps) linarith
  have "get_bytes (put_bytes (ps_chip ps) (psram_slot_addr j) ?w) (psram_slot_addr i) (length pl + 2)
      = get_bytes (ps_chip ps) (psram_slot_addr i) (length pl + 2)"
    by (rule get_put_bytes_disjoint[OF dj])
  then show ?thesis
    using assms(4) Some ne w by (auto simp: tracker_add_def tracks_def Let_def)
qed

lemma tick_step_tracks:
  assumes "psram_chip_ok P" "ps_ready ps" "tracker_wf tr" "tracks P i pl tr ps"
    "nbtimeout_expired now (ti_timeout (tr_pool tr ! i))"
  shows "\<exists>entry tr'. tracker_tick_step P now i tr ps
      = (Some (entry, fst (nbtimeout_retry now (ti_timeout (tr_pool tr ! i)))), tr', ps) \<and>
    dt_payload_len entry = length pl \<and> take (length pl) (dt_payload entry) = pl \<and>
    dt_dst_id entry = ti_dst_id (tr_pool tr ! i) \<and> dt_packet_type entry = ti_packet_type (tr_pool tr ! i) \<and>
    ti_active (tr_pool tr' ! i) = (\<not> fst (nbtimeout_retry now (ti_timeout (tr_pool tr ! i)))) \<and>
    ti_timeout (tr_pool tr' ! i) = snd (nbtimeout_retry now (ti_timeout (tr_pool tr ! i)))"
proof -
  have t: "i < 128" "length pl \<le> 200" "0 < length pl" "ti_active (tr_pool tr ! i)"
      "ti_payload_len (tr_pool tr ! i) = length pl"
    and g: "get_bytes (ps_chip ps) (psram_slot_addr i) (length pl + 2) = pl @ by16 (pf_crc16 P 0xFFFF pl)"
    using assms(4) by (simp_all add: tracks_def)
  note r = payload_read_ok[OF assms(1,2) t(1,2) g]
  show ?thesis
    using t assms(5) r tracker_wfD(1)[OF assms(3)]
    by (auto simp: tracker_tick_step_def fill_from_index_def Let_def split_beta)
qed

section \<open>Reference tracker\<close>

definition zero_index :: tracker_index where
  "zero_index = \<lparr>ti_dst_id = 0, ti_prev_id = 0, ti_tracking_id = 0, ti_packet_type = 0,
     ti_timeout = \<lparr>deadline_ms = 0, duration_ms = 0, retries = 0, max_retries = 0\<rparr>, ti_active = False,
     ti_payload_len = 0\<rparr>"

definition boot_tracker :: tracker where
  "boot_tracker = \<lparr>tr_pool = replicate TRACKER_MAX_ENTRIES zero_index, tr_next_id = 1,
     tr_temp_payload = replicate TRACKER_PAYLOAD_MAX 0\<rparr>"

definition ref_psram :: psram where
  "ref_psram = \<lparr>ps_ready = True, ps_chip = (\<lambda>a. 0)\<rparr>"

lemma boot_tracker_wf [wf_intros]: "tracker_wf boot_tracker"
  by (simp add: tracker_wf_def boot_tracker_def zero_index_def)

lemma boot_tracker_free: "find_idx (\<lambda>e. \<not> ti_active e) (tr_pool boot_tracker) = Some 0"
  by (simp add: boot_tracker_def zero_index_def numeral_eq_Suc)

section \<open>Properties\<close>

text \<open>
  C18: A tracked packet is retransmitted byte for byte. When a pool with a free entry is given a
  packet of at most 200 bytes, and the entry expires before its retries are exhausted, then the
  expiry step hands the callback that packet, payload and length intact, and keeps tracking it.
\<close>

theorem tracker_retransmits_payload:
  assumes "psram_chip_ok P" "ps_ready ps" "tracker_wf tr" "0 < length pl" "length pl \<le> TRACKER_PAYLOAD_MAX"
    "find_idx (\<lambda>e. \<not> ti_active e) (tr_pool tr) = Some i"
    "tracker_add P now dst prev tid pt dur m pl (length pl) tr ps = (r, tr', ps')"
    "nbtimeout_expired now' (nbtimeout_start now (nbtimeout_init dur m))" "2 \<le> m"
  shows "r = int i \<and> (\<exists>entry tr''. tracker_tick_step P now' i tr' ps' = (Some (entry, False), tr'', ps') \<and>
    dt_payload_len entry = length pl \<and> take (length pl) (dt_payload entry) = pl \<and>
    ti_active (tr_pool tr'' ! i))"
proof -
  from tracker_add_tracks[OF assms(1-6), of now dst prev tid pt dur m] assms(7)
  have r: "r = int i" and t: "tracks P i pl tr' ps'" and w: "ps_ready ps'" "tracker_wf tr'"
    and to: "ti_timeout (tr_pool tr' ! i) = nbtimeout_start now (nbtimeout_init dur m)" by auto
  have "\<not> fst (nbtimeout_retry now' (ti_timeout (tr_pool tr' ! i)))"
    using assms(9) by (simp add: to retry_exhausted nbtimeout_start_def nbtimeout_init_def not_less)
  with tick_step_tracks[OF assms(1) w t, of now'] assms(8) r show ?thesis
    unfolding to by auto
qed

theorem tracker_retransmits_payload_witness:
  "\<exists>tr' ps' entry tr''. tracker_add ref_platform 0 7 1 1 PACKET_PING_DEVICE 750 5 [1, 2, 3] 3 boot_tracker ref_psram
      = (0, tr', ps') \<and> tracker_tick_step ref_platform 750 0 tr' ps' = (Some (entry, False), tr'', ps') \<and>
    take 3 (dt_payload entry) = [1, 2, 3]"
proof -
  obtain r tr' ps' where a: "tracker_add ref_platform 0 7 1 1 PACKET_PING_DEVICE 750 5 [1, 2, 3]
      (length [1, 2, 3 :: u8]) boot_tracker ref_psram = (r, tr', ps')"
    using prod_cases3 by blast
  have "nbtimeout_expired 750 (nbtimeout_start 0 (nbtimeout_init 750 5))" by code_simp
  moreover have l: "length [1, 2, 3 :: u8] = 3" by simp
  moreover have "ps_ready ref_psram" by (simp add: ref_psram_def)
  ultimately have "r = int 0" "\<exists>entry tr''. tracker_tick_step ref_platform 750 0 tr' ps' = (Some (entry, False), tr'', ps') \<and>
      take 3 (dt_payload entry) = [1, 2, 3]"
    using tracker_retransmits_payload[OF platform_okD(3)[OF ref_platform_ok] _ boot_tracker_wf _ _
        boot_tracker_free a, of 750, unfolded l] by auto
  with a show ?thesis unfolding l by auto
qed

primrec next_ids :: "nat \<Rightarrow> tracker \<Rightarrow> u8 list" where
  "next_ids 0 tr = []"
| "next_ids (Suc n) tr = fst (tracker_next_id tr) # next_ids n (snd (tracker_next_id tr))"

lemma next_id_step:
  assumes "tr_next_id tr = word_of_nat (k mod 254) + 1"
  shows "tr_next_id (snd (tracker_next_id tr)) = word_of_nat (Suc k mod 254) + 1"
proof -
  have m: "k mod 254 < 254" by simp
  then have u: "unat (word_of_nat (k mod 254) :: u8) = k mod 254" by (simp add: unat_of_nat)
  show ?thesis
  proof (cases "k mod 254 = 253")
    case True
    then have "Suc k mod 254 = 0" by (simp add: mod_Suc)
    then show ?thesis using assms True by (simp add: tracker_next_id_def Let_def)
  next
    case False
    then have s: "Suc k mod 254 = Suc (k mod 254)" using m by (simp add: mod_Suc)
    have "unat (word_of_nat (k mod 254) + 1 + 1 :: u8) = k mod 254 + 2"
      using u m False by (simp add: unat_word_ariths)
    then have "\<not> 255 \<le> (word_of_nat (k mod 254) + 1 + 1 :: u8)"
      using m False by (simp add: word_le_nat_alt)
    then show ?thesis using assms by (simp add: tracker_next_id_def Let_def s add_ac)
  qed
qed

text \<open>
  The tracking ids handed out are 1, 2, ..., 254, 1, ... in this order, so they never take
  the values 0 and 255 that the protocol reserves.
\<close>

theorem tracker_ids_cycle:
  "next_ids n boot_tracker = map (\<lambda>k. word_of_nat (k mod 254) + 1) [0..<n]"
proof -
  have "next_ids n tr = map (\<lambda>k. word_of_nat (k mod 254) + 1) [m..<m + n]"
    if "tr_next_id tr = word_of_nat (m mod 254) + 1" for m tr
    using that
  proof (induction n arbitrary: m tr)
    case (Suc n)
    have "fst (tracker_next_id tr) = word_of_nat (m mod 254) + 1"
      using Suc.prems by (simp add: tracker_next_id_def Let_def)
    then show ?case using Suc.IH[OF next_id_step[OF Suc.prems]] by (simp add: upt_rec[of m])
  qed simp
  from this[of boot_tracker 0] show ?thesis by (simp add: boot_tracker_def)
qed

text \<open>
  C19: An acknowledged packet is not retried. If entry \<open>i\<close> is the only active one with its tracking
  id, then removing that id frees the entry, the expiry step does nothing for it at any time, and
  every other entry is left as it was.
\<close>

theorem tracker_remove_stops_retry:
  assumes "i < length (tr_pool tr)" "is_tracking tid (tr_pool tr ! i)"
    "\<And>j. j < length (tr_pool tr) \<Longrightarrow> is_tracking tid (tr_pool tr ! j) \<Longrightarrow> j = i"
  defines "tr' \<equiv> tracker_remove_by_tracking_id tid tr"
  shows "tracker_tick_step P now i tr' ps = (None, tr', ps) \<and>
    tracker_get_by_tracking_id tid tr' = None \<and> (\<forall>j. j \<noteq> i \<longrightarrow> tr_pool tr' ! j = tr_pool tr ! j)"
proof -
  obtain k where k: "find_idx (is_tracking tid) (tr_pool tr) = Some k"
    using find_idx_ex[of "tr_pool tr ! i" "tr_pool tr" "is_tracking tid"] assms(1,2) by auto
  then have "k = i" using find_idx_less[OF k] find_idx_nth[OF k] assms(3)[of k] by blast
  then have tr': "tr' = tr\<lparr>tr_pool := (tr_pool tr)[i := deactivate (tr_pool tr ! i)]\<rparr>"
    using k by (simp add: tr'_def tracker_remove_by_tracking_id_def)
  have "\<not> is_tracking tid (tr_pool tr' ! j)" if "j < length (tr_pool tr')" for j
  proof (cases "j = i")
    case True
    then show ?thesis using that by (simp add: tr' deactivate_def)
  next
    case False
    then have "tr_pool tr' ! j = tr_pool tr ! j" by (simp add: tr')
    moreover have "j < length (tr_pool tr)" using that by (simp add: tr')
    ultimately show ?thesis using assms(3) False by metis
  qed
  then have "find_idx (is_tracking tid) (tr_pool tr') = None"
    unfolding find_idx_None_iff all_set_conv_all_nth by blast
  then have g: "tracker_get_by_tracking_id tid tr' = None" by (simp add: tracker_get_by_tracking_id_def)
  have "\<not> ti_active (tr_pool tr' ! i)" using assms(1) by (simp add: tr' deactivate_def)
  then have "tracker_tick_step P now i tr' ps = (None, tr', ps)" by (simp add: tracker_tick_step_def Let_def)
  moreover have "\<forall>j. j \<noteq> i \<longrightarrow> tr_pool tr' ! j = tr_pool tr ! j" by (simp add: tr')
  ultimately show ?thesis using g by blast
qed

theorem tracker_remove_stops_retry_witness:
  "\<exists>tr. is_tracking 9 (tr_pool tr ! 0) \<and>
    tracker_get_by_tracking_id 9 (tracker_remove_by_tracking_id 9 tr) = None"
proof -
  let ?e = "zero_index\<lparr>ti_active := True, ti_tracking_id := 9\<rparr>"
  let ?tr = "boot_tracker\<lparr>tr_pool := [?e, zero_index]\<rparr>"
  have t: "is_tracking 9 (tr_pool ?tr ! 0)" by simp
  moreover have "j = 0" if "j < length (tr_pool ?tr)" "is_tracking 9 (tr_pool ?tr ! j)" for j
    using that by (cases j) (auto simp: zero_index_def)
  ultimately have "tracker_get_by_tracking_id 9 (tracker_remove_by_tracking_id 9 ?tr) = None"
    using tracker_remove_stops_retry[of 0 ?tr 9] by simp
  with t show ?thesis by blast
qed

end
