(* ===== verification/Device.thy ===== *)
theory Device
  imports Queue Storage_Props Tracker_Props
begin

text \<open>
  One node of the network: the module-level state of all components in one record, the getters
  and setters of src/product_info.c and src/mesh.c, and the lifting of the component operations
  to the node.

  A node is \<open>Running\<close>, \<open>Rebooted\<close> (\<open>sys_reboot\<close> was called, which does not return) or \<open>Faulted\<close>
  (the C code reached an out-of-bounds access or read an uninitialised local). \<open>seqs\<close> is the
  sequential composition of statements: nothing runs any more once the node left \<open>Running\<close>.
  The uptime \<open>dv_now\<close> is constant while one packet or one tick is processed.
\<close>

section \<open>State\<close>

datatype run_status = Running | Rebooted | Faulted

record device_info =
  di_device_type :: u8
  di_device_id :: u16
  di_serial_number :: u64
  di_connected_device_id :: u16
  di_hop_num :: u8
  di_firmware_version :: u16
  di_mesh_devices_count :: u16

text \<open>The statics of src/mesh.c.\<close>
record mesh_state =
  mh_initialized :: bool
  mh_temp_id :: u16
  mh_last_pair_request_ms :: u64
  mh_time_offset :: s64

text \<open>The statics of src/mesh_layers/mesh_pairing.c.\<close>
record response_candidate =
  cd_sender_id :: u16
  cd_device_type :: u8
  cd_hop_num :: u8
  cd_rssi_2 :: s16

record pairing =
  pr_candidates :: "response_candidate list"
  pr_count :: int
  pr_idx :: int
  pr_timer :: nbtimeout
  pr_collecting :: bool
  pr_process_next :: bool

text \<open>The slots of src/config.c, src/data.c and what they count.\<close>
record config_slot =
  cs_active :: bool
  cs_is_sent :: bool
  cs_is_applied :: bool
  cs_is_transfered :: bool
  cs_dst_device_id :: u16
  cs_dst_device_type :: u8
  cs_config_id :: u16
  cs_config_len :: u8
  cs_config_crc32 :: u32
  cs_timeout :: nbtimeout

record configs =
  cf_slots :: "config_slot list"
  cf_active_count :: u16

record report_sender =
  sd_active :: bool
  sd_dst_id :: u16
  sd_gen_device_id :: u16
  sd_data_id :: u8
  sd_priority :: u8
  sd_total_size :: u16
  sd_chunk_count :: u8
  sd_last_chunk_size :: u8
  sd_next_chunk :: u8
  sd_crc32 :: u32
  sd_timeout :: nbtimeout

record report_slot =
  sl_active :: bool
  sl_upstream_ready :: bool
  sl_is_sent :: bool
  sl_is_transfered :: bool
  sl_gen_device_id :: u16
  sl_data_id :: u8
  sl_priority :: u8
  sl_report_time_ms :: u64
  sl_total_size :: u16
  sl_chunk_count :: u8
  sl_last_chunk_size :: u8
  sl_crc32 :: u32
  sl_received :: "bool list"
  sl_received_count :: u8
  sl_idle_timeout :: nbtimeout

record reports =
  rp_senders :: "report_sender list"
  rp_slots :: "report_slot list"
  rp_high_count :: u16
  rp_med_count :: u16
  rp_low_count :: u16

text \<open>The transfers of src/large_data.c, the pages they occupy and the caches of its AT side.\<close>
record large_sender =
  lt_active :: bool
  lt_dst_id :: u16
  lt_gen_device_id :: u16
  lt_data_id :: u8
  lt_priority :: u8
  lt_total_size :: u32
  lt_page_count :: u16
  lt_last_chunk_size :: u16
  lt_total_chunks :: u16
  lt_next_chunk :: u16
  lt_crc32 :: u32
  lt_base_addr :: u32
  lt_timeout :: nbtimeout

record large_slot =
  lg_active :: bool
  lg_upstream_ready :: bool
  lg_is_sent :: bool
  lg_is_transfered :: bool
  lg_gen_device_id :: u16
  lg_data_id :: u8
  lg_priority :: u8
  lg_total_size :: u32
  lg_page_count :: u8
  lg_last_chunk_size :: u16
  lg_total_chunks :: u16
  lg_crc32 :: u32
  lg_received_count :: u16
  lg_bitmap :: bytes
  lg_base_addr :: u32
  lg_report_time_ms :: u64
  lg_idle_timeout :: nbtimeout

record large_data =
  ld_senders :: "large_sender list"
  ld_slots :: "large_slot list"
  ld_page_empty :: "bool list"
  ld_busy :: bool
  ld_device_id_cache :: u16
  ld_sender_idx_cache :: int

text \<open>The state machine of src/main_sub.c.\<close>
datatype main_sub_state = MAIN_SUB_INIT | MAIN_SUB_RX_WINDOW | MAIN_SUB_TX_PROCESS | MAIN_SUB_ERROR

record main_sub =
  mn_initialized :: bool
  mn_state :: main_sub_state

text \<open>The acknowledgment the AT interface waits for (src/slm_at_main.c).\<close>
record at_pending_ack =
  ap_data_type :: u8
  ap_sn :: u64
  ap_id :: u16
  ap_page :: s8
  ap_chunk :: s8

text \<open>
  \<open>dv_uart\<close> is what was written to the AT interface, \<open>dv_air\<close> the transmissions that the modem
  accepted (transmitter id, length code, data), \<open>dv_last_sender\<close> the transmitter of the last radio header.
\<close>

record dev =
  dv_status :: run_status
  dv_now :: s64
  dv_rand :: nat
  dv_info :: device_info
  dv_info_initialized :: bool
  dv_radio_id :: u16
  dv_queues :: queues
  dv_store :: storage
  dv_psram :: psram
  dv_tracker :: tracker
  dv_mesh :: mesh_state
  dv_pair :: pairing
  dv_config :: configs
  dv_reports :: reports
  dv_uart :: string
  dv_pending_ack :: at_pending_ack
  dv_large :: large_data
  dv_main :: main_sub
  dv_last_sender :: u16
  dv_air :: "(u16 \<times> u8 \<times> bytes) list"

abbreviation (input) FIRMWARE_VERSION :: u16 where "FIRMWARE_VERSION \<equiv> 100"
abbreviation (input) PACKET_TIMEOUT_MS :: u32 where "PACKET_TIMEOUT_MS \<equiv> 750"
abbreviation (input) PING_TIMEOUT_MS :: u64 where "PING_TIMEOUT_MS \<equiv> 30000"
abbreviation (input) PAIR_RESPONSE_COLLECT_WINDOW_MS :: u32 where "PAIR_RESPONSE_COLLECT_WINDOW_MS \<equiv> 3000"
abbreviation (input) PACKET_MAX_RETRIES :: u8 where "PACKET_MAX_RETRIES \<equiv> 5"
abbreviation (input) MAX_COMM_FAILURES :: u8 where "MAX_COMM_FAILURES \<equiv> 3"
abbreviation (input) CONFIG_SLOT_COUNT :: nat where "CONFIG_SLOT_COUNT \<equiv> MAX_DEVICES"
abbreviation (input) DATA_SLOT_COUNT :: nat where "DATA_SLOT_COUNT \<equiv> 512"
abbreviation (input) MAX_REPORT_SIZE :: nat where "MAX_REPORT_SIZE \<equiv> 256"
abbreviation (input) MAX_CONFIG_SIZE :: nat where "MAX_CONFIG_SIZE \<equiv> 128"
abbreviation (input) SEND_DATA_MAX :: nat where "SEND_DATA_MAX \<equiv> 180"
abbreviation (input) LARGE_DATA_CHUNK_SIZE :: nat where "LARGE_DATA_CHUNK_SIZE \<equiv> 180"
abbreviation (input) LARGE_DATA_CHUNKS_PER_PAGE :: nat where "LARGE_DATA_CHUNKS_PER_PAGE \<equiv> 32"
abbreviation (input) LARGE_DATA_PAGE_SIZE :: nat where "LARGE_DATA_PAGE_SIZE \<equiv> 5760"
abbreviation (input) LARGE_DATA_MAX_PAGE_COUNT :: nat where "LARGE_DATA_MAX_PAGE_COUNT \<equiv> 1092"
abbreviation (input) LARGE_DATA_SENDER_SLOT_COUNT :: nat where "LARGE_DATA_SENDER_SLOT_COUNT \<equiv> 1"
abbreviation (input) LARGE_DATA_RECEIVER_SLOT_COUNT :: nat where "LARGE_DATA_RECEIVER_SLOT_COUNT \<equiv> 64"
abbreviation (input) LARGE_DATA_MAX_TRANSFER_SIZE :: nat where "LARGE_DATA_MAX_TRANSFER_SIZE \<equiv> 204800"
abbreviation (input) LARGE_DATA_BITMAP_SIZE :: nat where "LARGE_DATA_BITMAP_SIZE \<equiv> 143"
abbreviation (input) LARGE_DATA_MAX_CHUNKS :: nat where "LARGE_DATA_MAX_CHUNKS \<equiv> 1138"
abbreviation (input) DATA_MAX_CHUNKS :: nat where "DATA_MAX_CHUNKS \<equiv> 2"
abbreviation (input) MAX_PAIR_RESPONSE_CANDIDATES :: nat where "MAX_PAIR_RESPONSE_CANDIDATES \<equiv> 16"

section \<open>Statements in sequence\<close>

primrec seqs :: "(dev \<Rightarrow> dev) list \<Rightarrow> dev \<Rightarrow> dev" where
  "seqs [] d = d"
| "seqs (f # fs) d = (if dv_status d = Running then seqs fs (f d) else d)"

text \<open>A call whose result is not used.\<close>
definition proc :: "(dev \<Rightarrow> 'a \<times> dev) \<Rightarrow> dev \<Rightarrow> dev" where
  "proc f d = snd (f d)"

text \<open>\<open>sys_reboot(SYS_REBOOT_COLD)\<close>, and undefined behaviour.\<close>
definition sys_reboot :: "dev \<Rightarrow> dev" where
  "sys_reboot d = d\<lparr>dv_status := Rebooted\<rparr>"

definition fault :: "dev \<Rightarrow> dev" where
  "fault d = d\<lparr>dv_status := Faulted\<rparr>"

section \<open>Getters and setters\<close>

abbreviation get_device_type :: "dev \<Rightarrow> u8" where "get_device_type d \<equiv> di_device_type (dv_info d)"
abbreviation get_device_id :: "dev \<Rightarrow> u16" where "get_device_id d \<equiv> di_device_id (dv_info d)"
abbreviation get_serial_number :: "dev \<Rightarrow> u64" where "get_serial_number d \<equiv> di_serial_number (dv_info d)"
abbreviation get_hop_number :: "dev \<Rightarrow> u8" where "get_hop_number d \<equiv> di_hop_num (dv_info d)"
abbreviation get_firmware_version :: "dev \<Rightarrow> u16" where
  "get_firmware_version d \<equiv> di_firmware_version (dv_info d)"
abbreviation get_mesh_devices_count :: "dev \<Rightarrow> u16" where
  "get_mesh_devices_count d \<equiv> di_mesh_devices_count (dv_info d)"
abbreviation get_connected_device_id :: "dev \<Rightarrow> u16" where
  "get_connected_device_id d \<equiv> di_connected_device_id (dv_info d)"
abbreviation get_temp_id :: "dev \<Rightarrow> u16" where "get_temp_id d \<equiv> mh_temp_id (dv_mesh d)"

definition set_device_type :: "u8 \<Rightarrow> dev \<Rightarrow> dev" where
  "set_device_type t d = d\<lparr>dv_info := (dv_info d)\<lparr>di_device_type := t\<rparr>\<rparr>"

definition set_device_id :: "u16 \<Rightarrow> dev \<Rightarrow> dev" where
  "set_device_id i d = d\<lparr>dv_info := (dv_info d)\<lparr>di_device_id := i\<rparr>\<rparr>"

definition set_hop_number :: "u8 \<Rightarrow> dev \<Rightarrow> dev" where
  "set_hop_number h d = d\<lparr>dv_info := (dv_info d)\<lparr>di_hop_num := h\<rparr>\<rparr>"

definition set_firmware_version :: "u16 \<Rightarrow> dev \<Rightarrow> dev" where
  "set_firmware_version v d = d\<lparr>dv_info := (dv_info d)\<lparr>di_firmware_version := v\<rparr>\<rparr>"

definition set_mesh_devices_count :: "u16 \<Rightarrow> dev \<Rightarrow> dev" where
  "set_mesh_devices_count n d = d\<lparr>dv_info := (dv_info d)\<lparr>di_mesh_devices_count := n\<rparr>\<rparr>"

definition set_connected_device_id :: "u16 \<Rightarrow> dev \<Rightarrow> dev" where
  "set_connected_device_id i d = d\<lparr>dv_info := (dv_info d)\<lparr>di_connected_device_id := i\<rparr>\<rparr>"

definition set_temp_id :: "u16 \<Rightarrow> dev \<Rightarrow> dev" where
  "set_temp_id i d = d\<lparr>dv_mesh := (dv_mesh d)\<lparr>mh_temp_id := i\<rparr>\<rparr>"

definition mesh_time_get :: "dev \<Rightarrow> u64" where
  "mesh_time_get d = mh_time_offset (dv_mesh d) + dv_now d"

definition mesh_time_set :: "u64 \<Rightarrow> dev \<Rightarrow> dev" where
  "mesh_time_set remote d = d\<lparr>dv_mesh := (dv_mesh d)\<lparr>mh_time_offset := remote - dv_now d\<rparr>\<rparr>"

definition mesh_pairing_set_pending_request :: "dev \<Rightarrow> dev" where
  "mesh_pairing_set_pending_request d = d\<lparr>dv_pair := (dv_pair d)\<lparr>pr_process_next := True\<rparr>\<rparr>"

section \<open>Component operations on the node\<close>

text \<open>The storage counts and tables of the node.\<close>
abbreviation infra_count :: "dev \<Rightarrow> nat" where "infra_count d \<equiv> st_infra_count (dv_store d)"
abbreviation sensor_count :: "dev \<Rightarrow> nat" where "sensor_count d \<equiv> st_sensor_count (dv_store d)"
abbreviation mesh_count :: "dev \<Rightarrow> nat" where "mesh_count d \<equiv> st_mesh_count (dv_store d)"
abbreviation infra_at :: "dev \<Rightarrow> nat \<Rightarrow> infra" where "infra_at d i \<equiv> st_infra (dv_store d) ! i"
abbreviation sensor_at :: "dev \<Rightarrow> nat \<Rightarrow> sensor" where "sensor_at d i \<equiv> st_sensors (dv_store d) ! i"
abbreviation mesh_at :: "dev \<Rightarrow> nat \<Rightarrow> mesh" where "mesh_at d i \<equiv> st_mesh (dv_store d) ! i"
abbreviation infra_id :: "infra \<Rightarrow> u16" where "infra_id x \<equiv> ie_device_id (in_entry x)"
abbreviation infra_hop :: "infra \<Rightarrow> u8" where "infra_hop x \<equiv> ie_hop_num (in_entry x)"
abbreviation sensor_id :: "sensor \<Rightarrow> u16" where "sensor_id x \<equiv> se_device_id (sn_entry x)"

definition on_store :: "(storage \<Rightarrow> 'a \<times> storage) \<Rightarrow> dev \<Rightarrow> 'a \<times> dev" where
  "on_store f d = (let (r, s) = f (dv_store d) in (r, d\<lparr>dv_store := s\<rparr>))"

definition upd_infra :: "nat \<Rightarrow> (infra \<Rightarrow> infra) \<Rightarrow> dev \<Rightarrow> dev" where
  "upd_infra i f d = d\<lparr>dv_store := (dv_store d)\<lparr>st_infra := (st_infra (dv_store d))[i := f (infra_at d i)]\<rparr>\<rparr>"

definition upd_sensor :: "nat \<Rightarrow> (sensor \<Rightarrow> sensor) \<Rightarrow> dev \<Rightarrow> dev" where
  "upd_sensor i f d = d\<lparr>dv_store := (dv_store d)\<lparr>st_sensors := (st_sensors (dv_store d))[i := f (sensor_at d i)]\<rparr>\<rparr>"

definition d_next_id :: "dev \<Rightarrow> u8 \<times> dev" where
  "d_next_id d = (let (i, tr) = tracker_next_id (dv_tracker d) in (i, d\<lparr>dv_tracker := tr\<rparr>))"

definition d_track :: "platform \<Rightarrow> u16 \<Rightarrow> u16 \<Rightarrow> u8 \<Rightarrow> u8 \<Rightarrow> u32 \<Rightarrow> u8 \<Rightarrow> bytes \<Rightarrow> dev \<Rightarrow> dev" where
  "d_track P dst prev tid pt dur maxr bs d = (
     let (_, tr, ps) = tracker_add P (dv_now d) dst prev tid pt dur maxr bs (length bs) (dv_tracker d) (dv_psram d) in
     d\<lparr>dv_tracker := tr, dv_psram := ps\<rparr>)"

definition d_untrack :: "u8 \<Rightarrow> dev \<Rightarrow> dev" where
  "d_untrack tid d = d\<lparr>dv_tracker := tracker_remove_by_tracking_id tid (dv_tracker d)\<rparr>"

definition d_tx :: "platform \<Rightarrow> bytes \<Rightarrow> nat \<Rightarrow> u8 \<Rightarrow> dev \<Rightarrow> int \<times> dev" where
  "d_tx P bs len prio d = (let (err, q) = tx_queue_put P (dv_queues d) bs len prio in (err, d\<lparr>dv_queues := q\<rparr>))"

definition d_random :: "platform \<Rightarrow> dev \<Rightarrow> u32 \<times> dev" where
  "d_random P d = (pf_rand P (dv_rand d), d\<lparr>dv_rand := dv_rand d + 1\<rparr>)"

section \<open>Invariant\<close>

text \<open>
  Array sizes, counts and tracking state of every component. The last clause says that the
  candidates not yet confirmed lie inside the candidate list.
\<close>

definition pairing_wf :: "pairing \<Rightarrow> bool" where
  "pairing_wf p \<longleftrightarrow> length (pr_candidates p) = MAX_PAIR_RESPONSE_CANDIDATES \<and>
     0 \<le> pr_count p \<and> pr_count p \<le> int MAX_PAIR_RESPONSE_CANDIDATES"

definition configs_wf :: "configs \<Rightarrow> bool" where
  "configs_wf c \<longleftrightarrow> length (cf_slots c) = CONFIG_SLOT_COUNT \<and>
     (\<forall>s\<in>set (cf_slots c). unat (cs_config_len s) \<le> MAX_CONFIG_SIZE)"

text \<open>
  A report fits its slot, and the places that record the received chunks suffice; what a sender
  transmits was copied from a slot.
\<close>

definition reports_wf :: "reports \<Rightarrow> bool" where
  "reports_wf r \<longleftrightarrow> length (rp_senders r) = MAX_ANCHORS \<and> length (rp_slots r) = DATA_SLOT_COUNT \<and>
     (\<forall>x\<in>set (rp_slots r). length (sl_received x) = DATA_MAX_CHUNKS \<and>
        unat (sl_chunk_count x) \<le> DATA_MAX_CHUNKS \<and> unat (sl_last_chunk_size x) \<le> SEND_DATA_MAX \<and>
        unat (sl_total_size x) \<le> MAX_REPORT_SIZE) \<and>
     (\<forall>x\<in>set (rp_senders r). unat (sd_chunk_count x) \<le> DATA_MAX_CHUNKS \<and>
        unat (sd_last_chunk_size x) \<le> SEND_DATA_MAX \<and> unat (sd_total_size x) \<le> MAX_REPORT_SIZE)"

text \<open>
  The bitmap has a bit for every chunk of the largest transfer, and the cached sender index is
  -1 or in range.
\<close>

definition large_wf :: "large_data \<Rightarrow> bool" where
  "large_wf l \<longleftrightarrow> length (ld_senders l) = LARGE_DATA_SENDER_SLOT_COUNT \<and>
     length (ld_slots l) = LARGE_DATA_RECEIVER_SLOT_COUNT \<and> length (ld_page_empty l) = LARGE_DATA_MAX_PAGE_COUNT \<and>
     (\<forall>x\<in>set (ld_slots l). length (lg_bitmap x) = LARGE_DATA_BITMAP_SIZE \<and>
        unat (lg_total_chunks x) \<le> LARGE_DATA_MAX_CHUNKS \<and> unat (lg_total_size x) \<le> LARGE_DATA_MAX_TRANSFER_SIZE) \<and>
     - 1 \<le> ld_sender_idx_cache l \<and> ld_sender_idx_cache l < int LARGE_DATA_SENDER_SLOT_COUNT"

definition dev_wf :: "dev \<Rightarrow> bool" where
  "dev_wf d \<longleftrightarrow> storage_wf (dv_store d) \<and> tracker_wf (dv_tracker d) \<and> pairing_wf (dv_pair d) \<and>
     configs_wf (dv_config d) \<and> reports_wf (dv_reports d) \<and> large_wf (dv_large d)"

definition preserves :: "('s \<Rightarrow> bool) \<Rightarrow> ('s \<Rightarrow> 's) \<Rightarrow> bool" where
  "preserves I f \<longleftrightarrow> (\<forall>s. I s \<longrightarrow> I (f s))"

lemma preservesI: "(\<And>s. I s \<Longrightarrow> I (f s)) \<Longrightarrow> preserves I f"
  by (simp add: preserves_def)

lemma preservesD: "preserves I f \<Longrightarrow> I s \<Longrightarrow> I (f s)"
  by (simp add: preserves_def)

lemma seqs_preserve:
  "(\<And>f. f \<in> set fs \<Longrightarrow> preserves I f) \<Longrightarrow> I d \<Longrightarrow> I (seqs fs d)"
  by (induction fs arbitrary: d) (auto simp: preserves_def)

lemma seqs_wf_Nil [wf_intros]: "dev_wf d \<Longrightarrow> dev_wf (seqs [] d)"
  by simp

lemma seqs_stopped: "dv_status d \<noteq> Running \<Longrightarrow> seqs fs d = d"
  by (cases fs) auto

lemma seqs_append: "seqs (fs @ gs) d = seqs gs (seqs fs d)"
  by (induction fs arbitrary: d) (auto simp: seqs_stopped)

end
