(* ===== verification/Mesh_Tx.thy ===== *)
theory Mesh_Tx
  imports Device
begin

text \<open>
  The transmit helpers of src/mesh_layers/: each builds a packet with the common header, tracks it
  for retransmission where the protocol expects an acknowledgment, and puts it into the transmit
  queue of its priority. The result is that of \<open>tx_queue_put\<close>. Parameters that the C code
  only logs (the destination's device type) are left out.
\<close>

definition mk_hdr :: "u8 \<Rightarrow> u8 \<Rightarrow> u8 \<Rightarrow> u16 \<Rightarrow> u8 \<Rightarrow> dev \<Rightarrow> packet_header" where
  "mk_hdr pt prio tid dst status d = \<lparr>ph_packet_type = pt, ph_device_type = get_device_type d,
     ph_priority = prio, ph_tracking_id = tid, ph_device_id = dst, ph_status = status\<rparr>"

text \<open>The all-zero header of a packet that is only a carrier of fields.\<close>
definition zero_hdr :: packet_header where
  "zero_hdr = \<lparr>ph_packet_type = 0, ph_device_type = 0, ph_priority = 0, ph_tracking_id = 0,
     ph_device_id = 0, ph_status = 0\<rparr>"

text \<open>Track a packet for \<open>PACKET_MAX_RETRIES\<close> transmissions and queue it; or queue it only.\<close>

definition send_tracked :: "platform \<Rightarrow> u16 \<Rightarrow> u8 \<Rightarrow> u8 \<Rightarrow> bytes \<Rightarrow> u8 \<Rightarrow> dev \<Rightarrow> int \<times> dev" where
  "send_tracked P dst pt tid bs prio d = d_tx P bs (length bs) prio
     (d_track P dst (get_device_id d) tid pt PACKET_TIMEOUT_MS PACKET_MAX_RETRIES bs d)"

definition send_plain :: "platform \<Rightarrow> bytes \<Rightarrow> u8 \<Rightarrow> dev \<Rightarrow> int \<times> dev" where
  "send_plain P bs prio d = d_tx P bs (length bs) prio d"

section \<open>Pairing (src/mesh_layers/mesh_pairing.c)\<close>

definition generate_random_number :: "platform \<Rightarrow> dev \<Rightarrow> u32 \<times> dev" where
  "generate_random_number P d = d_random P d"

definition compute_pair_hash :: "u16 \<Rightarrow> u32 \<Rightarrow> u32" where
  "compute_pair_hash dev_id random_num = (
     let h = ucast dev_id XOR random_num in
     ((push_bit 13 h) OR (drop_bit 19 h)) XOR (h * 0x02152001))"

definition send_pair_request :: "platform \<Rightarrow> bool \<Rightarrow> dev \<Rightarrow> int \<times> dev" where
  "send_pair_request P include_tracker d = (
     let (rnd, d) = generate_random_number P d;
         (tid, d) = d_next_id d;
         bs = enc_pair_request \<lparr>prq_hdr = mk_hdr PACKET_PAIR_REQUEST PACKET_PRIORITY_HIGH tid 0 STATUS_SUCCESS d,
                prq_random_num = rnd, prq_hash = compute_pair_hash (get_device_id d) rnd\<rparr>;
         d = (if include_tracker
              then d_track P (get_device_id d) 0 tid PACKET_PAIR_REQUEST (2 * PACKET_TIMEOUT_MS) PACKET_MAX_RETRIES bs d
              else d) in
     d_tx P bs (length bs) PACKET_PRIORITY_HIGH d)"

definition send_pair_response :: "platform \<Rightarrow> u16 \<Rightarrow> u8 \<Rightarrow> u8 \<Rightarrow> dev \<Rightarrow> int \<times> dev" where
  "send_pair_response P dst_id tracking_id status d =
     send_plain P (enc_pair_response \<lparr>prs_hdr = mk_hdr PACKET_PAIR_RESPONSE PACKET_PRIORITY_HIGH tracking_id dst_id status d,
                prs_hop_num = get_hop_number d\<rparr>) PACKET_PRIORITY_HIGH d"

definition send_pair_confirm :: "platform \<Rightarrow> u16 \<Rightarrow> u8 \<Rightarrow> dev \<Rightarrow> int \<times> dev" where
  "send_pair_confirm P dst_id status d = (
     let (tid, d) = d_next_id d;
         bs = enc_pair_confirm \<lparr>pcf_hdr = mk_hdr PACKET_PAIR_CONFIRM PACKET_PRIORITY_HIGH tid dst_id status d,
                pcf_version = get_firmware_version d, pcf_hop_num = get_hop_number d\<rparr> in
     send_tracked P dst_id PACKET_PAIR_CONFIRM tid bs PACKET_PRIORITY_HIGH d)"

text \<open>The initialiser does not name \<open>.version\<close>, so it is 0.\<close>
definition send_pair_ack :: "platform \<Rightarrow> u16 \<Rightarrow> u8 \<Rightarrow> u8 \<Rightarrow> dev \<Rightarrow> int \<times> dev" where
  "send_pair_ack P dst_id tracking_id status d =
     send_plain P (enc_pair_ack \<lparr>pak_hdr = mk_hdr PACKET_PAIR_ACK PACKET_PRIORITY_HIGH tracking_id dst_id status d,
                pak_version = 0, pak_hop_num = get_hop_number d\<rparr>) PACKET_PRIORITY_HIGH d"

definition send_repair_request :: "platform \<Rightarrow> u16 \<Rightarrow> dev \<Rightarrow> int \<times> dev" where
  "send_repair_request P dst_id d = (
     let (rnd, d) = generate_random_number P d;
         (tid, d) = d_next_id d;
         bs = enc_repair_request \<lparr>rrq_hdr = mk_hdr PACKET_REPAIR_REQUEST PACKET_PRIORITY_HIGH tid dst_id STATUS_SUCCESS d,
                rrq_random_num = rnd, rrq_hash = compute_pair_hash (get_device_id d) rnd,
                rrq_version = get_firmware_version d, rrq_hop_num = get_hop_number d\<rparr> in
     send_tracked P dst_id PACKET_REPAIR_REQUEST tid bs PACKET_PRIORITY_HIGH d)"

definition send_repair_response :: "platform \<Rightarrow> u16 \<Rightarrow> u8 \<Rightarrow> u8 \<Rightarrow> dev \<Rightarrow> int \<times> dev" where
  "send_repair_response P dst_id tracking_id status d =
     send_plain P (enc_repair_response \<lparr>rrs_hdr = mk_hdr PACKET_REPAIR_RESPONSE PACKET_PRIORITY_HIGH tracking_id dst_id status d,
                rrs_version = get_firmware_version d, rrs_hop_num = get_hop_number d\<rparr>) PACKET_PRIORITY_HIGH d"

section \<open>Session (src/mesh_layers/mesh_session.c)\<close>

definition send_joined_network :: "platform \<Rightarrow> joined_network \<Rightarrow> u16 \<Rightarrow> u8 \<Rightarrow> dev \<Rightarrow> int \<times> dev" where
  "send_joined_network P pkt dst_id status d = (
     let (tid, d) = d_next_id d;
         bs = enc_joined_network \<lparr>jn_hdr = mk_hdr PACKET_JOINED_NETWORK PACKET_PRIORITY_HIGH tid dst_id status d,
                jn_device_type = jn_device_type pkt, jn_device_id = jn_device_id pkt,
                jn_serial_num = jn_serial_num pkt, jn_version = jn_version pkt,
                jn_connected_device_id = jn_connected_device_id pkt,
                jn_hop_num = jn_hop_num pkt, jn_sensor_count = jn_sensor_count pkt\<rparr> in
     send_tracked P dst_id PACKET_JOINED_NETWORK tid bs PACKET_PRIORITY_HIGH d)"

definition send_joined_network_ack :: "platform \<Rightarrow> u16 \<Rightarrow> u8 \<Rightarrow> u16 \<Rightarrow> u8 \<Rightarrow> u8 \<Rightarrow> dev \<Rightarrow> int \<times> dev" where
  "send_joined_network_ack P ack_device_id ack_device_type dst_id tracking_id status d =
     send_plain P (enc_joined_network_ack \<lparr>jna_hdr = mk_hdr PACKET_JOINED_NETWORK_ACK PACKET_PRIORITY_HIGH tracking_id dst_id status d,
                jna_dst_device_id = ack_device_id, jna_dst_device_type = ack_device_type\<rparr>) PACKET_PRIORITY_HIGH d"

definition send_ping_device :: "platform \<Rightarrow> u16 \<Rightarrow> u16 \<Rightarrow> u8 \<Rightarrow> dev \<Rightarrow> int \<times> dev" where
  "send_ping_device P dst_id gen_id status d = (
     let (tid, d) = d_next_id d;
         bs = enc_ping_device \<lparr>pd_hdr = mk_hdr PACKET_PING_DEVICE PACKET_PRIORITY_LOW tid dst_id status d,
                pd_dst_device_id = gen_id, pd_hop_num = get_hop_number d,
                pd_version = FIRMWARE_VERSION,
                pd_total_devices = get_mesh_devices_count d,
                pd_timestamp = mesh_time_get d + 15\<rparr> in
     send_tracked P dst_id PACKET_PING_DEVICE tid bs PACKET_PRIORITY_LOW d)"

definition send_ping_ack :: "platform \<Rightarrow> u16 \<Rightarrow> u16 \<Rightarrow> u8 \<Rightarrow> u8 \<Rightarrow> dev \<Rightarrow> int \<times> dev" where
  "send_ping_ack P dst_id gen_id tracking_id status d =
     send_plain P (enc_ping_ack \<lparr>pa_hdr = mk_hdr PACKET_PING_ACK PACKET_PRIORITY_LOW tracking_id dst_id status d,
                pa_dst_device_id = gen_id, pa_hop_num = get_hop_number d,
                pa_version = FIRMWARE_VERSION, pa_timestamp = mesh_time_get d + 15\<rparr>) PACKET_PRIORITY_LOW d"

definition send_device_updated :: "platform \<Rightarrow> device_updated \<Rightarrow> u16 \<Rightarrow> u8 \<Rightarrow> dev \<Rightarrow> int \<times> dev" where
  "send_device_updated P pkt dst_id status d = (
     let (tid, d) = d_next_id d;
         bs = enc_device_updated \<lparr>du_hdr = mk_hdr PACKET_DEVICE_UPDATED PACKET_PRIORITY_LOW tid dst_id status d,
                du_device_type = du_device_type pkt, du_device_id = du_device_id pkt,
                du_serial_num = du_serial_num pkt, du_version = du_version pkt,
                du_connected_device_id = du_connected_device_id pkt,
                du_hop_num = du_hop_num pkt, du_sensor_count = du_sensor_count pkt\<rparr> in
     send_tracked P dst_id PACKET_DEVICE_UPDATED tid bs PACKET_PRIORITY_LOW d)"

definition send_device_updated_ack :: "platform \<Rightarrow> u16 \<Rightarrow> u8 \<Rightarrow> u16 \<Rightarrow> u8 \<Rightarrow> u8 \<Rightarrow> dev \<Rightarrow> int \<times> dev" where
  "send_device_updated_ack P ack_device_id ack_device_type dst_id tracking_id status d =
     send_plain P (enc_device_updated_ack \<lparr>dua_hdr = mk_hdr PACKET_DEVICE_UPDATED_ACK PACKET_PRIORITY_LOW tracking_id dst_id status d,
                dua_dst_device_id = ack_device_id, dua_dst_device_type = ack_device_type\<rparr>) PACKET_PRIORITY_LOW d"

section \<open>Routing (src/mesh_layers/mesh_routing.c)\<close>

definition send_route_discovery :: "platform \<Rightarrow> route_discovery \<Rightarrow> u16 \<Rightarrow> u8 \<Rightarrow> dev \<Rightarrow> int \<times> dev" where
  "send_route_discovery P pkt dst_id status d = (
     let (tid, d) = d_next_id d;
         bs = enc_route_discovery \<lparr>rdc_hdr = mk_hdr PACKET_ROUTE_DISCOVERY PACKET_PRIORITY_HIGH tid dst_id status d,
                rdc_device_id = rdc_device_id pkt, rdc_device_type = rdc_device_type pkt,
                rdc_hop_num = rdc_hop_num pkt, rdc_data_type = rdc_data_type pkt,
                rdc_data_id = rdc_data_id pkt\<rparr> in
     send_tracked P dst_id PACKET_ROUTE_DISCOVERY tid bs PACKET_PRIORITY_HIGH d)"

definition send_route_discovery_ack :: "platform \<Rightarrow> route_discovery \<Rightarrow> u16 \<Rightarrow> u8 \<Rightarrow> u8 \<Rightarrow> dev \<Rightarrow> int \<times> dev" where
  "send_route_discovery_ack P pkt dst_id tracking_id status d =
     send_plain P (enc_route_discovery_ack \<lparr>rda_hdr = mk_hdr PACKET_ROUTE_DISCOVERY_ACK PACKET_PRIORITY_HIGH tracking_id dst_id status d,
                rda_device_id = rdc_device_id pkt, rda_device_type = rdc_device_type pkt,
                rda_hop_num = rdc_hop_num pkt\<rparr>) PACKET_PRIORITY_HIGH d"

definition send_route_info :: "platform \<Rightarrow> route_info \<Rightarrow> u16 \<Rightarrow> u8 \<Rightarrow> dev \<Rightarrow> int \<times> dev" where
  "send_route_info P pkt dst_id status d = (
     let (tid, d) = d_next_id d;
         bs = enc_route_info \<lparr>rti_hdr = mk_hdr PACKET_ROUTE_INFO PACKET_PRIORITY_HIGH tid dst_id status d,
                rti_device_id = rti_device_id pkt, rti_device_type = rti_device_type pkt,
                rti_data_type = rti_data_type pkt, rti_data_id = rti_data_id pkt,
                rti_route_info = rti_route_info pkt\<rparr> in
     send_tracked P dst_id PACKET_ROUTE_INFO tid bs PACKET_PRIORITY_HIGH d)"

definition send_route_info_ack :: "platform \<Rightarrow> route_info \<Rightarrow> u16 \<Rightarrow> u8 \<Rightarrow> u8 \<Rightarrow> dev \<Rightarrow> int \<times> dev" where
  "send_route_info_ack P pkt dst_id tracking_id status d =
     send_plain P (enc_route_info_ack \<lparr>ria_hdr = mk_hdr PACKET_ROUTE_INFO_ACK PACKET_PRIORITY_HIGH tracking_id dst_id status d,
                ria_device_id = rti_device_id pkt, ria_device_type = rti_device_type pkt,
                ria_data_type = rti_data_type pkt, ria_data_id = rti_data_id pkt\<rparr>) PACKET_PRIORITY_HIGH d"

section \<open>What a transmission changes\<close>

text \<open>Only the queues, the tracker, the PSRAM and the random counter.\<close>

definition tx_frame :: "dev \<Rightarrow> dev \<Rightarrow> bool" where
  "tx_frame d d' \<longleftrightarrow> dv_status d' = dv_status d \<and> dv_now d' = dv_now d \<and> dv_info d' = dv_info d \<and>
     dv_store d' = dv_store d \<and> dv_mesh d' = dv_mesh d \<and> dv_pair d' = dv_pair d \<and>
     dv_info_initialized d' = dv_info_initialized d \<and> dv_radio_id d' = dv_radio_id d \<and>
     dv_config d' = dv_config d \<and> dv_reports d' = dv_reports d \<and> dv_uart d' = dv_uart d \<and>
     dv_pending_ack d' = dv_pending_ack d \<and> dv_large d' = dv_large d \<and> dv_main d' = dv_main d \<and>
     dv_air d' = dv_air d \<and> dv_last_sender d' = dv_last_sender d \<and>
     (tracker_wf (dv_tracker d) \<longrightarrow> tracker_wf (dv_tracker d'))"

lemma tx_frame_refl [simp, intro]: "tx_frame d d"
  by (simp add: tx_frame_def)

lemma tx_frame_trans: "tx_frame a b \<Longrightarrow> tx_frame b c \<Longrightarrow> tx_frame a c"
  by (simp add: tx_frame_def)

lemma tx_frame_next_id: "tx_frame d (snd (d_next_id d))"
  using tracker_next_id_wf by (auto simp: tx_frame_def d_next_id_def split_beta Let_def)

lemma tx_frame_track: "tx_frame d (d_track P dst prev tid pt dur mr bs d)"
  using tracker_wf_add by (auto simp: tx_frame_def d_track_def split_beta Let_def)

lemma tx_frame_tx: "tx_frame d (snd (d_tx P bs len prio d))"
  by (simp add: tx_frame_def d_tx_def split_beta Let_def)

lemma tx_frame_random: "tx_frame d (snd (generate_random_number P d))"
  by (simp add: tx_frame_def generate_random_number_def d_random_def)

lemma tx_frame_tracked: "tx_frame d (snd (send_tracked P dst pt tid bs prio d))"
  unfolding send_tracked_def by (rule tx_frame_trans[OF tx_frame_track tx_frame_tx])

lemma tx_frame_plain: "tx_frame d (snd (send_plain P bs prio d))"
  unfolding send_plain_def by (rule tx_frame_tx)

lemma tx_frame_sequences:
  "tx_frame d (snd (send_tracked P dst pt tid bs prio (snd (d_next_id d))))"
  "tx_frame d (snd (send_tracked P dst pt tid bs prio (snd (d_next_id (snd (generate_random_number P d))))))"
  "tx_frame d (snd (d_tx P bs len prio (snd (d_next_id (snd (generate_random_number P d))))))"
  "tx_frame d (snd (d_tx P bs len prio
     (d_track P dst prev tid pt dur mr bs' (snd (d_next_id (snd (generate_random_number P d)))))))"
  by (rule tx_frame_trans[OF tx_frame_next_id tx_frame_tracked]
      tx_frame_trans[OF tx_frame_random tx_frame_trans[OF tx_frame_next_id tx_frame_tracked]]
      tx_frame_trans[OF tx_frame_random tx_frame_trans[OF tx_frame_next_id tx_frame_tx]]
      tx_frame_trans[OF tx_frame_random tx_frame_trans[OF tx_frame_next_id
        tx_frame_trans[OF tx_frame_track tx_frame_tx]]])+

lemma tx_frame_send_tracked [simp]:
  "tx_frame d (snd (send_pair_confirm P dst_id status d))"
  "tx_frame d (snd (send_repair_request P dst_id d))"
  "tx_frame d (snd (send_joined_network P joij_n dst_id status d))"
  "tx_frame d (snd (send_ping_device P dst_id gen_id status d))"
  "tx_frame d (snd (send_device_updated P devd_u dst_id status d))"
  "tx_frame d (snd (send_route_discovery P rour_d dst_id status d))"
  "tx_frame d (snd (send_route_info P rour_i dst_id status d))"
  unfolding send_pair_confirm_def send_repair_request_def send_joined_network_def send_ping_device_def send_device_updated_def send_route_discovery_def send_route_info_def
    split_beta Let_def
  by (rule tx_frame_sequences)+

lemma tx_frame_send_plain [simp]:
  "tx_frame d (snd (send_pair_response P dst_id tracking_id status d))"
  "tx_frame d (snd (send_pair_ack P dst_id tracking_id status d))"
  "tx_frame d (snd (send_repair_response P dst_id tracking_id status d))"
  "tx_frame d (snd (send_joined_network_ack P ack_device_id ack_device_type dst_id tracking_id status d))"
  "tx_frame d (snd (send_ping_ack P dst_id gen_id tracking_id status d))"
  "tx_frame d (snd (send_device_updated_ack P ack_device_id ack_device_type dst_id tracking_id status d))"
  "tx_frame d (snd (send_route_discovery_ack P rour_d_a dst_id tracking_id status d))"
  "tx_frame d (snd (send_route_info_ack P rour_i_a dst_id tracking_id status d))"
  unfolding send_pair_response_def send_pair_ack_def send_repair_response_def send_joined_network_ack_def send_ping_ack_def send_device_updated_ack_def send_route_discovery_ack_def send_route_info_ack_def
  by (rule tx_frame_plain)+

lemma tx_frame_send_pair_request [simp]: "tx_frame d (snd (send_pair_request P b d))"
  unfolding send_pair_request_def split_beta Let_def
  by (cases b; simp only: if_True if_False; rule tx_frame_sequences)

lemma tx_frame_procs:
  "tx_frame d (proc (send_pair_confirm P dst_id status) d)"
  "tx_frame d (proc (send_repair_request P dst_id) d)"
  "tx_frame d (proc (send_joined_network P joij_n dst_id status) d)"
  "tx_frame d (proc (send_ping_device P dst_id gen_id status) d)"
  "tx_frame d (proc (send_device_updated P devd_u dst_id status) d)"
  "tx_frame d (proc (send_route_discovery P rour_d dst_id status) d)"
  "tx_frame d (proc (send_route_info P rour_i dst_id status) d)"
  "tx_frame d (proc (send_pair_response P dst_id tracking_id status) d)"
  "tx_frame d (proc (send_pair_ack P dst_id tracking_id status) d)"
  "tx_frame d (proc (send_repair_response P dst_id tracking_id status) d)"
  "tx_frame d (proc (send_joined_network_ack P ack_device_id ack_device_type dst_id tracking_id status) d)"
  "tx_frame d (proc (send_ping_ack P dst_id gen_id tracking_id status) d)"
  "tx_frame d (proc (send_device_updated_ack P ack_device_id ack_device_type dst_id tracking_id status) d)"
  "tx_frame d (proc (send_route_discovery_ack P rour_d_a dst_id tracking_id status) d)"
  "tx_frame d (proc (send_route_info_ack P rour_i_a dst_id tracking_id status) d)"
  "tx_frame d (proc (send_pair_request P b) d)"
  by (simp_all add: proc_def)

lemma tx_frameD [frame_simps]:
  assumes "tx_frame d d'"
  shows "dv_status d' = dv_status d" "dv_now d' = dv_now d" "dv_info d' = dv_info d"
    "dv_store d' = dv_store d" "dv_mesh d' = dv_mesh d" "dv_pair d' = dv_pair d"
    "dv_config d' = dv_config d" "dv_reports d' = dv_reports d" "dv_uart d' = dv_uart d"
    "dv_pending_ack d' = dv_pending_ack d"
  using assms by (simp_all add: tx_frame_def)

lemmas tx_proc_frames [simp] =
  tx_frame_procs[THEN tx_frameD(1)] tx_frame_procs[THEN tx_frameD(2)] tx_frame_procs[THEN tx_frameD(3)]
  tx_frame_procs[THEN tx_frameD(4)] tx_frame_procs[THEN tx_frameD(5)] tx_frame_procs[THEN tx_frameD(6)]
  tx_frame_procs[THEN tx_frameD(7)] tx_frame_procs[THEN tx_frameD(8)] tx_frame_procs[THEN tx_frameD(9)]
  tx_frame_procs[THEN tx_frameD(10)]

lemma tx_frame_wf: "tx_frame d d' \<Longrightarrow> dev_wf d \<Longrightarrow> dev_wf d'"
  by (simp add: tx_frame_def dev_wf_def)

lemmas tx_proc_wf [wf_intros] = tx_frame_procs[THEN tx_frame_wf]

end
