(* ===== verification/Product_Info.thy ===== *)
theory Product_Info
  imports Mesh_Tx
begin

text \<open>
  src/product_info.c: what a node is (strap pins), what it derives from its infrastructure table
  (hop number, connected device), and how it judges whether its peers are still reachable.
\<close>

section \<open>Identity\<close>

definition mk_du :: "u8 \<Rightarrow> u16 \<Rightarrow> u64 \<Rightarrow> u16 \<Rightarrow> u16 \<Rightarrow> u8 \<Rightarrow> u8 \<Rightarrow> device_updated" where
  "mk_du t i sn v con hop cnt = \<lparr>du_hdr = zero_hdr, du_device_type = t, du_device_id = i,
     du_serial_num = sn, du_version = v, du_connected_device_id = con, du_hop_num = hop,
     du_sensor_count = cnt\<rparr>"

text \<open>\<open>storage_sensor_count()\<close> stored into a byte.\<close>
definition sensor_count8 :: "dev \<Rightarrow> u8" where
  "sensor_count8 d = word_of_nat (sensor_count d)"

definition set_serial_number :: "platform \<Rightarrow> u64 \<Rightarrow> dev \<Rightarrow> dev" where
  "set_serial_number P sn d = (
     let d = (if get_serial_number d \<noteq> sn \<and> dv_info_initialized d
              then let t = get_device_type d in
                proc (send_device_updated P (mk_du t (get_device_id d) sn FIRMWARE_VERSION
                  (if t = DEVICE_TYPE_SENSOR then get_connected_device_id d else 0xFFFF)
                  (if t = DEVICE_TYPE_ANCHOR then get_hop_number d else 0xFF)
                  (if t = DEVICE_TYPE_ANCHOR then sensor_count8 d else 0xFF))
                  (infra_id (infra_at d 0)) STATUS_SUCCESS) d
              else d) in
     d\<lparr>dv_info := (dv_info d)\<lparr>di_serial_number := sn\<rparr>\<rparr>)"

definition decode_device_type :: "u8 \<Rightarrow> u8 option" where
  "decode_device_type code = (if code = 0 then Some DEVICE_TYPE_GATEWAY
     else if code = 1 then Some DEVICE_TYPE_ANCHOR
     else if code = 2 \<or> code = 3 then Some DEVICE_TYPE_SENSOR else None)"

definition product_info_init :: "platform \<Rightarrow> dev \<Rightarrow> int \<times> dev" where
  "product_info_init P d = (
     if dv_info_initialized d then (0, d)
     else if \<not> pf_gpio_ready P then (- ENODEV, d)
     else if pf_gpio_configure P 0 \<noteq> 0 then (pf_gpio_configure P 0, d)
     else if pf_gpio_configure P 1 \<noteq> 0 then (pf_gpio_configure P 1, d)
     else let bit0 = pf_gpio_get P 0; bit1 = pf_gpio_get P 1 in
     if bit0 < 0 \<or> bit1 < 0 then (- EIO, d)
     else case decode_device_type (word_of_int (bit0 * 2) OR word_of_int bit1) of
       None \<Rightarrow> (- EINVAL, d)
     | Some t \<Rightarrow>
         let d = set_device_type t d;
             d = d\<lparr>dv_radio_id := pf_hw_id P\<rparr>;
             d = set_device_id (pf_hw_id P) d;
             d = set_serial_number P (ucast (get_device_id d)) d;
             d = set_connected_device_id 0xFFFF d;
             d = set_mesh_devices_count 0 d;
             d = set_hop_number (if t = DEVICE_TYPE_GATEWAY then 0 else 0xFF) d in
         (0, d\<lparr>dv_info_initialized := True\<rparr>))"

section \<open>Factory reset and the derived hop number\<close>

definition factory_reset :: "platform \<Rightarrow> dev \<Rightarrow> dev" where
  "factory_reset P d = proc (on_store (storage_mesh_clear P))
     (proc (on_store (storage_sensor_clear P)) (proc (on_store (storage_infra_clear P)) d))"

definition factory_reset_reboot :: "platform \<Rightarrow> dev \<Rightarrow> dev" where
  "factory_reset_reboot P d = sys_reboot (factory_reset P d)"

text \<open>
  The loop over \<open>infra_devices\<close> breaks at the first entry whose hop number is not above the own
  one; reaching the last entry without a break means there is no upstream device.
\<close>

definition device_info_update :: "platform \<Rightarrow> dev \<Rightarrow> dev" where
  "device_info_update P d = (
     if get_device_type d \<noteq> DEVICE_TYPE_ANCHOR then d
     else if infra_count d = 0 then set_connected_device_id 0xFFFF (set_hop_number 0xFF (factory_reset P d))
     else if (\<forall>x\<in>set (infra_devs (dv_store d)). get_hop_number d < infra_hop x) then factory_reset_reboot P d
     else let best = infra_at d 0;
              temp_hop_num = (if infra_hop best < 0xFE then infra_hop best + 1 else 0xFF) in
     if temp_hop_num = 0xFF \<or> MAX_DEPTH < unat temp_hop_num then factory_reset_reboot P d
     else let d = (if temp_hop_num \<noteq> get_hop_number d \<and> get_hop_number d \<noteq> 0xFF
                   then proc (send_device_updated P (mk_du (get_device_type d) (get_device_id d)
                          (get_serial_number d) FIRMWARE_VERSION (infra_id best) temp_hop_num (sensor_count8 d))
                          (infra_id best) STATUS_SUCCESS) d
                   else d) in
       set_hop_number temp_hop_num (set_connected_device_id (infra_id best) d))"

section \<open>Known devices\<close>

definition infra_alive :: "s64 \<Rightarrow> infra \<Rightarrow> infra" where
  "infra_alive now x = x\<lparr>in_last_comm_ms := now, in_comm_failures := 0, in_ping_sent := False\<rparr>"

definition sensor_alive :: "s64 \<Rightarrow> sensor \<Rightarrow> sensor" where
  "sensor_alive now x = x\<lparr>sn_last_comm_ms := now, sn_comm_failures := 0, sn_ping_sent := False\<rparr>"

abbreviation find_infra :: "u16 \<Rightarrow> dev \<Rightarrow> nat option" where
  "find_infra i d \<equiv> find_idx (\<lambda>x. infra_id x = i) (infra_devs (dv_store d))"

abbreviation find_sensor :: "u16 \<Rightarrow> dev \<Rightarrow> nat option" where
  "find_sensor i d \<equiv> find_idx (\<lambda>x. sensor_id x = i) (sensor_devs (dv_store d))"

abbreviation find_mesh :: "u16 \<Rightarrow> dev \<Rightarrow> nat option" where
  "find_mesh i d \<equiv> find_idx (\<lambda>x. ms_device_id x = i) (mesh_devs (dv_store d))"

definition is_known_device :: "u16 \<Rightarrow> dev \<Rightarrow> bool \<times> dev" where
  "is_known_device i d = (
     if get_temp_id d \<noteq> 0xFFFF \<and> get_temp_id d = i then (True, d)
     else case find_infra i d of
       Some k \<Rightarrow> (True, upd_infra k (infra_alive (dv_now d)) d)
     | None \<Rightarrow> (case find_sensor i d of
         Some k \<Rightarrow> (True, upd_sensor k (sensor_alive (dv_now d)) d)
       | None \<Rightarrow> (False, d)))"

definition known_infra_comm :: "platform \<Rightarrow> nat \<Rightarrow> bool \<Rightarrow> dev \<Rightarrow> dev" where
  "known_infra_comm P i success d = (
     let d = upd_infra i (\<lambda>x. x\<lparr>in_comm_failures := if success then 0 else in_comm_failures x + 1,
               in_last_comm_ms := dv_now d, in_ping_sent := False\<rparr>) d in
     if MAX_COMM_FAILURES \<le> in_comm_failures (infra_at d i)
     then device_info_update P (proc (on_store (\<lambda>s. storage_infra_remove P s i)) d)
     else d)"

definition known_sensor_comm :: "platform \<Rightarrow> u16 \<Rightarrow> nat \<Rightarrow> bool \<Rightarrow> dev \<Rightarrow> dev" where
  "known_sensor_comm P device_id i success d = (
     let d = upd_sensor i (\<lambda>x. x\<lparr>sn_comm_failures := if success then 0 else sn_comm_failures x + 1,
               sn_last_comm_ms := dv_now d, sn_ping_sent := False\<rparr>) d in
     if MAX_COMM_FAILURES \<le> sn_comm_failures (sensor_at d i)
     then let d = proc (on_store (\<lambda>s. storage_sensor_remove P s i)) d;
              d = proc (send_device_updated P (mk_du DEVICE_TYPE_SENSOR device_id 0 0 0xFFFF 0xFF 0xFF)
                    (infra_id (infra_at d 0)) STATUS_DEVICE_REMOVED) d in
          proc (send_device_updated P (mk_du (get_device_type d) (get_device_id d) (get_serial_number d)
              (get_firmware_version d) 0xFFFF (get_hop_number d) (sensor_count8 d))
              (infra_id (infra_at d 0)) STATUS_SUCCESS) d
     else d)"

definition known_device_update_comm_time :: "platform \<Rightarrow> u16 \<Rightarrow> bool \<Rightarrow> dev \<Rightarrow> dev" where
  "known_device_update_comm_time P device_id success d = (
     if get_device_type d = DEVICE_TYPE_SENSOR \<and> \<not> success
     then proc (send_pair_request P True) (proc (on_store (storage_infra_clear P)) d)
     else if get_device_type d = DEVICE_TYPE_SENSOR then upd_infra 0 (infra_alive (dv_now d)) d
     else case find_infra device_id d of
       Some i \<Rightarrow> known_infra_comm P i success d
     | None \<Rightarrow> (case find_sensor device_id d of
         Some i \<Rightarrow> known_sensor_comm P device_id i success d
       | None \<Rightarrow> d))"

definition mark_ping_sent :: "nat \<Rightarrow> dev \<Rightarrow> dev" where
  "mark_ping_sent i = upd_infra i (\<lambda>x. x\<lparr>in_ping_sent := True\<rparr>)"

definition known_devices_tick :: "platform \<Rightarrow> dev \<Rightarrow> dev" where
  "known_devices_tick P d = (
     if get_device_type d \<noteq> DEVICE_TYPE_GATEWAY then d
     else foldl (\<lambda>d i. let x = infra_at d i in
       if PING_TIMEOUT_MS < dv_now d - in_last_comm_ms x \<and> \<not> in_ping_sent x
       then mark_ping_sent i (proc (send_ping_device P (infra_id x) 0 STATUS_SUCCESS) d)
       else d) d [0..<infra_count d])"

definition ping_known_devices :: "platform \<Rightarrow> u16 \<Rightarrow> u8 \<Rightarrow> dev \<Rightarrow> dev" where
  "ping_known_devices P gen_id status d =
     foldl (\<lambda>d i. let x = infra_at d i in
       if get_hop_number d < infra_hop x
       then mark_ping_sent i (proc (send_ping_device P (infra_id x) gen_id status) d)
       else d) d [0..<infra_count d]"

section \<open>Lookups\<close>

definition find_hop_num :: "u16 \<Rightarrow> u8 \<Rightarrow> dev \<Rightarrow> u8" where
  "find_hop_num device_id device_type d = (
     if device_id = 0xFFFF then 0xFF
     else if device_type = DEVICE_TYPE_SENSOR then
       (case find_idx (\<lambda>m. ms_device_id m = device_id \<and> ms_device_type m = device_type) (mesh_devs (dv_store d)) of
          None \<Rightarrow> 0xFF
        | Some i \<Rightarrow>
            let con = ms_connected_device_id (mesh_at d i) in
            if con = 0xFFFF \<or> con = 0 then 0xFF
            else if con = get_device_id d then 0
            else (case find_mesh con d of None \<Rightarrow> 0xFF | Some j \<Rightarrow> ms_hop_num (mesh_at d j)))
     else if device_type = DEVICE_TYPE_ANCHOR then
       (case find_idx (\<lambda>x. infra_id x = device_id \<and> ie_device_type (in_entry x) = device_type)
              (infra_devs (dv_store d)) of
          None \<Rightarrow> 0xFF
        | Some i \<Rightarrow> infra_hop (infra_at d i))
     else 0xFF)"

definition find_device_id_by_sn :: "u64 \<Rightarrow> dev \<Rightarrow> u16" where
  "find_device_id_by_sn sn d = (case find_idx (\<lambda>m. ms_serial_num m = sn) (mesh_devs (dv_store d)) of
     None \<Rightarrow> 0xFFFF
   | Some i \<Rightarrow> ms_device_id (mesh_at d i))"

section \<open>Well-formedness\<close>

lemma dev_wfD:
  assumes "dev_wf d"
  shows "storage_wf (dv_store d)" "tracker_wf (dv_tracker d)" "pairing_wf (dv_pair d)"
  using assms by (simp_all add: dev_wf_def)

lemma dev_wf_store:
  "dev_wf d \<Longrightarrow> (\<And>s. storage_wf s \<Longrightarrow> storage_wf (snd (f s))) \<Longrightarrow> dev_wf (proc (on_store f) d)"
  by (simp add: dev_wf_def proc_def on_store_def split_beta Let_def)

lemma dev_wf_store_ops [wf_intros]:
  assumes "dev_wf d"
  shows "dev_wf (proc (on_store (\<lambda>s. storage_infra_add P s ie)) d)"
    "dev_wf (proc (on_store (\<lambda>s. storage_infra_update P s i ie)) d)"
    "dev_wf (proc (on_store (\<lambda>s. storage_infra_remove P s i)) d)"
    "dev_wf (proc (on_store (storage_infra_clear P)) d)"
    "dev_wf (proc (on_store (\<lambda>s. storage_sensor_add P s se)) d)"
    "dev_wf (proc (on_store (\<lambda>s. storage_sensor_update P s i se)) d)"
    "dev_wf (proc (on_store (\<lambda>s. storage_sensor_remove P s i)) d)"
    "dev_wf (proc (on_store (storage_sensor_clear P)) d)"
    "dev_wf (proc (on_store (\<lambda>s. storage_mesh_add P s me)) d)"
    "dev_wf (proc (on_store (\<lambda>s. storage_mesh_update P s i me)) d)"
    "dev_wf (proc (on_store (\<lambda>s. storage_mesh_remove P s i)) d)"
    "dev_wf (proc (on_store (storage_mesh_clear P)) d)"
  by (rule dev_wf_store[OF assms]; simp add: wf_intros)+

lemma dev_wf_setters [wf_intros]:
  assumes "dev_wf d"
  shows "dev_wf (set_device_type t d)" "dev_wf (set_device_id i d)" "dev_wf (set_hop_number h d)"
    "dev_wf (set_mesh_devices_count n d)" "dev_wf (set_connected_device_id i d)" "dev_wf (set_temp_id i d)"
    "dev_wf (mesh_time_set t64 d)" "dev_wf (sys_reboot d)" "dev_wf (fault d)" "dev_wf (d_untrack tid d)"
    "dev_wf (upd_infra k f d)" "dev_wf (upd_sensor k g d)" "dev_wf (mark_ping_sent k d)"
    "dev_wf (mesh_pairing_set_pending_request d)"
  using assms tracker_wf_remove(1)
  by (simp_all add: dev_wf_def set_device_type_def set_device_id_def set_hop_number_def
      set_mesh_devices_count_def set_connected_device_id_def set_temp_id_def mesh_time_set_def
      sys_reboot_def fault_def d_untrack_def upd_infra_def upd_sensor_def mark_ping_sent_def storage_wf_def
      mesh_pairing_set_pending_request_def pairing_wf_def)

lemma dev_wf_if [wf_intros]: "dev_wf x \<Longrightarrow> dev_wf y \<Longrightarrow> dev_wf (if b then x else y)"
  by simp

lemma dev_wf_option [wf_intros]: "dev_wf x \<Longrightarrow> (\<And>y. dev_wf (f y)) \<Longrightarrow>
    dev_wf (case opt of None \<Rightarrow> x | Some y \<Rightarrow> f y)"
  by (cases opt) auto

lemma dev_wf_foldl [wf_intros]:
  "dev_wf d \<Longrightarrow> (\<And>d i. dev_wf d \<Longrightarrow> dev_wf (f d i)) \<Longrightarrow> dev_wf (foldl f d is)"
  by (induction "is" arbitrary: d) auto

lemma dev_wf_seqs [wf_intros]:
  "dev_wf d \<Longrightarrow> (\<And>d. dev_wf d \<Longrightarrow> dev_wf (f d)) \<Longrightarrow> (\<And>d. dev_wf d \<Longrightarrow> dev_wf (seqs fs d)) \<Longrightarrow>
    dev_wf (seqs (f # fs) d)"
  by simp

lemma factory_reset_wf [wf_intros]: "dev_wf d \<Longrightarrow> dev_wf (factory_reset P d)"
  unfolding factory_reset_def by (intro wf_intros)

lemma device_info_update_wf [wf_intros]: "dev_wf d \<Longrightarrow> dev_wf (device_info_update P d)"
  unfolding device_info_update_def factory_reset_reboot_def Let_def by (intro wf_intros; assumption)

lemma dev_wf_info: "dev_wf d \<Longrightarrow> dev_wf (d\<lparr>dv_info := i\<rparr>)"
  by (simp add: dev_wf_def)

lemma set_serial_number_wf [wf_intros]: "dev_wf d \<Longrightarrow> dev_wf (set_serial_number P sn d)"
  unfolding set_serial_number_def Let_def by (intro dev_wf_info wf_intros; assumption)

lemma is_known_device_wf [wf_intros]: "dev_wf d \<Longrightarrow> dev_wf (snd (is_known_device i d))"
  using dev_wf_setters(11,12) by (auto simp: is_known_device_def split: option.splits)

lemma known_device_update_comm_time_wf [wf_intros]:
  "dev_wf d \<Longrightarrow> dev_wf (known_device_update_comm_time P i b d)"
  unfolding known_device_update_comm_time_def known_infra_comm_def known_sensor_comm_def Let_def
  by (intro wf_intros; assumption)

lemma ping_known_devices_wf [wf_intros]: "dev_wf d \<Longrightarrow> dev_wf (ping_known_devices P g s d)"
  unfolding ping_known_devices_def Let_def by (intro wf_intros; assumption)

lemma known_devices_tick_wf [wf_intros]: "dev_wf d \<Longrightarrow> dev_wf (known_devices_tick P d)"
  unfolding known_devices_tick_def Let_def by (intro wf_intros; assumption)

end
