(* ===== verification/Mesh.thy ===== *)
theory Mesh
  imports Product_Info
begin

text \<open>
  src/mesh.c without its tick: initialisation, and the checks and updates of the device tables
  that all protocol handlers share.
\<close>

definition mesh_init :: "dev \<Rightarrow> dev" where
  "mesh_init d = (
     if mh_initialized (dv_mesh d) then d
     else d\<lparr>dv_mesh := (dv_mesh d)\<lparr>mh_temp_id := 0xFFFF,
            mh_time_offset := (if get_device_type d = DEVICE_TYPE_GATEWAY then - dv_now d
                               else mh_time_offset (dv_mesh d)),
            mh_initialized := True\<rparr>\<rparr>)"

definition check_infra_storage :: "u16 \<Rightarrow> bool \<Rightarrow> dev \<Rightarrow> u8" where
  "check_infra_storage device_id is_it_sensor d = (
     if is_it_sensor then
       if 1 \<le> infra_count d \<and> infra_id (infra_at d 0) = device_id then STATUS_ALREADY_EXISTS
       else if 1 \<le> infra_count d then STATUS_STORAGE_FULL
       else STATUS_SUCCESS
     else if find_infra device_id d \<noteq> None then STATUS_ALREADY_EXISTS
     else if MAX_ANCHORS \<le> infra_count d then STATUS_STORAGE_FULL
     else STATUS_SUCCESS)"

text \<open>Whether the own hop number changed. A reboot inside \<open>device_info_update\<close> ends the call.\<close>

definition update_infra_storage :: "platform \<Rightarrow> u16 \<Rightarrow> u8 \<Rightarrow> s16 \<Rightarrow> dev \<Rightarrow> bool \<times> dev" where
  "update_infra_storage P device_id hop_num rssi_2 d = (
     case find_infra device_id d of
       None \<Rightarrow> (False, d)
     | Some i \<Rightarrow> (case storage_infra_get (dv_store d) i of
         Inl err \<Rightarrow> (False, d)
       | Inr entry \<Rightarrow>
           let entry = entry\<lparr>ie_rssi_2 := rssi_2,
                 ie_hop_num := (if hop_num \<noteq> 0xFF \<and> ie_hop_num entry \<noteq> hop_num then hop_num else ie_hop_num entry),
                 ie_version := (if ie_version entry \<noteq> FIRMWARE_VERSION then FIRMWARE_VERSION else ie_version entry)\<rparr>;
               (err, d1) = on_store (\<lambda>s. storage_infra_update P s i entry) d in
           if err \<noteq> 0 then (False, d1)
           else let d2 = device_info_update P d1 in (get_hop_number d \<noteq> get_hop_number d2, d2)))"

definition check_sensor_storage :: "u16 \<Rightarrow> dev \<Rightarrow> u8" where
  "check_sensor_storage device_id d = (
     if find_sensor device_id d \<noteq> None then STATUS_ALREADY_EXISTS
     else if MAX_SENSORS \<le> sensor_count d then STATUS_STORAGE_FULL
     else STATUS_SUCCESS)"

definition update_sensor_storage :: "platform \<Rightarrow> u16 \<Rightarrow> u16 \<Rightarrow> dev \<Rightarrow> dev" where
  "update_sensor_storage P device_id version d = (
     case find_sensor device_id d of
       None \<Rightarrow> d
     | Some i \<Rightarrow> (case storage_sensor_get (dv_store d) i of
         Inl err \<Rightarrow> d
       | Inr entry \<Rightarrow>
           if se_version entry = version then d
           else proc (on_store (\<lambda>s. storage_sensor_update P s i (entry\<lparr>se_version := version\<rparr>))) d))"

definition check_mesh_storage :: "u16 \<Rightarrow> dev \<Rightarrow> u8" where
  "check_mesh_storage device_id d = (
     if find_mesh device_id d \<noteq> None then STATUS_ALREADY_EXISTS
     else if MAX_DEVICES \<le> mesh_count d then STATUS_STORAGE_FULL
     else STATUS_SUCCESS)"

definition upd_mesh :: "nat \<Rightarrow> (mesh \<Rightarrow> mesh) \<Rightarrow> dev \<Rightarrow> dev" where
  "upd_mesh i f d = d\<lparr>dv_store := (dv_store d)\<lparr>st_mesh := (st_mesh (dv_store d))[i := f (mesh_at d i)]\<rparr>\<rparr>"

text \<open>
  With an empty mesh table the search loop does not run, its NOT_FOUND return is never reached,
  and \<open>storage_mesh_get(0)\<close> fails: the result is STATUS_FAILURE.
\<close>

definition update_mesh_storage :: "platform \<Rightarrow> u16 \<Rightarrow> u8 \<Rightarrow> u16 \<Rightarrow> u16 \<Rightarrow> u8 \<Rightarrow> dev \<Rightarrow> u8 \<times> dev" where
  "update_mesh_storage P device_id hop_num version connected_device_id sensor_cnt d = (
     case find_mesh device_id d of
       None \<Rightarrow> (if mesh_count d = 0 then STATUS_FAILURE else STATUS_NOT_FOUND, d)
     | Some idx \<Rightarrow> (case storage_mesh_get P (dv_store d) idx of
         Inl err \<Rightarrow> (STATUS_FAILURE, d)
       | Inr entry \<Rightarrow>
           let new_hop = me_hop_num entry \<noteq> hop_num \<and> hop_num \<noteq> 0xFF;
               new_con = me_connected_device_id entry \<noteq> connected_device_id \<and> connected_device_id \<noteq> 0xFFFF;
               d = (if new_hop then upd_mesh idx (\<lambda>m. m\<lparr>ms_hop_num := hop_num\<rparr>) d else d);
               d = (if new_con then upd_mesh idx (\<lambda>m. m\<lparr>ms_connected_device_id := connected_device_id\<rparr>) d else d);
               entry = entry\<lparr>
                 me_hop_num := (if new_hop then hop_num else me_hop_num entry),
                 me_version := (if me_version entry \<noteq> version then version else me_version entry),
                 me_connected_device_id := (if new_con then connected_device_id else me_connected_device_id entry),
                 me_sensor_count := (if me_sensor_count entry \<noteq> sensor_cnt \<and> sensor_cnt \<noteq> 0xFF
                                     then sensor_cnt else me_sensor_count entry)\<rparr>;
               (err, d) = on_store (\<lambda>s. storage_mesh_update P s idx entry) d in
           (if err \<noteq> 0 then STATUS_FAILURE else STATUS_SUCCESS, d)))"

section \<open>Well-formedness\<close>

lemma dev_wf_on_store_snd [wf_intros]: "dev_wf (proc (on_store f) d) \<Longrightarrow> dev_wf (snd (on_store f d))"
  by (simp add: proc_def)

lemma mesh_init_wf [wf_intros]: "dev_wf d \<Longrightarrow> dev_wf (mesh_init d)"
  by (simp add: mesh_init_def dev_wf_def)

lemma upd_mesh_wf [wf_intros]: "dev_wf d \<Longrightarrow> dev_wf (upd_mesh i f d)"
  by (simp add: upd_mesh_def dev_wf_def storage_wf_def)

lemma update_infra_storage_wf [wf_intros]: "dev_wf d \<Longrightarrow> dev_wf (snd (update_infra_storage P i h r d))"
  by (auto simp: update_infra_storage_def Let_def split_beta split: option.splits sum.splits
      intro!: wf_intros)

lemma update_sensor_storage_wf [wf_intros]: "dev_wf d \<Longrightarrow> dev_wf (update_sensor_storage P i v d)"
  by (auto simp: update_sensor_storage_def split: option.splits sum.splits intro!: wf_intros)

lemma update_mesh_storage_wf [wf_intros]: "dev_wf d \<Longrightarrow> dev_wf (snd (update_mesh_storage P i h v c n d))"
  by (auto simp: update_mesh_storage_def Let_def split_beta split: option.splits sum.splits
      intro!: wf_intros)

section \<open>What the checks mean\<close>

lemma check_mesh_storage_iff:
  assumes "dev_wf d"
  shows "check_mesh_storage i d = STATUS_ALREADY_EXISTS \<longleftrightarrow> (\<exists>m\<in>set (mesh_devs (dv_store d)). ms_device_id m = i)"
    "check_mesh_storage i d = STATUS_SUCCESS \<longleftrightarrow>
      (\<forall>m\<in>set (mesh_devs (dv_store d)). ms_device_id m \<noteq> i) \<and> mesh_count d < MAX_DEVICES"
  by (auto simp: check_mesh_storage_def find_idx_None_iff simp del: not_None_eq)

end
