(* ===== verification/Pairing.thy ===== *)
theory Pairing
  imports Mesh
begin

text \<open>
  src/mesh_layers/mesh_pairing.c: pairing (REQUEST, RESPONSE, CONFIRM, ACK) and repairing
  (REQUEST, RESPONSE). A node that wants to join collects responses for three seconds, sorts
  them by hop count and signal, and confirms the best ones one at a time from the tick.
  Each handler gets the packet, the sender's id \<open>dst_id\<close> and the signal strength.
\<close>

definition valid_device_type :: "u8 \<Rightarrow> bool" where
  "valid_device_type t \<longleftrightarrow> t = DEVICE_TYPE_GATEWAY \<or> t = DEVICE_TYPE_ANCHOR \<or> t = DEVICE_TYPE_SENSOR"

definition mk_infra_entry :: "u8 \<Rightarrow> u16 \<Rightarrow> u8 \<Rightarrow> u16 \<Rightarrow> s16 \<Rightarrow> infra_entry" where
  "mk_infra_entry t i hop v rssi = \<lparr>ie_device_type = t, ie_device_id = i, ie_hop_num = hop,
     ie_version = v, ie_rssi_2 = rssi, ie_crc32 = 0\<rparr>"

definition mk_sensor_entry :: "u16 \<Rightarrow> u16 \<Rightarrow> sensor_entry" where
  "mk_sensor_entry i v = \<lparr>se_device_id = i, se_version = v, se_crc32 = 0\<rparr>"

section \<open>Candidates\<close>

text \<open>The exchange test of \<open>sort_candidates\<close>.\<close>
definition candidate_gt :: "response_candidate \<Rightarrow> response_candidate \<Rightarrow> bool" where
  "candidate_gt a b \<longleftrightarrow> cd_hop_num b < cd_hop_num a \<or>
     cd_hop_num a = cd_hop_num b \<and> cd_rssi_2 a <s cd_rssi_2 b"

definition sort_candidates :: "pairing \<Rightarrow> pairing" where
  "sort_candidates p = p\<lparr>pr_candidates := bubble_sort candidate_gt (nat (pr_count p)) (pr_candidates p)\<rparr>"

definition set_pair :: "(pairing \<Rightarrow> pairing) \<Rightarrow> dev \<Rightarrow> dev" where
  "set_pair f d = d\<lparr>dv_pair := f (dv_pair d)\<rparr>"

text \<open>An index outside the candidate array is undefined behaviour.\<close>

definition select_and_confirm :: "platform \<Rightarrow> int \<Rightarrow> dev \<Rightarrow> dev" where
  "select_and_confirm P idx d = (
     if idx < 0 \<or> int MAX_PAIR_RESPONSE_CANDIDATES \<le> idx then fault d
     else let c = pr_candidates (dv_pair d) ! nat idx;
              status = check_infra_storage (cd_sender_id c) False d in
     if status = STATUS_STORAGE_FULL then set_pair (\<lambda>p. p\<lparr>pr_count := 0\<rparr>) d
     else if get_hop_number d = 0xFF \<and> cd_hop_num c = 0xFF then set_pair (\<lambda>p. p\<lparr>pr_process_next := True\<rparr>) d
     else let d = proc (send_pair_confirm P (cd_sender_id c) STATUS_SUCCESS) d in
     if get_device_type d = DEVICE_TYPE_SENSOR then set_pair (\<lambda>p. p\<lparr>pr_count := 0\<rparr>) d
     else d)"

section \<open>Pairing handlers\<close>

definition handle_pair_request :: "platform \<Rightarrow> pair_request \<Rightarrow> u16 \<Rightarrow> s16 \<Rightarrow> dev \<Rightarrow> dev" where
  "handle_pair_request P pkt dst_id rssi_2 d = (
     let ptype = ph_device_type (prq_hdr pkt); tid = ph_tracking_id (prq_hdr pkt) in
     if get_device_type d = DEVICE_TYPE_SENSOR then d
     else if ptype \<noteq> DEVICE_TYPE_ANCHOR \<and> ptype \<noteq> DEVICE_TYPE_SENSOR then d
     else let status = (if ptype = DEVICE_TYPE_ANCHOR then check_infra_storage dst_id False d
                        else check_sensor_storage dst_id d) in
     if status = STATUS_ALREADY_EXISTS \<and> ptype = DEVICE_TYPE_ANCHOR then d
     else if \<not> valid_device_type ptype then d
     else if prq_hash pkt \<noteq> compute_pair_hash dst_id (prq_random_num pkt)
       then proc (send_pair_response P dst_id tid STATUS_AUTH_FAILED) d
     else if get_device_type d = DEVICE_TYPE_GATEWAY \<or> get_device_type d = DEVICE_TYPE_ANCHOR then
       let status = (if status = STATUS_SUCCESS \<and> MAX_DEVICES \<le> unat (get_mesh_devices_count d)
                     then STATUS_STORAGE_FULL else status) in
       proc (send_pair_response P dst_id tid status) d
     else d)"

text \<open>The collection of a response, after the type-specific checks.\<close>

definition collect_response :: "pair_response \<Rightarrow> u16 \<Rightarrow> s16 \<Rightarrow> s64 \<Rightarrow> pairing \<Rightarrow> pairing" where
  "collect_response pkt dst_id rssi_2 now p = (
     let p = (if \<not> pr_collecting p
              then p\<lparr>pr_collecting := True, pr_count := 0,
                     pr_timer := nbtimeout_start now (nbtimeout_init PAIR_RESPONSE_COLLECT_WINDOW_MS 0)\<rparr>
              else p) in
     if pr_count p < int MAX_PAIR_RESPONSE_CANDIDATES then
       if (\<exists>c\<in>set (take (nat (pr_count p)) (pr_candidates p)). cd_sender_id c = dst_id) then p
       else p\<lparr>pr_candidates := (pr_candidates p)[nat (pr_count p) :=
                \<lparr>cd_sender_id = dst_id, cd_device_type = ph_device_type (prs_hdr pkt),
                 cd_hop_num = prs_hop_num pkt, cd_rssi_2 = rssi_2\<rparr>],
              pr_count := pr_count p + 1\<rparr>
     else p)"

definition handle_pair_response :: "platform \<Rightarrow> pair_response \<Rightarrow> u16 \<Rightarrow> s16 \<Rightarrow> dev \<Rightarrow> dev" where
  "handle_pair_response P pkt dst_id rssi_2 d = (
     let hdr = prs_hdr pkt; ptype = ph_device_type hdr;
         collect = set_pair (collect_response pkt dst_id rssi_2 (dv_now d)) in
     if ph_device_id hdr \<noteq> get_device_id d then d
     else if \<not> valid_device_type ptype then d
     else if get_hop_number d = 0xFF \<and> (prs_hop_num pkt = 0xFF \<or> MAX_DEPTH \<le> unat (prs_hop_num pkt)) then d
     else let d = d_untrack (ph_tracking_id hdr) d in
     if ph_status hdr \<noteq> STATUS_SUCCESS \<and> ph_status hdr \<noteq> STATUS_ALREADY_EXISTS then d
     else if get_device_type d = DEVICE_TYPE_ANCHOR then
       if ptype = DEVICE_TYPE_GATEWAY \<or> ptype = DEVICE_TYPE_ANCHOR then
         if check_infra_storage dst_id False d = STATUS_ALREADY_EXISTS
         then proc (send_repair_request P dst_id) d else collect d
       else if ptype = DEVICE_TYPE_SENSOR then
         if check_sensor_storage dst_id d = STATUS_ALREADY_EXISTS
         then proc (send_repair_request P dst_id) d else collect d
       else d
     else if get_device_type d = DEVICE_TYPE_SENSOR then
       if ptype = DEVICE_TYPE_GATEWAY \<or> ptype = DEVICE_TYPE_ANCHOR then
         if check_infra_storage dst_id True d = STATUS_ALREADY_EXISTS
         then proc (send_repair_request P dst_id) d
         else if ph_status hdr = STATUS_ALREADY_EXISTS then proc (send_repair_request P dst_id) d
         else collect d
       else d
     else d)"

definition handle_pair_confirm :: "platform \<Rightarrow> pair_confirm \<Rightarrow> u16 \<Rightarrow> s16 \<Rightarrow> dev \<Rightarrow> dev" where
  "handle_pair_confirm P pkt dst_id rssi_2 d = (
     let hdr = pcf_hdr pkt; ptype = ph_device_type hdr;
         ack = (\<lambda>status. proc (send_pair_ack P dst_id (ph_tracking_id hdr) status)) in
     if ph_device_id hdr \<noteq> get_device_id d then d
     else if \<not> valid_device_type ptype then d
     else if ph_status hdr \<noteq> STATUS_SUCCESS then d
     else if get_device_type d = DEVICE_TYPE_GATEWAY \<or> get_device_type d = DEVICE_TYPE_ANCHOR then
       if ptype = DEVICE_TYPE_ANCHOR then
         let status = check_infra_storage dst_id False d in
         if status = STATUS_SUCCESS then
           let hop = (if pcf_hop_num pkt = 0xFF then get_hop_number d + 1 else pcf_hop_num pkt);
               (err, d) = on_store (\<lambda>s. storage_infra_add P s
                 (mk_infra_entry ptype dst_id hop (pcf_version pkt) rssi_2)) d in
           if err \<noteq> 0 then d
           else seqs [device_info_update P, ack status] d
         else ack status d
       else if ptype = DEVICE_TYPE_SENSOR then
         let status = check_sensor_storage dst_id d in
         if status = STATUS_SUCCESS then
           let (err, d) = on_store (\<lambda>s. storage_sensor_add P s (mk_sensor_entry dst_id (pcf_version pkt))) d in
           if err \<noteq> 0 then d else ack status d
         else ack status d
       else d
     else d)"

definition send_joined :: "platform \<Rightarrow> u16 \<Rightarrow> dev \<Rightarrow> dev" where
  "send_joined P dst_id d = (
     let t = get_device_type d;
         jn = \<lparr>jn_hdr = zero_hdr, jn_device_type = t, jn_device_id = get_device_id d,
               jn_serial_num = get_serial_number d, jn_version = get_firmware_version d,
               jn_connected_device_id = (if t = DEVICE_TYPE_ANCHOR then infra_id (infra_at d 0)
                                         else if t = DEVICE_TYPE_SENSOR then dst_id else 0),
               jn_hop_num = (if t = DEVICE_TYPE_ANCHOR then get_hop_number d
                             else if t = DEVICE_TYPE_SENSOR then 0xFF else 0),
               jn_sensor_count = (if t = DEVICE_TYPE_ANCHOR then sensor_count8 d
                                  else if t = DEVICE_TYPE_SENSOR then 0xFF else 0)\<rparr>;
         d = (if t = DEVICE_TYPE_SENSOR then set_connected_device_id dst_id d else d) in
     if infra_count d = 1 then proc (send_joined_network P jn dst_id STATUS_SUCCESS) d else d)"

definition build_joined_network :: "platform \<Rightarrow> pair_ack \<Rightarrow> u16 \<Rightarrow> s16 \<Rightarrow> dev \<Rightarrow> dev" where
  "build_joined_network P pkt dst_id rssi_2 d = (
     let (err, d) = on_store (\<lambda>s. storage_infra_add P s (mk_infra_entry (ph_device_type (pak_hdr pkt))
           dst_id (pak_hop_num pkt) (pak_version pkt) rssi_2)) d in
     if err \<noteq> 0 then d
     else seqs [device_info_update P, send_joined P dst_id] d)"

definition handle_pair_ack :: "platform \<Rightarrow> pair_ack \<Rightarrow> u16 \<Rightarrow> s16 \<Rightarrow> dev \<Rightarrow> dev" where
  "handle_pair_ack P pkt dst_id rssi_2 d = (
     let hdr = pak_hdr pkt; ptype = ph_device_type hdr in
     if ph_device_id hdr \<noteq> get_device_id d then d
     else if \<not> valid_device_type ptype then d
     else let d = d_untrack (ph_tracking_id hdr) d in
     if ph_status hdr \<noteq> STATUS_SUCCESS \<and> ph_status hdr \<noteq> STATUS_ALREADY_EXISTS then d
     else let status =
         (if get_device_type d = DEVICE_TYPE_ANCHOR then
            if ptype = DEVICE_TYPE_GATEWAY \<or> ptype = DEVICE_TYPE_ANCHOR
            then Some (check_infra_storage dst_id False d)
            else Some (check_sensor_storage dst_id d)
          else if get_device_type d = DEVICE_TYPE_SENSOR then
            if ptype = DEVICE_TYPE_GATEWAY \<or> ptype = DEVICE_TYPE_ANCHOR
            then Some (check_infra_storage dst_id True d) else None
          else None) in
     if status = Some STATUS_SUCCESS then build_joined_network P pkt dst_id rssi_2 d else d)"

section \<open>Repair handlers\<close>

text \<open>\<open>entry.hop_num = pkt->hop_num == pkt->hop_num\<close> stores 1, whatever the packet says.\<close>

definition handle_repair_request :: "platform \<Rightarrow> repair_request \<Rightarrow> u16 \<Rightarrow> s16 \<Rightarrow> dev \<Rightarrow> dev" where
  "handle_repair_request P pkt dst_id rssi_2 d = (
     let hdr = rrq_hdr pkt; ptype = ph_device_type hdr;
         respond = (\<lambda>status. proc (send_repair_response P dst_id (ph_tracking_id hdr) status)) in
     if ph_device_id hdr \<noteq> get_device_id d then d
     else if \<not> valid_device_type ptype then d
     else if rrq_hash pkt \<noteq> compute_pair_hash dst_id (rrq_random_num pkt) then respond STATUS_AUTH_FAILED d
     else if get_device_type d = DEVICE_TYPE_GATEWAY \<or> get_device_type d = DEVICE_TYPE_ANCHOR then
       if ptype = DEVICE_TYPE_ANCHOR then
         let status = check_infra_storage dst_id False d in
         if status = STATUS_SUCCESS \<and> rrq_hop_num pkt \<noteq> 0xFF then
           let (err, d) = on_store (\<lambda>s. storage_infra_add P s
                 (mk_infra_entry ptype dst_id 1 (rrq_version pkt) rssi_2)) d in
           if err \<noteq> 0 then d else seqs [device_info_update P, respond status] d
         else respond status d
       else if ptype = DEVICE_TYPE_SENSOR then
         let status = check_sensor_storage dst_id d in
         if status = STATUS_SUCCESS then
           let (err, d) = on_store (\<lambda>s. storage_sensor_add P s (mk_sensor_entry dst_id (rrq_version pkt))) d in
           if err \<noteq> 0 then d else respond status d
         else respond status d
       else d
     else d)"

text \<open>On a sensor the table is searched for \<open>pkt->hdr.device_id\<close>, which is its own id here.\<close>

definition handle_repair_response :: "platform \<Rightarrow> repair_response \<Rightarrow> u16 \<Rightarrow> s16 \<Rightarrow> dev \<Rightarrow> dev" where
  "handle_repair_response P pkt dst_id rssi_2 d = (
     let hdr = rrs_hdr pkt; ptype = ph_device_type hdr;
         entry = mk_infra_entry ptype dst_id (rrs_hop_num pkt) (rrs_version pkt) rssi_2 in
     if ph_device_id hdr \<noteq> get_device_id d then d
     else if \<not> valid_device_type ptype then d
     else let d = d_untrack (ph_tracking_id hdr) d in
     if ph_status hdr \<noteq> STATUS_SUCCESS \<and> ph_status hdr \<noteq> STATUS_ALREADY_EXISTS \<and>
        ph_status hdr \<noteq> STATUS_STORAGE_FULL then d
     else if get_device_type d = DEVICE_TYPE_ANCHOR then
       if ptype = DEVICE_TYPE_ANCHOR \<or> ptype = DEVICE_TYPE_GATEWAY then
         if ph_status hdr = STATUS_STORAGE_FULL then
           (case find_infra dst_id d of
              None \<Rightarrow> d
            | Some i \<Rightarrow> device_info_update P (proc (on_store (\<lambda>s. storage_infra_remove P s i)) d))
         else let status = check_infra_storage dst_id False d in
         if status = STATUS_ALREADY_EXISTS then snd (update_infra_storage P dst_id (rrs_hop_num pkt) rssi_2 d)
         else if status = STATUS_SUCCESS then
           let (err, d) = on_store (\<lambda>s. storage_infra_add P s entry) d in
           if err \<noteq> 0 then d else device_info_update P d
         else d
       else d
     else if get_device_type d = DEVICE_TYPE_SENSOR then
       if ptype = DEVICE_TYPE_ANCHOR \<or> ptype = DEVICE_TYPE_GATEWAY then
         let status = check_infra_storage (ph_device_id hdr) True d in
         if status = STATUS_ALREADY_EXISTS
         then snd (update_infra_storage P (ph_device_id hdr) (rrs_hop_num pkt) rssi_2 d)
         else if status = STATUS_SUCCESS then proc (on_store (\<lambda>s. storage_infra_add P s entry)) d
         else d
       else d
     else d)"

section \<open>Tick\<close>

definition pairing_window_expired :: "dev \<Rightarrow> dev" where
  "pairing_window_expired d = (
     let d = set_pair (\<lambda>p. sort_candidates (p\<lparr>pr_collecting := False, pr_timer := nbtimeout_stop (pr_timer p)\<rparr>)) d;
         available = int MAX_ANCHORS - int (infra_count d);
         d = (if available \<le> 0 then set_pair (\<lambda>p. p\<lparr>pr_count := 0\<rparr>) d
              else set_pair (\<lambda>p. p\<lparr>pr_count := if pr_count p < available then pr_count p else available,
                                   pr_process_next := True\<rparr>) d) in
     set_pair (\<lambda>p. p\<lparr>pr_idx := pr_count p\<rparr>) d)"

definition mesh_pairing_tick :: "platform \<Rightarrow> dev \<Rightarrow> dev" where
  "mesh_pairing_tick P d = (
     if get_device_type d = DEVICE_TYPE_GATEWAY then d
     else let d = (if pr_process_next (dv_pair d) \<and> 0 < pr_idx (dv_pair d)
           then seqs [set_pair (\<lambda>p. p\<lparr>pr_process_next := False\<rparr>),
                      select_and_confirm P (pr_count (dv_pair d) - pr_idx (dv_pair d)),
                      set_pair (\<lambda>p. p\<lparr>pr_idx := pr_idx p - 1\<rparr>)] d
           else d) in
     seqs [\<lambda>d. if \<not> pr_collecting (dv_pair d) then d
               else if nbtimeout_expired (dv_now d) (pr_timer (dv_pair d)) then pairing_window_expired d
               else d] d)"

section \<open>Well-formedness\<close>

lemma set_pair_wf: "dev_wf d \<Longrightarrow> (\<And>p. pairing_wf p \<Longrightarrow> pairing_wf (f p)) \<Longrightarrow> dev_wf (set_pair f d)"
  by (simp add: set_pair_def dev_wf_def)

lemma set_pair_wf_fields [wf_intros]:
  assumes "dev_wf d"
  shows "dev_wf (set_pair (\<lambda>p. p\<lparr>pr_count := 0\<rparr>) d)" "dev_wf (set_pair (\<lambda>p. p\<lparr>pr_process_next := b\<rparr>) d)"
    "dev_wf (set_pair (\<lambda>p. p\<lparr>pr_idx := g p\<rparr>) d)"
  by (rule set_pair_wf[OF assms]; simp add: pairing_wf_def)+

lemma collect_response_wf:
  assumes "pairing_wf p" shows "pairing_wf (collect_response pkt i r now p)"
  using assms by (auto simp: pairing_wf_def collect_response_def Let_def)

lemma collect_wf [wf_intros]: "dev_wf d \<Longrightarrow> dev_wf (set_pair (collect_response pkt i r now) d)"
  by (erule set_pair_wf) (rule collect_response_wf)

lemma pairing_window_expired_wf [wf_intros]: "dev_wf d \<Longrightarrow> dev_wf (pairing_window_expired d)"
  by (auto simp: pairing_window_expired_def dev_wf_def set_pair_def sort_candidates_def pairing_wf_def Let_def
      storage_wf_def)

lemma select_and_confirm_wf [wf_intros]: "dev_wf d \<Longrightarrow> dev_wf (select_and_confirm P idx d)"
  unfolding select_and_confirm_def Let_def by (intro wf_intros; assumption)

lemma mesh_pairing_tick_wf [wf_intros]: "dev_wf d \<Longrightarrow> dev_wf (mesh_pairing_tick P d)"
  unfolding mesh_pairing_tick_def Let_def by (intro wf_intros; assumption)

lemma handle_pair_request_wf [wf_intros]: "dev_wf d \<Longrightarrow> dev_wf (handle_pair_request P pkt i r d)"
  unfolding handle_pair_request_def Let_def by (intro wf_intros; assumption)

lemma handle_pair_response_wf [wf_intros]: "dev_wf d \<Longrightarrow> dev_wf (handle_pair_response P pkt i r d)"
  unfolding handle_pair_response_def Let_def by (intro wf_intros; assumption)

lemma handle_pair_confirm_wf [wf_intros]: "dev_wf d \<Longrightarrow> dev_wf (handle_pair_confirm P pkt i r d)"
  unfolding handle_pair_confirm_def Let_def split_beta by (intro wf_intros; assumption)

lemma handle_pair_ack_wf [wf_intros]: "dev_wf d \<Longrightarrow> dev_wf (handle_pair_ack P pkt i r d)"
  unfolding handle_pair_ack_def build_joined_network_def send_joined_def Let_def split_beta
  by (intro wf_intros; assumption)

lemma handle_repair_request_wf [wf_intros]: "dev_wf d \<Longrightarrow> dev_wf (handle_repair_request P pkt i r d)"
  unfolding handle_repair_request_def Let_def split_beta by (intro wf_intros; assumption)

lemma handle_repair_response_wf [wf_intros]: "dev_wf d \<Longrightarrow> dev_wf (handle_repair_response P pkt i r d)"
  unfolding handle_repair_response_def Let_def split_beta by (intro wf_intros; assumption)

end
