(* ===== verification/Data_Tx.thy ===== *)
theory Data_Tx
  imports Mesh_Tx
begin

text \<open>
  The transmit helpers of src/config.c, src/data.c and src/large_data.c. They complete the header
  of a packet the caller filled in (its status is the caller's), track it where an acknowledgment
  is expected, and queue it. The sender index that \<open>send_report_chunk\<close> takes is only logged.
\<close>

abbreviation (input) PACKET_LARGE_DATA_TIMEOUT_MS :: u32 where "PACKET_LARGE_DATA_TIMEOUT_MS \<equiv> 150"

section \<open>Configs (src/config.c)\<close>

definition send_config :: "platform \<Rightarrow> config_t \<Rightarrow> u16 \<Rightarrow> u8 \<Rightarrow> dev \<Rightarrow> int \<times> dev" where
  "send_config P pkt dst_id priority d = (
     let (tid, d) = d_next_id d;
         bs = enc_config_t (pkt\<lparr>cfg_hdr := mk_hdr PACKET_CONFIG priority tid dst_id (ph_status (cfg_hdr pkt)) d\<rparr>) in
     send_tracked P dst_id PACKET_CONFIG tid bs priority d)"

definition send_config_ack :: "platform \<Rightarrow> config_ack \<Rightarrow> u16 \<Rightarrow> u8 \<Rightarrow> u8 \<Rightarrow> dev \<Rightarrow> int \<times> dev" where
  "send_config_ack P pkt dst_id priority tracking_id d =
     send_plain P (enc_config_ack (pkt\<lparr>cfa_hdr := mk_hdr PACKET_CONFIG_ACK priority tracking_id dst_id (ph_status (cfa_hdr pkt)) d\<rparr>)) priority d"

definition send_config_received :: "platform \<Rightarrow> config_received \<Rightarrow> u16 \<Rightarrow> dev \<Rightarrow> int \<times> dev" where
  "send_config_received P pkt dst_id d = (
     let (tid, d) = d_next_id d;
         bs = enc_config_received (pkt\<lparr>cfr_hdr := mk_hdr PACKET_CONFIG_RECEIVED PACKET_PRIORITY_HIGH tid dst_id (ph_status (cfr_hdr pkt)) d\<rparr>) in
     send_tracked P dst_id PACKET_CONFIG_RECEIVED tid bs PACKET_PRIORITY_HIGH d)"

definition send_config_received_ack :: "platform \<Rightarrow> config_received_ack \<Rightarrow> u16 \<Rightarrow> u8 \<Rightarrow> u8 \<Rightarrow> dev \<Rightarrow> int \<times> dev" where
  "send_config_received_ack P pkt dst_id priority tracking_id d =
     send_plain P (enc_config_received_ack (pkt\<lparr>cfra_hdr := mk_hdr PACKET_CONFIG_RECEIVED_ACK priority tracking_id dst_id (ph_status (cfra_hdr pkt)) d\<rparr>)) priority d"

section \<open>Reports (src/data.c)\<close>

definition send_report_init :: "platform \<Rightarrow> report_init \<Rightarrow> u16 \<Rightarrow> u8 \<Rightarrow> dev \<Rightarrow> int \<times> dev" where
  "send_report_init P pkt dst_id priority d = (
     let (tid, d) = d_next_id d;
         bs = enc_report_init (pkt\<lparr>rpi_hdr := mk_hdr PACKET_REPORT_INIT priority tid dst_id (ph_status (rpi_hdr pkt)) d\<rparr>) in
     send_tracked P dst_id PACKET_REPORT_INIT tid bs priority d)"

definition send_report_init_ack :: "platform \<Rightarrow> report_init_ack \<Rightarrow> u16 \<Rightarrow> u8 \<Rightarrow> u8 \<Rightarrow> dev \<Rightarrow> int \<times> dev" where
  "send_report_init_ack P pkt dst_id priority tracking_id d =
     send_plain P (enc_report_init_ack (pkt\<lparr>rpia_hdr := mk_hdr PACKET_REPORT_INIT_ACK priority tracking_id dst_id (ph_status (rpia_hdr pkt)) d\<rparr>)) priority d"

definition send_report_chunk :: "platform \<Rightarrow> report_chunk \<Rightarrow> u16 \<Rightarrow> u8 \<Rightarrow> dev \<Rightarrow> int \<times> dev" where
  "send_report_chunk P pkt dst_id priority d = (
     let (tid, d) = d_next_id d;
         bs = enc_report_chunk (pkt\<lparr>rpc_hdr := mk_hdr PACKET_REPORT_CHUNK priority tid dst_id (ph_status (rpc_hdr pkt)) d\<rparr>) in
     send_tracked P dst_id PACKET_REPORT_CHUNK tid bs priority d)"

definition send_report_chunk_ack :: "platform \<Rightarrow> report_chunk_ack \<Rightarrow> u16 \<Rightarrow> u8 \<Rightarrow> u8 \<Rightarrow> dev \<Rightarrow> int \<times> dev" where
  "send_report_chunk_ack P pkt dst_id priority tracking_id d =
     send_plain P (enc_report_chunk_ack (pkt\<lparr>rpca_hdr := mk_hdr PACKET_REPORT_CHUNK_ACK priority tracking_id dst_id (ph_status (rpca_hdr pkt)) d\<rparr>)) priority d"

definition send_report_received :: "platform \<Rightarrow> report_received \<Rightarrow> u16 \<Rightarrow> dev \<Rightarrow> int \<times> dev" where
  "send_report_received P pkt dst_id d = (
     let (tid, d) = d_next_id d;
         bs = enc_report_received (pkt\<lparr>rpr_hdr := mk_hdr PACKET_REPORT_RECEIVED PACKET_PRIORITY_HIGH tid dst_id (ph_status (rpr_hdr pkt)) d\<rparr>) in
     send_tracked P dst_id PACKET_REPORT_RECEIVED tid bs PACKET_PRIORITY_HIGH d)"

definition send_report_received_ack :: "platform \<Rightarrow> report_received_ack \<Rightarrow> u16 \<Rightarrow> u8 \<Rightarrow> u8 \<Rightarrow> dev \<Rightarrow> int \<times> dev" where
  "send_report_received_ack P pkt dst_id priority tracking_id d =
     send_plain P (enc_report_received_ack (pkt\<lparr>rpra_hdr := mk_hdr PACKET_REPORT_RECEIVED_ACK priority tracking_id dst_id (ph_status (rpra_hdr pkt)) d\<rparr>)) priority d"

section \<open>Large data (src/large_data.c)\<close>

text \<open>A chunk has its own timeout and twice the retries; the received packet is not tracked.\<close>

definition send_large_data_init :: "platform \<Rightarrow> large_data_init \<Rightarrow> u16 \<Rightarrow> u8 \<Rightarrow> dev \<Rightarrow> int \<times> dev" where
  "send_large_data_init P pkt dst_id priority d = (
     let (tid, d) = d_next_id d;
         bs = enc_large_data_init (pkt\<lparr>ldi_hdr := mk_hdr PACKET_LARGE_DATA_INIT priority tid dst_id (ph_status (ldi_hdr pkt)) d\<rparr>) in
     send_tracked P dst_id PACKET_LARGE_DATA_INIT tid bs priority d)"

definition send_large_data_init_ack :: "platform \<Rightarrow> large_data_init_ack \<Rightarrow> u16 \<Rightarrow> u8 \<Rightarrow> u8 \<Rightarrow> dev \<Rightarrow> int \<times> dev" where
  "send_large_data_init_ack P pkt dst_id priority tracking_id d =
     send_plain P (enc_large_data_init_ack (pkt\<lparr>ldia_hdr := mk_hdr PACKET_LARGE_DATA_INIT_ACK priority tracking_id dst_id (ph_status (ldia_hdr pkt)) d\<rparr>)) priority d"

definition send_large_data_chunk :: "platform \<Rightarrow> large_data_chunk \<Rightarrow> u16 \<Rightarrow> u8 \<Rightarrow> dev \<Rightarrow> int \<times> dev" where
  "send_large_data_chunk P pkt dst_id priority d = (
     let (tid, d) = d_next_id d;
         bs = enc_large_data_chunk (pkt\<lparr>ldc_hdr := mk_hdr PACKET_LARGE_DATA_CHUNK priority tid dst_id (ph_status (ldc_hdr pkt)) d\<rparr>) in
     d_tx P bs (length bs) priority
       (d_track P dst_id (get_device_id d) tid PACKET_LARGE_DATA_CHUNK PACKET_LARGE_DATA_TIMEOUT_MS
          (2 * PACKET_MAX_RETRIES) bs d))"

definition send_large_data_chunk_ack :: "platform \<Rightarrow> large_data_chunk_ack \<Rightarrow> u16 \<Rightarrow> u8 \<Rightarrow> u8 \<Rightarrow> dev \<Rightarrow> int \<times> dev" where
  "send_large_data_chunk_ack P pkt dst_id priority tracking_id d =
     send_plain P (enc_large_data_chunk_ack (pkt\<lparr>ldca_hdr := mk_hdr PACKET_LARGE_DATA_CHUNK_ACK priority tracking_id dst_id (ph_status (ldca_hdr pkt)) d\<rparr>)) priority d"

definition send_large_data_received :: "platform \<Rightarrow> large_data_received \<Rightarrow> u16 \<Rightarrow> dev \<Rightarrow> int \<times> dev" where
  "send_large_data_received P pkt dst_id d = (
     let (tid, d) = d_next_id d;
         bs = enc_large_data_received (pkt\<lparr>ldr_hdr := mk_hdr PACKET_LARGE_DATA_RECEIVED PACKET_PRIORITY_HIGH tid dst_id (ph_status (ldr_hdr pkt)) d\<rparr>) in
     send_plain P bs PACKET_PRIORITY_HIGH d)"

definition send_large_data_received_ack :: "platform \<Rightarrow> large_data_received_ack \<Rightarrow> u16 \<Rightarrow> u8 \<Rightarrow> u8 \<Rightarrow> dev \<Rightarrow> int \<times> dev" where
  "send_large_data_received_ack P pkt dst_id priority tracking_id d =
     send_plain P (enc_large_data_received_ack (pkt\<lparr>ldra_hdr := mk_hdr PACKET_LARGE_DATA_RECEIVED_ACK priority tracking_id dst_id (ph_status (ldra_hdr pkt)) d\<rparr>)) priority d"

section \<open>What a transmission changes\<close>

lemma tx_frame_id_sequences:
  "tx_frame d (snd (send_plain P bs prio (snd (d_next_id d))))"
  "tx_frame d (snd (d_tx P bs len prio (d_track P dst prev tid pt dur mr bs' (snd (d_next_id d)))))"
  by (rule tx_frame_trans[OF tx_frame_next_id tx_frame_plain]
      tx_frame_trans[OF tx_frame_next_id tx_frame_trans[OF tx_frame_track tx_frame_tx]])+

lemma tx_frame_send_data_tracked [simp]:
  "tx_frame d (snd (send_config P p_cfg dst_id priority d))"
  "tx_frame d (snd (send_config_received P p_cfr dst_id d))"
  "tx_frame d (snd (send_report_init P p_rpi dst_id priority d))"
  "tx_frame d (snd (send_report_chunk P p_rpc dst_id priority d))"
  "tx_frame d (snd (send_report_received P p_rpr dst_id d))"
  "tx_frame d (snd (send_large_data_init P p_ldi dst_id priority d))"
  "tx_frame d (snd (send_large_data_chunk P p_ldc dst_id priority d))"
  "tx_frame d (snd (send_large_data_received P p_ldr dst_id d))"
  unfolding send_config_def
    send_config_received_def
    send_report_init_def
    send_report_chunk_def
    send_report_received_def
    send_large_data_init_def
    send_large_data_chunk_def
    send_large_data_received_def
    split_beta Let_def
  by (rule tx_frame_sequences tx_frame_id_sequences)+

lemma tx_frame_send_data_plain [simp]:
  "tx_frame d (snd (send_config_ack P p_cfa dst_id priority tracking_id d))"
  "tx_frame d (snd (send_config_received_ack P p_cfra dst_id priority tracking_id d))"
  "tx_frame d (snd (send_report_init_ack P p_rpia dst_id priority tracking_id d))"
  "tx_frame d (snd (send_report_chunk_ack P p_rpca dst_id priority tracking_id d))"
  "tx_frame d (snd (send_report_received_ack P p_rpra dst_id priority tracking_id d))"
  "tx_frame d (snd (send_large_data_init_ack P p_ldia dst_id priority tracking_id d))"
  "tx_frame d (snd (send_large_data_chunk_ack P p_ldca dst_id priority tracking_id d))"
  "tx_frame d (snd (send_large_data_received_ack P p_ldra dst_id priority tracking_id d))"
  unfolding send_config_ack_def
    send_config_received_ack_def
    send_report_init_ack_def
    send_report_chunk_ack_def
    send_report_received_ack_def
    send_large_data_init_ack_def
    send_large_data_chunk_ack_def
    send_large_data_received_ack_def
  by (rule tx_frame_plain)+

lemma tx_frame_data_procs:
  "tx_frame d (proc (send_config P p_cfg dst_id priority) d)"
  "tx_frame d (proc (send_config_received P p_cfr dst_id) d)"
  "tx_frame d (proc (send_report_init P p_rpi dst_id priority) d)"
  "tx_frame d (proc (send_report_chunk P p_rpc dst_id priority) d)"
  "tx_frame d (proc (send_report_received P p_rpr dst_id) d)"
  "tx_frame d (proc (send_large_data_init P p_ldi dst_id priority) d)"
  "tx_frame d (proc (send_large_data_chunk P p_ldc dst_id priority) d)"
  "tx_frame d (proc (send_large_data_received P p_ldr dst_id) d)"
  "tx_frame d (proc (send_config_ack P p_cfa dst_id priority tracking_id) d)"
  "tx_frame d (proc (send_config_received_ack P p_cfra dst_id priority tracking_id) d)"
  "tx_frame d (proc (send_report_init_ack P p_rpia dst_id priority tracking_id) d)"
  "tx_frame d (proc (send_report_chunk_ack P p_rpca dst_id priority tracking_id) d)"
  "tx_frame d (proc (send_report_received_ack P p_rpra dst_id priority tracking_id) d)"
  "tx_frame d (proc (send_large_data_init_ack P p_ldia dst_id priority tracking_id) d)"
  "tx_frame d (proc (send_large_data_chunk_ack P p_ldca dst_id priority tracking_id) d)"
  "tx_frame d (proc (send_large_data_received_ack P p_ldra dst_id priority tracking_id) d)"
  by (simp_all add: proc_def)

lemmas data_proc_frames [simp] =
  tx_frame_data_procs[THEN tx_frameD(1)]
  tx_frame_data_procs[THEN tx_frameD(2)]
  tx_frame_data_procs[THEN tx_frameD(3)]
  tx_frame_data_procs[THEN tx_frameD(4)]
  tx_frame_data_procs[THEN tx_frameD(5)]
  tx_frame_data_procs[THEN tx_frameD(6)]
  tx_frame_data_procs[THEN tx_frameD(7)]
  tx_frame_data_procs[THEN tx_frameD(8)]
  tx_frame_data_procs[THEN tx_frameD(9)]
  tx_frame_data_procs[THEN tx_frameD(10)]

lemmas data_proc_wf [wf_intros] = tx_frame_data_procs[THEN tx_frame_wf]

end
