(* ===== verification/At_Text.thy ===== *)
theory At_Text
  imports Device
begin

unbundle bit_operations_syntax

text \<open>
  The text side of the AT interface (src/slm_at_main.c): quoted fields, hexadecimal numbers and
  payloads, the standard responses. A C string is the list of its characters before the NUL.
  To the command handlers the transport is the platform parameter \<open>pf_uart_write\<close>; the transport
  itself (src/slm_at_uart.c: ring buffers, DMA and interrupts) is modelled in At_Uart.
\<close>

section \<open>Numbers as text\<close>

abbreviation (input) QUOTE :: char where "QUOTE \<equiv> CHR 0x22"
abbreviation (input) CRLF :: string where "CRLF \<equiv> [CHR 0x0D, CHR 0x0A]"
abbreviation (input) SLM_UART_AT_COMMAND_LEN :: nat where "SLM_UART_AT_COMMAND_LEN \<equiv> 1024"
abbreviation (input) SLM_UART_STRING_MESSAGE_SIZE_MAX :: nat where "SLM_UART_STRING_MESSAGE_SIZE_MAX \<equiv> 256"

definition hex_digit :: "bool \<Rightarrow> nat \<Rightarrow> char" where
  "hex_digit upper n = (if upper then ''0123456789ABCDEF'' else ''0123456789abcdef'') ! n"

text \<open>\<open>printf\<close>'s zero-padded hexadecimal of \<open>w\<close> digits, for values that fit.\<close>

primrec hex_fixed :: "bool \<Rightarrow> nat \<Rightarrow> nat \<Rightarrow> string" where
  "hex_fixed upper 0 v = []"
| "hex_fixed upper (Suc w) v = hex_fixed upper w (v div 16) @ [hex_digit upper (v mod 16)]"

text \<open>The same with at least \<open>w\<close> digits.\<close>

fun hex_len :: "nat \<Rightarrow> nat" where
  "hex_len v = (if v < 16 then 1 else Suc (hex_len (v div 16)))"

declare hex_len.simps [simp del]

definition hex_min :: "bool \<Rightarrow> nat \<Rightarrow> nat \<Rightarrow> string" where
  "hex_min upper w v = hex_fixed upper (max w (hex_len v)) v"

text \<open>The payload loops with the table \<open>HEX_LUT\<close>.\<close>

primrec hex_bytes :: "bytes \<Rightarrow> string" where
  "hex_bytes [] = []"
| "hex_bytes (b # bs) = hex_digit True (unat b div 16) # hex_digit True (unat b mod 16) # hex_bytes bs"

text \<open>\<open>printf\<close>'s \<open>%u\<close>.\<close>

fun dec_str :: "nat \<Rightarrow> string" where
  "dec_str n = (if n < 10 then [''0123456789'' ! n] else dec_str (n div 10) @ [''0123456789'' ! (n mod 10)])"

declare dec_str.simps [simp del]

text \<open>Quoted fields separated by commas.\<close>

fun at_fields :: "string list \<Rightarrow> string" where
  "at_fields [] = []"
| "at_fields [f] = QUOTE # f @ [QUOTE]"
| "at_fields (f # g # fs) = QUOTE # f @ QUOTE # CHR '','' # at_fields (g # fs)"

section \<open>Parsing\<close>

definition hex_nibble :: "char \<Rightarrow> nat option" where
  "hex_nibble c = (let n = of_char c :: nat in
     if 48 \<le> n \<and> n \<le> 57 then Some (n - 48)
     else if 97 \<le> n \<and> n \<le> 102 then Some (n - 97 + 10)
     else if 65 \<le> n \<and> n \<le> 70 then Some (n - 65 + 10)
     else None)"

text \<open>\<open>strchr(p, '"')\<close> and the text behind it.\<close>

definition after_quote :: "string \<Rightarrow> string option" where
  "after_quote p = (case dropWhile (\<lambda>c. c \<noteq> QUOTE) p of [] \<Rightarrow> None | c # r \<Rightarrow> Some r)"

primrec field_get :: "nat \<Rightarrow> string \<Rightarrow> string option" where
  "field_get 0 p = (case after_quote p of
       None \<Rightarrow> None
     | Some r \<Rightarrow> if QUOTE \<in> set r then Some (takeWhile (\<lambda>c. c \<noteq> QUOTE) r) else None)"
| "field_get (Suc n) p = (case after_quote p of
       None \<Rightarrow> None
     | Some r \<Rightarrow> (case after_quote r of None \<Rightarrow> None | Some q \<Rightarrow> field_get n q))"

text \<open>The accumulation loop of \<open>field_hex_u64\<close>: 64 bits, so longer fields lose their top digits.\<close>

fun hex_value :: "string \<Rightarrow> u64 \<Rightarrow> u64 option" where
  "hex_value [] v = Some v"
| "hex_value (c # cs) v = (case hex_nibble c of
       None \<Rightarrow> None
     | Some nib \<Rightarrow> hex_value cs (push_bit 4 v OR word_of_nat nib))"

definition field_hex_u64 :: "string \<Rightarrow> nat \<Rightarrow> u64 option" where
  "field_hex_u64 args idx = (case field_get idx args of
       None \<Rightarrow> None
     | Some f \<Rightarrow> if f = [] then None else hex_value f 0)"

fun hex_pairs :: "string \<Rightarrow> bytes option" where
  "hex_pairs (a # b # cs) = (case (hex_nibble a, hex_nibble b) of
       (Some hi, Some lo) \<Rightarrow> map_option ((#) (word_of_nat (hi * 16 + lo))) (hex_pairs cs)
     | _ \<Rightarrow> None)"
| "hex_pairs _ = Some []"

definition hex_decode :: "string \<Rightarrow> nat \<Rightarrow> bytes option" where
  "hex_decode hex out_max = (
     if odd (length hex) then None
     else if out_max < length hex div 2 then None
     else hex_pairs hex)"

section \<open>Output\<close>

definition slm_at_tx_write :: "platform \<Rightarrow> string \<Rightarrow> dev \<Rightarrow> int \<times> dev" where
  "slm_at_tx_write P s d = (let (err, out) = pf_uart_write P (dv_uart d) s in (err, d\<lparr>dv_uart := out\<rparr>))"

text \<open>
  \<open>snprintf\<close> truncates into 256 bytes but its result is the untruncated length, and that many
  bytes are written from the buffer: one that does not fit is read past its end.
\<close>

definition at_send_line :: "platform \<Rightarrow> string \<Rightarrow> dev \<Rightarrow> dev" where
  "at_send_line P s d = (
     let t = CRLF @ s @ CRLF in
     if length t < SLM_UART_STRING_MESSAGE_SIZE_MAX then proc (slm_at_tx_write P t) d
     else if length t = SLM_UART_STRING_MESSAGE_SIZE_MAX
       then proc (slm_at_tx_write P (butlast t @ [CHR 0x00])) d
     else fault d)"

definition at_ok :: "platform \<Rightarrow> dev \<Rightarrow> dev" where
  "at_ok P d = proc (slm_at_tx_write P (CRLF @ ''OK'' @ CRLF)) d"

definition at_error :: "platform \<Rightarrow> dev \<Rightarrow> dev" where
  "at_error P d = proc (slm_at_tx_write P (CRLF @ ''ERROR'' @ CRLF)) d"

definition set_at_pending_ack :: "at_pending_ack \<Rightarrow> dev \<Rightarrow> dev" where
  "set_at_pending_ack ack d = d\<lparr>dv_pending_ack := ack\<rparr>"

section \<open>What is written can be read back\<close>

lemma length_hex_fixed [simp]: "length (hex_fixed up w v) = w"
  by (induction w arbitrary: v) auto

lemma length_hex_bytes [simp]: "length (hex_bytes bs) = 2 * length bs"
  by (induction bs) auto

lemma hex_digits:
  assumes "n < 16"
  shows "hex_nibble (hex_digit up n) = Some n \<and> hex_digit up n \<noteq> QUOTE"
proof -
  have "list_all (\<lambda>n. hex_nibble (hex_digit u n) = Some n \<and> hex_digit u n \<noteq> QUOTE) [0..<16]" for u
    by (cases u) (simp_all add: hex_digit_def hex_nibble_def upt_conv_Cons)
  then show ?thesis using assms by (simp add: list_all_iff)
qed

lemma hex_nibble_digit [simp]: "n < 16 \<Longrightarrow> hex_nibble (hex_digit up n) = Some n"
  using hex_digits by blast

lemma hex_digit_quote [simp]: "n < 16 \<Longrightarrow> hex_digit up n \<noteq> QUOTE" "n < 16 \<Longrightarrow> QUOTE \<noteq> hex_digit up n"
  using hex_digits by metis+

lemma quote_free [simp]:
  "QUOTE \<notin> set (hex_fixed up w v)" "QUOTE \<notin> set (hex_bytes bs)"
proof -
  show "QUOTE \<notin> set (hex_fixed up w v)" by (induction w arbitrary: v) simp_all
  have "unat b div 16 < 16" for b :: u8 using unsigned_less[of b, where 'a = nat] by simp
  then show "QUOTE \<notin> set (hex_bytes bs)" by (induction bs) simp_all
qed

lemma hex_pairs_bytes: "hex_pairs (hex_bytes bs) = Some bs"
proof (induction bs)
  case (Cons b bs)
  have "unat b div 16 < 16" using unsigned_less[of b, where 'a = nat] by simp
  with Cons show ?case by simp
qed simp

lemma hex_decode_bytes: "length bs \<le> n \<Longrightarrow> hex_decode (hex_bytes bs) n = Some bs"
  by (simp add: hex_decode_def hex_pairs_bytes)

lemma hex_value_append:
  "hex_value (xs @ ys) v = (case hex_value xs v of None \<Rightarrow> None | Some u \<Rightarrow> hex_value ys u)"
  by (induction xs v rule: hex_value.induct) (auto split: option.splits)

lemma hex_value_fixed: "v < 16 ^ w \<Longrightarrow> w \<le> 16 \<Longrightarrow> hex_value (hex_fixed up w v) 0 = Some (word_of_nat v)"
proof (induction w arbitrary: v)
  case (Suc w)
  have "(16 :: nat) ^ w \<le> 16 ^ 15" using Suc.prems(2) by (intro power_increasing) auto
  moreover have lt: "v div 16 < 16 ^ w" using Suc.prems(1) by (simp add: less_mult_imp_div_less mult.commute)
  ultimately have "v div 16 < 2 ^ 60" by simp
  have "push_bit 4 (v div 16) AND take_bit 4 v = 0"
    by (rule bit_eqI) (simp add: bit_simps)
  then have "push_bit 4 (v div 16) OR take_bit 4 v = push_bit 4 (v div 16) + take_bit 4 v"
    by (simp add: disjunctive_add_eq_or)
  also have "\<dots> = v" by (simp add: push_bit_eq_mult take_bit_eq_mod)
  finally have "word_of_nat v = (word_of_nat (push_bit 4 (v div 16) OR take_bit 4 v) :: u64)" by simp
  then have "push_bit 4 (word_of_nat (v div 16) :: u64) OR word_of_nat (v mod 16) = word_of_nat v"
    by (simp add: of_nat_or_eq of_nat_push_bit take_bit_eq_mod)
  then show ?case using Suc.IH[OF lt] Suc.prems(2) by (simp add: hex_value_append)
qed simp

end
