(* ===== verification/Node_Loops.thy ===== *)
theory Node_Loops
  imports Pairing Data_Tx At_Text
begin

text \<open>
  What the transfer modules (src/config.c, src/data.c, src/large_data.c) share: access to their
  PSRAM partitions from the node, and the shapes of their loops over slot arrays.
\<close>

section \<open>PSRAM from the node\<close>

definition d_psram_write :: "platform \<Rightarrow> nat \<Rightarrow> bytes \<Rightarrow> dev \<Rightarrow> int \<times> dev" where
  "d_psram_write P addr bs d = (let (err, ps) = psram_write P (dv_psram d) addr bs in (err, d\<lparr>dv_psram := ps\<rparr>))"

text \<open>
  Reading \<open>len\<close> bytes into a zeroed buffer of \<open>cap\<close> bytes; the result is the whole buffer.
  A length above the capacity overruns the buffer.
\<close>

definition d_psram_read :: "platform \<Rightarrow> nat \<Rightarrow> nat \<Rightarrow> nat \<Rightarrow> dev \<Rightarrow> int \<times> bytes \<times> dev" where
  "d_psram_read P addr len cap d = (
     if cap < len then (0, replicate cap 0, fault d)
     else let (err, bs, ps) = psram_read P (dv_psram d) addr len in
       (err, take cap (bs @ replicate (cap - length bs) 0), d\<lparr>dv_psram := ps\<rparr>))"

section \<open>Loops over slots\<close>

text \<open>\<open>for (i = 0; i < n; i++) step(i);\<close>\<close>
definition for_slots :: "nat \<Rightarrow> (nat \<Rightarrow> dev \<Rightarrow> dev) \<Rightarrow> dev \<Rightarrow> dev" where
  "for_slots n step = seqs (map step [0..<n])"

text \<open>The same loop that handles at most \<open>k\<close> slots, those that \<open>sel\<close> selects when it gets there.\<close>

fun process_upto :: "nat \<Rightarrow> (nat \<Rightarrow> dev \<Rightarrow> bool) \<Rightarrow> (nat \<Rightarrow> dev \<Rightarrow> dev) \<Rightarrow> nat list \<Rightarrow> dev \<Rightarrow> dev" where
  "process_upto k sel f [] d = d"
| "process_upto k sel f (i # is) d = (
     if k = 0 \<or> dv_status d \<noteq> Running then d
     else if sel i d then process_upto (k - 1) sel f is (f i d)
     else process_upto k sel f is d)"

text \<open>The same loop with a step that says whether the loop goes on (\<open>return\<close> is False).\<close>

fun loop_steps :: "(nat \<Rightarrow> dev \<Rightarrow> bool \<times> dev) \<Rightarrow> nat list \<Rightarrow> dev \<Rightarrow> dev" where
  "loop_steps step [] d = d"
| "loop_steps step (i # is) d = (
     if dv_status d \<noteq> Running then d
     else let (go_on, d) = step i d in if go_on then loop_steps step is d else d)"

lemma seqs_map_preserve:
  "(\<And>i d. I d \<Longrightarrow> I (step i d)) \<Longrightarrow> I d \<Longrightarrow> I (seqs (map step is) d)"
  by (induction "is" arbitrary: d) auto

lemma for_slots_preserve:
  "(\<And>i d. I d \<Longrightarrow> I (step i d)) \<Longrightarrow> I d \<Longrightarrow> I (for_slots n step d)"
  unfolding for_slots_def by (rule seqs_map_preserve)

lemma process_upto_preserve:
  "(\<And>i d. I d \<Longrightarrow> sel i d \<Longrightarrow> I (f i d)) \<Longrightarrow> I d \<Longrightarrow> I (process_upto k sel f is d)"
  by (induction k sel f "is" d rule: process_upto.induct) auto

lemma loop_steps_preserve:
  "(\<And>i d. I d \<Longrightarrow> I (snd (step i d))) \<Longrightarrow> I d \<Longrightarrow> I (loop_steps step is d)"
  by (induction "is" arbitrary: d) (auto simp: split_beta Let_def)

lemma loop_steps_wf [wf_intros]:
  "dev_wf d \<Longrightarrow> (\<And>d i. dev_wf d \<Longrightarrow> dev_wf (snd (step i d))) \<Longrightarrow> dev_wf (loop_steps step is d)"
  by (rule loop_steps_preserve)

lemma for_slots_wf [wf_intros]:
  "dev_wf d \<Longrightarrow> (\<And>d i. dev_wf d \<Longrightarrow> dev_wf (step i d)) \<Longrightarrow> dev_wf (for_slots n step d)"
  by (rule for_slots_preserve)

lemma process_upto_wf [wf_intros]:
  "dev_wf d \<Longrightarrow> (\<And>d i. dev_wf d \<Longrightarrow> dev_wf (f i d)) \<Longrightarrow> dev_wf (process_upto k sel f is d)"
  by (rule process_upto_preserve)

section \<open>Well-formedness and frames\<close>

text \<open>An operation that only uses the PSRAM or the AT output.\<close>

lemma io_frame [simp]:
  "dv_status (snd (d_psram_write P addr bs d)) = dv_status d"
  "dv_info (snd (d_psram_write P addr bs d)) = dv_info d"
  "dv_now (snd (d_psram_write P addr bs d)) = dv_now d"
  "dv_store (snd (d_psram_write P addr bs d)) = dv_store d"
  "dv_config (snd (d_psram_write P addr bs d)) = dv_config d"
  "dv_reports (snd (d_psram_write P addr bs d)) = dv_reports d"
  "dv_uart (snd (d_psram_write P addr bs d)) = dv_uart d"
  "dv_large (snd (d_psram_write P addr bs d)) = dv_large d"
  "dv_info (snd (snd (d_psram_read P addr len cap d))) = dv_info d"
  "dv_now (snd (snd (d_psram_read P addr len cap d))) = dv_now d"
  "dv_store (snd (snd (d_psram_read P addr len cap d))) = dv_store d"
  "dv_config (snd (snd (d_psram_read P addr len cap d))) = dv_config d"
  "dv_reports (snd (snd (d_psram_read P addr len cap d))) = dv_reports d"
  "dv_uart (snd (snd (d_psram_read P addr len cap d))) = dv_uart d"
  "dv_large (snd (snd (d_psram_read P addr len cap d))) = dv_large d"
  "dv_status (snd (slm_at_tx_write P s d)) = dv_status d"
  "dv_info (snd (slm_at_tx_write P s d)) = dv_info d"
  "dv_now (snd (slm_at_tx_write P s d)) = dv_now d"
  "dv_store (snd (slm_at_tx_write P s d)) = dv_store d"
  "dv_config (snd (slm_at_tx_write P s d)) = dv_config d"
  "dv_reports (snd (slm_at_tx_write P s d)) = dv_reports d"
  "dv_large (snd (slm_at_tx_write P s d)) = dv_large d"
  by (simp_all add: d_psram_write_def d_psram_read_def slm_at_tx_write_def fault_def split_beta Let_def)

lemma d_psram_read_running:
  "len \<le> cap \<Longrightarrow> dv_status (snd (snd (d_psram_read P addr len cap d))) = dv_status d"
  by (simp add: d_psram_read_def split_beta Let_def)

lemma length_d_psram_read [simp]: "length (fst (snd (d_psram_read P addr len cap d))) = cap"
  by (auto simp: d_psram_read_def split_beta Let_def min_def)

lemma dev_wf_snd [wf_intros]:
  "dev_wf d \<Longrightarrow> dev_wf (snd (a, d))"
  "dev_wf (snd x) \<Longrightarrow> dev_wf (snd y) \<Longrightarrow> dev_wf (snd (if b then x else y))"
  "dev_wf (snd x) \<Longrightarrow> (\<And>i. dev_wf (snd (f i))) \<Longrightarrow> dev_wf (snd (case opt of None \<Rightarrow> x | Some i \<Rightarrow> f i))"
  by (simp_all split: option.splits)

lemma io_wf [wf_intros]:
  assumes "dev_wf d"
  shows "dev_wf (snd (d_psram_write P addr bs d))" "dev_wf (snd (snd (d_psram_read P addr len cap d)))"
    "dev_wf (snd (slm_at_tx_write P s d))" "dev_wf (proc (slm_at_tx_write P s) d)"
    "dev_wf (at_send_line P s d)" "dev_wf (at_ok P d)" "dev_wf (at_error P d)"
    "dev_wf (set_at_pending_ack ack d)"
  using assms
  by (simp_all add: d_psram_write_def d_psram_read_def slm_at_tx_write_def fault_def at_send_line_def
      at_ok_def at_error_def set_at_pending_ack_def proc_def dev_wf_def split_beta Let_def)

end
