(* ===== verification/Slot_Memory.thy ===== *)
theory Slot_Memory
  imports Node_Loops
begin

text \<open>
  The contract between the transfer modules and the PSRAM: each keeps an array of slots of equal
  size in its partition, at addresses it computes from the slot's index. What the clients rely on
  (a slot reads back what was written to it, other slots and other partitions keep theirs) is
  proved once in \<open>slot_memory\<close>; the modules interpret it with their address functions.
\<close>

section \<open>A working PSRAM on the node\<close>

definition psram_up :: "platform \<Rightarrow> dev \<Rightarrow> bool" where
  "psram_up P d \<longleftrightarrow> psram_chip_ok P \<and> ps_ready (dv_psram d)"

definition region :: "dev \<Rightarrow> nat \<Rightarrow> nat \<Rightarrow> bytes" where
  "region d a n = get_bytes (ps_chip (dv_psram d)) a n"

lemma length_region [simp]: "length (region d a n) = n"
  by (simp add: region_def)

lemma region_append: "region d a n @ region d (a + n) k = region d a (n + k)"
  by (simp add: region_def get_bytes_append)

lemma psram_write_up:
  assumes "psram_up P d" "a + length bs \<le> PSRAM_SIZE"
  shows "d_psram_write P a bs d = (0, d\<lparr>dv_psram := (dv_psram d)\<lparr>ps_chip := put_bytes (ps_chip (dv_psram d)) a bs\<rparr>\<rparr>)"
  using assms psram_write_flat[of P "dv_psram d" a bs] by (simp add: psram_up_def d_psram_write_def)

lemma psram_read_up:
  assumes "psram_up P d" "a + len \<le> PSRAM_SIZE" "len \<le> cap"
  shows "d_psram_read P a len cap d = (0, region d a len @ replicate (cap - len) 0, d)"
  using assms psram_read_flat[of P "dv_psram d" a len]
  by (simp add: psram_up_def d_psram_read_def region_def)

lemma psram_write_keeps:
  "psram_up P (snd (d_psram_write P a bs d)) = psram_up P d"
  by (simp add: psram_up_def d_psram_write_def psram_write_ready split_beta Let_def)

lemma region_write:
  assumes "psram_up P d" "a + length bs \<le> PSRAM_SIZE"
  shows "region (snd (d_psram_write P a bs d)) a (length bs) = bs"
    "b + n \<le> a \<or> a + length bs \<le> b \<Longrightarrow> region (snd (d_psram_write P a bs d)) b n = region d b n"
  using psram_write_up[OF assms] by (simp_all add: region_def get_put_bytes_disjoint)

text \<open>Tracking a packet writes to the tracker's partition only.\<close>

lemma d_track_region:
  assumes "psram_up P d" "dev_wf d" "PSRAM_TRACKER_SIZE \<le> a"
  shows "region (d_track P dst prev tid pt dur mr bs d) a n = region d a n"
    "psram_up P (d_track P dst prev tid pt dur mr bs d)"
proof -
  let ?r = "d_track P dst prev tid pt dur mr bs d"
  have "region ?r a n = region d a n \<and> ps_ready (dv_psram ?r)"
  proof (cases "find_idx (\<lambda>e. \<not> ti_active e) (tr_pool (dv_tracker d))")
    case None
    then show ?thesis using assms(1) by (simp add: d_track_def tracker_add_def region_def psram_up_def)
  next
    case (Some i)
    have "length (tr_pool (dv_tracker d)) = TRACKER_MAX_ENTRIES"
      using assms(2) by (simp add: dev_wf_def tracker_wf_def)
    then have i: "i < TRACKER_MAX_ENTRIES" using find_idx_less[OF Some] by simp
    let ?q = "take (if TRACKER_PAYLOAD_MAX < length bs then TRACKER_PAYLOAD_MAX else length bs) bs"
    let ?w = "?q @ by16 (pf_crc16 P 0xFFFF ?q)"
    have l: "length ?w \<le> TRACKER_SLOT_SIZE" by simp
    have ps: "dv_psram ?r = (if 0 < length bs then snd (psram_payload_write P (dv_psram d) i ?q) else dv_psram d)"
      by (simp add: d_track_def tracker_add_def Some split_beta Let_def)
    have w: "psram_payload_write P (dv_psram d) i ?q =
        (0, (dv_psram d)\<lparr>ps_chip := put_bytes (ps_chip (dv_psram d)) (psram_slot_addr i) ?w\<rparr>)"
      using assms(1) psram_write_flat[of P "dv_psram d" "psram_slot_addr i" ?w] slot_in_psram[OF i] l
      unfolding psram_payload_write_def psram_up_def is_psram_initialized_def by fastforce
    have "psram_slot_addr i + length ?w \<le> a" using slot_in_psram[OF i] assms(3) l by linarith
    then have "get_bytes (put_bytes (ps_chip (dv_psram d)) (psram_slot_addr i) ?w) a n = get_bytes (ps_chip (dv_psram d)) a n"
      by (intro get_put_bytes_disjoint) blast
    then show ?thesis unfolding region_def ps w using assms(1) by (simp add: psram_up_def)
  qed
  then show "region ?r a n = region d a n" "psram_up P ?r" using assms(1) by (simp_all add: psram_up_def)
qed

lemma next_id_region [simp]:
  "region (snd (d_next_id d)) a n = region d a n" "psram_up P (snd (d_next_id d)) = psram_up P d"
  "region (snd (d_tx P bs len prio d)) a n = region d a n" "psram_up P (snd (d_tx P bs len prio d)) = psram_up P d"
  by (simp_all add: d_next_id_def d_tx_def region_def psram_up_def split_beta Let_def)

lemma send_tracked_region:
  assumes "psram_up P d" "dev_wf d" "PSRAM_TRACKER_SIZE \<le> a"
  shows "region (snd (send_tracked P dst pt tid bs prio d)) a n = region d a n"
    "psram_up P (snd (send_tracked P dst pt tid bs prio d))"
  using d_track_region[OF assms] by (simp_all add: send_tracked_def)

section \<open>Slots in a partition\<close>

locale slot_memory =
  fixes addr :: "nat \<Rightarrow> nat" and sz :: nat and slots :: nat
  assumes apart: "i < j \<Longrightarrow> j < slots \<Longrightarrow> addr i + sz \<le> addr j"
    and inside: "i < slots \<Longrightarrow> addr i + sz \<le> PSRAM_SIZE"
    and above: "i < slots \<Longrightarrow> PSRAM_TRACKER_SIZE \<le> addr i"
begin

lemma disjoint:
  assumes "i < slots" "j < slots" "i \<noteq> j" "n \<le> sz" "k \<le> sz"
  shows "addr j + k \<le> addr i \<or> addr i + n \<le> addr j"
  using apart[of i j] apart[of j i] assms by (cases "i < j") auto

lemma write_within:
  assumes "psram_up P d" "i < slots" "off + length bs \<le> sz"
  shows "fst (d_psram_write P (addr i + off) bs d) = 0"
    "region (snd (d_psram_write P (addr i + off) bs d)) (addr i + off) (length bs) = bs"
    "psram_up P (snd (d_psram_write P (addr i + off) bs d))"
    "b + n \<le> addr i + off \<or> addr i + off + length bs \<le> b \<Longrightarrow>
       region (snd (d_psram_write P (addr i + off) bs d)) b n = region d b n"
    "j < slots \<Longrightarrow> i \<noteq> j \<Longrightarrow> n \<le> sz \<Longrightarrow>
       region (snd (d_psram_write P (addr i + off) bs d)) (addr j) n = region d (addr j) n"
proof -
  let ?a = "addr i + off"
  have a: "?a + length bs \<le> PSRAM_SIZE" using assms(3) inside[OF assms(2)] by linarith
  note w = psram_write_up[OF assms(1) a]
  show "fst (d_psram_write P ?a bs d) = 0" "psram_up P (snd (d_psram_write P ?a bs d))"
    using w assms(1) by (simp_all add: psram_up_def)
  show "region (snd (d_psram_write P ?a bs d)) ?a (length bs) = bs"
    by (rule region_write(1)[OF assms(1) a])
  show r: "region (snd (d_psram_write P ?a bs d)) b n = region d b n"
    if "b + n \<le> ?a \<or> ?a + length bs \<le> b" for b n
    by (rule region_write(2)[OF assms(1) a that])
  show "region (snd (d_psram_write P ?a bs d)) (addr j) n = region d (addr j) n"
    if "j < slots" "i \<noteq> j" "n \<le> sz"
    by (rule r) (use disjoint[OF assms(2) that(1,2), of "off + length bs" n] that assms in linarith)
qed

lemma write_slot:
  assumes "psram_up P d" "i < slots" "length bs \<le> sz"
  shows "fst (d_psram_write P (addr i) bs d) = 0"
    "region (snd (d_psram_write P (addr i) bs d)) (addr i) (length bs) = bs"
    "psram_up P (snd (d_psram_write P (addr i) bs d))"
    "j < slots \<Longrightarrow> i \<noteq> j \<Longrightarrow> n \<le> sz \<Longrightarrow>
       region (snd (d_psram_write P (addr i) bs d)) (addr j) n = region d (addr j) n"
  using write_within[OF assms(1,2), of 0 bs] assms(3) by simp_all

lemma read_slot:
  assumes "psram_up P d" "i < slots" "len \<le> sz" "len \<le> cap"
  shows "d_psram_read P (addr i) len cap d = (0, region d (addr i) len @ replicate (cap - len) 0, d)"
  using assms inside[OF assms(2)] by (intro psram_read_up) auto

lemma tracked_keeps:
  assumes "psram_up P d" "dev_wf d" "i < slots"
  shows "region (snd (send_tracked P dst pt tid bs prio d)) (addr i) n = region d (addr i) n"
  using assms(1,2) above[OF assms(3)] by (rule send_tracked_region)

end

section \<open>Chunks in any order\<close>

text \<open>A list of packets handed to a receiver one by one: the answers and the final state.\<close>

primrec deliver :: "(nat \<Rightarrow> dev \<Rightarrow> u8 \<times> dev) \<Rightarrow> nat list \<Rightarrow> dev \<Rightarrow> u8 list \<times> dev" where
  "deliver recv [] d = ([], d)"
| "deliver recv (k # ks) d = (let (st, d) = recv k d; (sts, d) = deliver recv ks d in (st # sts, d))"

text \<open>
  What a receiver of numbered chunks promises: a chunk it has is answered as such and changes
  nothing, one it does not have is taken. \<open>inv S\<close> says that it has exactly the chunks in \<open>S\<close>.
\<close>

locale chunk_receiver =
  fixes chunks :: nat and inv :: "nat set \<Rightarrow> dev \<Rightarrow> bool" and recv :: "nat \<Rightarrow> dev \<Rightarrow> u8 \<times> dev"
  assumes known: "inv S d \<Longrightarrow> k \<in> S \<Longrightarrow> recv k d = (STATUS_ALREADY_EXISTS, d)"
    and fresh: "inv S d \<Longrightarrow> k < chunks \<Longrightarrow> k \<notin> S \<Longrightarrow>
      fst (recv k d) = STATUS_SUCCESS \<and> inv (insert k S) (snd (recv k d))"
begin

lemma step:
  assumes "inv S d" "k < chunks"
  shows "fst (recv k d) = (if k \<in> S then STATUS_ALREADY_EXISTS else STATUS_SUCCESS)"
    "inv (insert k S) (snd (recv k d))"
  using known[OF assms(1), of k] fresh[OF assms] assms(1) by (cases "k \<in> S"; simp add: insert_absorb)+

lemma deliver_any:
  assumes "inv S d" "set ks \<subseteq> {..<chunks}"
  shows "inv (S \<union> set ks) (snd (deliver recv ks d))"
    "fst (deliver recv ks d) = map (\<lambda>j. if ks ! j \<in> S \<union> set (take j ks) then STATUS_ALREADY_EXISTS
       else STATUS_SUCCESS) [0..<length ks]"
proof -
  have "inv (S \<union> set ks) (snd (deliver recv ks d)) \<and> fst (deliver recv ks d) =
      map (\<lambda>j. if ks ! j \<in> S \<union> set (take j ks) then STATUS_ALREADY_EXISTS else STATUS_SUCCESS) [0..<length ks]"
    using assms
  proof (induction ks arbitrary: S d)
    case (Cons k ks)
    have k: "k < chunks" using Cons.prems(2) by simp
    note s = step[OF Cons.prems(1) k]
    have "map (\<lambda>j. if (k # ks) ! j \<in> S \<union> set (take j (k # ks)) then STATUS_ALREADY_EXISTS else STATUS_SUCCESS)
        [0..<length (k # ks)] = fst (recv k d) #
        map (\<lambda>j. if ks ! j \<in> insert k S \<union> set (take j ks) then STATUS_ALREADY_EXISTS else STATUS_SUCCESS) [0..<length ks]"
      using s(1) by (simp add: upt_conv_Cons map_Suc_upt[symmetric] del: upt_Suc)
    then show ?case using Cons.IH[OF s(2)] Cons.prems(2) by (simp add: split_beta Let_def)
  qed simp
  then show "inv (S \<union> set ks) (snd (deliver recv ks d))"
    "fst (deliver recv ks d) = map (\<lambda>j. if ks ! j \<in> S \<union> set (take j ks) then STATUS_ALREADY_EXISTS
       else STATUS_SUCCESS) [0..<length ks]" by blast+
qed

end

end
