(* ===== verification/Reports.thy ===== *)
theory Reports
  imports Slot_Memory
begin

text \<open>
  src/data.c: reports travel from the sensors to the gateway, hop by hop, in at most two chunks of
  180 bytes. A node keeps the reports it holds in 512 slots of 256 bytes in PSRAM and passes them
  on through at most eight senders; a complete report with the right CRC32 is ready for upstream.
\<close>

abbreviation (input) DATA_SLOT_TIMEOUT_MS :: u32 where "DATA_SLOT_TIMEOUT_MS \<equiv> 30000"
abbreviation (input) DATA_DUP_TIMEOUT_MS :: u32 where "DATA_DUP_TIMEOUT_MS \<equiv> 30000"
abbreviation (input) SENDER_TIMEOUT_MS :: u32 where "SENDER_TIMEOUT_MS \<equiv> 30000"
abbreviation (input) CRC_VERIFY_STAGE_SIZE :: nat where "CRC_VERIFY_STAGE_SIZE \<equiv> 256"

section \<open>Slots and senders\<close>

definition slot_psram_addr :: "nat \<Rightarrow> nat" where
  "slot_psram_addr idx = PSRAM_DATA_BASE + MAX_REPORT_SIZE * idx"

interpretation rep_mem: slot_memory slot_psram_addr MAX_REPORT_SIZE DATA_SLOT_COUNT
  by unfold_locales (simp_all add: slot_psram_addr_def)

abbreviation rep_slots :: "dev \<Rightarrow> report_slot list" where "rep_slots d \<equiv> rp_slots (dv_reports d)"
abbreviation rep_at :: "dev \<Rightarrow> nat \<Rightarrow> report_slot" where "rep_at d i \<equiv> rep_slots d ! i"
abbreviation rep_senders :: "dev \<Rightarrow> report_sender list" where "rep_senders d \<equiv> rp_senders (dv_reports d)"
abbreviation sender_at :: "dev \<Rightarrow> nat \<Rightarrow> report_sender" where "sender_at d i \<equiv> rep_senders d ! i"

definition upd_slot :: "nat \<Rightarrow> (report_slot \<Rightarrow> report_slot) \<Rightarrow> dev \<Rightarrow> dev" where
  "upd_slot i f d = d\<lparr>dv_reports := (dv_reports d)\<lparr>rp_slots := (rep_slots d)[i := f (rep_at d i)]\<rparr>\<rparr>"

definition upd_sender :: "nat \<Rightarrow> (report_sender \<Rightarrow> report_sender) \<Rightarrow> dev \<Rightarrow> dev" where
  "upd_sender i f d = d\<lparr>dv_reports := (dv_reports d)\<lparr>rp_senders := (rep_senders d)[i := f (sender_at d i)]\<rparr>\<rparr>"

definition find_sender_slot :: "u16 \<Rightarrow> u8 \<Rightarrow> dev \<Rightarrow> nat option" where
  "find_sender_slot gen data_id d =
     find_idx (\<lambda>x. sd_active x \<and> sd_gen_device_id x = gen \<and> sd_data_id x = data_id) (rep_senders d)"

definition free_sender_slot :: "nat \<Rightarrow> dev \<Rightarrow> dev" where
  "free_sender_slot i d = upd_sender i (\<lambda>x. x\<lparr>sd_active := False\<rparr>) d"

definition find_slot :: "u16 \<Rightarrow> u8 \<Rightarrow> dev \<Rightarrow> nat option" where
  "find_slot gen data_id d =
     find_idx (\<lambda>x. sl_active x \<and> sl_gen_device_id x = gen \<and> sl_data_id x = data_id) (rep_slots d)"

definition alloc_slot :: "dev \<Rightarrow> nat option \<times> dev" where
  "alloc_slot d = (case find_idx (\<lambda>x. \<not> sl_active x) (rep_slots d) of
       None \<Rightarrow> (None, d)
     | Some i \<Rightarrow> (Some i, upd_slot i (\<lambda>x. x\<lparr>sl_is_sent := False, sl_upstream_ready := False,
         sl_is_transfered := False\<rparr>) d))"

definition bump_count :: "bool \<Rightarrow> u16 \<Rightarrow> u16" where
  "bump_count is_increment n = (if n < 0xFFFF \<and> is_increment then n + 1
     else if \<not> is_increment \<and> 0 < n then n - 1 else n)"

definition update_report_count :: "u8 \<Rightarrow> bool \<Rightarrow> dev \<Rightarrow> dev" where
  "update_report_count priority inc d = d\<lparr>dv_reports :=
     (if priority = PACKET_PRIORITY_HIGH then (dv_reports d)\<lparr>rp_high_count := bump_count inc (rp_high_count (dv_reports d))\<rparr>
      else if priority = PACKET_PRIORITY_MEDIUM then (dv_reports d)\<lparr>rp_med_count := bump_count inc (rp_med_count (dv_reports d))\<rparr>
      else if priority = PACKET_PRIORITY_LOW then (dv_reports d)\<lparr>rp_low_count := bump_count inc (rp_low_count (dv_reports d))\<rparr>
      else dv_reports d)\<rparr>"

text \<open>The sender index is a byte; -1 arrives as 255 and frees no sender.\<close>

definition report_slot_free :: "nat \<Rightarrow> nat \<Rightarrow> dev \<Rightarrow> dev" where
  "report_slot_free idx sender_idx d = (
     let d = update_report_count (sl_priority (rep_at d idx)) False d;
         d = (if sender_idx < MAX_ANCHORS then free_sender_slot sender_idx d else d) in
     upd_slot idx (\<lambda>x. x\<lparr>sl_active := False, sl_is_sent := False, sl_upstream_ready := False,
       sl_is_transfered := False, sl_idle_timeout := nbtimeout_stop (sl_idle_timeout x)\<rparr>) d)"

abbreviation (input) NO_SENDER :: nat where "NO_SENDER \<equiv> 255"

definition chunk_size_for :: "u8 \<Rightarrow> report_sender \<Rightarrow> nat" where
  "chunk_size_for chunk_idx x = (
     if int (unat chunk_idx) = int (unat (sd_chunk_count x)) - 1 then unat (sd_last_chunk_size x) else SEND_DATA_MAX)"

text \<open>
  One chunk of sender \<open>k\<close>: zero, or the error of the PSRAM, which ends the transfer. The data is
  read from the address of slot 0, whatever slot the report is in.
\<close>

definition send_one_chunk :: "platform \<Rightarrow> u16 \<Rightarrow> nat \<Rightarrow> u8 \<Rightarrow> dev \<Rightarrow> int \<times> dev" where
  "send_one_chunk P dst_id k idx d = (
     let x = sender_at d k;
         addr = slot_psram_addr 0 + unat idx * SEND_DATA_MAX;
         (err, data, d) = d_psram_read P addr (chunk_size_for idx x) SEND_DATA_MAX d in
     if err \<noteq> 0 then (err, free_sender_slot k d)
     else (0, proc (send_report_chunk P \<lparr>rpc_hdr = zero_hdr, rpc_gen_device_id = sd_gen_device_id x,
            rpc_data_id = sd_data_id x, rpc_chunk_index = idx, rpc_data = data\<rparr> dst_id (sd_priority x)) d))"

text \<open>\<open>n\<close> iterations of the loop in \<open>send_next_chunk\<close>.\<close>

primrec send_chunks :: "platform \<Rightarrow> u16 \<Rightarrow> nat \<Rightarrow> nat \<Rightarrow> dev \<Rightarrow> int \<times> dev" where
  "send_chunks P dst_id k 0 d = (0, d)"
| "send_chunks P dst_id k (Suc n) d = (
     let idx = sd_next_chunk (sender_at d k) in
     if sd_chunk_count (sender_at d k) \<le> idx then (- EINVAL, d)
     else let (err, d) = send_one_chunk P dst_id k idx d in
     if err \<noteq> 0 then (err, d)
     else send_chunks P dst_id k n (upd_sender k (\<lambda>x. x\<lparr>sd_next_chunk := idx + 1\<rparr>) d))"

definition send_next_chunk :: "platform \<Rightarrow> u16 \<Rightarrow> nat \<Rightarrow> dev \<Rightarrow> int \<times> dev" where
  "send_next_chunk P dst_id k d =
     send_chunks P dst_id k ((unat (sd_total_size (sender_at d k)) + SEND_DATA_MAX - 1) div SEND_DATA_MAX) d"

definition resend_chunk :: "platform \<Rightarrow> u16 \<Rightarrow> nat \<Rightarrow> u8 \<Rightarrow> dev \<Rightarrow> int \<times> dev" where
  "resend_chunk P dst_id k chunk_idx d = (
     if sd_chunk_count (sender_at d k) \<le> chunk_idx then (- EINVAL, d) else send_one_chunk P dst_id k chunk_idx d)"

section \<open>Receiving\<close>

definition fill_slot :: "report_init \<Rightarrow> s64 \<Rightarrow> report_slot \<Rightarrow> report_slot" where
  "fill_slot pkt now x = x\<lparr>sl_active := True, sl_gen_device_id := rpi_gen_device_id pkt, sl_data_id := rpi_data_id pkt,
     sl_report_time_ms := rpi_report_time_ms pkt, sl_priority := ph_priority (rpi_hdr pkt),
     sl_total_size := rpi_total_size pkt, sl_chunk_count := rpi_chunk_count pkt,
     sl_last_chunk_size := rpi_last_chunk_size pkt, sl_crc32 := rpi_crc32 pkt,
     sl_received := replicate DATA_MAX_CHUNKS False, sl_received_count := 0,
     sl_idle_timeout := nbtimeout_start now (nbtimeout_init DATA_SLOT_TIMEOUT_MS 0)\<rparr>"

definition validate_slot :: "report_init \<Rightarrow> dev \<Rightarrow> u8 \<times> dev" where
  "validate_slot pkt d = (case find_slot (rpi_gen_device_id pkt) (rpi_data_id pkt) d of
       Some idx \<Rightarrow> if sl_upstream_ready (rep_at d idx) then (STATUS_ALREADY_EXISTS, d)
                   else (STATUS_SUCCESS, upd_slot idx (fill_slot pkt (dv_now d)) d)
     | None \<Rightarrow> (case alloc_slot d of
         (None, d) \<Rightarrow> (STATUS_RESOURCE_UNAVAILABLE, d)
       | (Some idx, d) \<Rightarrow> (STATUS_SUCCESS,
           upd_slot idx (fill_slot pkt (dv_now d)) (update_report_count (ph_priority (rpi_hdr pkt)) True d))))"

text \<open>
  The verification loop, \<open>stage\<close> bytes at a time: the error of the PSRAM, the checksum of \<open>rem\<close>
  bytes continued from \<open>crc\<close> unless this is the first stage.
\<close>

function crc_stages :: "platform \<Rightarrow> nat \<Rightarrow> nat \<Rightarrow> nat \<Rightarrow> bool \<Rightarrow> u32 \<Rightarrow> dev \<Rightarrow> int \<times> u32 \<times> dev" where
  "crc_stages P stage addr rem first crc d = (
     if rem = 0 \<or> stage = 0 then (0, crc, d)
     else let n = (if stage < rem then stage else rem);
              (err, buf, d) = d_psram_read P addr n stage d in
       if err \<noteq> 0 then (err, crc, d)
       else crc_stages P stage (addr + n) (rem - n) False
         (if first then pf_crc32 P (take n buf) else pf_crc32_continue P crc (take n buf)) d)"
  by pat_completeness auto
termination
  by (relation "measure (\<lambda>(P, stage, addr, rem, first, crc, d). rem)") auto

declare crc_stages.simps [simp del]

text \<open>After the last chunk: the slot becomes ready for upstream, or is freed.\<close>

definition complete_report :: "platform \<Rightarrow> nat \<Rightarrow> dev \<Rightarrow> u8 \<times> dev" where
  "complete_report P idx d = (
     let (err, crc, d) = crc_stages P CRC_VERIFY_STAGE_SIZE (slot_psram_addr idx) (unat (sl_total_size (rep_at d idx)))
           True 0 d in
     if err \<noteq> 0 then (STATUS_CRC_FAIL, report_slot_free idx NO_SENDER d)
     else if crc = sl_crc32 (rep_at d idx) then
       (STATUS_SUCCESS, upd_slot idx (\<lambda>x. x\<lparr>sl_upstream_ready := True, sl_idle_timeout :=
          (if get_device_type d = DEVICE_TYPE_GATEWAY
           then nbtimeout_start (dv_now d) (nbtimeout_init DATA_DUP_TIMEOUT_MS 0)
           else nbtimeout_stop (sl_idle_timeout x))\<rparr>) d)
     else (STATUS_CRC_FAIL, report_slot_free idx NO_SENDER d))"

text \<open>A chunk longer than the packet's data array would be read past the packet.\<close>

definition validate_report_chunk :: "platform \<Rightarrow> report_chunk \<Rightarrow> dev \<Rightarrow> u8 \<times> dev" where
  "validate_report_chunk P pkt d = (case find_slot (rpc_gen_device_id pkt) (rpc_data_id pkt) d of
       None \<Rightarrow> (STATUS_NOT_FOUND, d)
     | Some idx \<Rightarrow>
         let x = rep_at d idx; c = rpc_chunk_index pkt in
         if sl_chunk_count x \<le> c then (STATUS_INVALID_PARAMETER, d)
         else if sl_received x ! unat c then (STATUS_ALREADY_EXISTS, d)
         else let csz = (if int (unat c) = int (unat (sl_chunk_count x)) - 1
                         then unat (sl_last_chunk_size x) else SEND_DATA_MAX) in
         if SEND_DATA_MAX < csz then (STATUS_FAILURE, fault d)
         else let (err, d) = d_psram_write P (slot_psram_addr idx + unat c * SEND_DATA_MAX)
                    (take csz (rpc_data pkt)) d in
         if err \<noteq> 0 then (STATUS_FAILURE, d)
         else let d = upd_slot idx (\<lambda>x. x\<lparr>sl_received := (sl_received x)[unat c := True],
                    sl_received_count := sl_received_count x + 1,
                    sl_idle_timeout := nbtimeout_start (dv_now d) (sl_idle_timeout x)\<rparr>) d in
         if sl_received_count (rep_at d idx) = sl_chunk_count (rep_at d idx) then complete_report P idx d
         else (STATUS_SUCCESS, d))"

section \<open>Ticks\<close>

text \<open>
  The gateway's line for the host. The serial number is that of the device at \<open>sn_idx\<close>, which is
  the first unused mesh entry where the originator is not a mesh device.
\<close>

definition report_line :: "u64 \<Rightarrow> report_slot \<Rightarrow> bytes \<Rightarrow> string" where
  "report_line sn x payload = CRLF @ ''AT#REPORT='' @
     at_fields [hex_fixed True 16 (unat sn), hex_fixed True 4 (unat (sl_data_id x)),
       hex_fixed False 16 (unat (sl_report_time_ms x)), hex_fixed True 4 (unat (sl_total_size x)),
       hex_fixed True 8 (unat (sl_crc32 x)), hex_bytes payload] @ CRLF"

definition report_sn_idx :: "u16 \<Rightarrow> dev \<Rightarrow> nat" where
  "report_sn_idx gen d = (case find_mesh gen d of Some i \<Rightarrow> i | None \<Rightarrow> mesh_count d)"

text \<open>One iteration of the gateway's loop, which ends once a report went out.\<close>

definition gateway_report_emit :: "platform \<Rightarrow> nat \<Rightarrow> dev \<Rightarrow> bool \<times> dev" where
  "gateway_report_emit P idx d = (
     let x = rep_at d idx; sn_idx = report_sn_idx (sl_gen_device_id x) d; len = unat (sl_total_size x) in
     if \<not> (sl_active x \<and> sl_upstream_ready x \<and> \<not> sl_is_sent x) then (True, d)
     else let (err, payload, d) = d_psram_read P (slot_psram_addr idx) len MAX_REPORT_SIZE d in
     if err \<noteq> 0 then (True, d)
     else if MAX_DEVICES \<le> sn_idx then (True, fault d)
     else let line = report_line (ms_serial_num (mesh_at d sn_idx)) x (take len payload) in
     if SLM_UART_AT_COMMAND_LEN \<le> length line then (True, d)
     else let (tx_err, d) = slm_at_tx_write P line d in
     if tx_err \<noteq> 0 then (True, d)
     else (False, upd_slot idx (\<lambda>x. x\<lparr>sl_is_sent := True\<rparr>) d))"

definition gateway_report_timeouts :: "nat \<Rightarrow> dev \<Rightarrow> dev" where
  "gateway_report_timeouts i d = (
     let x = rep_at d i in
     if sl_active x \<and> sl_upstream_ready x \<and> sl_is_sent x \<and> nbtimeout_expired (dv_now d) (sl_idle_timeout x)
     then report_slot_free i NO_SENDER d else d)"

definition gateway_report_tick :: "platform \<Rightarrow> dev \<Rightarrow> dev" where
  "gateway_report_tick P d = (
     if get_device_type d \<noteq> DEVICE_TYPE_GATEWAY then d
     else loop_steps (gateway_report_emit P) [0..<DATA_SLOT_COUNT] (for_slots DATA_SLOT_COUNT gateway_report_timeouts d))"

text \<open>
  Anchors and sensors give each idle sender the next report of the highest priority that is in
  use. The two ticks differ in what they do with an invalid report (the sensor frees it).
\<close>

definition sender_timeout :: "nat \<Rightarrow> dev \<Rightarrow> dev" where
  "sender_timeout k d = (
     let x = sender_at d k in
     if nbtimeout_expired (dv_now d) (sd_timeout x) then
       upd_sender k (\<lambda>x. x\<lparr>sd_timeout := nbtimeout_stop (sd_timeout x), sd_active := False\<rparr>)
         (case find_slot (sd_gen_device_id x) (sd_data_id x) d of
            Some idx \<Rightarrow> upd_slot idx (\<lambda>x. x\<lparr>sl_is_sent := False\<rparr>) d
          | None \<Rightarrow> d)
     else d)"

definition report_prio :: "dev \<Rightarrow> u8 option" where
  "report_prio d = (
     if 0 < rp_high_count (dv_reports d) then Some PACKET_PRIORITY_HIGH
     else if 0 < rp_med_count (dv_reports d) then Some PACKET_PRIORITY_MEDIUM
     else if 0 < rp_low_count (dv_reports d) then Some PACKET_PRIORITY_LOW
     else None)"

definition next_report :: "dev \<Rightarrow> nat option" where
  "next_report d = (case report_prio d of
       None \<Rightarrow> None
     | Some p \<Rightarrow> find_idx (\<lambda>x. sl_active x \<and> sl_upstream_ready x \<and> \<not> sl_is_sent x \<and> sl_priority x = p) (rep_slots d))"

definition fill_sender :: "u16 \<Rightarrow> report_slot \<Rightarrow> report_sender \<Rightarrow> report_sender" where
  "fill_sender dst s x = x\<lparr>sd_active := True, sd_dst_id := dst, sd_gen_device_id := sl_gen_device_id s,
     sd_data_id := sl_data_id s, sd_priority := sl_priority s, sd_total_size := sl_total_size s,
     sd_chunk_count := sl_chunk_count s, sd_last_chunk_size := sl_last_chunk_size s,
     sd_crc32 := sl_crc32 s, sd_next_chunk := 0\<rparr>"

definition report_init_of :: "report_slot \<Rightarrow> s64 \<Rightarrow> report_init" where
  "report_init_of s now = \<lparr>rpi_hdr = zero_hdr, rpi_gen_device_id = sl_gen_device_id s, rpi_data_id = sl_data_id s,
     rpi_report_time_ms = now, rpi_total_size = sl_total_size s, rpi_chunk_count = sl_chunk_count s,
     rpi_last_chunk_size = sl_last_chunk_size s, rpi_crc32 = sl_crc32 s\<rparr>"

definition start_report :: "platform \<Rightarrow> nat \<Rightarrow> nat \<Rightarrow> dev \<Rightarrow> dev" where
  "start_report P k idx d = (
     let s = rep_at d idx; dst = infra_id (infra_at d 0);
         d = upd_sender k (fill_sender dst s) d;
         d = proc (send_report_init P (report_init_of s (dv_now d)) dst (sl_priority s)) d;
         d = upd_sender k (\<lambda>x. x\<lparr>sd_timeout := nbtimeout_start (dv_now d) (nbtimeout_init SENDER_TIMEOUT_MS 0)\<rparr>) d in
     upd_slot idx (\<lambda>x. x\<lparr>sl_is_sent := True\<rparr>) d)"

text \<open>One sender's turn and whether the loop goes on.\<close>

definition report_sender_step :: "platform \<Rightarrow> bool \<Rightarrow> nat \<Rightarrow> dev \<Rightarrow> bool \<times> dev" where
  "report_sender_step P free_invalid k d = (
     if sd_active (sender_at d k) then (True, sender_timeout k d)
     else case next_report d of
       None \<Rightarrow> (False, d)
     | Some idx \<Rightarrow>
         let s = rep_at d idx in
         if sl_gen_device_id s = 0 \<or> sl_data_id s = 0 \<or> sl_total_size s = 0 \<or> sl_chunk_count s = 0 then
           let d = update_report_count (sl_priority s) False d in
           (False, if free_invalid then report_slot_free idx NO_SENDER d else d)
         else (True, start_report P k idx d))"

definition anchor_report_tick :: "platform \<Rightarrow> dev \<Rightarrow> dev" where
  "anchor_report_tick P d = (if get_device_type d \<noteq> DEVICE_TYPE_ANCHOR then d
     else loop_steps (report_sender_step P False) [0..<MAX_ANCHORS] d)"

definition sensor_report_tick :: "platform \<Rightarrow> dev \<Rightarrow> dev" where
  "sensor_report_tick P d = (if get_device_type d \<noteq> DEVICE_TYPE_SENSOR then d
     else loop_steps (report_sender_step P True) [0..<MAX_ANCHORS] d)"

definition free_idle_report :: "nat \<Rightarrow> dev \<Rightarrow> dev" where
  "free_idle_report i d = (
     if sl_active (rep_at d i) \<and> nbtimeout_expired (dv_now d) (sl_idle_timeout (rep_at d i))
     then report_slot_free i NO_SENDER d else d)"

definition report_tick :: "platform \<Rightarrow> dev \<Rightarrow> dev" where
  "report_tick P d = (
     let d = for_slots DATA_SLOT_COUNT free_idle_report d in
     if get_device_type d = DEVICE_TYPE_GATEWAY then gateway_report_tick P d
     else if get_device_type d = DEVICE_TYPE_ANCHOR then anchor_report_tick P d
     else if get_device_type d = DEVICE_TYPE_SENSOR then sensor_report_tick P d
     else d)"

definition report_init :: "dev \<Rightarrow> dev" where
  "report_init d = d\<lparr>dv_reports := (dv_reports d)\<lparr>rp_slots := map (\<lambda>x. x\<lparr>sl_active := False\<rparr>) (rep_slots d),
     rp_senders := map (\<lambda>x. x\<lparr>sd_active := False\<rparr>) (rep_senders d)\<rparr>\<rparr>"

section \<open>Well-formedness\<close>

text \<open>The conditions of the invariant on one slot and one sender.\<close>

definition slot_ok :: "report_slot \<Rightarrow> bool" where
  "slot_ok x \<longleftrightarrow> length (sl_received x) = DATA_MAX_CHUNKS \<and> unat (sl_chunk_count x) \<le> DATA_MAX_CHUNKS \<and>
     unat (sl_last_chunk_size x) \<le> SEND_DATA_MAX \<and> unat (sl_total_size x) \<le> MAX_REPORT_SIZE"

definition sender_ok :: "report_sender \<Rightarrow> bool" where
  "sender_ok x \<longleftrightarrow> unat (sd_chunk_count x) \<le> DATA_MAX_CHUNKS \<and>
     unat (sd_last_chunk_size x) \<le> SEND_DATA_MAX \<and> unat (sd_total_size x) \<le> MAX_REPORT_SIZE"

lemma reports_wf_alt: "reports_wf r \<longleftrightarrow> length (rp_senders r) = MAX_ANCHORS \<and>
    length (rp_slots r) = DATA_SLOT_COUNT \<and> list_all slot_ok (rp_slots r) \<and> list_all sender_ok (rp_senders r)"
  by (simp add: reports_wf_def slot_ok_def sender_ok_def list_all_iff)

lemma list_all_update:
  assumes "list_all Q xs" "\<And>x. Q x \<Longrightarrow> Q (f x)"
  shows "list_all Q (xs[i := f (xs ! i)])"
  using assms by (cases "i < length xs") (auto simp: list_all_length nth_list_update list_update_beyond)

lemma rep_at_ok: "dev_wf d \<Longrightarrow> i < DATA_SLOT_COUNT \<Longrightarrow> slot_ok (rep_at d i)"
  by (simp add: dev_wf_def reports_wf_alt list_all_length)

lemma sender_at_ok: "dev_wf d \<Longrightarrow> k < MAX_ANCHORS \<Longrightarrow> sender_ok (sender_at d k)"
  by (simp add: dev_wf_def reports_wf_alt list_all_length)

lemma upd_slot_wf [wf_intros]:
  assumes "dev_wf d" "\<And>x. slot_ok x \<Longrightarrow> slot_ok (f x)"
  shows "dev_wf (upd_slot i f d)"
  using assms by (simp add: upd_slot_def dev_wf_def reports_wf_alt list_all_update)

lemma upd_sender_wf [wf_intros]:
  assumes "dev_wf d" "\<And>x. sender_ok x \<Longrightarrow> sender_ok (f x)"
  shows "dev_wf (upd_sender i f d)"
  using assms by (simp add: upd_sender_def dev_wf_def reports_wf_alt list_all_update)

lemma update_report_count_wf [wf_intros]: "dev_wf d \<Longrightarrow> dev_wf (update_report_count p inc d)"
  by (simp add: update_report_count_def dev_wf_def reports_wf_def)

lemma report_slot_ops_wf [wf_intros]:
  assumes "dev_wf d"
  shows "dev_wf (free_sender_slot k d)" "dev_wf (report_slot_free i k d)"
  using assms unfolding free_sender_slot_def report_slot_free_def Let_def
  by (intro wf_intros; simp add: slot_ok_def sender_ok_def)+

lemma alloc_slot_wf: "dev_wf d \<Longrightarrow> dev_wf (snd (alloc_slot d))"
  by (auto simp: alloc_slot_def slot_ok_def split: option.splits intro!: wf_intros)

lemma send_one_chunk_wf [wf_intros]: "dev_wf d \<Longrightarrow> dev_wf (snd (send_one_chunk P dst k i d))"
  by (auto simp: send_one_chunk_def Let_def split_beta intro!: wf_intros)

lemma send_chunks_wf [wf_intros]: "dev_wf d \<Longrightarrow> dev_wf (snd (send_chunks P dst k n d))"
proof (induction n arbitrary: d)
  case (Suc n)
  have "dev_wf (upd_sender k (\<lambda>x. x\<lparr>sd_next_chunk := i\<rparr>) (snd (send_one_chunk P dst k j d)))" for i j
    using Suc.prems by (intro wf_intros) (simp_all add: sender_ok_def)
  then show ?case using Suc by (auto simp: Let_def split_beta intro!: wf_intros)
qed simp

lemma send_next_chunk_wf [wf_intros]: "dev_wf d \<Longrightarrow> dev_wf (snd (send_next_chunk P dst k d))"
  unfolding send_next_chunk_def by (intro wf_intros)

lemma resend_chunk_wf [wf_intros]: "dev_wf d \<Longrightarrow> dev_wf (snd (resend_chunk P dst k i d))"
  by (auto simp: resend_chunk_def intro!: wf_intros)

text \<open>What \<open>handle_report_init\<close> checks before a slot is filled.\<close>

definition init_valid :: "report_init \<Rightarrow> bool" where
  "init_valid pkt \<longleftrightarrow> \<not> (rpi_total_size pkt = 0 \<or> MAX_REPORT_SIZE < unat (rpi_total_size pkt) \<or>
     rpi_chunk_count pkt = 0 \<or> DATA_MAX_CHUNKS < unat (rpi_chunk_count pkt) \<or>
     rpi_last_chunk_size pkt = 0 \<or> SEND_DATA_MAX < unat (rpi_last_chunk_size pkt))"

lemma validate_slot_wf [wf_intros]:
  assumes "dev_wf d" "init_valid pkt" shows "dev_wf (snd (validate_slot pkt d))"
proof -
  have fill: "slot_ok (fill_slot pkt now x)" for now x
    using assms(2) by (auto simp: slot_ok_def fill_slot_def init_valid_def)
  show ?thesis using assms(1) alloc_slot_wf[OF assms(1)]
    by (auto simp: validate_slot_def fill split: option.splits prod.splits intro!: wf_intros)
qed

lemma crc_stages_wf: "dev_wf d \<Longrightarrow> dev_wf (snd (snd (crc_stages P stage addr rem first crc d)))"
proof (induction P stage addr rem first crc d rule: crc_stages.induct)
  case (1 P stage addr rem first crc d)
  have "dev_wf (snd (snd (d_psram_read P addr n stage d)))" for n using 1(2) by (intro wf_intros)
  with 1 show ?case
    by (subst crc_stages.simps) (auto simp: Let_def split_beta prod_eq_iff)
qed

lemma complete_report_wf [wf_intros]: "dev_wf d \<Longrightarrow> dev_wf (snd (complete_report P idx d))"
  using crc_stages_wf[of d]
  by (auto simp: complete_report_def Let_def split_beta slot_ok_def intro!: wf_intros)

lemma validate_report_chunk_wf [wf_intros]: "dev_wf d \<Longrightarrow> dev_wf (snd (validate_report_chunk P pkt d))"
  by (auto simp: validate_report_chunk_def Let_def split_beta slot_ok_def
      split: option.splits intro!: wf_intros)

lemma fill_sender_ok: "slot_ok s \<Longrightarrow> sender_ok (fill_sender dst s x)"
  by (simp add: slot_ok_def sender_ok_def fill_sender_def)

lemma next_report_lt: "dev_wf d \<Longrightarrow> next_report d = Some idx \<Longrightarrow> idx < DATA_SLOT_COUNT"
  by (auto simp: next_report_def dev_wf_def reports_wf_def split: option.splits dest!: find_idx_less)

lemma start_report_wf:
  assumes "dev_wf d" "idx < DATA_SLOT_COUNT" shows "dev_wf (start_report P k idx d)"
  using assms unfolding start_report_def Let_def
  by (intro wf_intros; simp add: fill_sender_ok rep_at_ok) (simp_all add: slot_ok_def sender_ok_def)

lemma report_steps_wf [wf_intros]:
  assumes "dev_wf d"
  shows "dev_wf (snd (gateway_report_emit P i d))" "dev_wf (gateway_report_timeouts i d)"
    "dev_wf (free_idle_report i d)" "dev_wf (sender_timeout i d)"
  using assms unfolding gateway_report_emit_def gateway_report_timeouts_def free_idle_report_def
    sender_timeout_def Let_def split_beta
  by (intro wf_intros; simp add: slot_ok_def sender_ok_def)+

lemma report_sender_step_wf [wf_intros]: "dev_wf d \<Longrightarrow> dev_wf (snd (report_sender_step P b k d))"
  using start_report_wf next_report_lt
  by (auto simp: report_sender_step_def Let_def split: option.splits intro!: wf_intros)

lemma report_tick_wf [wf_intros]: "dev_wf d \<Longrightarrow> dev_wf (report_tick P d)"
  unfolding report_tick_def gateway_report_tick_def anchor_report_tick_def sensor_report_tick_def Let_def
  by (intro wf_intros; assumption)

lemma report_init_wf [wf_intros]: "dev_wf d \<Longrightarrow> dev_wf (report_init d)"
  by (simp add: report_init_def dev_wf_def reports_wf_def)

end
