(* ===== verification/Config.thy ===== *)
theory Config
  imports Slot_Memory
begin

text \<open>
  src/config.c: one configuration per destination device, kept in 256 slots of 128 bytes in PSRAM.
  The gateway gets configurations from the AT interface, finds a route or sends them directly;
  anchors store and forward them; the sensor writes them to its host and reports the result back.
\<close>

abbreviation (input) PROCESS_CONFIG_SLOTS :: nat where "PROCESS_CONFIG_SLOTS \<equiv> 8"
abbreviation (input) GATEWAY_CONFIG_TIMEOUT_MS :: u32 where "GATEWAY_CONFIG_TIMEOUT_MS \<equiv> 120000"
abbreviation (input) SENSOR_CONFIG_TIMEOUT_MS :: u32 where "SENSOR_CONFIG_TIMEOUT_MS \<equiv> 30000"
abbreviation (input) SENSOR_CONFIG_MAX_RETRIES :: u8 where "SENSOR_CONFIG_MAX_RETRIES \<equiv> 3"

section \<open>Slots\<close>

definition config_slot_psram_addr :: "nat \<Rightarrow> nat" where
  "config_slot_psram_addr idx = PSRAM_CONFIG_BASE + MAX_CONFIG_SIZE * idx"

interpretation cfg_mem: slot_memory config_slot_psram_addr MAX_CONFIG_SIZE CONFIG_SLOT_COUNT
  by unfold_locales (simp_all add: config_slot_psram_addr_def)

abbreviation cfg_slots :: "dev \<Rightarrow> config_slot list" where "cfg_slots d \<equiv> cf_slots (dv_config d)"
abbreviation cfg_at :: "dev \<Rightarrow> nat \<Rightarrow> config_slot" where "cfg_at d i \<equiv> cfg_slots d ! i"

definition upd_config :: "nat \<Rightarrow> (config_slot \<Rightarrow> config_slot) \<Rightarrow> dev \<Rightarrow> dev" where
  "upd_config i f d = d\<lparr>dv_config := (dv_config d)\<lparr>cf_slots := (cfg_slots d)[i := f (cfg_at d i)]\<rparr>\<rparr>"

definition set_config_count :: "(u16 \<Rightarrow> u16) \<Rightarrow> dev \<Rightarrow> dev" where
  "set_config_count f d = d\<lparr>dv_config := (dv_config d)\<lparr>cf_active_count := f (cf_active_count (dv_config d))\<rparr>\<rparr>"

definition start_config_timeout :: "nat \<Rightarrow> u32 \<Rightarrow> u8 \<Rightarrow> dev \<Rightarrow> dev" where
  "start_config_timeout i dur maxr d =
     upd_config i (\<lambda>s. s\<lparr>cs_timeout := nbtimeout_start (dv_now d) (nbtimeout_init dur maxr)\<rparr>) d"

definition find_config_slot :: "u16 \<Rightarrow> dev \<Rightarrow> nat option" where
  "find_config_slot dst d = find_idx (\<lambda>s. cs_active s \<and> cs_dst_device_id s = dst) (cfg_slots d)"

definition alloc_config_slot :: "dev \<Rightarrow> nat option \<times> dev" where
  "alloc_config_slot d = (case find_idx (\<lambda>s. \<not> cs_active s) (cfg_slots d) of
       None \<Rightarrow> (None, d)
     | Some i \<Rightarrow> (Some i, set_config_count (\<lambda>n. if n < 0xFFFF then n + 1 else n)
         (upd_config i (\<lambda>s. s\<lparr>cs_is_sent := False, cs_is_applied := False, cs_is_transfered := False\<rparr>) d)))"

definition config_slot_free :: "nat \<Rightarrow> dev \<Rightarrow> dev" where
  "config_slot_free i d = set_config_count (\<lambda>n. if 0 < n then n - 1 else n)
     (upd_config i (\<lambda>s. s\<lparr>cs_active := False, cs_is_sent := False, cs_is_applied := False,
        cs_is_transfered := False\<rparr>) d)"

text \<open>
  The status and \<open>*idx_out\<close>, which is a slot index where the status is SUCCESS or ALREADY_EXISTS.
\<close>

definition fill_config_slot :: "config_t \<Rightarrow> config_slot \<Rightarrow> config_slot" where
  "fill_config_slot pkt s = s\<lparr>cs_active := True, cs_is_sent := False, cs_is_applied := False,
     cs_dst_device_id := cfg_dst_device_id pkt, cs_dst_device_type := cfg_dst_device_type pkt,
     cs_config_id := cfg_data_id pkt, cs_config_len := cfg_config_len pkt,
     cs_config_crc32 := cfg_config_crc32 pkt\<rparr>"

definition config_payload :: "config_t \<Rightarrow> bytes" where
  "config_payload pkt = take (unat (cfg_config_len pkt)) (cfg_config pkt)"

definition store_config :: "platform \<Rightarrow> config_t \<Rightarrow> nat \<Rightarrow> dev \<Rightarrow> u8 \<times> nat option \<times> dev" where
  "store_config P pkt idx d = (
     let d = upd_config idx (fill_config_slot pkt) d in
     if pf_crc32 P (config_payload pkt) \<noteq> cfg_config_crc32 pkt
     then (STATUS_CRC_FAIL, Some idx, config_slot_free idx d)
     else let (err, d) = d_psram_write P (config_slot_psram_addr idx) (config_payload pkt) d in
       if err \<noteq> 0 then (STATUS_FAILURE, Some idx, config_slot_free idx d)
       else (STATUS_SUCCESS, Some idx, d))"

definition validate_config :: "platform \<Rightarrow> config_t \<Rightarrow> dev \<Rightarrow> u8 \<times> nat option \<times> dev" where
  "validate_config P pkt d = (
     if cfg_dst_device_id pkt \<noteq> get_device_id d \<and> get_device_type d = DEVICE_TYPE_SENSOR
     then (STATUS_FAILURE, None, d)
     else case find_config_slot (cfg_dst_device_id pkt) d of
       None \<Rightarrow> (case alloc_config_slot d of
           (None, d) \<Rightarrow> (STATUS_RESOURCE_UNAVAILABLE, None, d)
         | (Some idx, d) \<Rightarrow> store_config P pkt idx d)
     | Some idx \<Rightarrow>
         if cs_config_crc32 (cfg_at d idx) = cfg_config_crc32 pkt \<and> cs_config_len (cfg_at d idx) = cfg_config_len pkt
         then (STATUS_ALREADY_EXISTS, Some idx, d)
         else store_config P pkt idx d)"

section \<open>Results to the host\<close>

definition configres_line :: "u64 \<Rightarrow> u16 \<Rightarrow> u8 \<Rightarrow> string" where
  "configres_line sn config_id status = ''AT#CONFIGRES='' @
     at_fields [hex_fixed True 16 (unat sn), hex_fixed True 4 (unat config_id), hex_fixed True 4 (unat status)] @
     [CHR 0x0D]"

definition send_cmd_configres :: "platform \<Rightarrow> u16 \<Rightarrow> u8 \<Rightarrow> dev \<Rightarrow> dev" where
  "send_cmd_configres P device_id status d = (case find_config_slot device_id d of
       None \<Rightarrow> d
     | Some idx \<Rightarrow> (case find_mesh device_id d of
         Some i \<Rightarrow> upd_config idx (\<lambda>s. s\<lparr>cs_is_applied := True\<rparr>)
           (proc (slm_at_tx_write P (configres_line (ms_serial_num (mesh_at d i))
              (cs_config_id (cfg_at d idx)) status)) d)
       | None \<Rightarrow> if mesh_count d = 0 then d else config_slot_free idx d))"

section \<open>Ticks\<close>

text \<open>The packet built from slot \<open>i\<close>; its route is zero.\<close>
definition config_pkt_of :: "config_slot \<Rightarrow> bytes \<Rightarrow> config_t" where
  "config_pkt_of s payload = \<lparr>cfg_hdr = zero_hdr, cfg_dst_device_id = cs_dst_device_id s,
     cfg_dst_device_type = cs_dst_device_type s, cfg_data_type = DATA_TYPE_CONFIG,
     cfg_data_id = cs_config_id s, cfg_route_info = zero_route, cfg_config_len = cs_config_len s,
     cfg_config_crc32 = cs_config_crc32 s, cfg_config = payload\<rparr>"

definition gateway_config_timeouts :: "platform \<Rightarrow> nat \<Rightarrow> dev \<Rightarrow> dev" where
  "gateway_config_timeouts P i d = (
     let s = cfg_at d i in
     if cs_active s \<and> cs_is_sent s \<and> \<not> cs_is_applied s \<and> nbtimeout_expired (dv_now d) (cs_timeout s)
     then send_cmd_configres P (cs_dst_device_id s) STATUS_TIMEOUT d else d)"

definition mark_config_sent :: "nat \<Rightarrow> u32 \<Rightarrow> u8 \<Rightarrow> dev \<Rightarrow> dev" where
  "mark_config_sent i dur maxr d = upd_config i (\<lambda>s. s\<lparr>cs_is_sent := True\<rparr>) (start_config_timeout i dur maxr d)"

definition broadcast_route_discovery :: "platform \<Rightarrow> route_discovery \<Rightarrow> dev \<Rightarrow> dev" where
  "broadcast_route_discovery P rd d =
     foldl (\<lambda>d i. proc (send_route_discovery P rd (infra_id (infra_at d i)) STATUS_SUCCESS) d) d [0..<infra_count d]"

definition gateway_config_send :: "platform \<Rightarrow> nat \<Rightarrow> dev \<Rightarrow> dev" where
  "gateway_config_send P idx d = (
     let s = cfg_at d idx; hop_num = find_hop_num (cs_dst_device_id s) (cs_dst_device_type s) d in
     if hop_num = 0xFF
     then config_slot_free idx (send_cmd_configres P (cs_dst_device_id s) STATUS_NO_ROUTE d)
     else if hop_num = 0 then
       let (err, payload, d) = d_psram_read P (config_slot_psram_addr idx) (unat (cs_config_len s)) MAX_CONFIG_SIZE d in
       if err \<noteq> 0 then d
       else mark_config_sent idx GATEWAY_CONFIG_TIMEOUT_MS 0
         (proc (send_config P (config_pkt_of s payload) (cs_dst_device_id s) PACKET_PRIORITY_HIGH) d)
     else mark_config_sent idx GATEWAY_CONFIG_TIMEOUT_MS 0
       (broadcast_route_discovery P \<lparr>rdc_hdr = zero_hdr, rdc_device_id = cs_dst_device_id s,
          rdc_device_type = cs_dst_device_type s, rdc_hop_num = hop_num, rdc_data_type = DATA_TYPE_CONFIG,
          rdc_data_id = word_of_nat idx\<rparr> d))"

definition gateway_config_tick :: "platform \<Rightarrow> dev \<Rightarrow> dev" where
  "gateway_config_tick P d = (
     if get_device_type d \<noteq> DEVICE_TYPE_GATEWAY then d
     else process_upto PROCESS_CONFIG_SLOTS (\<lambda>i d. cs_active (cfg_at d i) \<and> \<not> cs_is_sent (cfg_at d i))
       (gateway_config_send P) [0..<CONFIG_SLOT_COUNT]
       (for_slots CONFIG_SLOT_COUNT (gateway_config_timeouts P) d))"

text \<open>Retry of a slot's timeout: free it when exhausted, send again otherwise.\<close>

definition retry_config :: "nat \<Rightarrow> dev \<Rightarrow> dev" where
  "retry_config i d = (
     let (exhausted, t) = nbtimeout_retry (dv_now d) (cs_timeout (cfg_at d i));
         d = upd_config i (\<lambda>s. s\<lparr>cs_timeout := t\<rparr>) d in
     if exhausted then config_slot_free i d else upd_config i (\<lambda>s. s\<lparr>cs_is_sent := False\<rparr>) d)"

definition anchor_config_timeouts :: "nat \<Rightarrow> dev \<Rightarrow> dev" where
  "anchor_config_timeouts i d = (
     let expired = (\<lambda>d. nbtimeout_expired (dv_now d) (cs_timeout (cfg_at d i)));
         d = (if cs_active (cfg_at d i) \<and> cs_is_transfered (cfg_at d i) \<and> expired d
              then config_slot_free i d else d) in
     if cs_active (cfg_at d i) \<and> cs_is_sent (cfg_at d i) \<and> \<not> cs_is_transfered (cfg_at d i) \<and> expired d
     then retry_config i d else d)"

definition anchor_config_send :: "platform \<Rightarrow> nat \<Rightarrow> dev \<Rightarrow> dev" where
  "anchor_config_send P i d = (
     let s = cfg_at d i in
     if cs_active s \<and> \<not> cs_is_sent s \<and> \<not> cs_is_transfered s \<and>
        check_sensor_storage (cs_dst_device_id s) d = STATUS_ALREADY_EXISTS then
       let (err, payload, d) = d_psram_read P (config_slot_psram_addr i) (unat (cs_config_len s)) MAX_CONFIG_SIZE d in
       if err \<noteq> 0 then d
       else proc (send_config P (config_pkt_of s payload) (cs_dst_device_id s) PACKET_PRIORITY_HIGH)
         (upd_config i (\<lambda>s. s\<lparr>cs_is_sent := True\<rparr>) d)
     else d)"

definition anchor_config_tick :: "platform \<Rightarrow> dev \<Rightarrow> dev" where
  "anchor_config_tick P d = (
     if get_device_type d \<noteq> DEVICE_TYPE_ANCHOR then d
     else for_slots CONFIG_SLOT_COUNT (anchor_config_send P) (for_slots CONFIG_SLOT_COUNT anchor_config_timeouts d))"

definition sensor_config_timeouts :: "nat \<Rightarrow> dev \<Rightarrow> dev" where
  "sensor_config_timeouts i d = (
     if cs_active (cfg_at d i) \<and> cs_is_sent (cfg_at d i) then
       let d = (if cs_is_applied (cfg_at d i)
                then upd_config i (\<lambda>s. s\<lparr>cs_timeout := nbtimeout_reset (cs_timeout s)\<rparr>) d else d) in
       if nbtimeout_expired (dv_now d) (cs_timeout (cfg_at d i)) then retry_config i d else d
     else d)"

definition config_line :: "u64 \<Rightarrow> config_slot \<Rightarrow> bytes \<Rightarrow> string" where
  "config_line sn s payload = CRLF @ ''AT#CONFIG='' @
     at_fields [hex_fixed True 16 (unat sn), hex_fixed True 4 (unat (cs_config_id s)),
       hex_fixed True 4 (unat (cs_config_len s)), hex_fixed True 8 (unat (cs_config_crc32 s)),
       hex_bytes payload] @ CRLF"

definition sensor_config_emit :: "platform \<Rightarrow> nat \<Rightarrow> dev \<Rightarrow> dev" where
  "sensor_config_emit P idx d = (
     let s = cfg_at d idx; len = unat (cs_config_len s);
         (err, payload, d) = d_psram_read P (config_slot_psram_addr idx) len MAX_CONFIG_SIZE d;
         line = config_line (get_serial_number d) s (take len payload) in
     if err \<noteq> 0 then d
     else if SLM_UART_AT_COMMAND_LEN \<le> length line then d
     else let (tx_err, d) = slm_at_tx_write P line d in
     if tx_err \<noteq> 0 then d
     else upd_config idx (\<lambda>s. s\<lparr>cs_is_sent := True\<rparr>)
       (if nbtimeout_is_active (cs_timeout (cfg_at d idx)) then d
        else start_config_timeout idx SENSOR_CONFIG_TIMEOUT_MS SENSOR_CONFIG_MAX_RETRIES d))"

definition sensor_config_tick :: "platform \<Rightarrow> dev \<Rightarrow> dev" where
  "sensor_config_tick P d = (
     if get_device_type d \<noteq> DEVICE_TYPE_SENSOR then d
     else process_upto PROCESS_CONFIG_SLOTS
       (\<lambda>i d. cs_active (cfg_at d i) \<and> \<not> cs_is_sent (cfg_at d i) \<and> \<not> cs_is_applied (cfg_at d i))
       (sensor_config_emit P) [0..<CONFIG_SLOT_COUNT]
       (for_slots CONFIG_SLOT_COUNT sensor_config_timeouts d))"

definition config_tick :: "platform \<Rightarrow> dev \<Rightarrow> dev" where
  "config_tick P d = (
     if cf_active_count (dv_config d) \<le> 0 then d
     else if get_device_type d = DEVICE_TYPE_GATEWAY then gateway_config_tick P d
     else if get_device_type d = DEVICE_TYPE_ANCHOR then anchor_config_tick P d
     else if get_device_type d = DEVICE_TYPE_SENSOR then sensor_config_tick P d
     else d)"

section \<open>Well-formedness\<close>

lemma upd_config_wf [wf_intros]:
  assumes "dev_wf d" "\<And>s. unat (cs_config_len s) \<le> MAX_CONFIG_SIZE \<Longrightarrow> unat (cs_config_len (f s)) \<le> MAX_CONFIG_SIZE"
  shows "dev_wf (upd_config i f d)"
proof (cases "i < length (cfg_slots d)")
  case True
  then have "unat (cs_config_len (cfg_at d i)) \<le> MAX_CONFIG_SIZE"
    using assms(1) by (simp add: dev_wf_def configs_wf_def)
  then have "unat (cs_config_len (f (cfg_at d i))) \<le> MAX_CONFIG_SIZE" by (rule assms(2))
  moreover have "set ((cfg_slots d)[i := f (cfg_at d i)]) \<subseteq> insert (f (cfg_at d i)) (set (cfg_slots d))"
    by (rule set_update_subset_insert)
  ultimately show ?thesis using assms(1) by (auto simp: upd_config_def dev_wf_def configs_wf_def)
next
  case False
  then show ?thesis using assms(1) by (simp add: upd_config_def dev_wf_def configs_wf_def list_update_beyond)
qed

lemma set_config_count_wf [wf_intros]: "dev_wf d \<Longrightarrow> dev_wf (set_config_count f d)"
  by (simp add: set_config_count_def dev_wf_def configs_wf_def)

lemma config_slot_ops_wf [wf_intros]:
  assumes "dev_wf d"
  shows "dev_wf (start_config_timeout i dur maxr d)" "dev_wf (config_slot_free i d)"
    "dev_wf (mark_config_sent i dur maxr d)" "dev_wf (retry_config i d)"
  using assms unfolding start_config_timeout_def config_slot_free_def mark_config_sent_def retry_config_def
    Let_def split_beta
  by (intro wf_intros; simp)+

lemma alloc_config_slot_wf: "dev_wf d \<Longrightarrow> dev_wf (snd (alloc_config_slot d))"
  by (auto simp: alloc_config_slot_def split: option.splits intro!: wf_intros)

lemma store_config_wf [wf_intros]:
  assumes "dev_wf d" "unat (cfg_config_len pkt) \<le> MAX_CONFIG_SIZE"
  shows "dev_wf (snd (snd (store_config P pkt idx d)))"
  using assms by (auto simp: store_config_def Let_def split_beta fill_config_slot_def intro!: wf_intros)

lemma validate_config_wf [wf_intros]:
  assumes "dev_wf d" "unat (cfg_config_len pkt) \<le> MAX_CONFIG_SIZE"
  shows "dev_wf (snd (snd (validate_config P pkt d)))"
  using assms alloc_config_slot_wf[OF assms(1)]
  by (auto simp: validate_config_def split: option.splits prod.splits
      dest: store_config_wf[where P = P and pkt = pkt])

lemma send_cmd_configres_wf [wf_intros]: "dev_wf d \<Longrightarrow> dev_wf (send_cmd_configres P i s d)"
  unfolding send_cmd_configres_def by (intro wf_intros; simp)

lemma broadcast_route_discovery_wf [wf_intros]: "dev_wf d \<Longrightarrow> dev_wf (broadcast_route_discovery P rd d)"
  unfolding broadcast_route_discovery_def by (intro wf_intros; assumption)

lemma config_steps_wf [wf_intros]:
  assumes "dev_wf d"
  shows "dev_wf (gateway_config_timeouts P i d)" "dev_wf (gateway_config_send P i d)"
    "dev_wf (anchor_config_timeouts i d)" "dev_wf (anchor_config_send P i d)"
    "dev_wf (sensor_config_timeouts i d)" "dev_wf (sensor_config_emit P i d)"
  using assms unfolding gateway_config_timeouts_def gateway_config_send_def anchor_config_timeouts_def
    anchor_config_send_def sensor_config_timeouts_def sensor_config_emit_def Let_def split_beta
  by (intro wf_intros; simp)+

lemma config_tick_wf [wf_intros]: "dev_wf d \<Longrightarrow> dev_wf (config_tick P d)"
  unfolding config_tick_def gateway_config_tick_def anchor_config_tick_def sensor_config_tick_def
  by (intro wf_intros; assumption)

end
