(* ===== verification/Config_Handlers.thy ===== *)
theory Config_Handlers
  imports Config
begin

text \<open>
  src/config.c, continued: the packet handlers, initialisation, and the AT commands of the host.
\<close>

section \<open>Handlers\<close>

definition config_ack_of :: "config_t \<Rightarrow> u8 \<Rightarrow> config_ack" where
  "config_ack_of pkt status = \<lparr>cfa_hdr = zero_hdr\<lparr>ph_status := status\<rparr>, cfa_dst_device_id = cfg_dst_device_id pkt,
     cfa_dst_device_type = cfg_dst_device_type pkt, cfa_data_type = cfg_data_type pkt, cfa_data_id = cfg_data_id pkt\<rparr>"

text \<open>One hop of the source route is used up: the entries move down, the last becomes invalid.\<close>

definition no_route_entry :: route_info_entry where
  "no_route_entry = \<lparr>ri_device_id = 0xFFFF, ri_hop_num = 0xFF\<rparr>"

definition next_route :: "route_info_entry list \<Rightarrow> route_info_entry list" where
  "next_route r = map (\<lambda>i. if i < MAX_DEPTH - 1 then r ! (i + 1) else no_route_entry) [0..<MAX_DEPTH]"

text \<open>
  The anchor's forwarding of a stored configuration, with the status of its acknowledgment. The
  condition of the second branch, \<open>id != 0xFFFF || id != 0\<close>, always holds.
\<close>

definition anchor_forward_config :: "platform \<Rightarrow> config_t \<Rightarrow> nat \<Rightarrow> dev \<Rightarrow> u8 \<times> dev" where
  "anchor_forward_config P pkt idx d = (
     let next_id = ri_device_id (cfg_route_info pkt ! 1) in
     if cfg_dst_device_type pkt = DEVICE_TYPE_SENSOR \<and> (next_id = 0xFFFF \<or> next_id = 0) then
       if find_sensor (cfg_dst_device_id pkt) d \<noteq> None
       then (STATUS_SUCCESS, mark_config_sent idx 30000 3
         (proc (send_config P (pkt\<lparr>cfg_route_info := (cfg_route_info pkt)[0 := no_route_entry]\<rparr>)
            (cfg_dst_device_id pkt) PACKET_PRIORITY_HIGH) d))
       else (if sensor_count d = 0 then STATUS_SUCCESS else STATUS_NOT_FOUND, d)
     else
       let r = next_route (cfg_route_info pkt) in
       (STATUS_SUCCESS, mark_config_sent idx 60000 0
         (proc (send_config P (pkt\<lparr>cfg_route_info := r\<rparr>) (ri_device_id (r ! 0)) PACKET_PRIORITY_HIGH) d)))"

definition send_config_received_up :: "platform \<Rightarrow> u8 \<Rightarrow> u16 \<Rightarrow> u8 \<Rightarrow> u8 \<Rightarrow> u16 \<Rightarrow> dev \<Rightarrow> dev" where
  "send_config_received_up P status dst dst_type data_type data_id d =
     proc (send_config_received P \<lparr>cfr_hdr = zero_hdr\<lparr>ph_status := status\<rparr>, cfr_dst_device_id = dst,
        cfr_dst_device_type = dst_type, cfr_data_type = data_type, cfr_data_id = data_id\<rparr>
        (infra_id (infra_at d 0))) d"

definition handle_config :: "platform \<Rightarrow> config_t \<Rightarrow> u16 \<Rightarrow> s16 \<Rightarrow> dev \<Rightarrow> dev" where
  "handle_config P pkt dst_id rssi_2 d = (
     let hdr = cfg_hdr pkt; ptype = ph_device_type hdr;
         ack = (\<lambda>status. proc (send_config_ack P (config_ack_of pkt status) dst_id (ph_priority hdr) (ph_tracking_id hdr))) in
     if ph_device_id hdr \<noteq> get_device_id d then d
     else if \<not> valid_device_type ptype then d
     else if cfg_config_len pkt = 0 \<or> MAX_CONFIG_SIZE < unat (cfg_config_len pkt) then ack STATUS_INVALID_PARAMETER d
     else if get_device_type d = DEVICE_TYPE_GATEWAY then d
     else if get_device_type d = DEVICE_TYPE_ANCHOR then
       if ptype = DEVICE_TYPE_GATEWAY \<or> ptype = DEVICE_TYPE_ANCHOR then
         (case validate_config P pkt d of
            (status, idx, d) \<Rightarrow>
              if status \<noteq> STATUS_SUCCESS then ack status d
              else let (status, d) = anchor_forward_config P pkt (the idx) d in ack status d)
       else d
     else if get_device_type d = DEVICE_TYPE_SENSOR then
       if ptype = DEVICE_TYPE_GATEWAY \<or> ptype = DEVICE_TYPE_ANCHOR then
         (case validate_config P pkt d of
            (status, idx, d) \<Rightarrow>
              let d = ack status d in
              if status = STATUS_ALREADY_EXISTS \<and> cs_is_applied (cfg_at d (the idx))
              then send_config_received_up P STATUS_ALREADY_EXISTS (cfg_dst_device_id pkt)
                     (cfg_dst_device_type pkt) DATA_TYPE_CONFIG (cfg_data_id pkt) d
              else d)
       else d
     else d)"

text \<open>An anchor that finds no slot indexes the array with -1.\<close>

definition handle_config_ack :: "platform \<Rightarrow> config_ack \<Rightarrow> u16 \<Rightarrow> s16 \<Rightarrow> dev \<Rightarrow> dev" where
  "handle_config_ack P pkt dst_id rssi_2 d = (
     let hdr = cfa_hdr pkt; ptype = ph_device_type hdr;
         ok = (ph_status hdr = STATUS_SUCCESS \<or> ph_status hdr = STATUS_ALREADY_EXISTS) in
     if ph_device_id hdr \<noteq> get_device_id d then d
     else if \<not> valid_device_type ptype then d
     else let d = d_untrack (ph_tracking_id hdr) d in
     if ptype \<noteq> DEVICE_TYPE_ANCHOR \<and> ptype \<noteq> DEVICE_TYPE_SENSOR then d
     else if get_device_type d = DEVICE_TYPE_GATEWAY then
       (case find_config_slot (cfa_dst_device_id pkt) d of
          None \<Rightarrow> d
        | Some idx \<Rightarrow>
            if ok \<and> cfa_data_id pkt \<noteq> cs_config_id (cfg_at d idx)
            then upd_config idx (\<lambda>s. s\<lparr>cs_active := False\<rparr>) d else d)
     else if get_device_type d = DEVICE_TYPE_ANCHOR then
       (case find_config_slot (cfa_dst_device_id pkt) d of
          None \<Rightarrow> fault d
        | Some idx \<Rightarrow>
            if ok then start_config_timeout idx 30000 0 (upd_config idx (\<lambda>s. s\<lparr>cs_is_transfered := True\<rparr>) d)
            else config_slot_free idx d)
     else d)"

definition config_received_ack_of :: "u16 \<Rightarrow> u8 \<Rightarrow> u8 \<Rightarrow> u16 \<Rightarrow> config_received_ack" where
  "config_received_ack_of dst dst_type data_type data_id = \<lparr>cfra_hdr = zero_hdr, cfra_dst_device_id = dst,
     cfra_dst_device_type = dst_type, cfra_data_type = data_type, cfra_data_id = data_id\<rparr>"

definition handle_config_received :: "platform \<Rightarrow> config_received \<Rightarrow> u16 \<Rightarrow> s16 \<Rightarrow> dev \<Rightarrow> dev" where
  "handle_config_received P pkt dst_id rssi_2 d = (
     let hdr = cfr_hdr pkt; ptype = ph_device_type hdr;
         ack = proc (send_config_received_ack P (config_received_ack_of (cfr_dst_device_id pkt)
           (cfr_dst_device_type pkt) (cfr_data_type pkt) (cfr_data_id pkt)) dst_id (ph_priority hdr) (ph_tracking_id hdr)) in
     if ph_device_id hdr \<noteq> get_device_id d then d
     else if \<not> valid_device_type ptype then d
     else if ptype \<noteq> DEVICE_TYPE_ANCHOR \<and> ptype \<noteq> DEVICE_TYPE_SENSOR then d
     else if get_device_type d = DEVICE_TYPE_GATEWAY
       then ack (send_cmd_configres P (cfr_dst_device_id pkt) (ph_status hdr) d)
     else if get_device_type d = DEVICE_TYPE_ANCHOR
       then ack (send_config_received_up P (ph_status hdr) (cfr_dst_device_id pkt) (cfr_dst_device_type pkt)
              (cfr_data_type pkt) (cfr_data_id pkt) d)
     else d)"

definition handle_config_received_ack :: "platform \<Rightarrow> config_received_ack \<Rightarrow> u16 \<Rightarrow> s16 \<Rightarrow> dev \<Rightarrow> dev" where
  "handle_config_received_ack P pkt dst_id rssi_2 d = (
     let hdr = cfra_hdr pkt; ptype = ph_device_type hdr in
     if ph_device_id hdr \<noteq> get_device_id d then d
     else if \<not> valid_device_type ptype then d
     else let d = d_untrack (ph_tracking_id hdr) d in
     if get_device_type d = DEVICE_TYPE_ANCHOR \<and> (ptype = DEVICE_TYPE_ANCHOR \<or> ptype = DEVICE_TYPE_GATEWAY)
     then proc (send_config_received_ack P (config_received_ack_of (cfra_dst_device_id pkt)
            (cfra_dst_device_type pkt) (cfra_data_type pkt) (cfra_data_id pkt))
            (infra_id (infra_at d 0)) (ph_priority hdr) (ph_tracking_id hdr)) d
     else d)"

section \<open>Initialisation and release\<close>

text \<open>The counter of active slots, the config ids and the timeouts are not reset.\<close>

definition config_init :: "dev \<Rightarrow> dev" where
  "config_init d = d\<lparr>dv_config := (dv_config d)\<lparr>cf_slots := map (\<lambda>s. s\<lparr>cs_active := False, cs_is_sent := False,
     cs_is_applied := False, cs_is_transfered := False, cs_dst_device_id := 0, cs_dst_device_type := 0,
     cs_config_len := 0, cs_config_crc32 := 0\<rparr>) (cfg_slots d)\<rparr>\<rparr>"

definition config_slot_release_by_id :: "platform \<Rightarrow> u16 \<Rightarrow> u8 \<Rightarrow> dev \<Rightarrow> int \<times> dev" where
  "config_slot_release_by_id P config_id status d = (
     case find_idx (\<lambda>s. cs_active s \<and> cs_is_sent s \<and> cs_config_id s = config_id) (cfg_slots d) of
       None \<Rightarrow> (- ENOENT, d)
     | Some i \<Rightarrow>
         let s = cfg_at d i;
             d = send_config_received_up P status (cs_dst_device_id s) (cs_dst_device_type s) DATA_TYPE_CONFIG
               (cs_config_id s) d in
         (0, if status = STATUS_SUCCESS then upd_config i (\<lambda>s. s\<lparr>cs_is_applied := True\<rparr>) d
             else config_slot_free i d))"

section \<open>AT commands\<close>

record at_structure =
  as_device_id :: u16
  as_device_type :: u8
  as_data_id :: u16
  as_data_len :: u16
  as_data_crc32 :: u32

text \<open>The comparison with the slot's old contents comes before its destination is set.\<close>

definition store_at_config :: "platform \<Rightarrow> at_structure \<Rightarrow> bytes \<Rightarrow> nat \<Rightarrow> dev \<Rightarrow> int \<times> dev" where
  "store_at_config P c data idx d = (
     let d = upd_config idx (\<lambda>s. s\<lparr>cs_active := True, cs_is_sent := False, cs_is_applied := False,
               cs_is_transfered := False\<rparr>) d in
     if cs_config_crc32 (cfg_at d idx) = as_data_crc32 c \<and> ucast (cs_config_len (cfg_at d idx)) = as_data_len c
     then (int idx, d)
     else let d = upd_config idx (\<lambda>s. s\<lparr>cs_dst_device_id := as_device_id c, cs_dst_device_type := as_device_type c,
                cs_config_id := as_data_id c, cs_config_len := ucast (as_data_len c),
                cs_config_crc32 := as_data_crc32 c\<rparr>) d;
              (err, d) = d_psram_write P (config_slot_psram_addr idx) (take (unat (as_data_len c)) data) d in
       if err \<noteq> 0 then (- EIO, config_slot_free idx d) else (int idx, d))"

definition validate_at_config :: "platform \<Rightarrow> at_structure \<Rightarrow> bytes \<Rightarrow> dev \<Rightarrow> int \<times> dev" where
  "validate_at_config P c data d = (
     if as_data_len c = 0 \<or> MAX_CONFIG_SIZE < unat (as_data_len c) then (- EINVAL, d)
     else case find_idx (\<lambda>s. cs_active s \<and> cs_dst_device_id s = as_device_id c \<and>
                cs_dst_device_type s = as_device_type c) (cfg_slots d) of
       Some idx \<Rightarrow> store_at_config P c data idx d
     | None \<Rightarrow> (case alloc_config_slot d of
           (None, d) \<Rightarrow> (- ENOMEM, d)
         | (Some idx, d) \<Rightarrow> store_at_config P c data idx d))"

text \<open>The fields of the command: serial number, id, length and checksum, then the payload in hex.\<close>

definition parse_config :: "platform \<Rightarrow> string \<Rightarrow> (u64 \<times> at_structure \<times> bytes) option" where
  "parse_config P args = (
     case (field_hex_u64 args 0, field_hex_u64 args 1, field_hex_u64 args 2, field_hex_u64 args 3) of
       (Some v_sn, Some v_id, Some v_len, Some v_crc) \<Rightarrow>
         if 0xFFFF < v_id \<or> v_len = 0 \<or> word_of_nat MAX_CONFIG_SIZE < v_len \<or> 0xFFFFFFFF < v_crc then None
         else (case field_get 4 args of
             None \<Rightarrow> None
           | Some hex \<Rightarrow>
               if length hex \<noteq> unat v_len * 2 then None
               else (case hex_decode hex MAX_CONFIG_SIZE of
                   None \<Rightarrow> None
                 | Some payload \<Rightarrow>
                     if length payload \<noteq> unat v_len \<or> pf_crc32 P payload \<noteq> ucast v_crc then None
                     else Some (v_sn, \<lparr>as_device_id = 0, as_device_type = 0, as_data_id = ucast v_id,
                            as_data_len = ucast v_len, as_data_crc32 = ucast v_crc\<rparr>, payload)))
     | _ \<Rightarrow> None)"

definition config_response :: "u64 \<Rightarrow> at_structure \<Rightarrow> string" where
  "config_response sn c = ''#CONFIG:'' @ at_fields [''0x'' @ hex_fixed False 16 (unat sn),
     dec_str (unat (as_data_id c)), dec_str (unat (as_data_len c)), ''0x'' @ hex_fixed False 8 (unat (as_data_crc32 c))]"

definition cmd_config :: "platform \<Rightarrow> string \<Rightarrow> dev \<Rightarrow> dev" where
  "cmd_config P args d = (
     if get_device_type d \<noteq> DEVICE_TYPE_GATEWAY then at_error P d
     else case parse_config P args of
       None \<Rightarrow> at_error P d
     | Some (sn, c, payload) \<Rightarrow>
         (case find_idx (\<lambda>m. ms_serial_num m = sn) (mesh_devs (dv_store d)) of
            None \<Rightarrow> at_error P d
          | Some i \<Rightarrow>
              let m = mesh_at d i;
                  c = c\<lparr>as_device_id := ms_device_id m, as_device_type := ms_device_type m\<rparr> in
              if find_hop_num (ms_device_id m) (ms_device_type m) d = 0xFF then at_error P d
              else let (err, d) = validate_at_config P c payload d in
              if err < 0 then at_error P d
              else at_ok P (at_send_line P (config_response sn c) d)))"

definition cmd_config_ack :: "string \<Rightarrow> dev \<Rightarrow> dev" where
  "cmd_config_ack args d = (
     case (field_hex_u64 args 0, field_hex_u64 args 1) of
       (Some v_sn, Some v_id) \<Rightarrow>
         if 0xFFFF < v_id \<or> v_sn \<noteq> get_serial_number d then d
         else set_at_pending_ack \<lparr>ap_data_type = DATA_TYPE_CONFIG, ap_sn = v_sn, ap_id = ucast v_id,
                ap_page = 0, ap_chunk = 0\<rparr> d
     | _ \<Rightarrow> d)"

section \<open>Well-formedness\<close>

lemma anchor_forward_config_wf [wf_intros]: "dev_wf d \<Longrightarrow> dev_wf (snd (anchor_forward_config P pkt i d))"
  by (auto simp: anchor_forward_config_def Let_def intro!: wf_intros)

lemma send_config_received_up_wf [wf_intros]: "dev_wf d \<Longrightarrow> dev_wf (send_config_received_up P s dst t dt i d)"
  unfolding send_config_received_up_def by (intro wf_intros; assumption)

lemma handle_config_wf [wf_intros]:
  assumes "dev_wf d" shows "dev_wf (handle_config P pkt i r d)"
proof (cases "unat (cfg_config_len pkt) \<le> MAX_CONFIG_SIZE")
  case True
  show ?thesis unfolding handle_config_def Let_def split_beta
    by (intro wf_intros; (rule assms True)?)
next
  case False
  then show ?thesis using assms unfolding handle_config_def Let_def by (auto intro!: wf_intros)
qed

lemma handle_config_ack_wf [wf_intros]: "dev_wf d \<Longrightarrow> dev_wf (handle_config_ack P pkt i r d)"
  unfolding handle_config_ack_def Let_def by (intro wf_intros; simp)

lemma handle_config_received_wf [wf_intros]: "dev_wf d \<Longrightarrow> dev_wf (handle_config_received P pkt i r d)"
  unfolding handle_config_received_def Let_def by (intro wf_intros; simp)

lemma handle_config_received_ack_wf [wf_intros]: "dev_wf d \<Longrightarrow> dev_wf (handle_config_received_ack P pkt i r d)"
  unfolding handle_config_received_ack_def Let_def by (intro wf_intros; simp)

lemma config_init_wf [wf_intros]: "dev_wf d \<Longrightarrow> dev_wf (config_init d)"
  by (auto simp: config_init_def dev_wf_def configs_wf_def)

lemma config_slot_release_wf [wf_intros]: "dev_wf d \<Longrightarrow> dev_wf (snd (config_slot_release_by_id P i s d))"
  by (auto simp: config_slot_release_by_id_def Let_def split: option.splits intro!: wf_intros)

lemma store_at_config_wf:
  assumes "dev_wf d" "unat (as_data_len c) \<le> MAX_CONFIG_SIZE"
  shows "dev_wf (snd (store_at_config P c data idx d))"
proof -
  have "unat (ucast (as_data_len c) :: u8) \<le> MAX_CONFIG_SIZE"
    using assms(2) mod_less_eq_dividend[of "unat (as_data_len c)" 256]
    by (simp add: unsigned_ucast_eq take_bit_eq_mod)
  then show ?thesis using assms(1)
    by (auto simp: store_at_config_def Let_def split_beta intro!: wf_intros)
qed

lemma validate_at_config_wf [wf_intros]: "dev_wf d \<Longrightarrow> dev_wf (snd (validate_at_config P c data d))"
  using alloc_config_slot_wf[of d] store_at_config_wf[of _ c P data]
  by (fastforce simp: validate_at_config_def split: option.splits prod.splits)

lemma cmd_config_wf [wf_intros]: "dev_wf d \<Longrightarrow> dev_wf (cmd_config P args d)"
  by (auto simp: cmd_config_def Let_def split_beta split: option.splits intro!: wf_intros)

lemma cmd_config_ack_wf [wf_intros]: "dev_wf d \<Longrightarrow> dev_wf (cmd_config_ack args d)"
  by (auto simp: cmd_config_ack_def split: option.splits intro!: wf_intros)

end
