(* ===== verification/Report_Handlers.thy ===== *)
theory Report_Handlers
  imports Reports Config_Handlers
begin

text \<open>
  src/data.c, continued: the packet handlers and the AT commands of the host. A handler that finds
  no sender gets -1 in a byte and goes on with index 255, past the end of the sender array.
\<close>

section \<open>Handlers\<close>

definition report_init_ack_of :: "report_init \<Rightarrow> u8 \<Rightarrow> report_init_ack" where
  "report_init_ack_of pkt status = \<lparr>rpia_hdr = zero_hdr\<lparr>ph_status := status\<rparr>,
     rpia_gen_device_id = rpi_gen_device_id pkt, rpia_data_id = rpi_data_id pkt\<rparr>"

definition handle_report_init :: "platform \<Rightarrow> report_init \<Rightarrow> u16 \<Rightarrow> s16 \<Rightarrow> dev \<Rightarrow> dev" where
  "handle_report_init P pkt dst_id rssi_2 d = (
     let hdr = rpi_hdr pkt; ptype = ph_device_type hdr;
         ack = (\<lambda>status. proc (send_report_init_ack P (report_init_ack_of pkt status) dst_id
                  (ph_priority hdr) (ph_tracking_id hdr))) in
     if ph_device_id hdr \<noteq> get_device_id d then d
     else if \<not> valid_device_type ptype then d
     else if \<not> init_valid pkt then ack STATUS_INVALID_PARAMETER d
     else if (get_device_type d = DEVICE_TYPE_GATEWAY \<or> get_device_type d = DEVICE_TYPE_ANCHOR) \<and>
             (ptype = DEVICE_TYPE_ANCHOR \<or> ptype = DEVICE_TYPE_SENSOR)
     then let (status, d) = validate_slot pkt d in ack status d
     else d)"

definition handle_report_init_ack :: "platform \<Rightarrow> report_init_ack \<Rightarrow> u16 \<Rightarrow> s16 \<Rightarrow> dev \<Rightarrow> dev" where
  "handle_report_init_ack P pkt dst_id rssi_2 d = (
     let hdr = rpia_hdr pkt; ptype = ph_device_type hdr; gen = rpia_gen_device_id pkt; data_id = rpia_data_id pkt in
     if ph_device_id hdr \<noteq> get_device_id d then d
     else if \<not> valid_device_type ptype then d
     else let d = d_untrack (ph_tracking_id hdr) d in
     if (get_device_type d = DEVICE_TYPE_SENSOR \<or> get_device_type d = DEVICE_TYPE_ANCHOR) \<and>
        (ptype = DEVICE_TYPE_GATEWAY \<or> ptype = DEVICE_TYPE_ANCHOR) then
       if ph_status hdr = STATUS_SUCCESS then
         (case find_sender_slot gen data_id d of
            None \<Rightarrow> fault d
          | Some k \<Rightarrow> if sd_dst_id (sender_at d k) \<noteq> dst_id then d else proc (send_next_chunk P dst_id k) d)
       else if ph_status hdr = STATUS_ALREADY_EXISTS then
         (case find_slot gen data_id d of
            None \<Rightarrow> d
          | Some idx \<Rightarrow> report_slot_free idx
              (case find_sender_slot gen data_id d of Some k \<Rightarrow> k | None \<Rightarrow> NO_SENDER) d)
       else d
     else d)"

definition handle_report_chunk :: "platform \<Rightarrow> report_chunk \<Rightarrow> u16 \<Rightarrow> s16 \<Rightarrow> dev \<Rightarrow> dev" where
  "handle_report_chunk P pkt dst_id rssi_2 d = (
     let hdr = rpc_hdr pkt; ptype = ph_device_type hdr in
     if ph_device_id hdr \<noteq> get_device_id d then d
     else if \<not> valid_device_type ptype then d
     else if (get_device_type d = DEVICE_TYPE_GATEWAY \<or> get_device_type d = DEVICE_TYPE_ANCHOR) \<and>
             (ptype = DEVICE_TYPE_ANCHOR \<or> ptype = DEVICE_TYPE_SENSOR)
     then let (status, d) = validate_report_chunk P pkt d in
       if dv_status d \<noteq> Running then d
       else proc (send_report_chunk_ack P \<lparr>rpca_hdr = zero_hdr\<lparr>ph_status := status\<rparr>,
          rpca_gen_device_id = rpc_gen_device_id pkt, rpca_data_id = rpc_data_id pkt,
          rpca_chunk_index = rpc_chunk_index pkt\<rparr> dst_id (ph_priority hdr) (ph_tracking_id hdr)) d
     else d)"

text \<open>The answer of the receiver to a chunk, for sender \<open>k\<close>.\<close>

definition report_chunk_answer :: "platform \<Rightarrow> u8 \<Rightarrow> u8 \<Rightarrow> u16 \<Rightarrow> nat \<Rightarrow> dev \<Rightarrow> dev" where
  "report_chunk_answer P status chunk dst_id k d = (
     if status = STATUS_NOT_FOUND \<or> status = STATUS_RESOURCE_UNAVAILABLE \<or> status = STATUS_CRC_FAIL then
       (case find_slot (sd_gen_device_id (sender_at d k)) (sd_data_id (sender_at d k)) d of
          None \<Rightarrow> d
        | Some idx \<Rightarrow> free_sender_slot k (upd_slot idx (\<lambda>x. x\<lparr>sl_is_sent := False\<rparr>) d))
     else if status = STATUS_FAILURE \<or> status = STATUS_INVALID_PARAMETER then
       (let (err, d) = resend_chunk P dst_id k chunk d in if err \<noteq> 0 then free_sender_slot k d else d)
     else d)"

definition report_transfer_done :: "nat \<Rightarrow> dev \<Rightarrow> dev" where
  "report_transfer_done k d = free_sender_slot k (
     case find_slot (sd_gen_device_id (sender_at d k)) (sd_data_id (sender_at d k)) d of
       None \<Rightarrow> d | Some idx \<Rightarrow> report_slot_free idx k d)"

definition handle_report_chunk_ack :: "platform \<Rightarrow> report_chunk_ack \<Rightarrow> u16 \<Rightarrow> s16 \<Rightarrow> dev \<Rightarrow> dev" where
  "handle_report_chunk_ack P pkt dst_id rssi_2 d = (
     let hdr = rpca_hdr pkt; ptype = ph_device_type hdr in
     if ph_device_id hdr \<noteq> get_device_id d then d
     else if \<not> valid_device_type ptype then d
     else let d = d_untrack (ph_tracking_id hdr) d in
     case find_sender_slot (rpca_gen_device_id pkt) (rpca_data_id pkt) d of
       None \<Rightarrow> fault d
     | Some k \<Rightarrow>
         if sd_dst_id (sender_at d k) \<noteq> dst_id then d
         else if sd_chunk_count (sender_at d k) \<le> sd_next_chunk (sender_at d k) \<and> ph_status hdr = STATUS_SUCCESS
         then report_transfer_done k d
         else if (get_device_type d = DEVICE_TYPE_ANCHOR \<or> get_device_type d = DEVICE_TYPE_SENSOR) \<and>
                 (ptype = DEVICE_TYPE_GATEWAY \<or> ptype = DEVICE_TYPE_ANCHOR)
         then report_chunk_answer P (ph_status hdr) (rpca_chunk_index pkt) dst_id k d
         else d)"

text \<open>The anchor's forwarding with the status of its acknowledgment.\<close>

definition anchor_forward_received :: "platform \<Rightarrow> report_received \<Rightarrow> dev \<Rightarrow> u8 \<times> dev" where
  "anchor_forward_received P pkt d = (
     let r = rpr_route_info pkt; next_id = ri_device_id (r ! 1) in
     if (next_id = 0xFFFF \<or> next_id = 0) \<and> ri_device_id (r ! 0) = get_device_id d then
       if find_sensor (rpr_gen_device_id pkt) d \<noteq> None
       then (STATUS_SUCCESS, proc (send_report_received P (pkt\<lparr>rpr_route_info := r[0 := no_route_entry]\<rparr>)
               (rpr_gen_device_id pkt)) d)
       else (if sensor_count d = 0 then STATUS_SUCCESS else STATUS_NOT_FOUND, d)
     else let r = next_route r in
       (STATUS_SUCCESS, proc (send_report_received P (pkt\<lparr>rpr_route_info := r\<rparr>) (ri_device_id (r ! 0))) d))"

definition handle_report_received :: "platform \<Rightarrow> report_received \<Rightarrow> u16 \<Rightarrow> s16 \<Rightarrow> dev \<Rightarrow> dev" where
  "handle_report_received P pkt dst_id rssi_2 d = (
     let hdr = rpr_hdr pkt; ptype = ph_device_type hdr;
         ack = (\<lambda>status. proc (send_report_received_ack P \<lparr>rpra_hdr = zero_hdr\<lparr>ph_status := status\<rparr>,
            rpra_gen_device_id = rpr_gen_device_id pkt, rpra_data_id = rpr_data_id pkt\<rparr> dst_id
            (ph_priority hdr) (ph_tracking_id hdr))) in
     if ph_device_id hdr \<noteq> get_device_id d then d
     else if \<not> valid_device_type ptype then d
     else if ptype \<noteq> DEVICE_TYPE_GATEWAY \<and> ptype \<noteq> DEVICE_TYPE_ANCHOR then d
     else if get_device_type d = DEVICE_TYPE_ANCHOR
       then let (status, d) = anchor_forward_received P pkt d in ack status d
     else if get_device_type d = DEVICE_TYPE_SENSOR then ack STATUS_SUCCESS d
     else d)"

definition handle_report_received_ack :: "platform \<Rightarrow> report_received_ack \<Rightarrow> u16 \<Rightarrow> s16 \<Rightarrow> dev \<Rightarrow> dev" where
  "handle_report_received_ack P pkt dst_id rssi_2 d = (
     if ph_device_id (rpra_hdr pkt) \<noteq> get_device_id d then d
     else if \<not> valid_device_type (ph_device_type (rpra_hdr pkt)) then d
     else d_untrack (ph_tracking_id (rpra_hdr pkt)) d)"

section \<open>AT commands\<close>

text \<open>The data id is cut to a byte; the count goes up even where an existing slot is reused.\<close>

definition fill_at_slot :: "at_structure \<Rightarrow> u8 \<Rightarrow> u16 \<Rightarrow> report_slot \<Rightarrow> report_slot" where
  "fill_at_slot r priority own x = (
     let len = unat (as_data_len r); chunks = word_of_nat ((len + SEND_DATA_MAX - 1) div SEND_DATA_MAX) in
     x\<lparr>sl_active := True, sl_upstream_ready := True, sl_gen_device_id := own, sl_data_id := ucast (as_data_id r),
       sl_priority := priority, sl_total_size := as_data_len r, sl_chunk_count := chunks,
       sl_last_chunk_size := word_of_nat (if len mod SEND_DATA_MAX \<noteq> 0 then len mod SEND_DATA_MAX else SEND_DATA_MAX),
       sl_crc32 := as_data_crc32 r, sl_received_count := chunks,
       sl_received := (sl_received x)[0 := True, 1 := True]\<rparr>)"

definition store_at_report :: "platform \<Rightarrow> at_structure \<Rightarrow> u8 \<Rightarrow> bytes \<Rightarrow> nat \<Rightarrow> dev \<Rightarrow> int \<times> dev" where
  "store_at_report P r priority data idx d = (
     let d = upd_slot idx (fill_at_slot r priority (get_device_id d)) d;
         d = update_report_count priority True d;
         (err, d) = d_psram_write P (slot_psram_addr idx) (take (unat (as_data_len r)) data) d in
     if err \<noteq> 0 then (err, report_slot_free idx NO_SENDER d) else (0, d))"

definition validate_at_report :: "platform \<Rightarrow> at_structure \<Rightarrow> u8 \<Rightarrow> bytes \<Rightarrow> dev \<Rightarrow> int \<times> dev" where
  "validate_at_report P r priority data d = (
     if as_data_len r = 0 \<or> MAX_REPORT_SIZE < unat (as_data_len r) then (- EINVAL, d)
     else case find_slot (get_device_id d) (ucast (as_data_id r)) d of
       Some idx \<Rightarrow> store_at_report P r priority data idx d
     | None \<Rightarrow> (case alloc_slot d of
           (None, d) \<Rightarrow> (- ENOMEM, d)
         | (Some idx, d) \<Rightarrow> store_at_report P r priority data idx d))"

text \<open>What the host's answer does to the slot that it names.\<close>

definition confirm_report :: "platform \<Rightarrow> nat \<Rightarrow> dev \<Rightarrow> int \<times> dev" where
  "confirm_report P i d = (
     let gen = sl_gen_device_id (rep_at d i); hop_num = find_hop_num gen DEVICE_TYPE_SENSOR d in
     if hop_num = 0xFF then (- ENOENT, d)
     else if hop_num = 0 then
       (0, proc (send_report_received P \<lparr>rpr_hdr = zero_hdr\<lparr>ph_status := STATUS_SUCCESS\<rparr>, rpr_gen_device_id = gen,
          rpr_data_id = sl_data_id (rep_at d i), rpr_route_info = zero_route\<rparr> gen) d)
     else (0, broadcast_route_discovery P \<lparr>rdc_hdr = zero_hdr, rdc_device_id = gen,
          rdc_device_type = DEVICE_TYPE_SENSOR, rdc_hop_num = hop_num, rdc_data_type = DATA_TYPE_REPORT,
          rdc_data_id = word_of_nat i\<rparr> d))"

definition report_slot_release_by_id :: "platform \<Rightarrow> u16 \<Rightarrow> u16 \<Rightarrow> bool \<Rightarrow> dev \<Rightarrow> int \<times> dev" where
  "report_slot_release_by_id P device_id report_id is_success d = (
     if device_id = 0xFFFF then (- EINVAL, d)
     else case find_idx (\<lambda>x. sl_gen_device_id x = device_id \<and> sl_active x \<and> sl_is_sent x \<and>
                ucast (sl_data_id x) = report_id) (rep_slots d) of
       None \<Rightarrow> (- ENOENT, d)
     | Some i \<Rightarrow>
         if is_success then confirm_report P i d
         else let d = upd_slot i (\<lambda>x. x\<lparr>sl_is_sent := False\<rparr>) d in
           (0, case find_sender_slot (sl_gen_device_id (rep_at d i)) (sl_data_id (rep_at d i)) d of
                 None \<Rightarrow> fault d | Some k \<Rightarrow> free_sender_slot k d))"

text \<open>Serial number, id, length, priority and checksum, then the payload in hex.\<close>

definition parse_report :: "platform \<Rightarrow> string \<Rightarrow> (u64 \<times> at_structure \<times> u8 \<times> bytes) option" where
  "parse_report P args = (
     case (field_hex_u64 args 0, field_hex_u64 args 1, field_hex_u64 args 2, field_hex_u64 args 3,
           field_hex_u64 args 4) of
       (Some v_sn, Some v_id, Some v_len, Some v_prio, Some v_crc) \<Rightarrow>
         if 0xFFFF < v_id \<or> v_len = 0 \<or> word_of_nat MAX_REPORT_SIZE < v_len \<or> 0xFFFFFFFF < v_crc then None
         else (case field_get 5 args of
             None \<Rightarrow> None
           | Some hex \<Rightarrow>
               if length hex \<noteq> unat v_len * 2 then None
               else (case hex_decode hex MAX_REPORT_SIZE of
                   None \<Rightarrow> None
                 | Some payload \<Rightarrow>
                     if length payload \<noteq> unat v_len \<or> pf_crc32 P payload \<noteq> ucast v_crc then None
                     else Some (v_sn, \<lparr>as_device_id = 0, as_device_type = 0, as_data_id = ucast v_id,
                            as_data_len = ucast v_len, as_data_crc32 = ucast v_crc\<rparr>, ucast v_prio, payload)))
     | _ \<Rightarrow> None)"

definition report_response :: "u64 \<Rightarrow> at_structure \<Rightarrow> string" where
  "report_response sn r = ''#REPORT:'' @ at_fields [''0x'' @ hex_fixed False 16 (unat sn),
     dec_str (unat (as_data_id r)), dec_str (unat (as_data_len r)), ''0x'' @ hex_fixed False 8 (unat (as_data_crc32 r))]"

definition cmd_report :: "platform \<Rightarrow> string \<Rightarrow> dev \<Rightarrow> dev" where
  "cmd_report P args d = (
     if get_device_type d \<noteq> DEVICE_TYPE_SENSOR then at_error P d
     else if get_connected_device_id d = 0xFFFF then at_error P d
     else case parse_report P args of
       None \<Rightarrow> at_error P d
     | Some (sn, r, priority, payload) \<Rightarrow>
         if sn \<noteq> get_serial_number d then at_error P d
         else let (err, d) = validate_at_report P r priority payload d in
         if err < 0 then at_error P d
         else at_ok P (at_send_line P (report_response sn r) d))"

definition cmd_report_ack :: "string \<Rightarrow> dev \<Rightarrow> dev" where
  "cmd_report_ack args d = (
     case (field_hex_u64 args 0, field_hex_u64 args 1) of
       (Some v_sn, Some v_id) \<Rightarrow>
         if 0xFFFF < v_id then d
         else (case find_idx (\<lambda>m. ms_serial_num m = v_sn) (mesh_devs (dv_store d)) of
             None \<Rightarrow> d
           | Some i \<Rightarrow>
               if find_hop_num (ms_device_id (mesh_at d i)) (ms_device_type (mesh_at d i)) d = 0xFF then d
               else set_at_pending_ack \<lparr>ap_data_type = DATA_TYPE_REPORT, ap_sn = v_sn, ap_id = ucast v_id,
                      ap_page = 0, ap_chunk = 0\<rparr> d)
     | _ \<Rightarrow> d)"

section \<open>Well-formedness\<close>

lemma handle_report_init_wf [wf_intros]: "dev_wf d \<Longrightarrow> dev_wf (handle_report_init P pkt i r d)"
  using validate_slot_wf[of d pkt]
  by (auto simp: handle_report_init_def Let_def split_beta intro!: wf_intros)

lemma handle_report_acks_wf [wf_intros]:
  assumes "dev_wf d"
  shows "dev_wf (handle_report_init_ack P p1 i r d)" "dev_wf (report_chunk_answer P st c i k d)"
    "dev_wf (report_transfer_done k d)" "dev_wf (handle_report_received_ack P p3 i r d)"
  using assms unfolding handle_report_init_ack_def report_chunk_answer_def report_transfer_done_def
    handle_report_received_ack_def Let_def split_beta proc_def
  by (intro wf_intros; simp add: slot_ok_def)+

lemma handle_report_chunks_wf [wf_intros]:
  assumes "dev_wf d"
  shows "dev_wf (handle_report_chunk P p1 i r d)" "dev_wf (handle_report_chunk_ack P p2 i r d)"
  using assms unfolding handle_report_chunk_def handle_report_chunk_ack_def Let_def split_beta
  by (intro wf_intros; assumption)+

lemma handle_report_received_wf [wf_intros]: "dev_wf d \<Longrightarrow> dev_wf (handle_report_received P pkt i r d)"
  unfolding handle_report_received_def anchor_forward_received_def Let_def split_beta
  by (intro wf_intros; assumption)

text \<open>A report from the host is cut into chunks that fit.\<close>

lemma fill_at_slot_ok:
  assumes "unat (as_data_len r) \<le> MAX_REPORT_SIZE" "slot_ok x"
  shows "slot_ok (fill_at_slot r p own x)"
proof -
  have "(179 + unat (as_data_len r)) div 180 \<le> 2" using assms(1) by simp
  then have "unat (word_of_nat ((179 + unat (as_data_len r)) div 180) :: u8) \<le> 2"
    by (simp add: unat_of_nat)
  moreover have "unat (as_data_len r) mod 180 \<le> 180" using mod_less_divisor[of 180 "unat (as_data_len r)"] by simp
  then have "unat (word_of_nat (unat (as_data_len r) mod 180) :: u8) \<le> 180"
    by (simp add: unat_of_nat)
  ultimately show ?thesis using assms by (simp add: slot_ok_def fill_at_slot_def Let_def)
qed

lemma validate_at_report_wf [wf_intros]: "dev_wf d \<Longrightarrow> dev_wf (snd (validate_at_report P r p data d))"
  using alloc_slot_wf[of d] fill_at_slot_ok[of r]
  by (auto simp: validate_at_report_def store_at_report_def Let_def split_beta not_less
      split: option.splits prod.splits intro!: wf_intros)

lemma report_release_wf [wf_intros]:
  assumes "dev_wf d" shows "dev_wf (snd (report_slot_release_by_id P i j b d))"
  using assms unfolding report_slot_release_by_id_def confirm_report_def Let_def
  by (intro wf_intros; simp add: slot_ok_def)

lemma report_commands_wf [wf_intros]:
  assumes "dev_wf d"
  shows "dev_wf (cmd_report P args d)" "dev_wf (cmd_report_ack args d)"
  using assms
  by (auto simp: cmd_report_def cmd_report_ack_def Let_def split_beta split: option.splits intro!: wf_intros)

end
