(* ===== verification/Routing.thy ===== *)
theory Routing
  imports Report_Handlers
begin

text \<open>
  src/mesh_layers/mesh_routing.c: the gateway asks the anchors for a route to a device, the anchor
  that knows the device answers with its own id as the first entry of the route, and every anchor
  on the way back is to add itself. The gateway reverses the collected route, puts it into the
  waiting configuration or confirmation and sends that to the first hop.
\<close>

section \<open>Building packets\<close>

text \<open>
  The route of the received packet is not copied, so the new packet's route is zero and has no
  free entry that the own id could go into.
\<close>

definition build_route_info :: "route_info \<Rightarrow> dev \<Rightarrow> route_info" where
  "build_route_info pkt d = (
     let r = zero_route in
     \<lparr>rti_hdr = zero_hdr, rti_device_id = rti_device_id pkt, rti_device_type = rti_device_type pkt,
      rti_data_type = rti_data_type pkt, rti_data_id = rti_data_id pkt,
      rti_route_info = (case find_idx (\<lambda>e. ri_device_id e = 0xFFFF \<and> ri_hop_num e = 0xFF) r of
        None \<Rightarrow> r | Some i \<Rightarrow> r[i := \<lparr>ri_device_id = get_device_id d, ri_hop_num = get_hop_number d\<rparr>])\<rparr>)"

text \<open>The entries before the first invalid one in reverse order, the rest invalid.\<close>

definition reverse_route :: "route_info_entry list \<Rightarrow> route_info_entry list" where
  "reverse_route r = (
     let n = (case find_idx (\<lambda>e. ri_device_id e = 0xFFFF) r of Some i \<Rightarrow> i | None \<Rightarrow> MAX_DEPTH) in
     rev (take n r) @ replicate (MAX_DEPTH - n) no_route_entry)"

definition empty_config :: config_t where
  "empty_config = \<lparr>cfg_hdr = zero_hdr, cfg_dst_device_id = 0, cfg_dst_device_type = 0, cfg_data_type = 0,
     cfg_data_id = 0, cfg_route_info = zero_route, cfg_config_len = 0, cfg_config_crc32 = 0,
     cfg_config = replicate MAX_CONFIG_SIZE 0\<rparr>"

text \<open>The data id of a ROUTE_INFO packet is a slot index that the network supplies.\<close>

definition build_config_pkt :: "platform \<Rightarrow> route_info \<Rightarrow> dev \<Rightarrow> config_t \<times> dev" where
  "build_config_pkt P pkt d = (
     let idx = unat (rti_data_id pkt); s = cfg_at d idx in
     if CONFIG_SLOT_COUNT \<le> idx then (empty_config, fault d)
     else if cs_is_transfered s then (empty_config, d)
     else let (err, payload, d) = d_psram_read P (config_slot_psram_addr idx) (unat (cs_config_len s)) MAX_CONFIG_SIZE d;
              c = (config_pkt_of s payload)\<lparr>cfg_dst_device_id := rti_device_id pkt,
                     cfg_dst_device_type := rti_device_type pkt, cfg_data_type := rti_data_type pkt\<rparr> in
       if err \<noteq> 0 then (c\<lparr>cfg_config_len := 0\<rparr>, d)
       else (c\<lparr>cfg_route_info := reverse_route (rti_route_info pkt)\<rparr>,
             upd_config idx (\<lambda>s. s\<lparr>cs_is_transfered := True\<rparr>) d))"

definition build_report_received_pkt :: "route_info \<Rightarrow> dev \<Rightarrow> report_received \<times> dev" where
  "build_report_received_pkt pkt d = (
     let idx = unat (rti_data_id pkt); x = rep_at d idx;
         r = \<lparr>rpr_hdr = zero_hdr, rpr_gen_device_id = 0, rpr_data_id = 0, rpr_route_info = zero_route\<rparr> in
     if DATA_SLOT_COUNT \<le> idx then (r, fault d)
     else if sl_is_transfered x then (r, d)
     else (r\<lparr>rpr_gen_device_id := rti_device_id pkt, rpr_data_id := sl_data_id x,
             rpr_route_info := reverse_route (rti_route_info pkt)\<rparr>,
           upd_slot idx (\<lambda>x. x\<lparr>sl_is_transfered := True\<rparr>) d))"

section \<open>Handlers\<close>

definition found_route :: "platform \<Rightarrow> route_discovery \<Rightarrow> dev \<Rightarrow> dev" where
  "found_route P pkt d = proc (send_route_info P
     \<lparr>rti_hdr = zero_hdr, rti_device_id = rdc_device_id pkt, rti_device_type = rdc_device_type pkt,
      rti_data_type = rdc_data_type pkt, rti_data_id = rdc_data_id pkt,
      rti_route_info = \<lparr>ri_device_id = get_device_id d, ri_hop_num = get_hop_number d\<rparr> #
        replicate (MAX_DEPTH - 1) no_route_entry\<rparr> (infra_id (infra_at d 0)) STATUS_SUCCESS) d"

definition forward_discovery :: "platform \<Rightarrow> route_discovery \<Rightarrow> u16 \<Rightarrow> dev \<Rightarrow> dev" where
  "forward_discovery P pkt dst_id d =
     foldl (\<lambda>d i. if infra_hop (infra_at d i) \<le> rdc_hop_num pkt \<and> get_hop_number d < infra_hop (infra_at d i) \<and>
                     infra_id (infra_at d i) \<noteq> dst_id
       then proc (send_route_discovery P pkt (infra_id (infra_at d i)) (ph_status (rdc_hdr pkt))) d else d)
       d [0..<infra_count d]"

definition handle_route_discovery :: "platform \<Rightarrow> route_discovery \<Rightarrow> u16 \<Rightarrow> s16 \<Rightarrow> dev \<Rightarrow> dev" where
  "handle_route_discovery P pkt dst_id rssi_2 d = (
     let hdr = rdc_hdr pkt; ptype = ph_device_type hdr in
     if ph_device_id hdr \<noteq> get_device_id d then d
     else if \<not> valid_device_type ptype then d
     else if ph_status hdr \<noteq> STATUS_SUCCESS then d
     else if get_device_type d \<noteq> DEVICE_TYPE_ANCHOR then d
     else if ptype \<noteq> DEVICE_TYPE_ANCHOR \<and> ptype \<noteq> DEVICE_TYPE_GATEWAY then d
     else proc (send_route_discovery_ack P pkt dst_id (ph_tracking_id hdr) (ph_status hdr))
       (if rdc_device_type pkt = DEVICE_TYPE_ANCHOR \<and> rdc_device_id pkt = get_device_id d then found_route P pkt d
        else if rdc_device_type pkt = DEVICE_TYPE_SENSOR then
          (if find_sensor (rdc_device_id pkt) d \<noteq> None then found_route P pkt d else d)
        else forward_discovery P pkt dst_id d))"

definition handle_route_discovery_ack :: "platform \<Rightarrow> route_discovery_ack \<Rightarrow> u16 \<Rightarrow> s16 \<Rightarrow> dev \<Rightarrow> dev" where
  "handle_route_discovery_ack P pkt dst_id rssi_2 d = (
     if ph_device_id (rda_hdr pkt) \<noteq> get_device_id d then d
     else if \<not> valid_device_type (ph_device_type (rda_hdr pkt)) then d
     else d_untrack (ph_tracking_id (rda_hdr pkt)) d)"

text \<open>The gateway's part: the status of the acknowledgment.\<close>

definition gateway_route_info :: "platform \<Rightarrow> route_info \<Rightarrow> dev \<Rightarrow> u8 \<times> dev" where
  "gateway_route_info P pkt d = (
     if rti_data_type pkt = DATA_TYPE_CONFIG then
       let (c, d) = build_config_pkt P pkt d in
       if dv_status d \<noteq> Running then (STATUS_FAILURE, d)
       else if cfg_config_len c = 0 then (STATUS_FAILURE, d)
       else (ph_status (rti_hdr pkt), proc (send_config P c (ri_device_id (cfg_route_info c ! 0)) STATUS_SUCCESS) d)
     else if rti_data_type pkt = DATA_TYPE_REPORT then
       let (r, d) = build_report_received_pkt pkt d in
       if dv_status d \<noteq> Running then (STATUS_FAILURE, d)
       else if rpr_data_id r = 0 then (STATUS_FAILURE, d)
       else (ph_status (rti_hdr pkt), proc (send_report_received P r (ri_device_id (rpr_route_info r ! 0))) d)
     else (ph_status (rti_hdr pkt), d))"

text \<open>The anchor compares the addressee's id, not the sender's type, with the type GATEWAY.\<close>

definition handle_route_info :: "platform \<Rightarrow> route_info \<Rightarrow> u16 \<Rightarrow> s16 \<Rightarrow> dev \<Rightarrow> dev" where
  "handle_route_info P pkt dst_id rssi_2 d = (
     let hdr = rti_hdr pkt; ptype = ph_device_type hdr;
         ack = (\<lambda>status d. if dv_status d \<noteq> Running then d
           else proc (send_route_info_ack P pkt dst_id (ph_tracking_id hdr) status) d) in
     if ph_device_id hdr \<noteq> get_device_id d then d
     else if \<not> valid_device_type ptype then d
     else if ph_status hdr \<noteq> STATUS_SUCCESS then d
     else if get_device_type d = DEVICE_TYPE_GATEWAY then
       (if ptype = DEVICE_TYPE_ANCHOR
        then let (status, d) = gateway_route_info P pkt d in ack status d else d)
     else if get_device_type d = DEVICE_TYPE_ANCHOR then
       (if ptype = DEVICE_TYPE_ANCHOR \<or> ph_device_id hdr = ucast DEVICE_TYPE_GATEWAY
        then ack (ph_status hdr) (proc (send_route_info P (build_route_info pkt d) (infra_id (infra_at d 0))
               STATUS_SUCCESS) d)
        else d)
     else d)"

definition handle_route_info_ack :: "platform \<Rightarrow> route_info_ack \<Rightarrow> u16 \<Rightarrow> s16 \<Rightarrow> dev \<Rightarrow> dev" where
  "handle_route_info_ack P pkt dst_id rssi_2 d = (
     if ph_device_id (ria_hdr pkt) \<noteq> get_device_id d then d
     else if \<not> valid_device_type (ph_device_type (ria_hdr pkt)) then d
     else d_untrack (ph_tracking_id (ria_hdr pkt)) d)"

section \<open>Well-formedness\<close>

lemma build_pkts_wf [wf_intros]:
  assumes "dev_wf d"
  shows "dev_wf (snd (build_config_pkt P pkt d))" "dev_wf (snd (build_report_received_pkt pkt d))"
  using assms unfolding build_config_pkt_def build_report_received_pkt_def Let_def split_beta
  by (intro wf_intros; simp add: slot_ok_def)+

lemma route_steps_wf [wf_intros]:
  assumes "dev_wf d"
  shows "dev_wf (found_route P p1 d)" "dev_wf (forward_discovery P p1 i d)" "dev_wf (snd (gateway_route_info P p2 d))"
  unfolding found_route_def forward_discovery_def gateway_route_info_def Let_def split_beta
  by (intro wf_intros; (rule assms | assumption))+

lemma route_handlers_wf [wf_intros]:
  assumes "dev_wf d"
  shows "dev_wf (handle_route_discovery P p1 i r d)" "dev_wf (handle_route_discovery_ack P p2 i r d)"
    "dev_wf (handle_route_info P p3 i r d)" "dev_wf (handle_route_info_ack P p4 i r d)"
  unfolding handle_route_discovery_def handle_route_discovery_ack_def handle_route_info_def
    handle_route_info_ack_def Let_def split_beta
  by (intro wf_intros; (rule assms | assumption))+

end
