(* ===== verification/Large_Data.thy ===== *)
theory Large_Data
  imports Reports
begin

unbundle bit_operations_syntax

text \<open>
  src/large_data.c: transfers of up to 200 KB in chunks of 180 bytes, 32 chunks to a page. A node
  holds up to 64 transfers, each in consecutive pages of a 6 MB PSRAM partition, and passes one on
  at a time; a complete transfer with the right CRC32 is ready for upstream.
\<close>

abbreviation (input) LARGE_DATA_SLOT_TIMEOUT_MS :: u32 where "LARGE_DATA_SLOT_TIMEOUT_MS \<equiv> 30000"
abbreviation (input) LD_SENDER_TIMEOUT_MS :: u32 where "LD_SENDER_TIMEOUT_MS \<equiv> 30000"
abbreviation (input) LD_CRC_VERIFY_STAGE_SIZE :: nat where "LD_CRC_VERIFY_STAGE_SIZE \<equiv> 1024"
abbreviation (input) AT_DATA_PAYLOAD_MAX :: nat where "AT_DATA_PAYLOAD_MAX \<equiv> 472"

section \<open>Slots, senders and pages\<close>

abbreviation lg_slots :: "dev \<Rightarrow> large_slot list" where "lg_slots d \<equiv> ld_slots (dv_large d)"
abbreviation lg_at :: "dev \<Rightarrow> nat \<Rightarrow> large_slot" where "lg_at d i \<equiv> lg_slots d ! i"
abbreviation lt_senders :: "dev \<Rightarrow> large_sender list" where "lt_senders d \<equiv> ld_senders (dv_large d)"
abbreviation lt_at :: "dev \<Rightarrow> nat \<Rightarrow> large_sender" where "lt_at d i \<equiv> lt_senders d ! i"
abbreviation lg_pages :: "dev \<Rightarrow> bool list" where "lg_pages d \<equiv> ld_page_empty (dv_large d)"

definition upd_large :: "(large_data \<Rightarrow> large_data) \<Rightarrow> dev \<Rightarrow> dev" where
  "upd_large f d = d\<lparr>dv_large := f (dv_large d)\<rparr>"

definition upd_lg :: "nat \<Rightarrow> (large_slot \<Rightarrow> large_slot) \<Rightarrow> dev \<Rightarrow> dev" where
  "upd_lg i f = upd_large (\<lambda>l. l\<lparr>ld_slots := (ld_slots l)[i := f (ld_slots l ! i)]\<rparr>)"

definition upd_lt :: "nat \<Rightarrow> (large_sender \<Rightarrow> large_sender) \<Rightarrow> dev \<Rightarrow> dev" where
  "upd_lt i f = upd_large (\<lambda>l. l\<lparr>ld_senders := (ld_senders l)[i := f (ld_senders l ! i)]\<rparr>)"

definition set_ld_busy :: "bool \<Rightarrow> dev \<Rightarrow> dev" where
  "set_ld_busy b = upd_large (\<lambda>l. l\<lparr>ld_busy := b\<rparr>)"

definition find_large_sender :: "u16 \<Rightarrow> u8 \<Rightarrow> dev \<Rightarrow> nat option" where
  "find_large_sender gen data_id d =
     find_idx (\<lambda>x. lt_active x \<and> lt_gen_device_id x = gen \<and> lt_data_id x = data_id) (lt_senders d)"

definition free_large_sender :: "nat \<Rightarrow> dev \<Rightarrow> dev" where
  "free_large_sender k = upd_lt k (\<lambda>x. x\<lparr>lt_active := False\<rparr>)"

definition find_large_data_slot :: "u16 \<Rightarrow> u8 \<Rightarrow> dev \<Rightarrow> nat option" where
  "find_large_data_slot gen data_id d =
     find_idx (\<lambda>x. lg_active x \<and> lg_gen_device_id x = gen \<and> lg_data_id x = data_id) (lg_slots d)"

text \<open>
  The first run of empty pages that holds \<open>sz\<close> bytes: its start and length. \<open>avail\<close> counts the
  empty pages right before page \<open>i\<close>.
\<close>

fun find_pages :: "nat \<Rightarrow> bool list \<Rightarrow> nat \<Rightarrow> nat \<Rightarrow> (nat \<times> nat) option" where
  "find_pages sz [] i avail = None"
| "find_pages sz (e # es) i avail = (
     if e then
       if sz \<le> (avail + 1) * LARGE_DATA_PAGE_SIZE then Some (i - avail, avail + 1)
       else find_pages sz es (i + 1) (avail + 1)
     else find_pages sz es (i + 1) 0)"

definition mark_pages :: "bool \<Rightarrow> nat \<Rightarrow> nat \<Rightarrow> bool list \<Rightarrow> bool list" where
  "mark_pages e start n ps = map (\<lambda>j. if start \<le> j \<and> j < start + n then e else ps ! j) [0..<length ps]"

definition page_addr :: "nat \<Rightarrow> u32" where
  "page_addr start = word_of_nat (PSRAM_LARGE_DATA_BASE + start * LARGE_DATA_PAGE_SIZE)"

lemma unat_page_addr: "i < LARGE_DATA_MAX_PAGE_COUNT \<Longrightarrow> unat (page_addr i) = PSRAM_LARGE_DATA_BASE + i * LARGE_DATA_PAGE_SIZE"
  unfolding page_addr_def unat_of_nat by simp

interpretation page_mem: slot_memory "\<lambda>i. unat (page_addr i)" LARGE_DATA_PAGE_SIZE LARGE_DATA_MAX_PAGE_COUNT
  by unfold_locales (simp_all add: unat_page_addr)

definition alloc_large_data_slot :: "nat \<Rightarrow> dev \<Rightarrow> nat option \<times> dev" where
  "alloc_large_data_slot sz d = (
     case find_idx (\<lambda>x. \<not> lg_active x) (lg_slots d) of
       None \<Rightarrow> (None, d)
     | Some idx \<Rightarrow> (case find_pages sz (lg_pages d) 0 0 of
         None \<Rightarrow> (None, d)
       | Some (start, n) \<Rightarrow> (Some idx, upd_lg idx (\<lambda>x. x\<lparr>lg_active := True, lg_base_addr := page_addr start\<rparr>)
           (upd_large (\<lambda>l. l\<lparr>ld_page_empty := mark_pages False start n (ld_page_empty l)\<rparr>) d))))"

text \<open>The pages of a slot, computed from its address and size; a page out of range is a fault.\<close>

definition slot_start :: "large_slot \<Rightarrow> nat" where
  "slot_start x = unat (ucast ((lg_base_addr x - word_of_nat PSRAM_LARGE_DATA_BASE) div word_of_nat LARGE_DATA_PAGE_SIZE) :: u16)"

definition slot_page_count :: "large_slot \<Rightarrow> nat" where
  "slot_page_count x = unat (ucast ((lg_total_size x + word_of_nat LARGE_DATA_PAGE_SIZE - 1) div word_of_nat LARGE_DATA_PAGE_SIZE) :: u16)"

definition free_large_data_slot :: "nat \<Rightarrow> nat \<Rightarrow> dev \<Rightarrow> dev" where
  "free_large_data_slot idx sender_idx d = (
     let d = upd_lg idx (\<lambda>x. x\<lparr>lg_active := False, lg_idle_timeout := nbtimeout_stop (lg_idle_timeout x)\<rparr>) d;
         start = slot_start (lg_at d idx); n = slot_page_count (lg_at d idx) in
     if 0 < n \<and> LARGE_DATA_MAX_PAGE_COUNT < start + n then fault d
     else let d = upd_large (\<lambda>l. l\<lparr>ld_page_empty := mark_pages True start n (ld_page_empty l)\<rparr>) d in
     if sender_idx < 4 then
       (if LARGE_DATA_SENDER_SLOT_COUNT \<le> sender_idx then fault d else free_large_sender sender_idx d)
     else d)"

section \<open>Sending chunks\<close>

definition chunk_size_for_large_data :: "u16 \<Rightarrow> large_sender \<Rightarrow> nat" where
  "chunk_size_for_large_data chunk_idx x = (
     if chunk_idx = lt_total_chunks x - 1 then unat (lt_last_chunk_size x) else LARGE_DATA_CHUNK_SIZE)"

text \<open>Chunk number \<open>n\<close>, named by page and index in the packet.\<close>

definition send_large_chunk_at :: "platform \<Rightarrow> u16 \<Rightarrow> nat \<Rightarrow> nat \<Rightarrow> u8 \<Rightarrow> u8 \<Rightarrow> dev \<Rightarrow> int \<times> dev" where
  "send_large_chunk_at P dst_id k n page chunk d = (
     let x = lt_at d k;
         (err, data, d) = d_psram_read P (unat (lt_base_addr x + word_of_nat n * word_of_nat LARGE_DATA_CHUNK_SIZE))
           (chunk_size_for_large_data (word_of_nat n) x) LARGE_DATA_CHUNK_SIZE d in
     if err \<noteq> 0 then (err, free_large_sender k d)
     else (0, proc (send_large_data_chunk P \<lparr>ldc_hdr = zero_hdr, ldc_gen_device_id = lt_gen_device_id x,
            ldc_data_id = lt_data_id x, ldc_page_index = page, ldc_chunk_index = chunk, ldc_data = data\<rparr>
            dst_id (lt_priority x))
          (upd_lt k (\<lambda>x. x\<lparr>lt_timeout := nbtimeout_start (dv_now d) (lt_timeout x)\<rparr>) d)))"

text \<open>The window of four chunks from \<open>next_chunk\<close> on, which stays where it is.\<close>

fun send_large_window :: "platform \<Rightarrow> u16 \<Rightarrow> nat \<Rightarrow> nat list \<Rightarrow> dev \<Rightarrow> int \<times> dev" where
  "send_large_window P dst_id k [] d = (0, d)"
| "send_large_window P dst_id k (i # is) d = (
     let n = unat (lt_next_chunk (lt_at d k)) + i in
     if unat (lt_total_chunks (lt_at d k)) \<le> n then (0, d)
     else let (err, d) = send_large_chunk_at P dst_id k n (word_of_nat (n div LARGE_DATA_CHUNKS_PER_PAGE))
                (word_of_nat (n mod LARGE_DATA_CHUNKS_PER_PAGE)) d in
     if err \<noteq> 0 then (err, d) else send_large_window P dst_id k is d)"

definition send_next_large_data_chunk :: "platform \<Rightarrow> u16 \<Rightarrow> nat \<Rightarrow> dev \<Rightarrow> int \<times> dev" where
  "send_next_large_data_chunk P dst_id k = send_large_window P dst_id k [0..<4]"

text \<open>The page and chunk come from the acknowledgment and are not checked.\<close>

definition resend_large_data_chunk :: "platform \<Rightarrow> u16 \<Rightarrow> u8 \<Rightarrow> u8 \<Rightarrow> nat \<Rightarrow> dev \<Rightarrow> int \<times> dev" where
  "resend_large_data_chunk P dst_id page chunk k =
     send_large_chunk_at P dst_id k (unat page * LARGE_DATA_CHUNKS_PER_PAGE + unat chunk) page chunk"

section \<open>Receiving\<close>

text \<open>\<open>is_sent\<close> and \<open>is_transfered\<close> keep what the slot's last transfer left in them.\<close>

definition fill_large_slot :: "large_data_init \<Rightarrow> large_slot \<Rightarrow> large_slot" where
  "fill_large_slot pkt x = x\<lparr>lg_active := True, lg_upstream_ready := False,
     lg_gen_device_id := ldi_gen_device_id pkt, lg_report_time_ms := ldi_report_time_ms pkt,
     lg_data_id := ldi_data_id pkt, lg_priority := ph_priority (ldi_hdr pkt), lg_total_size := ldi_total_size pkt,
     lg_page_count := ldi_page_count pkt, lg_last_chunk_size := ldi_last_chunk_size pkt,
     lg_crc32 := ldi_crc32 pkt, lg_received_count := 0,
     lg_total_chunks := ucast ((ldi_total_size pkt + word_of_nat LARGE_DATA_CHUNK_SIZE - 1) div word_of_nat LARGE_DATA_CHUNK_SIZE),
     lg_bitmap := replicate LARGE_DATA_BITMAP_SIZE 0,
     lg_idle_timeout := nbtimeout_init LARGE_DATA_SLOT_TIMEOUT_MS 0\<rparr>"

definition start_idle_timeout :: "nat \<Rightarrow> dev \<Rightarrow> dev" where
  "start_idle_timeout idx d = upd_lg idx (\<lambda>x. x\<lparr>lg_idle_timeout := nbtimeout_start (dv_now d) (lg_idle_timeout x)\<rparr>) d"

definition validate_large_data_slot :: "large_data_init \<Rightarrow> dev \<Rightarrow> u8 \<times> dev" where
  "validate_large_data_slot pkt d = (
     if ld_busy (dv_large d) then (STATUS_BUSY, d)
     else case find_large_data_slot (ldi_gen_device_id pkt) (ldi_data_id pkt) d of
       Some idx \<Rightarrow> (if lg_upstream_ready (lg_at d idx) then STATUS_COMPLETE else STATUS_ALREADY_EXISTS, d)
     | None \<Rightarrow> (case alloc_large_data_slot (unat (ldi_total_size pkt)) d of
         (None, d) \<Rightarrow> (STATUS_RESOURCE_UNAVAILABLE, d)
       | (Some idx, d) \<Rightarrow> (STATUS_SUCCESS,
           set_ld_busy True (start_idle_timeout idx (upd_lg idx (fill_large_slot pkt) d)))))"

definition large_data_verify_crc32 :: "platform \<Rightarrow> nat \<Rightarrow> dev \<Rightarrow> int \<times> dev" where
  "large_data_verify_crc32 P idx d = (
     let x = lg_at d idx;
         (err, crc, d) = crc_stages P LD_CRC_VERIFY_STAGE_SIZE (unat (lg_base_addr x)) (unat (lg_total_size x)) True 0 d in
     if err \<noteq> 0 then (err, d) else if crc \<noteq> lg_crc32 x then (int (unat STATUS_CRC_FAIL), d) else (0, d))"

definition chunk_received :: "large_slot \<Rightarrow> nat \<Rightarrow> bool" where
  "chunk_received x n \<longleftrightarrow> bit (lg_bitmap x ! (n div 8)) (n mod 8)"

definition mark_chunk :: "nat \<Rightarrow> large_slot \<Rightarrow> large_slot" where
  "mark_chunk n x = x\<lparr>lg_bitmap := (lg_bitmap x)[n div 8 := lg_bitmap x ! (n div 8) OR push_bit (n mod 8) 1]\<rparr>"

text \<open>After the last chunk.\<close>

definition complete_large_data :: "platform \<Rightarrow> nat \<Rightarrow> dev \<Rightarrow> u8 \<times> dev" where
  "complete_large_data P idx d = (
     let (err, d) = large_data_verify_crc32 P idx d in
     if err \<noteq> 0 then (STATUS_CRC_FAIL, set_ld_busy False (free_large_data_slot idx NO_SENDER d))
     else (STATUS_SUCCESS, set_ld_busy False (upd_lg idx (\<lambda>x. x\<lparr>lg_idle_timeout := nbtimeout_stop (lg_idle_timeout x),
            lg_upstream_ready := True\<rparr>) d)))"

definition validate_large_data_chunk :: "platform \<Rightarrow> large_data_chunk \<Rightarrow> dev \<Rightarrow> u8 \<times> dev" where
  "validate_large_data_chunk P pkt d = (
     case find_large_data_slot (ldc_gen_device_id pkt) (ldc_data_id pkt) d of
       None \<Rightarrow> (STATUS_NOT_FOUND, d)
     | Some idx \<Rightarrow>
         let x = lg_at d idx;
             n = unat (ldc_page_index pkt) * LARGE_DATA_CHUNKS_PER_PAGE + unat (ldc_chunk_index pkt);
             csz = (if int n = int (unat (lg_total_chunks x)) - 1 then unat (lg_last_chunk_size x)
                    else LARGE_DATA_CHUNK_SIZE) in
         if lg_page_count x \<le> ldc_page_index pkt \<or> LARGE_DATA_CHUNKS_PER_PAGE \<le> unat (ldc_chunk_index pkt) \<or>
            unat (lg_total_chunks x) \<le> n then (STATUS_INVALID_PARAMETER, d)
         else if chunk_received x n then (STATUS_ALREADY_EXISTS, d)
         else if LARGE_DATA_CHUNK_SIZE < csz then (STATUS_FAILURE, fault d)
         else let (err, d) = d_psram_write P (unat (lg_base_addr x + word_of_nat n * word_of_nat LARGE_DATA_CHUNK_SIZE))
                    (take csz (ldc_data pkt)) d in
         if err \<noteq> 0 then (STATUS_FAILURE, d)
         else let d = upd_lg idx (mark_chunk n) (start_idle_timeout idx
                    (upd_lg idx (\<lambda>x. x\<lparr>lg_received_count := lg_received_count x + 1\<rparr>) d)) in
         if lg_total_chunks (lg_at d idx) \<le> lg_received_count (lg_at d idx) then complete_large_data P idx d
         else (STATUS_SUCCESS, d))"

section \<open>Well-formedness\<close>

definition large_slot_ok :: "large_slot \<Rightarrow> bool" where
  "large_slot_ok x \<longleftrightarrow> length (lg_bitmap x) = LARGE_DATA_BITMAP_SIZE \<and>
     unat (lg_total_chunks x) \<le> LARGE_DATA_MAX_CHUNKS \<and> unat (lg_total_size x) \<le> LARGE_DATA_MAX_TRANSFER_SIZE"

lemma large_wf_alt: "large_wf l \<longleftrightarrow> length (ld_senders l) = LARGE_DATA_SENDER_SLOT_COUNT \<and>
    length (ld_slots l) = LARGE_DATA_RECEIVER_SLOT_COUNT \<and> length (ld_page_empty l) = LARGE_DATA_MAX_PAGE_COUNT \<and>
    list_all large_slot_ok (ld_slots l) \<and>
    - 1 \<le> ld_sender_idx_cache l \<and> ld_sender_idx_cache l < int LARGE_DATA_SENDER_SLOT_COUNT"
  by (simp add: large_wf_def large_slot_ok_def list_all_iff)

lemma dev_wf_large: "dev_wf d \<Longrightarrow> large_wf (dv_large d)"
  by (simp add: dev_wf_def)

lemma upd_large_wf: "dev_wf d \<Longrightarrow> (large_wf (dv_large d) \<Longrightarrow> large_wf (f (dv_large d))) \<Longrightarrow> dev_wf (upd_large f d)"
  by (simp add: upd_large_def dev_wf_def)

lemma lg_at_ok: "dev_wf d \<Longrightarrow> i < LARGE_DATA_RECEIVER_SLOT_COUNT \<Longrightarrow> large_slot_ok (lg_at d i)"
  by (simp add: dev_wf_def large_wf_alt list_all_length)

lemma find_large_slot_less:
  "dev_wf d \<Longrightarrow> find_large_data_slot g i d = Some idx \<Longrightarrow> idx < LARGE_DATA_RECEIVER_SLOT_COUNT"
  using find_idx_less by (fastforce simp: find_large_data_slot_def dev_wf_def large_wf_def)

lemma upd_lg_wf [wf_intros]:
  assumes "dev_wf d" "\<And>x. large_slot_ok x \<Longrightarrow> large_slot_ok (f x)"
  shows "dev_wf (upd_lg i f d)"
  unfolding upd_lg_def using assms by (auto intro!: upd_large_wf simp: large_wf_alt list_all_update)

text \<open>Most updates leave the sizes and the bitmap alone.\<close>

lemma upd_lg_flags_wf [wf_intros]:
  assumes "dev_wf d"
    "\<And>x. lg_bitmap (f x) = lg_bitmap x \<and> lg_total_chunks (f x) = lg_total_chunks x \<and> lg_total_size (f x) = lg_total_size x"
  shows "dev_wf (upd_lg i f d)"
  using assms by (intro upd_lg_wf) (auto simp: large_slot_ok_def)

lemma upd_lt_wf [wf_intros]: "dev_wf d \<Longrightarrow> dev_wf (upd_lt k f d)"
  unfolding upd_lt_def by (auto intro!: upd_large_wf simp: large_wf_def)

lemma large_flags_wf [wf_intros]:
  assumes "dev_wf d"
  shows "dev_wf (set_ld_busy b d)" "dev_wf (free_large_sender k d)" "dev_wf (start_idle_timeout i d)"
    "dev_wf (upd_large (\<lambda>l. l\<lparr>ld_page_empty := mark_pages e start n (ld_page_empty l)\<rparr>) d)"
  using assms unfolding set_ld_busy_def free_large_sender_def start_idle_timeout_def
  by (auto intro!: upd_large_wf upd_lt_wf upd_lg_flags_wf simp: large_wf_def mark_pages_def)

lemma alloc_large_data_slot_wf: "dev_wf d \<Longrightarrow> dev_wf (snd (alloc_large_data_slot sz d))"
  by (auto simp: alloc_large_data_slot_def split: option.splits intro!: upd_lg_flags_wf large_flags_wf)

lemma free_large_data_slot_wf [wf_intros]: "dev_wf d \<Longrightarrow> dev_wf (free_large_data_slot i k d)"
  unfolding free_large_data_slot_def Let_def by (intro wf_intros; simp add: large_slot_ok_def)

lemma send_large_chunk_at_wf [wf_intros]: "dev_wf d \<Longrightarrow> dev_wf (snd (send_large_chunk_at P dst k n pg c d))"
  by (auto simp: send_large_chunk_at_def Let_def split_beta intro!: wf_intros)

lemma send_large_window_wf [wf_intros]: "dev_wf d \<Longrightarrow> dev_wf (snd (send_large_window P dst k is d))"
proof (induction "is" arbitrary: d)
  case (Cons i "is")
  have "dev_wf (snd (send_large_chunk_at P dst k n pg c d))" for n pg c
    using Cons.prems by (intro wf_intros)
  then show ?case using Cons by (auto simp: Let_def split_beta)
qed simp

lemma send_large_wf [wf_intros]:
  assumes "dev_wf d"
  shows "dev_wf (snd (send_next_large_data_chunk P dst k d))" "dev_wf (snd (resend_large_data_chunk P dst pg c k d))"
  using assms unfolding send_next_large_data_chunk_def resend_large_data_chunk_def by (intro wf_intros; simp)+

text \<open>The number of chunks that \<open>sz\<close> bytes need.\<close>

lemma large_chunks_bound:
  assumes "unat (sz :: u32) \<le> LARGE_DATA_MAX_TRANSFER_SIZE"
  shows "unat (ucast ((sz + 180 - 1) div 180) :: u16) = (unat sz + 179) div 180"
    "unat (ucast ((sz + 180 - 1) div 180) :: u16) \<le> LARGE_DATA_MAX_CHUNKS"
proof -
  have e: "unat (sz + 179) = unat sz + 179"
    using assms by (simp add: unat_word_ariths(1))
  have "unat ((sz + 179) div 180) = (unat sz + 179) div 180"
    by (simp add: unat_div_distrib e)
  moreover have "(unat sz + 179) div 180 \<le> 1138" using assms by simp
  ultimately have "unat (ucast ((sz + 179) div 180) :: u16) = (unat sz + 179) div 180"
    by (simp add: unsigned_ucast_eq take_bit_eq_mod)
  then show "unat (ucast ((sz + 180 - 1) div 180) :: u16) = (unat sz + 179) div 180"
    "unat (ucast ((sz + 180 - 1) div 180) :: u16) \<le> LARGE_DATA_MAX_CHUNKS"
    using \<open>(unat sz + 179) div 180 \<le> 1138\<close> by (simp_all add: add.commute)
qed

lemma fill_large_slot_ok:
  assumes "unat (ldi_total_size pkt) \<le> LARGE_DATA_MAX_TRANSFER_SIZE"
  shows "large_slot_ok (fill_large_slot pkt x)"
  using assms large_chunks_bound(2)[OF assms] by (simp add: large_slot_ok_def fill_large_slot_def)

lemma validate_large_data_slot_wf [wf_intros]:
  assumes "dev_wf d" "unat (ldi_total_size pkt) \<le> LARGE_DATA_MAX_TRANSFER_SIZE"
  shows "dev_wf (snd (validate_large_data_slot pkt d))"
  using assms alloc_large_data_slot_wf[OF assms(1), of "unat (ldi_total_size pkt)"]
  by (auto simp: validate_large_data_slot_def fill_large_slot_ok split: option.splits prod.splits
      intro!: large_flags_wf upd_lg_wf)

lemma large_data_verify_crc32_wf [wf_intros]: "dev_wf d \<Longrightarrow> dev_wf (snd (large_data_verify_crc32 P idx d))"
  using crc_stages_wf[of d] by (auto simp: large_data_verify_crc32_def Let_def split_beta)

lemma complete_large_data_wf [wf_intros]: "dev_wf d \<Longrightarrow> dev_wf (snd (complete_large_data P idx d))"
  unfolding complete_large_data_def Let_def split_beta by (intro wf_intros; simp add: large_slot_ok_def)

lemma mark_chunk_simps [simp]: "lg_total_chunks (mark_chunk n x) = lg_total_chunks x"
  "lg_total_size (mark_chunk n x) = lg_total_size x" "length (lg_bitmap (mark_chunk n x)) = length (lg_bitmap x)"
  by (simp_all add: mark_chunk_def)

lemma validate_large_data_chunk_wf [wf_intros]: "dev_wf d \<Longrightarrow> dev_wf (snd (validate_large_data_chunk P pkt d))"
  unfolding validate_large_data_chunk_def Let_def split_beta
  by (intro wf_intros; simp add: large_slot_ok_def)

end
