(* ===== verification/Large_Handlers.thy ===== *)
theory Large_Handlers
  imports Large_Data Report_Handlers
begin

text \<open>
  src/large_data.c, continued: ticks, packet handlers and initialisation.
\<close>

section \<open>Ticks\<close>

definition be_bytes :: "nat \<Rightarrow> nat \<Rightarrow> bytes" where
  "be_bytes w v = map (\<lambda>i. word_of_nat (v div 256 ^ (w - 1 - i))) [0..<w]"

definition ldinit_crc :: "platform \<Rightarrow> u64 \<Rightarrow> large_sender \<Rightarrow> large_slot \<Rightarrow> u16" where
  "ldinit_crc P sn t x = pf_crc16_poly P 0x1021 0xFFFF (be_bytes 8 (unat sn) @ be_bytes 2 (unat (lt_data_id t)) @
     be_bytes 8 (unat (lg_report_time_ms x)) @ be_bytes 4 (unat (lt_total_size t)) @
     be_bytes 2 (unat (lt_total_chunks t)) @ be_bytes 2 (unat (lt_last_chunk_size t)) @ be_bytes 4 (unat (lg_crc32 x)))"

definition ldinit_line :: "platform \<Rightarrow> u64 \<Rightarrow> large_sender \<Rightarrow> large_slot \<Rightarrow> string" where
  "ldinit_line P sn t x = CRLF @ ''AT#LDINIT='' @
     at_fields [hex_fixed True 16 (unat sn), hex_fixed True 4 (unat (lt_data_id t)),
       hex_fixed False 16 (unat (lg_report_time_ms x)), hex_min True 4 (unat (lt_total_size t)),
       hex_fixed True 4 (unat (lt_total_chunks t)), hex_fixed True 4 (unat (lt_last_chunk_size t)),
       hex_fixed True 8 (unat (lg_crc32 x)), hex_fixed True 4 (unat (ldinit_crc P sn t x))] @ CRLF"

text \<open>True where the line went out.\<close>

definition send_at_large_data_init :: "platform \<Rightarrow> nat \<Rightarrow> nat \<Rightarrow> dev \<Rightarrow> bool \<times> dev" where
  "send_at_large_data_init P k idx d = (
     let t = lt_at d k; m = find_mesh (lt_gen_device_id t) d in
     if get_device_type d \<noteq> DEVICE_TYPE_GATEWAY \<or> \<not> lt_active t then (False, d)
     else if m = None \<and> mesh_count d \<noteq> 0 then
       (False, case find_large_data_slot (lt_gen_device_id t) (lt_data_id t) d of
          None \<Rightarrow> d | Some i \<Rightarrow> free_large_data_slot i k d)
     else let sn_idx = (case m of Some i \<Rightarrow> i | None \<Rightarrow> 0);
              line = ldinit_line P (ms_serial_num (mesh_at d sn_idx)) t (lg_at d idx) in
       if SLM_UART_AT_COMMAND_LEN \<le> length line then (False, d)
       else let (tx_err, d) = slm_at_tx_write P line d in (tx_err = 0, d))"

definition next_large_slot :: "dev \<Rightarrow> nat option" where
  "next_large_slot d = find_idx (\<lambda>x. lg_active x \<and> lg_upstream_ready x \<and> \<not> lg_is_sent x) (lg_slots d)"

text \<open>Towards the host the data is cut into pieces of 472 bytes. Destination and timeout stay as they are.\<close>

definition fill_gateway_sender :: "large_slot \<Rightarrow> large_sender \<Rightarrow> large_sender" where
  "fill_gateway_sender s x = (
     let total_chunks = ucast ((lg_total_size s + word_of_nat AT_DATA_PAYLOAD_MAX - 1) div word_of_nat AT_DATA_PAYLOAD_MAX) :: u16 in
     x\<lparr>lt_active := True, lt_gen_device_id := lg_gen_device_id s, lt_data_id := lg_data_id s,
       lt_priority := lg_priority s, lt_total_size := lg_total_size s, lt_total_chunks := total_chunks,
       lt_page_count := word_of_nat ((unat total_chunks + LARGE_DATA_CHUNKS_PER_PAGE - 1) div LARGE_DATA_CHUNKS_PER_PAGE),
       lt_last_chunk_size := ucast (lg_total_size s - (ucast total_chunks - 1) * word_of_nat AT_DATA_PAYLOAD_MAX),
       lt_next_chunk := 0, lt_crc32 := lg_crc32 s, lt_base_addr := lg_base_addr s\<rparr>)"

definition gateway_large_step :: "platform \<Rightarrow> nat \<Rightarrow> dev \<Rightarrow> bool \<times> dev" where
  "gateway_large_step P k d = (
     if lt_active (lt_at d k) then (False, d)
     else case next_large_slot d of
       None \<Rightarrow> (False, d)
     | Some idx \<Rightarrow>
         let (ok, d) = send_at_large_data_init P k idx (upd_lt k (fill_gateway_sender (lg_at d idx)) d) in
         if \<not> ok then (False, free_large_sender k d)
         else (True, upd_lg idx (\<lambda>x. x\<lparr>lg_is_sent := True\<rparr>) d))"

text \<open>
  Anchors and sensors. Only the anchor sends a transfer again after its sender timed out, and
  both free a slot whose description is invalid.
\<close>

definition fill_large_sender :: "u16 \<Rightarrow> large_slot \<Rightarrow> large_sender \<Rightarrow> large_sender" where
  "fill_large_sender dst s x = x\<lparr>lt_active := True, lt_dst_id := dst, lt_gen_device_id := lg_gen_device_id s,
     lt_data_id := lg_data_id s, lt_priority := lg_priority s, lt_total_size := lg_total_size s,
     lt_page_count := ucast (lg_page_count s), lt_last_chunk_size := lg_last_chunk_size s,
     lt_total_chunks := lg_total_chunks s, lt_next_chunk := 0, lt_crc32 := lg_crc32 s,
     lt_base_addr := lg_base_addr s\<rparr>"

definition large_init_of :: "large_slot \<Rightarrow> s64 \<Rightarrow> large_data_init" where
  "large_init_of s now = \<lparr>ldi_hdr = zero_hdr, ldi_gen_device_id = lg_gen_device_id s, ldi_data_id = lg_data_id s,
     ldi_report_time_ms = now, ldi_total_size = lg_total_size s, ldi_page_count = lg_page_count s,
     ldi_last_chunk_size = lg_last_chunk_size s, ldi_crc32 = lg_crc32 s\<rparr>"

definition restart_large_timeout :: "nat \<Rightarrow> dev \<Rightarrow> dev" where
  "restart_large_timeout k d =
     upd_lt k (\<lambda>x. x\<lparr>lt_timeout := nbtimeout_start (dv_now d) (nbtimeout_init LD_SENDER_TIMEOUT_MS 0)\<rparr>) d"

definition start_large :: "platform \<Rightarrow> nat \<Rightarrow> nat \<Rightarrow> dev \<Rightarrow> dev" where
  "start_large P k idx d = (
     let s = lg_at d idx; dst = infra_id (infra_at d 0);
         d = upd_lt k (fill_large_sender dst s) d;
         d = proc (send_large_data_init P (large_init_of s (dv_now d)) dst (lg_priority s)) d in
     upd_lg idx (\<lambda>x. x\<lparr>lg_is_sent := True\<rparr>) (restart_large_timeout k d))"

definition large_sender_timeout :: "bool \<Rightarrow> nat \<Rightarrow> dev \<Rightarrow> dev" where
  "large_sender_timeout is_anchor k d = (
     let x = lt_at d k in
     if nbtimeout_expired (dv_now d) (lt_timeout x) then
       upd_lt k (\<lambda>x. x\<lparr>lt_timeout := nbtimeout_stop (lt_timeout x), lt_active := False\<rparr>)
         (case find_large_data_slot (lt_gen_device_id x) (lt_data_id x) d of
            Some idx \<Rightarrow> if is_anchor then upd_lg idx (\<lambda>x. x\<lparr>lg_is_sent := False\<rparr>) d else d
          | None \<Rightarrow> d)
     else d)"

definition invalid_large :: "large_slot \<Rightarrow> bool" where
  "invalid_large s \<longleftrightarrow> lg_gen_device_id s = 0 \<or> lg_data_id s = 0 \<or> lg_total_size s = 0 \<or> lg_page_count s = 0 \<or>
     lg_total_chunks s = 0 \<or> lg_last_chunk_size s = 0 \<or> lg_crc32 s = 0 \<or> lg_base_addr s = 0"

definition large_sender_step :: "platform \<Rightarrow> bool \<Rightarrow> nat \<Rightarrow> dev \<Rightarrow> bool \<times> dev" where
  "large_sender_step P is_anchor k d = (
     if lt_active (lt_at d k) then (True, large_sender_timeout is_anchor k d)
     else case next_large_slot d of
       None \<Rightarrow> (False, d)
     | Some idx \<Rightarrow>
         if invalid_large (lg_at d idx) then (False, free_large_data_slot idx NO_SENDER d)
         else (True, start_large P k idx d))"

definition gateway_large_data_tick :: "platform \<Rightarrow> dev \<Rightarrow> dev" where
  "gateway_large_data_tick P d = (if get_device_type d \<noteq> DEVICE_TYPE_GATEWAY then d
     else loop_steps (gateway_large_step P) [0..<LARGE_DATA_SENDER_SLOT_COUNT] d)"

definition anchor_large_data_tick :: "platform \<Rightarrow> dev \<Rightarrow> dev" where
  "anchor_large_data_tick P d = (if get_device_type d \<noteq> DEVICE_TYPE_ANCHOR then d
     else loop_steps (large_sender_step P True) [0..<LARGE_DATA_SENDER_SLOT_COUNT] d)"

definition sensor_large_data_tick :: "platform \<Rightarrow> dev \<Rightarrow> dev" where
  "sensor_large_data_tick P d = (if get_device_type d \<noteq> DEVICE_TYPE_SENSOR then d
     else loop_steps (large_sender_step P False) [0..<LARGE_DATA_SENDER_SLOT_COUNT] d)"

definition large_data_tick :: "platform \<Rightarrow> dev \<Rightarrow> dev" where
  "large_data_tick P d = (
     if get_device_type d = DEVICE_TYPE_GATEWAY then gateway_large_data_tick P d
     else if get_device_type d = DEVICE_TYPE_ANCHOR then anchor_large_data_tick P d
     else if get_device_type d = DEVICE_TYPE_SENSOR then sensor_large_data_tick P d
     else d)"

text \<open>The senders and the busy flag are not reset.\<close>

definition large_data_init :: "dev \<Rightarrow> dev" where
  "large_data_init = upd_large (\<lambda>l. l\<lparr>ld_slots := map (\<lambda>x. x\<lparr>lg_active := False\<rparr>) (ld_slots l),
     ld_page_empty := replicate LARGE_DATA_MAX_PAGE_COUNT True\<rparr>)"

section \<open>Handlers\<close>

definition large_init_invalid :: "large_data_init \<Rightarrow> bool" where
  "large_init_invalid pkt \<longleftrightarrow> ldi_total_size pkt = 0 \<or> LARGE_DATA_MAX_TRANSFER_SIZE < unat (ldi_total_size pkt) \<or>
     ldi_page_count pkt = 0 \<or> ldi_last_chunk_size pkt = 0 \<or> LARGE_DATA_CHUNK_SIZE < unat (ldi_last_chunk_size pkt)"

definition handle_large_data_init :: "platform \<Rightarrow> large_data_init \<Rightarrow> u16 \<Rightarrow> s16 \<Rightarrow> dev \<Rightarrow> dev" where
  "handle_large_data_init P pkt dst_id rssi_2 d = (
     let hdr = ldi_hdr pkt; ptype = ph_device_type hdr;
         ack = (\<lambda>status. proc (send_large_data_init_ack P \<lparr>ldia_hdr = zero_hdr\<lparr>ph_status := status\<rparr>,
            ldia_gen_device_id = ldi_gen_device_id pkt, ldia_data_id = ldi_data_id pkt\<rparr> dst_id
            PACKET_PRIORITY_HIGH (ph_tracking_id hdr))) in
     if ph_device_id hdr \<noteq> get_device_id d then d
     else if \<not> valid_device_type ptype then d
     else if large_init_invalid pkt then ack STATUS_INVALID_PARAMETER d
     else if (get_device_type d = DEVICE_TYPE_GATEWAY \<or> get_device_type d = DEVICE_TYPE_ANCHOR) \<and>
             (ptype = DEVICE_TYPE_ANCHOR \<or> ptype = DEVICE_TYPE_SENSOR)
     then let (status, d) = validate_large_data_slot pkt d in ack status d
     else d)"

definition large_init_answer :: "platform \<Rightarrow> u8 \<Rightarrow> u16 \<Rightarrow> nat \<Rightarrow> nat \<Rightarrow> dev \<Rightarrow> dev" where
  "large_init_answer P status dst_id k idx d = (
     if status = STATUS_BUSY then upd_lg idx (\<lambda>x. x\<lparr>lg_is_sent := False\<rparr>) (restart_large_timeout k d)
     else if status = STATUS_SUCCESS \<or> status = STATUS_ALREADY_EXISTS then
       (if lt_dst_id (lt_at d k) \<noteq> dst_id then d else proc (send_next_large_data_chunk P dst_id k) d)
     else if status = STATUS_COMPLETE then
       set_ld_busy False (upd_lg idx (\<lambda>x. x\<lparr>lg_is_transfered := True\<rparr>) (free_large_sender k d))
     else d)"

text \<open>Without a sender the index is 255.\<close>

definition handle_large_data_init_ack :: "platform \<Rightarrow> large_data_init_ack \<Rightarrow> u16 \<Rightarrow> s16 \<Rightarrow> dev \<Rightarrow> dev" where
  "handle_large_data_init_ack P pkt dst_id rssi_2 d = (
     let hdr = ldia_hdr pkt; ptype = ph_device_type hdr in
     if ph_device_id hdr \<noteq> get_device_id d then d
     else if \<not> valid_device_type ptype then d
     else let d = d_untrack (ph_tracking_id hdr) d in
     if (get_device_type d = DEVICE_TYPE_ANCHOR \<or> get_device_type d = DEVICE_TYPE_SENSOR) \<and>
        (ptype = DEVICE_TYPE_GATEWAY \<or> ptype = DEVICE_TYPE_ANCHOR) then
       (case find_large_sender (ldia_gen_device_id pkt) (ldia_data_id pkt) d of
          None \<Rightarrow> fault d
        | Some k \<Rightarrow> (case find_large_data_slot (lt_gen_device_id (lt_at d k)) (lt_data_id (lt_at d k)) d of
            None \<Rightarrow> d
          | Some idx \<Rightarrow> large_init_answer P (ph_status hdr) dst_id k idx d))
     else d)"

definition handle_large_data_chunk :: "platform \<Rightarrow> large_data_chunk \<Rightarrow> u16 \<Rightarrow> s16 \<Rightarrow> dev \<Rightarrow> dev" where
  "handle_large_data_chunk P pkt dst_id rssi_2 d = (
     let hdr = ldc_hdr pkt; ptype = ph_device_type hdr in
     if ph_device_id hdr \<noteq> get_device_id d then d
     else if \<not> valid_device_type ptype then d
     else if (get_device_type d = DEVICE_TYPE_GATEWAY \<or> get_device_type d = DEVICE_TYPE_ANCHOR) \<and>
             (ptype = DEVICE_TYPE_ANCHOR \<or> ptype = DEVICE_TYPE_SENSOR)
     then let (status, d) = validate_large_data_chunk P pkt d in
       if dv_status d \<noteq> Running then d
       else proc (send_large_data_chunk_ack P \<lparr>ldca_hdr = zero_hdr\<lparr>ph_status := status\<rparr>,
          ldca_gen_device_id = ldc_gen_device_id pkt, ldca_data_id = ldc_data_id pkt,
          ldca_page_index = ldc_page_index pkt, ldca_chunk_index = ldc_chunk_index pkt\<rparr> dst_id
          (ph_priority hdr) (ph_tracking_id hdr)) d
     else d)"

text \<open>The sender stops and its transfer is to be announced again.\<close>

definition restart_large :: "nat \<Rightarrow> dev \<Rightarrow> dev" where
  "restart_large k d = (
     let d = free_large_sender k d in
     case find_large_data_slot (lt_gen_device_id (lt_at d k)) (lt_data_id (lt_at d k)) d of
       None \<Rightarrow> d | Some idx \<Rightarrow> upd_lg idx (\<lambda>x. x\<lparr>lg_is_sent := False\<rparr>) d)"

text \<open>One more chunk is answered; after every fourth answer the next window goes out.\<close>

definition large_window_step :: "platform \<Rightarrow> u16 \<Rightarrow> nat \<Rightarrow> dev \<Rightarrow> dev" where
  "large_window_step P dst_id k d = (
     let d = upd_lt k (\<lambda>x. x\<lparr>lt_next_chunk := lt_next_chunk x + 1\<rparr>) d in
     if lt_next_chunk (lt_at d k) mod 4 \<noteq> 0 then d
     else let (err, d) = send_next_large_data_chunk P dst_id k d in if err \<noteq> 0 then restart_large k d else d)"

definition large_chunk_answer :: "platform \<Rightarrow> u8 \<Rightarrow> u8 \<Rightarrow> u8 \<Rightarrow> u16 \<Rightarrow> nat \<Rightarrow> dev \<Rightarrow> dev" where
  "large_chunk_answer P status page chunk dst_id k d = (
     if status = STATUS_NOT_FOUND \<or> status = STATUS_RESOURCE_UNAVAILABLE \<or> status = STATUS_CRC_FAIL
     then restart_large k d
     else if status = STATUS_FAILURE \<or> status = STATUS_INVALID_PARAMETER then
       let (err, d) = resend_large_data_chunk P dst_id page chunk k d in
       if err \<noteq> 0 then free_large_sender k d else large_window_step P dst_id k d
     else large_window_step P dst_id k d)"

definition last_chunk_ack :: "large_data_chunk_ack \<Rightarrow> large_sender \<Rightarrow> bool" where
  "last_chunk_ack pkt t \<longleftrightarrow>
     (ph_status (ldca_hdr pkt) = STATUS_SUCCESS \<or> ph_status (ldca_hdr pkt) = STATUS_ALREADY_EXISTS) \<and>
     int (unat (ldca_page_index pkt)) = int (unat (lt_page_count t)) - 1 \<and>
     0 < lt_total_chunks t \<and>
     unat (ldca_chunk_index pkt) = (unat (lt_total_chunks t) - 1) mod LARGE_DATA_CHUNKS_PER_PAGE"

definition handle_large_data_chunk_ack :: "platform \<Rightarrow> large_data_chunk_ack \<Rightarrow> u16 \<Rightarrow> s16 \<Rightarrow> dev \<Rightarrow> dev" where
  "handle_large_data_chunk_ack P pkt dst_id rssi_2 d = (
     let hdr = ldca_hdr pkt; ptype = ph_device_type hdr in
     if ph_device_id hdr \<noteq> get_device_id d then d
     else if \<not> valid_device_type ptype then d
     else let d = d_untrack (ph_tracking_id hdr) d in
     case find_large_sender (ldca_gen_device_id pkt) (ldca_data_id pkt) d of
       None \<Rightarrow> fault d
     | Some k \<Rightarrow>
         if lt_dst_id (lt_at d k) \<noteq> dst_id then d
         else if last_chunk_ack pkt (lt_at d k) then
           (let d = restart_large_timeout k d in
            case find_large_data_slot (lt_gen_device_id (lt_at d k)) (lt_data_id (lt_at d k)) d of
              None \<Rightarrow> d | Some idx \<Rightarrow> upd_lg idx (\<lambda>x. x\<lparr>lg_is_sent := True\<rparr>) d)
         else if (get_device_type d = DEVICE_TYPE_ANCHOR \<or> get_device_type d = DEVICE_TYPE_SENSOR) \<and>
                 (ptype = DEVICE_TYPE_GATEWAY \<or> ptype = DEVICE_TYPE_ANCHOR)
         then large_chunk_answer P (ph_status hdr) (ldca_page_index pkt) (ldca_chunk_index pkt) dst_id k d
         else d)"

text \<open>Every branch of the handler only logs.\<close>

definition handle_large_data_received :: "platform \<Rightarrow> large_data_received \<Rightarrow> u16 \<Rightarrow> s16 \<Rightarrow> dev \<Rightarrow> dev" where
  "handle_large_data_received P pkt dst_id rssi_2 d = d"

section \<open>Well-formedness\<close>

lemma restart_large_timeout_wf [wf_intros]: "dev_wf d \<Longrightarrow> dev_wf (restart_large_timeout k d)"
  unfolding restart_large_timeout_def by (intro wf_intros)

lemma send_at_large_data_init_wf [wf_intros]: "dev_wf d \<Longrightarrow> dev_wf (snd (send_at_large_data_init P k idx d))"
  unfolding send_at_large_data_init_def Let_def split_beta by (intro wf_intros; assumption)

lemma large_ticks_wf [wf_intros]:
  assumes "dev_wf d"
  shows "dev_wf (snd (gateway_large_step P k d))" "dev_wf (start_large P k i d)"
    "dev_wf (large_sender_timeout b k d)"
  unfolding gateway_large_step_def start_large_def large_sender_timeout_def Let_def split_beta
  by (intro wf_intros; (rule assms | assumption | simp add: large_slot_ok_def))+

lemma large_sender_step_wf [wf_intros]: "dev_wf d \<Longrightarrow> dev_wf (snd (large_sender_step P b k d))"
  unfolding large_sender_step_def by (intro wf_intros; assumption)

lemma large_data_tick_wf [wf_intros]: "dev_wf d \<Longrightarrow> dev_wf (large_data_tick P d)"
  unfolding large_data_tick_def gateway_large_data_tick_def anchor_large_data_tick_def sensor_large_data_tick_def
  by (intro wf_intros; assumption)

lemma large_data_init_wf [wf_intros]: "dev_wf d \<Longrightarrow> dev_wf (large_data_init d)"
  unfolding large_data_init_def by (rule upd_large_wf) (auto simp: large_wf_def)

lemma handle_large_data_init_wf [wf_intros]: "dev_wf d \<Longrightarrow> dev_wf (handle_large_data_init P pkt i r d)"
  using validate_large_data_slot_wf[of d pkt]
  by (auto simp: handle_large_data_init_def large_init_invalid_def Let_def split_beta intro!: wf_intros)

lemma large_answers_wf [wf_intros]:
  assumes "dev_wf d"
  shows "dev_wf (large_init_answer P st i k idx d)" "dev_wf (restart_large k d)" "dev_wf (large_window_step P i k d)"
    "dev_wf (large_chunk_answer P st pg c i k d)"
  unfolding large_init_answer_def large_chunk_answer_def large_window_step_def restart_large_def Let_def
    split_beta proc_def
  by (intro wf_intros; (rule assms | assumption | simp add: large_slot_ok_def))+

lemma large_handlers_wf [wf_intros]:
  assumes "dev_wf d"
  shows "dev_wf (handle_large_data_init_ack P p1 i r d)" "dev_wf (handle_large_data_chunk P p2 i r d)"
    "dev_wf (handle_large_data_chunk_ack P p3 i r d)"
  unfolding handle_large_data_init_ack_def handle_large_data_chunk_def handle_large_data_chunk_ack_def
    Let_def split_beta
  by (intro wf_intros; (rule assms | assumption | simp add: large_slot_ok_def))+

lemma handle_large_data_received_wf [wf_intros]: "dev_wf d \<Longrightarrow> dev_wf (handle_large_data_received P pkt i r d)"
  by (simp add: handle_large_data_received_def)

end
