(* ===== verification/Large_At.thy ===== *)
theory Large_At
  imports Large_Handlers
begin

text \<open>
  The AT commands of src/large_data.c: a sensor's host announces a transfer with AT#LDINIT and
  delivers it with AT#LD; the gateway announces to its own host and delivers one piece for every
  OK. Pieces on the serial line have 472 bytes.
\<close>

section \<open>From the gateway to its host\<close>

text \<open>The field of the serial number holds the cached device id.\<close>

definition ld_line :: "u16 \<Rightarrow> large_sender \<Rightarrow> int \<Rightarrow> int \<Rightarrow> bytes \<Rightarrow> string" where
  "ld_line cache t page chunk payload = CRLF @ ''AT#LD='' @
     at_fields [hex_fixed True 16 (unat cache), hex_fixed True 4 (unat (lt_data_id t)),
       hex_fixed True 4 (nat page), hex_fixed True 4 (nat chunk), hex_bytes payload] @ CRLF"

definition at_send_next_chunk :: "platform \<Rightarrow> int \<Rightarrow> int \<Rightarrow> int \<Rightarrow> dev \<Rightarrow> bool \<times> dev" where
  "at_send_next_chunk P sender_idx page chunk d = (
     let t = lt_at d (nat sender_idx);
         linear = word_of_int (page * int LARGE_DATA_CHUNKS_PER_PAGE + chunk) :: u16 in
     if sender_idx < 0 \<or> int LARGE_DATA_SENDER_SLOT_COUNT \<le> sender_idx then (False, d)
     else if \<not> lt_active t then (False, d)
     else if page < 0 \<or> int (unat (lt_page_count t)) \<le> page then (False, d)
     else if chunk < 0 \<or> int LARGE_DATA_CHUNKS_PER_PAGE \<le> chunk then (False, d)
     else if lt_total_chunks t \<le> linear \<or> lt_total_chunks t \<le> lt_next_chunk t then (False, d)
     else let csz = (if int (unat linear) = int (unat (lt_total_chunks t)) - 1 then unat (lt_last_chunk_size t)
                     else AT_DATA_PAYLOAD_MAX);
              (err, payload, d) = d_psram_read P (unat (lt_base_addr t + ucast linear * word_of_nat AT_DATA_PAYLOAD_MAX))
                csz AT_DATA_PAYLOAD_MAX d;
              line = ld_line (ld_device_id_cache (dv_large d)) t page chunk (take csz payload) in
     if err \<noteq> 0 then (False, d)
     else if SLM_UART_AT_COMMAND_LEN < length line then (False, d)
     else let (tx_err, d) = slm_at_tx_write P line d in (tx_err = 0, d))"

definition set_ld_caches :: "u16 \<Rightarrow> int \<Rightarrow> dev \<Rightarrow> dev" where
  "set_ld_caches i k = upd_large (\<lambda>l. l\<lparr>ld_device_id_cache := i, ld_sender_idx_cache := k\<rparr>)"

definition ld_pending :: "u64 \<Rightarrow> u64 \<Rightarrow> s8 \<Rightarrow> s8 \<Rightarrow> at_pending_ack" where
  "ld_pending v_sn v_id page chunk = \<lparr>ap_data_type = DATA_TYPE_LARGE_DATA, ap_sn = v_sn,
     ap_id = ucast (ucast v_id :: u8), ap_page = page, ap_chunk = chunk\<rparr>"

text \<open>
  The echo of the announcement (\<open>Some args\<close>) makes the acknowledgment pending; the OK that follows
  (\<open>None\<close>) starts the delivery. With an empty mesh table the caches keep their old values.
\<close>

definition cmd_ld_init_ack :: "platform \<Rightarrow> string option \<Rightarrow> dev \<Rightarrow> dev" where
  "cmd_ld_init_ack P arg d = (case arg of
     None \<Rightarrow> snd (at_send_next_chunk P (ld_sender_idx_cache (dv_large d)) 0 0 d)
   | Some args \<Rightarrow> (case (field_hex_u64 args 0, field_hex_u64 args 1, field_hex_u64 args 2, field_hex_u64 args 3) of
       (Some v_sn, Some v_id, Some v_total, Some v_chunks) \<Rightarrow>
         let pend = set_at_pending_ack (ld_pending v_sn v_id (- 1) (- 1)) in
         (case find_idx (\<lambda>m. ms_serial_num m = v_sn) (mesh_devs (dv_store d)) of
            None \<Rightarrow> if mesh_count d = 0 then pend d else d
          | Some i \<Rightarrow> let dev_id = ms_device_id (mesh_at d i) in
              (case find_large_sender dev_id (ucast v_id) d of
                 None \<Rightarrow> set_ld_caches (ld_device_id_cache (dv_large d)) (- 1) d
               | Some k \<Rightarrow> pend (set_ld_caches dev_id (int k) d)))
     | _ \<Rightarrow> d))"

text \<open>A cached index of -1 is used without a check.\<close>

definition ld_next_piece :: "platform \<Rightarrow> nat \<Rightarrow> dev \<Rightarrow> dev" where
  "ld_next_piece P k d = (
     let t = lt_at d k in
     if lt_total_chunks t - 1 \<le> lt_next_chunk t then
       let d = free_large_sender k d in
       (case find_large_data_slot (lt_gen_device_id t) (lt_data_id t) d of
          None \<Rightarrow> d | Some idx \<Rightarrow> upd_lg idx (\<lambda>x. x\<lparr>lg_is_transfered := True\<rparr>) d)
     else let d = upd_lt k (\<lambda>x. x\<lparr>lt_next_chunk := lt_next_chunk x + 1\<rparr>) d;
              n = unat (lt_next_chunk (lt_at d k)) in
       snd (at_send_next_chunk P (int k) (int (n div LARGE_DATA_CHUNKS_PER_PAGE))
         (int (n mod LARGE_DATA_CHUNKS_PER_PAGE)) d))"

definition cmd_ld_chunk_ack :: "platform \<Rightarrow> string option \<Rightarrow> dev \<Rightarrow> dev" where
  "cmd_ld_chunk_ack P arg d = (
     let cache = ld_sender_idx_cache (dv_large d) in
     case arg of
       None \<Rightarrow> if cache < 0 then fault d else ld_next_piece P (nat cache) d
     | Some args \<Rightarrow>
         (case (field_hex_u64 args 0, field_hex_u64 args 1, field_hex_u64 args 2, field_hex_u64 args 3) of
            (Some v_sn, Some v_id, Some v_page, Some v_chunk) \<Rightarrow>
              if cache < 0 then fault d
              else if lt_data_id (lt_at d (nat cache)) \<noteq> ucast v_id then d
              else if ucast (lt_page_count (lt_at d (nat cache))) \<le> v_page then d
              else if word_of_nat LARGE_DATA_CHUNKS_PER_PAGE \<le> v_chunk then d
              else set_at_pending_ack (ld_pending v_sn v_id (ucast v_page) (ucast v_chunk)) d
          | _ \<Rightarrow> d))"

section \<open>From the sensor's host\<close>

text \<open>The announcement: length, number of pieces and size of the last must agree.\<close>

record ld_announce =
  la_sn :: u64
  la_id :: u64
  la_total :: u64
  la_chunks :: u64
  la_last :: u64
  la_crc32 :: u64
  la_crc16 :: u64

definition parse_ld_init :: "string \<Rightarrow> ld_announce option" where
  "parse_ld_init args = (
     case (field_hex_u64 args 0, field_hex_u64 args 1, field_hex_u64 args 2, field_hex_u64 args 3,
           field_hex_u64 args 4, field_hex_u64 args 5, field_hex_u64 args 6) of
       (Some v_sn, Some v_id, Some v_total, Some v_chunks, Some v_last, Some v_crc32, Some v_crc16) \<Rightarrow>
         Some \<lparr>la_sn = v_sn, la_id = v_id, la_total = v_total, la_chunks = v_chunks, la_last = v_last,
           la_crc32 = v_crc32, la_crc16 = v_crc16\<rparr>
     | _ \<Rightarrow> None)"

definition ld_init_crc :: "platform \<Rightarrow> ld_announce \<Rightarrow> u16" where
  "ld_init_crc P a = pf_crc16_poly P 0x1021 0xFFFF (be_bytes 8 (unat (la_sn a)) @
     be_bytes 2 (unat (ucast (la_id a) :: u16)) @ be_bytes 4 (unat (ucast (la_total a) :: u32)) @
     be_bytes 2 (unat (ucast (la_chunks a) :: u16)) @ be_bytes 2 (unat (ucast (la_last a) :: u16)) @
     be_bytes 4 (unat (ucast (la_crc32 a) :: u32)))"

definition ld_init_valid :: "ld_announce \<Rightarrow> bool" where
  "ld_init_valid a \<longleftrightarrow> \<not> (0xFF < la_id a \<or> la_total a = 0 \<or> word_of_nat LARGE_DATA_MAX_TRANSFER_SIZE < la_total a \<or>
       la_chunks a = 0 \<or> 0xFFFF < la_chunks a \<or> 0xFFFFFFFF < la_crc32 a \<or>
       la_last a = 0 \<or> word_of_nat AT_DATA_PAYLOAD_MAX < la_last a) \<and>
     la_total a = (la_chunks a - 1) * word_of_nat AT_DATA_PAYLOAD_MAX + la_last a"

definition fill_at_large :: "ld_announce \<Rightarrow> u16 \<Rightarrow> s64 \<Rightarrow> large_slot \<Rightarrow> large_slot" where
  "fill_at_large a own now x = x\<lparr>lg_upstream_ready := False, lg_is_sent := False, lg_is_transfered := False,
     lg_gen_device_id := own, lg_data_id := ucast (la_id a), lg_priority := PACKET_PRIORITY_HIGH,
     lg_total_size := ucast (la_total a), lg_total_chunks := ucast (la_chunks a),
     lg_last_chunk_size := ucast (la_last a),
     lg_page_count := ucast ((la_chunks a + word_of_nat LARGE_DATA_CHUNKS_PER_PAGE - 1) div word_of_nat LARGE_DATA_CHUNKS_PER_PAGE),
     lg_crc32 := ucast (la_crc32 a), lg_received_count := 0,
     lg_idle_timeout := nbtimeout_start now (nbtimeout_init LARGE_DATA_SLOT_TIMEOUT_MS 0)\<rparr>"

definition ldinit_response :: "u64 \<Rightarrow> large_slot \<Rightarrow> string" where
  "ldinit_response sn x = ''#LDINIT:'' @ at_fields [''0x'' @ hex_fixed False 16 (unat sn),
     dec_str (unat (lg_data_id x)), dec_str (unat (lg_total_size x)), dec_str (unat (lg_total_chunks x))]"

definition cmd_ld_init :: "platform \<Rightarrow> string \<Rightarrow> dev \<Rightarrow> dev" where
  "cmd_ld_init P args d = (
     if get_device_type d \<noteq> DEVICE_TYPE_SENSOR then at_error P d
     else if get_connected_device_id d = 0xFFFF then at_error P d
     else case parse_ld_init args of
       None \<Rightarrow> at_error P d
     | Some a \<Rightarrow>
         if 0xFFFF < la_crc16 a \<or> ld_init_crc P a \<noteq> ucast (la_crc16 a) then at_error P d
         else if la_sn a \<noteq> get_serial_number d then at_error P d
         else if \<not> ld_init_valid a then at_error P d
         else if find_large_data_slot (get_device_id d) (ucast (la_id a)) d \<noteq> None then at_error P d
         else (case alloc_large_data_slot (unat (ucast (la_total a) :: u32)) d of
             (None, d) \<Rightarrow> at_error P d
           | (Some idx, d) \<Rightarrow>
               let d = upd_lg idx (fill_at_large a (get_device_id d) (dv_now d)) d in
               at_ok P (at_send_line P (ldinit_response (la_sn a) (lg_at d idx)) d)))"

text \<open>One piece: serial number, id, page, index, CRC16 and payload.\<close>

definition parse_ld :: "platform \<Rightarrow> string \<Rightarrow> (u64 \<times> u64 \<times> u64 \<times> u64 \<times> bytes) option" where
  "parse_ld P args = (
     case (field_hex_u64 args 0, field_hex_u64 args 1, field_hex_u64 args 2, field_hex_u64 args 3,
           field_hex_u64 args 4, field_get 5 args) of
       (Some v_sn, Some v_id, Some v_page, Some v_chunk, Some v_crc16, Some hex) \<Rightarrow>
         if hex = [] then None
         else (case hex_decode hex AT_DATA_PAYLOAD_MAX of
             None \<Rightarrow> None
           | Some payload \<Rightarrow>
               if payload = [] \<or> 0xFFFF < v_crc16 \<or> pf_crc16_poly P 0x1021 0xFFFF payload \<noteq> ucast v_crc16 then None
               else Some (v_sn, v_id, v_page, v_chunk, payload))
     | _ \<Rightarrow> None)"

text \<open>All pieces are there: from pieces of 472 bytes to chunks of 180.\<close>

definition rechunk :: "large_slot \<Rightarrow> large_slot" where
  "rechunk x = (
     let total_chunks = ucast ((lg_total_size x + word_of_nat LARGE_DATA_CHUNK_SIZE - 1) div word_of_nat LARGE_DATA_CHUNK_SIZE) :: u16 in
     x\<lparr>lg_total_chunks := total_chunks,
       lg_last_chunk_size := ucast (lg_total_size x - (ucast total_chunks - 1) * word_of_nat LARGE_DATA_CHUNK_SIZE),
       lg_page_count := word_of_nat ((unat total_chunks + LARGE_DATA_CHUNKS_PER_PAGE - 1) div LARGE_DATA_CHUNKS_PER_PAGE),
       lg_received_count := total_chunks, lg_upstream_ready := True,
       lg_idle_timeout := nbtimeout_stop (lg_idle_timeout x)\<rparr>)"

definition stage_ld_chunk :: "platform \<Rightarrow> nat \<Rightarrow> u16 \<Rightarrow> bytes \<Rightarrow> dev \<Rightarrow> dev" where
  "stage_ld_chunk P idx linear payload d = (
     let (err, d) = d_psram_write P
           (unat (lg_base_addr (lg_at d idx) + ucast linear * word_of_nat AT_DATA_PAYLOAD_MAX)) payload d in
     if err \<noteq> 0 then at_error P (free_large_data_slot idx NO_SENDER d)
     else let d = start_idle_timeout idx (upd_lg idx (\<lambda>x. x\<lparr>lg_received_count := lg_received_count x + 1\<rparr>) d) in
     if lg_total_chunks (lg_at d idx) \<le> lg_received_count (lg_at d idx) then
       let (err, d) = large_data_verify_crc32 P idx d in
       if err \<noteq> 0 then at_error P (free_large_data_slot idx NO_SENDER d)
       else at_ok P (upd_lg idx rechunk d)
     else at_ok P d)"

definition expected_piece :: "u16 \<Rightarrow> large_slot \<Rightarrow> nat" where
  "expected_piece linear x = (
     if int (unat linear) = int (unat (lg_total_chunks x)) - 1
     then unat (ucast (lg_total_size x - ucast linear * word_of_nat AT_DATA_PAYLOAD_MAX) :: u16)
     else AT_DATA_PAYLOAD_MAX)"

definition cmd_ld_chunk :: "platform \<Rightarrow> string \<Rightarrow> dev \<Rightarrow> dev" where
  "cmd_ld_chunk P args d = (
     if get_device_type d \<noteq> DEVICE_TYPE_SENSOR then at_error P d
     else case parse_ld P args of
       None \<Rightarrow> at_error P d
     | Some (v_sn, v_id, v_page, v_chunk, payload) \<Rightarrow>
         if v_sn \<noteq> get_serial_number d then at_error P d
         else if 0xFF < v_id \<or> 0xFF < v_page \<or> word_of_nat LARGE_DATA_CHUNKS_PER_PAGE \<le> v_chunk then at_error P d
         else (case find_large_data_slot (get_device_id d) (ucast v_id) d of
             None \<Rightarrow> at_error P d
           | Some idx \<Rightarrow>
               let x = lg_at d idx; linear = ucast (v_page * word_of_nat LARGE_DATA_CHUNKS_PER_PAGE + v_chunk) :: u16 in
               if lg_total_chunks x \<le> linear then at_error P d
               else if length payload \<noteq> expected_piece linear x then at_error P d
               else if linear < lg_received_count x then at_ok P d
               else stage_ld_chunk P idx linear payload d))"

section \<open>Well-formedness\<close>

lemma at_send_next_chunk_wf [wf_intros]: "dev_wf d \<Longrightarrow> dev_wf (snd (at_send_next_chunk P k pg c d))"
  unfolding at_send_next_chunk_def Let_def split_beta by (intro wf_intros; assumption)

lemma set_ld_caches_wf:
  "dev_wf d \<Longrightarrow> - 1 \<le> k \<Longrightarrow> k < int LARGE_DATA_SENDER_SLOT_COUNT \<Longrightarrow> dev_wf (set_ld_caches i k d)"
  unfolding set_ld_caches_def by (rule upd_large_wf) (auto simp: large_wf_def)

lemma find_large_sender_less: "dev_wf d \<Longrightarrow> find_large_sender g i d = Some k \<Longrightarrow> k < LARGE_DATA_SENDER_SLOT_COUNT"
  using find_idx_less by (fastforce simp: find_large_sender_def dev_wf_def large_wf_def)

lemma cmd_ld_init_ack_wf [wf_intros]: "dev_wf d \<Longrightarrow> dev_wf (cmd_ld_init_ack P arg d)"
  using find_large_sender_less[of d]
  by (fastforce simp: cmd_ld_init_ack_def Let_def split: option.splits intro!: io_wf at_send_next_chunk_wf set_ld_caches_wf)

lemma ld_next_piece_wf [wf_intros]: "dev_wf d \<Longrightarrow> dev_wf (ld_next_piece P k d)"
  unfolding ld_next_piece_def Let_def by (intro wf_intros; simp)

lemma cmd_ld_chunk_ack_wf [wf_intros]: "dev_wf d \<Longrightarrow> dev_wf (cmd_ld_chunk_ack P arg d)"
  by (auto simp: cmd_ld_chunk_ack_def Let_def split: option.splits intro!: wf_intros)

text \<open>The sizes that an accepted announcement leads to.\<close>

lemma ld_init_valid_sizes:
  assumes "ld_init_valid a"
  shows "unat (la_total a) \<le> LARGE_DATA_MAX_TRANSFER_SIZE" "0 < unat (la_chunks a)" "0 < unat (la_last a)"
    "unat (la_last a) \<le> AT_DATA_PAYLOAD_MAX"
    "unat (la_total a) = (unat (la_chunks a) - 1) * AT_DATA_PAYLOAD_MAX + unat (la_last a)"
proof -
  have v: "la_total a \<le> 204800" "la_chunks a \<noteq> 0" "la_chunks a \<le> 0xFFFF" "la_last a \<noteq> 0" "la_last a \<le> 472"
    "la_total a = (la_chunks a - 1) * 472 + la_last a"
    using assms by (auto simp: ld_init_valid_def not_less)
  then show t: "unat (la_total a) \<le> LARGE_DATA_MAX_TRANSFER_SIZE" and l: "unat (la_last a) \<le> AT_DATA_PAYLOAD_MAX"
    by (simp_all add: word_le_nat_alt)
  show c: "0 < unat (la_chunks a)" and "0 < unat (la_last a)"
    using v(2,4) by (simp_all add: unat_gt_0)
  have "unat (la_chunks a) \<le> 0xFFFF" using v(3) by (simp add: word_le_nat_alt)
  moreover have c1: "unat (la_chunks a - 1) = unat (la_chunks a) - 1"
    using c by (simp add: unat_minus_one unat_gt_0)
  ultimately have "unat (la_chunks a - 1) * 472 + unat (la_last a) < 2 ^ 64" using l by simp
  moreover have "unat (c * 472 + la_last a) = unat c * 472 + unat (la_last a)"
    if "unat c * 472 + unat (la_last a) < 2 ^ 64" for c
    using that by (simp add: unat_word_ariths)
  ultimately have "unat ((la_chunks a - 1) * 472 + la_last a) = unat (la_chunks a - 1) * 472 + unat (la_last a)"
    by blast
  then show "unat (la_total a) = (unat (la_chunks a) - 1) * AT_DATA_PAYLOAD_MAX + unat (la_last a)"
    unfolding v(6) c1 by simp
qed

lemma fill_at_large_ok:
  assumes "ld_init_valid a" "large_slot_ok x"
  shows "large_slot_ok (fill_at_large a own now x)"
proof -
  note s = ld_init_valid_sizes[OF assms(1)]
  have "(unat (la_chunks a) - 1) * 472 \<le> 204800" using s(1,5) by linarith
  then have "unat (la_chunks a) \<le> 434" using s(2) by simp
  then have "unat (ucast (la_chunks a) :: u16) \<le> 1138" "unat (ucast (la_total a) :: u32) \<le> 204800"
    using s(1) by (simp_all add: unsigned_ucast_eq take_bit_eq_mod)
  then show ?thesis using assms(2) by (simp add: large_slot_ok_def fill_at_large_def)
qed

lemma rechunk_ok: "large_slot_ok x \<Longrightarrow> large_slot_ok (rechunk x)"
  using large_chunks_bound(2)[of "lg_total_size x"] by (simp add: large_slot_ok_def rechunk_def Let_def)

lemma alloc_large_data_slot_wf_case [wf_intros]:
  assumes "dev_wf d" "\<And>d. dev_wf d \<Longrightarrow> dev_wf (f d)" "\<And>i d. dev_wf d \<Longrightarrow> dev_wf (g i d)"
  shows "dev_wf (case alloc_large_data_slot n d of (None, d) \<Rightarrow> f d | (Some i, d) \<Rightarrow> g i d)"
  using alloc_large_data_slot_wf[OF assms(1), of n] assms(2,3) by (auto split: prod.split option.split)

lemma cmd_ld_init_wf [wf_intros]: "dev_wf d \<Longrightarrow> dev_wf (cmd_ld_init P args d)"
  using fill_at_large_ok
  by (auto simp: cmd_ld_init_def Let_def split: option.split intro!: alloc_large_data_slot_wf_case io_wf upd_lg_wf)

lemma stage_ld_chunk_wf [wf_intros]: "dev_wf d \<Longrightarrow> dev_wf (stage_ld_chunk P idx n bs d)"
  unfolding stage_ld_chunk_def Let_def split_beta
  by (auto intro!: io_wf free_large_data_slot_wf large_data_verify_crc32_wf large_flags_wf upd_lg_wf rechunk_ok
      simp: large_slot_ok_def[of "_\<lparr>lg_received_count := _\<rparr>"] dest: large_slot_ok_def[THEN iffD1])

lemma cmd_ld_chunk_wf [wf_intros]: "dev_wf d \<Longrightarrow> dev_wf (cmd_ld_chunk P args d)"
  by (auto simp: cmd_ld_chunk_def Let_def split: option.splits intro!: wf_intros)

end
