(* ===== verification/Session.thy ===== *)
theory Session
  imports Pairing
begin

text \<open>
  src/mesh_layers/mesh_session.c: joining the gateway's mesh table (JOINED_NETWORK), liveness and
  time distribution (PING_DEVICE), and table updates travelling upstream (DEVICE_UPDATED), each
  with its acknowledgment.
\<close>

text \<open>The DEVICE_UPDATED a node sends about itself, with no connected device.\<close>
definition du_self :: "dev \<Rightarrow> device_updated" where
  "du_self d = mk_du (get_device_type d) (get_device_id d) (get_serial_number d) FIRMWARE_VERSION 0xFFFF
     (get_hop_number d) (sensor_count8 d)"

section \<open>Joined network\<close>

definition mesh_entry_of_joined :: "joined_network \<Rightarrow> mesh_entry" where
  "mesh_entry_of_joined pkt = \<lparr>me_device_type = jn_device_type pkt, me_device_id = jn_device_id pkt,
     me_serial_num = jn_serial_num pkt, me_version = jn_version pkt,
     me_connected_device_id = jn_connected_device_id pkt, me_hop_num = jn_hop_num pkt,
     me_sensor_count = jn_sensor_count pkt, me_crc32 = 0\<rparr>"

text \<open>
  On an anchor \<open>storage_infra_get(0, &entry)\<close> is not checked: with an empty table the packet is
  forwarded with an uninitialised local, which is undefined behaviour.
\<close>

definition handle_joined_network :: "platform \<Rightarrow> joined_network \<Rightarrow> u16 \<Rightarrow> s16 \<Rightarrow> dev \<Rightarrow> dev" where
  "handle_joined_network P pkt dst_id rssi_2 d = (
     let hdr = jn_hdr pkt; ptype = ph_device_type hdr;
         ack = (\<lambda>status. proc (send_joined_network_ack P (jn_device_id pkt) (jn_device_type pkt) dst_id
                  (ph_tracking_id hdr) status)) in
     if ph_device_id hdr \<noteq> get_device_id d then d
     else if \<not> valid_device_type ptype then d
     else if ph_status hdr \<noteq> STATUS_SUCCESS then d
     else if get_device_type d = DEVICE_TYPE_GATEWAY then
       if ptype = DEVICE_TYPE_ANCHOR \<or> ptype = DEVICE_TYPE_SENSOR then
         let status = check_mesh_storage (jn_device_id pkt) d;
             d = (if status = STATUS_SUCCESS
                  then proc (on_store (\<lambda>s. storage_mesh_add P s (mesh_entry_of_joined pkt))) d else d);
             d = ping_known_devices P (jn_device_id pkt) status d in
         ack status d
       else d
     else if get_device_type d = DEVICE_TYPE_ANCHOR then
       if ptype = DEVICE_TYPE_ANCHOR \<or> ptype = DEVICE_TYPE_SENSOR then
         let d = ack STATUS_SUCCESS d in
         (case storage_infra_get (dv_store d) 0 of
            Inl err \<Rightarrow> fault d
          | Inr entry \<Rightarrow> proc (send_joined_network P pkt (ie_device_id entry) STATUS_SUCCESS) d)
       else d
     else d)"

definition handle_joined_network_ack :: "platform \<Rightarrow> joined_network_ack \<Rightarrow> u16 \<Rightarrow> s16 \<Rightarrow> dev \<Rightarrow> dev" where
  "handle_joined_network_ack P pkt dst_id rssi_2 d = (
     let hdr = jna_hdr pkt in
     if ph_device_id hdr \<noteq> get_device_id d then d
     else if \<not> valid_device_type (ph_device_type hdr) then d
     else d_untrack (ph_tracking_id hdr) d)"

section \<open>Ping\<close>

text \<open>
  The removal step at the start of \<open>handle_ping_device\<close>; its guard \<open>id != 0 || id != 0xFFFF\<close>
  is always true. After the removal the entry at the same index is the one that moved down.
\<close>

definition ping_remove_infra :: "platform \<Rightarrow> ping_device \<Rightarrow> dev \<Rightarrow> dev" where
  "ping_remove_infra P pkt d = (
     if ph_status (pd_hdr pkt) = STATUS_ALREADY_EXISTS \<or> ph_status (pd_hdr pkt) = STATUS_SUCCESS then d
     else case find_infra (pd_dst_device_id pkt) d of
       None \<Rightarrow> d
     | Some i \<Rightarrow>
         let d = proc (send_ping_device P (infra_id (infra_at d i)) (pd_dst_device_id pkt) (ph_status (pd_hdr pkt))) d;
             d = proc (on_store (\<lambda>s. storage_infra_remove P s i)) d in
         set_temp_id (infra_id (infra_at d i)) d)"

definition ping_remove_sensor :: "platform \<Rightarrow> ping_device \<Rightarrow> dev \<Rightarrow> dev" where
  "ping_remove_sensor P pkt d = (
     if ph_status (pd_hdr pkt) = STATUS_ALREADY_EXISTS \<or> ph_status (pd_hdr pkt) = STATUS_SUCCESS then d
     else case find_sensor (pd_dst_device_id pkt) d of
       None \<Rightarrow> d
     | Some i \<Rightarrow>
         let d = proc (send_ping_device P (sensor_id (sensor_at d i)) (pd_dst_device_id pkt) (ph_status (pd_hdr pkt))) d;
             d = proc (on_store (\<lambda>s. storage_sensor_remove P s i)) d in
         set_temp_id (sensor_id (sensor_at d i)) d)"

text \<open>The anchor's branch up to the acknowledgment that ends the handler.\<close>

definition ping_anchor :: "platform \<Rightarrow> ping_device \<Rightarrow> u16 \<Rightarrow> s16 \<Rightarrow> dev \<Rightarrow> dev" where
  "ping_anchor P pkt dst_id rssi_2 d = (
     let hdr = pd_hdr pkt; ptype = ph_device_type hdr; gen = pd_dst_device_id pkt;
         ack = (\<lambda>status. proc (send_ping_ack P dst_id gen (ph_tracking_id hdr) status));
         d = (if gen \<noteq> 0 \<and> gen \<noteq> 0xFFFF \<and> find_sensor gen d \<noteq> None
              then proc (send_device_updated P (du_self d) (infra_id (infra_at d 0)) STATUS_SUCCESS) d else d) in
     if ptype = DEVICE_TYPE_GATEWAY \<or> ptype = DEVICE_TYPE_ANCHOR then
       let (changed, d) = update_infra_storage P dst_id (pd_hop_num pkt) rssi_2 d in
       seqs [\<lambda>d. if changed then proc (send_device_updated P (du_self d) dst_id STATUS_SUCCESS) d else d,
             \<lambda>d. if ph_status hdr = STATUS_PING_DEVICE then ack STATUS_PING_DEVICE d
                 else ack STATUS_SUCCESS (ping_known_devices P gen (ph_status hdr)
                   (set_mesh_devices_count (pd_total_devices pkt) (mesh_time_set (pd_timestamp pkt) d)))] d
     else d)"

definition handle_ping_device :: "platform \<Rightarrow> ping_device \<Rightarrow> u16 \<Rightarrow> s16 \<Rightarrow> dev \<Rightarrow> dev" where
  "handle_ping_device P pkt dst_id rssi_2 d = (
     let hdr = pd_hdr pkt; ptype = ph_device_type hdr; gen = pd_dst_device_id pkt;
         ack = (\<lambda>status. proc (send_ping_ack P dst_id gen (ph_tracking_id hdr) status)) in
     if ph_device_id hdr \<noteq> get_device_id d then d
     else if \<not> valid_device_type ptype then d
     else let d = ping_remove_sensor P pkt (ping_remove_infra P pkt d) in
     if gen = get_device_id d \<and> ph_status hdr \<noteq> STATUS_SUCCESS \<and> ph_status hdr \<noteq> STATUS_ALREADY_EXISTS
     then factory_reset P (ack STATUS_SUCCESS d)
     else let d = (if gen = get_device_id d then mesh_pairing_set_pending_request d else d) in
     if get_device_type d = DEVICE_TYPE_GATEWAY then d
     else if get_device_type d = DEVICE_TYPE_ANCHOR then ping_anchor P pkt dst_id rssi_2 d
     else if get_device_type d = DEVICE_TYPE_SENSOR then
       if ptype = DEVICE_TYPE_GATEWAY \<or> ptype = DEVICE_TYPE_ANCHOR then
         seqs [mesh_time_set (pd_timestamp pkt),
               \<lambda>d. snd (update_infra_storage P dst_id (pd_hop_num pkt) rssi_2 d),
               ack STATUS_SUCCESS] d
       else d
     else d)"

definition handle_ping_ack :: "platform \<Rightarrow> ping_ack \<Rightarrow> u16 \<Rightarrow> s16 \<Rightarrow> dev \<Rightarrow> dev" where
  "handle_ping_ack P pkt dst_id rssi_2 d = (
     let hdr = pa_hdr pkt; ptype = ph_device_type hdr in
     if ph_device_id hdr \<noteq> get_device_id d then d
     else if \<not> valid_device_type ptype then d
     else let d = d_untrack (ph_tracking_id hdr) d in
     if get_temp_id d \<noteq> 0xFFFF \<and> get_temp_id d = dst_id then set_temp_id 0xFFFF d
     else if get_device_type d = DEVICE_TYPE_GATEWAY then
       if ptype = DEVICE_TYPE_ANCHOR then snd (update_infra_storage P dst_id (pa_hop_num pkt) rssi_2 d)
       else if ptype = DEVICE_TYPE_SENSOR then update_sensor_storage P dst_id (pa_version pkt) d
       else d
     else if get_device_type d = DEVICE_TYPE_ANCHOR then
       if ptype = DEVICE_TYPE_ANCHOR then
         let (changed, d) = update_infra_storage P dst_id (pa_hop_num pkt) rssi_2 d in
         seqs [\<lambda>d. if changed then proc (send_device_updated P (du_self d) dst_id STATUS_SUCCESS) d else d] d
       else if ptype = DEVICE_TYPE_SENSOR then update_sensor_storage P dst_id (pa_version pkt) d
       else d
     else d)"

section \<open>Device updated\<close>

text \<open>The gateway looks the sender up, and removes the device the packet is about.\<close>

definition device_updated_gateway :: "platform \<Rightarrow> device_updated \<Rightarrow> u16 \<Rightarrow> dev \<Rightarrow> u8 \<times> dev" where
  "device_updated_gateway P pkt dst_id d = (
     if check_mesh_storage dst_id d \<noteq> STATUS_ALREADY_EXISTS then (STATUS_NOT_FOUND, d)
     else if ph_status (du_hdr pkt) = STATUS_SUCCESS
       then update_mesh_storage P dst_id (du_hop_num pkt) (du_version pkt) (du_connected_device_id pkt)
              (du_sensor_count pkt) d
     else if ph_status (du_hdr pkt) = STATUS_DEVICE_REMOVED then
       (case find_mesh (du_device_id pkt) d of
          None \<Rightarrow> (STATUS_NOT_FOUND, d)
        | Some idx \<Rightarrow> let (err, d) = on_store (\<lambda>s. storage_mesh_remove P s idx) d in
            (if err \<noteq> 0 then STATUS_FAILURE else STATUS_SUCCESS, d))
     else (STATUS_ALREADY_EXISTS, d))"

definition handle_device_updated :: "platform \<Rightarrow> device_updated \<Rightarrow> u16 \<Rightarrow> s16 \<Rightarrow> dev \<Rightarrow> dev" where
  "handle_device_updated P pkt dst_id rssi_2 d = (
     let hdr = du_hdr pkt; ptype = ph_device_type hdr;
         ack = (\<lambda>status. proc (send_device_updated_ack P (ph_device_id hdr) ptype dst_id (ph_tracking_id hdr) status)) in
     if ph_device_id hdr \<noteq> get_device_id d then d
     else if \<not> valid_device_type ptype then d
     else if get_device_type d = DEVICE_TYPE_GATEWAY then
       if ptype = DEVICE_TYPE_ANCHOR \<or> ptype = DEVICE_TYPE_SENSOR then
         let (status, d) = device_updated_gateway P pkt dst_id d in ack status d
       else d
     else if get_device_type d = DEVICE_TYPE_ANCHOR then
       if ptype = DEVICE_TYPE_ANCHOR \<or> ptype = DEVICE_TYPE_SENSOR then
         if infra_id (infra_at d 0) \<noteq> dst_id
         then ack STATUS_SUCCESS (proc (send_device_updated P pkt (infra_id (infra_at d 0)) (ph_status hdr)) d)
         else if 1 < infra_count d
         then ack STATUS_SUCCESS (proc (send_device_updated P pkt (infra_id (infra_at d 1)) (ph_status hdr)) d)
         else ack STATUS_NO_ROUTE d
       else d
     else d)"

definition handle_device_updated_ack :: "platform \<Rightarrow> device_updated_ack \<Rightarrow> u16 \<Rightarrow> s16 \<Rightarrow> dev \<Rightarrow> dev" where
  "handle_device_updated_ack P pkt dst_id rssi_2 d = (
     let hdr = dua_hdr pkt; ptype = ph_device_type hdr in
     if ph_device_id hdr \<noteq> get_device_id d then d
     else if \<not> valid_device_type ptype then d
     else let d = d_untrack (ph_tracking_id hdr) d in
     if get_device_type d = DEVICE_TYPE_ANCHOR \<and>
        (ptype = DEVICE_TYPE_GATEWAY \<or> ptype = DEVICE_TYPE_ANCHOR) \<and> ph_status hdr = STATUS_NO_ROUTE then
       if 1 < infra_count d then
         let next_hop = (if infra_id (infra_at d 0) = dst_id then infra_at d 1 else infra_at d 0) in
         proc (send_device_updated P (du_self d) (infra_id next_hop) STATUS_SUCCESS) d
       else (case find_infra dst_id d of
               None \<Rightarrow> d
             | Some i \<Rightarrow> device_info_update P (proc (on_store (\<lambda>s. storage_infra_remove P s i)) d))
     else d)"

section \<open>Well-formedness\<close>

lemma dev_wf_sum [wf_intros]: "(\<And>x. dev_wf (f x)) \<Longrightarrow> (\<And>y. dev_wf (g y)) \<Longrightarrow> dev_wf (case r of Inl x \<Rightarrow> f x | Inr y \<Rightarrow> g y)"
  by (cases r) auto

lemma handle_joined_network_wf [wf_intros]: "dev_wf d \<Longrightarrow> dev_wf (handle_joined_network P pkt i r d)"
  unfolding handle_joined_network_def Let_def by (intro wf_intros; assumption)

lemma handle_joined_network_ack_wf [wf_intros]: "dev_wf d \<Longrightarrow> dev_wf (handle_joined_network_ack P pkt i r d)"
  unfolding handle_joined_network_ack_def Let_def by (intro wf_intros; assumption)

lemma ping_remove_wf [wf_intros]:
  "dev_wf d \<Longrightarrow> dev_wf (ping_remove_infra P ping d)" "dev_wf d \<Longrightarrow> dev_wf (ping_remove_sensor P ping d)"
  unfolding ping_remove_infra_def ping_remove_sensor_def Let_def by (intro wf_intros; assumption)+

lemma ping_anchor_wf [wf_intros]: "dev_wf d \<Longrightarrow> dev_wf (ping_anchor P pkt i r d)"
  unfolding ping_anchor_def Let_def split_beta by (intro wf_intros; assumption)

lemma handle_ping_device_wf [wf_intros]: "dev_wf d \<Longrightarrow> dev_wf (handle_ping_device P pkt i r d)"
  unfolding handle_ping_device_def Let_def by (intro wf_intros; assumption)

lemma handle_ping_ack_wf [wf_intros]: "dev_wf d \<Longrightarrow> dev_wf (handle_ping_ack P pkt i r d)"
  unfolding handle_ping_ack_def Let_def split_beta by (intro wf_intros; assumption)

lemma device_updated_gateway_wf [wf_intros]: "dev_wf d \<Longrightarrow> dev_wf (snd (device_updated_gateway P pkt i d))"
  by (auto simp: device_updated_gateway_def Let_def split_beta split: option.splits intro!: wf_intros)

lemma handle_device_updated_wf [wf_intros]: "dev_wf d \<Longrightarrow> dev_wf (handle_device_updated P pkt i r d)"
  unfolding handle_device_updated_def Let_def split_beta by (intro wf_intros; assumption)

lemma handle_device_updated_ack_wf [wf_intros]: "dev_wf d \<Longrightarrow> dev_wf (handle_device_updated_ack P pkt i r d)"
  unfolding handle_device_updated_ack_def Let_def by (intro wf_intros; assumption)

end
