(* ===== verification/Main_Sub.thy ===== *)
theory Main_Sub
  imports Routing Large_At Session Pairing
begin

text \<open>
  The node as a whole: the radio's receive path and transmission (src/radio.c), the mesh tick of
  src/mesh.c, the retransmissions of src/tracker.c with their callback, and the state machine of
  src/main_sub.c that runs everything.
\<close>

section \<open>Radio (src/radio.c)\<close>

text \<open>
  What the modem reports while a reception window is open: a control header with the
  transmitter's id, or received data. \<open>Elapse\<close> is the passing of time.
\<close>

datatype radio_event = Pcc u16 | Pdc s16 bytes | Elapse s64

definition should_enqueue :: "u8 \<Rightarrow> u16 \<Rightarrow> dev \<Rightarrow> bool \<times> dev" where
  "should_enqueue packet_type sender_id d = (
     if PACKET_PAIR_REQUEST \<le> packet_type \<and> packet_type \<le> PACKET_PAIR_ACK \<or>
        packet_type = PACKET_REPAIR_REQUEST \<or> packet_type = PACKET_REPAIR_RESPONSE then (True, d)
     else is_known_device sender_id d)"

text \<open>The data array of the item is zero beyond what was received.\<close>

definition rx_item_of :: "u16 \<Rightarrow> s16 \<Rightarrow> bytes \<Rightarrow> rx_data_item" where
  "rx_item_of sender rssi_2 data = (
     let n = (if length data < QUEUE_DATA_MAX then length data else QUEUE_DATA_MAX) in
     \<lparr>rx_sender_id = sender, rx_rssi_2 = rssi_2, rx_data_len = word_of_nat n,
      rx_data = take n data @ replicate (QUEUE_DATA_MAX - n) 0\<rparr>)"

definition on_pdc :: "platform \<Rightarrow> s16 \<Rightarrow> bytes \<Rightarrow> dev \<Rightarrow> dev" where
  "on_pdc P rssi_2 data d = (
     if length data < 1 then d
     else let (ok, d) = should_enqueue (data ! 0) (dv_last_sender d) d in
     if \<not> ok then d
     else let item = rx_item_of (dv_last_sender d) rssi_2 data;
              (err, q) = rx_queue_put P (dv_queues d) item (rx_data item ! 2) in
       d\<lparr>dv_queues := q\<rparr>)"

definition on_radio_event :: "platform \<Rightarrow> radio_event \<Rightarrow> dev \<Rightarrow> dev" where
  "on_radio_event P ev d = (case ev of
       Pcc i \<Rightarrow> d\<lparr>dv_last_sender := i\<rparr>
     | Pdc rssi_2 data \<Rightarrow> on_pdc P rssi_2 data d
     | Elapse ms \<Rightarrow> d\<lparr>dv_now := dv_now d + ms\<rparr>)"

text \<open>The number of subslots, zero where it is to be computed from the length; at most 15.\<close>

definition packet_length_code :: "nat \<Rightarrow> u8 \<Rightarrow> u8" where
  "packet_length_code len packet_length = (
     let l = (if packet_length = 0 then
                (let k = word_of_nat ((len + 13) div 14) in if k = 0 then 1 else k)
              else packet_length) in
     if 15 < l then 15 else l)"

definition transmit :: "platform \<Rightarrow> bytes \<Rightarrow> u8 \<Rightarrow> dev \<Rightarrow> int \<times> dev" where
  "transmit P data packet_length d = (
     let code = packet_length_code (length data) packet_length; err = pf_phy_tx P code data in
     (err, if err \<noteq> 0 then d else d\<lparr>dv_air := dv_air d @ [(dv_radio_id d, code, data)]\<rparr>))"

section \<open>Ticks\<close>

definition mesh_ping_silent :: "platform \<Rightarrow> nat \<Rightarrow> dev \<Rightarrow> dev" where
  "mesh_ping_silent P i d = (
     let x = infra_at d i in
     if 2 * PING_TIMEOUT_MS < dv_now d - in_last_comm_ms x \<and> \<not> in_ping_sent x
     then mark_ping_sent i (proc (send_ping_device P (infra_id x) 0 STATUS_PING_DEVICE) d)
     else d)"

definition mesh_look_for_parents :: "platform \<Rightarrow> dev \<Rightarrow> dev" where
  "mesh_look_for_parents P d = (
     if infra_count d < MAX_ANCHORS \<and> 3 * PING_TIMEOUT_MS < dv_now d - mh_last_pair_request_ms (dv_mesh d)
     then let d = proc (send_pair_request P False) d in
       d\<lparr>dv_mesh := (dv_mesh d)\<lparr>mh_last_pair_request_ms := dv_now d\<rparr>\<rparr>
     else d)"

definition mesh_tick :: "platform \<Rightarrow> dev \<Rightarrow> dev" where
  "mesh_tick P d = (
     if \<not> mh_initialized (dv_mesh d) then d
     else seqs [mesh_pairing_tick P,
       \<lambda>d. if get_device_type d \<noteq> DEVICE_TYPE_ANCHOR then d
           else seqs [for_slots (infra_count d) (mesh_ping_silent P), mesh_look_for_parents P] d] d)"

text \<open>Retransmission, or the end of it: the peer counts a failure, a pairing attempt is given up.\<close>

definition tracker_default_expired_cb :: "platform \<Rightarrow> data_tracker \<Rightarrow> bool \<Rightarrow> dev \<Rightarrow> dev" where
  "tracker_default_expired_cb P entry exhausted d = (
     if exhausted then seqs
       [\<lambda>d. if dt_packet_type entry = PACKET_PING_DEVICE \<and> dt_dst_id entry = get_temp_id d
             then set_temp_id 0xFFFF d else d,
        \<lambda>d. if PACKET_PAIR_ACK < dt_packet_type entry
             then known_device_update_comm_time P (dt_dst_id entry) False d else d] d
     else if 0 < dt_payload_len entry
       then proc (d_tx P (dt_payload entry) (dt_payload_len entry) (dt_payload entry ! 2)) d
     else d)"

definition tracker_tick_slot :: "platform \<Rightarrow> nat \<Rightarrow> dev \<Rightarrow> dev" where
  "tracker_tick_slot P i d = (
     let (fired, tr, ps) = tracker_tick_step P (dv_now d) i (dv_tracker d) (dv_psram d);
         d = d\<lparr>dv_tracker := tr, dv_psram := ps\<rparr> in
     case fired of None \<Rightarrow> d | Some (entry, exhausted) \<Rightarrow> tracker_default_expired_cb P entry exhausted d)"

definition tracker_tick :: "platform \<Rightarrow> dev \<Rightarrow> dev" where
  "tracker_tick P = for_slots TRACKER_MAX_ENTRIES (tracker_tick_slot P)"

section \<open>Reception\<close>

definition process_rx :: "platform \<Rightarrow> bytes \<Rightarrow> u16 \<Rightarrow> s16 \<Rightarrow> dev \<Rightarrow> dev" where
  "process_rx P data sender rssi d = (let t = data ! 0 in
     if t = PACKET_PAIR_REQUEST then handle_pair_request P (dec_pair_request data) sender rssi d
     else if t = PACKET_PAIR_RESPONSE then handle_pair_response P (dec_pair_response data) sender rssi d
     else if t = PACKET_PAIR_CONFIRM then handle_pair_confirm P (dec_pair_confirm data) sender rssi d
     else if t = PACKET_PAIR_ACK then handle_pair_ack P (dec_pair_ack data) sender rssi d
     else if t = PACKET_JOINED_NETWORK then handle_joined_network P (dec_joined_network data) sender rssi d
     else if t = PACKET_JOINED_NETWORK_ACK then handle_joined_network_ack P (dec_joined_network_ack data) sender rssi d
     else if t = PACKET_PING_DEVICE then handle_ping_device P (dec_ping_device data) sender rssi d
     else if t = PACKET_PING_ACK then handle_ping_ack P (dec_ping_ack data) sender rssi d
     else if t = PACKET_DEVICE_UPDATED then handle_device_updated P (dec_device_updated data) sender rssi d
     else if t = PACKET_DEVICE_UPDATED_ACK then handle_device_updated_ack P (dec_device_updated_ack data) sender rssi d
     else if t = PACKET_REPAIR_REQUEST then handle_repair_request P (dec_repair_request data) sender rssi d
     else if t = PACKET_REPAIR_RESPONSE then handle_repair_response P (dec_repair_response data) sender rssi d
     else if t = PACKET_ROUTE_DISCOVERY then handle_route_discovery P (dec_route_discovery data) sender rssi d
     else if t = PACKET_ROUTE_DISCOVERY_ACK then handle_route_discovery_ack P (dec_route_discovery_ack data) sender rssi d
     else if t = PACKET_ROUTE_INFO then handle_route_info P (dec_route_info data) sender rssi d
     else if t = PACKET_ROUTE_INFO_ACK then handle_route_info_ack P (dec_route_info_ack data) sender rssi d
     else if t = PACKET_REPORT_INIT then handle_report_init P (dec_report_init data) sender rssi d
     else if t = PACKET_REPORT_INIT_ACK then handle_report_init_ack P (dec_report_init_ack data) sender rssi d
     else if t = PACKET_REPORT_CHUNK then handle_report_chunk P (dec_report_chunk data) sender rssi d
     else if t = PACKET_REPORT_CHUNK_ACK then handle_report_chunk_ack P (dec_report_chunk_ack data) sender rssi d
     else if t = PACKET_REPORT_RECEIVED then handle_report_received P (dec_report_received data) sender rssi d
     else if t = PACKET_REPORT_RECEIVED_ACK then handle_report_received_ack P (dec_report_received_ack data) sender rssi d
     else if t = PACKET_CONFIG then handle_config P (dec_config_t data) sender rssi d
     else if t = PACKET_CONFIG_ACK then handle_config_ack P (dec_config_ack data) sender rssi d
     else if t = PACKET_CONFIG_RECEIVED then handle_config_received P (dec_config_received data) sender rssi d
     else if t = PACKET_CONFIG_RECEIVED_ACK then handle_config_received_ack P (dec_config_received_ack data) sender rssi d
     else if t = PACKET_LARGE_DATA_INIT then handle_large_data_init P (dec_large_data_init data) sender rssi d
     else if t = PACKET_LARGE_DATA_INIT_ACK then handle_large_data_init_ack P (dec_large_data_init_ack data) sender rssi d
     else if t = PACKET_LARGE_DATA_CHUNK then handle_large_data_chunk P (dec_large_data_chunk data) sender rssi d
     else if t = PACKET_LARGE_DATA_CHUNK_ACK then handle_large_data_chunk_ack P (dec_large_data_chunk_ack data) sender rssi d
     else if t = PACKET_LARGE_DATA_RECEIVED then handle_large_data_received P (dec_large_data_received data) sender rssi d
     else d)"

abbreviation (input) MAX_RX_QUEUE_PROCESS_PER_CYCLE :: nat where "MAX_RX_QUEUE_PROCESS_PER_CYCLE \<equiv> 8"
abbreviation (input) MAX_TX_QUEUE_PROCESS_PER_CYCLE :: nat where "MAX_TX_QUEUE_PROCESS_PER_CYCLE \<equiv> 8"

definition no_rx_item :: rx_data_item where
  "no_rx_item = \<lparr>rx_sender_id = 0, rx_rssi_2 = 0, rx_data_len = 0, rx_data = []\<rparr>"

primrec rx_process_upto :: "platform \<Rightarrow> nat \<Rightarrow> dev \<Rightarrow> nat \<times> dev" where
  "rx_process_upto P 0 d = (0, d)"
| "rx_process_upto P (Suc n) d = (
     let (err, item, q) = rx_queue_get P (dv_queues d) no_rx_item; d = d\<lparr>dv_queues := q\<rparr> in
     if err \<noteq> 0 then (0, d)
     else let d = process_rx P (rx_data item) (rx_sender_id item) (rx_rssi_2 item) d in
     if dv_status d \<noteq> Running then (1, d)
     else let (k, d) = rx_process_upto P n d in (k + 1, d))"

definition main_sub_rx_process :: "platform \<Rightarrow> dev \<Rightarrow> nat \<times> dev" where
  "main_sub_rx_process P = rx_process_upto P MAX_RX_QUEUE_PROCESS_PER_CYCLE"

section \<open>The state machine (src/main_sub.c)\<close>

definition set_main :: "bool \<Rightarrow> main_sub_state \<Rightarrow> dev \<Rightarrow> dev" where
  "set_main b s d = d\<lparr>dv_main := \<lparr>mn_initialized = b, mn_state = s\<rparr>\<rparr>"

abbreviation main_state :: "dev \<Rightarrow> main_sub_state" where "main_state d \<equiv> mn_state (dv_main d)"
abbreviation main_initialized :: "dev \<Rightarrow> bool" where "main_initialized d \<equiv> mn_initialized (dv_main d)"

definition set_main_state :: "main_sub_state \<Rightarrow> dev \<Rightarrow> dev" where
  "set_main_state s d = set_main (main_initialized d) s d"

definition d_tracker_init :: "dev \<Rightarrow> dev" where
  "d_tracker_init d = d\<lparr>dv_tracker := tracker_init (dv_tracker d)\<rparr>"

text \<open>What \<open>main_sub_init\<close> does for the device's type, once the subsystems are initialised.\<close>

definition main_sub_start :: "platform \<Rightarrow> dev \<Rightarrow> int \<times> dev" where
  "main_sub_start P d = (
     if get_device_type d = DEVICE_TYPE_GATEWAY then (0, ping_known_devices P 0 STATUS_SUCCESS d)
     else if get_device_type d = DEVICE_TYPE_ANCHOR then
       (0, if MAX_ANCHORS \<le> infra_count d then d else proc (send_pair_request P True) d)
     else if get_device_type d = DEVICE_TYPE_SENSOR then
       (0, if 0 < infra_count d then set_connected_device_id (infra_id (infra_at d 0)) d
           else proc (send_pair_request P True) d)
     else (- EINVAL, d))"

definition main_sub_init :: "platform \<Rightarrow> dev \<Rightarrow> int \<times> dev" where
  "main_sub_init P d = (
     if main_initialized d then (0, d)
     else let d = seqs [device_info_update P, d_tracker_init, mesh_init, report_init, config_init, large_data_init] d in
     if dv_status d \<noteq> Running then (0, d)
     else let (rc, d) = main_sub_start P d in
     if rc \<noteq> 0 then (rc, d) else (0, set_main True (main_state d) d))"

definition main_sub_tick :: "platform \<Rightarrow> dev \<Rightarrow> dev" where
  "main_sub_tick P = seqs [mesh_tick P, known_devices_tick P, tracker_tick P, config_tick P, report_tick P,
     large_data_tick P]"

text \<open>
  The reception window: what the modem reports before each poll of the semaphore that still fails,
  each followed by a round of processing. \<open>final\<close> arrives before the final round.
\<close>

fun rx_window :: "platform \<Rightarrow> radio_event list list \<Rightarrow> dev \<Rightarrow> dev" where
  "rx_window P [] d = d"
| "rx_window P (evs # wins) d = (
     let d = snd (main_sub_rx_process P (foldl (\<lambda>d ev. on_radio_event P ev d) d evs)) in
     if dv_status d \<noteq> Running then d else rx_window P wins d)"

text \<open>Up to eight waiting packets go out; true if a transmission failed.\<close>

definition no_tx_item :: tx_data_item where
  "no_tx_item = \<lparr>tx_data_len = 0, tx_data = []\<rparr>"

primrec tx_process_upto :: "platform \<Rightarrow> nat \<Rightarrow> dev \<Rightarrow> bool \<times> dev" where
  "tx_process_upto P 0 d = (False, d)"
| "tx_process_upto P (Suc n) d = (
     let (err, item, q) = tx_queue_get P (dv_queues d) no_tx_item; d = d\<lparr>dv_queues := q\<rparr> in
     if err \<noteq> 0 then (False, d)
     else let (rc, d) = transmit P (take (unat (tx_data_len item)) (tx_data item)) 0 d in
     if rc \<noteq> 0 then (True, d) else tx_process_upto P n d)"

text \<open>
  One call. \<open>rc\<close> is the modem's answer to the request to receive, \<open>polls\<close> and \<open>final\<close> are what it
  reports in the window that follows.
\<close>

definition main_sub_run :: "platform \<Rightarrow> int \<Rightarrow> radio_event list list \<Rightarrow> radio_event list \<Rightarrow> dev \<Rightarrow> dev" where
  "main_sub_run P rc polls final d = (case main_state d of
       MAIN_SUB_INIT \<Rightarrow>
         if get_serial_number d = - 1 \<or> get_serial_number d = 0 then d
         else let (err, d) = main_sub_init P d in
         if dv_status d \<noteq> Running then d
         else if err \<noteq> 0 then set_main_state MAIN_SUB_ERROR d else set_main_state MAIN_SUB_RX_WINDOW d
     | MAIN_SUB_RX_WINDOW \<Rightarrow>
         if rc \<noteq> 0 then set_main_state MAIN_SUB_ERROR d
         else seqs [rx_window P (polls @ [final]), main_sub_tick P, set_main_state MAIN_SUB_TX_PROCESS] d
     | MAIN_SUB_TX_PROCESS \<Rightarrow>
         let (failed, d) = tx_process_upto P MAX_TX_QUEUE_PROCESS_PER_CYCLE d in
         set_main_state (if failed then MAIN_SUB_ERROR else MAIN_SUB_RX_WINDOW) d
     | MAIN_SUB_ERROR \<Rightarrow> set_main False MAIN_SUB_INIT (d\<lparr>dv_now := dv_now d + 10000\<rparr>))"

section \<open>Well-formedness\<close>

lemma on_pdc_wf [wf_intros]: "dev_wf d \<Longrightarrow> dev_wf (on_pdc P r bs d)"
  using is_known_device_wf[of d "dv_last_sender d"]
  by (auto simp: on_pdc_def should_enqueue_def Let_def split_beta) (simp_all add: dev_wf_def)

lemma on_radio_event_wf [wf_intros]: "dev_wf d \<Longrightarrow> dev_wf (on_radio_event P ev d)"
  by (cases ev) (simp_all add: on_radio_event_def on_pdc_wf, simp_all add: dev_wf_def)

lemma mesh_tick_wf [wf_intros]: "dev_wf d \<Longrightarrow> dev_wf (mesh_tick P d)"
proof -
  have m: "dev_wf (d\<lparr>dv_mesh := m\<rparr>)" if "dev_wf d" for d m using that by (simp add: dev_wf_def)
  have p: "dev_wf (mesh_look_for_parents P d)" "dev_wf (mesh_ping_silent P i d)" if "dev_wf d" for d i
    using that by (auto simp: mesh_look_for_parents_def mesh_ping_silent_def Let_def intro!: m wf_intros)
  show "dev_wf d \<Longrightarrow> dev_wf (mesh_tick P d)"
    unfolding mesh_tick_def by (intro wf_intros p; assumption)
qed

lemma tracker_default_expired_cb_wf [wf_intros]: "dev_wf d \<Longrightarrow> dev_wf (tracker_default_expired_cb P e b d)"
proof -
  have "dev_wf (proc (d_tx P bs n prio) d)" if "dev_wf d" for d bs n prio
    using that by (simp add: proc_def d_tx_def split_beta Let_def dev_wf_def)
  then show "dev_wf d \<Longrightarrow> dev_wf (tracker_default_expired_cb P e b d)"
    unfolding tracker_default_expired_cb_def by (intro wf_intros; simp)
qed

lemma for_slots_wf_less:
  assumes "dev_wf d" "\<And>d i. dev_wf d \<Longrightarrow> i < n \<Longrightarrow> dev_wf (step i d)"
  shows "dev_wf (for_slots n step d)"
proof -
  have "dev_wf (seqs (map step is) d)" if "\<forall>i\<in>set is. i < n" "dev_wf d" for "is" d
    using that by (induction "is" arbitrary: d) (auto intro: assms(2))
  then show ?thesis using assms(1) by (simp add: for_slots_def)
qed

lemma tracker_tick_wf [wf_intros]: "dev_wf d \<Longrightarrow> dev_wf (tracker_tick P d)"
proof -
  have "dev_wf (tracker_tick_slot P i d)" if d: "dev_wf d" and i: "i < TRACKER_MAX_ENTRIES" for i d
  proof -
    obtain fired tr ps where t: "tracker_tick_step P (dv_now d) i (dv_tracker d) (dv_psram d) = (fired, tr, ps)"
      by (cases "tracker_tick_step P (dv_now d) i (dv_tracker d) (dv_psram d)") auto
    have "tracker_wf tr"
      using tracker_wf_tick_step[of "dv_tracker d" i P "dv_now d" "dv_psram d"] d i t by (simp add: dev_wf_def)
    then have "dev_wf (d\<lparr>dv_tracker := tr, dv_psram := ps\<rparr>)" using d by (simp add: dev_wf_def)
    then show ?thesis by (auto simp: tracker_tick_slot_def t Let_def split: option.splits intro!: wf_intros)
  qed
  then show "dev_wf d \<Longrightarrow> dev_wf (tracker_tick P d)"
    unfolding tracker_tick_def by (intro for_slots_wf_less)
qed

lemma process_rx_wf [wf_intros]: "dev_wf d \<Longrightarrow> dev_wf (process_rx P data i r d)"
  unfolding process_rx_def Let_def by (intro wf_intros; assumption)

lemma dev_wf_queues: "dev_wf (d\<lparr>dv_queues := q\<rparr>) = dev_wf d"
  by (simp add: dev_wf_def)

lemma rx_process_upto_wf [wf_intros]: "dev_wf d \<Longrightarrow> dev_wf (snd (rx_process_upto P n d))"
proof (induction n arbitrary: d)
  case (Suc n)
  have "dev_wf (process_rx P bs i r (d\<lparr>dv_queues := q\<rparr>))" for bs i r q
    using Suc.prems by (intro process_rx_wf) (simp add: dev_wf_queues)
  then show ?case using Suc by (auto simp: Let_def split_beta dev_wf_queues)
qed simp

lemma main_sub_rx_process_wf [wf_intros]: "dev_wf d \<Longrightarrow> dev_wf (snd (main_sub_rx_process P d))"
  unfolding main_sub_rx_process_def by (rule rx_process_upto_wf)

lemma radio_events_wf [wf_intros]: "dev_wf d \<Longrightarrow> dev_wf (foldl (\<lambda>d ev. on_radio_event P ev d) d evs)"
  by (induction evs arbitrary: d) (auto intro: on_radio_event_wf)

lemma rx_window_wf [wf_intros]: "dev_wf d \<Longrightarrow> dev_wf (rx_window P wins d)"
proof (induction wins arbitrary: d)
  case (Cons evs wins)
  have "dev_wf (snd (main_sub_rx_process P (foldl (\<lambda>d ev. on_radio_event P ev d) d evs)))"
    using Cons.prems by (intro wf_intros)
  then show ?case using Cons.IH by (simp add: Let_def)
qed simp

lemma main_sub_tick_wf [wf_intros]: "dev_wf d \<Longrightarrow> dev_wf (main_sub_tick P d)"
  unfolding main_sub_tick_def by (intro wf_intros; assumption)

lemma set_main_wf [wf_intros]: "dev_wf d \<Longrightarrow> dev_wf (set_main b s d)" "dev_wf d \<Longrightarrow> dev_wf (set_main_state s d)"
  by (simp_all add: set_main_def set_main_state_def dev_wf_def)

lemma d_tracker_init_wf [wf_intros]: "dev_wf d \<Longrightarrow> dev_wf (d_tracker_init d)"
  by (simp add: d_tracker_init_def dev_wf_def tracker_wf_init)

lemma main_sub_init_wf [wf_intros]: "dev_wf d \<Longrightarrow> dev_wf (snd (main_sub_init P d))"
  unfolding main_sub_init_def main_sub_start_def Let_def split_beta by (intro wf_intros; assumption)

lemma tx_process_upto_wf [wf_intros]: "dev_wf d \<Longrightarrow> dev_wf (snd (tx_process_upto P n d))"
  by (induction n arbitrary: d) (auto simp: Let_def split_beta transmit_def, simp_all add: dev_wf_def)

lemma main_sub_run_wf [wf_intros]:
  assumes "dev_wf d" shows "dev_wf (main_sub_run P rc polls final d)"
proof -
  have "dev_wf (seqs [rx_window P (polls @ [final]), main_sub_tick P, set_main_state MAIN_SUB_TX_PROCESS] d)"
    by (intro wf_intros; (rule assms | assumption))
  moreover have "dev_wf (d\<lparr>dv_now := t\<rparr>)" for t
    using assms by (simp add: dev_wf_def)
  ultimately show ?thesis
    using main_sub_init_wf[OF assms, of P] tx_process_upto_wf[OF assms, of P] assms
    by (auto simp: main_sub_run_def Let_def split_beta simp del: seqs.simps split: main_sub_state.split intro!: wf_intros)
qed

end
