(* ===== verification/At_Main.thy ===== *)
theory At_Main
  imports Main_Sub
begin

text \<open>
  src/slm_at_main.c: the commands of the host. A received chunk is cut into lines; OK and ERROR
  answer the pending acknowledgment, the other lines are searched for the commands that the
  device's type has, in the order of the source.
\<close>

section \<open>Queries\<close>

definition device_type_name :: "dev \<Rightarrow> string" where
  "device_type_name d = (
     if get_device_type d = DEVICE_TYPE_GATEWAY then ''GATEWAY''
     else if get_device_type d = DEVICE_TYPE_ANCHOR then ''ANCHOR''
     else if get_device_type d = DEVICE_TYPE_SENSOR then ''SENSOR''
     else ''UNKNOWN'')"

text \<open>A response line, then OK or ERROR.\<close>

definition answer :: "platform \<Rightarrow> string \<Rightarrow> bool \<Rightarrow> dev \<Rightarrow> dev" where
  "answer P resp ok d = (let d = at_send_line P resp d in if ok then at_ok P d else at_error P d)"

definition cmd_get_version :: "platform \<Rightarrow> dev \<Rightarrow> dev" where
  "cmd_get_version P d = answer P (''#VERSION: '' @ dec_str (unat FIRMWARE_VERSION)) True d"

definition cmd_get_devtype :: "platform \<Rightarrow> dev \<Rightarrow> dev" where
  "cmd_get_devtype P d = answer P (''#DEVTYPE: '' @ device_type_name d)
     (\<not> (3 < get_device_type d \<or> get_device_type d = 0)) d"

definition cmd_get_devid :: "platform \<Rightarrow> dev \<Rightarrow> dev" where
  "cmd_get_devid P d = answer P (''#DEVID: '' @ dec_str (unat (get_device_id d)))
     (\<not> (get_device_id d = 0xFFFF \<or> get_device_id d = 0)) d"

definition sn_response :: "u64 \<Rightarrow> string" where
  "sn_response sn = ''#SN: 0x'' @ hex_fixed False 8 (unat (drop_bit 32 sn)) @
     hex_fixed False 8 (unat (ucast sn :: u32))"

definition cmd_get_sn :: "platform \<Rightarrow> dev \<Rightarrow> dev" where
  "cmd_get_sn P d = answer P (sn_response (get_serial_number d))
     (\<not> (get_serial_number d = - 1 \<or> get_serial_number d = 0)) d"

definition cmd_get_hop :: "platform \<Rightarrow> dev \<Rightarrow> dev" where
  "cmd_get_hop P d = answer P (''#HOP: '' @ dec_str (unat (get_hop_number d))) (get_hop_number d \<noteq> 0xFF) d"

definition cmd_set_sn :: "platform \<Rightarrow> string \<Rightarrow> dev \<Rightarrow> dev" where
  "cmd_set_sn P args d = (case field_hex_u64 args 0 of
       None \<Rightarrow> at_error P d
     | Some sn \<Rightarrow> if sn = 0 \<or> sn = - 1 then at_error P d
         else answer P (sn_response sn) True (set_serial_number P sn d))"

definition cmd_reboot :: "platform \<Rightarrow> dev \<Rightarrow> dev" where
  "cmd_reboot P d = sys_reboot (at_ok P d)"

section \<open>Dispatch\<close>

text \<open>\<open>strstr\<close>: the line from the first occurrence on; \<open>after\<close> skips the command.\<close>

fun strstr :: "string \<Rightarrow> string \<Rightarrow> string option" where
  "strstr pat s = (if take (length pat) s = pat then Some s
     else case s of [] \<Rightarrow> None | c # cs \<Rightarrow> strstr pat cs)"

declare strstr.simps [simp del]

definition after :: "string \<Rightarrow> string \<Rightarrow> string" where
  "after pat p = drop (length pat) p"

definition consume_pending :: "dev \<Rightarrow> dev" where
  "consume_pending d = d\<lparr>dv_pending_ack := (dv_pending_ack d)\<lparr>ap_data_type := 0\<rparr>\<rparr>"

definition dispatch_ok :: "platform \<Rightarrow> dev \<Rightarrow> dev" where
  "dispatch_ok P d = (let ack = dv_pending_ack d; t = ap_data_type ack in
     if t = DATA_TYPE_REPORT then proc (report_slot_release_by_id P (find_device_id_by_sn (ap_sn ack) d) (ap_id ack) True) d
     else if t = DATA_TYPE_CONFIG then proc (config_slot_release_by_id P (ap_id ack) STATUS_SUCCESS) d
     else if t = DATA_TYPE_LARGE_DATA then
       (if ap_page ack = - 1 \<and> ap_chunk ack = - 1 then cmd_ld_init_ack P None d else cmd_ld_chunk_ack P None d)
     else d)"

text \<open>The status that a failed configuration is released with is \<open>false\<close>, which is SUCCESS.\<close>

definition dispatch_error :: "platform \<Rightarrow> dev \<Rightarrow> dev" where
  "dispatch_error P d = (let ack = dv_pending_ack d; t = ap_data_type ack in
     if t = DATA_TYPE_REPORT then proc (report_slot_release_by_id P (find_device_id_by_sn (ap_sn ack) d) (ap_id ack) False) d
     else if t = DATA_TYPE_CONFIG then proc (config_slot_release_by_id P (ap_id ack) STATUS_SUCCESS) d
     else d)"

definition dispatch_common :: "platform \<Rightarrow> string \<Rightarrow> dev \<Rightarrow> dev" where
  "dispatch_common P line d = (
     if strstr ''AT#VERSION?'' line \<noteq> None then cmd_get_version P d
     else if strstr ''AT#DEVTYPE?'' line \<noteq> None then cmd_get_devtype P d
     else if strstr ''AT#DEVID?'' line \<noteq> None then cmd_get_devid P d
     else if strstr ''AT#SN?'' line \<noteq> None then cmd_get_sn P d
     else if strstr ''AT#HOP?'' line \<noteq> None then cmd_get_hop P d
     else case strstr ''AT#SN'' line of Some p \<Rightarrow> cmd_set_sn P (after ''AT#SN'' p) d | None \<Rightarrow>
     if strstr ''AT#REBOOT'' line \<noteq> None then cmd_reboot P d
     else case strstr ''AT'' line of
       Some p \<Rightarrow> (case after ''AT'' p of
           [] \<Rightarrow> at_ok P d
         | c # cs \<Rightarrow> if c = CHR 0x0D \<or> c = CHR 0x0A then at_ok P d else at_error P d)
     | None \<Rightarrow> at_error P d)"

definition dispatch_gateway :: "platform \<Rightarrow> string \<Rightarrow> dev \<Rightarrow> dev" where
  "dispatch_gateway P line d = (
     case strstr ''#REPORT'' line of Some p \<Rightarrow> cmd_report_ack p d | None \<Rightarrow>
     case strstr ''AT#CONFIG'' line of Some p \<Rightarrow> cmd_config P (after ''AT#CONFIG'' p) d | None \<Rightarrow>
     case strstr ''#LDINIT'' line of Some p \<Rightarrow> cmd_ld_init_ack P (Some p) d | None \<Rightarrow>
     case strstr ''#LD'' line of Some p \<Rightarrow> cmd_ld_chunk_ack P (Some p) d | None \<Rightarrow>
     dispatch_common P line d)"

definition dispatch_sensor :: "platform \<Rightarrow> string \<Rightarrow> dev \<Rightarrow> dev" where
  "dispatch_sensor P line d = (
     case strstr ''AT#REPORT'' line of Some p \<Rightarrow> cmd_report P (after ''AT#REPORT'' p) d | None \<Rightarrow>
     case strstr ''#CONFIG'' line of Some p \<Rightarrow> cmd_config_ack p d | None \<Rightarrow>
     case strstr ''AT#LDINIT'' line of Some p \<Rightarrow> cmd_ld_init P (after ''AT#LDINIT'' p) d | None \<Rightarrow>
     case strstr ''AT#LD'' line of Some p \<Rightarrow> cmd_ld_chunk P (after ''AT#LD'' p) d | None \<Rightarrow>
     dispatch_common P line d)"

definition dispatch :: "platform \<Rightarrow> string \<Rightarrow> dev \<Rightarrow> dev" where
  "dispatch P line d = (
     if line = ''OK'' then seqs [dispatch_ok P, consume_pending] d
     else if line = ''ERROR'' then seqs [dispatch_error P, consume_pending] d
     else if get_device_type d = DEVICE_TYPE_GATEWAY then dispatch_gateway P line d
     else if get_device_type d = DEVICE_TYPE_ANCHOR then dispatch_common P line d
     else if get_device_type d = DEVICE_TYPE_SENSOR then dispatch_sensor P line d
     else at_error P d)"

section \<open>Run cycle\<close>

definition is_eol :: "char \<Rightarrow> bool" where
  "is_eol c \<longleftrightarrow> c = CHR 0x0D \<or> c = CHR 0x0A"

text \<open>The non-empty lines of a chunk.\<close>

function at_lines :: "string \<Rightarrow> string list" where
  "at_lines s = (let p = dropWhile is_eol s in
     if p = [] then [] else takeWhile (\<lambda>c. \<not> is_eol c) p # at_lines (drop 1 (dropWhile (\<lambda>c. \<not> is_eol c) p)))"
  by pat_completeness auto
termination
proof (relation "measure length")
  fix s p assume "p = dropWhile is_eol s" "p \<noteq> []"
  have "length (dropWhile (\<lambda>c. \<not> is_eol c) p) \<le> length p" "0 < length p"
    using \<open>p \<noteq> []\<close> by (simp_all add: length_dropWhile_le)
  then have "length (drop 1 (dropWhile (\<lambda>c. \<not> is_eol c) p)) < length p" unfolding length_drop by linarith
  also have "length p \<le> length s" using \<open>p = dropWhile is_eol s\<close> by (simp add: length_dropWhile_le)
  finally show "(drop 1 (dropWhile (\<lambda>c. \<not> is_eol c) p), s) \<in> measure length" by simp
qed auto

declare at_lines.simps [simp del]

text \<open>One call with what the UART delivered: nothing, or a chunk.\<close>

definition slm_at_run_cycle :: "platform \<Rightarrow> string option \<Rightarrow> dev \<Rightarrow> dev" where
  "slm_at_run_cycle P msg d = (case msg of None \<Rightarrow> d | Some buf \<Rightarrow> seqs (map (dispatch P) (at_lines buf)) d)"

section \<open>Well-formedness\<close>

lemma answer_wf [wf_intros]: "dev_wf d \<Longrightarrow> dev_wf (answer P r ok d)"
  unfolding answer_def Let_def by (intro wf_intros; assumption)

lemma queries_wf [wf_intros]:
  assumes "dev_wf d"
  shows "dev_wf (cmd_get_version P d)" "dev_wf (cmd_get_devtype P d)" "dev_wf (cmd_get_devid P d)"
    "dev_wf (cmd_get_sn P d)" "dev_wf (cmd_get_hop P d)" "dev_wf (cmd_set_sn P args d)" "dev_wf (cmd_reboot P d)"
  unfolding cmd_get_version_def cmd_get_devtype_def cmd_get_devid_def cmd_get_sn_def cmd_get_hop_def
    cmd_set_sn_def cmd_reboot_def
  by (intro wf_intros; (rule assms | assumption))+

lemma consume_pending_wf [wf_intros]: "dev_wf d \<Longrightarrow> dev_wf (consume_pending d)"
  by (simp add: consume_pending_def dev_wf_def)

lemma dispatch_answers_wf [wf_intros]:
  assumes "dev_wf d" shows "dev_wf (dispatch_ok P d)" "dev_wf (dispatch_error P d)"
  unfolding dispatch_ok_def dispatch_error_def Let_def proc_def by (intro wf_intros; (rule assms | assumption))+

lemma dispatch_common_wf [wf_intros]: "dev_wf d \<Longrightarrow> dev_wf (dispatch_common P line d)"
  by (auto simp: dispatch_common_def split: option.splits list.splits intro!: wf_intros)

lemma dispatch_wf [wf_intros]: "dev_wf d \<Longrightarrow> dev_wf (dispatch P line d)"
  unfolding dispatch_def dispatch_gateway_def dispatch_sensor_def by (intro wf_intros; assumption)

lemma slm_at_run_cycle_wf [wf_intros]: "dev_wf d \<Longrightarrow> dev_wf (slm_at_run_cycle P msg d)"
proof -
  have "dev_wf (seqs (map (dispatch P) ls) d)" if "dev_wf d" for ls d
    using that by (induction ls arbitrary: d) (auto intro: dispatch_wf)
  then show "dev_wf d \<Longrightarrow> dev_wf (slm_at_run_cycle P msg d)" by (simp add: slm_at_run_cycle_def split: option.split)
qed

end
