(* ===== verification/Node_Lemmas.thy ===== *)
theory Node_Lemmas
  imports Session
begin

text \<open>
  Facts about whole nodes that the properties of the mesh layers share: the storage invariant at
  node level, what the table operations do to it, and the reference node of the witnesses.
\<close>

section \<open>The storage invariant on the node\<close>

abbreviation node_ok :: "platform \<Rightarrow> dev \<Rightarrow> bool" where
  "node_ok P d \<equiv> storage_ok P (dv_store d)"

text \<open>Runtime statistics are not part of what is stored.\<close>

lemma set_list_update_stamp:
  assumes "\<forall>x\<in>set xs. stamp_infra P x = x" "in_entry y = in_entry (xs ! i)" "i < length xs"
  shows "\<forall>x\<in>set (xs[i := y]). stamp_infra P x = x"
proof
  fix x assume "x \<in> set (xs[i := y])"
  then consider "x = y" | "x \<in> set xs" using set_update_subset_insert by fastforce
  then show "stamp_infra P x = x"
  proof cases
    case 1
    have "stamp_infra P (xs ! i) = xs ! i" using assms(1,3) by simp
    then have "in_entry (stamp_infra P y) = in_entry y"
      using assms(2) by (simp add: stamp_infra_eq) (metis infra.select_convs(1) infra.surjective infra.update_convs(1))
    then show ?thesis using 1 by (simp add: stamp_infra_eq)
  qed (use assms(1) in blast)
qed

lemma storage_ok_runtime:
  assumes "storage_ok P s" "\<And>x. in_entry (f x) = in_entry x"
  shows "storage_ok P (s\<lparr>st_infra := (st_infra s)[i := f (st_infra s ! i)]\<rparr>)"
proof (cases "i < st_infra_count s")
  case False
  then have "take (st_infra_count s) ((st_infra s)[i := f (st_infra s ! i)]) = infra_devs s" by simp
  then show ?thesis
    using assms(1) by (simp add: storage_ok_def infra_sorted_def infra_synced_def sensor_synced_def
        mesh_synced_def storage_wf_def)
next
  case True
  let ?s = "s\<lparr>st_infra := (st_infra s)[i := f (st_infra s ! i)]\<rparr>"
  note ok = storage_okD[OF assms(1)]
  note wf = storage_wfD[OF ok(1)]
  have devs: "infra_devs ?s = (infra_devs s)[i := f (st_infra s ! i)]"
    using True by (simp add: take_update_swap)
  have i: "i < length (infra_devs s)" "infra_devs s ! i = st_infra s ! i" using True wf by simp_all
  have ents: "map in_entry (infra_devs ?s) = map in_entry (infra_devs s)"
    unfolding devs using assms(2) i by (metis list_update_id map_update)
  have "map (enc_infra_entry \<circ> in_entry) (infra_devs ?s) = map (enc_infra_entry \<circ> in_entry) (infra_devs s)"
    using arg_cong[OF ents, of "map enc_infra_entry"] by simp
  moreover have "\<forall>x\<in>set (infra_devs ?s). stamp_infra P x = x"
    unfolding devs by (rule set_list_update_stamp) (use ok(3) assms(2) i in \<open>simp_all add: infra_synced_def\<close>)
  moreover have "infra_sorted ?s"
    using sorted_wrt_infra_entries[OF ents] ok(2) by (simp add: infra_sorted_def)
  ultimately show ?thesis
    using ok by (simp add: storage_ok_def infra_synced_def sensor_synced_def mesh_synced_def storage_wf_def)
qed

lemma storage_ok_sensor_runtime:
  assumes "storage_ok P s" "\<And>x. sn_entry (f x) = sn_entry x"
  shows "storage_ok P (s\<lparr>st_sensors := (st_sensors s)[i := f (st_sensors s ! i)]\<rparr>)"
proof -
  let ?s = "s\<lparr>st_sensors := (st_sensors s)[i := f (st_sensors s ! i)]\<rparr>"
  note ok = storage_okD[OF assms(1)]
  have ents: "map sn_entry (sensor_devs ?s) = map sn_entry (sensor_devs s)"
  proof (cases "i < st_sensor_count s \<and> i < length (st_sensors s)")
    case True
    then show ?thesis by (simp add: take_update_swap map_update assms(2)) (metis list_update_id map_update nth_take)
  next
    case False
    then show ?thesis by (auto simp: not_less list_update_beyond)
  qed
  then have "map (enc_sensor_entry \<circ> sn_entry) (sensor_devs ?s) = map (enc_sensor_entry \<circ> sn_entry) (sensor_devs s)"
    by (metis map_map)
  moreover have "\<forall>x\<in>set (sensor_devs ?s). stamp_sensor P x = x"
  proof
    fix x assume "x \<in> set (sensor_devs ?s)"
    then have "sn_entry x \<in> sn_entry ` set (sensor_devs s)" using arg_cong[OF ents, of set] by auto
    then obtain y where "y \<in> set (sensor_devs s)" "sn_entry x = sn_entry y" by auto
    moreover have "stamp_sensor P y = y" using calculation(1) ok(4) by (simp add: sensor_synced_def)
    ultimately have "(sn_entry x)\<lparr>se_crc32 := pf_crc32 P (sensor_body (sn_entry x))\<rparr> = sn_entry x"
      by (simp add: stamp_sensor_eq) (metis sensor.select_convs(1) sensor.surjective sensor.update_convs(1))
    then show "stamp_sensor P x = x" by (simp add: stamp_sensor_eq)
  qed
  ultimately show ?thesis
    using ok by (simp add: storage_ok_def infra_sorted_def infra_synced_def sensor_synced_def mesh_synced_def storage_wf_def)
qed

lemma upd_sensor_ok:
  "node_ok P d \<Longrightarrow> (\<And>x. sn_entry (f x) = sn_entry x) \<Longrightarrow> node_ok P (upd_sensor i f d)"
  by (simp add: upd_sensor_def storage_ok_sensor_runtime)

lemma upd_infra_ok:
  "node_ok P d \<Longrightarrow> (\<And>x. in_entry (f x) = in_entry x) \<Longrightarrow> node_ok P (upd_infra i f d)"
  by (simp add: upd_infra_def storage_ok_runtime)

lemma mark_ping_sent_ok: "node_ok P d \<Longrightarrow> node_ok P (mark_ping_sent i d)"
  unfolding mark_ping_sent_def by (rule upd_infra_ok) simp_all

lemma factory_reset_store: "dv_store (factory_reset P d) = storage_clear_all P (dv_store d)"
  by (simp add: factory_reset_def proc_def on_store_def split_beta Let_def storage_clear_all_def)

lemma factory_reset_frame [simp]:
  "dv_status (factory_reset P d) = dv_status d" "dv_info (factory_reset P d) = dv_info d"
  "dv_now (factory_reset P d) = dv_now d" "dv_queues (factory_reset P d) = dv_queues d"
  "dv_mesh (factory_reset P d) = dv_mesh d" "dv_pair (factory_reset P d) = dv_pair d"
  by (simp_all add: factory_reset_def proc_def on_store_def split_beta Let_def)

lemma on_store_frame [simp]:
  "dv_store (proc (on_store f) d) = snd (f (dv_store d))" "dv_status (proc (on_store f) d) = dv_status d"
  "dv_info (proc (on_store f) d) = dv_info d" "dv_now (proc (on_store f) d) = dv_now d"
  "dv_queues (proc (on_store f) d) = dv_queues d" "dv_mesh (proc (on_store f) d) = dv_mesh d"
  "dv_pair (proc (on_store f) d) = dv_pair d" "dv_tracker (proc (on_store f) d) = dv_tracker d"
  "dv_psram (proc (on_store f) d) = dv_psram d"
  by (simp_all add: proc_def on_store_def split_beta Let_def)

lemma on_store_result [simp]:
  "fst (on_store f d) = fst (f (dv_store d))" "snd (on_store f d) = proc (on_store f) d"
  by (simp_all add: proc_def on_store_def split_beta Let_def)

lemma setters_frame [simp]:
  "dv_store (set_hop_number h d) = dv_store d" "dv_store (set_connected_device_id i d) = dv_store d"
  "dv_store (set_mesh_devices_count n d) = dv_store d" "dv_store (set_temp_id i d) = dv_store d"
  "dv_store (mesh_time_set t d) = dv_store d" "dv_store (d_untrack tid d) = dv_store d"
  "dv_store (set_pair f d) = dv_store d" "dv_store (mesh_pairing_set_pending_request d) = dv_store d"
  "dv_status (set_hop_number h d) = dv_status d" "dv_status (set_connected_device_id i d) = dv_status d"
  "dv_status (set_mesh_devices_count n d) = dv_status d" "dv_status (set_temp_id i d) = dv_status d"
  "dv_status (mesh_time_set t d) = dv_status d" "dv_status (d_untrack tid d) = dv_status d"
  "dv_status (set_pair f d) = dv_status d" "dv_status (mesh_pairing_set_pending_request d) = dv_status d"
  by (simp_all add: set_hop_number_def set_connected_device_id_def set_mesh_devices_count_def
      set_temp_id_def mesh_time_set_def d_untrack_def set_pair_def mesh_pairing_set_pending_request_def)

lemma sys_reboot_simps [simp]:
  "dv_status (sys_reboot d) = Rebooted" "dv_store (sys_reboot d) = dv_store d"
  "dv_status (fault d) = Faulted" "dv_store (fault d) = dv_store d"
  by (simp_all add: sys_reboot_def fault_def)

lemma info_setters [simp]:
  "get_hop_number (set_hop_number h d) = h" "get_connected_device_id (set_hop_number h d) = get_connected_device_id d"
  "get_connected_device_id (set_connected_device_id i d) = i" "get_hop_number (set_connected_device_id i d) = get_hop_number d"
  "get_device_type (set_hop_number h d) = get_device_type d" "get_device_type (set_connected_device_id i d) = get_device_type d"
  "get_device_id (set_hop_number h d) = get_device_id d" "get_device_id (set_connected_device_id i d) = get_device_id d"
  "dv_info (d_untrack tid d) = dv_info d" "dv_info (set_pair f d) = dv_info d" "dv_info (set_temp_id i d) = dv_info d"
  by (simp_all add: set_hop_number_def set_connected_device_id_def d_untrack_def set_pair_def set_temp_id_def)

section \<open>\<open>device_info_update\<close>\<close>

lemma sorted_first_hop:
  assumes "infra_sorted s" "storage_wf s" "x \<in> set (infra_devs s)"
  shows "infra_hop (st_infra s ! 0) \<le> infra_hop x"
proof -
  obtain i where i: "i < length (infra_devs s)" "x = infra_devs s ! i" using assms(3) by (metis in_set_conv_nth)
  show ?thesis
  proof (cases i)
    case 0
    then show ?thesis using i by simp
  next
    case (Suc k)
    then have "\<not> infra_gt (infra_devs s ! 0) (infra_devs s ! i)"
      using assms(1) i(1) unfolding infra_sorted_def by (simp add: sorted_wrt_iff_nth_less)
    then show ?thesis using i by (auto simp: infra_gt_def not_less)
  qed
qed

lemma device_info_update_other: "get_device_type d \<noteq> DEVICE_TYPE_ANCHOR \<Longrightarrow> device_info_update P d = d"
  by (simp add: device_info_update_def)

lemma device_info_update_linked:
  assumes "get_device_type d = DEVICE_TYPE_ANCHOR" "dv_status d = Running" "0 < infra_count d"
    "infra_hop (infra_at d 0) < 4" "\<exists>x\<in>set (infra_devs (dv_store d)). infra_hop x \<le> get_hop_number d"
  shows "dv_status (device_info_update P d) = Running" "dv_store (device_info_update P d) = dv_store d"
    "get_hop_number (device_info_update P d) = infra_hop (infra_at d 0) + 1"
    "get_connected_device_id (device_info_update P d) = infra_id (infra_at d 0)"
    "get_device_type (device_info_update P d) = DEVICE_TYPE_ANCHOR"
    "get_device_id (device_info_update P d) = get_device_id d"
proof -
  let ?b = "infra_hop (infra_at d 0)"
  have u: "unat ?b < 4" using assms(4) by (simp add: word_less_nat_alt)
  then have "unat (?b + 1) = unat ?b + 1" by (simp add: unat_word_ariths)
  then have t: "?b < 0xFE" "\<not> 4 < unat (?b + 1)" "?b + 1 \<noteq> 0xFF" using u by (auto simp: word_less_nat_alt)
  have "\<not> (\<forall>x\<in>set (infra_devs (dv_store d)). get_hop_number d < infra_hop x)" "infra_count d \<noteq> 0"
    using assms(3,5) by (metis not_less, simp)
  then have "device_info_update P d = set_hop_number (?b + 1) (set_connected_device_id (infra_id (infra_at d 0))
        (if ?b + 1 \<noteq> get_hop_number d \<and> get_hop_number d \<noteq> 0xFF
         then proc (send_device_updated P (mk_du (get_device_type d) (get_device_id d)
                (get_serial_number d) FIRMWARE_VERSION (infra_id (infra_at d 0)) (?b + 1) (sensor_count8 d))
                (infra_id (infra_at d 0)) STATUS_SUCCESS) d else d))"
    using t assms(1) unfolding device_info_update_def Let_def
    by (simp only: if_True if_False simp_thms de_Morgan_disj not_True_eq_False)
  then show "dv_status (device_info_update P d) = Running" "dv_store (device_info_update P d) = dv_store d"
    "get_hop_number (device_info_update P d) = ?b + 1"
    "get_connected_device_id (device_info_update P d) = infra_id (infra_at d 0)"
    "get_device_type (device_info_update P d) = DEVICE_TYPE_ANCHOR"
    "get_device_id (device_info_update P d) = get_device_id d"
    using assms(1,2) by simp_all
qed

text \<open>The three ways the update of an anchor can go.\<close>

lemma device_info_update_cases:
  assumes "get_device_type d = DEVICE_TYPE_ANCHOR" "dv_status d = Running"
  obtains (empty) "infra_count d = 0"
      "device_info_update P d = set_connected_device_id 0xFFFF (set_hop_number 0xFF (factory_reset P d))"
  | (reset) "0 < infra_count d" "device_info_update P d = sys_reboot (factory_reset P d)"
  | (linked) "0 < infra_count d" "infra_hop (infra_at d 0) < 4"
      "dv_status (device_info_update P d) = Running" "dv_store (device_info_update P d) = dv_store d"
      "get_hop_number (device_info_update P d) = infra_hop (infra_at d 0) + 1"
      "get_connected_device_id (device_info_update P d) = infra_id (infra_at d 0)"
proof (cases "infra_count d = 0")
  case True
  then show ?thesis using empty assms(1) by (simp add: device_info_update_def)
next
  case False
  let ?b = "infra_hop (infra_at d 0)"
  let ?t = "if ?b < 0xFE then ?b + 1 else 0xFF"
  show ?thesis
  proof (cases "(\<forall>x\<in>set (infra_devs (dv_store d)). get_hop_number d < infra_hop x) \<or> ?t = 0xFF \<or> 4 < unat ?t")
    case True
    then have "device_info_update P d = sys_reboot (factory_reset P d)"
      using False assms(1) by (auto simp: device_info_update_def factory_reset_reboot_def Let_def)
    then show ?thesis using reset False by simp
  next
    case F: False
    then have lt: "?b < 0xFE" by (metis (full_types))
    with F have t: "\<not> 4 < unat (?b + 1)" by simp
    have "unat (?b + 1) = unat ?b + 1"
      using lt by (simp add: word_less_nat_alt unat_word_ariths)
    then have lt4: "?b < 4" using t by (simp add: word_less_nat_alt)
    moreover have "\<exists>x\<in>set (infra_devs (dv_store d)). infra_hop x \<le> get_hop_number d"
      using F False by (metis not_less)
    ultimately show ?thesis using linked device_info_update_linked[OF assms, where P = P] False by blast
  qed
qed

lemma u8_le_max [simp]: "(x :: u8) \<le> 0xFF"
  using unsigned_less[of x, where 'a = nat] by (simp add: word_le_nat_alt)

lemma stamp_new_infra [simp]:
  "infra_id (stamp_infra P (new_infra e)) = ie_device_id e" "infra_hop (stamp_infra P (new_infra e)) = ie_hop_num e"
  by (simp_all add: stamp_infra_eq new_infra_def)

end
