(* ===== verification/Mesh_Props.thy ===== *)
theory Mesh_Props
  imports Node_Lemmas
begin

text \<open>
  Properties of the mesh layers at node level: the derived hop number, the removal of silent
  peers, what the pairing and session handlers store and answer, and what they leave alone.
\<close>

section \<open>Reference nodes\<close>

definition boot_info :: "u8 \<Rightarrow> u16 \<Rightarrow> u8 \<Rightarrow> device_info" where
  "boot_info t i hop = \<lparr>di_device_type = t, di_device_id = i, di_serial_number = ucast i,
     di_connected_device_id = 0xFFFF, di_hop_num = hop, di_firmware_version = 0, di_mesh_devices_count = 0\<rparr>"

definition boot_pairing :: pairing where
  "boot_pairing = \<lparr>pr_candidates = replicate MAX_PAIR_RESPONSE_CANDIDATES
       \<lparr>cd_sender_id = 0, cd_device_type = 0, cd_hop_num = 0, cd_rssi_2 = 0\<rparr>,
     pr_count = 0, pr_idx = 0, pr_timer = nbtimeout_init 0 0, pr_collecting = False, pr_process_next = False\<rparr>"

definition boot_configs :: configs where
  "boot_configs = \<lparr>cf_slots = replicate CONFIG_SLOT_COUNT \<lparr>cs_active = False, cs_is_sent = False,
       cs_is_applied = False, cs_is_transfered = False, cs_dst_device_id = 0, cs_dst_device_type = 0,
       cs_config_id = 0, cs_config_len = 0, cs_config_crc32 = 0, cs_timeout = nbtimeout_init 0 0\<rparr>,
     cf_active_count = 0\<rparr>"

definition boot_reports :: reports where
  "boot_reports = \<lparr>rp_senders = replicate MAX_ANCHORS \<lparr>sd_active = False, sd_dst_id = 0,
       sd_gen_device_id = 0, sd_data_id = 0, sd_priority = 0, sd_total_size = 0, sd_chunk_count = 0,
       sd_last_chunk_size = 0, sd_next_chunk = 0, sd_crc32 = 0, sd_timeout = nbtimeout_init 0 0\<rparr>,
     rp_slots = replicate DATA_SLOT_COUNT \<lparr>sl_active = False, sl_upstream_ready = False,
       sl_is_sent = False, sl_is_transfered = False, sl_gen_device_id = 0, sl_data_id = 0,
       sl_priority = 0, sl_report_time_ms = 0, sl_total_size = 0, sl_chunk_count = 0,
       sl_last_chunk_size = 0, sl_crc32 = 0, sl_received = replicate DATA_MAX_CHUNKS False,
       sl_received_count = 0, sl_idle_timeout = nbtimeout_init 0 0\<rparr>,
     rp_high_count = 0, rp_med_count = 0, rp_low_count = 0\<rparr>"

definition boot_large :: large_data where
  "boot_large = \<lparr>ld_senders = replicate LARGE_DATA_SENDER_SLOT_COUNT \<lparr>lt_active = False, lt_dst_id = 0,
       lt_gen_device_id = 0, lt_data_id = 0, lt_priority = 0, lt_total_size = 0, lt_page_count = 0,
       lt_last_chunk_size = 0, lt_total_chunks = 0, lt_next_chunk = 0, lt_crc32 = 0, lt_base_addr = 0,
       lt_timeout = nbtimeout_init 0 0\<rparr>,
     ld_slots = replicate LARGE_DATA_RECEIVER_SLOT_COUNT \<lparr>lg_active = False, lg_upstream_ready = False,
       lg_is_sent = False, lg_is_transfered = False, lg_gen_device_id = 0, lg_data_id = 0, lg_priority = 0,
       lg_total_size = 0, lg_page_count = 0, lg_last_chunk_size = 0, lg_total_chunks = 0, lg_crc32 = 0,
       lg_received_count = 0, lg_bitmap = replicate LARGE_DATA_BITMAP_SIZE 0, lg_base_addr = 0,
       lg_report_time_ms = 0, lg_idle_timeout = nbtimeout_init 0 0\<rparr>,
     ld_page_empty = replicate LARGE_DATA_MAX_PAGE_COUNT True, ld_busy = False,
     ld_device_id_cache = 0xFFFF, ld_sender_idx_cache = - 1\<rparr>"

definition boot_dev :: "u8 \<Rightarrow> u16 \<Rightarrow> u8 \<Rightarrow> storage \<Rightarrow> dev" where
  "boot_dev t i hop s = \<lparr>dv_status = Running, dv_now = 1000, dv_rand = 0, dv_info = boot_info t i hop,
     dv_info_initialized = True, dv_radio_id = i, dv_queues = queues_empty, dv_store = s,
     dv_psram = ref_psram, dv_tracker = boot_tracker,
     dv_mesh = \<lparr>mh_initialized = True, mh_temp_id = 0xFFFF, mh_last_pair_request_ms = 0, mh_time_offset = 0\<rparr>,
     dv_pair = boot_pairing, dv_config = boot_configs, dv_reports = boot_reports, dv_uart = [],
     dv_pending_ack = \<lparr>ap_data_type = 0, ap_sn = 0, ap_id = 0, ap_page = 0, ap_chunk = 0\<rparr>,
     dv_large = boot_large, dv_main = \<lparr>mn_initialized = False, mn_state = MAIN_SUB_INIT\<rparr>,
     dv_last_sender = 0, dv_air = []\<rparr>"

lemma boot_dev_simps [simp]:
  "dv_status (boot_dev t i hop s) = Running" "dv_store (boot_dev t i hop s) = s"
  "get_device_type (boot_dev t i hop s) = t" "get_device_id (boot_dev t i hop s) = i"
  "get_hop_number (boot_dev t i hop s) = hop" "dv_pair (boot_dev t i hop s) = boot_pairing"
  by (simp_all add: boot_dev_def boot_info_def)

lemma boot_dev_wf [wf_intros]: "storage_wf s \<Longrightarrow> dev_wf (boot_dev t i hop s)"
  using boot_tracker_wf by (simp add: dev_wf_def boot_dev_def pairing_wf_def boot_pairing_def configs_wf_def boot_configs_def
      reports_wf_def boot_reports_def large_wf_def boot_large_def)

lemma ref_storage1_devs:
  "infra_devs ref_storage1 = [stamp_infra ref_platform (new_infra ref_anchor)]"
  "find_infra 7 (boot_dev t i hop ref_storage1) = Some 0"
proof -
  note ee = platform_okD(2)[OF ref_platform_ok]
  let ?s = "snd (storage_infra_add ref_platform ref_storage ref_anchor)"
  have "mset (infra_devs ?s) = {#stamp_infra ref_platform (new_infra ref_anchor)#}"
    using storage_infra_add_lemma(3)[OF ee ref_storage_ok] by (simp add: ref_storage_counts)
  moreover have "infra_devs ref_storage1 = infra_devs ?s"
    by (simp add: ref_storage1_def storage_mesh_add_def split_beta Let_def)
  ultimately show d: "infra_devs ref_storage1 = [stamp_infra ref_platform (new_infra ref_anchor)]" by simp
  show "find_infra 7 (boot_dev t i hop ref_storage1) = Some 0"
    by (simp add: d stamp_infra_eq new_infra_def ref_anchor_def)
qed

lemma ref_storage1_at0: "st_infra ref_storage1 ! 0 = stamp_infra ref_platform (new_infra ref_anchor)"
  using arg_cong[OF ref_storage1_devs(1), of "\<lambda>xs. xs ! 0"] ref_storage1_ok(2) by simp

section \<open>Hop number\<close>

text \<open>
  C6: After \<open>device_info_update\<close> an anchor that keeps running and has peers is linked to the best
  of them: no peer is closer to the gateway, its own hop number is that peer's plus one and at
  most 4, and it names that peer as its connected device. Otherwise all its tables are empty: it
  rebooted, or it forgot its hop number (0xFF). The tables stay sorted and in step with the EEPROM.
\<close>

theorem device_info_update_hop:
  assumes "eeprom_ok P" "node_ok P d" "get_device_type d = DEVICE_TYPE_ANCHOR" "dv_status d = Running"
  defines "d' \<equiv> device_info_update P d"
  shows "node_ok P d' \<and>
    (dv_status d' = Running \<and> 0 < infra_count d' \<longrightarrow>
      (\<forall>x\<in>set (infra_devs (dv_store d')). infra_hop (infra_at d' 0) \<le> infra_hop x) \<and>
      get_hop_number d' = infra_hop (infra_at d' 0) + 1 \<and> 1 \<le> get_hop_number d' \<and> get_hop_number d' \<le> 4 \<and>
      get_connected_device_id d' = infra_id (infra_at d' 0)) \<and>
    (\<not> (dv_status d' = Running \<and> 0 < infra_count d') \<longrightarrow>
      infra_devs (dv_store d') = [] \<and> sensor_devs (dv_store d') = [] \<and> mesh_devs (dv_store d') = [] \<and>
      (dv_status d' = Rebooted \<or> get_hop_number d' = 0xFF \<and> get_connected_device_id d' = 0xFFFF))"
proof -
  note clr = storage_clear_all_ok[OF assms(1) storage_okD(1)[OF assms(2)]]
  show ?thesis
  proof (cases rule: device_info_update_cases[OF assms(3,4), where P = P, case_names empty reset linked])
    case empty
    then show ?thesis using clr assms(4) by (simp add: d'_def factory_reset_store)
  next
    case reset
    then show ?thesis using clr by (simp add: d'_def factory_reset_store)
  next
    case linked
    have "\<forall>x\<in>set (infra_devs (dv_store d)). infra_hop (infra_at d 0) \<le> infra_hop x"
      using sorted_first_hop storage_okD(1,2)[OF assms(2)] by blast
    moreover have "unat (infra_hop (infra_at d 0) + 1) = unat (infra_hop (infra_at d 0)) + 1"
      using linked(2) by (simp add: word_less_nat_alt unat_word_ariths)
    then have "1 \<le> infra_hop (infra_at d 0) + 1 \<and> infra_hop (infra_at d 0) + 1 \<le> 4"
      using linked(2) by (simp add: word_less_nat_alt word_le_nat_alt)
    ultimately show ?thesis using linked assms(2) by (simp add: d'_def)
  qed
qed

theorem device_info_update_hop_witness:
  "get_hop_number (device_info_update ref_platform (boot_dev DEVICE_TYPE_ANCHOR 9 0xFF ref_storage1)) = 2"
proof -
  let ?d = "boot_dev DEVICE_TYPE_ANCHOR 9 0xFF ref_storage1"
  have h: "infra_hop (infra_at ?d 0) = 1"
    by (simp add: ref_storage1_at0 stamp_infra_eq new_infra_def ref_anchor_def)
  have r: "dv_status (device_info_update ref_platform ?d) = Running \<and>
      dv_store (device_info_update ref_platform ?d) = ref_storage1"
    using h ref_storage1_ok ref_storage1_devs(1)
    by (simp add: device_info_update_def Let_def stamp_infra_eq new_infra_def ref_anchor_def)
  show ?thesis
    using device_info_update_hop[OF platform_okD(2)[OF ref_platform_ok], of ?d] r h ref_storage1_ok by simp
qed

section \<open>Silent peers\<close>

lemma find_infra_entries:
  "find_idx (\<lambda>x. infra_id x = i) xs = find_idx (\<lambda>e. ie_device_id e = i) (map in_entry xs)"
  by (induction xs) auto

lemma find_sensor_entries:
  "find_idx (\<lambda>x. sensor_id x = i) xs = find_idx (\<lambda>e. se_device_id e = i) (map sn_entry xs)"
  by (induction xs) auto

lemma take_update_map:
  assumes "\<And>x. g (f x) = g x"
  shows "map g (take n (xs[i := f (xs ! i)])) = map g (take n xs)"
proof (cases "i < n \<and> i < length xs")
  case True
  then show ?thesis by (simp add: take_update_swap map_update assms) (metis list_update_id map_update nth_take)
next
  case False
  then show ?thesis by (auto simp: not_less list_update_beyond)
qed

lemma upd_infra_entries:
  "(\<And>x. in_entry (f x) = in_entry x) \<Longrightarrow>
    map in_entry (infra_devs (dv_store (upd_infra i f d))) = map in_entry (infra_devs (dv_store d))"
  by (simp add: upd_infra_def take_update_map)

lemma upd_sensor_entries:
  "(\<And>x. sn_entry (f x) = sn_entry x) \<Longrightarrow>
    map sn_entry (sensor_devs (dv_store (upd_sensor i f d))) = map sn_entry (sensor_devs (dv_store d))"
  by (simp add: upd_sensor_def take_update_map)

lemma upd_infra_frame [simp]:
  "dv_info (upd_infra i f d) = dv_info d" "dv_status (upd_infra i f d) = dv_status d"
  "infra_count (upd_infra i f d) = infra_count d" "dv_now (upd_infra i f d) = dv_now d"
  by (simp_all add: upd_infra_def)

lemma upd_sensor_frame [simp]:
  "dv_info (upd_sensor i f d) = dv_info d" "infra_devs (dv_store (upd_sensor i f d)) = infra_devs (dv_store d)"
  "st_sensor_count (dv_store (upd_sensor i f d)) = st_sensor_count (dv_store d)"
  by (simp_all add: upd_sensor_def)

lemma upd_peer_at:
  "find_infra i d = Some k \<Longrightarrow> infra_at (upd_infra k f d) k = f (infra_at d k)"
  "find_sensor i d = Some k \<Longrightarrow> sensor_at (upd_sensor k g d) k = g (sensor_at d k)"
  by (auto dest!: find_idx_take_less simp: upd_infra_def upd_sensor_def)

definition failed_infra :: "nat \<Rightarrow> dev \<Rightarrow> dev" where
  "failed_infra k d = upd_infra k (\<lambda>x. x\<lparr>in_comm_failures := in_comm_failures x + 1, in_last_comm_ms := dv_now d, in_ping_sent := False\<rparr>) d"

definition failed_sensor :: "nat \<Rightarrow> dev \<Rightarrow> dev" where
  "failed_sensor k d = upd_sensor k (\<lambda>x. x\<lparr>sn_comm_failures := sn_comm_failures x + 1, sn_last_comm_ms := dv_now d, sn_ping_sent := False\<rparr>) d"

lemma failed_infra_keeps:
  assumes "find_infra i d = Some k"
  shows "in_comm_failures (infra_at (failed_infra k d) k) = in_comm_failures (infra_at d k) + 1"
    "map in_entry (infra_devs (dv_store (failed_infra k d))) = map in_entry (infra_devs (dv_store d))"
    "find_infra i (failed_infra k d) = Some k" "dv_info (failed_infra k d) = dv_info d"
    "node_ok P d \<Longrightarrow> node_ok P (failed_infra k d)"
proof -
  show "in_comm_failures (infra_at (failed_infra k d) k) = in_comm_failures (infra_at d k) + 1"
    using assms by (simp add: failed_infra_def upd_peer_at)
  show e: "map in_entry (infra_devs (dv_store (failed_infra k d))) = map in_entry (infra_devs (dv_store d))"
    unfolding failed_infra_def by (rule upd_infra_entries) simp
  show "find_infra i (failed_infra k d) = Some k" using assms unfolding find_infra_entries e .
  show "node_ok P d \<Longrightarrow> node_ok P (failed_infra k d)" unfolding failed_infra_def by (rule upd_infra_ok) simp_all
qed (simp add: failed_infra_def)

lemma failed_sensor_keeps:
  assumes "find_sensor i d = Some k"
  shows "sn_comm_failures (sensor_at (failed_sensor k d) k) = sn_comm_failures (sensor_at d k) + 1"
    "map sn_entry (sensor_devs (dv_store (failed_sensor k d))) = map sn_entry (sensor_devs (dv_store d))"
    "find_sensor i (failed_sensor k d) = Some k" "dv_info (failed_sensor k d) = dv_info d"
    "find_infra i (failed_sensor k d) = find_infra i d" "node_ok P d \<Longrightarrow> node_ok P (failed_sensor k d)"
proof -
  show "sn_comm_failures (sensor_at (failed_sensor k d) k) = sn_comm_failures (sensor_at d k) + 1"
    using assms by (simp add: failed_sensor_def upd_peer_at)
  show e: "map sn_entry (sensor_devs (dv_store (failed_sensor k d))) = map sn_entry (sensor_devs (dv_store d))"
    unfolding failed_sensor_def by (rule upd_sensor_entries) simp
  show "find_sensor i (failed_sensor k d) = Some k" using assms unfolding find_sensor_entries e .
  show "node_ok P d \<Longrightarrow> node_ok P (failed_sensor k d)" unfolding failed_sensor_def by (rule upd_sensor_ok) simp_all
qed (simp_all add: failed_sensor_def)

lemma comm_failure_infra:
  assumes "get_device_type d \<noteq> DEVICE_TYPE_SENSOR" "find_infra i d = Some k"
  shows "known_device_update_comm_time P i False d = (
      if in_comm_failures (infra_at d k) + 1 < MAX_COMM_FAILURES then failed_infra k d
      else device_info_update P (proc (on_store (\<lambda>s. storage_infra_remove P s k)) (failed_infra k d)))"
  using assms failed_infra_keeps(1)[OF assms(2)]
  by (simp add: known_device_update_comm_time_def known_infra_comm_def failed_infra_def Let_def not_le[symmetric])

lemma comm_failure_sensor:
  assumes "get_device_type d \<noteq> DEVICE_TYPE_SENSOR" "find_infra i d = None" "find_sensor i d = Some k"
  shows "sn_comm_failures (sensor_at d k) + 1 < MAX_COMM_FAILURES \<Longrightarrow>
      known_device_update_comm_time P i False d = failed_sensor k d"
    "\<not> sn_comm_failures (sensor_at d k) + 1 < MAX_COMM_FAILURES \<Longrightarrow>
      dv_store (known_device_update_comm_time P i False d) = snd (storage_sensor_remove P (dv_store (failed_sensor k d)) k)"
  using assms failed_sensor_keeps(1)[OF assms(3)]
  by (simp_all add: known_device_update_comm_time_def known_sensor_comm_def failed_sensor_def Let_def not_le[symmetric]
      proc_def[of "on_store f" for f] on_store_def split_beta)

text \<open>Fewer than three failures in a row change the count of the peer only.\<close>

lemma failures_less:
  fixes f :: u8
  assumes "unat f + n < 3" shows "f + word_of_nat n < MAX_COMM_FAILURES" "unat (f + word_of_nat n) = unat f + n"
proof -
  have "unat (word_of_nat n :: u8) = n" using assms by (simp add: unat_of_nat)
  then show u: "unat (f + word_of_nat n) = unat f + n" using assms by (simp add: unat_word_ariths)
  show "f + word_of_nat n < MAX_COMM_FAILURES" unfolding word_less_nat_alt u using assms by simp
qed

lemma infra_failures:
  assumes "get_device_type d \<noteq> DEVICE_TYPE_SENSOR" "find_infra i d = Some k" "node_ok P d"
    "unat (in_comm_failures (infra_at d k)) + n < 3"
  defines "e \<equiv> (known_device_update_comm_time P i False ^^ n) d"
  shows "dv_info e = dv_info d \<and> find_infra i e = Some k \<and> node_ok P e \<and>
    in_comm_failures (infra_at e k) = in_comm_failures (infra_at d k) + word_of_nat n \<and>
    map in_entry (infra_devs (dv_store e)) = map in_entry (infra_devs (dv_store d))"
  using assms(4) unfolding e_def
proof (induction n)
  case 0
  then show ?case using assms(2,3) by simp
next
  case (Suc n)
  let ?e = "(known_device_update_comm_time P i False ^^ n) d"
  have ih: "dv_info ?e = dv_info d" "find_infra i ?e = Some k" "node_ok P ?e"
    "in_comm_failures (infra_at ?e k) = in_comm_failures (infra_at d k) + word_of_nat n"
    "map in_entry (infra_devs (dv_store ?e)) = map in_entry (infra_devs (dv_store d))"
    using Suc.IH Suc.prems by simp_all
  have "in_comm_failures (infra_at ?e k) + 1 < MAX_COMM_FAILURES"
    using failures_less(1)[OF Suc.prems] ih(4) by (simp add: ac_simps)
  then have "known_device_update_comm_time P i False ?e = failed_infra k ?e"
    using comm_failure_infra[of ?e i k P] assms(1) ih(1,2) by simp
  then show ?case using failed_infra_keeps[OF ih(2)] ih by (simp add: ac_simps)
qed

lemma sensor_failures:
  assumes "get_device_type d \<noteq> DEVICE_TYPE_SENSOR" "find_infra i d = None" "find_sensor i d = Some k" "node_ok P d"
    "unat (sn_comm_failures (sensor_at d k)) + n < 3"
  defines "e \<equiv> (known_device_update_comm_time P i False ^^ n) d"
  shows "dv_info e = dv_info d \<and> find_infra i e = None \<and> find_sensor i e = Some k \<and> node_ok P e \<and>
    sn_comm_failures (sensor_at e k) = sn_comm_failures (sensor_at d k) + word_of_nat n \<and>
    map sn_entry (sensor_devs (dv_store e)) = map sn_entry (sensor_devs (dv_store d))"
  using assms(5) unfolding e_def
proof (induction n)
  case 0
  then show ?case using assms(2-4) by simp
next
  case (Suc n)
  let ?e = "(known_device_update_comm_time P i False ^^ n) d"
  have ih: "dv_info ?e = dv_info d" "find_infra i ?e = None" "find_sensor i ?e = Some k" "node_ok P ?e"
    "sn_comm_failures (sensor_at ?e k) = sn_comm_failures (sensor_at d k) + word_of_nat n"
    "map sn_entry (sensor_devs (dv_store ?e)) = map sn_entry (sensor_devs (dv_store d))"
    using Suc.IH Suc.prems by simp_all
  have "sn_comm_failures (sensor_at ?e k) + 1 < MAX_COMM_FAILURES"
    using failures_less(1)[OF Suc.prems] ih(5) by (simp add: ac_simps)
  then have "known_device_update_comm_time P i False ?e = failed_sensor k ?e"
    using comm_failure_sensor(1)[of ?e i k P] assms(1) ih(1-3) by simp
  then show ?case using failed_sensor_keeps[OF ih(3)] ih by (simp add: ac_simps)
qed

text \<open>The failure that makes three removes the peer.\<close>

lemma last_failure:
  fixes f :: u8
  assumes "f < MAX_COMM_FAILURES"
  obtains n where "3 - unat f = Suc n" "unat f + n < 3" "\<not> f + word_of_nat n + 1 < MAX_COMM_FAILURES"
proof (rule that[of "2 - unat f"])
  have f: "unat f < 3" using assms by (simp add: word_less_nat_alt)
  then show "3 - unat f = Suc (2 - unat f)" "unat f + (2 - unat f) < 3" by simp_all
  have "unat (f + word_of_nat (2 - unat f)) = 2" using failures_less(2)[of f "2 - unat f"] f by simp
  then have "unat (f + word_of_nat (2 - unat f) + 1) = 3" by (simp add: unat_word_ariths)
  then show "\<not> f + word_of_nat (2 - unat f) + 1 < MAX_COMM_FAILURES" by (simp add: word_less_nat_alt)
qed

lemma infra_forgotten:
  assumes "eeprom_ok P" "get_device_type d \<noteq> DEVICE_TYPE_SENSOR" "find_infra i d = Some k" "node_ok P d"
    "in_comm_failures (infra_at d k) < MAX_COMM_FAILURES"
  defines "m \<equiv> 3 - unat (in_comm_failures (infra_at d k))"
  shows "\<exists>e. (known_device_update_comm_time P i False ^^ m) d = device_info_update P e \<and> dv_info e = dv_info d \<and>
    node_ok P e \<and> map in_entry (infra_devs (dv_store e)) =
      take k (map in_entry (infra_devs (dv_store d))) @ drop (Suc k) (map in_entry (infra_devs (dv_store d)))"
proof -
  obtain n where n: "m = Suc n" "unat (in_comm_failures (infra_at d k)) + n < 3"
    "\<not> in_comm_failures (infra_at d k) + word_of_nat n + 1 < MAX_COMM_FAILURES"
    unfolding m_def by (rule last_failure[OF assms(5)])
  let ?e = "(known_device_update_comm_time P i False ^^ n) d" and ?u = "failed_infra k ((known_device_update_comm_time P i False ^^ n) d)"
  note f = infra_failures[OF assms(2-4) n(2)]
  then have e: "find_infra i ?e = Some k" "get_device_type ?e \<noteq> DEVICE_TYPE_SENSOR" "node_ok P ?e" "dv_info ?e = dv_info d"
    "map in_entry (infra_devs (dv_store ?e)) = map in_entry (infra_devs (dv_store d))" using assms(2) by simp_all
  note u = failed_infra_keeps[OF e(1)]
  let ?r = "proc (on_store (\<lambda>s. storage_infra_remove P s k)) ?u"
  have "(known_device_update_comm_time P i False ^^ m) d = device_info_update P ?r"
    using comm_failure_infra[OF e(2,1), of P] f n(1,3) by simp
  moreover have "dv_info ?r = dv_info d" using u(4) e(4) by simp
  moreover have k: "k < st_infra_count (dv_store ?u)" using find_idx_take_less[OF u(3)] by simp
  note rm = storage_infra_remove_lemma[OF assms(1) u(5)[OF e(3)] k]
  have "node_ok P ?r" using rm(2) by simp
  moreover have "map in_entry (infra_devs (dv_store ?r)) =
      take k (map in_entry (infra_devs (dv_store ?u))) @ drop (Suc k) (map in_entry (infra_devs (dv_store ?u)))"
    by (simp add: rm(3) take_map drop_map)
  then have "map in_entry (infra_devs (dv_store ?r)) =
      take k (map in_entry (infra_devs (dv_store d))) @ drop (Suc k) (map in_entry (infra_devs (dv_store d)))"
    unfolding u(2) e(5) .
  ultimately show ?thesis by blast
qed

lemma sensor_forgotten:
  assumes "eeprom_ok P" "get_device_type d \<noteq> DEVICE_TYPE_SENSOR" "find_infra i d = None" "find_sensor i d = Some k" "node_ok P d"
    "sn_comm_failures (sensor_at d k) < MAX_COMM_FAILURES"
  defines "e \<equiv> (known_device_update_comm_time P i False ^^ (3 - unat (sn_comm_failures (sensor_at d k)))) d"
  shows "node_ok P e \<and> map sn_entry (sensor_devs (dv_store e)) =
      take k (map sn_entry (sensor_devs (dv_store d))) @ drop (Suc k) (map sn_entry (sensor_devs (dv_store d)))"
proof -
  obtain n where n: "3 - unat (sn_comm_failures (sensor_at d k)) = Suc n" "unat (sn_comm_failures (sensor_at d k)) + n < 3"
    "\<not> sn_comm_failures (sensor_at d k) + word_of_nat n + 1 < MAX_COMM_FAILURES"
    by (rule last_failure[OF assms(6)])
  let ?e = "(known_device_update_comm_time P i False ^^ n) d" and ?u = "failed_sensor k ((known_device_update_comm_time P i False ^^ n) d)"
  note f = sensor_failures[OF assms(2-5) n(2)]
  then have e: "find_infra i ?e = None" "find_sensor i ?e = Some k" "get_device_type ?e \<noteq> DEVICE_TYPE_SENSOR" "node_ok P ?e"
    "map sn_entry (sensor_devs (dv_store ?e)) = map sn_entry (sensor_devs (dv_store d))" using assms(2) by simp_all
  note u = failed_sensor_keeps[OF e(2)]
  have s: "dv_store e = snd (storage_sensor_remove P (dv_store ?u) k)"
    using comm_failure_sensor(2)[OF e(3,1,2), of P] f n(3) by (simp add: e_def n(1))
  have k: "k < st_sensor_count (dv_store ?u)" using find_idx_take_less[OF u(3)] by simp
  note rm = storage_sensor_remove_lemma[OF assms(1) u(6)[OF e(4)] k]
  have "map sn_entry (sensor_devs (dv_store e)) =
      take k (map sn_entry (sensor_devs (dv_store ?u))) @ drop (Suc k) (map sn_entry (sensor_devs (dv_store ?u)))"
    unfolding s by (simp add: rm(3) take_map drop_map)
  then show ?thesis using rm(2) unfolding s u(2) e(5) by simp
qed

text \<open>
  C10: What exhausted packets do to the peer they were for. On a sensor the first one clears the table
  of infrastructure peers. Any other node counts the failures of each peer: as long as there are fewer
  than three in a row the stored tables stay as they are; the third removes exactly the entry of that
  peer, in RAM and in the EEPROM, whether it is an infrastructure device (the node then updates its own
  place in the network) or a sensor. A packet that gets through in between sets the count back to 0.
\<close>

theorem silent_peer_forgotten:
  fixes P :: platform and d :: dev and i :: u16
  assumes "eeprom_ok P" "node_ok P d"
  defines "fails \<equiv> known_device_update_comm_time P i False" and "answers \<equiv> known_device_update_comm_time P i True"
  defines "infra \<equiv> \<lambda>d. map in_entry (infra_devs (dv_store d))" and "sensors \<equiv> \<lambda>d. map sn_entry (sensor_devs (dv_store d))"
  shows "(get_device_type d = DEVICE_TYPE_SENSOR \<longrightarrow> infra (fails d) = [] \<and> node_ok P (fails d)) \<and>
    (get_device_type d \<noteq> DEVICE_TYPE_SENSOR \<longrightarrow>
      (\<forall>k. find_infra i d = Some k \<and> in_comm_failures (infra_at d k) < MAX_COMM_FAILURES \<longrightarrow>
        (let m = 3 - unat (in_comm_failures (infra_at d k)) in
          (\<forall>n<m. infra ((fails ^^ n) d) = infra d) \<and>
          (\<exists>e. (fails ^^ m) d = device_info_update P e \<and> get_device_type e = get_device_type d \<and>
            infra e = take k (infra d) @ drop (Suc k) (infra d) \<and> node_ok P e)) \<and>
        in_comm_failures (infra_at (answers d) k) = 0 \<and> infra (answers d) = infra d) \<and>
      (\<forall>k. find_infra i d = None \<and> find_sensor i d = Some k \<and> sn_comm_failures (sensor_at d k) < MAX_COMM_FAILURES \<longrightarrow>
        (let m = 3 - unat (sn_comm_failures (sensor_at d k)) in
          (\<forall>n<m. sensors ((fails ^^ n) d) = sensors d) \<and>
          sensors ((fails ^^ m) d) = take k (sensors d) @ drop (Suc k) (sensors d) \<and> node_ok P ((fails ^^ m) d)) \<and>
        sn_comm_failures (sensor_at (answers d) k) = 0 \<and> sensors (answers d) = sensors d))"
proof -
  have "infra (fails d) = [] \<and> node_ok P (fails d)" if "get_device_type d = DEVICE_TYPE_SENSOR"
    using storage_infra_clear_lemma[OF assms(1,2)] that by (simp add: fails_def infra_def known_device_update_comm_time_def)
  moreover have "in_comm_failures (infra_at (answers d) k) = 0 \<and> infra (answers d) = infra d"
    if t: "get_device_type d \<noteq> DEVICE_TYPE_SENSOR" and k: "find_infra i d = Some k" for k
  proof -
    let ?f = "\<lambda>x. x\<lparr>in_comm_failures := 0, in_last_comm_ms := dv_now d, in_ping_sent := False\<rparr>"
    have "answers d = upd_infra k ?f d" using t k upd_peer_at(1)[OF k, of ?f]
      by (simp add: answers_def known_device_update_comm_time_def known_infra_comm_def Let_def)
    then show ?thesis using upd_peer_at(1)[OF k, of ?f] upd_infra_entries[of ?f k d] by (simp add: infra_def)
  qed
  moreover have "sn_comm_failures (sensor_at (answers d) k) = 0 \<and> sensors (answers d) = sensors d"
    if t: "get_device_type d \<noteq> DEVICE_TYPE_SENSOR" and n: "find_infra i d = None" and k: "find_sensor i d = Some k" for k
  proof -
    let ?f = "\<lambda>x. x\<lparr>sn_comm_failures := 0, sn_last_comm_ms := dv_now d, sn_ping_sent := False\<rparr>"
    have "answers d = upd_sensor k ?f d" using t n k upd_peer_at(2)[OF k, of ?f]
      by (simp add: answers_def known_device_update_comm_time_def known_sensor_comm_def Let_def)
    then show ?thesis using upd_peer_at(2)[OF k, of ?f] upd_sensor_entries[of ?f k d] by (simp add: sensors_def)
  qed
  moreover have "infra ((fails ^^ n) d) = infra d"
    if "get_device_type d \<noteq> DEVICE_TYPE_SENSOR" "find_infra i d = Some k" "n < 3 - unat (in_comm_failures (infra_at d k))" for k n
    using infra_failures[OF that(1,2) assms(2), of n] that(3) by (simp add: infra_def fails_def)
  moreover have "sensors ((fails ^^ n) d) = sensors d"
    if "get_device_type d \<noteq> DEVICE_TYPE_SENSOR" "find_infra i d = None" "find_sensor i d = Some k"
      "n < 3 - unat (sn_comm_failures (sensor_at d k))" for k n
    using sensor_failures[OF that(1-3) assms(2), of n] that(4) by (simp add: sensors_def fails_def)
  moreover note infra_forgotten[OF assms(1) _ _ assms(2), of i, folded fails_def]
    sensor_forgotten[OF assms(1) _ _ _ assms(2), of i, folded fails_def]
  ultimately show ?thesis unfolding Let_def infra_def sensors_def by (metis (no_types, lifting))
qed

theorem silent_peer_forgotten_witness:
  "let f = known_device_update_comm_time ref_platform 7 False; d = boot_dev DEVICE_TYPE_GATEWAY 1 0 ref_storage1 in
    infra_devs (dv_store (f (f (f d)))) = [] \<and> length (infra_devs (dv_store (f (f d)))) = 1"
proof -
  let ?d = "boot_dev DEVICE_TYPE_GATEWAY 1 0 ref_storage1" and ?f = "known_device_update_comm_time ref_platform 7 False"
  have z: "in_comm_failures (infra_at ?d 0) = 0"
    by (simp add: ref_storage1_at0 stamp_infra_eq new_infra_def)
  have g: "get_device_type ?d = DEVICE_TYPE_GATEWAY" by simp
  note t = silent_peer_forgotten[OF platform_okD(2)[OF ref_platform_ok], of ?d 7, THEN conjunct2, THEN mp, THEN conjunct1,
      THEN spec, of 0, THEN mp, THEN conjunct1, unfolded Let_def z]
  have m: "3 - unat (0 :: u8) = 3" by simp
  have a: "\<forall>n<3. map in_entry (infra_devs (dv_store ((?f ^^ n) ?d))) = map in_entry (infra_devs (dv_store ?d))"
    and b: "\<exists>e. (?f ^^ 3) ?d = device_info_update ref_platform e \<and> get_device_type e = DEVICE_TYPE_GATEWAY \<and>
      map in_entry (infra_devs (dv_store e)) = []"
    using t[unfolded m] ref_storage1_ok(1) ref_storage1_devs z by auto
  have "(?f ^^ 3) ?d = ?f (?f (?f ?d))" "(?f ^^ 2) ?d = ?f (?f ?d)" by (simp_all add: numeral_eq_Suc)
  moreover have "length (infra_devs (dv_store ((?f ^^ 2) ?d))) = 1"
    using a[THEN spec, of 2] arg_cong[of _ _ length] ref_storage1_devs(1)
    by (metis boot_dev_simps(2) length_map length_Cons list.size(3) One_nat_def Suc_1 lessI numeral_3_eq_3 numeral_2_eq_2)
  moreover have "infra_devs (dv_store ((?f ^^ 3) ?d)) = []" using b by (auto simp: device_info_update_other)
  ultimately show ?thesis by (simp add: Let_def)
qed

end
