(* ===== verification/Node_Steps.thy ===== *)
theory Node_Steps
  imports At_Main Mesh_Props
begin

text \<open>
  A node over time (src/main.c): start-up, then the endless loop of the state machine and the AT
  interface. The inputs of one step are what the modem and the host deliver; the states a node can
  get into from power-on are an inductive predicate, and the invariant of all components holds in
  every one of them.
\<close>

section \<open>Start-up\<close>

text \<open>
  The statics before \<open>main\<close> runs. \<open>ps\<close> and the EEPROM inside \<open>s\<close> are the external chips; the RAM
  tables of \<open>s\<close> and the uptime are whatever the moment of power-on gives.
\<close>

definition power_on :: "storage \<Rightarrow> psram \<Rightarrow> s64 \<Rightarrow> dev" where
  "power_on s ps now = (boot_dev 0 0 0 s)\<lparr>dv_now := now, dv_psram := ps, dv_info_initialized := False,
     dv_info := \<lparr>di_device_type = 0, di_device_id = 0, di_serial_number = 0, di_connected_device_id = 0,
       di_hop_num = 0, di_firmware_version = 0, di_mesh_devices_count = 0\<rparr>,
     dv_mesh := \<lparr>mh_initialized = False, mh_temp_id = 0, mh_last_pair_request_ms = 0, mh_time_offset = 0\<rparr>\<rparr>"

text \<open>
  \<open>main\<close> from the identity on: the errors of the identity and of the storage end it, those of the
  PSRAM and of the UART are only logged. More entries in the EEPROM than a table holds are a fault.
\<close>

definition node_start :: "platform \<Rightarrow> dev \<Rightarrow> int \<times> dev" where
  "node_start P d = (
     let (err, d) = product_info_init P d in
     if err \<noteq> 0 then (err, d)
     else case storage_init P (get_device_type d) (dv_store d) of
       None \<Rightarrow> (0, fault d)
     | Some (err, s, entries) \<Rightarrow>
         let d = d\<lparr>dv_store := s\<rparr>;
             d = (case entries of Some n \<Rightarrow> set_mesh_devices_count (word_of_nat n) d | None \<Rightarrow> d) in
         if err \<noteq> 0 then (err, d)
         else (0, d\<lparr>dv_psram := snd (psram_init P (dv_psram d))\<rparr>))"

section \<open>Steps\<close>

text \<open>
  \<open>Run\<close> is one call of \<open>main_sub_run\<close> with the modem's answers, \<open>Host\<close> one of \<open>slm_at_run_cycle\<close>
  with what the UART received, \<open>Wait\<close> the time that passes. \<open>main_cycle\<close> is the loop's body.
\<close>

datatype node_event = Run int "radio_event list list" "radio_event list" | Host "string option" | Wait s64

fun node_effect :: "platform \<Rightarrow> node_event \<Rightarrow> dev \<Rightarrow> dev" where
  "node_effect P (Run rc polls final) d = main_sub_run P rc polls final d"
| "node_effect P (Host msg) d = slm_at_run_cycle P msg d"
| "node_effect P (Wait ms) d = d\<lparr>dv_now := dv_now d + ms\<rparr>"

definition main_cycle :: "platform \<Rightarrow> int \<Rightarrow> radio_event list list \<Rightarrow> radio_event list \<Rightarrow> string option \<Rightarrow> dev \<Rightarrow> dev" where
  "main_cycle P rc polls final msg = seqs [main_sub_run P rc polls final, slm_at_run_cycle P msg]"

inductive node_step :: "platform \<Rightarrow> node_event \<Rightarrow> dev \<Rightarrow> dev \<Rightarrow> bool" for P where
  node_stepI: "dv_status d = Running \<Longrightarrow> node_step P ev d (node_effect P ev d)"

inductive_simps node_step_simps: "node_step P ev d d'"

inductive node_reach :: "platform \<Rightarrow> dev \<Rightarrow> bool" for P where
  reach_start: "node_start P (power_on s ps now) = (0, d) \<Longrightarrow> storage_wf s \<Longrightarrow> storage_wf (dv_store d) \<Longrightarrow> node_reach P d"
| reach_step: "node_reach P d \<Longrightarrow> node_step P ev d d' \<Longrightarrow> node_reach P d'"

text \<open>A round of the loop is one or two steps: the second call happens if the first one returns.\<close>

lemma reach_main_cycle:
  assumes "node_reach P d" "dv_status d = Running"
  shows "node_reach P (main_cycle P rc polls final msg d)"
proof -
  let ?d1 = "node_effect P (Run rc polls final) d"
  have r: "node_reach P ?d1" using assms by (blast intro: reach_step node_stepI)
  show ?thesis
  proof (cases "dv_status ?d1 = Running")
    case True
    then have "node_reach P (node_effect P (Host msg) ?d1)" by (rule reach_step[OF r node_stepI])
    then show ?thesis using True assms(2) by (simp add: main_cycle_def)
  qed (use r assms(2) in \<open>simp add: main_cycle_def\<close>)
qed

section \<open>The invariant\<close>

lemma info_wf:
  "dev_wf (set_device_type t d) = dev_wf d" "dev_wf (set_device_id i d) = dev_wf d"
  "dev_wf (set_connected_device_id i d) = dev_wf d" "dev_wf (set_mesh_devices_count n d) = dev_wf d"
  "dev_wf (set_hop_number h d) = dev_wf d" "dev_wf (d\<lparr>dv_radio_id := i\<rparr>) = dev_wf d"
  "dev_wf (d\<lparr>dv_info_initialized := b\<rparr>) = dev_wf d" "dev_wf (d\<lparr>dv_now := ms\<rparr>) = dev_wf d"
  by (simp_all add: dev_wf_def set_device_type_def set_device_id_def set_connected_device_id_def
      set_mesh_devices_count_def set_hop_number_def)

lemma product_info_init_wf [wf_intros]:
  assumes "dev_wf d" shows "dev_wf (snd (product_info_init P d))"
proof -
  have "dev_wf (set_serial_number P sn d)" if "dev_wf d" for sn d using that by (intro wf_intros)
  then show ?thesis using assms by (simp add: product_info_init_def Let_def info_wf split: option.split)
qed

lemma power_on_wf [wf_intros]: "storage_wf s \<Longrightarrow> dev_wf (power_on s ps now)"
  using boot_dev_wf[of s 0 0 0] by (simp add: power_on_def dev_wf_def)

lemma node_start_wf:
  assumes "node_start P d = (0, d')" "dev_wf d" "storage_wf (dv_store d')"
  shows "dev_wf d'"
proof -
  have "dev_wf (snd (product_info_init P d))" using assms(2) by (rule product_info_init_wf)
  then show ?thesis using assms(1,3)
    by (auto simp: node_start_def split_beta Let_def fault_def set_mesh_devices_count_def dev_wf_def
        split: option.splits if_splits)
qed

lemma node_effect_wf [wf_intros]: "dev_wf d \<Longrightarrow> dev_wf (node_effect P ev d)"
  by (cases ev) (simp_all add: main_sub_run_wf slm_at_run_cycle_wf info_wf)


text \<open>
  Whatever the modem receives, the host sends and the clock does, in any order and for any
  platform, a node that started with tables that fit its arrays never leaves the invariant of its
  components: all arrays keep their sizes, all counts and stored lengths stay inside them, and
  every tracked, configured, reported or transferred length fits its memory.
\<close>

theorem node_reach_wf: "node_reach P d \<Longrightarrow> dev_wf d"
proof (induction rule: node_reach.induct)
  case (reach_start s ps now d)
  then show ?case using node_start_wf power_on_wf by blast
next
  case (reach_step d ev d')
  then show ?case by (auto simp: node_step_simps intro: node_effect_wf)
qed

text \<open>A start that succeeds: an anchor with the tables of the reference node in its EEPROM.\<close>

lemma ref_start:
  "\<exists>d. node_start ref_platform (power_on (boot_storage (st_ee ref_storage1)) ref_psram 0) = (0, d) \<and>
     storage_wf (dv_store d) \<and> dv_status d = Running"
proof -
  let ?d = "power_on (boot_storage (st_ee ref_storage1)) ref_psram 0"
  obtain r where r: "storage_init ref_platform DEVICE_TYPE_ANCHOR (dv_store ?d) = Some (0, r, None)" "storage_wf r"
    using storage_init_reload[OF platform_okD(2)[OF ref_platform_ok] ref_storage1_ok(1) boot_storage_wf,
      of "st_ee ref_storage1" DEVICE_TYPE_ANCHOR]
    by (auto simp: boot_storage_def power_on_def boot_dev_def)
  have "fst (product_info_init ref_platform ?d) = 0"
    "get_device_type (snd (product_info_init ref_platform ?d)) = DEVICE_TYPE_ANCHOR"
    "dv_store (snd (product_info_init ref_platform ?d)) = dv_store ?d"
    "dv_status (snd (product_info_init ref_platform ?d)) = Running"
    by (simp_all add: product_info_init_def power_on_def boot_dev_def ref_platform_def decode_device_type_def
        set_serial_number_def set_device_type_def set_device_id_def set_connected_device_id_def
        set_mesh_devices_count_def set_hop_number_def Let_def)
  then show ?thesis using r by (simp add: node_start_def split_beta Let_def)
qed

theorem node_reach_wf_witness: "\<exists>d. node_reach ref_platform d \<and> dv_status d = Running \<and> dev_wf d"
proof -
  obtain d where "node_start ref_platform (power_on (boot_storage (st_ee ref_storage1)) ref_psram 0) = (0, d)"
    "storage_wf (dv_store d)" "dv_status d = Running"
    using ref_start by blast
  then have "node_reach ref_platform d" by (blast intro: reach_start boot_storage_wf)
  then show ?thesis using node_reach_wf[of ref_platform d] \<open>dv_status d = Running\<close> by blast
qed

section \<open>The state machine\<close>

lemma set_main_simps [simp]:
  "main_state (set_main b st d) = st" "main_initialized (set_main b st d) = b"
  "dv_status (set_main b st d) = dv_status d" "main_state (set_main_state st d) = st"
  "dv_status (set_main_state st d) = dv_status d"
  by (simp_all add: set_main_def set_main_state_def)

text \<open>
  The transitions of the main state machine. A node that is not reset or faulted by what it
  did waits in INIT for a serial number and then goes on to the reception window, or to ERROR if
  its device type is invalid; a window is followed by transmission unless the modem refuses to
  receive; transmission is followed by the next window unless the modem refuses a packet; ERROR is
  left for INIT with everything to be initialised again.
\<close>

theorem main_sub_transitions:
  fixes P :: platform and rc :: int and polls :: "radio_event list list" and final :: "radio_event list"
  assumes "dv_status d = Running"
  defines "d' \<equiv> main_sub_run P rc polls final d"
  assumes "dv_status d' = Running"
  shows "main_state d' \<in> (case main_state d of
      MAIN_SUB_INIT \<Rightarrow> if get_serial_number d = - 1 \<or> get_serial_number d = 0 then {MAIN_SUB_INIT}
        else {MAIN_SUB_RX_WINDOW, MAIN_SUB_ERROR}
    | MAIN_SUB_RX_WINDOW \<Rightarrow> {if rc \<noteq> 0 then MAIN_SUB_ERROR else MAIN_SUB_TX_PROCESS}
    | MAIN_SUB_TX_PROCESS \<Rightarrow> {MAIN_SUB_RX_WINDOW, MAIN_SUB_ERROR}
    | MAIN_SUB_ERROR \<Rightarrow> {MAIN_SUB_INIT}) \<and>
    (main_state d = MAIN_SUB_ERROR \<longrightarrow> \<not> main_initialized d') \<and>
    (main_state d = MAIN_SUB_INIT \<longrightarrow> main_state d' = MAIN_SUB_INIT \<longrightarrow> d' = d)"
  using assms(1,3) unfolding d'_def
  by (cases "main_state d") (auto simp: main_sub_run_def split_beta Let_def split: if_splits)

theorem main_sub_transitions_witness:
  "main_state (main_sub_run ref_platform (- 5) [] [] ((boot_dev 1 1 0 ref_storage)
     \<lparr>dv_main := \<lparr>mn_initialized = True, mn_state = MAIN_SUB_RX_WINDOW\<rparr>\<rparr>)) = MAIN_SUB_ERROR"
  using main_sub_transitions[of "(boot_dev 1 1 0 ref_storage)
     \<lparr>dv_main := \<lparr>mn_initialized = True, mn_state = MAIN_SUB_RX_WINDOW\<rparr>\<rparr>" ref_platform "- 5" "[]" "[]"]
  by (simp add: main_sub_run_def boot_dev_def)

section \<open>Recovery\<close>

text \<open>No transfer is in progress.\<close>

definition no_transfers :: "dev \<Rightarrow> bool" where
  "no_transfers d \<longleftrightarrow> (\<forall>s\<in>set (cfg_slots d). \<not> cs_active s) \<and> (\<forall>s\<in>set (rep_slots d). \<not> sl_active s) \<and>
     (\<forall>s\<in>set (rep_senders d). \<not> sd_active s) \<and> (\<forall>s\<in>set (lg_slots d). \<not> lg_active s)"

definition same_transfers :: "dev \<Rightarrow> dev \<Rightarrow> bool" where
  "same_transfers d d' \<longleftrightarrow> dv_config d' = dv_config d \<and> dv_reports d' = dv_reports d \<and> dv_large d' = dv_large d \<and>
     dv_status d' = dv_status d"

lemma same_transfersI: "tx_frame d d' \<Longrightarrow> same_transfers d d'"
  by (simp add: same_transfers_def tx_frame_def)

lemma ping_known_transfers: "same_transfers d (ping_known_devices P g s d)"
proof -
  have "same_transfers a (mark_ping_sent i (proc (send_ping_device P k g s) a))" for a i k
    using same_transfersI[OF tx_frame_procs(4)[of a P k g s]]
    by (simp add: same_transfers_def mark_ping_sent_def upd_infra_def)
  then have "same_transfers a (foldl (\<lambda>d i. let x = infra_at d i in
       if get_hop_number d < infra_hop x then mark_ping_sent i (proc (send_ping_device P (infra_id x) g s) d)
       else d) a is)" for a "is"
    by (induction "is" arbitrary: a) (auto simp: Let_def same_transfers_def)
  then show ?thesis unfolding ping_known_devices_def .
qed

lemma main_sub_start_ok:
  assumes "valid_device_type (get_device_type d)"
  shows "fst (main_sub_start P d) = 0 \<and> same_transfers d (snd (main_sub_start P d))"
  using assms ping_known_transfers[of d P] same_transfersI[OF tx_frame_procs(16)[of d P True]]
  by (auto simp: main_sub_start_def valid_device_type_def) (simp_all add: same_transfers_def set_connected_device_id_def)

lemma init_stages:
  fixes d :: dev
  defines "d' \<equiv> large_data_init (config_init (report_init (mesh_init (d_tracker_init d))))"
  shows "no_transfers d'" "dv_info d' = dv_info d" "dv_status d' = dv_status d"
    "seqs [d_tracker_init, mesh_init, report_init, config_init, large_data_init] d = (if dv_status d = Running then d' else d)"
  by (auto simp: d'_def no_transfers_def d_tracker_init_def mesh_init_def report_init_def config_init_def
      large_data_init_def upd_large_def)

lemma device_info_update_survives:
  assumes "dv_status d = Running"
  shows "dv_status (device_info_update P d) = Rebooted \<and> get_device_type d = DEVICE_TYPE_ANCHOR \<or>
    dv_status (device_info_update P d) = Running \<and>
      get_device_type (device_info_update P d) = get_device_type d"
proof -
  have t: "get_device_type (device_info_update P d) = get_device_type d"
    by (simp add: device_info_update_def factory_reset_reboot_def sys_reboot_def Let_def)
  show ?thesis
  proof (cases "get_device_type d = DEVICE_TYPE_ANCHOR")
    case True
    show ?thesis by (cases rule: device_info_update_cases[OF True assms, of P]) (use True t assms in auto)
  qed (use assms in \<open>simp add: device_info_update_other\<close>)
qed

text \<open>
  C33: A node recovers from the ERROR state. With a valid device type and serial number the two
  next calls bring it back to the reception window with all subsystems initialised again and every
  configuration, report and large transfer it held dropped; only an anchor whose infrastructure
  table does not allow a hop number may instead be reset to factory state and reboot.
\<close>

theorem main_sub_recovers:
  fixes P :: platform and d :: dev and rc rc' :: int and polls polls' :: "radio_event list list"
    and final final' :: "radio_event list"
  assumes "dv_status d = Running" "main_state d = MAIN_SUB_ERROR" "valid_device_type (get_device_type d)"
    "get_serial_number d \<noteq> 0" "get_serial_number d \<noteq> - 1"
  defines "d' \<equiv> main_sub_run P rc' polls' final' (main_sub_run P rc polls final d)"
  shows "dv_status d' = Rebooted \<and> get_device_type d = DEVICE_TYPE_ANCHOR \<or>
    dv_status d' = Running \<and> main_state d' = MAIN_SUB_RX_WINDOW \<and> main_initialized d' \<and> no_transfers d'"
proof -
  let ?e = "set_main False MAIN_SUB_INIT (d\<lparr>dv_now := dv_now d + 10000\<rparr>)"
  let ?u = "device_info_update P ?e"
  let ?i = "large_data_init (config_init (report_init (mesh_init (d_tracker_init ?u))))"
  have e: "main_sub_run P rc polls final d = ?e" "get_device_type ?e = get_device_type d"
    "get_serial_number ?e = get_serial_number d" "dv_status ?e = Running"
    using assms(1,2) by (simp_all add: main_sub_run_def set_main_def)
  have d': "d' = (let (err, d) = main_sub_init P ?e in
      if dv_status d \<noteq> Running then d
      else if err \<noteq> 0 then set_main_state MAIN_SUB_ERROR d else set_main_state MAIN_SUB_RX_WINDOW d)"
    using assms(4,5) unfolding d'_def e(1) by (simp add: main_sub_run_def[of P rc'] e(3))
  have init: "main_sub_init P ?e = (let d = if dv_status ?u = Running then ?i else ?u in
      if dv_status d \<noteq> Running then (0, d)
      else let (rc, d) = main_sub_start P d in if rc \<noteq> 0 then (rc, d) else (0, set_main True (main_state d) d))"
    using init_stages(4)[of ?u] e(4) by (simp add: main_sub_init_def)
  show ?thesis
  proof (cases "dv_status ?u = Running")
    case False
    then have "dv_status ?u = Rebooted \<and> get_device_type d = DEVICE_TYPE_ANCHOR"
      using device_info_update_survives[OF e(4), of P] e(2) by auto
    then show ?thesis unfolding d' init by simp
  next
    case True
    have "valid_device_type (get_device_type ?i)"
      using device_info_update_survives[OF e(4), of P] True assms(3) e(2) init_stages(2)[of ?u] by simp
    then have st: "fst (main_sub_start P ?i) = 0" "same_transfers ?i (snd (main_sub_start P ?i))"
      using main_sub_start_ok by blast+
    have "no_transfers (snd (main_sub_start P ?i))" "dv_status (snd (main_sub_start P ?i)) = Running"
      using st(2) init_stages(1,3)[of ?u] True by (simp_all add: same_transfers_def no_transfers_def)
    moreover have "no_transfers (set_main b s x) = no_transfers x" "no_transfers (set_main_state s x) = no_transfers x" for b s x
      by (simp_all add: no_transfers_def set_main_def set_main_state_def)
    moreover have "main_initialized (set_main_state s x) = main_initialized x" for s x
      by (simp add: set_main_state_def)
    ultimately show ?thesis
      using True st(1) init_stages(3)[of ?u] unfolding d' init by (simp add: split_beta Let_def)
  qed
qed

theorem main_sub_recovers_witness:
  "let d = main_sub_run ref_platform 0 [] [] (main_sub_run ref_platform 0 [] []
     ((boot_dev DEVICE_TYPE_SENSOR 5 0 ref_storage)\<lparr>dv_main := \<lparr>mn_initialized = True, mn_state = MAIN_SUB_ERROR\<rparr>\<rparr>))
   in main_state d = MAIN_SUB_RX_WINDOW \<and> no_transfers d"
  using main_sub_recovers[of "(boot_dev DEVICE_TYPE_SENSOR 5 0 ref_storage)
     \<lparr>dv_main := \<lparr>mn_initialized = True, mn_state = MAIN_SUB_ERROR\<rparr>\<rparr>" ref_platform 0 "[]" "[]" 0 "[]" "[]"]
  by (simp add: boot_dev_def boot_info_def valid_device_type_def)

end
