(* ===== verification/Handler_Props.thy ===== *)
theory Handler_Props
  imports Mesh_Props
begin

text \<open>
  Properties of the pairing and session handlers: what each of them stores and answers, what it
  ignores, and the defects the model makes visible.
\<close>

section \<open>Addressing and well-formedness\<close>

text \<open>
  A packet addressed to another node changes nothing: every handler but the broadcast
  PAIR_REQUEST leaves the whole node as it is.
\<close>

theorem other_destination_ignored:
  "(ph_device_id (prs_hdr p1) \<noteq> get_device_id d \<longrightarrow> handle_pair_response P p1 i r d = d) \<and>
   (ph_device_id (pcf_hdr p2) \<noteq> get_device_id d \<longrightarrow> handle_pair_confirm P p2 i r d = d) \<and>
   (ph_device_id (pak_hdr p3) \<noteq> get_device_id d \<longrightarrow> handle_pair_ack P p3 i r d = d) \<and>
   (ph_device_id (rrq_hdr p4) \<noteq> get_device_id d \<longrightarrow> handle_repair_request P p4 i r d = d) \<and>
   (ph_device_id (rrs_hdr p5) \<noteq> get_device_id d \<longrightarrow> handle_repair_response P p5 i r d = d) \<and>
   (ph_device_id (jn_hdr p6) \<noteq> get_device_id d \<longrightarrow> handle_joined_network P p6 i r d = d) \<and>
   (ph_device_id (jna_hdr p7) \<noteq> get_device_id d \<longrightarrow> handle_joined_network_ack P p7 i r d = d) \<and>
   (ph_device_id (pd_hdr p8) \<noteq> get_device_id d \<longrightarrow> handle_ping_device P p8 i r d = d) \<and>
   (ph_device_id (pa_hdr p9) \<noteq> get_device_id d \<longrightarrow> handle_ping_ack P p9 i r d = d) \<and>
   (ph_device_id (du_hdr p10) \<noteq> get_device_id d \<longrightarrow> handle_device_updated P p10 i r d = d) \<and>
   (ph_device_id (dua_hdr p11) \<noteq> get_device_id d \<longrightarrow> handle_device_updated_ack P p11 i r d = d)"
  by (simp add: handle_pair_response_def handle_pair_confirm_def handle_pair_ack_def
      handle_repair_request_def handle_repair_response_def handle_joined_network_def
      handle_joined_network_ack_def handle_ping_device_def handle_ping_ack_def
      handle_device_updated_def handle_device_updated_ack_def Let_def)

definition ref_gateway :: dev where
  "ref_gateway = boot_dev DEVICE_TYPE_GATEWAY 1 0 ref_storage"

definition ref_hdr :: "u8 \<Rightarrow> u8 \<Rightarrow> u16 \<Rightarrow> u8 \<Rightarrow> packet_header" where
  "ref_hdr pt t dst status = \<lparr>ph_packet_type = pt, ph_device_type = t, ph_priority = 0, ph_tracking_id = 5,
     ph_device_id = dst, ph_status = status\<rparr>"

theorem other_destination_ignored_witness:
  "handle_pair_ack ref_platform \<lparr>pak_hdr = ref_hdr PACKET_PAIR_ACK 2 9 0, pak_version = 0, pak_hop_num = 1\<rparr> 7 0
     ref_gateway = ref_gateway"
  using other_destination_ignored[of _ ref_gateway ref_platform 7 0 _
      "\<lparr>pak_hdr = ref_hdr PACKET_PAIR_ACK 2 9 0, pak_version = 0, pak_hop_num = 1\<rparr>"]
  by (simp add: ref_hdr_def ref_gateway_def)

text \<open>
  C11: No packet of the pairing and session layers, whatever its bytes, its sender or the state of
  queues and memories, breaks the node's invariant: table arrays keep their sizes, counts stay
  within them, tracking ids stay in range, payload lengths stay within their slots.
\<close>

theorem mesh_handlers_keep_wf:
  assumes "dev_wf d"
  shows "dev_wf (handle_pair_request P p0 i r d) \<and> dev_wf (handle_pair_response P p1 i r d) \<and>
    dev_wf (handle_pair_confirm P p2 i r d) \<and> dev_wf (handle_pair_ack P p3 i r d) \<and>
    dev_wf (handle_repair_request P p4 i r d) \<and> dev_wf (handle_repair_response P p5 i r d) \<and>
    dev_wf (handle_joined_network P p6 i r d) \<and> dev_wf (handle_joined_network_ack P p7 i r d) \<and>
    dev_wf (handle_ping_device P p8 i r d) \<and> dev_wf (handle_ping_ack P p9 i r d) \<and>
    dev_wf (handle_device_updated P p10 i r d) \<and> dev_wf (handle_device_updated_ack P p11 i r d) \<and>
    dev_wf (mesh_pairing_tick P d)"
  using assms by (intro conjI wf_intros)

lemma ref_gateway_wf: "dev_wf ref_gateway"
  unfolding ref_gateway_def by (rule boot_dev_wf[OF storage_okD(1)[OF ref_storage_ok]])

theorem mesh_handlers_keep_wf_witness: "dev_wf (mesh_pairing_tick ref_platform ref_gateway)"
  using mesh_handlers_keep_wf[OF ref_gateway_wf, of ref_platform] by blast

section \<open>Answering a pair request\<close>

lemma check_infra_storage_sem:
  "check_infra_storage i False d = (if \<exists>x\<in>set (infra_devs (dv_store d)). infra_id x = i then STATUS_ALREADY_EXISTS
     else if MAX_ANCHORS \<le> infra_count d then STATUS_STORAGE_FULL else STATUS_SUCCESS)"
  by (auto simp: check_infra_storage_def find_idx_None_iff simp del: not_None_eq)

lemma check_sensor_storage_sem:
  "check_sensor_storage i d = (if \<exists>x\<in>set (sensor_devs (dv_store d)). sensor_id x = i then STATUS_ALREADY_EXISTS
     else if MAX_SENSORS \<le> sensor_count d then STATUS_STORAGE_FULL else STATUS_SUCCESS)"
  by (auto simp: check_sensor_storage_def find_idx_None_iff simp del: not_None_eq)

text \<open>
  C12: What a node answers to a PAIR_REQUEST, on every branch. A sensor answers nothing, and nobody
  answers a requester that is neither an anchor nor a sensor, or an anchor that is already stored.
  Otherwise a wrong hash gets AUTH_FAILED, and a gateway or anchor answers the rest: ALREADY_EXISTS to
  a known sensor, STORAGE_FULL when its table or the network is full, SUCCESS to everyone else, all
  with the tracking id of the request. The device tables, the tracker and the own identity never
  change.
\<close>

theorem pair_request_answer:
  fixes P :: platform and pkt :: pair_request and i :: u16 and r :: s16 and d :: dev
  defines "anchor \<equiv> ph_device_type (prq_hdr pkt) = DEVICE_TYPE_ANCHOR"
  defines "sensor \<equiv> ph_device_type (prq_hdr pkt) = DEVICE_TYPE_SENSOR"
  defines "known \<equiv> (if anchor then \<exists>x\<in>set (infra_devs (dv_store d)). infra_id x = i
                    else \<exists>x\<in>set (sensor_devs (dv_store d)). sensor_id x = i)"
  defines "full \<equiv> (if anchor then MAX_ANCHORS \<le> infra_count d else MAX_SENSORS \<le> sensor_count d)"
  defines "answer \<equiv> \<lambda>status. proc (send_pair_response P i (ph_tracking_id (prq_hdr pkt)) status) d"
  shows "handle_pair_request P pkt i r d =
      (if get_device_type d = DEVICE_TYPE_SENSOR then d
       else if anchor \<and> known then d
       else if anchor \<or> sensor then
         if prq_hash pkt \<noteq> compute_pair_hash i (prq_random_num pkt) then answer STATUS_AUTH_FAILED
         else if get_device_type d = DEVICE_TYPE_GATEWAY \<or> get_device_type d = DEVICE_TYPE_ANCHOR then
           answer (if known then STATUS_ALREADY_EXISTS
             else if full \<or> MAX_DEVICES \<le> unat (get_mesh_devices_count d) then STATUS_STORAGE_FULL
             else STATUS_SUCCESS)
         else d
       else d) \<and>
    dv_store (handle_pair_request P pkt i r d) = dv_store d \<and>
    dv_info (handle_pair_request P pkt i r d) = dv_info d \<and>
    dv_tracker (handle_pair_request P pkt i r d) = dv_tracker d"
proof -
  have tr: "dv_tracker (proc (send_pair_response P i t s) d) = dv_tracker d" for t s
    by (simp add: proc_def send_pair_response_def send_plain_def d_tx_def split_beta Let_def)
  have eq: "handle_pair_request P pkt i r d =
      (if get_device_type d = DEVICE_TYPE_SENSOR then d
       else if anchor \<and> known then d
       else if anchor \<or> sensor then
         if prq_hash pkt \<noteq> compute_pair_hash i (prq_random_num pkt) then answer STATUS_AUTH_FAILED
         else if get_device_type d = DEVICE_TYPE_GATEWAY \<or> get_device_type d = DEVICE_TYPE_ANCHOR then
           answer (if known then STATUS_ALREADY_EXISTS
             else if full \<or> MAX_DEVICES \<le> unat (get_mesh_devices_count d) then STATUS_STORAGE_FULL
             else STATUS_SUCCESS)
         else d
       else d)"
    by (auto simp: handle_pair_request_def check_infra_storage_sem check_sensor_storage_sem valid_device_type_def
        anchor_def sensor_def known_def full_def answer_def Let_def)
  then show ?thesis using tr by (auto simp: answer_def)
qed

definition ref_pair_request :: pair_request where
  "ref_pair_request = \<lparr>prq_hdr = ref_hdr PACKET_PAIR_REQUEST DEVICE_TYPE_ANCHOR 0 0, prq_random_num = 77,
     prq_hash = compute_pair_hash 9 77\<rparr>"

theorem pair_request_answer_witness:
  "handle_pair_request ref_platform ref_pair_request 9 0 ref_gateway
    = proc (send_pair_response ref_platform 9 5 STATUS_SUCCESS) ref_gateway"
  using pair_request_answer[of ref_platform ref_pair_request 9 0 ref_gateway]
  by (simp add: ref_pair_request_def ref_hdr_def ref_gateway_def ref_storage_counts boot_dev_def boot_info_def)

section \<open>Confirming and acknowledging\<close>

definition stamped :: "platform \<Rightarrow> infra_entry \<Rightarrow> infra_entry" where
  "stamped P e = in_entry (stamp_infra P (new_infra e))"

lemma pair_confirm_stored:
  fixes i :: u16 and r :: s16
  assumes "eeprom_ok P" "node_ok P d" "get_device_type d = DEVICE_TYPE_GATEWAY" "dv_status d = Running"
    "ph_device_id (pcf_hdr pkt) = get_device_id d" "ph_device_type (pcf_hdr pkt) = DEVICE_TYPE_ANCHOR"
    "ph_status (pcf_hdr pkt) = STATUS_SUCCESS"
    "\<forall>x\<in>set (infra_devs (dv_store d)). infra_id x \<noteq> i" "infra_count d < MAX_ANCHORS"
  defines "e \<equiv> mk_infra_entry DEVICE_TYPE_ANCHOR i
    (if pcf_hop_num pkt = 0xFF then get_hop_number d + 1 else pcf_hop_num pkt) (pcf_version pkt) r"
  defines "a \<equiv> proc (on_store (\<lambda>s. storage_infra_add P s e)) d"
  shows "handle_pair_confirm P pkt i r d = proc (send_pair_ack P i (ph_tracking_id (pcf_hdr pkt)) STATUS_SUCCESS) a"
    "node_ok P a" "mset (infra_devs (dv_store a)) = add_mset (stamp_infra P (new_infra e)) (mset (infra_devs (dv_store d)))"
proof -
  note add = storage_infra_add_lemma[OF assms(1,2,9), of e]
  have "check_infra_storage i False d = STATUS_SUCCESS"
    using assms(8,9) by (auto simp: check_infra_storage_sem)
  then show "handle_pair_confirm P pkt i r d = proc (send_pair_ack P i (ph_tracking_id (pcf_hdr pkt)) STATUS_SUCCESS) a"
    using assms(3-7) add(1)
    by (simp add: a_def e_def handle_pair_confirm_def Let_def valid_device_type_def device_info_update_other split_beta)
  show "node_ok P a" "mset (infra_devs (dv_store a)) = add_mset (stamp_infra P (new_infra e)) (mset (infra_devs (dv_store d)))"
    using add(2,3) by (simp_all add: a_def)
qed

text \<open>
  C9: A gateway that gets a successful PAIR_CONFIRM from an unknown anchor while its table has
  room stores exactly that anchor, at the hop number of the packet (one hop below itself if the
  anchor has none), keeps table and EEPROM in step, and queues a PAIR_ACK with status SUCCESS to it.
\<close>

theorem pair_confirm_stores_anchor:
  fixes r :: s16
  assumes "eeprom_ok P" "node_ok P d" "get_device_type d = DEVICE_TYPE_GATEWAY" "dv_status d = Running"
    "ph_device_id (pcf_hdr pkt) = get_device_id d" "ph_device_type (pcf_hdr pkt) = DEVICE_TYPE_ANCHOR"
    "ph_status (pcf_hdr pkt) = STATUS_SUCCESS"
    "\<forall>x\<in>set (infra_devs (dv_store d)). infra_id x \<noteq> i" "infra_count d < MAX_ANCHORS"
  defines "d' \<equiv> handle_pair_confirm P pkt i r d"
  defines "hop \<equiv> if pcf_hop_num pkt = 0xFF then get_hop_number d + 1 else pcf_hop_num pkt"
  shows "node_ok P d' \<and>
    mset (map in_entry (infra_devs (dv_store d')))
      = add_mset (stamped P (mk_infra_entry DEVICE_TYPE_ANCHOR i hop (pcf_version pkt) r))
          (mset (map in_entry (infra_devs (dv_store d)))) \<and>
    dv_queues d' = dv_queues (proc (send_pair_ack P i (ph_tracking_id (pcf_hdr pkt)) STATUS_SUCCESS) d)"
proof -
  let ?e = "mk_infra_entry DEVICE_TYPE_ANCHOR i hop (pcf_version pkt) r"
  let ?a = "proc (on_store (\<lambda>s. storage_infra_add P s ?e)) d"
  note st = pair_confirm_stored[OF assms(1-9), of r, folded hop_def d'_def]
  have "dv_queues (proc (send_pair_ack P i t s) ?a) = dv_queues (proc (send_pair_ack P i t s) d)" for t s
    by (simp add: proc_def send_pair_ack_def send_plain_def d_tx_def mk_hdr_def on_store_def split_beta Let_def)
  moreover have "mset (map in_entry (infra_devs (dv_store ?a))) = image_mset in_entry (mset (infra_devs (dv_store ?a)))" by simp
  then have "mset (map in_entry (infra_devs (dv_store ?a))) = add_mset (stamped P ?e) (mset (map in_entry (infra_devs (dv_store d))))"
    unfolding st(3) by (simp add: stamped_def)
  ultimately show ?thesis using st(1,2) by simp
qed

theorem pair_confirm_stores_anchor_witness:
  "node_ok ref_platform (handle_pair_confirm ref_platform
     \<lparr>pcf_hdr = ref_hdr PACKET_PAIR_CONFIRM DEVICE_TYPE_ANCHOR 1 0, pcf_version = 100, pcf_hop_num = 0xFF\<rparr> 9 0 ref_gateway)"
  using pair_confirm_stores_anchor[OF platform_okD(2)[OF ref_platform_ok], of ref_gateway
      "\<lparr>pcf_hdr = ref_hdr PACKET_PAIR_CONFIRM DEVICE_TYPE_ANCHOR 1 0, pcf_version = 100, pcf_hop_num = 0xFF\<rparr>" 9 0]
    ref_storage_ok
  by (simp add: ref_gateway_def ref_hdr_def ref_storage_counts)

lemma pair_ack_linked:
  fixes i :: u16 and r :: s16
  assumes "eeprom_ok P" "node_ok P d" "get_device_type d = DEVICE_TYPE_ANCHOR" "dv_status d = Running"
    "ph_device_id (pak_hdr pkt) = get_device_id d"
    "ph_device_type (pak_hdr pkt) = DEVICE_TYPE_GATEWAY \<or> ph_device_type (pak_hdr pkt) = DEVICE_TYPE_ANCHOR"
    "ph_status (pak_hdr pkt) = STATUS_SUCCESS" "infra_count d = 0" "get_hop_number d = 0xFF" "pak_hop_num pkt < 4"
  defines "e \<equiv> mk_infra_entry (ph_device_type (pak_hdr pkt)) i (pak_hop_num pkt) (pak_version pkt) r"
  defines "a \<equiv> proc (on_store (\<lambda>s. storage_infra_add P s e)) (d_untrack (ph_tracking_id (pak_hdr pkt)) d)"
  shows "handle_pair_ack P pkt i r d = send_joined P i (set_hop_number (pak_hop_num pkt + 1) (set_connected_device_id i a))"
    "node_ok P a" "infra_devs (dv_store a) = [stamp_infra P (new_infra e)]" "infra_count a = 1" "infra_id (infra_at a 0) = i"
proof -
  let ?u = "d_untrack (ph_tracking_id (pak_hdr pkt)) d" and ?h = "pak_hop_num pkt"
  have room: "st_infra_count (dv_store d) < MAX_ANCHORS" using assms(8) by simp
  note add = storage_infra_add_lemma[OF assms(1,2) room, of e]
  show devs: "infra_devs (dv_store a) = [stamp_infra P (new_infra e)]" using add(3) assms(8) by (simp add: a_def)
  show cnt: "infra_count a = 1" using assms(8) by (simp add: a_def storage_infra_add_def frame_simps)
  have h0: "infra_at a 0 = stamp_infra P (new_infra e)" using arg_cong[OF devs, of "\<lambda>xs. xs ! 0"] cnt by simp
  then show id: "infra_id (infra_at a 0) = i" by (simp add: e_def mk_infra_entry_def)
  have hop: "infra_hop (infra_at a 0) = ?h" unfolding h0 by (simp add: e_def mk_infra_entry_def)
  have u: "unat ?h < 4" using assms(10) by (simp add: word_less_nat_alt)
  then have "unat (?h + 1) = unat ?h + 1" by (simp add: unat_word_ariths)
  then have t: "?h < 0xFE" "\<not> 4 < unat (?h + 1)" "?h + 1 \<noteq> 0xFF" "\<not> 0xFF < ?h" using u by (auto simp: word_less_nat_alt)
  have own: "get_hop_number a = 0xFF" "get_device_type a = DEVICE_TYPE_ANCHOR" using assms(3,9) by (simp_all add: a_def)
  have "\<not> (\<forall>x\<in>set (infra_devs (dv_store a)). get_hop_number a < infra_hop x)"
    using devs own(1) t(4) by (simp add: e_def mk_infra_entry_def)
  then have inf: "device_info_update P a = set_hop_number (?h + 1) (set_connected_device_id i a)"
    using t cnt own unfolding device_info_update_def Let_def hop id by auto
  have "check_infra_storage i False ?u = STATUS_SUCCESS" using assms(8) by (simp add: check_infra_storage_sem)
  then show "handle_pair_ack P pkt i r d = send_joined P i (set_hop_number (?h + 1) (set_connected_device_id i a))"
    using assms(3-7) add(1) inf
    by (auto simp: a_def e_def handle_pair_ack_def build_joined_network_def Let_def valid_device_type_def split_beta)
  show "node_ok P a" using add(2) by (simp add: a_def)
qed

text \<open>
  C8: An unpaired anchor that gets a successful PAIR_ACK from a gateway or anchor at hop \<open>h\<close> below
  4 becomes part of the network: its table holds exactly that peer, its hop number is \<open>h + 1\<close>, the
  peer is its connected device, and table and EEPROM are in step.
\<close>

theorem pair_ack_joins_anchor:
  fixes i :: u16 and r :: s16
  assumes "eeprom_ok P" "node_ok P d" "get_device_type d = DEVICE_TYPE_ANCHOR" "dv_status d = Running"
    "ph_device_id (pak_hdr pkt) = get_device_id d"
    "ph_device_type (pak_hdr pkt) = DEVICE_TYPE_GATEWAY \<or> ph_device_type (pak_hdr pkt) = DEVICE_TYPE_ANCHOR"
    "ph_status (pak_hdr pkt) = STATUS_SUCCESS" "infra_count d = 0" "get_hop_number d = 0xFF"
    "pak_hop_num pkt < 4"
  defines "d' \<equiv> handle_pair_ack P pkt i r d"
  shows "dv_status d' = Running \<and> node_ok P d' \<and> get_hop_number d' = pak_hop_num pkt + 1 \<and>
    get_connected_device_id d' = i \<and>
    map in_entry (infra_devs (dv_store d'))
      = [stamped P (mk_infra_entry (ph_device_type (pak_hdr pkt)) i (pak_hop_num pkt) (pak_version pkt) r)]"
proof -
  let ?e = "mk_infra_entry (ph_device_type (pak_hdr pkt)) i (pak_hop_num pkt) (pak_version pkt) r"
  let ?a = "proc (on_store (\<lambda>s. storage_infra_add P s ?e)) (d_untrack (ph_tracking_id (pak_hdr pkt)) d)"
  let ?i = "set_hop_number (pak_hop_num pkt + 1) (set_connected_device_id i ?a)"
  note ln = pair_ack_linked[OF assms(1-10), of i r, folded d'_def]
  have "dv_info (send_joined P i ?i) = dv_info ?i" "dv_store (send_joined P i ?i) = dv_store ?i"
    "dv_status (send_joined P i ?i) = dv_status ?i"
    using assms(3) by (simp_all add: send_joined_def Let_def)
  then show ?thesis using assms(4) ln(2,3) unfolding ln(1) by (simp add: stamped_def)
qed

definition ref_anchor_node :: dev where
  "ref_anchor_node = boot_dev DEVICE_TYPE_ANCHOR 9 0xFF ref_storage"

theorem pair_ack_joins_anchor_witness:
  "get_hop_number (handle_pair_ack ref_platform
     \<lparr>pak_hdr = ref_hdr PACKET_PAIR_ACK DEVICE_TYPE_GATEWAY 9 0, pak_version = 0, pak_hop_num = 0\<rparr> 1 0 ref_anchor_node) = 1"
  using pair_ack_joins_anchor[OF platform_okD(2)[OF ref_platform_ok], of ref_anchor_node
      "\<lparr>pak_hdr = ref_hdr PACKET_PAIR_ACK DEVICE_TYPE_GATEWAY 9 0, pak_version = 0, pak_hop_num = 0\<rparr>" 1 0]
    ref_storage_ok
  by (simp add: ref_anchor_node_def ref_hdr_def ref_storage_counts)

end
