(* ===== verification/Radio_Props.thy ===== *)
theory Radio_Props
  imports Node_Steps Handler_Props
begin

text \<open>
  Properties of the radio side: which received packets get to the handlers, what goes out in a
  transmission phase and in which order, and the length code of a packet.
\<close>

section \<open>Transmission\<close>

text \<open>What the receivers of an item see: the own radio id, the length code and the data.\<close>

definition item_data :: "tx_data_item \<Rightarrow> bytes" where
  "item_data it = take (unat (tx_data_len it)) (tx_data it)"

definition item_frame :: "u16 \<Rightarrow> tx_data_item \<Rightarrow> u16 \<times> u8 \<times> bytes" where
  "item_frame own it = (own, packet_length_code (length (item_data it)) 0, item_data it)"

definition modem_takes :: "platform \<Rightarrow> tx_data_item \<Rightarrow> bool" where
  "modem_takes P it \<longleftrightarrow> pf_phy_tx P (packet_length_code (length (item_data it)) 0) (item_data it) = 0"

lemma transmit_item:
  "transmit P (take (unat (tx_data_len it)) (tx_data it)) 0 d =
     (pf_phy_tx P (packet_length_code (length (item_data it)) 0) (item_data it),
      if modem_takes P it then d\<lparr>dv_air := dv_air d @ [item_frame (dv_radio_id d) it]\<rparr> else d)"
  by (simp add: transmit_def item_data_def item_frame_def modem_takes_def Let_def)

lemma tx_process_upto_spec:
  assumes "msgq_ok P"
  defines "its n d \<equiv> take n (tx_pending (dv_queues d))"
  defines "sent n d \<equiv> takeWhile (modem_takes P) (its n d)"
  shows "fst (tx_process_upto P n d) = (\<exists>it\<in>set (its n d). \<not> modem_takes P it) \<and>
    dv_air (snd (tx_process_upto P n d)) = dv_air d @ map (item_frame (dv_radio_id d)) (sent n d) \<and>
    tx_pending (dv_queues (snd (tx_process_upto P n d))) =
      drop (length (sent n d) + (if fst (tx_process_upto P n d) then 1 else 0)) (take n (tx_pending (dv_queues d)))
        @ drop n (tx_pending (dv_queues d))"
  unfolding its_def sent_def
proof (induction n arbitrary: d)
  case (Suc n)
  show ?case
  proof (cases "tx_pending (dv_queues d)")
    case Nil
    then have "fst (tx_queue_get P (dv_queues d) no_tx_item) \<noteq> 0"
      "snd (tx_queue_get P (dv_queues d) no_tx_item) = (no_tx_item, dv_queues d)"
      using txq.get_none[OF assms(1)] unfolding pending_eq by blast+
    then show ?thesis using Nil by (simp add: split_beta Let_def)
  next
    case (Cons it its)
    then obtain q where q: "tx_queue_get P (dv_queues d) no_tx_item = (0, it, q)" "tx_pending q = its"
      using txq.get_pending[OF assms(1)] unfolding pending_eq by blast
    let ?d = "d\<lparr>dv_queues := q, dv_air := dv_air d @ [item_frame (dv_radio_id d) it]\<rparr>"
    show ?thesis
    proof (cases "modem_takes P it")
      case False
      then have "tx_process_upto P (Suc n) d = (True, d\<lparr>dv_queues := q\<rparr>)"
        by (simp add: q transmit_item Let_def) (simp add: modem_takes_def)
      then show ?thesis using False Cons q(2) by simp
    next
      case True
      then have "tx_process_upto P (Suc n) d = tx_process_upto P n ?d"
        by (simp add: q transmit_item Let_def) (simp add: modem_takes_def)
      then show ?thesis using Suc.IH[of ?d] True Cons q(2) by simp
    qed
  qed
qed simp

text \<open>
  C34: A transmission phase sends the first eight waiting packets, high priority first and each
  priority in the order of arrival, unchanged and under the own radio id, and leaves the others
  waiting; the next phase is reception. If the modem refuses a packet, those before it are sent,
  the refused one is lost, the rest keeps waiting, and the node goes to ERROR.
\<close>

theorem tx_phase_order:
  fixes P :: platform and d :: dev and rc :: int and polls :: "radio_event list list" and final :: "radio_event list"
  assumes "msgq_ok P" "main_state d = MAIN_SUB_TX_PROCESS"
  defines "its \<equiv> take 8 (tx_pending (dv_queues d))"
  defines "sent \<equiv> takeWhile (modem_takes P) its"
  defines "d' \<equiv> main_sub_run P rc polls final d"
  shows "dv_air d' = dv_air d @ map (item_frame (dv_radio_id d)) sent \<and>
    (if sent = its
     then main_state d' = MAIN_SUB_RX_WINDOW \<and> tx_pending (dv_queues d') = drop 8 (tx_pending (dv_queues d))
     else main_state d' = MAIN_SUB_ERROR \<and>
       tx_pending (dv_queues d') = drop (length sent + 1) (tx_pending (dv_queues d)))"
proof -
  let ?r = "tx_process_upto P 8 d" and ?q = "tx_pending (dv_queues d)"
  note s = tx_process_upto_spec[OF assms(1), of 8 d]
  have d': "d' = set_main_state (if fst ?r then MAIN_SUB_ERROR else MAIN_SUB_RX_WINDOW) (snd ?r)"
    unfolding d'_def main_sub_run_def assms(2) by (simp add: split_beta)
  have all: "sent = its \<longleftrightarrow> \<not> fst ?r"
    using s unfolding sent_def its_def by (metis takeWhile_eq_all_conv)
  have app: "drop k (take 8 ?q) @ drop 8 ?q = drop k ?q" if "k \<le> length (take 8 ?q)" for k
    using that by (metis append_take_drop_id drop_append diff_is_0_eq drop_0)
  have pend: "tx_pending (dv_queues (snd ?r)) =
      drop (length sent + (if fst ?r then 1 else 0)) (take 8 ?q) @ drop 8 ?q"
    using s unfolding sent_def its_def by blast
  have "tx_pending (dv_queues (snd ?r)) = (if sent = its then drop 8 ?q else drop (length sent + 1) ?q)"
  proof (cases "sent = its")
    case True
    then show ?thesis using pend all by (simp add: its_def)
  next
    case False
    then have "length sent < length its"
      unfolding sent_def by (metis length_takeWhile_le nat_less_le takeWhile_eq_take take_all order_refl)
    then show ?thesis using pend all False app[of "length sent + 1"] by (simp add: its_def)
  qed
  moreover have "dv_air (set_main_state st d) = dv_air d" "dv_queues (set_main_state st d) = dv_queues d" for st d
    by (simp_all add: set_main_state_def set_main_def)
  moreover have "dv_air (snd ?r) = dv_air d @ map (item_frame (dv_radio_id d)) sent"
    using s unfolding sent_def its_def by blast
  ultimately show ?thesis using all by (cases "sent = its") (simp_all add: d')
qed

theorem tx_phase_order_witness:
  "let d = (boot_dev 1 1 0 ref_storage)\<lparr>dv_queues := ref_queues,
       dv_main := \<lparr>mn_initialized = True, mn_state = MAIN_SUB_TX_PROCESS\<rparr>\<rparr>
   in dv_air (main_sub_run ref_platform 0 [] [] d) = [(1, 1, [2]), (1, 1, [1])]"
proof -
  let ?d = "(boot_dev 1 1 0 ref_storage)\<lparr>dv_queues := ref_queues,
       dv_main := \<lparr>mn_initialized = True, mn_state = MAIN_SUB_TX_PROCESS\<rparr>\<rparr>"
  have "tx_pending ref_queues = [tx_item [2] 1, tx_item [1] 1]"
    by (simp add: tx_pending_def ref_queues_def queues_empty_def)
  moreover have "modem_takes ref_platform it" for it by (simp add: modem_takes_def ref_platform_def)
  moreover have "item_data (tx_item [b] 1) = [b]" for b by (simp add: item_data_def tx_item_def)
  ultimately show ?thesis
    using tx_phase_order[OF platform_okD(1)[OF ref_platform_ok], of ?d 0 "[]" "[]"]
    by (simp add: boot_dev_def item_frame_def packet_length_code_def)
qed

text \<open>
  The length code of an unsized transmission is the least number of 14-byte subslots that
  holds the packet, between 1 and 15, for every packet a queue item can hold.
\<close>

theorem packet_length_code_fits:
  assumes "len \<le> QUEUE_DATA_MAX"
  shows "1 \<le> unat (packet_length_code len 0) \<and> unat (packet_length_code len 0) \<le> 15 \<and>
    len \<le> 14 * unat (packet_length_code len 0) \<and>
    (\<forall>k. 1 \<le> k \<and> len \<le> 14 * k \<longrightarrow> unat (packet_length_code len 0) \<le> k)"
proof -
  have "(len + 13) div 14 \<le> 15" using assms by simp
  then have u: "unat (word_of_nat ((len + 13) div 14) :: u8) = (len + 13) div 14" by (simp add: unat_of_nat)
  then have "\<not> 15 < (word_of_nat ((len + 13) div 14) :: u8)" using assms by (simp add: word_less_nat_alt)
  moreover have "(word_of_nat ((len + 13) div 14) :: u8) = 0 \<longleftrightarrow> len = 0" using u by (auto simp: unat_eq_0)
  ultimately have c: "unat (packet_length_code len 0) = (if len = 0 then 1 else (len + 13) div 14)"
    using u by (simp add: packet_length_code_def Let_def)
  show ?thesis unfolding c using assms by auto
qed

theorem packet_length_code_fits_witness: "200 \<le> 14 * unat (packet_length_code 200 0)"
  using packet_length_code_fits[of 200] by simp

section \<open>Reception\<close>

definition pairing_packet :: "u8 \<Rightarrow> bool" where
  "pairing_packet t \<longleftrightarrow> PACKET_PAIR_REQUEST \<le> t \<and> t \<le> PACKET_PAIR_ACK \<or> t = PACKET_REPAIR_REQUEST \<or> t = PACKET_REPAIR_RESPONSE"

definition known_sender :: "u16 \<Rightarrow> dev \<Rightarrow> bool" where
  "known_sender i d \<longleftrightarrow> get_temp_id d \<noteq> 0xFFFF \<and> get_temp_id d = i \<or>
     (\<exists>x\<in>set (infra_devs (dv_store d)). infra_id x = i) \<or> (\<exists>x\<in>set (sensor_devs (dv_store d)). sensor_id x = i)"

lemma should_enqueue_spec:
  "fst (should_enqueue t i d) \<longleftrightarrow> pairing_packet t \<or> known_sender i d"
  "\<not> fst (should_enqueue t i d) \<Longrightarrow> snd (should_enqueue t i d) = d"
  "dv_queues (snd (should_enqueue t i d)) = dv_queues d" "dv_status (snd (should_enqueue t i d)) = dv_status d"
proof -
  have f: "(\<exists>x\<in>set xs. p x) \<longleftrightarrow> find_idx p xs \<noteq> None" for p and xs :: "'x list"
    by (simp add: find_idx_None_iff)
  show "fst (should_enqueue t i d) \<longleftrightarrow> pairing_packet t \<or> known_sender i d"
    unfolding known_sender_def pairing_packet_def f
    by (cases "find_infra i d"; cases "find_sensor i d") (auto simp: should_enqueue_def is_known_device_def)
  show "snd (should_enqueue t i d) = d" if "\<not> fst (should_enqueue t i d)"
    using that by (auto simp: should_enqueue_def is_known_device_def split: option.splits if_splits)
  show "dv_queues (snd (should_enqueue t i d)) = dv_queues d" "dv_status (snd (should_enqueue t i d)) = dv_status d"
    by (simp_all add: should_enqueue_def is_known_device_def upd_infra_def upd_sensor_def split: option.split)
qed

text \<open>
  C35: Only packets of the pairing and repair types and packets of known devices get to the
  handlers. Any other packet leaves the node exactly as it was; an admitted one waits in the
  receive queue of the priority in its third byte, behind what is waiting at that priority or
  above, with its data cut or zero-filled to 200 bytes, and is dropped if that queue is full.
\<close>

theorem radio_admission:
  fixes P :: platform and d :: dev and r :: s16 and data :: bytes
  assumes "msgq_ok P" "data \<noteq> []"
  defines "item \<equiv> rx_item_of (dv_last_sender d) r data"
  defines "k \<equiv> clamp_prio (rx_data item ! 2)"
  shows "if \<not> pairing_packet (data ! 0) \<and> \<not> known_sender (dv_last_sender d) d then on_pdc P r data d = d
    else if length (rx_items (dv_queues d) k) < QUEUE_DEPTH
    then (\<exists>before after. rx_pending (dv_queues d) = before @ after \<and>
      rx_pending (dv_queues (on_pdc P r data d)) = before @ [item] @ after \<and>
      before = concat (map (rx_items (dv_queues d)) [0..<Suc k]))
    else dv_queues (on_pdc P r data d) = dv_queues d"
proof -
  note se = should_enqueue_spec[of "data ! 0" "dv_last_sender d" d]
  show ?thesis
  proof (cases "fst (should_enqueue (data ! 0) (dv_last_sender d) d)")
    case False
    then show ?thesis using se assms(2) by (simp add: on_pdc_def split_beta Let_def)
  next
    case True
    have l: "dv_last_sender (snd (should_enqueue (data ! 0) (dv_last_sender d) d)) = dv_last_sender d"
      by (auto simp: should_enqueue_def is_known_device_def upd_infra_def upd_sensor_def split: option.splits)
    have q: "dv_queues (on_pdc P r data d) = snd (rx_queue_put P (dv_queues d) item (rx_data item ! 2))"
      using True se(3) assms(2) by (simp add: on_pdc_def split_beta Let_def item_def l)
    have adm: "\<not> (\<not> pairing_packet (data ! 0) \<and> \<not> known_sender (dv_last_sender d) d)" using True se(1) by blast
    show ?thesis
    proof (cases "length (rx_items (dv_queues d) k) < QUEUE_DEPTH")
      case room: True
      have "\<exists>before after. rx_pending (dv_queues d) = before @ after \<and>
        rx_pending (snd (rx_queue_put P (dv_queues d) item (rx_data item ! 2))) = before @ [item] @ after \<and>
        before = concat (map (rx_items (dv_queues d)) [0..<Suc k])"
        using rxq.put_pending[OF assms(1), of "dv_queues d" "rx_data item ! 2" item] room unfolding pending_eq k_def by blast
      then show ?thesis unfolding q if_not_P[OF adm] if_P[OF room] .
    next
      case full: False
      then have "snd (rx_queue_put P (dv_queues d) item (rx_data item ! 2)) = dv_queues d"
        using rxq.put_full[OF assms(1), of "dv_queues d" "rx_data item ! 2" item] unfolding k_def by simp
      then show ?thesis unfolding if_not_P[OF adm] if_not_P[OF full] using q by simp
    qed
  qed
qed

theorem radio_admission_witness:
  "on_pdc ref_platform 0 [PACKET_CONFIG, 1, 0, 0] ref_gateway = ref_gateway"
proof -
  have "\<not> known_sender 0 ref_gateway"
    by (simp add: known_sender_def ref_gateway_def boot_dev_def ref_storage_counts)
  moreover have "dv_last_sender ref_gateway = 0" by (simp add: ref_gateway_def boot_dev_def)
  ultimately show ?thesis
    using radio_admission[OF platform_okD(1)[OF ref_platform_ok], of "[PACKET_CONFIG, 1, 0, 0]" ref_gateway 0]
    by (simp add: pairing_packet_def)
qed

end
