(* ===== verification/Report_Props.thy ===== *)
theory Report_Props
  imports Radio_Props
begin

text \<open>
  Properties of the report transfer (src/data.c): the checksum over stages, reassembly of chunks in
  any order, isolation of the slots, and what a sender reads from the PSRAM.
\<close>

section \<open>Checksum in stages\<close>

lemma psram_up_simps [simp]:
  "psram_up P (upd_slot i f d) = psram_up P d" "region (upd_slot i f d) a n = region d a n"
  "psram_up P (upd_sender k g d) = psram_up P d" "region (upd_sender k g d) a n = region d a n"
  "psram_up P (update_report_count p b d) = psram_up P d" "region (update_report_count p b d) a n = region d a n"
  "psram_up P (report_slot_free i s d) = psram_up P d" "region (report_slot_free i s d) a n = region d a n"
  by (simp_all add: psram_up_def region_def upd_slot_def upd_sender_def update_report_count_def
      report_slot_free_def free_sender_slot_def Let_def)

lemma region_split: "n \<le> m \<Longrightarrow> region d a m = region d a n @ region d (a + n) (m - n)"
  using region_append[of d a n "m - n"] by simp

lemma crc_stages_from:
  assumes "psram_up P d" "crc32_ok P" "0 < stage" "addr + rem \<le> PSRAM_SIZE"
  shows "crc_stages P stage addr rem False (pf_crc32 P done) d = (0, pf_crc32 P (done @ region d addr rem), d)"
  using assms(4)
proof (induction rem arbitrary: addr "done" rule: less_induct)
  case (less rem)
  show ?case
  proof (cases "rem = 0")
    case True
    then show ?thesis by (subst crc_stages.simps) (simp add: region_def)
  next
    case False
    let ?n = "if stage < rem then stage else rem"
    have n: "?n \<le> rem" "?n \<le> stage" "rem - ?n < rem" "addr + ?n \<le> PSRAM_SIZE" "addr + ?n + (rem - ?n) \<le> PSRAM_SIZE"
      using less.prems False assms(3) by auto
    have c: "pf_crc32_continue P (pf_crc32 P done) (region d addr ?n) = pf_crc32 P (done @ region d addr ?n)"
      using assms(2) by (simp add: crc32_ok_def)
    have "crc_stages P stage addr rem False (pf_crc32 P done) d =
        crc_stages P stage (addr + ?n) (rem - ?n) False (pf_crc32 P (done @ region d addr ?n)) d"
      using False assms(3) c by (subst crc_stages.simps) (simp add: psram_read_up[OF assms(1) n(4,2)])
    also have "\<dots> = (0, pf_crc32 P ((done @ region d addr ?n) @ region d (addr + ?n) (rem - ?n)), d)"
      by (rule less.IH[OF n(3,5)])
    finally show ?thesis using region_split[OF n(1), of d addr] by simp
  qed
qed

lemma crc_stages_whole_lib:
  assumes "psram_up P d" "crc32_ok P" "0 < stage" "0 < len" "addr + len \<le> PSRAM_SIZE"
  shows "crc_stages P stage addr len True crc d = (0, pf_crc32 P (region d addr len), d)"
proof -
  let ?n = "if stage < len then stage else len"
  have n: "?n \<le> len" "?n \<le> stage" "addr + ?n \<le> PSRAM_SIZE" "addr + ?n + (len - ?n) \<le> PSRAM_SIZE"
    using assms(5) by auto
  have "crc_stages P stage addr len True crc d =
      crc_stages P stage (addr + ?n) (len - ?n) False (pf_crc32 P (region d addr ?n)) d"
    using assms(3,4) by (subst crc_stages.simps) (simp add: psram_read_up[OF assms(1) n(3,2)])
  then show ?thesis
    using crc_stages_from[OF assms(1-3) n(4)] region_split[OF n(1), of d addr] by simp
qed

text \<open>
  C22: The checksum that the firmware computes in stages of 256 bytes (reports) or 1024 bytes
  (large data) through a small buffer is the CRC32 of the whole stored data, for every stage size
  and every length that lies inside the PSRAM, and computing it changes nothing.
\<close>

theorem crc_stages_whole:
  assumes "psram_up P d" "crc32_ok P" "0 < stage" "0 < len" "addr + len \<le> PSRAM_SIZE"
  shows "crc_stages P stage addr len True crc d = (0, pf_crc32 P (region d addr len), d)"
  using assms by (rule crc_stages_whole_lib)

lemma ref_psram_up: "psram_up ref_platform (boot_dev t i hop s)"
  using platform_okD(3)[OF ref_platform_ok] by (simp add: psram_up_def boot_dev_def ref_psram_def)

theorem crc_stages_whole_witness:
  "crc_stages ref_platform 256 0x40000 300 True 0 ref_gateway
    = (0, pf_crc32 ref_platform (region ref_gateway 0x40000 300), ref_gateway)"
  unfolding ref_gateway_def
  by (rule crc_stages_whole[OF ref_psram_up platform_okD(4)[OF ref_platform_ok]]) simp_all

section \<open>Slots\<close>

lemma find_idx_update:
  assumes "p y = p (xs ! i)" shows "find_idx p (xs[i := y]) = find_idx p xs"
  using assms by (induction xs arbitrary: i) (auto split: nat.split)

lemma find_slot_upd [simp]:
  assumes "sl_active (f (rep_at d i)) = sl_active (rep_at d i)"
    "sl_gen_device_id (f (rep_at d i)) = sl_gen_device_id (rep_at d i)" "sl_data_id (f (rep_at d i)) = sl_data_id (rep_at d i)"
  shows "find_slot g k (upd_slot i f d) = find_slot g k d"
  unfolding find_slot_def upd_slot_def using assms by (simp add: find_idx_update)

lemma rep_at_upd [simp]: "i < length (rep_slots d) \<Longrightarrow> rep_at (upd_slot i f d) i = f (rep_at d i)"
  "i \<noteq> j \<Longrightarrow> rep_at (upd_slot i f d) j = rep_at d j" "length (rep_slots (upd_slot i f d)) = length (rep_slots d)"
  by (simp_all add: upd_slot_def)

lemma rep_len: "dev_wf d \<Longrightarrow> length (rep_slots d) = DATA_SLOT_COUNT"
  by (simp add: dev_wf_def reports_wf_def)

lemma find_slotD:
  assumes "find_slot g k d = Some i" "dev_wf d"
  shows "i < DATA_SLOT_COUNT" "sl_active (rep_at d i)" "sl_gen_device_id (rep_at d i) = g" "sl_data_id (rep_at d i) = k"
  using find_idx_less[OF assms(1)[unfolded find_slot_def]] find_idx_nth[OF assms(1)[unfolded find_slot_def]] rep_len[OF assms(2)]
  by auto

lemma find_idx_new:
  assumes "find_idx p xs = None" "i < length xs" "p y" shows "find_idx p (xs[i := y]) = Some i"
  using assms by (induction xs arbitrary: i) (auto split: nat.split if_splits)

section \<open>Reassembly\<close>

lemma pieces_apart:
  assumes "j \<noteq> k" "a \<le> n" "b \<le> n" shows "j * n + a \<le> k * n \<or> k * n + b \<le> j * (n :: nat)"
proof (cases "j < k")
  case True
  then have "Suc j * n \<le> k * n" by (intro mult_le_mono1) simp
  then show ?thesis using assms(2) by simp
next
  case False
  then have "Suc k * n \<le> j * n" using assms(1) by (intro mult_le_mono1) simp
  then show ?thesis using assms(3) by simp
qed

text \<open>
  \<open>announces\<close>: the INIT packet describes the report \<open>bs\<close>, with sizes that agree with each other.
  \<open>carries\<close>: a CHUNK packet holds piece \<open>k\<close> of it; what follows the piece does not matter.
\<close>

definition report_piece :: "bytes \<Rightarrow> nat \<Rightarrow> bytes" where
  "report_piece bs k = take SEND_DATA_MAX (drop (SEND_DATA_MAX * k) bs)"

definition announces :: "platform \<Rightarrow> report_init \<Rightarrow> bytes \<Rightarrow> bool" where
  "announces P pkt bs \<longleftrightarrow> init_valid pkt \<and> length bs = unat (rpi_total_size pkt) \<and>
     length bs = (unat (rpi_chunk_count pkt) - 1) * SEND_DATA_MAX + unat (rpi_last_chunk_size pkt) \<and>
     rpi_crc32 pkt = pf_crc32 P bs"

definition carries :: "report_init \<Rightarrow> bytes \<Rightarrow> nat \<Rightarrow> report_chunk \<Rightarrow> bool" where
  "carries i bs k pkt \<longleftrightarrow> rpc_gen_device_id pkt = rpi_gen_device_id i \<and> rpc_data_id pkt = rpi_data_id i \<and>
     unat (rpc_chunk_index pkt) = k \<and> take (length (report_piece bs k)) (rpc_data pkt) = report_piece bs k"

abbreviation chunks_of :: "report_init \<Rightarrow> nat" where "chunks_of i \<equiv> unat (rpi_chunk_count i)"

lemma int_pred_eq: "(int k = int c - 1) = (Suc k = c)"
  by auto

lemma announces_sizes:
  assumes "announces P i bs"
  shows "chunks_of i = 1 \<and> unat (rpi_last_chunk_size i) = length bs \<and> length bs \<le> 180 \<or>
      chunks_of i = 2 \<and> unat (rpi_last_chunk_size i) = length bs - 180 \<and> 180 < length bs"
    "0 < length bs" "length bs \<le> MAX_REPORT_SIZE" "unat (rpi_last_chunk_size i) \<le> SEND_DATA_MAX"
proof -
  have v: "chunks_of i \<noteq> 0" "chunks_of i \<le> 2" "unat (rpi_last_chunk_size i) \<noteq> 0" "unat (rpi_last_chunk_size i) \<le> 180"
    "unat (rpi_total_size i) \<le> 256"
    using assms by (auto simp: announces_def init_valid_def unat_eq_zero)
  have b: "length bs = (chunks_of i - 1) * 180 + unat (rpi_last_chunk_size i)" "length bs = unat (rpi_total_size i)"
    using assms by (simp_all add: announces_def)
  have "chunks_of i = 1 \<or> chunks_of i = 2" using v(1,2) by linarith
  then show "chunks_of i = 1 \<and> unat (rpi_last_chunk_size i) = length bs \<and> length bs \<le> 180 \<or>
      chunks_of i = 2 \<and> unat (rpi_last_chunk_size i) = length bs - 180 \<and> 180 < length bs"
    using b(1) v(3,4) by auto
  show "0 < length bs" "length bs \<le> MAX_REPORT_SIZE" "unat (rpi_last_chunk_size i) \<le> SEND_DATA_MAX"
    using b v(3-5) by linarith+
qed

lemma chunk_size_piece:
  assumes "announces P i bs" "k < chunks_of i"
  shows "(if int k = int (chunks_of i) - 1 then unat (rpi_last_chunk_size i) else SEND_DATA_MAX) = length (report_piece bs k)"
    "k * SEND_DATA_MAX + length (report_piece bs k) \<le> MAX_REPORT_SIZE"
proof -
  show "(if int k = int (chunks_of i) - 1 then unat (rpi_last_chunk_size i) else SEND_DATA_MAX) = length (report_piece bs k)"
    "k * SEND_DATA_MAX + length (report_piece bs k) \<le> MAX_REPORT_SIZE"
    unfolding int_pred_eq using announces_sizes[OF assms(1)] assms(2) by (auto simp: report_piece_def less_Suc_eq numeral_2_eq_2)
qed

lemma region_of_pieces:
  assumes "announces P i bs" "\<forall>k<chunks_of i. region d (a + k * SEND_DATA_MAX) (length (report_piece bs k)) = report_piece bs k"
  shows "region d a (length bs) = bs"
  using announces_sizes(1)[OF assms(1)]
proof
  assume "chunks_of i = 1 \<and> unat (rpi_last_chunk_size i) = length bs \<and> length bs \<le> 180"
  then show ?thesis using assms(2) by (simp add: report_piece_def)
next
  assume two: "chunks_of i = 2 \<and> unat (rpi_last_chunk_size i) = length bs - 180 \<and> 180 < length bs"
  have len: "length bs \<le> 256" using announces_sizes(3)[OF assms(1)] .
  have "region d (a + 0 * 180) (length (report_piece bs 0)) = report_piece bs 0"
    "region d (a + 1 * 180) (length (report_piece bs 1)) = report_piece bs 1"
    using assms(2)[rule_format, of 0] assms(2)[rule_format, of 1] two by simp_all
  moreover have "report_piece bs 0 = take 180 bs" "report_piece bs 1 = drop 180 bs" "length (take 180 bs) = 180"
    using two len by (simp_all add: report_piece_def)
  ultimately show ?thesis using region_split[of 180 "length bs" d a] two by simp
qed

text \<open>The receiver's state when it has exactly the chunks in \<open>S\<close> of the report.\<close>

definition slot_for :: "report_init \<Rightarrow> report_slot \<Rightarrow> bool" where
  "slot_for i x \<longleftrightarrow> sl_chunk_count x = rpi_chunk_count i \<and> sl_last_chunk_size x = rpi_last_chunk_size i \<and>
     sl_total_size x = rpi_total_size i \<and> sl_crc32 x = rpi_crc32 i \<and> sl_report_time_ms x = rpi_report_time_ms i \<and>
     \<not> sl_is_sent x"

text \<open>How long a complete report is kept: a gateway waits for duplicates, the others wait for the transfer.\<close>

definition kept_slot :: "dev \<Rightarrow> nat \<Rightarrow> bool" where
  "kept_slot d idx \<longleftrightarrow> sl_idle_timeout (rep_at d idx) = (if get_device_type d = DEVICE_TYPE_GATEWAY
     then nbtimeout_start (dv_now d) (nbtimeout_init DATA_DUP_TIMEOUT_MS 0) else nbtimeout_stop (sl_idle_timeout (rep_at d idx)))"

definition report_has :: "platform \<Rightarrow> report_init \<Rightarrow> bytes \<Rightarrow> nat \<Rightarrow> nat set \<Rightarrow> dev \<Rightarrow> bool" where
  "report_has P i bs idx S d \<longleftrightarrow> psram_up P d \<and> dev_wf d \<and> S \<subseteq> {..<chunks_of i} \<and>
     find_slot (rpi_gen_device_id i) (rpi_data_id i) d = Some idx \<and> slot_for i (rep_at d idx) \<and>
     (\<forall>k<chunks_of i. sl_received (rep_at d idx) ! k \<longleftrightarrow> k \<in> S) \<and>
     unat (sl_received_count (rep_at d idx)) = card S \<and>
     (\<forall>k\<in>S. region d (slot_psram_addr idx + k * SEND_DATA_MAX) (length (report_piece bs k)) = report_piece bs k)"

definition report_inv :: "platform \<Rightarrow> report_init \<Rightarrow> bytes \<Rightarrow> (nat \<Rightarrow> report_chunk) \<Rightarrow> nat \<Rightarrow> nat set \<Rightarrow> dev \<Rightarrow> bool" where
  "report_inv P i bs pkts idx S d \<longleftrightarrow> report_has P i bs idx S d \<and> crc32_ok P \<and> announces P i bs \<and>
     (\<forall>k<chunks_of i. carries i bs k (pkts k)) \<and> (sl_upstream_ready (rep_at d idx) \<longleftrightarrow> S = {..<chunks_of i}) \<and>
     (S = {..<chunks_of i} \<longrightarrow> kept_slot d idx)"

definition take_chunk :: "platform \<Rightarrow> nat \<Rightarrow> nat \<Rightarrow> bytes \<Rightarrow> dev \<Rightarrow> dev" where
  "take_chunk P idx k bs d = upd_slot idx (\<lambda>x. x\<lparr>sl_received := (sl_received x)[k := True],
     sl_received_count := sl_received_count x + 1, sl_idle_timeout := nbtimeout_start (dv_now d) (sl_idle_timeout x)\<rparr>)
     (snd (d_psram_write P (slot_psram_addr idx + k * SEND_DATA_MAX) (report_piece bs k) d))"

lemma d_psram_write_slots [simp]:
  "find_slot g i (snd (d_psram_write P a bs d)) = find_slot g i d"
  by (simp add: find_slot_def)

lemma take_chunk_has:
  assumes "report_has P i bs idx S d" "announces P i bs" "k < chunks_of i" "k \<notin> S"
  shows "report_has P i bs idx (insert k S) (take_chunk P idx k bs d)"
    "sl_upstream_ready (rep_at (take_chunk P idx k bs d) idx) = sl_upstream_ready (rep_at d idx)"
proof -
  have h: "psram_up P d" "dev_wf d" "S \<subseteq> {..<chunks_of i}" "find_slot (rpi_gen_device_id i) (rpi_data_id i) d = Some idx"
    "slot_for i (rep_at d idx)" "\<forall>k<chunks_of i. sl_received (rep_at d idx) ! k \<longleftrightarrow> k \<in> S"
    "unat (sl_received_count (rep_at d idx)) = card S"
    "\<forall>k\<in>S. region d (slot_psram_addr idx + k * SEND_DATA_MAX) (length (report_piece bs k)) = report_piece bs k"
    using assms(1) by (simp_all add: report_has_def)
  let ?w = "snd (d_psram_write P (slot_psram_addr idx + k * SEND_DATA_MAX) (report_piece bs k) d)"
  have idx: "idx < DATA_SLOT_COUNT" "idx < length (rep_slots ?w)" using find_slotD(1)[OF h(4,2)] rep_len[OF h(2)] by simp_all
  note w = rep_mem.write_within[OF h(1) idx(1) chunk_size_piece(2)[OF assms(2,3)]]
  have r: "region ?w (slot_psram_addr idx + j * SEND_DATA_MAX) (length (report_piece bs j)) = report_piece bs j"
    if "j \<in> insert k S" for j
  proof (cases "j = k")
    case False
    have "length (report_piece bs m) \<le> 180" for m by (simp add: report_piece_def)
    then have "j * 180 + length (report_piece bs j) \<le> k * 180 \<or> k * 180 + length (report_piece bs k) \<le> j * 180"
      using False by (intro pieces_apart) simp_all
    then show ?thesis using w(4)[of "slot_psram_addr idx + j * 180" "length (report_piece bs j)"] h(8) that False by auto
  qed (use w(2) in simp)
  have fin: "finite S" "card S < chunks_of i"
    using h(3) assms(3,4) psubset_card_mono[of "{..<chunks_of i}" S] finite_subset[of S "{..<chunks_of i}"] by auto
  have c: "unat (sl_received_count (rep_at d idx) + 1) = card (insert k S)"
    using h(7) fin assms(4) announces_sizes(1)[OF assms(2)] by (auto simp: unat_word_ariths)
  have wf: "dev_wf (take_chunk P idx k bs d)"
    unfolding take_chunk_def using h(2) by (intro wf_intros) (auto simp: slot_ok_def)
  have len: "length (sl_received (rep_at d idx)) = 2" using rep_at_ok[OF h(2) idx(1)] by (simp add: slot_ok_def)
  have k2: "k < 2" using assms(3) announces_sizes(1)[OF assms(2)] by auto
  show "report_has P i bs idx (insert k S) (take_chunk P idx k bs d)"
    unfolding report_has_def
  proof (intro conjI)
    show "psram_up P (take_chunk P idx k bs d)" using w(3) by (simp add: take_chunk_def)
    show "find_slot (rpi_gen_device_id i) (rpi_data_id i) (take_chunk P idx k bs d) = Some idx"
      using h(4) by (simp add: take_chunk_def)
    show "slot_for i (rep_at (take_chunk P idx k bs d) idx)" using h(5) idx(2) by (simp add: take_chunk_def slot_for_def)
    show "\<forall>j<chunks_of i. sl_received (rep_at (take_chunk P idx k bs d) idx) ! j = (j \<in> insert k S)"
      using h(6) idx(2) len k2 by (auto simp: take_chunk_def nth_list_update)
    show "unat (sl_received_count (rep_at (take_chunk P idx k bs d) idx)) = card (insert k S)"
      using c idx(2) by (simp add: take_chunk_def)
    show "\<forall>j\<in>insert k S. region (take_chunk P idx k bs d) (slot_psram_addr idx + j * SEND_DATA_MAX)
        (length (report_piece bs j)) = report_piece bs j"
      using r by (simp add: take_chunk_def)
  qed (use wf h(3) assms(3) in auto)
  show "sl_upstream_ready (rep_at (take_chunk P idx k bs d) idx) = sl_upstream_ready (rep_at d idx)"
    using idx(2) by (simp add: take_chunk_def)
qed

text \<open>What is stored is the report, so it passes the check and becomes ready.\<close>

lemma complete_report_has:
  assumes "report_has P i bs idx {..<chunks_of i} d" "announces P i bs" "crc32_ok P"
  shows "fst (complete_report P idx d) = STATUS_SUCCESS"
    "report_has P i bs idx {..<chunks_of i} (snd (complete_report P idx d))"
    "sl_upstream_ready (rep_at (snd (complete_report P idx d)) idx)" "kept_slot (snd (complete_report P idx d)) idx"
proof -
  have h: "psram_up P d" "dev_wf d" "find_slot (rpi_gen_device_id i) (rpi_data_id i) d = Some idx" "slot_for i (rep_at d idx)"
    "region d (slot_psram_addr idx) (length bs) = bs"
    using assms(1) region_of_pieces[OF assms(2)] by (auto simp: report_has_def)
  have idx: "idx < DATA_SLOT_COUNT" "idx < length (rep_slots d)" using find_slotD(1)[OF h(3,2)] rep_len[OF h(2)] by simp_all
  have "slot_psram_addr idx + length bs \<le> PSRAM_SIZE"
    using rep_mem.inside[OF idx(1)] announces_sizes(3)[OF assms(2)] by linarith
  then have crc: "crc_stages P CRC_VERIFY_STAGE_SIZE (slot_psram_addr idx) (length bs) True 0 d = (0, pf_crc32 P bs, d)"
    using crc_stages_whole_lib[OF h(1) assms(3)] announces_sizes(2)[OF assms(2)] h(5) by simp
  have len: "unat (sl_total_size (rep_at d idx)) = length bs" "sl_crc32 (rep_at d idx) = pf_crc32 P bs"
    using h(4) assms(2) by (simp_all add: slot_for_def announces_def)
  have eq: "complete_report P idx d = (STATUS_SUCCESS, upd_slot idx (\<lambda>x. x\<lparr>sl_upstream_ready := True, sl_idle_timeout :=
      (if get_device_type d = DEVICE_TYPE_GATEWAY then nbtimeout_start (dv_now d) (nbtimeout_init DATA_DUP_TIMEOUT_MS 0)
       else nbtimeout_stop (sl_idle_timeout x))\<rparr>) d)"
    by (simp add: complete_report_def len crc)
  have wf: "dev_wf (snd (complete_report P idx d))" by (rule complete_report_wf[OF h(2)])
  show "fst (complete_report P idx d) = STATUS_SUCCESS" "sl_upstream_ready (rep_at (snd (complete_report P idx d)) idx)"
    using idx(2) by (simp_all add: eq)
  have "dv_info (upd_slot idx g d) = dv_info d" "dv_now (upd_slot idx g d) = dv_now d" for g by (simp_all add: upd_slot_def)
  then show "kept_slot (snd (complete_report P idx d)) idx"
    using idx(2) by (simp add: kept_slot_def eq nbtimeout_stop_def)
  show "report_has P i bs idx {..<chunks_of i} (snd (complete_report P idx d))"
    using assms(1) wf idx(2) by (simp add: report_has_def eq slot_for_def)
qed

interpretation report_rx: chunk_receiver "chunks_of i" "report_inv P i bs pkts idx"
  "\<lambda>k. validate_report_chunk P (pkts k)" for P i bs pkts idx
proof
  fix S d k
  assume inv: "report_inv P i bs pkts idx S d"
  then have h: "report_has P i bs idx S d" "crc32_ok P" "announces P i bs" "\<forall>k<chunks_of i. carries i bs k (pkts k)"
    "sl_upstream_ready (rep_at d idx) \<longleftrightarrow> S = {..<chunks_of i}"
    by (simp_all add: report_inv_def)
  have s: "dev_wf d" "find_slot (rpi_gen_device_id i) (rpi_data_id i) d = Some idx" "slot_for i (rep_at d idx)"
    "psram_up P d" "S \<subseteq> {..<chunks_of i}" "\<forall>k<chunks_of i. sl_received (rep_at d idx) ! k \<longleftrightarrow> k \<in> S"
    using h(1) by (simp_all add: report_has_def)
  have c: "rpc_gen_device_id (pkts k) = rpi_gen_device_id i" "rpc_data_id (pkts k) = rpi_data_id i"
    "unat (rpc_chunk_index (pkts k)) = k" "take (length (report_piece bs k)) (rpc_data (pkts k)) = report_piece bs k"
    "\<not> sl_chunk_count (rep_at d idx) \<le> rpc_chunk_index (pkts k)" if "k < chunks_of i"
    using h(4) that s(3) by (auto simp: carries_def slot_for_def word_le_nat_alt)
  show "validate_report_chunk P (pkts k) d = (STATUS_ALREADY_EXISTS, d)" if "k \<in> S"
  proof -
    have k: "k < chunks_of i" using that s(5) by blast
    then show ?thesis using c[OF k] s(2,6) that by (simp add: validate_report_chunk_def Let_def)
  qed
  assume k: "k < chunks_of i" "k \<notin> S"
  note c = c[OF k(1)]
  let ?d = "take_chunk P idx k bs d"
  have idx: "idx < DATA_SLOT_COUNT" "idx < length (rep_slots d)" using find_slotD(1)[OF s(2,1)] rep_len[OF s(1)] by simp_all
  note w = rep_mem.write_within[OF s(4) idx(1) chunk_size_piece(2)[OF h(3) k(1)]]
  have csz: "(if int k = int (unat (sl_chunk_count (rep_at d idx))) - 1 then unat (sl_last_chunk_size (rep_at d idx))
      else SEND_DATA_MAX) = length (report_piece bs k)"
  proof -
    have "sl_chunk_count (rep_at d idx) = rpi_chunk_count i" "sl_last_chunk_size (rep_at d idx) = rpi_last_chunk_size i"
      using s(3) by (simp_all add: slot_for_def)
    then show ?thesis using chunk_size_piece(1)[OF h(3) k(1)] by metis
  qed
  have t: "report_has P i bs idx (insert k S) ?d" "\<not> sl_upstream_ready (rep_at ?d idx)"
    using take_chunk_has[OF h(1,3) k] h(5) k by auto
  have fits: "\<not> SEND_DATA_MAX < length (report_piece bs k)" by (simp add: report_piece_def)
  have v: "validate_report_chunk P (pkts k) d = (if sl_received_count (rep_at ?d idx) = sl_chunk_count (rep_at ?d idx)
      then complete_report P idx ?d else (STATUS_SUCCESS, ?d))"
    using c s(2,6) k w(1) fits
    by (simp add: validate_report_chunk_def Let_def split_beta csz take_chunk_def del: of_nat_unat)
  have "finite (insert k S)" "insert k S \<subseteq> {..<chunks_of i}" using s(5) k(1) finite_subset[of S "{..<chunks_of i}"] by auto
  then have "card (insert k S) = chunks_of i \<longleftrightarrow> insert k S = {..<chunks_of i}"
    by (metis card_lessThan card_subset_eq finite_lessThan)
  then have all: "sl_received_count (rep_at ?d idx) = sl_chunk_count (rep_at ?d idx) \<longleftrightarrow> insert k S = {..<chunks_of i}"
    using t(1) by (simp add: report_has_def slot_for_def word_unat_eq_iff)
  show "fst (validate_report_chunk P (pkts k) d) = STATUS_SUCCESS \<and>
      report_inv P i bs pkts idx (insert k S) (snd (validate_report_chunk P (pkts k) d))"
  proof (cases "insert k S = {..<chunks_of i}")
    case True
    have "report_has P i bs idx {..<chunks_of i} ?d" using t(1) unfolding True .
    note complete_report_has[OF this h(3,2)]
    then show ?thesis using h v all True by (simp add: report_inv_def)
  next
    case False
    then show ?thesis using t h v all by (simp add: report_inv_def)
  qed
qed

lemma validate_slot_has:
  assumes "psram_up P d" "dev_wf d" "announces P i bs" "find_slot (rpi_gen_device_id i) (rpi_data_id i) d = None"
    "fst (validate_slot i d) = STATUS_SUCCESS"
  obtains idx where "report_has P i bs idx {} (snd (validate_slot i d))" "\<not> sl_upstream_ready (rep_at (snd (validate_slot i d)) idx)"
    "\<And>j. j \<noteq> idx \<Longrightarrow> rep_at (snd (validate_slot i d)) j = rep_at d j"
proof -
  obtain idx where idx: "find_idx (\<lambda>x. \<not> sl_active x) (rep_slots d) = Some idx"
    using assms(4,5) by (auto simp: validate_slot_def alloc_slot_def split: option.splits)
  let ?f = "\<lambda>x. x\<lparr>sl_is_sent := False, sl_upstream_ready := False, sl_is_transfered := False\<rparr>"
  let ?d = "upd_slot idx (fill_slot i (dv_now d)) (update_report_count (ph_priority (rpi_hdr i)) True (upd_slot idx ?f d))"
  have v: "snd (validate_slot i d) = ?d"
    using assms(4) idx by (simp add: validate_slot_def alloc_slot_def update_report_count_def upd_slot_def)
  have l: "idx < length (rep_slots d)" using find_idx_less[OF idx] .
  have r: "rep_slots ?d = (rep_slots d)[idx := fill_slot i (dv_now d) (?f (rep_at d idx))]"
    using l by (simp add: upd_slot_def update_report_count_def)
  then have x: "rep_at ?d idx = fill_slot i (dv_now d) (?f (rep_at d idx))" using l by simp
  have find: "find_slot (rpi_gen_device_id i) (rpi_data_id i) ?d = Some idx"
    unfolding find_slot_def r by (rule find_idx_new[OF assms(4)[unfolded find_slot_def] l]) (simp add: fill_slot_def)
  have "init_valid i" using assms(3) by (simp add: announces_def)
  then have wf: "dev_wf ?d" using validate_slot_wf[OF assms(2), of i] unfolding v by blast
  have up: "psram_up P ?d" using assms(1) by simp
  have "report_has P i bs idx {} ?d" unfolding report_has_def x
    using find wf up announces_sizes(1)[OF assms(3)]
    by (auto simp: slot_for_def fill_slot_def less_Suc_eq numeral_2_eq_2)
  moreover have "\<not> sl_upstream_ready (rep_at ?d idx)" unfolding x by (simp add: fill_slot_def)
  moreover have "rep_at ?d j = rep_at d j" if "j \<noteq> idx" for j using that unfolding r by simp
  ultimately show thesis using that unfolding v by blast
qed

text \<open>
  C13: A report survives any order and any repetition of its chunks. If a receiver accepts the
  announcement of a report it does not have yet and then gets chunk packets that cover all chunks,
  in any order and each any number of times, it ends with the report's exact bytes in a slot that
  is ready for upstream; it answers each chunk with SUCCESS the first time and with ALREADY_EXISTS
  from then on.
\<close>

theorem report_reassembly:
  fixes P :: platform and d :: dev and ks :: "nat list"
  assumes "psram_up P d" "crc32_ok P" "dev_wf d" "announces P i bs"
    "find_slot (rpi_gen_device_id i) (rpi_data_id i) d = None" "fst (validate_slot i d) = STATUS_SUCCESS"
    "\<forall>k<chunks_of i. carries i bs k (pkts k)" "set ks = {..<chunks_of i}"
  defines "r \<equiv> deliver (\<lambda>k. validate_report_chunk P (pkts k)) ks (snd (validate_slot i d))"
  shows "fst r = map (\<lambda>j. if ks ! j \<in> set (take j ks) then STATUS_ALREADY_EXISTS else STATUS_SUCCESS) [0..<length ks] \<and>
    (\<exists>idx. find_slot (rpi_gen_device_id i) (rpi_data_id i) (snd r) = Some idx \<and>
      sl_upstream_ready (rep_at (snd r) idx) \<and> region (snd r) (slot_psram_addr idx) (length bs) = bs)"
proof -
  obtain idx where "report_has P i bs idx {} (snd (validate_slot i d))"
    "\<not> sl_upstream_ready (rep_at (snd (validate_slot i d)) idx)"
    using validate_slot_has[OF assms(1,3-6)] .
  then have "report_inv P i bs pkts idx {} (snd (validate_slot i d))"
    using assms(2,4,7) announces_sizes(1)[OF assms(4)] by (auto simp: report_inv_def lessThan_empty_iff eq_commute[of "{}"])
  note d = report_rx.deliver_any[OF this, of ks, unfolded assms(8), OF order_refl, folded r_def]
  have "region (snd r) (slot_psram_addr idx) (length bs) = bs"
    using d(1) by (intro region_of_pieces[OF assms(4)]) (auto simp: report_inv_def report_has_def)
  then show ?thesis using d by (auto simp: report_inv_def report_has_def)
qed

definition ref_report :: report_init where
  "ref_report = \<lparr>rpi_hdr = zero_hdr, rpi_gen_device_id = 9, rpi_data_id = 1, rpi_report_time_ms = 0,
     rpi_total_size = 200, rpi_chunk_count = 2, rpi_last_chunk_size = 20, rpi_crc32 = pf_crc32 ref_platform (replicate 200 7)\<rparr>"

definition ref_chunk :: "nat \<Rightarrow> report_chunk" where
  "ref_chunk k = \<lparr>rpc_hdr = zero_hdr, rpc_gen_device_id = 9, rpc_data_id = 1, rpc_chunk_index = word_of_nat k,
     rpc_data = replicate 180 7\<rparr>"

lemma ref_report_ok: "announces ref_platform ref_report (replicate 200 7)"
  "\<forall>k<chunks_of ref_report. carries ref_report (replicate 200 7) k (ref_chunk k)"
  "find_slot 9 1 ref_gateway = None" "fst (validate_slot ref_report ref_gateway) = STATUS_SUCCESS"
proof -
  have s: "rep_slots ref_gateway = replicate 512 (hd (rep_slots ref_gateway))" "\<not> sl_active (hd (rep_slots ref_gateway))"
    by (simp_all add: ref_gateway_def boot_dev_def boot_reports_def)
  show f: "find_slot 9 1 ref_gateway = None"
    unfolding find_slot_def by (subst s(1)) (use s(2) in \<open>simp add: find_idx_None_iff\<close>)
  have "find_idx (\<lambda>x. \<not> sl_active x) (rep_slots ref_gateway) \<noteq> None"
    by (subst s(1)) (use s(2) in \<open>simp add: find_idx_None_iff\<close>)
  then show "fst (validate_slot ref_report ref_gateway) = STATUS_SUCCESS"
    using f by (auto simp: validate_slot_def alloc_slot_def ref_report_def)
  show "announces ref_platform ref_report (replicate 200 7)"
    by (simp add: announces_def init_valid_def ref_report_def)
  show "\<forall>k<chunks_of ref_report. carries ref_report (replicate 200 7) k (ref_chunk k)"
    by (auto simp: carries_def ref_report_def ref_chunk_def report_piece_def unat_of_nat)
qed

theorem report_reassembly_witness:
  "\<exists>idx. sl_upstream_ready (rep_at (snd (deliver (\<lambda>k. validate_report_chunk ref_platform (ref_chunk k)) [1, 0, 1]
     (snd (validate_slot ref_report ref_gateway)))) idx)"
proof -
  have "dev_wf ref_gateway" "psram_up ref_platform ref_gateway" by (rule ref_gateway_wf, simp add: ref_gateway_def ref_psram_up)
  moreover have "set [1, 0, 1] = {..<chunks_of ref_report}" by (auto simp: ref_report_def)
  ultimately show ?thesis
    using report_reassembly[of ref_platform ref_gateway ref_report "replicate 200 7" ref_chunk "[1, 0, 1]"] ref_report_ok
      platform_okD(4)[OF ref_platform_ok]
    by (auto simp: ref_report_def)
qed

section \<open>The checksum decides\<close>

lemma crc_stages_0: "crc_stages P stage a 0 first crc d = (0, crc, d)"
  by (subst crc_stages.simps) simp

lemma report_slot_free_other [simp]: "j \<noteq> idx \<Longrightarrow> rep_at (report_slot_free idx s d) j = rep_at d j"
  by (simp add: report_slot_free_def update_report_count_def upd_slot_def free_sender_slot_def upd_sender_def Let_def)

lemma complete_report_cases:
  assumes "psram_up P d" "crc32_ok P" "idx < DATA_SLOT_COUNT" "0 < unat (sl_total_size (rep_at d idx))"
    "unat (sl_total_size (rep_at d idx)) \<le> MAX_REPORT_SIZE"
  defines "ok \<equiv> pf_crc32 P (region d (slot_psram_addr idx) (unat (sl_total_size (rep_at d idx)))) = sl_crc32 (rep_at d idx)"
  obtains (ready) t where "ok" "complete_report P idx d =
      (STATUS_SUCCESS, upd_slot idx (\<lambda>x. x\<lparr>sl_upstream_ready := True, sl_idle_timeout := t x\<rparr>) d)"
  | (freed) "\<not> ok" "complete_report P idx d = (STATUS_CRC_FAIL, report_slot_free idx NO_SENDER d)"
proof -
  have "slot_psram_addr idx + unat (sl_total_size (rep_at d idx)) \<le> PSRAM_SIZE"
    using rep_mem.inside[OF assms(3)] assms(5) by linarith
  note crc = crc_stages_whole_lib[OF assms(1,2) _ assms(4) this, of CRC_VERIFY_STAGE_SIZE 0]
  show thesis
  proof (cases ok)
    case True
    then show ?thesis using crc by (intro ready) (simp_all add: complete_report_def ok_def)
  next
    case False
    then show ?thesis using crc by (intro freed) (simp_all add: complete_report_def ok_def)
  qed
qed

text \<open>
  Once all chunks of a report are there, the checksum of its stored bytes alone decides. If it
  is the announced one, the report becomes ready for upstream; otherwise its slot is freed and the
  sender is told CRC_FAIL. No other slot and no stored byte changes either way.
\<close>

theorem report_crc_decides:
  assumes "psram_up P d" "crc32_ok P" "dev_wf d" "idx < DATA_SLOT_COUNT" "0 < unat (sl_total_size (rep_at d idx))"
  defines "r \<equiv> complete_report P idx d" and "len \<equiv> unat (sl_total_size (rep_at d idx))"
  shows "(if pf_crc32 P (region d (slot_psram_addr idx) len) = sl_crc32 (rep_at d idx)
      then fst r = STATUS_SUCCESS \<and> sl_upstream_ready (rep_at (snd r) idx) \<and> sl_active (rep_at (snd r) idx) = sl_active (rep_at d idx)
      else fst r = STATUS_CRC_FAIL \<and> \<not> sl_active (rep_at (snd r) idx) \<and> \<not> sl_upstream_ready (rep_at (snd r) idx)) \<and>
    (\<forall>j. j \<noteq> idx \<longrightarrow> rep_at (snd r) j = rep_at d j) \<and> (\<forall>a n. region (snd r) a n = region d a n)"
proof -
  have l: "idx < length (rep_slots d)" using rep_len[OF assms(3)] assms(4) by simp
  have free: "\<not> sl_active (rep_at (report_slot_free idx NO_SENDER d) idx)"
    "\<not> sl_upstream_ready (rep_at (report_slot_free idx NO_SENDER d) idx)"
    "\<forall>j. j \<noteq> idx \<longrightarrow> rep_at (report_slot_free idx NO_SENDER d) j = rep_at d j"
    using l by (auto simp: report_slot_free_def update_report_count_def upd_slot_def Let_def)
  have "unat (sl_total_size (rep_at d idx)) \<le> MAX_REPORT_SIZE" using rep_at_ok[OF assms(3,4)] by (simp add: slot_ok_def)
  from assms(1,2,4,5) this show ?thesis
  proof (cases rule: complete_report_cases)
    case (ready t)
    then show ?thesis using l by (simp add: r_def len_def)
  next
    case freed
    then show ?thesis using free by (simp add: r_def len_def)
  qed
qed

lemma rep_slots_ref: "rep_slots ref_gateway = replicate 512 (hd (rep_slots ref_gateway))"
  "hd (rep_slots ref_gateway) = rep_at ref_gateway 0"
  by (simp_all add: ref_gateway_def boot_dev_def boot_reports_def)

definition ref_full :: dev where
  "ref_full = upd_slot 0 (\<lambda>x. x\<lparr>sl_active := True, sl_total_size := 10, sl_crc32 := 1\<rparr>) ref_gateway"

lemma ref_full_ok: "psram_up ref_platform ref_full" "dev_wf ref_full" "rep_at ref_full 0 =
    (rep_at ref_gateway 0)\<lparr>sl_active := True, sl_total_size := 10, sl_crc32 := 1\<rparr>" "0 < length (rep_slots ref_full)"
proof -
  show "psram_up ref_platform ref_full" by (simp add: ref_full_def ref_gateway_def ref_psram_up)
  show "dev_wf ref_full" unfolding ref_full_def by (intro wf_intros ref_gateway_wf) (simp add: slot_ok_def)
  have "0 < length (rep_slots ref_gateway)" by (subst rep_slots_ref(1)) simp
  then show "rep_at ref_full 0 = (rep_at ref_gateway 0)\<lparr>sl_active := True, sl_total_size := 10, sl_crc32 := 1\<rparr>"
    "0 < length (rep_slots ref_full)" by (simp_all add: ref_full_def)
qed

lemma region_ref: "region ref_gateway a n = replicate n 0"
  by (rule nth_equalityI) (simp_all add: region_def get_bytes_def ref_gateway_def boot_dev_def ref_psram_def)

theorem report_crc_decides_witness: "fst (complete_report ref_platform 0 ref_full) = STATUS_CRC_FAIL"
proof -
  have "pf_crc32 ref_platform (replicate 10 0) = 0" by (simp add: ref_platform_def sum_list_replicate)
  moreover have "region ref_full a n = replicate n 0" for a n by (simp add: ref_full_def region_ref)
  ultimately show ?thesis
    using report_crc_decides[OF ref_full_ok(1) platform_okD(4)[OF ref_platform_ok] ref_full_ok(2), of 0] ref_full_ok(3) by simp
qed

section \<open>Isolation\<close>

lemma complete_report_region:
  assumes "psram_up P d" "idx < DATA_SLOT_COUNT" "unat (sl_total_size (rep_at d idx)) \<le> MAX_REPORT_SIZE" "crc32_ok P"
  shows "region (snd (complete_report P idx d)) a n = region d a n"
    "j \<noteq> idx \<Longrightarrow> rep_at (snd (complete_report P idx d)) j = rep_at d j"
proof -
  have "region (snd (complete_report P idx d)) a n = region d a n \<and>
    (j \<noteq> idx \<longrightarrow> rep_at (snd (complete_report P idx d)) j = rep_at d j)"
  proof (cases "unat (sl_total_size (rep_at d idx)) = 0")
    case True
    then show ?thesis by (simp add: complete_report_def crc_stages_0)
  next
    case False
    then have "0 < unat (sl_total_size (rep_at d idx))" by simp
    from assms(1,4,2) this assms(3) show ?thesis
      by (cases rule: complete_report_cases) simp_all
  qed
  then show "region (snd (complete_report P idx d)) a n = region d a n"
    "j \<noteq> idx \<Longrightarrow> rep_at (snd (complete_report P idx d)) j = rep_at d j" by blast+
qed

lemma validate_report_chunk_cases:
  fixes P :: platform and d :: dev and pkt :: report_chunk
  assumes "psram_up P d" "dev_wf d" "crc32_ok P"
  defines "c \<equiv> unat (rpc_chunk_index pkt)"
  obtains (same) "snd (validate_report_chunk P pkt d) = d" | (bad) "snd (validate_report_chunk P pkt d) = fault d"
  | (stored) idx bs g where "find_slot (rpc_gen_device_id pkt) (rpc_data_id pkt) d = Some idx"
    "c < unat (sl_chunk_count (rep_at d idx))" "bs = take (if Suc c = unat (sl_chunk_count (rep_at d idx))
       then unat (sl_last_chunk_size (rep_at d idx)) else SEND_DATA_MAX) (rpc_data pkt)"
    "\<And>x. sl_total_size (g x) = sl_total_size x"
    "snd (validate_report_chunk P pkt d) \<in> (let e = upd_slot idx g (snd (d_psram_write P (slot_psram_addr idx + c * SEND_DATA_MAX) bs d))
       in {snd (d_psram_write P (slot_psram_addr idx + c * SEND_DATA_MAX) bs d), e, snd (complete_report P idx e)})"
proof (cases "find_slot (rpc_gen_device_id pkt) (rpc_data_id pkt) d")
  case None
  then show ?thesis by (intro same) (simp add: validate_report_chunk_def)
next
  case (Some idx)
  let ?x = "rep_at d idx"
  let ?csz = "if int c = int (unat (sl_chunk_count ?x)) - 1 then unat (sl_last_chunk_size ?x) else SEND_DATA_MAX"
  let ?w = "d_psram_write P (slot_psram_addr idx + c * SEND_DATA_MAX) (take ?csz (rpc_data pkt)) d"
  let ?g = "\<lambda>x. x\<lparr>sl_received := (sl_received x)[c := True], sl_received_count := sl_received_count x + 1,
     sl_idle_timeout := nbtimeout_start (dv_now d) (sl_idle_timeout x)\<rparr>"
  have e: "?csz = (if Suc c = unat (sl_chunk_count ?x) then unat (sl_last_chunk_size ?x) else SEND_DATA_MAX)"
    by (simp only: int_pred_eq)
  show ?thesis
  proof (cases "sl_chunk_count ?x \<le> rpc_chunk_index pkt \<or> sl_received ?x ! c")
    case True
    then show ?thesis using Some by (intro same) (auto simp: validate_report_chunk_def Let_def c_def)
  next
    case took: False
    show ?thesis
    proof (cases "SEND_DATA_MAX < ?csz")
      case True
      then show ?thesis using Some took by (intro bad) (simp add: validate_report_chunk_def Let_def c_def del: of_nat_unat)
    next
      case False
      then have "snd (validate_report_chunk P pkt d) = (if fst ?w \<noteq> 0 then snd ?w else
          (let e = upd_slot idx ?g (snd ?w) in if sl_received_count (rep_at e idx) = sl_chunk_count (rep_at e idx)
             then snd (complete_report P idx e) else e))"
        using Some took by (simp add: validate_report_chunk_def Let_def split_beta c_def del: of_nat_unat)
      then show ?thesis using Some took unfolding e
        by (intro stored[of idx _ ?g]) (auto simp: c_def Let_def not_le word_less_nat_alt)
    qed
  qed
qed

lemma validate_report_chunk_other:
  assumes "psram_up P d" "dev_wf d" "crc32_ok P" "find_slot (rpc_gen_device_id pkt) (rpc_data_id pkt) d \<noteq> Some j"
  shows "rep_at (snd (validate_report_chunk P pkt d)) j = rep_at d j"
  using assms(1-3)
proof (cases rule: validate_report_chunk_cases[of P d pkt])
  case (stored idx bs g)
  let ?w = "snd (d_psram_write P (slot_psram_addr idx + unat (rpc_chunk_index pkt) * SEND_DATA_MAX) bs d)"
  have idx: "idx < DATA_SLOT_COUNT" "idx \<noteq> j" using find_slotD(1)[OF stored(1) assms(2)] stored(1) assms(4) by auto
  have "unat (sl_total_size (rep_at (upd_slot idx g ?w) idx)) \<le> 256"
    using rep_at_ok[OF assms(2) idx(1)] stored(4) rep_len[OF assms(2)] idx(1) by (simp add: slot_ok_def)
  note c = complete_report_region(2)[OF _ idx(1) this assms(3)]
  show ?thesis using stored(5) c[of j] idx(2) assms(1) by (auto simp: Let_def psram_write_keeps)
qed (simp_all add: fault_def)

lemma region_take_drop: "k + n \<le> m \<Longrightarrow> take n (drop k (region d a m)) = region d (a + k) n"
  by (rule nth_equalityI) (auto simp: region_def get_bytes_def add.assoc)

lemma region_drop: "k \<le> m \<Longrightarrow> drop k (region d a m) = region d (a + k) (m - k)"
  using region_take_drop[of k "m - k" m d a] by (simp add: region_def)

text \<open>
  C20: Reports disturb each other only where the code fails to check a size. Whatever a chunk packet
  contains, and whether it is accepted or not, every slot other than that of the report it names keeps
  its description, and all its bytes too, except that the slot right behind the named one can lose as
  many of its first bytes as the announced chunks reach beyond 256 bytes, which are at most 104.
\<close>

theorem report_chunk_isolated:
  fixes P :: platform and d :: dev and pkt :: report_chunk and j :: nat
  assumes "psram_up P d" "dev_wf d" "crc32_ok P" "j < DATA_SLOT_COUNT"
    "find_slot (rpc_gen_device_id pkt) (rpc_data_id pkt) d \<noteq> Some j"
  defines "e \<equiv> snd (validate_report_chunk P pkt d)"
  defines "over \<equiv> (case find_slot (rpc_gen_device_id pkt) (rpc_data_id pkt) d of None \<Rightarrow> 0
    | Some idx \<Rightarrow> if j = Suc idx then (unat (sl_chunk_count (rep_at d idx)) - 1) * SEND_DATA_MAX +
        unat (sl_last_chunk_size (rep_at d idx)) - MAX_REPORT_SIZE else 0)"
  shows "rep_at e j = rep_at d j \<and> over \<le> 104 \<and>
    drop over (region e (slot_psram_addr j) MAX_REPORT_SIZE) = drop over (region d (slot_psram_addr j) MAX_REPORT_SIZE)"
proof -
  have over: "over \<le> 104"
  proof (cases "find_slot (rpc_gen_device_id pkt) (rpc_data_id pkt) d")
    case (Some idx)
    have "unat (sl_chunk_count (rep_at d idx)) \<le> 2" "unat (sl_last_chunk_size (rep_at d idx)) \<le> 180"
      using rep_at_ok[OF assms(2) find_slotD(1)[OF Some assms(2)]] by (simp_all add: slot_ok_def)
    then have "(unat (sl_chunk_count (rep_at d idx)) - 1) * 180 + unat (sl_last_chunk_size (rep_at d idx)) \<le> 360" by linarith
    then show ?thesis using Some by (simp add: over_def) arith
  qed (simp add: over_def)
  from assms(1-3) show ?thesis
  proof (cases rule: validate_report_chunk_cases[of P d pkt])
    case same
    then show ?thesis using over by (simp add: e_def)
  next
    case bad
    then show ?thesis using over by (simp add: e_def fault_def region_def)
  next
    case (stored idx bs g)
    let ?c = "unat (rpc_chunk_index pkt)" and ?x = "rep_at d idx"
    let ?a = "slot_psram_addr idx + ?c * SEND_DATA_MAX"
    let ?w = "snd (d_psram_write P ?a bs d)"
    have idx: "idx < DATA_SLOT_COUNT" "idx \<noteq> j" using find_slotD(1)[OF stored(1) assms(2)] stored(1) assms(5) by auto
    have ok: "unat (sl_chunk_count ?x) \<le> 2" "unat (sl_last_chunk_size ?x) \<le> 180"
      using rep_at_ok[OF assms(2) idx(1)] by (simp_all add: slot_ok_def)
    have len: "length bs \<le> (if Suc ?c = unat (sl_chunk_count ?x) then unat (sl_last_chunk_size ?x) else 180)"
      unfolding stored(3) by simp
    have fits: "?c * 180 + length bs \<le> 256 \<or> ?c * 180 + length bs \<le> (unat (sl_chunk_count ?x) - 1) * 180 + unat (sl_last_chunk_size ?x)"
      "?c * 180 + length bs \<le> 360"
      using len stored(2) ok by (auto split: if_splits)
    have "?a + length bs \<le> PSRAM_SIZE" using idx(1) fits(2) by (simp add: slot_psram_addr_def)
    note keeps = region_write(2)[OF assms(1) this]
    have "region ?w (slot_psram_addr j + over) (256 - over) = region d (slot_psram_addr j + over) (256 - over)"
    proof (rule keeps)
      consider "j < idx" | "j = Suc idx" | "Suc idx < j" using idx(2) by linarith
      then show "slot_psram_addr j + over + (256 - over) \<le> ?a \<or> ?a + length bs \<le> slot_psram_addr j + over"
      proof cases
        case 2
        then show ?thesis using fits(1) stored(1) by (auto simp: slot_psram_addr_def over_def)
      qed (use over fits(2) in \<open>auto simp: slot_psram_addr_def\<close>)
    qed
    then have reg: "drop over (region ?w (slot_psram_addr j) 256) = drop over (region d (slot_psram_addr j) 256)"
      using over by (simp add: region_drop)
    have up: "psram_up P ?w" using assms(1) by (simp add: psram_write_keeps)
    have "unat (sl_total_size (rep_at (upd_slot idx g ?w) idx)) \<le> 256"
      using rep_at_ok[OF assms(2) idx(1)] stored(4) rep_len[OF assms(2)] idx(1) by (simp add: slot_ok_def)
    note c = complete_report_region[OF _ idx(1) this assms(3)]
    have "rep_at e j = rep_at d j \<and> region e (slot_psram_addr j) 256 = region ?w (slot_psram_addr j) 256"
      using stored(5) c(1)[of "slot_psram_addr j" 256] c(2)[of j] up idx(2) by (auto simp: e_def Let_def)
    then show ?thesis using reg over by simp
  qed
qed

theorem report_chunk_isolated_witness:
  "rep_at (snd (validate_report_chunk ref_platform (ref_chunk 1) ref_gateway)) 3 = rep_at ref_gateway 3"
  using report_chunk_isolated[of ref_platform ref_gateway 3 "ref_chunk 1"] ref_gateway_wf ref_report_ok(3)
    platform_okD(4)[OF ref_platform_ok] ref_psram_up[of DEVICE_TYPE_GATEWAY 1 0 ref_storage]
  by (simp add: ref_chunk_def ref_gateway_def)

text \<open>
  These bytes are overwritten: an announcement of two chunks whose last has 180 bytes is accepted
  for any total size, and its second chunk overwrites the beginning of the next slot.
\<close>

theorem report_chunk_overruns:
  assumes "psram_up P d" "dev_wf d" "crc32_ok P" "find_slot (rpc_gen_device_id pkt) (rpc_data_id pkt) d = Some idx"
    "sl_chunk_count (rep_at d idx) = 2" "sl_last_chunk_size (rep_at d idx) = 180" "\<not> sl_received (rep_at d idx) ! 1"
    "rpc_chunk_index pkt = 1" "length (rpc_data pkt) = 180"
  shows "region (snd (validate_report_chunk P pkt d)) (slot_psram_addr (Suc idx)) 104 = drop 76 (rpc_data pkt)"
proof -
  let ?w = "d_psram_write P (slot_psram_addr idx + 180) (rpc_data pkt) d"
  let ?e = "upd_slot idx (\<lambda>x. x\<lparr>sl_received := (sl_received x)[Suc 0 := True], sl_received_count := sl_received_count x + 1,
     sl_idle_timeout := nbtimeout_start (dv_now d) (sl_idle_timeout x)\<rparr>) (snd ?w)"
  have idx: "idx < DATA_SLOT_COUNT" using find_slotD(1)[OF assms(4,2)] .
  have "slot_psram_addr idx + 180 + length (rpc_data pkt) \<le> PSRAM_SIZE" using idx assms(9) by (simp add: slot_psram_addr_def)
  note w = psram_write_up[OF assms(1) this]
  have up: "psram_up P (snd ?w)" using assms(1) w by (simp add: psram_up_def)
  have "region (snd ?w) (slot_psram_addr (Suc idx)) 104 = drop 76 (rpc_data pkt)"
    unfolding w snd_conv region_def using assms(9) by (simp add: slot_psram_addr_def get_put_bytes_within)
  moreover have "unat (sl_total_size (rep_at ?e idx)) \<le> 256"
    using rep_at_ok[OF assms(2) idx] rep_len[OF assms(2)] idx by (simp add: slot_ok_def)
  note complete_report_region(1)[OF _ idx this assms(3)]
  moreover have "snd (validate_report_chunk P pkt d) = (if sl_received_count (rep_at ?e idx) = sl_chunk_count (rep_at ?e idx)
      then snd (complete_report P idx ?e) else ?e)"
  proof -
    have "\<not> (2 :: u8) \<le> 1" by (simp add: word_le_nat_alt)
    then show ?thesis using assms(4-9) w by (simp add: validate_report_chunk_def Let_def)
  qed
  ultimately show ?thesis using up by simp
qed

section \<open>From the host to the air\<close>

text \<open>The slot that a report from the host ends in announces exactly that report.\<close>

lemma fill_at_slot_announces:
  assumes "0 < unat (as_data_len r)" "unat (as_data_len r) \<le> MAX_REPORT_SIZE" "length bs = unat (as_data_len r)"
    "as_data_crc32 r = pf_crc32 P bs"
  shows "announces P (report_init_of (fill_at_slot r prio own x) now) bs"
proof -
  let ?n = "unat (as_data_len r)"
  let ?i = "report_init_of (fill_at_slot r prio own x) now"
  have chunks: "chunks_of ?i = (if ?n \<le> 180 then 1 else 2)"
  proof -
    have "(?n + 179) div 180 = (if ?n \<le> 180 then 1 else 2)" using assms(1,2) by auto
    then show ?thesis by (simp add: report_init_of_def fill_at_slot_def Let_def add.commute)
  qed
  have last: "unat (rpi_last_chunk_size ?i) = (if ?n \<le> 180 then ?n else ?n - 180)"
  proof -
    have "(if ?n mod 180 \<noteq> 0 then ?n mod 180 else 180) = (if ?n \<le> 180 then ?n else ?n - 180)"
      using assms(1,2) by (cases "?n = 180") (auto simp: mod_if)
    moreover have "unat (rpi_last_chunk_size ?i) = unat (word_of_nat (if ?n mod 180 \<noteq> 0 then ?n mod 180 else 180) :: u8)"
      by (simp add: report_init_of_def fill_at_slot_def Let_def)
    ultimately show ?thesis using assms(2) unfolding unat_of_nat by (simp split: if_splits)
  qed
  have rest: "rpi_total_size ?i = as_data_len r" "rpi_crc32 ?i = pf_crc32 P bs"
    by (simp_all add: report_init_of_def fill_at_slot_def Let_def assms(4))
  have z: "w = 0 \<longleftrightarrow> unat w = 0" for w :: "'w :: len word" by (simp add: unat_eq_zero)
  show ?thesis
    using assms(1-3) chunks last rest unfolding announces_def init_valid_def z by (auto split: if_splits)
qed

lemma store_at_report_ok:
  fixes P :: platform and d :: dev and r :: at_structure and prio :: u8 and data :: bytes and idx :: nat
  assumes "psram_up P d" "dev_wf d" "idx < DATA_SLOT_COUNT" "length data = unat (as_data_len r)" "length data \<le> MAX_REPORT_SIZE"
  defines "r' \<equiv> store_at_report P r prio data idx d"
  shows "fst r' = 0" "rep_at (snd r') idx = fill_at_slot r prio (get_device_id d) (rep_at d idx)"
    "region (snd r') (slot_psram_addr idx) (length data) = data"
    "j \<noteq> idx \<Longrightarrow> rep_at (snd r') j = rep_at d j"
    "j < DATA_SLOT_COUNT \<Longrightarrow> j \<noteq> idx \<Longrightarrow> region (snd r') (slot_psram_addr j) MAX_REPORT_SIZE = region d (slot_psram_addr j) MAX_REPORT_SIZE"
    "rep_slots (snd r') = (rep_slots d)[idx := fill_at_slot r prio (get_device_id d) (rep_at d idx)]"
proof -
  let ?d = "update_report_count prio True (upd_slot idx (fill_at_slot r prio (get_device_id d)) d)"
  have up: "psram_up P ?d" using assms(1) by simp
  note w = rep_mem.write_slot[OF up assms(3) assms(5)]
  have e: "r' = (0, snd (d_psram_write P (slot_psram_addr idx) data ?d))"
    using w(1) assms(4) by (simp add: r'_def store_at_report_def split_beta Let_def)
  have s: "rep_slots ?d = (rep_slots d)[idx := fill_at_slot r prio (get_device_id d) (rep_at d idx)]"
    by (simp add: update_report_count_def upd_slot_def)
  have l: "idx < length (rep_slots d)" using rep_len[OF assms(2)] assms(3) by simp
  show "fst r' = 0" "rep_slots (snd r') = (rep_slots d)[idx := fill_at_slot r prio (get_device_id d) (rep_at d idx)]"
    "region (snd r') (slot_psram_addr idx) (length data) = data"
    using w(2) s by (simp_all add: e)
  then show "rep_at (snd r') idx = fill_at_slot r prio (get_device_id d) (rep_at d idx)"
    "j \<noteq> idx \<Longrightarrow> rep_at (snd r') j = rep_at d j" using l by simp_all
  show "region (snd r') (slot_psram_addr j) MAX_REPORT_SIZE = region d (slot_psram_addr j) MAX_REPORT_SIZE"
    if "j < DATA_SLOT_COUNT" "j \<noteq> idx"
    using w(4)[OF that(1), of MAX_REPORT_SIZE] that(2) by (simp add: e)
qed

text \<open>The same without a working memory chip and for any checksum.\<close>

lemma store_at_report_any:
  fixes P :: platform and d :: dev and r :: at_structure and prio :: u8 and data :: bytes and idx :: nat
  assumes "dev_wf d" "idx < DATA_SLOT_COUNT"
  defines "r' \<equiv> store_at_report P r prio data idx d"
  defines "err \<equiv> fst (psram_write P (dv_psram d) (slot_psram_addr idx) (take (unat (as_data_len r)) data))"
  shows "fst r' = err" "err \<noteq> 0 \<Longrightarrow> \<not> sl_active (rep_at (snd r') idx)"
    "err = 0 \<Longrightarrow> rep_slots (snd r') = (rep_slots d)[idx := fill_at_slot r prio (get_device_id d) (rep_at d idx)]"
    "j \<noteq> idx \<Longrightarrow> rep_at (snd r') j = rep_at d j"
proof -
  let ?d = "update_report_count prio True (upd_slot idx (fill_at_slot r prio (get_device_id d)) d)"
  let ?w = "psram_write P (dv_psram d) (slot_psram_addr idx) (take (unat (as_data_len r)) data)"
  have ps: "dv_psram ?d = dv_psram d" by (simp add: update_report_count_def upd_slot_def)
  have s: "rep_slots ?d = (rep_slots d)[idx := fill_at_slot r prio (get_device_id d) (rep_at d idx)]"
    by (simp add: update_report_count_def upd_slot_def)
  have e: "r' = (if err \<noteq> 0 then (err, report_slot_free idx NO_SENDER (?d\<lparr>dv_psram := snd ?w\<rparr>)) else (0, ?d\<lparr>dv_psram := snd ?w\<rparr>))"
    unfolding r'_def store_at_report_def d_psram_write_def Let_def split_beta fst_conv snd_conv ps err_def by simp
  have l: "idx < length (rep_slots d)" using rep_len[OF assms(1)] assms(2) by simp
  show "fst r' = err" by (simp add: e)
  show "err \<noteq> 0 \<Longrightarrow> \<not> sl_active (rep_at (snd r') idx)"
    using l by (simp add: e report_slot_free_def) (simp add: upd_slot_def update_report_count_def)
  show "err = 0 \<Longrightarrow> rep_slots (snd r') = (rep_slots d)[idx := fill_at_slot r prio (get_device_id d) (rep_at d idx)]"
    by (simp add: e s)
  show "j \<noteq> idx \<Longrightarrow> rep_at (snd r') j = rep_at d j" by (simp add: e s)
qed

text \<open>
  C21: What becomes of a report from the sensor's host, on every branch. A length of zero or above 256
  is refused with EINVAL and a full table with ENOMEM, without any change. Otherwise one slot is
  filled and no other changes. When the write to the memory chip fails, the result is its error and
  the slot is free afterwards; else the result is 0 and the report is found under the own device id
  and its data id, ready to be sent, with the host's length and checksum, and it is announced to the
  next hop with sizes that describe exactly the host's bytes if the checksum is theirs. When the chip
  works the write does not fail, the slot has exactly these bytes and no other report loses any.
\<close>

theorem at_report_stored:
  fixes P :: platform and d :: dev and r :: at_structure and prio :: u8 and data :: bytes
  assumes "dev_wf d" "unat (as_data_len r) \<le> length data"
  defines "r' \<equiv> validate_at_report P r prio data d" and "bs \<equiv> take (unat (as_data_len r)) data"
  shows "if as_data_len r = 0 \<or> MAX_REPORT_SIZE < unat (as_data_len r) then r' = (- EINVAL, d)
    else if find_slot (get_device_id d) (ucast (as_data_id r)) d = None \<and> (\<forall>x\<in>set (rep_slots d). sl_active x) then r' = (- ENOMEM, d)
    else \<exists>idx<DATA_SLOT_COUNT. let err = fst (psram_write P (dv_psram d) (slot_psram_addr idx) bs); x = rep_at (snd r') idx in
      fst r' = err \<and> (\<forall>j. j \<noteq> idx \<longrightarrow> rep_at (snd r') j = rep_at d j) \<and>
      (if err \<noteq> 0 then \<not> sl_active x
       else find_slot (get_device_id d) (ucast (as_data_id r)) (snd r') = Some idx \<and> sl_upstream_ready x \<and>
         sl_total_size x = as_data_len r \<and> sl_crc32 x = as_data_crc32 r \<and>
         (as_data_crc32 r = pf_crc32 P bs \<longrightarrow> (\<forall>now. announces P (report_init_of x now) bs))) \<and>
      (psram_up P d \<longrightarrow> err = 0 \<and> region (snd r') (slot_psram_addr idx) (length bs) = bs \<and>
         (\<forall>j<DATA_SLOT_COUNT. j \<noteq> idx \<longrightarrow>
           region (snd r') (slot_psram_addr j) MAX_REPORT_SIZE = region d (slot_psram_addr j) MAX_REPORT_SIZE))"
proof -
  let ?own = "get_device_id d" and ?id = "ucast (as_data_id r) :: u8"
  let ?f = "\<lambda>x. x\<lparr>sl_is_sent := False, sl_upstream_ready := False, sl_is_transfered := False\<rparr>"
  have fill: "sl_upstream_ready (fill_at_slot r prio ?own x)" "sl_active (fill_at_slot r prio ?own x)"
    "sl_gen_device_id (fill_at_slot r prio ?own x) = ?own" "sl_data_id (fill_at_slot r prio ?own x) = ?id"
    "sl_total_size (fill_at_slot r prio ?own x) = as_data_len r" "sl_crc32 (fill_at_slot r prio ?own x) = as_data_crc32 r" for x
    by (simp_all add: fill_at_slot_def Let_def)
  have len: "length bs = unat (as_data_len r)" using assms(2) by (simp add: bs_def)
  consider (bad) "as_data_len r = 0 \<or> MAX_REPORT_SIZE < unat (as_data_len r)"
    | (full) "\<not> (as_data_len r = 0 \<or> MAX_REPORT_SIZE < unat (as_data_len r))" "find_slot ?own ?id d = None"
        "find_idx (\<lambda>x. \<not> sl_active x) (rep_slots d) = None"
    | (store) idx e where "\<not> (as_data_len r = 0 \<or> MAX_REPORT_SIZE < unat (as_data_len r))"
        "\<not> (find_slot ?own ?id d = None \<and> (\<forall>x\<in>set (rep_slots d). sl_active x))" "r' = store_at_report P r prio data idx e"
        "idx < DATA_SLOT_COUNT" "dev_wf e" "dv_psram e = dv_psram d" "get_device_id e = ?own" "\<And>j. j \<noteq> idx \<Longrightarrow> rep_at e j = rep_at d j"
        "\<And>y. sl_active y \<Longrightarrow> sl_gen_device_id y = ?own \<Longrightarrow> sl_data_id y = ?id \<Longrightarrow>
           find_idx (\<lambda>x. sl_active x \<and> sl_gen_device_id x = ?own \<and> sl_data_id x = ?id) ((rep_slots e)[idx := y]) = Some idx"
  proof (cases "as_data_len r = 0 \<or> MAX_REPORT_SIZE < unat (as_data_len r)")
    case ok: False
    show ?thesis
    proof (cases "find_slot ?own ?id d")
      case (Some idx)
      have "find_idx (\<lambda>x. sl_active x \<and> sl_gen_device_id x = ?own \<and> sl_data_id x = ?id) ((rep_slots d)[idx := y]) = Some idx"
        if "sl_active y" "sl_gen_device_id y = ?own" "sl_data_id y = ?id" for y
        using find_slotD(2-4)[OF Some assms(1)] Some that by (subst find_idx_update) (simp_all add: find_slot_def)
      then show ?thesis
        using store[of idx d] Some ok find_slotD(1)[OF Some assms(1)] assms(1) by (simp add: r'_def validate_at_report_def)
    next
      case None
      show ?thesis
      proof (cases "find_idx (\<lambda>x. \<not> sl_active x) (rep_slots d)")
        case (Some idx)
        have l: "idx < length (rep_slots d)" "idx < DATA_SLOT_COUNT"
          using find_idx_less[OF Some] rep_len[OF assms(1)] by simp_all
        have "\<not> (\<forall>x\<in>set (rep_slots d). sl_active x)" using find_idx_nth[OF Some] l nth_mem by blast
        moreover have "r' = store_at_report P r prio data idx (upd_slot idx ?f d)"
          using Some None ok by (simp add: r'_def validate_at_report_def alloc_slot_def)
        moreover have "find_idx (\<lambda>x. sl_active x \<and> sl_gen_device_id x = ?own \<and> sl_data_id x = ?id)
            ((rep_slots (upd_slot idx ?f d))[idx := y]) = Some idx"
          if "sl_active y" "sl_gen_device_id y = ?own" "sl_data_id y = ?id" for y
          using None[unfolded find_slot_def] l that by (simp add: upd_slot_def find_idx_new)
        moreover have "dev_wf (upd_slot idx ?f d)" using upd_slot_wf[OF assms(1), of ?f] by (simp add: slot_ok_def)
        moreover have "dv_psram (upd_slot idx ?f d) = dv_psram d" "get_device_id (upd_slot idx ?f d) = ?own"
          by (simp_all add: upd_slot_def)
        ultimately show ?thesis using store[of idx "upd_slot idx ?f d"] ok l by simp
      qed (use full ok None in blast)
    qed
  qed (use bad in blast)
  then show ?thesis
  proof cases
    case bad
    then show ?thesis by (simp add: r'_def validate_at_report_def)
  next
    case full
    then have "r' = (- ENOMEM, d)" by (simp add: r'_def validate_at_report_def alloc_slot_def)
    then show ?thesis using full by (simp add: find_idx_None_iff)
  next
    case (store idx e)
    let ?err = "fst (psram_write P (dv_psram d) (slot_psram_addr idx) bs)" and ?x = "rep_at (snd r') idx"
    note a = store_at_report_any[OF store(5,4), where P = P and r = r and prio = prio and data = data, folded store(3) bs_def, unfolded store(6,7)]
    have l: "idx < length (rep_slots e)" using rep_len[OF store(5)] store(4) by simp
    have ann: "announces P (report_init_of (fill_at_slot r prio ?own y) now) bs" if "as_data_crc32 r = pf_crc32 P bs" for y now
      using store(1) len that by (intro fill_at_slot_announces) (auto simp: unat_gt_0)
    have ok: "find_slot ?own ?id (snd r') = Some idx \<and> sl_upstream_ready ?x \<and>
         sl_total_size ?x = as_data_len r \<and> sl_crc32 ?x = as_data_crc32 r \<and>
         (as_data_crc32 r = pf_crc32 P bs \<longrightarrow> (\<forall>now. announces P (report_init_of ?x now) bs))" if "?err = 0"
      using a(3)[OF that] fill ann l store(9)[OF fill(2-4)] by (simp add: find_slot_def)
    have up: "?err = 0 \<and> region (snd r') (slot_psram_addr idx) (length bs) = bs \<and>
         (\<forall>j<DATA_SLOT_COUNT. j \<noteq> idx \<longrightarrow>
           region (snd r') (slot_psram_addr j) MAX_REPORT_SIZE = region d (slot_psram_addr j) MAX_REPORT_SIZE)" if "psram_up P d"
    proof -
      have e: "psram_up P e" "region e b n = region d b n" for b n
        using that store(6) by (simp_all add: psram_up_def region_def)
      have "store_at_report P r prio data idx e = store_at_report P r prio bs idx e"
        by (simp add: store_at_report_def bs_def)
      note s = store_at_report_ok[OF e(1) store(5,4) len, where prio = prio, folded this, folded store(3)]
      have "length bs \<le> MAX_REPORT_SIZE" using store(1) len by simp
      then show ?thesis using s(1,3,5) a(1) e(2) by simp
    qed
    show ?thesis using store(1,2,4,8) a(1,2) a(4) ok up by (simp only: if_False Let_def) (rule exI[of _ idx], simp)
  qed
qed

theorem at_report_stored_witness:
  "fst (validate_at_report ref_platform \<lparr>as_device_id = 0, as_device_type = 0, as_data_id = 1, as_data_len = 3,
     as_data_crc32 = pf_crc32 ref_platform [1, 2, 3]\<rparr> 0 [1, 2, 3] ref_gateway) = 0"
proof -
  have "find_idx (\<lambda>x. \<not> sl_active x) (rep_slots ref_gateway) \<noteq> None"
    by (subst rep_slots_ref(1)) (simp add: find_idx_None_iff, simp add: ref_gateway_def boot_dev_def boot_reports_def)
  then have free: "\<not> (\<forall>x\<in>set (rep_slots ref_gateway). sl_active x)" by (simp add: find_idx_None_iff)
  show ?thesis
    using at_report_stored[of ref_gateway "\<lparr>as_device_id = 0, as_device_type = 0, as_data_id = 1,
        as_data_len = 3, as_data_crc32 = pf_crc32 ref_platform [1, 2, 3]\<rparr>" "[1, 2, 3]" ref_platform 0] ref_gateway_wf free
      ref_psram_up[of DEVICE_TYPE_GATEWAY 1 0 ref_storage, folded ref_gateway_def] by (auto simp: Let_def)
qed

section \<open>What a sender transmits\<close>

text \<open>Chunk \<open>j\<close> of sender \<open>x\<close> when the report is \<open>bs\<close>, and the state after it.\<close>

definition chunk_packet :: "report_sender \<Rightarrow> bytes \<Rightarrow> nat \<Rightarrow> report_chunk" where
  "chunk_packet x bs j = \<lparr>rpc_hdr = zero_hdr, rpc_gen_device_id = sd_gen_device_id x, rpc_data_id = sd_data_id x,
     rpc_chunk_index = word_of_nat j,
     rpc_data = report_piece bs j @ replicate (SEND_DATA_MAX - length (report_piece bs j)) 0\<rparr>"

definition after_chunk :: "platform \<Rightarrow> u16 \<Rightarrow> nat \<Rightarrow> report_sender \<Rightarrow> bytes \<Rightarrow> nat \<Rightarrow> dev \<Rightarrow> dev" where
  "after_chunk P dst k x bs j d = upd_sender k (\<lambda>y. y\<lparr>sd_next_chunk := word_of_nat (Suc j)\<rparr>)
     (proc (send_report_chunk P (chunk_packet x bs j) dst (sd_priority x)) d)"

definition sender_sizes :: "report_sender \<Rightarrow> bool" where
  "sender_sizes x \<longleftrightarrow> unat (sd_total_size x) = (unat (sd_chunk_count x) - 1) * SEND_DATA_MAX + unat (sd_last_chunk_size x) \<and>
     0 < unat (sd_chunk_count x) \<and> 0 < unat (sd_last_chunk_size x) \<and> sender_ok x"

lemma after_chunk_frame:
  assumes "psram_up P d" "dev_wf d" "k < MAX_ANCHORS"
  shows "psram_up P (after_chunk P dst k x bs j d)" "dev_wf (after_chunk P dst k x bs j d)"
    "PSRAM_TRACKER_SIZE \<le> a \<Longrightarrow> region (after_chunk P dst k x bs j d) a n = region d a n"
    "sender_at (after_chunk P dst k x bs j d) k = (sender_at d k)\<lparr>sd_next_chunk := word_of_nat (Suc j)\<rparr>"
proof -
  let ?e = "snd (d_next_id d)"
  have e: "psram_up P ?e" "dev_wf ?e" using assms(1,2) tx_frame_wf[OF tx_frame_next_id] by simp_all
  show wf: "dev_wf (after_chunk P dst k x bs j d)"
    unfolding after_chunk_def by (intro wf_intros; (rule assms)?) (simp add: sender_ok_def)
  show "psram_up P (after_chunk P dst k x bs j d)"
    using send_tracked_region(2)[OF e order_refl] by (simp add: after_chunk_def proc_def send_report_chunk_def split_beta Let_def)
  show "region (after_chunk P dst k x bs j d) a n = region d a n" if "PSRAM_TRACKER_SIZE \<le> a"
    using send_tracked_region(1)[OF e that] by (simp add: after_chunk_def proc_def send_report_chunk_def split_beta Let_def)
  have "dv_reports (proc (send_report_chunk P p dst q) d) = dv_reports d" for p q
    using tx_frame_data_procs(4)[of d P p dst q] by (simp add: tx_frame_def)
  then show "sender_at (after_chunk P dst k x bs j d) k = (sender_at d k)\<lparr>sd_next_chunk := word_of_nat (Suc j)\<rparr>"
    using assms(2,3) by (simp add: after_chunk_def upd_sender_def dev_wf_def reports_wf_def)
qed

lemma send_chunks_packets:
  assumes "psram_up P e" "dev_wf e" "k < MAX_ANCHORS" "sender_at e k = x\<lparr>sd_next_chunk := word_of_nat j\<rparr>" "sender_sizes x"
    "region e (slot_psram_addr 0) (unat (sd_total_size x)) = bs" "j + n = unat (sd_chunk_count x)"
  shows "send_chunks P dst k n e = (0, fold (after_chunk P dst k x bs) [j..<j + n] e)"
  using assms
proof (induction n arbitrary: e j)
  case (Suc n)
  have c: "unat (sd_chunk_count x) \<le> 2" "unat (sd_last_chunk_size x) \<le> 180" "unat (sd_total_size x) \<le> 256"
    "unat (sd_total_size x) = (unat (sd_chunk_count x) - 1) * 180 + unat (sd_last_chunk_size x)" "0 < unat (sd_last_chunk_size x)"
    using Suc.prems(5) by (simp_all add: sender_sizes_def sender_ok_def)
  have j: "j < unat (sd_chunk_count x)" "j < 256" using Suc.prems(7) c(1) by linarith+
  have uj: "unat (word_of_nat j :: u8) = j" using j(2) by (simp add: unat_of_nat)
  let ?csz = "if Suc j = unat (sd_chunk_count x) then unat (sd_last_chunk_size x) else 180"
  have csz: "chunk_size_for (word_of_nat j) (sender_at e k) = ?csz"
    unfolding chunk_size_for_def uj Suc.prems(4) by (simp only: int_pred_eq) simp
  have "j * 180 + ?csz \<le> unat (sd_total_size x)"
    using c j mult_le_mono1[of "Suc j" "unat (sd_chunk_count x) - 1" 180] by (auto simp: not_le)
  moreover have "length bs = unat (sd_total_size x)" using Suc.prems(6) length_region by metis
  ultimately have p: "region e (slot_psram_addr 0 + j * 180) ?csz = report_piece bs j" "length (report_piece bs j) = ?csz"
  proof -
    assume l: "j * 180 + ?csz \<le> unat (sd_total_size x)" "length bs = unat (sd_total_size x)"
    have "report_piece bs j = take ?csz (drop (j * 180) bs)"
    proof (cases "Suc j = unat (sd_chunk_count x)")
      case True
      then have "unat (sd_chunk_count x) - 1 = j" by simp
      then have "length bs = j * 180 + unat (sd_last_chunk_size x)" using l(2) c(4) by simp
      then show ?thesis using True c(2) by (simp add: report_piece_def mult.commute)
    qed (simp add: report_piece_def mult.commute)
    also have "\<dots> = region e (slot_psram_addr 0 + j * 180) ?csz"
      using region_take_drop[OF l(1), of e "slot_psram_addr 0"] unfolding Suc.prems(6) .
    finally have eq: "report_piece bs j = region e (slot_psram_addr 0 + j * 180) ?csz" .
    show "region e (slot_psram_addr 0 + j * 180) ?csz = report_piece bs j" by (rule eq[symmetric])
    show "length (report_piece bs j) = ?csz" unfolding eq by (rule length_region)
  qed
  have "slot_psram_addr 0 + j * 180 + ?csz \<le> PSRAM_SIZE" "?csz \<le> 180"
    using j(1) c(1,2) by (simp_all add: slot_psram_addr_def)
  note rd = psram_read_up[OF Suc.prems(1) this]
  have one: "send_one_chunk P dst k (word_of_nat j) e =
      (0, proc (send_report_chunk P (chunk_packet x bs j) dst (sd_priority x)) e)"
    unfolding send_one_chunk_def Let_def uj csz rd p(1) chunk_packet_def p(2) by (simp add: Suc.prems(4))
  have lt: "\<not> sd_chunk_count x \<le> word_of_nat j" using j(1) uj by (simp add: word_le_nat_alt)
  have "sd_next_chunk (sender_at e k) = word_of_nat j" "sd_chunk_count (sender_at e k) = sd_chunk_count x"
    using Suc.prems(4) by simp_all
  then have "send_chunks P dst k (Suc n) e = send_chunks P dst k n (after_chunk P dst k x bs j e)"
    using one lt by (simp add: after_chunk_def add.commute)
  also have "\<dots> = (0, fold (after_chunk P dst k x bs) [Suc j..<Suc j + n] (after_chunk P dst k x bs j e))"
    using Suc.prems after_chunk_frame[OF Suc.prems(1-3), where dst = dst and x = x and bs = bs and j = j]
    by (intro Suc.IH) (simp_all add: slot_psram_addr_def)
  also have "\<dots> = (0, fold (after_chunk P dst k x bs) [j..<j + Suc n] e)"
    using upt_conv_Cons[of j "j + Suc n"] by (simp del: upt_Suc)
  finally show ?case .
qed simp

lemma send_next_chunk_lib:
  assumes "psram_up P d" "dev_wf d" "k < MAX_ANCHORS" "sd_next_chunk (sender_at d k) = 0" "sender_sizes (sender_at d k)"
  shows "send_next_chunk P dst k d = (0, fold (after_chunk P dst k (sender_at d k)
      (region d (slot_psram_addr 0) (unat (sd_total_size (sender_at d k))))) [0..<unat (sd_chunk_count (sender_at d k))] d)"
proof -
  let ?x = "sender_at d k"
  have s: "unat (sd_total_size ?x) = (unat (sd_chunk_count ?x) - 1) * 180 + unat (sd_last_chunk_size ?x)"
    "0 < unat (sd_chunk_count ?x)" "0 < unat (sd_last_chunk_size ?x)" "unat (sd_last_chunk_size ?x) \<le> 180"
    using assms(5) by (simp_all add: sender_sizes_def sender_ok_def)
  have "(unat (sd_total_size ?x) + 179) div 180 = unat (sd_chunk_count ?x)"
    using s by (intro div_nat_eqI) (simp_all add: algebra_simps)
  then have "send_next_chunk P dst k d = send_chunks P dst k (unat (sd_chunk_count ?x)) d"
    by (simp add: send_next_chunk_def add.commute)
  also have "\<dots> = (0, fold (after_chunk P dst k ?x (region d (slot_psram_addr 0) (unat (sd_total_size ?x))))
      [0..<0 + unat (sd_chunk_count ?x)] d)"
  proof (rule send_chunks_packets)
    show "?x = ?x\<lparr>sd_next_chunk := word_of_nat 0\<rparr>" by (rule report_sender.equality) (simp_all add: assms(4))
  qed (simp_all add: assms)
  finally show ?thesis by simp
qed

text \<open>
  C23: A sender with consistent sizes transmits exactly the chunks of one report, in order, each
  packet padded with zeros and counted in \<open>next_chunk\<close>, and nothing else happens to the node. The
  bytes are those at the address of slot 0: a report that waits in another slot is not what is sent.
\<close>

theorem send_next_chunk_packets:
  assumes "psram_up P d" "dev_wf d" "k < MAX_ANCHORS" "sd_next_chunk (sender_at d k) = 0" "sender_sizes (sender_at d k)"
  shows "send_next_chunk P dst k d = (0, fold (after_chunk P dst k (sender_at d k)
      (region d (slot_psram_addr 0) (unat (sd_total_size (sender_at d k))))) [0..<unat (sd_chunk_count (sender_at d k))] d)"
  using assms by (rule send_next_chunk_lib)

theorem send_next_chunk_packets_witness:
  "fst (send_next_chunk ref_platform 5 0 (upd_sender 0 (\<lambda>x. x\<lparr>sd_next_chunk := 0, sd_total_size := 10,
     sd_chunk_count := 1, sd_last_chunk_size := 10\<rparr>) ref_gateway)) = 0"
proof -
  let ?f = "\<lambda>x. x\<lparr>sd_next_chunk := 0, sd_total_size := 10, sd_chunk_count := 1, sd_last_chunk_size := 10\<rparr>"
  let ?d = "upd_sender 0 ?f ref_gateway"
  have "dev_wf ?d" using upd_sender_wf[OF ref_gateway_wf, of ?f 0] by (simp add: sender_ok_def)
  moreover have "psram_up ref_platform ?d" by (simp add: ref_gateway_def ref_psram_up)
  moreover have "0 < length (rep_senders ref_gateway)" using ref_gateway_wf by (simp add: dev_wf_def reports_wf_def)
  then have "sender_at ?d 0 = ?f (sender_at ref_gateway 0)" by (simp add: upd_sender_def)
  ultimately show ?thesis
    using send_next_chunk_packets[of ref_platform ?d 0 5] by (simp add: sender_sizes_def sender_ok_def)
qed

end
