(* ===== verification/Large_Props.thy ===== *)
theory Large_Props
  imports Report_Props
begin

text \<open>
  Properties of the large-data transfer (src/large_data.c): the page allocator is first fit, pages
  are never shared between transfers, and a transfer is reassembled from chunks in any order.
\<close>

section \<open>The page allocator\<close>

definition pages_needed :: "nat \<Rightarrow> nat" where
  "pages_needed sz = max 1 ((sz + (LARGE_DATA_PAGE_SIZE - 1)) div LARGE_DATA_PAGE_SIZE)"

definition free_run :: "bool list \<Rightarrow> nat \<Rightarrow> nat \<Rightarrow> bool" where
  "free_run ps s n \<longleftrightarrow> s + n \<le> length ps \<and> (\<forall>j. s \<le> j \<and> j < s + n \<longrightarrow> ps ! j)"

lemma pages_needed_le: "sz \<le> Suc k * LARGE_DATA_PAGE_SIZE \<longleftrightarrow> pages_needed sz \<le> Suc k"
  unfolding pages_needed_def by (auto simp: less_Suc_eq_le[symmetric] div_less_iff_less_mult)

lemma find_pages_from:
  assumes "avail \<le> i" "i \<le> length ps" "\<forall>j. i - avail \<le> j \<and> j < i \<longrightarrow> ps ! j" "avail < pages_needed sz"
    "\<forall>s. free_run ps s (pages_needed sz) \<longrightarrow> i - avail \<le> s"
  shows "find_pages sz (drop i ps) i avail =
    (if \<exists>s. free_run ps s (pages_needed sz) then Some (LEAST s. free_run ps s (pages_needed sz), pages_needed sz) else None)"
  using assms
proof (induction "length ps - i" arbitrary: i avail)
  case 0
  then have "i = length ps" by simp
  moreover have "\<not> free_run ps s (pages_needed sz)" for s
  proof
    assume f: "free_run ps s (pages_needed sz)"
    then have "length ps - avail \<le> s" using "0.prems"(5) \<open>i = length ps\<close> by blast
    moreover have "s + pages_needed sz \<le> length ps" using f by (simp add: free_run_def)
    ultimately show False using "0.prems"(1,4) \<open>i = length ps\<close> by linarith
  qed
  ultimately show ?case by simp
next
  case (Suc m)
  then have i: "i < length ps" by simp
  then have d: "drop i ps = ps ! i # drop (Suc i) ps" by (simp add: Cons_nth_drop_Suc)
  show ?case
  proof (cases "ps ! i")
    case False
    have "Suc i \<le> s" if f: "free_run ps s (pages_needed sz)" for s
    proof (rule ccontr)
      assume "\<not> Suc i \<le> s"
      moreover have "i - avail \<le> s" using Suc.prems(5) f by blast
      ultimately have "s \<le> i" "i < s + pages_needed sz" using Suc.prems(1,4) by simp_all
      then show False using f False by (simp add: free_run_def)
    qed
    moreover have "0 < pages_needed sz" by (simp add: pages_needed_def)
    ultimately have "find_pages sz (drop (Suc i) ps) (Suc i) 0 =
        (if \<exists>s. free_run ps s (pages_needed sz) then Some (LEAST s. free_run ps s (pages_needed sz), pages_needed sz) else None)"
      using Suc(2) i by (intro Suc.hyps(1)) auto
    then show ?thesis using False d by simp
  next
    case True
    have run: "ps ! j" if "i - avail \<le> j" "j < Suc i" for j
      using Suc.prems(3) True that by (cases "j = i") auto
    show ?thesis
    proof (cases "pages_needed sz \<le> Suc avail")
      case enough: True
      then have n: "pages_needed sz = Suc avail" using Suc.prems(4) by simp
      have f: "free_run ps (i - avail) (pages_needed sz)"
        using run i Suc.prems(1) unfolding free_run_def n by auto
      then have "(LEAST s. free_run ps s (pages_needed sz)) = i - avail"
        using Suc.prems(5) by (intro Least_equality) auto
      moreover have "sz \<le> (avail + 1) * LARGE_DATA_PAGE_SIZE" using enough pages_needed_le[of sz avail] by simp
      ultimately show ?thesis using True d f n by auto
    next
      case False
      have "find_pages sz (drop (Suc i) ps) (Suc i) (Suc avail) =
        (if \<exists>s. free_run ps s (pages_needed sz) then Some (LEAST s. free_run ps s (pages_needed sz), pages_needed sz) else None)"
        using Suc(2) i run False Suc.prems(1,5) by (intro Suc.hyps(1)) auto
      moreover have "\<not> sz \<le> (avail + 1) * LARGE_DATA_PAGE_SIZE" using False pages_needed_le[of sz avail] by simp
      ultimately show ?thesis using True d by simp
    qed
  qed
qed

lemma find_pages_least:
  "find_pages sz ps 0 0 = (if \<exists>s. free_run ps s (pages_needed sz)
     then Some (LEAST s. free_run ps s (pages_needed sz), pages_needed sz) else None)"
  using find_pages_from[of 0 0 ps sz] by (simp add: pages_needed_def)

text \<open>
  C24: The allocator is first fit: it finds the lowest run of free pages that holds the transfer,
  takes exactly as many pages as the size needs, and fails only if there is no such run.
\<close>

theorem find_pages_first_fit:
  "find_pages sz ps 0 0 = (if \<exists>s. free_run ps s (pages_needed sz)
     then Some (LEAST s. free_run ps s (pages_needed sz), pages_needed sz) else None)"
  by (rule find_pages_least)

section \<open>Pages belong to one transfer\<close>

definition owns :: "large_slot \<Rightarrow> nat set" where
  "owns x = {slot_start x..<slot_start x + slot_page_count x}"

definition holds_page :: "large_data \<Rightarrow> nat \<Rightarrow> nat \<Rightarrow> bool" where
  "holds_page l i p \<longleftrightarrow> lg_active (ld_slots l ! i) \<and> p \<in> owns (ld_slots l ! i)"

text \<open>
  The address of an active slot is that of its first page, its pages lie in the partition, no page
  belongs to two slots, and a page is free iff it belongs to none.
\<close>

definition pages_ok :: "large_data \<Rightarrow> bool" where
  "pages_ok l \<longleftrightarrow>
     (\<forall>x\<in>set (ld_slots l). lg_active x \<longrightarrow> lg_base_addr x = page_addr (slot_start x) \<and>
        slot_start x + slot_page_count x \<le> LARGE_DATA_MAX_PAGE_COUNT) \<and>
     (\<forall>i<length (ld_slots l). \<forall>j<length (ld_slots l). \<forall>p. holds_page l i p \<longrightarrow> holds_page l j p \<longrightarrow> i = j) \<and>
     (\<forall>p<LARGE_DATA_MAX_PAGE_COUNT. ld_page_empty l ! p \<longleftrightarrow> \<not> (\<exists>i<length (ld_slots l). holds_page l i p))"

definition page_key :: "large_slot \<Rightarrow> bool \<times> u32 \<times> u32" where
  "page_key x = (lg_active x, lg_base_addr x, lg_total_size x)"

lemma pages_ok_cong:
  assumes "ld_page_empty l' = ld_page_empty l" "map page_key (ld_slots l') = map page_key (ld_slots l)"
  shows "pages_ok l' = pages_ok l"
proof -
  have len: "length (ld_slots l') = length (ld_slots l)" using assms(2) map_eq_imp_length_eq by blast
  have k: "page_key (ld_slots l' ! i) = page_key (ld_slots l ! i)" if "i < length (ld_slots l)" for i
    using assms(2) that len by (metis nth_map)
  have s: "slot_start (ld_slots l' ! i) = slot_start (ld_slots l ! i)"
    "slot_page_count (ld_slots l' ! i) = slot_page_count (ld_slots l ! i)"
    "lg_active (ld_slots l' ! i) = lg_active (ld_slots l ! i)"
    "lg_base_addr (ld_slots l' ! i) = lg_base_addr (ld_slots l ! i)" if "i < length (ld_slots l)" for i
    using k[OF that] by (simp_all add: page_key_def slot_start_def slot_page_count_def)
  then have h: "holds_page l' i p = holds_page l i p" if "i < length (ld_slots l)" for i p
    using that by (simp add: holds_page_def owns_def)
  show ?thesis unfolding pages_ok_def all_set_conv_all_nth len assms(1) using s h by simp
qed

lemma pages_upd_lg:
  assumes "\<And>x. page_key (f x) = page_key x"
  shows "pages_ok (dv_large (upd_lg i f d)) = pages_ok (dv_large d)"
proof (rule pages_ok_cong)
  show "map page_key (ld_slots (dv_large (upd_lg i f d))) = map page_key (lg_slots d)"
    using assms by (simp add: upd_lg_def upd_large_def map_update) (metis list_update_id map_update)
qed (simp add: upd_lg_def upd_large_def)

lemma pages_frames [simp]:
  "pages_ok (dv_large (upd_lt k g d)) = pages_ok (dv_large d)" "pages_ok (dv_large (set_ld_busy b d)) = pages_ok (dv_large d)"
  "pages_ok (dv_large (free_large_sender k d)) = pages_ok (dv_large d)"
  "pages_ok (dv_large (restart_large_timeout k d)) = pages_ok (dv_large d)"
  "pages_ok (dv_large (set_ld_caches c e d)) = pages_ok (dv_large d)"
  "pages_ok (dv_large (start_idle_timeout i d)) = pages_ok (dv_large d)"
  "pages_ok (dv_large (fault d)) = pages_ok (dv_large d)"
proof -
  show "pages_ok (dv_large (start_idle_timeout i d)) = pages_ok (dv_large d)"
    unfolding start_idle_timeout_def by (rule pages_upd_lg) (simp add: page_key_def)
qed (rule pages_ok_cong; simp add: upd_lt_def upd_large_def set_ld_busy_def free_large_sender_def
      restart_large_timeout_def set_ld_caches_def fault_def)+

lemma large_pages_count:
  assumes "0 < unat sz" "unat (sz :: u32) \<le> LARGE_DATA_MAX_TRANSFER_SIZE"
  shows "unat (ucast ((sz + word_of_nat LARGE_DATA_PAGE_SIZE - 1) div word_of_nat LARGE_DATA_PAGE_SIZE) :: u16) = pages_needed (unat sz)"
proof -
  have e: "unat (sz + 5759) = unat sz + 5759" using assms by (simp add: unat_word_ariths(1))
  have "unat ((sz + 5759) div 5760) = (unat sz + 5759) div 5760" by (simp add: unat_div_distrib e)
  moreover have "1 \<le> (unat sz + 5759) div 5760" "(unat sz + 5759) div 5760 < 65536" using assms by (simp_all add: Suc_le_eq div_greater_zero_iff)
  ultimately have "unat (ucast ((sz + 5759) div 5760) :: u16) = pages_needed (unat sz)"
    by (simp add: unsigned_ucast_eq take_bit_eq_mod pages_needed_def max_def)
  then show ?thesis by (simp add: add.commute)
qed

lemma slot_start_page_addr:
  assumes "lg_base_addr x = page_addr s" "s < LARGE_DATA_MAX_PAGE_COUNT"
  shows "slot_start x = s"
proof -
  have "page_addr s - word_of_nat PSRAM_LARGE_DATA_BASE = word_of_nat (s * 5760)"
    unfolding page_addr_def by simp
  then have "unat (page_addr s - word_of_nat PSRAM_LARGE_DATA_BASE) = s * 5760"
    using assms(2) by (simp only: unat_of_nat) simp
  then have "unat ((page_addr s - word_of_nat PSRAM_LARGE_DATA_BASE) div 5760) = s"
    by (simp only: unat_div_distrib) simp
  then show ?thesis using assms by (simp add: slot_start_def unsigned_ucast_eq take_bit_eq_mod)
qed

lemma mark_pages_nth [simp]:
  "p < length ps \<Longrightarrow> mark_pages e s n ps ! p = (if s \<le> p \<and> p < s + n then e else ps ! p)"
  "length (mark_pages e s n ps) = length ps"
  by (simp_all add: mark_pages_def)

text \<open>Slot \<open>i\<close> changes and with it the pages \<open>A\<close>, which become free or taken.\<close>

lemma pages_ok_update:
  assumes "pages_ok l" "i < length (ld_slots l)" "length (ld_page_empty l) = LARGE_DATA_MAX_PAGE_COUNT"
    "ld_slots l' = (ld_slots l)[i := x]"
    "lg_active x \<Longrightarrow> lg_base_addr x = page_addr (slot_start x) \<and> slot_start x + slot_page_count x \<le> LARGE_DATA_MAX_PAGE_COUNT"
    "\<And>p. p < LARGE_DATA_MAX_PAGE_COUNT \<Longrightarrow> lg_active x \<Longrightarrow> p \<in> owns x \<Longrightarrow> ld_page_empty l ! p \<or> holds_page l i p"
    "\<And>p. p < LARGE_DATA_MAX_PAGE_COUNT \<Longrightarrow> ld_page_empty l' ! p \<longleftrightarrow>
       (ld_page_empty l ! p \<or> holds_page l i p) \<and> \<not> (lg_active x \<and> p \<in> owns x)"
  shows "pages_ok l'"
proof -
  have ok: "\<And>x. x \<in> set (ld_slots l) \<Longrightarrow> lg_active x \<Longrightarrow> lg_base_addr x = page_addr (slot_start x) \<and>
        slot_start x + slot_page_count x \<le> LARGE_DATA_MAX_PAGE_COUNT"
    "\<And>j k p. j < length (ld_slots l) \<Longrightarrow> k < length (ld_slots l) \<Longrightarrow> holds_page l j p \<Longrightarrow> holds_page l k p \<Longrightarrow> j = k"
    "\<And>p. p < LARGE_DATA_MAX_PAGE_COUNT \<Longrightarrow> ld_page_empty l ! p \<longleftrightarrow> \<not> (\<exists>j<length (ld_slots l). holds_page l j p)"
    using assms(1) unfolding pages_ok_def by blast+
  have h: "holds_page l' j p \<longleftrightarrow> (if j = i then lg_active x \<and> p \<in> owns x else holds_page l j p)" if "j < length (ld_slots l)" for j p
    using that assms(2,4) by (simp add: holds_page_def)
  have inside: "p < LARGE_DATA_MAX_PAGE_COUNT" if "lg_active x" "p \<in> owns x" for p
    using assms(5)[OF that(1)] that(2) by (simp add: owns_def)
  have new: "j = i" if "lg_active x" "p \<in> owns x" "j < length (ld_slots l)" "holds_page l j p" for j p
    using assms(6)[OF inside that(1,2)] that ok(2)[of j i p] ok(3)[OF inside[OF that(1,2)]] assms(2) by blast
  show ?thesis unfolding pages_ok_def
  proof (intro conjI ballI allI impI)
    fix y assume y: "y \<in> set (ld_slots l')" "lg_active y"
    then have "y = x \<or> y \<in> set (ld_slots l)" unfolding assms(4) using set_update_subset_insert by fastforce
    then show "lg_base_addr y = page_addr (slot_start y)" "slot_start y + slot_page_count y \<le> LARGE_DATA_MAX_PAGE_COUNT"
      using assms(5) ok(1) y(2) by blast+
  next
    fix j k p assume j: "j < length (ld_slots l')" "k < length (ld_slots l')" "holds_page l' j p" "holds_page l' k p"
    then have len: "j < length (ld_slots l)" "k < length (ld_slots l)" by (simp_all add: assms(4))
    have "j = i \<Longrightarrow> lg_active x \<and> p \<in> owns x" "j \<noteq> i \<Longrightarrow> holds_page l j p"
      "k = i \<Longrightarrow> lg_active x \<and> p \<in> owns x" "k \<noteq> i \<Longrightarrow> holds_page l k p"
      using j(3,4) h[OF len(1)] h[OF len(2)] by simp_all
    then show "j = k" using new[OF _ _ len(1)] new[OF _ _ len(2)] ok(2)[OF len] by blast
  next
    fix p assume p: "p < LARGE_DATA_MAX_PAGE_COUNT"
    have "(\<exists>j<length (ld_slots l'). holds_page l' j p) \<longleftrightarrow>
        (lg_active x \<and> p \<in> owns x) \<or> (\<exists>j<length (ld_slots l). j \<noteq> i \<and> holds_page l j p)"
    proof -
      have "length (ld_slots l') = length (ld_slots l)" "holds_page l' i p \<longleftrightarrow> lg_active x \<and> p \<in> owns x"
        "\<And>j. j < length (ld_slots l) \<Longrightarrow> j \<noteq> i \<Longrightarrow> holds_page l' j p \<longleftrightarrow> holds_page l j p"
        using h assms(2) by (simp_all add: assms(4))
      then show ?thesis using assms(2) by (metis (no_types))
    qed
    moreover have "(\<exists>j<length (ld_slots l). j \<noteq> i \<and> holds_page l j p) \<longleftrightarrow> \<not> ld_page_empty l ! p \<and> \<not> holds_page l i p"
      using ok(2)[of _ i p] ok(3)[OF p] assms(2) by blast
    ultimately show "ld_page_empty l' ! p \<longleftrightarrow> \<not> (\<exists>j<length (ld_slots l'). holds_page l' j p)"
      using assms(7)[OF p] by blast
  qed
qed

lemma lg_len: "dev_wf d \<Longrightarrow> length (lg_slots d) = LARGE_DATA_RECEIVER_SLOT_COUNT"
  "dev_wf d \<Longrightarrow> length (lg_pages d) = LARGE_DATA_MAX_PAGE_COUNT"
  by (simp_all add: dev_wf_def large_wf_def)

lemma pages_free:
  assumes "pages_ok (dv_large d)" "dev_wf d" "i < LARGE_DATA_RECEIVER_SLOT_COUNT" "lg_active (lg_at d i)"
  shows "pages_ok (dv_large (free_large_data_slot i k d))"
proof -
  let ?f = "\<lambda>x. x\<lparr>lg_active := False, lg_idle_timeout := nbtimeout_stop (lg_idle_timeout x)\<rparr>"
  let ?x = "lg_at d i"
  let ?e = "upd_large (\<lambda>l. l\<lparr>ld_page_empty := mark_pages True (slot_start ?x) (slot_page_count ?x) (ld_page_empty l)\<rparr>) (upd_lg i ?f d)"
  have i: "i < length (lg_slots d)" using lg_len(1)[OF assms(2)] assms(3) by simp
  have x: "lg_at (upd_lg i ?f d) i = ?f ?x" using i by (simp add: upd_lg_def upd_large_def)
  have s: "slot_start (?f ?x) = slot_start ?x" "slot_page_count (?f ?x) = slot_page_count ?x"
    by (simp_all add: slot_start_def slot_page_count_def)
  have "?x \<in> set (lg_slots d)" using i by simp
  then have "slot_start ?x + slot_page_count ?x \<le> 1092" using assms(1,4) by (auto simp: pages_ok_def)
  then have free: "free_large_data_slot i k d = (if k < 4 then if LARGE_DATA_SENDER_SLOT_COUNT \<le> k then fault ?e
      else free_large_sender k ?e else ?e)"
    unfolding free_large_data_slot_def Let_def x s by simp
  have "pages_ok (dv_large ?e)"
  proof (rule pages_ok_update[OF assms(1) i])
    show "ld_slots (dv_large ?e) = (lg_slots d)[i := ?f ?x]" by (simp add: upd_lg_def upd_large_def)
    show "length (lg_pages d) = LARGE_DATA_MAX_PAGE_COUNT" by (rule lg_len(2)[OF assms(2)])
    show "lg_pages ?e ! p \<longleftrightarrow> (lg_pages d ! p \<or> holds_page (dv_large d) i p) \<and> \<not> (lg_active (?f ?x) \<and> p \<in> owns (?f ?x))"
      if "p < LARGE_DATA_MAX_PAGE_COUNT" for p
      using that lg_len(2)[OF assms(2)] assms(4) by (auto simp: upd_lg_def upd_large_def holds_page_def owns_def)
  qed simp_all
  then show ?thesis unfolding free by simp
qed

lemma pages_alloc_fill:
  assumes "pages_ok (dv_large d)" "dev_wf d" "alloc_large_data_slot sz d = (Some idx, d')" "0 < sz" "sz \<le> LARGE_DATA_MAX_TRANSFER_SIZE"
    "\<And>x. lg_base_addr (f x) = lg_base_addr x" "\<And>x. unat (lg_total_size (f x)) = sz" "\<And>x. lg_active x \<Longrightarrow> lg_active (f x)"
  shows "pages_ok (dv_large (upd_lg idx f d'))" "idx < LARGE_DATA_RECEIVER_SLOT_COUNT" "dev_wf d'" "lg_active (lg_at (upd_lg idx f d') idx)"
proof -
  obtain start n where a: "find_idx (\<lambda>x. \<not> lg_active x) (lg_slots d) = Some idx" "find_pages sz (lg_pages d) 0 0 = Some (start, n)"
    "d' = upd_lg idx (\<lambda>x. x\<lparr>lg_active := True, lg_base_addr := page_addr start\<rparr>)
       (upd_large (\<lambda>l. l\<lparr>ld_page_empty := mark_pages False start n (ld_page_empty l)\<rparr>) d)"
    using assms(3) by (auto simp: alloc_large_data_slot_def split: option.splits)
  have i: "idx < length (lg_slots d)" "\<not> lg_active (lg_at d idx)" using find_idx_SomeD[OF a(1)] by auto
  show "idx < LARGE_DATA_RECEIVER_SLOT_COUNT" using i lg_len(1)[OF assms(2)] by simp
  show "dev_wf d'" using alloc_large_data_slot_wf[OF assms(2), of sz] assms(3) by simp
  have run: "free_run (lg_pages d) start n" and n: "n = pages_needed sz"
    using a(2) unfolding find_pages_least by (auto split: if_splits intro: LeastI)
  let ?x = "f ((lg_at d idx)\<lparr>lg_active := True, lg_base_addr := page_addr start\<rparr>)"
  have "0 < pages_needed sz" by (simp add: pages_needed_def)
  then have start: "start + n \<le> 1092" "start < 1092" using run lg_len(2)[OF assms(2)] n by (simp_all add: free_run_def)
  have st: "slot_start ?x = start" by (rule slot_start_page_addr) (use start assms(6) in simp_all)
  have ct: "slot_page_count ?x = n"
    unfolding slot_page_count_def n assms(7)[of "(lg_at d idx)\<lparr>lg_active := True, lg_base_addr := page_addr start\<rparr>", symmetric]
    by (rule large_pages_count) (use assms(4,5,7) in simp_all)
  show "lg_active (lg_at (upd_lg idx f d') idx)" using i assms(8) by (simp add: a(3) upd_lg_def upd_large_def)
  show "pages_ok (dv_large (upd_lg idx f d'))"
  proof (rule pages_ok_update[OF assms(1) i(1)])
    show "ld_slots (dv_large (upd_lg idx f d')) = (lg_slots d)[idx := ?x]" using i(1) by (simp add: a(3) upd_lg_def upd_large_def)
    show "length (lg_pages d) = LARGE_DATA_MAX_PAGE_COUNT" by (rule lg_len(2)[OF assms(2)])
    show "lg_base_addr ?x = page_addr (slot_start ?x) \<and> slot_start ?x + slot_page_count ?x \<le> LARGE_DATA_MAX_PAGE_COUNT"
      unfolding st ct using start(1) by (simp add: assms(6))
    show "lg_pages d ! p \<or> holds_page (dv_large d) idx p" if "p \<in> owns ?x" for p
      using that run by (simp add: owns_def st ct free_run_def)
    show "lg_pages (upd_lg idx f d') ! p \<longleftrightarrow> (lg_pages d ! p \<or> holds_page (dv_large d) idx p) \<and> \<not> (lg_active ?x \<and> p \<in> owns ?x)"
      if "p < LARGE_DATA_MAX_PAGE_COUNT" for p
      using that lg_len(2)[OF assms(2)] i(2) assms(8)
      by (simp add: a(3) upd_lg_def upd_large_def owns_def st ct holds_page_def)
  qed
qed

text \<open>What does not concern the pages.\<close>

lemma tx_frame_large: "tx_frame d d' \<Longrightarrow> dv_large d' = dv_large d"
  by (simp add: tx_frame_def)

lemmas large_tx_frames [simp] = tx_frame_data_procs[THEN tx_frame_large]

lemma large_io_frames [simp]:
  "dv_large (at_ok P d) = dv_large d" "dv_large (at_error P d) = dv_large d" "dv_large (at_send_line P s d) = dv_large d"
  "dv_large (set_at_pending_ack a d) = dv_large d" "dv_large (d_untrack t d) = dv_large d"
  by (simp_all add: at_ok_def at_error_def at_send_line_def set_at_pending_ack_def d_untrack_def proc_def fault_def Let_def)

lemma crc_stages_large [simp]: "dv_large (snd (snd (crc_stages P stage a rem first crc d))) = dv_large d"
proof (induction P stage a rem first crc d rule: crc_stages.induct)
  case (1 P stage addr rem first crc d)
  show ?case by (subst crc_stages.simps) (use 1 in \<open>auto simp: split_beta Let_def prod_eq_iff\<close>)
qed

lemma large_data_verify_large [simp]: "dv_large (snd (large_data_verify_crc32 P idx d)) = dv_large d"
  by (simp add: large_data_verify_crc32_def Let_def split_beta)

lemma lg_active_upd:
  assumes "\<And>x. lg_active (f x) = lg_active x" shows "lg_active (lg_at (upd_lg i f d) j) = lg_active (lg_at d j)"
  using assms by (cases "i < length (lg_slots d)"; cases "i = j") (auto simp: upd_lg_def upd_large_def list_update_beyond)

lemma lg_active_frames [simp]:
  "lg_active (lg_at (start_idle_timeout i d) j) = lg_active (lg_at d j)"
  "lg_active (lg_at (upd_lt k g d) j) = lg_active (lg_at d j)"
  by (simp add: start_idle_timeout_def lg_active_upd, simp add: upd_lt_def upd_large_def)

lemma find_large_active: "find_large_data_slot g i d = Some idx \<Longrightarrow> lg_active (lg_at d idx)"
  using find_idx_nth by (fastforce simp: find_large_data_slot_def)

lemma next_large_slotD:
  assumes "next_large_slot d = Some idx" "dev_wf d"
  shows "idx < LARGE_DATA_RECEIVER_SLOT_COUNT" "lg_active (lg_at d idx)"
  using find_idx_SomeD[OF assms(1)[unfolded next_large_slot_def]] lg_len(1)[OF assms(2)] by auto

abbreviation large_inv :: "dev \<Rightarrow> bool" where "large_inv d \<equiv> dev_wf d \<and> pages_ok (dv_large d)"

lemma complete_large_pages:
  assumes "large_inv d" "idx < LARGE_DATA_RECEIVER_SLOT_COUNT" "lg_active (lg_at d idx)"
  shows "pages_ok (dv_large (snd (complete_large_data P idx d)))"
proof -
  let ?e = "snd (large_data_verify_crc32 P idx d)"
  have "dev_wf ?e" using assms(1) by (intro wf_intros) simp
  then have "pages_ok (dv_large (free_large_data_slot idx NO_SENDER ?e))" using assms by (intro pages_free) simp_all
  then show ?thesis using assms(1) by (simp add: complete_large_data_def split_beta pages_upd_lg page_key_def)
qed

lemma validate_large_chunk_pages:
  assumes "large_inv d" shows "pages_ok (dv_large (snd (validate_large_data_chunk P pkt d)))"
proof (cases "find_large_data_slot (ldc_gen_device_id pkt) (ldc_data_id pkt) d")
  case (Some idx)
  note idx = find_large_slot_less[OF _ Some] find_large_active[OF Some]
  let ?step = "\<lambda>n d. upd_lg idx (mark_chunk n) (start_idle_timeout idx (upd_lg idx (\<lambda>x. x\<lparr>lg_received_count := lg_received_count x + 1\<rparr>) d))"
  have s: "pages_ok (dv_large (?step n e)) = pages_ok (dv_large e)" "lg_active (lg_at (?step n e) idx) = lg_active (lg_at e idx)"
    for n e by (simp_all add: pages_upd_lg lg_active_upd page_key_def mark_chunk_def)
  have wf: "dev_wf (?step n e)" if "dev_wf e" for n e using that by (intro wf_intros) (auto simp: large_slot_ok_def)
  have c: "pages_ok (dv_large (snd (complete_large_data P idx (?step n (snd (d_psram_write P a bs d))))))" for n a bs
  proof (rule complete_large_pages)
    show "large_inv (?step n (snd (d_psram_write P a bs d)))" unfolding s using assms by (auto intro!: wf io_wf)
    show "lg_active (lg_at (?step n (snd (d_psram_write P a bs d))) idx)" unfolding s using idx(2) by simp
  qed (use idx(1) assms in simp)
  show ?thesis using assms by (simp add: validate_large_data_chunk_def Some Let_def split_beta c s(1))
qed (use assms in \<open>simp add: validate_large_data_chunk_def\<close>)

lemma alloc_large_None: "alloc_large_data_slot sz d = (None, d') \<Longrightarrow> d' = d"
  by (auto simp: alloc_large_data_slot_def split: option.splits)

lemma validate_large_slot_pages:
  assumes "large_inv d" "ldi_total_size pkt \<noteq> 0" "unat (ldi_total_size pkt) \<le> LARGE_DATA_MAX_TRANSFER_SIZE"
  shows "pages_ok (dv_large (snd (validate_large_data_slot pkt d)))"
proof -
  have "pages_ok (dv_large (upd_lg idx (fill_large_slot pkt) d'))"
    if "alloc_large_data_slot (unat (ldi_total_size pkt)) d = (Some idx, d')" for idx d'
    using assms pages_alloc_fill(1)[OF _ _ that, of "fill_large_slot pkt"] by (simp add: fill_large_slot_def unat_gt_0)
  then show ?thesis using assms(1) by (auto simp: validate_large_data_slot_def dest: alloc_large_None split: option.split prod.split)
qed

lemma send_at_large_pages:
  assumes "large_inv d" shows "pages_ok (dv_large (snd (send_at_large_data_init P k idx d)))"
proof -
  have "pages_ok (dv_large (free_large_data_slot i k d))" if "find_large_data_slot g j d = Some i" for g i j
    using assms find_large_slot_less[OF _ that] find_large_active[OF that] by (intro pages_free) simp_all
  then show ?thesis using assms by (simp add: send_at_large_data_init_def Let_def split_beta split: option.split)
qed

lemma large_tick_pages:
  assumes "large_inv d" shows "pages_ok (dv_large (large_data_tick P d))"
proof -
  have g: "large_inv (snd (gateway_large_step P k d))" if inv: "large_inv d" for k d
  proof -
    have "pages_ok (dv_large (snd (send_at_large_data_init P k idx (upd_lt k g d))))" for idx g
      using inv upd_lt_wf[of d k g] by (intro send_at_large_pages) simp
    then have "pages_ok (dv_large (snd (gateway_large_step P k d)))"
      using inv by (simp add: gateway_large_step_def split_beta Let_def pages_upd_lg page_key_def split: option.split)
    moreover have "dev_wf (snd (gateway_large_step P k d))" using inv by (intro wf_intros) simp
    ultimately show ?thesis by blast
  qed
  have s: "large_inv (snd (large_sender_step P b k d))" if inv: "large_inv d" for b k d
  proof -
    have "pages_ok (dv_large (free_large_data_slot idx NO_SENDER d))" if "next_large_slot d = Some idx" for idx
      using inv next_large_slotD[OF that] by (intro pages_free) simp_all
    then have "pages_ok (dv_large (snd (large_sender_step P b k d)))"
      using inv by (simp add: large_sender_step_def large_sender_timeout_def start_large_def Let_def
          pages_upd_lg page_key_def split: option.split)
    moreover have "dev_wf (snd (large_sender_step P b k d))" using inv by (intro wf_intros) simp
    ultimately show ?thesis by blast
  qed
  show ?thesis
    using assms loop_steps_preserve[of large_inv "gateway_large_step P", OF g]
      loop_steps_preserve[of large_inv "large_sender_step P True", OF s]
      loop_steps_preserve[of large_inv "large_sender_step P False", OF s]
    by (simp add: large_data_tick_def gateway_large_data_tick_def anchor_large_data_tick_def sensor_large_data_tick_def
        del: loop_steps.simps)
qed

lemma large_handlers_pages:
  assumes "large_inv d"
  shows "pages_ok (dv_large (handle_large_data_init P p1 i r d))" "pages_ok (dv_large (handle_large_data_chunk P p2 i r d))"
    "pages_ok (dv_large (handle_large_data_init_ack P p3 i r d))" "pages_ok (dv_large (handle_large_data_chunk_ack P p4 i r d))"
proof -
  show "pages_ok (dv_large (handle_large_data_init P p1 i r d))"
    using assms validate_large_slot_pages[OF assms, of p1]
    by (simp add: handle_large_data_init_def large_init_invalid_def Let_def split_beta)
  show "pages_ok (dv_large (handle_large_data_chunk P p2 i r d))"
    using assms validate_large_chunk_pages[OF assms, of P p2] by (simp add: handle_large_data_chunk_def Let_def split_beta)
  have chunk: "pages_ok (dv_large (snd (send_large_chunk_at P i k n pg c e))) = pages_ok (dv_large e)" for k n pg c e
    by (simp add: send_large_chunk_at_def Let_def split_beta)
  then have window: "pages_ok (dv_large (snd (send_large_window P i k js e))) = pages_ok (dv_large e)" for k js e
    by (induction js arbitrary: e) (simp_all add: Let_def split_beta)
  have restart: "pages_ok (dv_large (restart_large k e)) = pages_ok (dv_large e)" for k e
    by (simp add: restart_large_def Let_def pages_upd_lg page_key_def split: option.split)
  have step: "pages_ok (dv_large (large_window_step P i k e)) = pages_ok (dv_large e)" for k e
    by (simp add: large_window_step_def send_next_large_data_chunk_def Let_def split_beta window restart)
  show "pages_ok (dv_large (handle_large_data_init_ack P p3 i r d))"
    using assms by (simp add: handle_large_data_init_ack_def large_init_answer_def send_next_large_data_chunk_def
        window Let_def proc_def[of "send_large_window P i k js" for k js] pages_upd_lg page_key_def split: option.split)
  show "pages_ok (dv_large (handle_large_data_chunk_ack P p4 i r d))"
    using assms by (simp add: handle_large_data_chunk_ack_def large_chunk_answer_def resend_large_data_chunk_def
        chunk step restart Let_def split_beta pages_upd_lg page_key_def split: option.split)
qed

lemma at_send_next_pages [simp]: "dv_large (snd (at_send_next_chunk P k pg c d)) = dv_large d"
  by (simp add: at_send_next_chunk_def Let_def split_beta)

lemma ld_acks_pages:
  assumes "pages_ok (dv_large d)"
  shows "pages_ok (dv_large (cmd_ld_init_ack P arg d))" "pages_ok (dv_large (cmd_ld_chunk_ack P arg d))"
  using assms by (simp_all add: cmd_ld_init_ack_def cmd_ld_chunk_ack_def ld_next_piece_def Let_def pages_upd_lg page_key_def
      split: option.split)

lemma cmd_ld_init_pages:
  assumes "large_inv d" shows "pages_ok (dv_large (cmd_ld_init P args d))"
proof -
  have "pages_ok (dv_large (upd_lg idx (fill_at_large a own now) d'))"
    if v: "ld_init_valid a" and al: "alloc_large_data_slot (unat (ucast (la_total a) :: u32)) d = (Some idx, d')" for a own now idx d'
  proof -
    note z = ld_init_valid_sizes[OF v]
    have "unat (ucast (la_total a) :: u32) = unat (la_total a)"
      using z(1) by (simp add: unsigned_ucast_eq take_bit_eq_mod)
    moreover have "0 < unat (la_total a)" using z(3,5) by linarith
    ultimately show ?thesis
      using assms z(1) by (intro pages_alloc_fill(1)[OF _ _ al]) (simp_all add: fill_at_large_def)
  qed
  then show ?thesis using assms by (auto simp: cmd_ld_init_def Let_def dest: alloc_large_None split: option.split prod.split)
qed

lemma cmd_ld_chunk_pages:
  assumes "large_inv d" shows "pages_ok (dv_large (cmd_ld_chunk P args d))"
proof -
  have stage: "pages_ok (dv_large (stage_ld_chunk P idx n bs d))" if f: "find_large_data_slot g j d = Some idx" for g j idx n bs
  proof -
    note idx = find_large_slot_less[OF _ f] find_large_active[OF f]
    let ?g = "\<lambda>x. x\<lparr>lg_received_count := lg_received_count x + 1\<rparr>"
    have free: "pages_ok (dv_large (free_large_data_slot idx NO_SENDER e))"
      if "large_inv e" "lg_active (lg_at e idx)" for e
      using that idx(1) assms by (intro pages_free) simp_all
    have e: "large_inv (start_idle_timeout idx (upd_lg idx ?g (snd (d_psram_write P a bs d))))" for a
      using assms by (auto intro!: wf_intros simp: pages_upd_lg page_key_def large_slot_ok_def)
    have 1: "pages_ok (dv_large (free_large_data_slot idx NO_SENDER (snd (d_psram_write P a bs d))))" for a
      using assms idx(2) by (intro free) (auto intro: io_wf)
    have 2: "pages_ok (dv_large (free_large_data_slot idx NO_SENDER
        (snd (large_data_verify_crc32 P idx (start_idle_timeout idx (upd_lg idx ?g (snd (d_psram_write P a bs d))))))))" for a
      using e[of a] idx(2) by (intro free) (auto intro: large_data_verify_crc32_wf simp: lg_active_upd)
    show ?thesis using assms 1 2
      by (simp add: stage_ld_chunk_def Let_def split_beta pages_upd_lg page_key_def rechunk_def)
  qed
  show ?thesis using assms by (auto simp: cmd_ld_chunk_def Let_def stage split: option.split prod.split)
qed

text \<open>
  C15: Pages are never shared and never lost. Every operation of the large-data module, on any
  packet, command or tick, keeps that each transfer lies in the pages from its address on, that no
  page belongs to two transfers, and that exactly the pages that belong to no transfer are free.
\<close>

theorem large_pages_exclusive:
  assumes "dev_wf d" "pages_ok (dv_large d)"
  shows "pages_ok (dv_large (handle_large_data_init P p1 i r d)) \<and> pages_ok (dv_large (handle_large_data_chunk P p2 i r d)) \<and>
    pages_ok (dv_large (handle_large_data_init_ack P p3 i r d)) \<and> pages_ok (dv_large (handle_large_data_chunk_ack P p4 i r d)) \<and>
    pages_ok (dv_large (large_data_tick P d)) \<and> pages_ok (dv_large (large_data_init d)) \<and>
    pages_ok (dv_large (cmd_ld_init P args d)) \<and> pages_ok (dv_large (cmd_ld_chunk P args d)) \<and>
    pages_ok (dv_large (cmd_ld_init_ack P arg d)) \<and> pages_ok (dv_large (cmd_ld_chunk_ack P arg d))"
proof -
  have "pages_ok (dv_large (large_data_init d))"
    by (auto simp: large_data_init_def upd_large_def pages_ok_def holds_page_def)
  then show ?thesis
    using assms by (simp add: large_handlers_pages large_tick_pages cmd_ld_init_pages cmd_ld_chunk_pages ld_acks_pages)
qed

theorem large_pages_exclusive_witness: "pages_ok (dv_large (cmd_ld_init ref_platform ''x'' (large_data_init ref_gateway)))"
proof -
  have "pages_ok (dv_large (large_data_init ref_gateway))"
    by (auto simp: large_data_init_def upd_large_def pages_ok_def holds_page_def)
  moreover have "dev_wf (large_data_init ref_gateway)" by (intro wf_intros ref_gateway_wf)
  ultimately show ?thesis using large_pages_exclusive by blast
qed

section \<open>Reassembly\<close>

text \<open>The chunks of a transfer have the size of those of a report.\<close>

abbreviation piece :: "bytes \<Rightarrow> nat \<Rightarrow> bytes" where "piece \<equiv> report_piece"

definition pieces :: "bytes \<Rightarrow> nat" where
  "pieces bs = (length bs + (LARGE_DATA_CHUNK_SIZE - 1)) div LARGE_DATA_CHUNK_SIZE"

lemma piece_sizes:
  assumes "k < pieces bs"
  shows "length (piece bs k) = (if Suc k = pieces bs then length bs - (pieces bs - 1) * LARGE_DATA_CHUNK_SIZE else LARGE_DATA_CHUNK_SIZE)"
    "k * LARGE_DATA_CHUNK_SIZE + length (piece bs k) \<le> length bs" "length (piece bs k) \<le> LARGE_DATA_CHUNK_SIZE"
proof -
  have p: "(pieces bs - 1) * 180 < length bs" "length bs \<le> pieces bs * 180"
    using assms unfolding pieces_def by (auto simp: less_mult_imp_div_less)
  have "(k + 1) * 180 \<le> (pieces bs - 1) * 180" if "Suc k \<noteq> pieces bs" using assms that by (intro mult_le_mono1) simp
  moreover have "pieces bs - 1 = k" if "Suc k = pieces bs" using that by simp
  moreover have "k * 180 \<le> (pieces bs - 1) * 180" using assms by (intro mult_le_mono1) simp
  ultimately show "length (piece bs k) = (if Suc k = pieces bs then length bs - (pieces bs - 1) * LARGE_DATA_CHUNK_SIZE else LARGE_DATA_CHUNK_SIZE)"
    "k * LARGE_DATA_CHUNK_SIZE + length (piece bs k) \<le> length bs" "length (piece bs k) \<le> LARGE_DATA_CHUNK_SIZE"
    using p by (auto simp: report_piece_def)
qed

lemma region_nth: "i < n \<Longrightarrow> region d a n ! i = ps_chip (dv_psram d) (a + i)"
  by (simp add: region_def get_bytes_def)

lemma region_pieces:
  assumes "\<forall>k<pieces bs. region d (a + k * LARGE_DATA_CHUNK_SIZE) (length (piece bs k)) = piece bs k"
  shows "region d a (length bs) = bs"
proof (rule nth_equalityI)
  fix i assume "i < length (region d a (length bs))"
  then have i: "i < length bs" by simp
  let ?k = "i div 180"
  have k: "?k < pieces bs" using i unfolding pieces_def by (auto simp: div_less_iff_less_mult less_mult_imp_div_less)
  have e: "?k * 180 + i mod 180 = i" by simp
  moreover have "i mod 180 < 180" by simp
  ultimately have "i mod 180 < length bs - 180 * ?k" using i by linarith
  then have m: "i mod 180 < length (piece bs ?k)" "?k * 180 + i mod 180 = i" using e by (simp_all add: report_piece_def)
  have "region d (a + ?k * 180) (length (piece bs ?k)) ! (i mod 180) = piece bs ?k ! (i mod 180)"
    using assms k by simp
  moreover have "region d (a + ?k * 180) (length (piece bs ?k)) ! (i mod 180) = ps_chip (dv_psram d) (a + (?k * 180 + i mod 180))"
    by (simp only: region_nth[OF m(1)] add.assoc)
  moreover have "piece bs ?k ! (i mod 180) = bs ! (?k * 180 + i mod 180)"
    using m i by (simp add: report_piece_def mult.commute)
  ultimately show "region d a (length bs) ! i = bs ! i"
    using i unfolding m(2) by (simp add: region_nth)
qed simp

definition announces_large :: "platform \<Rightarrow> large_data_init \<Rightarrow> bytes \<Rightarrow> bool" where
  "announces_large P i bs \<longleftrightarrow> \<not> large_init_invalid i \<and> length bs = unat (ldi_total_size i) \<and>
     unat (ldi_last_chunk_size i) = length bs - (pieces bs - 1) * LARGE_DATA_CHUNK_SIZE \<and>
     pieces bs \<le> unat (ldi_page_count i) * LARGE_DATA_CHUNKS_PER_PAGE \<and> ldi_crc32 i = pf_crc32 P bs"

definition carries_large :: "large_data_init \<Rightarrow> bytes \<Rightarrow> nat \<Rightarrow> large_data_chunk \<Rightarrow> bool" where
  "carries_large i bs k pkt \<longleftrightarrow> ldc_gen_device_id pkt = ldi_gen_device_id i \<and> ldc_data_id pkt = ldi_data_id i \<and>
     unat (ldc_page_index pkt) = k div LARGE_DATA_CHUNKS_PER_PAGE \<and>
     unat (ldc_chunk_index pkt) = k mod LARGE_DATA_CHUNKS_PER_PAGE \<and> take (length (piece bs k)) (ldc_data pkt) = piece bs k"

definition large_slot_for :: "large_data_init \<Rightarrow> bytes \<Rightarrow> large_slot \<Rightarrow> bool" where
  "large_slot_for i bs x \<longleftrightarrow> unat (lg_total_chunks x) = pieces bs \<and> lg_last_chunk_size x = ldi_last_chunk_size i \<and>
     lg_total_size x = ldi_total_size i \<and> lg_page_count x = ldi_page_count i \<and> lg_crc32 x = ldi_crc32 i \<and>
     unat (lg_base_addr x) + length bs \<le> PSRAM_SIZE"

definition large_has :: "platform \<Rightarrow> large_data_init \<Rightarrow> bytes \<Rightarrow> nat \<Rightarrow> nat set \<Rightarrow> dev \<Rightarrow> bool" where
  "large_has P i bs idx S d \<longleftrightarrow> psram_up P d \<and> dev_wf d \<and> S \<subseteq> {..<pieces bs} \<and>
     find_large_data_slot (ldi_gen_device_id i) (ldi_data_id i) d = Some idx \<and> large_slot_for i bs (lg_at d idx) \<and>
     (\<forall>k<pieces bs. chunk_received (lg_at d idx) k \<longleftrightarrow> k \<in> S) \<and>
     unat (lg_received_count (lg_at d idx)) = card S \<and>
     (\<forall>k\<in>S. region d (unat (lg_base_addr (lg_at d idx)) + k * LARGE_DATA_CHUNK_SIZE) (length (piece bs k)) = piece bs k)"

definition large_has_inv :: "platform \<Rightarrow> large_data_init \<Rightarrow> bytes \<Rightarrow> (nat \<Rightarrow> large_data_chunk) \<Rightarrow> nat \<Rightarrow> nat set \<Rightarrow> dev \<Rightarrow> bool" where
  "large_has_inv P i bs pkts idx S d \<longleftrightarrow> large_has P i bs idx S d \<and> crc32_ok P \<and> announces_large P i bs \<and>
     (\<forall>k<pieces bs. carries_large i bs k (pkts k)) \<and>
     (lg_upstream_ready (lg_at d idx) \<longleftrightarrow> S = {..<pieces bs}) \<and> (ld_busy (dv_large d) \<longleftrightarrow> S \<noteq> {..<pieces bs})"

lemma announces_large_sizes:
  assumes "announces_large P i bs"
  shows "0 < length bs" "length bs \<le> LARGE_DATA_MAX_TRANSFER_SIZE" "0 < pieces bs" "pieces bs \<le> LARGE_DATA_MAX_CHUNKS"
proof -
  have "ldi_total_size i \<noteq> 0" "unat (ldi_total_size i) \<le> 204800" "length bs = unat (ldi_total_size i)"
    using assms by (auto simp: announces_large_def large_init_invalid_def)
  then show l: "0 < length bs" "length bs \<le> LARGE_DATA_MAX_TRANSFER_SIZE" by (auto simp: unat_gt_0)
  then have "1 \<le> (length bs + 179) div 180" "(length bs + 179) div 180 \<le> 1138" by (simp_all add: Suc_le_eq div_greater_zero_iff)
  then show "0 < pieces bs" "pieces bs \<le> LARGE_DATA_MAX_CHUNKS" by (simp_all add: pieces_def)
qed

lemma chunk_addr:
  assumes "unat (b :: u32) + k * LARGE_DATA_CHUNK_SIZE \<le> PSRAM_SIZE"
  shows "unat (b + word_of_nat k * word_of_nat LARGE_DATA_CHUNK_SIZE) = unat b + k * LARGE_DATA_CHUNK_SIZE"
proof -
  have "b + word_of_nat k * word_of_nat 180 = word_of_nat (unat b + k * 180)" by simp
  then show ?thesis using assms by (simp only: unat_of_nat) simp
qed

lemma chunk_received_mark:
  assumes "length (lg_bitmap x) = LARGE_DATA_BITMAP_SIZE" "n < 1144" "k < 1144"
  shows "chunk_received (mark_chunk n x) k \<longleftrightarrow> k = n \<or> chunk_received x k"
proof (cases "n div 8 = k div 8")
  case True
  moreover have "k = n \<longleftrightarrow> k mod 8 = n mod 8" using True by (metis div_mult_mod_eq)
  moreover have "bit (push_bit (n mod 8) 1 :: u8) (k mod 8) \<longleftrightarrow> k mod 8 = n mod 8" by (auto simp: bit_simps)
  ultimately show ?thesis using assms by (auto simp: chunk_received_def mark_chunk_def bit_or_iff)
next
  case False
  then show ?thesis by (auto simp: chunk_received_def mark_chunk_def)
qed

lemma upd_lg_frames [simp]:
  "psram_up P (upd_lg i f d) = psram_up P d" "region (upd_lg i f d) a n = region d a n"
  "psram_up P (set_ld_busy b d) = psram_up P d" "region (set_ld_busy b d) a n = region d a n"
  "psram_up P (start_idle_timeout i d) = psram_up P d" "region (start_idle_timeout i d) a n = region d a n"
  "ld_busy (dv_large (upd_lg i f d)) = ld_busy (dv_large d)" "ld_busy (dv_large (start_idle_timeout i d)) = ld_busy (dv_large d)"
  "ld_busy (dv_large (set_ld_busy b d)) = b" "lg_at (set_ld_busy b d) j = lg_at d j"
  "i < length (lg_slots d) \<Longrightarrow> lg_at (upd_lg i f d) i = f (lg_at d i)" "length (lg_slots (upd_lg i f d)) = length (lg_slots d)"
  "length (lg_slots (start_idle_timeout i d)) = length (lg_slots d)"
  "find_large_data_slot g q (set_ld_busy b d) = find_large_data_slot g q d"
  "find_large_data_slot g q (snd (d_psram_write P a bs d)) = find_large_data_slot g q d"
  by (simp_all add: psram_up_def region_def upd_lg_def upd_large_def set_ld_busy_def start_idle_timeout_def find_large_data_slot_def)

lemma find_large_upd:
  assumes "lg_active (f (lg_at d i)) = lg_active (lg_at d i)"
    "lg_gen_device_id (f (lg_at d i)) = lg_gen_device_id (lg_at d i)" "lg_data_id (f (lg_at d i)) = lg_data_id (lg_at d i)"
  shows "find_large_data_slot g k (upd_lg i f d) = find_large_data_slot g k d"
  unfolding find_large_data_slot_def upd_lg_def upd_large_def using assms by (simp add: find_idx_update)

definition take_large :: "platform \<Rightarrow> nat \<Rightarrow> nat \<Rightarrow> nat \<Rightarrow> bytes \<Rightarrow> dev \<Rightarrow> dev" where
  "take_large P idx k a bs d = upd_lg idx (mark_chunk k) (start_idle_timeout idx
     (upd_lg idx (\<lambda>x. x\<lparr>lg_received_count := lg_received_count x + 1\<rparr>) (snd (d_psram_write P a bs d))))"

lemma take_large_simps:
  assumes "idx < length (lg_slots d)"
  shows "lg_at (take_large P idx k a bs d) idx = mark_chunk k ((lg_at d idx)\<lparr>lg_received_count := lg_received_count (lg_at d idx) + 1,
      lg_idle_timeout := nbtimeout_start (dv_now d) (lg_idle_timeout (lg_at d idx))\<rparr>)"
    "find_large_data_slot g j (take_large P idx k a bs d) = find_large_data_slot g j d"
    "region (take_large P idx k a bs d) b n = region (snd (d_psram_write P a bs d)) b n"
    "psram_up P (take_large P idx k a bs d) = psram_up P d" "ld_busy (dv_large (take_large P idx k a bs d)) = ld_busy (dv_large d)"
proof -
  let ?w = "snd (d_psram_write P a bs d)"
  have now: "dv_now (upd_lg i f e) = dv_now e" for i f e by (simp add: upd_lg_def upd_large_def)
  show "lg_at (take_large P idx k a bs d) idx = mark_chunk k ((lg_at d idx)\<lparr>lg_received_count := lg_received_count (lg_at d idx) + 1,
      lg_idle_timeout := nbtimeout_start (dv_now d) (lg_idle_timeout (lg_at d idx))\<rparr>)"
    using assms by (simp add: take_large_def start_idle_timeout_def now)
  show "find_large_data_slot g j (take_large P idx k a bs d) = find_large_data_slot g j d"
    by (simp add: take_large_def start_idle_timeout_def find_large_upd mark_chunk_def)
qed (simp_all add: take_large_def psram_write_keeps)

lemma take_large_has:
  assumes "large_has P i bs idx S d" "announces_large P i bs" "k < pieces bs" "k \<notin> S"
  defines "e \<equiv> take_large P idx k (unat (lg_base_addr (lg_at d idx)) + k * LARGE_DATA_CHUNK_SIZE) (piece bs k) d"
  shows "large_has P i bs idx (insert k S) e" "lg_upstream_ready (lg_at e idx) = lg_upstream_ready (lg_at d idx)"
proof -
  have h: "psram_up P d" "dev_wf d" "S \<subseteq> {..<pieces bs}" "find_large_data_slot (ldi_gen_device_id i) (ldi_data_id i) d = Some idx"
    "large_slot_for i bs (lg_at d idx)" "\<forall>k<pieces bs. chunk_received (lg_at d idx) k \<longleftrightarrow> k \<in> S"
    "unat (lg_received_count (lg_at d idx)) = card S"
    "\<forall>k\<in>S. region d (unat (lg_base_addr (lg_at d idx)) + k * LARGE_DATA_CHUNK_SIZE) (length (piece bs k)) = piece bs k"
    using assms(1) by (simp_all add: large_has_def)
  let ?b = "unat (lg_base_addr (lg_at d idx))" and ?x = "lg_at d idx"
  have idx: "idx < LARGE_DATA_RECEIVER_SLOT_COUNT" "idx < length (lg_slots d)"
    using find_large_slot_less[OF h(2,4)] lg_len(1)[OF h(2)] by simp_all
  note t = take_large_simps[OF idx(2)]
  note sizes = announces_large_sizes[OF assms(2)]
  have in_chip: "?b + k * LARGE_DATA_CHUNK_SIZE + length (piece bs k) \<le> PSRAM_SIZE"
    using piece_sizes(2)[OF assms(3)] h(5) by (simp add: large_slot_for_def)
  note w = region_write[OF h(1) in_chip]
  have r: "region e (?b + j * LARGE_DATA_CHUNK_SIZE) (length (piece bs j)) = piece bs j" if j: "j \<in> insert k S" for j
  proof (cases "j = k")
    case False
    have "j * 180 + length (piece bs j) \<le> k * 180 \<or> k * 180 + length (piece bs k) \<le> j * 180"
      using False by (intro pieces_apart) (simp_all add: report_piece_def)
    then show ?thesis using w(2)[of "?b + j * 180" "length (piece bs j)"] h(8) j False by (auto simp: e_def t(3))
  qed (use w(1) in \<open>simp add: e_def t(3)\<close>)
  have fin: "finite S" "card S < pieces bs"
    using h(3) assms(3,4) psubset_card_mono[of "{..<pieces bs}" S] finite_subset[of S "{..<pieces bs}"] by auto
  have c: "unat (lg_received_count ?x + 1) = card (insert k S)"
    using h(7) fin assms(4) sizes(4) by (simp add: unat_word_ariths)
  have wf: "dev_wf e" unfolding e_def take_large_def using h(2)
    by (intro wf_intros) (auto simp: large_slot_ok_def)
  have bm: "length (lg_bitmap ?x) = LARGE_DATA_BITMAP_SIZE" using lg_at_ok[OF h(2) idx(1)] by (simp add: large_slot_ok_def)
  have rec: "chunk_received (lg_at e idx) j \<longleftrightarrow> j = k \<or> chunk_received ?x j" if "j < pieces bs" for j
    unfolding e_def t(1) using that sizes(4) assms(3) bm
    by (subst chunk_received_mark) (simp_all add: chunk_received_def)
  have same: "lg_base_addr (lg_at e idx) = lg_base_addr ?x" "large_slot_for i bs (lg_at e idx) = large_slot_for i bs ?x"
    "lg_received_count (lg_at e idx) = lg_received_count ?x + 1" "lg_upstream_ready (lg_at e idx) = lg_upstream_ready ?x"
    unfolding e_def t(1) by (simp_all add: mark_chunk_def large_slot_for_def)
  show "large_has P i bs idx (insert k S) e"
    unfolding large_has_def same using h wf r rec c assms(3) by (simp add: e_def t(2,4))
  show "lg_upstream_ready (lg_at e idx) = lg_upstream_ready ?x" by (rule same(4))
qed

lemma complete_large_has:
  assumes "large_has P i bs idx {..<pieces bs} d" "announces_large P i bs" "crc32_ok P"
  defines "r \<equiv> complete_large_data P idx d"
  shows "fst r = STATUS_SUCCESS" "large_has P i bs idx {..<pieces bs} (snd r)" "lg_upstream_ready (lg_at (snd r) idx)"
    "\<not> ld_busy (dv_large (snd r))"
proof -
  have h: "psram_up P d" "dev_wf d" "find_large_data_slot (ldi_gen_device_id i) (ldi_data_id i) d = Some idx"
    "large_slot_for i bs (lg_at d idx)" "region d (unat (lg_base_addr (lg_at d idx))) (length bs) = bs"
    using assms(1) region_pieces[of bs d] by (auto simp: large_has_def)
  have idx: "idx < length (lg_slots d)" using find_large_slot_less[OF h(2,3)] lg_len(1)[OF h(2)] by simp
  have x: "unat (lg_total_size (lg_at d idx)) = length bs" "lg_crc32 (lg_at d idx) = pf_crc32 P bs"
    "unat (lg_base_addr (lg_at d idx)) + length bs \<le> PSRAM_SIZE"
    using h(4) assms(2) by (simp_all add: large_slot_for_def announces_large_def)
  have "crc_stages P LD_CRC_VERIFY_STAGE_SIZE (unat (lg_base_addr (lg_at d idx))) (length bs) True 0 d = (0, pf_crc32 P bs, d)"
    using crc_stages_whole_lib[OF h(1) assms(3) _ _ x(3)]
      announces_large_sizes(1)[OF assms(2)] h(5) by simp
  then have v: "large_data_verify_crc32 P idx d = (0, d)" by (simp add: large_data_verify_crc32_def x Let_def)
  let ?f = "\<lambda>x. x\<lparr>lg_idle_timeout := nbtimeout_stop (lg_idle_timeout x), lg_upstream_ready := True\<rparr>"
  have eq: "r = (STATUS_SUCCESS, set_ld_busy False (upd_lg idx ?f d))" by (simp add: r_def complete_large_data_def v)
  have wf: "dev_wf (snd r)" unfolding r_def by (rule complete_large_data_wf[OF h(2)])
  show "fst r = STATUS_SUCCESS" "lg_upstream_ready (lg_at (snd r) idx)" "\<not> ld_busy (dv_large (snd r))"
    using idx by (simp_all add: eq)
  show "large_has P i bs idx {..<pieces bs} (snd r)"
    using assms(1) wf idx by (simp add: large_has_def eq large_slot_for_def chunk_received_def find_large_upd)
qed

interpretation large_rx: chunk_receiver "pieces bs" "large_has_inv P i bs pkts idx"
  "\<lambda>k. validate_large_data_chunk P (pkts k)" for P i bs pkts idx
proof
  fix S d k
  assume inv: "large_has_inv P i bs pkts idx S d"
  then have h: "large_has P i bs idx S d" "crc32_ok P" "announces_large P i bs" "\<forall>k<pieces bs. carries_large i bs k (pkts k)"
    "lg_upstream_ready (lg_at d idx) \<longleftrightarrow> S = {..<pieces bs}" "ld_busy (dv_large d) \<longleftrightarrow> S \<noteq> {..<pieces bs}"
    by (simp_all add: large_has_inv_def)
  have s: "psram_up P d" "dev_wf d" "S \<subseteq> {..<pieces bs}" "find_large_data_slot (ldi_gen_device_id i) (ldi_data_id i) d = Some idx"
    "large_slot_for i bs (lg_at d idx)" "\<forall>k<pieces bs. chunk_received (lg_at d idx) k \<longleftrightarrow> k \<in> S"
    using h(1) by (simp_all add: large_has_def)
  let ?x = "lg_at d idx" and ?n = "unat (ldc_page_index (pkts k)) * LARGE_DATA_CHUNKS_PER_PAGE + unat (ldc_chunk_index (pkts k))"
  have c: "ldc_gen_device_id (pkts k) = ldi_gen_device_id i" "ldc_data_id (pkts k) = ldi_data_id i" "?n = k"
    "take (length (piece bs k)) (ldc_data (pkts k)) = piece bs k" "\<not> LARGE_DATA_CHUNKS_PER_PAGE \<le> unat (ldc_chunk_index (pkts k))"
    "\<not> lg_page_count ?x \<le> ldc_page_index (pkts k)" "\<not> unat (lg_total_chunks ?x) \<le> k" if k: "k < pieces bs"
  proof -
    have cl: "carries_large i bs k (pkts k)" using h(4) k by blast
    then show "ldc_gen_device_id (pkts k) = ldi_gen_device_id i" "ldc_data_id (pkts k) = ldi_data_id i" "?n = k"
      "take (length (piece bs k)) (ldc_data (pkts k)) = piece bs k" "\<not> LARGE_DATA_CHUNKS_PER_PAGE \<le> unat (ldc_chunk_index (pkts k))"
      by (simp_all add: carries_large_def not_le)
    have "k < unat (ldi_page_count i) * 32" using k h(3) by (simp add: announces_large_def)
    then have "k div 32 < unat (ldi_page_count i)" by (simp add: less_mult_imp_div_less)
    then show "\<not> lg_page_count ?x \<le> ldc_page_index (pkts k)" "\<not> unat (lg_total_chunks ?x) \<le> k"
      using cl s(5) k by (simp_all add: carries_large_def large_slot_for_def word_le_nat_alt)
  qed
  show "validate_large_data_chunk P (pkts k) d = (STATUS_ALREADY_EXISTS, d)" if "k \<in> S"
  proof -
    have k: "k < pieces bs" using that s(3) by blast
    then show ?thesis unfolding validate_large_data_chunk_def using c[OF k] s(4,6) that by (simp add: Let_def)
  qed
  assume k: "k < pieces bs" "k \<notin> S"
  note c = c[OF k(1)]
  have idx: "idx < length (lg_slots d)" using find_large_slot_less[OF s(2,4)] lg_len(1)[OF s(2)] by simp
  let ?a = "unat (lg_base_addr ?x) + k * LARGE_DATA_CHUNK_SIZE"
  let ?d = "take_large P idx k ?a (piece bs k) d"
  have csz: "(if int k = int (unat (lg_total_chunks ?x)) - 1 then unat (lg_last_chunk_size ?x) else LARGE_DATA_CHUNK_SIZE) = length (piece bs k)"
    using piece_sizes(1)[OF k(1)] s(5) h(3) unfolding int_pred_eq by (auto simp: large_slot_for_def announces_large_def)
  have in_chip: "?a + length (piece bs k) \<le> PSRAM_SIZE"
    using piece_sizes(2)[OF k(1)] s(5) by (simp add: large_slot_for_def)
  have addr: "unat (lg_base_addr ?x + word_of_nat k * word_of_nat LARGE_DATA_CHUNK_SIZE) = ?a"
    by (rule chunk_addr) (use in_chip in linarith)
  have t: "large_has P i bs idx (insert k S) ?d" "\<not> lg_upstream_ready (lg_at ?d idx)" "ld_busy (dv_large ?d)"
    using take_large_has[OF h(1,3) k] h(5,6) k by (auto simp: take_large_simps(5)[OF idx])
  have w: "fst (d_psram_write P ?a (piece bs k) d) = 0" using psram_write_up[OF s(1) in_chip] by simp
  have v: "validate_large_data_chunk P (pkts k) d = (if lg_total_chunks (lg_at ?d idx) \<le> lg_received_count (lg_at ?d idx)
      then complete_large_data P idx ?d else (STATUS_SUCCESS, ?d))"
    unfolding validate_large_data_chunk_def Let_def c(1,2) s(4) option.case c(3) csz addr c(4)
    using c(5-7) s(6) k w piece_sizes(3)[OF k(1)] by (simp add: split_beta take_large_def)
  have "finite (insert k S)" "insert k S \<subseteq> {..<pieces bs}" using s(3) k(1) finite_subset[of S "{..<pieces bs}"] by auto
  then have "pieces bs \<le> card (insert k S) \<longleftrightarrow> insert k S = {..<pieces bs}"
    by (metis card_lessThan card_mono card_subset_eq finite_lessThan le_antisym order_refl)
  then have all: "lg_total_chunks (lg_at ?d idx) \<le> lg_received_count (lg_at ?d idx) \<longleftrightarrow> insert k S = {..<pieces bs}"
    using t(1) by (simp add: large_has_def large_slot_for_def word_le_nat_alt)
  show "fst (validate_large_data_chunk P (pkts k) d) = STATUS_SUCCESS \<and>
      large_has_inv P i bs pkts idx (insert k S) (snd (validate_large_data_chunk P (pkts k) d))"
  proof (cases "insert k S = {..<pieces bs}")
    case True
    have "large_has P i bs idx {..<pieces bs} ?d" using t(1) unfolding True .
    note complete_large_has[OF this h(3,2)]
    then show ?thesis using h v all True by (simp add: large_has_inv_def)
  next
    case False
    then show ?thesis using t h v all by (simp add: large_has_inv_def)
  qed
qed

lemma validate_large_slot_has:
  assumes "psram_up P d" "dev_wf d" "announces_large P i bs" "fst (validate_large_data_slot i d) = STATUS_SUCCESS"
  obtains idx where "large_has P i bs idx {} (snd (validate_large_data_slot i d))"
    "\<not> lg_upstream_ready (lg_at (snd (validate_large_data_slot i d)) idx)"
    "ld_busy (dv_large (snd (validate_large_data_slot i d)))"
proof -
  have sz: "unat (ldi_total_size i) = length bs" using assms(3) by (simp add: announces_large_def)
  have none: "find_large_data_slot (ldi_gen_device_id i) (ldi_data_id i) d = None"
    using assms(4) by (auto simp: validate_large_data_slot_def split: option.splits if_splits)
  obtain idx d' where a: "alloc_large_data_slot (length bs) d = (Some idx, d')"
    "snd (validate_large_data_slot i d) = set_ld_busy True (start_idle_timeout idx (upd_lg idx (fill_large_slot i) d'))"
    using assms(4) none sz by (auto simp: validate_large_data_slot_def split: option.splits if_splits prod.splits)
  obtain start n where f: "find_idx (\<lambda>x. \<not> lg_active x) (lg_slots d) = Some idx" "find_pages (length bs) (lg_pages d) 0 0 = Some (start, n)"
    "d' = upd_lg idx (\<lambda>x. x\<lparr>lg_active := True, lg_base_addr := page_addr start\<rparr>)
       (upd_large (\<lambda>l. l\<lparr>ld_page_empty := mark_pages False start n (ld_page_empty l)\<rparr>) d)"
    using a(1) by (auto simp: alloc_large_data_slot_def split: option.splits)
  have idx: "idx < length (lg_slots d)" using find_idx_less[OF f(1)] .
  let ?g = "\<lambda>x. (fill_large_slot i (x\<lparr>lg_active := True, lg_base_addr := page_addr start\<rparr>))
     \<lparr>lg_idle_timeout := nbtimeout_start (dv_now d) (nbtimeout_init LARGE_DATA_SLOT_TIMEOUT_MS 0)\<rparr>"
  let ?e = "snd (validate_large_data_slot i d)"
  have slots: "lg_slots ?e = (lg_slots d)[idx := ?g (lg_at d idx)]"
    using idx by (simp add: a(2) f(3) set_ld_busy_def start_idle_timeout_def upd_lg_def upd_large_def fill_large_slot_def)
  then have x: "lg_at ?e idx = ?g (lg_at d idx)" using idx by simp
  have find: "find_large_data_slot (ldi_gen_device_id i) (ldi_data_id i) ?e = Some idx"
    unfolding find_large_data_slot_def slots
    by (rule find_idx_new[OF none[unfolded find_large_data_slot_def] idx]) (simp add: fill_large_slot_def)
  have up: "psram_up P ?e" using assms(1) by (simp add: a(2) f(3)) (simp add: psram_up_def upd_large_def)
  have wf: "dev_wf ?e" using assms(2,3) by (intro validate_large_data_slot_wf) (auto simp: announces_large_def large_init_invalid_def)
  have run: "free_run (lg_pages d) start n" and n: "n = pages_needed (length bs)"
    using f(2) unfolding find_pages_least by (auto split: if_splits intro: LeastI)
  note sizes = announces_large_sizes[OF assms(3)]
  have "length bs \<le> n * 5760" unfolding n pages_needed_def by (cases "length bs") auto
  moreover have "start + n \<le> 1092" "0 < n" using run lg_len(2)[OF assms(2)] n by (simp_all add: free_run_def pages_needed_def)
  ultimately have base: "unat (page_addr start) + length bs \<le> PSRAM_SIZE" by (simp add: unat_page_addr)
  have chunks: "unat (lg_total_chunks (fill_large_slot i y)) = pieces bs" for y
    using large_chunks_bound(1)[of "ldi_total_size i"] sizes(2) sz by (simp add: fill_large_slot_def pieces_def)
  have "chunk_received (?g y) k = False" if "k < pieces bs" for k y
    using that sizes(4) by (simp add: chunk_received_def fill_large_slot_def)
  then have "large_has P i bs idx {} ?e" unfolding large_has_def x
    using find wf up base chunks by (simp add: large_slot_for_def fill_large_slot_def)
  moreover have "\<not> lg_upstream_ready (lg_at ?e idx)" unfolding x by (simp add: fill_large_slot_def)
  moreover have "ld_busy (dv_large ?e)" by (simp add: a(2))
  ultimately show thesis using that by blast
qed

text \<open>
  C14: A large transfer survives any order and any repetition of its chunks. If a receiver accepts
  the announcement and then gets chunk packets that cover all chunks of up to 200 KB, in any order
  and each any number of times, it ends with the exact bytes in consecutive pages, ready for
  upstream, and is free for the next transfer; each chunk is answered with SUCCESS the first time
  and with ALREADY_EXISTS from then on.
\<close>

theorem large_reassembly:
  fixes P :: platform and d :: dev and ks :: "nat list"
  assumes "psram_up P d" "crc32_ok P" "dev_wf d" "announces_large P i bs" "fst (validate_large_data_slot i d) = STATUS_SUCCESS"
    "\<forall>k<pieces bs. carries_large i bs k (pkts k)" "set ks = {..<pieces bs}"
  defines "r \<equiv> deliver (\<lambda>k. validate_large_data_chunk P (pkts k)) ks (snd (validate_large_data_slot i d))"
  shows "fst r = map (\<lambda>j. if ks ! j \<in> set (take j ks) then STATUS_ALREADY_EXISTS else STATUS_SUCCESS) [0..<length ks] \<and>
    \<not> ld_busy (dv_large (snd r)) \<and>
    (\<exists>idx. find_large_data_slot (ldi_gen_device_id i) (ldi_data_id i) (snd r) = Some idx \<and>
      lg_upstream_ready (lg_at (snd r) idx) \<and> region (snd r) (unat (lg_base_addr (lg_at (snd r) idx))) (length bs) = bs)"
proof -
  obtain idx where "large_has P i bs idx {} (snd (validate_large_data_slot i d))"
    "\<not> lg_upstream_ready (lg_at (snd (validate_large_data_slot i d)) idx)" "ld_busy (dv_large (snd (validate_large_data_slot i d)))"
    using validate_large_slot_has[OF assms(1,3-5)] .
  then have "large_has_inv P i bs pkts idx {} (snd (validate_large_data_slot i d))"
    using assms(2,4,6) announces_large_sizes(3)[OF assms(4)]
    by (auto simp: large_has_inv_def lessThan_empty_iff eq_commute[of "{}"])
  note d = large_rx.deliver_any[OF this, of ks, unfolded assms(7), OF order_refl, folded r_def]
  have "region (snd r) (unat (lg_base_addr (lg_at (snd r) idx))) (length bs) = bs"
    using d(1) by (intro region_pieces) (auto simp: large_has_inv_def large_has_def)
  then show ?thesis using d by (auto simp: large_has_inv_def large_has_def)
qed

definition ref_large :: large_data_init where
  "ref_large = \<lparr>ldi_hdr = zero_hdr, ldi_gen_device_id = 9, ldi_data_id = 1, ldi_report_time_ms = 0, ldi_total_size = 200,
     ldi_page_count = 1, ldi_last_chunk_size = 20, ldi_crc32 = pf_crc32 ref_platform (replicate 200 7)\<rparr>"

definition ref_piece :: "nat \<Rightarrow> large_data_chunk" where
  "ref_piece k = \<lparr>ldc_hdr = zero_hdr, ldc_gen_device_id = 9, ldc_data_id = 1, ldc_page_index = 0,
     ldc_chunk_index = word_of_nat k, ldc_data = replicate 180 7\<rparr>"

lemma ref_large_ok:
  "announces_large ref_platform ref_large (replicate 200 7)"
  "\<forall>k<pieces (replicate 200 7). carries_large ref_large (replicate 200 7) k (ref_piece k)"
  "fst (validate_large_data_slot ref_large (large_data_init ref_gateway)) = STATUS_SUCCESS"
proof -
  have p: "pieces (replicate 200 7) = 2" by (simp add: pieces_def)
  show "announces_large ref_platform ref_large (replicate 200 7)"
    by (simp add: announces_large_def large_init_invalid_def ref_large_def p)
  show "\<forall>k<pieces (replicate 200 7). carries_large ref_large (replicate 200 7) k (ref_piece k)"
    unfolding p by (auto simp: carries_large_def ref_large_def ref_piece_def report_piece_def unat_of_nat)
  let ?d = "large_data_init ref_gateway"
  have slots: "\<forall>x\<in>set (lg_slots ?d). \<not> lg_active x" "length (lg_slots ?d) = 64" "lg_pages ?d = replicate 1092 True"
    using lg_len(1)[OF ref_gateway_wf] by (auto simp: large_data_init_def upd_large_def)
  have none: "find_large_data_slot 9 1 ?d = None" using slots(1) by (simp add: find_large_data_slot_def find_idx_None_iff)
  have "lg_slots ?d ! 0 \<in> set (lg_slots ?d)" using slots(2) by simp
  then have "find_idx (\<lambda>x. \<not> lg_active x) (lg_slots ?d) \<noteq> None" using slots(1) unfolding find_idx_None_iff by blast
  moreover have "free_run (lg_pages ?d) 0 (pages_needed 200)" by (simp add: free_run_def pages_needed_def slots(3))
  then have "find_pages 200 (lg_pages ?d) 0 0 \<noteq> None" unfolding find_pages_least by auto
  moreover have "\<not> ld_busy (dv_large ?d)" by (simp add: large_data_init_def upd_large_def ref_gateway_def boot_dev_def boot_large_def)
  ultimately show "fst (validate_large_data_slot ref_large ?d) = STATUS_SUCCESS"
    using none by (auto simp: validate_large_data_slot_def alloc_large_data_slot_def ref_large_def)
qed

theorem large_reassembly_witness:
  "\<not> ld_busy (dv_large (snd (deliver (\<lambda>k. validate_large_data_chunk ref_platform (ref_piece k)) [1, 0, 1]
     (snd (validate_large_data_slot ref_large (large_data_init ref_gateway))))))"
proof -
  have "dev_wf (large_data_init ref_gateway)" by (intro wf_intros ref_gateway_wf)
  moreover have "psram_up ref_platform (large_data_init ref_gateway)"
    using ref_psram_up[of DEVICE_TYPE_GATEWAY 1 0 ref_storage]
    by (simp add: psram_up_def large_data_init_def upd_large_def ref_gateway_def)
  moreover have "set [1, 0, 1] = {..<pieces (replicate 200 7)}" by (auto simp: pieces_def)
  ultimately show ?thesis
    using large_reassembly[OF _ platform_okD(4)[OF ref_platform_ok] _ ref_large_ok(1,3,2)] by blast
qed

section \<open>One transfer at a time\<close>

text \<open>
  While a transfer comes in every other announcement is refused. Only its last chunk, or a COMPLETE
  for an own transfer, ends that: a sender that dies blocks the node, since neither the tick nor a
  new initialisation of the module clears the flag.
\<close>

theorem large_busy_stays:
  assumes "ld_busy (dv_large d)"
  shows "validate_large_data_slot pkt d = (STATUS_BUSY, d)" "ld_busy (dv_large (large_data_tick P d))"
    "ld_busy (dv_large (large_data_init d))"
proof -
  show "validate_large_data_slot pkt d = (STATUS_BUSY, d)" using assms by (simp add: validate_large_data_slot_def)
  show "ld_busy (dv_large (large_data_init d))" using assms by (simp add: large_data_init_def upd_large_def)
  have frame: "ld_busy (dv_large (upd_lt k g e)) = ld_busy (dv_large e)"
    "ld_busy (dv_large (free_large_sender k e)) = ld_busy (dv_large e)"
    "ld_busy (dv_large (restart_large_timeout k e)) = ld_busy (dv_large e)"
    "ld_busy (dv_large (fault e)) = ld_busy (dv_large e)" for k g e
    by (simp_all add: upd_lt_def upd_large_def free_large_sender_def restart_large_timeout_def fault_def)
  have free: "ld_busy (dv_large (free_large_data_slot i k e)) = ld_busy (dv_large e)" for i k e
    by (simp add: free_large_data_slot_def Let_def frame) (simp add: upd_lg_def upd_large_def)
  have "ld_busy (dv_large (snd (gateway_large_step P k e))) = ld_busy (dv_large e)" for k e
    by (simp add: gateway_large_step_def send_at_large_data_init_def Let_def split_beta frame free split: option.split)
  moreover have "ld_busy (dv_large (snd (large_sender_step P b k e))) = ld_busy (dv_large e)" for b k e
    by (simp add: large_sender_step_def large_sender_timeout_def start_large_def Let_def frame free split: option.split)
  ultimately show "ld_busy (dv_large (large_data_tick P d))"
    using assms by (simp add: large_data_tick_def gateway_large_data_tick_def anchor_large_data_tick_def
        sensor_large_data_tick_def loop_steps_preserve[of "\<lambda>d. ld_busy (dv_large d)"] del: loop_steps.simps)
qed

end
