(* ===== verification/At_Props.thy ===== *)
theory At_Props
  imports Node_Steps
begin

text \<open>
  Properties of the AT interface: how received text is cut into lines, and that what the firmware
  prints and what it parses are inverse to each other.
\<close>

section \<open>Lines\<close>

abbreviation no_eol :: "string \<Rightarrow> bool" where "no_eol l \<equiv> (\<forall>c\<in>set l. \<not> is_eol c)"
abbreviation all_eol :: "string \<Rightarrow> bool" where "all_eol e \<equiv> (\<forall>c\<in>set e. is_eol c)"

lemma at_lines_Nil [simp]: "at_lines [] = []"
  by (subst at_lines.simps) simp

lemma at_lines_eol: "all_eol e \<Longrightarrow> at_lines (e @ s) = at_lines s"
  by (subst (1 2) at_lines.simps) (simp add: dropWhile_append)

lemma at_lines_line:
  assumes "no_eol l" "l \<noteq> []" "s = [] \<or> is_eol (hd s)"
  shows "at_lines (l @ s) = l # at_lines s"
proof -
  have "dropWhile is_eol (l @ s) = l @ s" using assms(1,2) by (cases l) auto
  moreover have "takeWhile (\<lambda>c. \<not> is_eol c) s = []" "dropWhile (\<lambda>c. \<not> is_eol c) s = s"
    using assms(3) by (cases s; auto)+
  then have "takeWhile (\<lambda>c. \<not> is_eol c) (l @ s) = l" "dropWhile (\<lambda>c. \<not> is_eol c) (l @ s) = s"
    using assms(1) by (simp_all add: takeWhile_append dropWhile_append)
  moreover have "at_lines (drop 1 s) = at_lines s"
    using assms(3) at_lines_eol[of "[hd s]" "tl s"] by (cases s) auto
  ultimately show ?thesis using assms(2) by (subst at_lines.simps) (simp add: Let_def)
qed

text \<open>
  C36: Received text is cut into exactly its lines. Whatever lines arrive, each ended by any
  non-empty mixture of carriage returns and line feeds, the last one possibly not ended at all,
  the dispatcher gets the non-empty ones, unchanged and in order.
\<close>

theorem at_lines_split:
  assumes "\<forall>(l, e)\<in>set ps. no_eol l \<and> all_eol e \<and> e \<noteq> []" "no_eol rest"
  shows "at_lines (concat (map (\<lambda>(l, e). l @ e) ps) @ rest) = filter (\<lambda>l. l \<noteq> []) (map fst ps @ [rest])"
  using assms(1)
proof (induction ps)
  case Nil
  then show ?case using at_lines_line[OF assms(2), of "[]"] by auto
next
  case (Cons p ps)
  obtain l e where p: "p = (l, e)" "no_eol l" "all_eol e" "e \<noteq> []" using Cons.prems by (cases p) auto
  let ?s = "concat (map (\<lambda>(l, e). l @ e) ps) @ rest"
  have ih: "at_lines (e @ ?s) = filter (\<lambda>l. l \<noteq> []) (map fst ps @ [rest])"
    using Cons p(3) by (simp add: at_lines_eol)
  show ?case
  proof (cases "l = []")
    case False
    have "is_eol (hd (e @ ?s))" using p(3,4) by (cases e) auto
    then show ?thesis using at_lines_line[OF p(2) False, of "e @ ?s"] ih p(1) False by simp
  qed (use ih p(1) in simp)
qed

theorem at_lines_split_witness: "at_lines ''OK\<newline>ERROR\<newline>'' = [''OK'', ''ERROR'']"
  using at_lines_split[of "[(''OK'', [CHR 0x0A]), (''ERROR'', [CHR 0x0A])]" "[]"] by (simp add: is_eol_def)

section \<open>Fields\<close>

lemma after_quote_fields:
  assumes "QUOTE \<notin> set p"
  shows "after_quote (p @ QUOTE # r) = Some r"
  using assms by (simp add: after_quote_def dropWhile_append)

lemma field_get_at_fields:
  assumes "QUOTE \<notin> set p" "\<forall>f\<in>set fs. QUOTE \<notin> set f" "i < length fs"
  shows "field_get i (p @ at_fields fs @ q) = Some (fs ! i)"
  using assms
proof (induction fs arbitrary: p i rule: at_fields.induct)
  case (2 f)
  then show ?case by (simp add: after_quote_fields takeWhile_append)
next
  case (3 f g fs)
  let ?r = "CHR '','' # at_fields (g # fs) @ q"
  have a: "after_quote (p @ at_fields (f # g # fs) @ q) = Some (f @ QUOTE # ?r)"
    using after_quote_fields[OF "3.prems"(1), of "f @ QUOTE # ?r"] by simp
  show ?case
  proof (cases i)
    case 0
    then show ?thesis using a "3.prems"(2) by (simp add: takeWhile_append)
  next
    case (Suc k)
    have "field_get k ([CHR '',''] @ at_fields (g # fs) @ q) = Some ((g # fs) ! k)"
      using "3.prems" Suc by (intro "3.IH") auto
    then show ?thesis using Suc a after_quote_fields[of f ?r] "3.prems"(2) by simp
  qed
qed simp

lemma field_hex_at_fields:
  assumes "QUOTE \<notin> set p" "\<forall>f\<in>set fs. QUOTE \<notin> set f" "i < length fs" "fs ! i = hex_fixed up w (unat v)"
    "0 < w" "w \<le> 16" "LENGTH('a) \<le> 4 * w"
  shows "field_hex_u64 (p @ at_fields fs @ q) i = Some (ucast (v :: 'a :: len word))"
proof -
  have "unat v < 2 ^ LENGTH('a)" by simp
  also have "\<dots> \<le> 2 ^ (4 * w)" using assms(7) by (intro power_increasing) auto
  also have "\<dots> = 16 ^ w" by (simp add: power_mult)
  finally have "hex_value (hex_fixed up w (unat v)) 0 = Some (word_of_nat (unat v))"
    using assms(6) by (intro hex_value_fixed)
  moreover have "hex_fixed up w (unat v) \<noteq> []" using assms(5) by (metis length_0_conv length_hex_fixed not_gr0)
  ultimately show ?thesis
    using field_get_at_fields[OF assms(1-3), of q] assms(4)
    by (simp add: field_hex_u64_def)
qed

lemma field_get_hex_bytes:
  assumes "QUOTE \<notin> set p" "\<forall>f\<in>set fs. QUOTE \<notin> set f" "i < length fs" "fs ! i = hex_bytes bs"
  shows "field_get i (p @ at_fields fs @ q) = Some (hex_bytes bs)"
  using field_get_at_fields[OF assms(1-3)] assms(4) by simp

section \<open>Printing and parsing\<close>

lemma ucast_bounds:
  "\<not> (0xFFFF :: u64) < ucast (i :: u16)" "\<not> (0xFFFFFFFF :: u64) < ucast (c :: u32)"
  "unat (ucast (l :: u8) :: u64) = unat l" "unat (ucast (i :: u16) :: u64) = unat i"
  "(ucast l = (0 :: u64)) = (l = 0)" "(ucast i = (0 :: u64)) = (i = 0)"
  "ucast (ucast i :: u64) = i" "ucast (ucast c :: u64) = c" "ucast (ucast l :: u64) = (ucast l :: u16)"
proof -
  show u: "unat (ucast (l :: u8) :: u64) = unat l" "unat (ucast (i :: u16) :: u64) = unat i"
    using unsigned_less[of l, where 'a = nat] unsigned_less[of i, where 'a = nat]
    by (simp_all add: unsigned_ucast_eq take_bit_eq_mod)
  have "unat (ucast (c :: u32) :: u64) = unat c"
    using unsigned_less[of c, where 'a = nat] by (simp add: unsigned_ucast_eq take_bit_eq_mod)
  then show "\<not> (0xFFFF :: u64) < ucast (i :: u16)" "\<not> (0xFFFFFFFF :: u64) < ucast (c :: u32)"
    using u unsigned_less[of c, where 'a = nat] unsigned_less[of i, where 'a = nat] by (simp_all add: word_less_nat_alt)
  show "(ucast l = (0 :: u64)) = (l = 0)" "(ucast i = (0 :: u64)) = (i = 0)"
    using u by (metis unat_0 unsigned_0 unat_eq_zero)+
  show "ucast (ucast i :: u64) = i" "ucast (ucast c :: u64) = c" "ucast (ucast l :: u64) = (ucast l :: u16)"
    by (rule bit_word_eqI; simp add: bit_simps)+
qed

lemma config_fields_parse:
  fixes sn :: u64 and i :: u16 and len :: u8 and crc :: u32 and payload :: bytes
  assumes "QUOTE \<notin> set p"
  shows "parse_config P (p @ at_fields [hex_fixed True 16 (unat sn), hex_fixed True 4 (unat i), hex_fixed True 4 (unat len),
      hex_fixed True 8 (unat crc), hex_bytes payload] @ q) =
    (if len \<noteq> 0 \<and> unat len \<le> MAX_CONFIG_SIZE \<and> length payload = unat len \<and> pf_crc32 P payload = crc
     then Some (sn, \<lparr>as_device_id = 0, as_device_type = 0, as_data_id = i, as_data_len = ucast len, as_data_crc32 = crc\<rparr>, payload)
     else None)"
proof -
  let ?fs = "[hex_fixed True 16 (unat sn), hex_fixed True 4 (unat i), hex_fixed True 4 (unat len), hex_fixed True 8 (unat crc),
     hex_bytes payload]"
  let ?l = "p @ at_fields ?fs @ q"
  have fs: "\<forall>f\<in>set ?fs. QUOTE \<notin> set f" by simp
  note h = field_hex_at_fields[OF assms fs, of _ True, where q = q]
  have f: "field_hex_u64 ?l 0 = Some sn" "field_hex_u64 ?l 1 = Some (ucast i)" "field_hex_u64 ?l 2 = Some (ucast len)"
    "field_hex_u64 ?l 3 = Some (ucast crc)" "field_get 4 ?l = Some (hex_bytes payload)"
    using h[of 0 16 sn] h[of 1 4 i] h[of 2 4 len] h[of 3 8 crc] field_get_hex_bytes[OF assms fs, of 4 payload q]
    by (simp_all del: at_fields.simps)
  have bounds: "(128 < (ucast len :: u64)) = (128 < unat len)" by (simp add: word_less_nat_alt ucast_bounds(3))
  show ?thesis
    unfolding parse_config_def f using hex_decode_bytes[of payload MAX_CONFIG_SIZE] by (auto simp: bounds ucast_bounds not_less)
qed

lemma config_line_parses_back:
  "parse_config P (config_line sn s payload) =
    (if cs_config_len s \<noteq> 0 \<and> unat (cs_config_len s) \<le> MAX_CONFIG_SIZE \<and> length payload = unat (cs_config_len s) \<and>
        pf_crc32 P payload = cs_config_crc32 s
     then Some (sn, \<lparr>as_device_id = 0, as_device_type = 0, as_data_id = cs_config_id s,
       as_data_len = ucast (cs_config_len s), as_data_crc32 = cs_config_crc32 s\<rparr>, payload)
     else None)"
  using config_fields_parse[of "CRLF @ ''AT#CONFIG=''" P sn "cs_config_id s" "cs_config_len s" "cs_config_crc32 s" payload CRLF]
  by (simp add: config_line_def del: at_fields.simps)

text \<open>
  The configuration line that a sensor prints for its host has the format that the gateway
  parses, with nothing lost: serial number, id, length, checksum and payload come back exactly. The
  parser accepts it iff the length is between 1 and 128, is that of the payload and the checksum is
  the payload's CRC32.
\<close>

theorem config_line_parses:
  "parse_config P (config_line sn s payload) =
    (if cs_config_len s \<noteq> 0 \<and> unat (cs_config_len s) \<le> MAX_CONFIG_SIZE \<and> length payload = unat (cs_config_len s) \<and>
        pf_crc32 P payload = cs_config_crc32 s
     then Some (sn, \<lparr>as_device_id = 0, as_device_type = 0, as_data_id = cs_config_id s,
       as_data_len = ucast (cs_config_len s), as_data_crc32 = cs_config_crc32 s\<rparr>, payload)
     else None)"
  by (rule config_line_parses_back)

text \<open>
  The text of a report command is parsed into exactly the values that were printed into it:
  serial number, id, priority, checksum and payload, accepted iff the length is between 1 and 256,
  is that of the payload and the checksum is the payload's CRC32. A priority above 255 is cut to a
  byte.
\<close>

theorem report_command_parses:
  fixes sn prio :: u64 and i len :: u16 and crc :: u32 and payload :: bytes and P :: platform
  shows "parse_report P (''='' @ at_fields [hex_fixed up 16 (unat sn), hex_fixed up 4 (unat i), hex_fixed up 4 (unat len),
      hex_fixed up 16 (unat prio), hex_fixed up 8 (unat crc), hex_bytes payload] @ q) =
    (if len \<noteq> 0 \<and> unat len \<le> MAX_REPORT_SIZE \<and> length payload = unat len \<and> pf_crc32 P payload = crc
     then Some (sn, \<lparr>as_device_id = 0, as_device_type = 0, as_data_id = i, as_data_len = len, as_data_crc32 = crc\<rparr>,
       ucast prio, payload)
     else None)"
proof -
  let ?fs = "[hex_fixed up 16 (unat sn), hex_fixed up 4 (unat i), hex_fixed up 4 (unat len),
      hex_fixed up 16 (unat prio), hex_fixed up 8 (unat crc), hex_bytes payload]"
  let ?l = "''='' @ at_fields ?fs @ q"
  have q: "QUOTE \<notin> set ''=''" "\<forall>f\<in>set ?fs. QUOTE \<notin> set f" by simp_all
  note h = field_hex_at_fields[OF q, of _ up, where q = q]
  have f: "field_hex_u64 ?l 0 = Some sn" "field_hex_u64 ?l 1 = Some (ucast i)"
    "field_hex_u64 ?l 2 = Some (ucast len)" "field_hex_u64 ?l 3 = Some prio" "field_hex_u64 ?l 4 = Some (ucast crc)"
    "field_get 5 ?l = Some (hex_bytes payload)"
    using h[of 0 16 sn] h[of 1 4 i] h[of 2 4 len] h[of 3 16 prio] h[of 4 8 crc]
      field_get_hex_bytes[OF q, of 5 payload q] by (simp_all del: at_fields.simps)
  have bounds: "(256 < (ucast len :: u64)) = (256 < unat len)"
    by (simp add: word_less_nat_alt ucast_bounds(4))
  show ?thesis
    unfolding parse_report_def f
    using hex_decode_bytes[of payload MAX_REPORT_SIZE]
    by (auto simp: bounds ucast_bounds not_less)
qed

text \<open>
  The line with which the gateway hands a report to its host can be read back by the same field
  functions: serial number, data id, time, length, checksum and, as the last field, every byte.
\<close>

theorem report_line_reads_back:
  fixes sn :: u64 and x :: report_slot and payload :: bytes
  defines "l \<equiv> report_line sn x payload"
  shows "field_hex_u64 l 0 = Some sn \<and> field_hex_u64 l 1 = Some (ucast (sl_data_id x)) \<and>
    field_hex_u64 l 2 = Some (sl_report_time_ms x) \<and> field_hex_u64 l 3 = Some (ucast (sl_total_size x)) \<and>
    field_hex_u64 l 4 = Some (ucast (sl_crc32 x)) \<and>
    (\<exists>hex. field_get 5 l = Some hex \<and> hex_decode hex (length payload) = Some payload)"
proof -
  let ?fs = "[hex_fixed True 16 (unat sn), hex_fixed True 4 (unat (sl_data_id x)),
       hex_fixed False 16 (unat (sl_report_time_ms x)), hex_fixed True 4 (unat (sl_total_size x)),
       hex_fixed True 8 (unat (sl_crc32 x)), hex_bytes payload]"
  let ?p = "CRLF @ ''AT#REPORT=''"
  have l: "l = ?p @ at_fields ?fs @ CRLF" by (simp add: l_def report_line_def)
  have q: "QUOTE \<notin> set ?p" "\<forall>f\<in>set ?fs. QUOTE \<notin> set f" by simp_all
  note h = field_hex_at_fields[OF q, where q = CRLF, folded l]
  show ?thesis
    using h[of 0 True 16 sn] h[of 1 True 4 "sl_data_id x"] h[of 2 False 16 "sl_report_time_ms x"]
      h[of 3 True 4 "sl_total_size x"] h[of 4 True 8 "sl_crc32 x"]
      field_get_hex_bytes[OF q, of 5 payload CRLF, folded l] hex_decode_bytes[of payload "length payload"]
    by (simp del: at_fields.simps)
qed

section \<open>Acknowledgments from the host\<close>

text \<open>
  An acknowledgment of the host counts once. After OK or ERROR nothing is pending any more, and
  another OK or ERROR changes nothing until the host names the next item.
\<close>

theorem host_answer_counts_once:
  assumes "dv_status d = Running" "line \<in> {''OK'', ''ERROR''}" "line' \<in> {''OK'', ''ERROR''}" "dv_status (dispatch P line d) = Running"
  shows "ap_data_type (dv_pending_ack (dispatch P line d)) = 0 \<and> dispatch P line' (dispatch P line d) = dispatch P line d"
proof -
  have idle: "dispatch P l e = e" if "ap_data_type (dv_pending_ack e) = 0" "l \<in> {''OK'', ''ERROR''}" for l e
    using that by (auto simp: dispatch_def dispatch_ok_def dispatch_error_def consume_pending_def)
  let ?e = "if line = ''OK'' then dispatch_ok P d else dispatch_error P d"
  have "dispatch P line d = seqs [consume_pending] ?e" using assms(1,2) by (auto simp: dispatch_def)
  moreover have "dv_status (consume_pending e) = dv_status e" for e by (simp add: consume_pending_def)
  ultimately have "dispatch P line d = consume_pending ?e" using assms(4) by (auto split: if_splits)
  then have "ap_data_type (dv_pending_ack (dispatch P line d)) = 0" by (simp add: consume_pending_def)
  then show ?thesis using idle assms(3) by blast
qed

theorem host_answer_counts_once_witness:
  "let d = (boot_dev DEVICE_TYPE_GATEWAY 1 0 ref_storage)
     \<lparr>dv_pending_ack := \<lparr>ap_data_type = DATA_TYPE_REPORT, ap_sn = 5, ap_id = 1, ap_page = 0, ap_chunk = 0\<rparr>\<rparr>
   in dispatch ref_platform ''OK'' (dispatch ref_platform ''ERROR'' d) = dispatch ref_platform ''ERROR'' d"
proof -
  let ?d = "(boot_dev DEVICE_TYPE_GATEWAY 1 0 ref_storage)
     \<lparr>dv_pending_ack := \<lparr>ap_data_type = DATA_TYPE_REPORT, ap_sn = 5, ap_id = 1, ap_page = 0, ap_chunk = 0\<rparr>\<rparr>"
  have "find_device_id_by_sn 5 ?d = 0xFFFF"
    by (simp add: find_device_id_by_sn_def boot_dev_def ref_storage_counts)
  then have "dv_status (dispatch ref_platform ''ERROR'' ?d) = Running"
    by (simp add: dispatch_def dispatch_error_def consume_pending_def report_slot_release_by_id_def proc_def boot_dev_def)
  then show ?thesis using host_answer_counts_once[of ?d "''ERROR''" "''OK''" ref_platform] by simp
qed

end
