(* ===== verification/Config_Props.thy ===== *)
theory Config_Props
  imports Report_Props At_Props
begin

text \<open>
  Properties of the configuration transfer (src/config.c): what happens to a received configuration
  on every branch, and that the sensor's host gets exactly what was sent.
\<close>

section \<open>Slots\<close>

lemma cfg_frames [simp]:
  "psram_up P (upd_config i f d) = psram_up P d" "region (upd_config i f d) a n = region d a n"
  "psram_up P (set_config_count g d) = psram_up P d" "region (set_config_count g d) a n = region d a n"
  "psram_up P (config_slot_free i d) = psram_up P d" "region (config_slot_free i d) a n = region d a n"
  "cfg_slots (set_config_count g d) = cfg_slots d" "length (cfg_slots (upd_config i f d)) = length (cfg_slots d)"
  "i < length (cfg_slots d) \<Longrightarrow> cfg_at (upd_config i f d) i = f (cfg_at d i)"
  "i \<noteq> j \<Longrightarrow> cfg_at (upd_config i f d) j = cfg_at d j" "i \<noteq> j \<Longrightarrow> cfg_at (config_slot_free i d) j = cfg_at d j"
  "dv_info (upd_config i f d) = dv_info d" "dv_info (set_config_count g d) = dv_info d"
  by (simp_all add: psram_up_def region_def upd_config_def set_config_count_def config_slot_free_def)

lemma cfg_len: "dev_wf d \<Longrightarrow> length (cfg_slots d) = CONFIG_SLOT_COUNT"
  by (simp add: dev_wf_def configs_wf_def)

lemma store_config_outcome:
  assumes "psram_up P d" "i < CONFIG_SLOT_COUNT" "i < length (cfg_slots d)" "length (config_payload pkt) \<le> MAX_CONFIG_SIZE"
  shows "fst (snd (store_config P pkt i d)) = Some i"
    "pf_crc32 P (config_payload pkt) = cfg_config_crc32 pkt \<Longrightarrow> fst (store_config P pkt i d) = STATUS_SUCCESS \<and>
       cfg_slots (snd (snd (store_config P pkt i d))) = (cfg_slots d)[i := fill_config_slot pkt (cfg_at d i)] \<and>
       region (snd (snd (store_config P pkt i d))) (config_slot_psram_addr i) (length (config_payload pkt)) = config_payload pkt"
    "pf_crc32 P (config_payload pkt) \<noteq> cfg_config_crc32 pkt \<Longrightarrow> fst (store_config P pkt i d) = STATUS_CRC_FAIL \<and>
       \<not> cs_active (cfg_at (snd (snd (store_config P pkt i d))) i)"
    "j \<noteq> i \<Longrightarrow> cfg_at (snd (snd (store_config P pkt i d))) j = cfg_at d j"
    "j < CONFIG_SLOT_COUNT \<Longrightarrow> j \<noteq> i \<Longrightarrow> region (snd (snd (store_config P pkt i d))) (config_slot_psram_addr j) MAX_CONFIG_SIZE
       = region d (config_slot_psram_addr j) MAX_CONFIG_SIZE"
    "psram_up P (snd (snd (store_config P pkt i d)))"
proof -
  let ?d = "upd_config i (fill_config_slot pkt) d"
  let ?w = "d_psram_write P (config_slot_psram_addr i) (config_payload pkt) ?d"
  have up: "psram_up P ?d" using assms(1) by simp
  note w = cfg_mem.write_slot[OF up assms(2,4)]
  have e: "store_config P pkt i d = (if pf_crc32 P (config_payload pkt) \<noteq> cfg_config_crc32 pkt
      then (STATUS_CRC_FAIL, Some i, config_slot_free i ?d) else (STATUS_SUCCESS, Some i, snd ?w))"
    using w(1) by (simp add: store_config_def Let_def split_beta)
  show "fst (snd (store_config P pkt i d)) = Some i" by (simp add: e)
  show "pf_crc32 P (config_payload pkt) = cfg_config_crc32 pkt \<Longrightarrow> fst (store_config P pkt i d) = STATUS_SUCCESS \<and>
       cfg_slots (snd (snd (store_config P pkt i d))) = (cfg_slots d)[i := fill_config_slot pkt (cfg_at d i)] \<and>
       region (snd (snd (store_config P pkt i d))) (config_slot_psram_addr i) (length (config_payload pkt)) = config_payload pkt"
    using w(2) by (simp add: e) (simp add: upd_config_def)
  show "pf_crc32 P (config_payload pkt) \<noteq> cfg_config_crc32 pkt \<Longrightarrow> fst (store_config P pkt i d) = STATUS_CRC_FAIL \<and>
       \<not> cs_active (cfg_at (snd (snd (store_config P pkt i d))) i)"
    using assms(3) by (simp add: e config_slot_free_def)
  show "j \<noteq> i \<Longrightarrow> cfg_at (snd (snd (store_config P pkt i d))) j = cfg_at d j" by (simp add: e)
  show "region (snd (snd (store_config P pkt i d))) (config_slot_psram_addr j) MAX_CONFIG_SIZE
       = region d (config_slot_psram_addr j) MAX_CONFIG_SIZE" if "j < CONFIG_SLOT_COUNT" "j \<noteq> i"
    using w(4)[OF that(1), of MAX_CONFIG_SIZE] that(2) by (simp add: e)
  show "psram_up P (snd (snd (store_config P pkt i d)))" using up w(3) by (simp add: e)
qed

text \<open>What a stored configuration looks like.\<close>

definition config_listed :: "config_t \<Rightarrow> nat \<Rightarrow> dev \<Rightarrow> bool" where
  "config_listed pkt i d \<longleftrightarrow> find_config_slot (cfg_dst_device_id pkt) d = Some i \<and> cs_active (cfg_at d i) \<and>
     \<not> cs_is_sent (cfg_at d i) \<and> \<not> cs_is_applied (cfg_at d i) \<and> cs_config_id (cfg_at d i) = cfg_data_id pkt \<and>
     cs_config_len (cfg_at d i) = cfg_config_len pkt \<and> cs_config_crc32 (cfg_at d i) = cfg_config_crc32 pkt \<and>
     cs_dst_device_type (cfg_at d i) = cfg_dst_device_type pkt"

definition config_stored :: "config_t \<Rightarrow> nat \<Rightarrow> dev \<Rightarrow> bool" where
  "config_stored pkt i d \<longleftrightarrow> config_listed pkt i d \<and>
     region d (config_slot_psram_addr i) (length (config_payload pkt)) = config_payload pkt"

definition config_outcome :: "platform \<Rightarrow> config_t \<Rightarrow> dev \<Rightarrow> u8 \<times> nat option \<times> dev \<Rightarrow> bool" where
  "config_outcome P pkt d r \<longleftrightarrow> (\<exists>i<CONFIG_SLOT_COUNT. fst (snd r) = Some i \<and> psram_up P (snd (snd r)) \<and>
     (if pf_crc32 P (config_payload pkt) = cfg_config_crc32 pkt
      then fst r = STATUS_SUCCESS \<and> config_stored pkt i (snd (snd r))
      else fst r = STATUS_CRC_FAIL \<and> \<not> cs_active (cfg_at (snd (snd r)) i)) \<and>
     (\<forall>j<CONFIG_SLOT_COUNT. j \<noteq> i \<longrightarrow> cfg_at (snd (snd r)) j = cfg_at d j \<and>
        region (snd (snd r)) (config_slot_psram_addr j) MAX_CONFIG_SIZE = region d (config_slot_psram_addr j) MAX_CONFIG_SIZE))"

lemma validate_config_stores:
  assumes "psram_up P d" "dev_wf d" "unat (cfg_config_len pkt) \<le> MAX_CONFIG_SIZE"
    "\<not> (get_device_type d = DEVICE_TYPE_SENSOR \<and> cfg_dst_device_id pkt \<noteq> get_device_id d)"
    "case find_config_slot (cfg_dst_device_id pkt) d of
       None \<Rightarrow> \<exists>x\<in>set (cfg_slots d). \<not> cs_active x
     | Some i \<Rightarrow> \<not> (cs_config_crc32 (cfg_at d i) = cfg_config_crc32 pkt \<and> cs_config_len (cfg_at d i) = cfg_config_len pkt)"
  shows "config_outcome P pkt d (validate_config P pkt d)"
proof -
  let ?dst = "cfg_dst_device_id pkt" and ?r = "validate_config P pkt d"
  have l: "length (config_payload pkt) \<le> MAX_CONFIG_SIZE" using assms(3) by (simp add: config_payload_def)
  have fill: "cs_active (fill_config_slot pkt x)" "cs_dst_device_id (fill_config_slot pkt x) = ?dst" for x
    by (simp_all add: fill_config_slot_def)
  show ?thesis
  proof (cases "find_config_slot ?dst d")
    case (Some i)
    have i: "i < length (cfg_slots d)" "i < CONFIG_SLOT_COUNT" "cs_active (cfg_at d i)" "cs_dst_device_id (cfg_at d i) = ?dst"
      using find_idx_SomeD[OF Some[unfolded find_config_slot_def]] cfg_len[OF assms(2)] by auto
    have r: "?r = store_config P pkt i d" using Some assms(4,5) by (auto simp: validate_config_def)
    note s = store_config_outcome[OF assms(1) i(2,1) l]
    have find: "find_config_slot ?dst (snd (snd ?r)) = Some i"
      if "cfg_slots (snd (snd ?r)) = (cfg_slots d)[i := fill_config_slot pkt (cfg_at d i)]"
      unfolding find_config_slot_def that using Some fill i(3,4) by (subst find_idx_update) (simp_all add: find_config_slot_def)
    show ?thesis unfolding config_outcome_def config_stored_def config_listed_def
      using s i find unfolding r by (intro exI[of _ i]) (auto simp: fill_config_slot_def)
  next
    case None
    then obtain i where f: "find_idx (\<lambda>s. \<not> cs_active s) (cfg_slots d) = Some i"
      using assms(5) by (auto dest: find_idx_ex)
    have i: "i < length (cfg_slots d)" "i < CONFIG_SLOT_COUNT" using find_idx_less[OF f] cfg_len[OF assms(2)] by simp_all
    let ?g = "\<lambda>s. s\<lparr>cs_is_sent := False, cs_is_applied := False, cs_is_transfered := False\<rparr>"
    obtain c where r: "?r = store_config P pkt i (set_config_count c (upd_config i ?g d))"
      using None assms(4) f by (auto simp: validate_config_def alloc_config_slot_def)
    let ?d = "set_config_count c (upd_config i ?g d)"
    have d: "psram_up P ?d" "i < length (cfg_slots ?d)" using assms(1) i(1) by simp_all
    note s = store_config_outcome[OF d(1) i(2) d(2) l]
    have slots: "(cfg_slots ?d)[i := x] = (cfg_slots d)[i := x]" for x by (simp add: upd_config_def)
    have other: "cfg_at ?d j = cfg_at d j" if "j \<noteq> i" for j using that by simp
    have find: "find_config_slot ?dst (snd (snd ?r)) = Some i"
      if "cfg_slots (snd (snd ?r)) = (cfg_slots d)[i := fill_config_slot pkt (cfg_at ?d i)]"
      unfolding find_config_slot_def that by (rule find_idx_new[OF None[unfolded find_config_slot_def] i(1)]) (simp add: fill)
    show ?thesis unfolding config_outcome_def config_stored_def config_listed_def
      using s[unfolded slots] i find other unfolding r by (intro exI[of _ i]) (auto simp: fill_config_slot_def)
  qed
qed

text \<open>The same without a working memory chip.\<close>

lemma store_config_any:
  fixes P :: platform and pkt :: config_t
  assumes "i < length (cfg_slots d)"
  defines "err \<equiv> fst (psram_write P (dv_psram d) (config_slot_psram_addr i) (config_payload pkt))"
  defines "v \<equiv> store_config P pkt i d"
  shows "fst (snd v) = Some i"
    "fst v = (if pf_crc32 P (config_payload pkt) \<noteq> cfg_config_crc32 pkt then STATUS_CRC_FAIL
       else if err \<noteq> 0 then STATUS_FAILURE else STATUS_SUCCESS)"
    "fst v \<noteq> STATUS_SUCCESS \<Longrightarrow> \<not> cs_active (cfg_at (snd (snd v)) i)"
    "fst v = STATUS_SUCCESS \<Longrightarrow> cfg_slots (snd (snd v)) = (cfg_slots d)[i := fill_config_slot pkt (cfg_at d i)]"
    "j \<noteq> i \<Longrightarrow> cfg_at (snd (snd v)) j = cfg_at d j"
proof -
  let ?d = "upd_config i (fill_config_slot pkt) d"
  have "dv_psram ?d = dv_psram d" by (simp add: upd_config_def)
  then have v: "v = (if pf_crc32 P (config_payload pkt) \<noteq> cfg_config_crc32 pkt then (STATUS_CRC_FAIL, Some i, config_slot_free i ?d)
      else if err \<noteq> 0 then (STATUS_FAILURE, Some i,
        config_slot_free i (?d\<lparr>dv_psram := snd (psram_write P (dv_psram d) (config_slot_psram_addr i) (config_payload pkt))\<rparr>))
      else (STATUS_SUCCESS, Some i, ?d\<lparr>dv_psram := snd (psram_write P (dv_psram d) (config_slot_psram_addr i) (config_payload pkt))\<rparr>))"
    by (simp add: v_def err_def store_config_def d_psram_write_def split_beta Let_def)
  show "fst (snd v) = Some i" "fst v = (if pf_crc32 P (config_payload pkt) \<noteq> cfg_config_crc32 pkt then STATUS_CRC_FAIL
       else if err \<noteq> 0 then STATUS_FAILURE else STATUS_SUCCESS)" by (simp_all add: v)
  show "fst v \<noteq> STATUS_SUCCESS \<Longrightarrow> \<not> cs_active (cfg_at (snd (snd v)) i)"
    using assms(1) by (auto simp: v config_slot_free_def upd_config_def set_config_count_def split: if_splits)
  show "fst v = STATUS_SUCCESS \<Longrightarrow> cfg_slots (snd (snd v)) = (cfg_slots d)[i := fill_config_slot pkt (cfg_at d i)]"
    by (auto simp: v upd_config_def split: if_splits)
  show "j \<noteq> i \<Longrightarrow> cfg_at (snd (snd v)) j = cfg_at d j"
    by (simp add: v)
qed

text \<open>A configuration that is not refused goes to the slot of its destination or to a free one.\<close>

lemma validate_config_slot:
  assumes "dev_wf d" "\<not> (get_device_type d = DEVICE_TYPE_SENSOR \<and> cfg_dst_device_id pkt \<noteq> get_device_id d)"
    "case find_config_slot (cfg_dst_device_id pkt) d of
       None \<Rightarrow> \<exists>x\<in>set (cfg_slots d). \<not> cs_active x
     | Some i \<Rightarrow> \<not> (cs_config_crc32 (cfg_at d i) = cfg_config_crc32 pkt \<and> cs_config_len (cfg_at d i) = cfg_config_len pkt)"
  obtains i e where "validate_config P pkt d = store_config P pkt i e" "i < length (cfg_slots e)" "i < CONFIG_SLOT_COUNT"
    "dv_psram e = dv_psram d" "\<And>j. j \<noteq> i \<Longrightarrow> cfg_at e j = cfg_at d j"
    "find_idx (\<lambda>s. cs_active s \<and> cs_dst_device_id s = cfg_dst_device_id pkt)
      ((cfg_slots e)[i := fill_config_slot pkt (cfg_at e i)]) = Some i"
proof (cases "find_config_slot (cfg_dst_device_id pkt) d")
  case (Some i)
  have i: "i < length (cfg_slots d)" "i < CONFIG_SLOT_COUNT" "cs_active (cfg_at d i)" "cs_dst_device_id (cfg_at d i) = cfg_dst_device_id pkt"
    using find_idx_SomeD[OF Some[unfolded find_config_slot_def]] cfg_len[OF assms(1)] by auto
  have "find_idx (\<lambda>s. cs_active s \<and> cs_dst_device_id s = cfg_dst_device_id pkt)
      ((cfg_slots d)[i := fill_config_slot pkt (cfg_at d i)]) = Some i"
    using Some i(3,4) by (subst find_idx_update) (simp_all add: find_config_slot_def fill_config_slot_def)
  moreover have "validate_config P pkt d = store_config P pkt i d" using Some assms(2,3) by (auto simp: validate_config_def)
  ultimately show ?thesis using i(1,2) by (intro that[of i d]) simp_all
next
  case None
  then obtain i where f: "find_idx (\<lambda>s. \<not> cs_active s) (cfg_slots d) = Some i"
    using assms(3) by (auto dest: find_idx_ex)
  have i: "i < length (cfg_slots d)" "i < CONFIG_SLOT_COUNT" using find_idx_less[OF f] cfg_len[OF assms(1)] by simp_all
  let ?g = "\<lambda>s. s\<lparr>cs_is_sent := False, cs_is_applied := False, cs_is_transfered := False\<rparr>"
  obtain c where r: "validate_config P pkt d = store_config P pkt i (set_config_count c (upd_config i ?g d))"
    using None assms(2) f by (auto simp: validate_config_def alloc_config_slot_def)
  let ?e = "set_config_count c (upd_config i ?g d)"
  have "(cfg_slots ?e)[i := x] = (cfg_slots d)[i := x]" for x by (simp add: upd_config_def)
  then have "find_idx (\<lambda>s. cs_active s \<and> cs_dst_device_id s = cfg_dst_device_id pkt)
      ((cfg_slots ?e)[i := fill_config_slot pkt (cfg_at ?e i)]) = Some i"
    by (simp only:) (rule find_idx_new[OF None[unfolded find_config_slot_def] i(1)], simp add: fill_config_slot_def)
  moreover have "dv_psram ?e = dv_psram d" by (simp add: set_config_count_def upd_config_def)
  ultimately show ?thesis using i r by (intro that[of i ?e]) simp_all
qed

text \<open>
  C17: What becomes of a configuration packet, on every branch. A sensor refuses one for another
  device; one that is already stored with the same length and checksum changes nothing; without a
  free slot it is refused. Otherwise it goes to one slot: with a wrong checksum, or when the write to
  the memory chip fails, the answer says so and the slot is free afterwards; else it is stored under
  its destination, and when the chip works all its bytes are there. No other configuration changes.
\<close>

theorem validate_config_outcome:
  fixes P :: platform and d :: dev and pkt :: config_t
  assumes "dev_wf d"
  defines "slot \<equiv> find_config_slot (cfg_dst_device_id pkt) d" and "v \<equiv> validate_config P pkt d"
  shows "if get_device_type d = DEVICE_TYPE_SENSOR \<and> cfg_dst_device_id pkt \<noteq> get_device_id d
    then v = (STATUS_FAILURE, None, d)
    else if \<exists>i. slot = Some i \<and> cs_config_crc32 (cfg_at d i) = cfg_config_crc32 pkt \<and> cs_config_len (cfg_at d i) = cfg_config_len pkt
    then v = (STATUS_ALREADY_EXISTS, slot, d)
    else if slot = None \<and> (\<forall>x\<in>set (cfg_slots d). cs_active x)
    then v = (STATUS_RESOURCE_UNAVAILABLE, None, d)
    else (\<exists>i<CONFIG_SLOT_COUNT. fst (snd v) = Some i \<and> (\<forall>j. j \<noteq> i \<longrightarrow> cfg_at (snd (snd v)) j = cfg_at d j) \<and>
        (if pf_crc32 P (config_payload pkt) \<noteq> cfg_config_crc32 pkt
         then fst v = STATUS_CRC_FAIL \<and> \<not> cs_active (cfg_at (snd (snd v)) i)
         else if fst (psram_write P (dv_psram d) (config_slot_psram_addr i) (config_payload pkt)) \<noteq> 0
         then fst v = STATUS_FAILURE \<and> \<not> cs_active (cfg_at (snd (snd v)) i)
         else fst v = STATUS_SUCCESS \<and> config_listed pkt i (snd (snd v)))) \<and>
      (psram_up P d \<and> unat (cfg_config_len pkt) \<le> MAX_CONFIG_SIZE \<longrightarrow> config_outcome P pkt d v)"
proof -
  consider (other) "get_device_type d = DEVICE_TYPE_SENSOR \<and> cfg_dst_device_id pkt \<noteq> get_device_id d"
    | (same) i where "\<not> (get_device_type d = DEVICE_TYPE_SENSOR \<and> cfg_dst_device_id pkt \<noteq> get_device_id d)" "slot = Some i"
        "cs_config_crc32 (cfg_at d i) = cfg_config_crc32 pkt \<and> cs_config_len (cfg_at d i) = cfg_config_len pkt"
    | (full) "\<not> (get_device_type d = DEVICE_TYPE_SENSOR \<and> cfg_dst_device_id pkt \<noteq> get_device_id d)" "slot = None"
        "\<forall>x\<in>set (cfg_slots d). cs_active x"
    | (store) "\<not> (get_device_type d = DEVICE_TYPE_SENSOR \<and> cfg_dst_device_id pkt \<noteq> get_device_id d)"
        "case slot of None \<Rightarrow> \<exists>x\<in>set (cfg_slots d). \<not> cs_active x
          | Some i \<Rightarrow> \<not> (cs_config_crc32 (cfg_at d i) = cfg_config_crc32 pkt \<and> cs_config_len (cfg_at d i) = cfg_config_len pkt)"
    by (cases slot) auto
  then show ?thesis
  proof cases
    case other
    then show ?thesis by (simp add: validate_config_def v_def)
  next
    case (same i)
    then show ?thesis by (auto simp: validate_config_def slot_def v_def)
  next
    case full
    then have "find_idx (\<lambda>s. \<not> cs_active s) (cfg_slots d) = None" by (simp add: find_idx_None_iff)
    then show ?thesis using full by (auto simp: validate_config_def alloc_config_slot_def slot_def v_def)
  next
    case store
    obtain i e where i: "validate_config P pkt d = store_config P pkt i e" "i < length (cfg_slots e)" "i < CONFIG_SLOT_COUNT"
      "dv_psram e = dv_psram d" "\<And>j. j \<noteq> i \<Longrightarrow> cfg_at e j = cfg_at d j"
      "find_idx (\<lambda>s. cs_active s \<and> cs_dst_device_id s = cfg_dst_device_id pkt)
        ((cfg_slots e)[i := fill_config_slot pkt (cfg_at e i)]) = Some i"
      by (rule validate_config_slot[OF assms(1) store(1) store(2)[unfolded slot_def], of P]) (rule that)
    note s = store_config_any[OF i(2), where P = P and pkt = pkt, folded i(1) v_def, unfolded i(4)]
    have "config_listed pkt i (snd (snd v))" if "fst v = STATUS_SUCCESS"
      using s(4)[OF that] i(2,6) by (simp add: config_listed_def find_config_slot_def fill_config_slot_def)
    then have "\<exists>i<CONFIG_SLOT_COUNT. fst (snd v) = Some i \<and> (\<forall>j. j \<noteq> i \<longrightarrow> cfg_at (snd (snd v)) j = cfg_at d j) \<and>
        (if pf_crc32 P (config_payload pkt) \<noteq> cfg_config_crc32 pkt
         then fst v = STATUS_CRC_FAIL \<and> \<not> cs_active (cfg_at (snd (snd v)) i)
         else if fst (psram_write P (dv_psram d) (config_slot_psram_addr i) (config_payload pkt)) \<noteq> 0
         then fst v = STATUS_FAILURE \<and> \<not> cs_active (cfg_at (snd (snd v)) i)
         else fst v = STATUS_SUCCESS \<and> config_listed pkt i (snd (snd v)))"
      using s(1-3) s(5) i(3,5) by (intro exI[of _ i]) simp
    moreover have "config_outcome P pkt d v" if "psram_up P d" "unat (cfg_config_len pkt) \<le> MAX_CONFIG_SIZE"
      using that(1) assms(1) that(2) store unfolding slot_def v_def by (rule validate_config_stores)
    ultimately show ?thesis using store by (cases slot) auto
  qed
qed

definition ref_config :: config_t where
  "ref_config = \<lparr>cfg_hdr = ref_hdr PACKET_CONFIG DEVICE_TYPE_ANCHOR 5 0, cfg_dst_device_id = 5, cfg_dst_device_type = DEVICE_TYPE_SENSOR,
     cfg_data_type = DATA_TYPE_CONFIG, cfg_data_id = 3, cfg_route_info = zero_route, cfg_config_len = 2,
     cfg_config_crc32 = pf_crc32 ref_platform [1, 2], cfg_config = [1, 2]\<rparr>"

definition ref_sensor :: dev where
  "ref_sensor = boot_dev DEVICE_TYPE_SENSOR 5 0 ref_storage"

lemma ref_sensor_ok: "dev_wf ref_sensor" "psram_up ref_platform ref_sensor" "\<forall>x\<in>set (cfg_slots ref_sensor). \<not> cs_active x"
  "find_config_slot 5 ref_sensor = None" "\<exists>x\<in>set (cfg_slots ref_sensor). \<not> cs_active x"
proof -
  show "dev_wf ref_sensor"
    unfolding ref_sensor_def using storage_okD(1)[OF ref_storage_ok] by (rule boot_dev_wf)
  show "psram_up ref_platform ref_sensor" by (simp add: ref_sensor_def ref_psram_up)
  show a: "\<forall>x\<in>set (cfg_slots ref_sensor). \<not> cs_active x" by (auto simp: ref_sensor_def boot_dev_def boot_configs_def)
  show "find_config_slot 5 ref_sensor = None" using a by (simp add: find_config_slot_def find_idx_None_iff)
  have "cfg_at ref_sensor 0 \<in> set (cfg_slots ref_sensor)"
    using cfg_len[OF \<open>dev_wf ref_sensor\<close>] by simp
  then show "\<exists>x\<in>set (cfg_slots ref_sensor). \<not> cs_active x" using a by blast
qed

theorem validate_config_outcome_witness:
  "config_outcome ref_platform ref_config ref_sensor (validate_config ref_platform ref_config ref_sensor)"
proof -
  have "cfg_dst_device_id ref_config = 5" "unat (cfg_config_len ref_config) = 2" "get_device_id ref_sensor = 5"
    by (simp_all add: ref_config_def ref_sensor_def)
  moreover have "\<not> (\<forall>x\<in>set (cfg_slots ref_sensor). cs_active x)" using ref_sensor_ok(5) by blast
  ultimately show ?thesis
    using validate_config_outcome[OF ref_sensor_ok(1), of ref_config ref_platform] ref_sensor_ok(2,4) by simp
qed

section \<open>From the air to the host\<close>

lemma length_at_fields: "fs \<noteq> [] \<Longrightarrow> length (at_fields fs) + 1 = sum_list (map (\<lambda>f. length f + 3) fs)"
  by (induction fs rule: at_fields.induct) auto

lemma config_line_short:
  assumes "length payload \<le> MAX_CONFIG_SIZE" shows "length (config_line sn s payload) < SLM_UART_AT_COMMAND_LEN"
proof -
  let ?fs = "[hex_fixed True 16 (unat sn), hex_fixed True 4 (unat (cs_config_id s)), hex_fixed True 4 (unat (cs_config_len s)),
     hex_fixed True 8 (unat (cs_config_crc32 s)), hex_bytes payload]"
  have "length (at_fields ?fs) + 1 = sum_list (map (\<lambda>f. length f + 3) ?fs)" by (rule length_at_fields) simp
  also have "\<dots> = 47 + 2 * length payload" by simp
  finally show ?thesis using assms unfolding config_line_def by simp
qed

lemma sensor_config_emit_line:
  assumes "psram_up P d" "i < CONFIG_SLOT_COUNT" "i < length (cfg_slots d)" "unat (cs_config_len (cfg_at d i)) \<le> MAX_CONFIG_SIZE"
    "\<And>out s. pf_uart_write P out s = (0, out @ s)"
  defines "payload \<equiv> region d (config_slot_psram_addr i) (unat (cs_config_len (cfg_at d i)))"
  shows "sensor_config_emit P i d = upd_config i (\<lambda>s. s\<lparr>cs_is_sent := True\<rparr>)
      (let d = d\<lparr>dv_uart := dv_uart d @ config_line (get_serial_number d) (cfg_at d i) payload\<rparr> in
        if nbtimeout_is_active (cs_timeout (cfg_at d i)) then d
        else start_config_timeout i SENSOR_CONFIG_TIMEOUT_MS SENSOR_CONFIG_MAX_RETRIES d)"
    "dv_uart (sensor_config_emit P i d) = dv_uart d @ config_line (get_serial_number d) (cfg_at d i) payload"
    "cs_is_sent (cfg_at (sensor_config_emit P i d) i)"
proof -
  let ?l = "config_line (get_serial_number d) (cfg_at d i) payload"
  note rd = cfg_mem.read_slot[OF assms(1,2,4,4), folded payload_def]
  have len: "length payload = unat (cs_config_len (cfg_at d i))" by (simp add: payload_def)
  have "\<not> SLM_UART_AT_COMMAND_LEN \<le> length ?l" using config_line_short[of payload] len assms(4) by (simp add: not_le)
  then show e: "sensor_config_emit P i d = upd_config i (\<lambda>s. s\<lparr>cs_is_sent := True\<rparr>)
      (let d = d\<lparr>dv_uart := dv_uart d @ ?l\<rparr> in if nbtimeout_is_active (cs_timeout (cfg_at d i)) then d
        else start_config_timeout i SENSOR_CONFIG_TIMEOUT_MS SENSOR_CONFIG_MAX_RETRIES d)"
    using assms(5) len by (simp add: sensor_config_emit_def rd Let_def slm_at_tx_write_def)
  show "dv_uart (sensor_config_emit P i d) = dv_uart d @ ?l"
    unfolding e by (simp add: Let_def start_config_timeout_def) (simp add: upd_config_def)
  show "cs_is_sent (cfg_at (sensor_config_emit P i d) i)"
    using assms(3) by (simp add: e Let_def start_config_timeout_def)
qed

text \<open>
  C16: A configuration reaches the sensor's host unchanged. If a sensor gets a configuration for
  itself with the right checksum that it does not have yet, it finds room for it, and the line that
  it then writes to its host parses into exactly its id, length, checksum and bytes.
\<close>

theorem config_reaches_host:
  fixes P :: platform and d :: dev and pkt :: config_t and src :: u16 and rssi :: s16
  assumes "psram_up P d" "dev_wf d" "get_device_type d = DEVICE_TYPE_SENSOR"
    "ph_device_id (cfg_hdr pkt) = get_device_id d" "ph_device_type (cfg_hdr pkt) \<in> {DEVICE_TYPE_GATEWAY, DEVICE_TYPE_ANCHOR}"
    "cfg_dst_device_id pkt = get_device_id d" "cfg_config_len pkt \<noteq> 0" "length (config_payload pkt) = unat (cfg_config_len pkt)"
    "unat (cfg_config_len pkt) \<le> MAX_CONFIG_SIZE" "cfg_config_crc32 pkt = pf_crc32 P (config_payload pkt)"
    "find_config_slot (get_device_id d) d = None" "\<exists>x\<in>set (cfg_slots d). \<not> cs_active x"
    "\<And>out s. pf_uart_write P out s = (0, out @ s)"
  shows "\<exists>i line. find_config_slot (get_device_id d) (handle_config P pkt src rssi d) = Some i \<and>
    dv_uart (sensor_config_emit P i (handle_config P pkt src rssi d)) = dv_uart d @ line \<and>
    cs_is_sent (cfg_at (sensor_config_emit P i (handle_config P pkt src rssi d)) i) \<and>
    parse_config P line = Some (get_serial_number d, \<lparr>as_device_id = 0, as_device_type = 0, as_data_id = cfg_data_id pkt,
      as_data_len = ucast (cfg_config_len pkt), as_data_crc32 = cfg_config_crc32 pkt\<rparr>, config_payload pkt)"
proof -
  let ?v = "validate_config P pkt d"
  have "config_outcome P pkt d ?v"
    using assms(1,2,3,6,9,11,12) by (intro validate_config_stores) simp_all
  then obtain i where i: "i < CONFIG_SLOT_COUNT" "fst ?v = STATUS_SUCCESS" "config_stored pkt i (snd (snd ?v))" "psram_up P (snd (snd ?v))"
    using assms(10) by (auto simp: config_outcome_def)
  obtain ack where h: "handle_config P pkt src rssi d = proc (send_config_ack P ack src (ph_priority (cfg_hdr pkt))
      (ph_tracking_id (cfg_hdr pkt))) (snd (snd ?v))"
  proof
    show "handle_config P pkt src rssi d = proc (send_config_ack P (config_ack_of pkt STATUS_SUCCESS) src (ph_priority (cfg_hdr pkt))
      (ph_tracking_id (cfg_hdr pkt))) (snd (snd ?v))"
      using assms(3-5,7,9) i(2) by (auto simp: handle_config_def valid_device_type_def split_beta Let_def)
  qed
  let ?h = "handle_config P pkt src rssi d"
  have frame: "dv_config ?h = dv_config (snd (snd ?v))" "region ?h a n = region (snd (snd ?v)) a n"
    "psram_up P ?h" "dv_uart ?h = dv_uart (snd (snd ?v))" "dv_info ?h = dv_info (snd (snd ?v))" for a n
    using i(4) by (simp_all add: h) (simp_all add: proc_def send_config_ack_def send_plain_def)
  have vf: "dv_uart (snd (snd ?v)) = dv_uart d \<and> dv_info (snd (snd ?v)) = dv_info d"
    by (auto simp: validate_config_def store_config_def alloc_config_slot_def Let_def split_beta upd_config_def
        set_config_count_def config_slot_free_def split: option.splits)
  let ?s = "cfg_at ?h i"
  have st: "find_config_slot (get_device_id d) ?h = Some i" "cs_config_id ?s = cfg_data_id pkt" "cs_config_len ?s = cfg_config_len pkt"
    "cs_config_crc32 ?s = cfg_config_crc32 pkt" "region ?h (config_slot_psram_addr i) (unat (cfg_config_len pkt)) = config_payload pkt"
    using i(3) assms(6,8) by (simp_all add: config_stored_def config_listed_def frame find_config_slot_def)
  have len: "i < length (cfg_slots ?h)" using find_idx_less[OF st(1)[unfolded find_config_slot_def]] .
  have "unat (cs_config_len ?s) \<le> MAX_CONFIG_SIZE" using st(3) assms(9) by simp
  note e = sensor_config_emit_line[OF frame(3) i(1) len this assms(13)]
  have "z \<noteq> 0 \<Longrightarrow> z \<noteq> (0 :: u8)" for z by simp
  have "dv_uart (sensor_config_emit P i ?h) = dv_uart d @ config_line (get_serial_number d) ?s (config_payload pkt)"
    using e(2) vf frame(4,5) st(3,5) by simp
  moreover have "parse_config P (config_line (get_serial_number d) ?s (config_payload pkt)) =
      Some (get_serial_number d, \<lparr>as_device_id = 0, as_device_type = 0, as_data_id = cfg_data_id pkt,
        as_data_len = ucast (cfg_config_len pkt), as_data_crc32 = cfg_config_crc32 pkt\<rparr>, config_payload pkt)"
    using st assms(7-10) by (simp add: config_line_parses_back)
  ultimately show ?thesis using st(1) e(3) by blast
qed

theorem config_reaches_host_witness:
  "\<exists>i. cs_is_sent (cfg_at (sensor_config_emit ref_platform i (handle_config ref_platform ref_config 7 0 ref_sensor)) i)"
proof -
  have uart: "pf_uart_write ref_platform out s = (0, out @ s)" for out s by (simp add: ref_platform_def)
  have s: "get_device_type ref_sensor = DEVICE_TYPE_SENSOR" "get_device_id ref_sensor = 5" by (simp_all add: ref_sensor_def)
  show ?thesis
    using config_reaches_host[OF ref_sensor_ok(2,1) s(1), of ref_config 7 0] ref_sensor_ok(4,5) s(2) uart
    by (simp add: ref_config_def ref_hdr_def config_payload_def) blast
qed

end
