(* ===== verification/Config_Offers.thy ===== *)
theory Config_Offers
  imports Config_Props "HOL-Library.Sublist"
begin

text \<open>
  How often a sensor offers a configuration to its host (sensor_config_tick of src/config.c) when no
  answer comes: three times, 30 seconds apart, after which the slot is free.
\<close>

text \<open>Loops over the slots in which only slot \<open>i\<close> is handled.\<close>

lemma seqs_idle: "\<forall>j\<in>set is. f j d = d \<Longrightarrow> seqs (map f is) d = d"
  by (induction "is") auto

lemma seqs_one:
  assumes "i \<in> set is" "distinct is" "dv_status d = Running" "\<forall>j\<in>set is. j \<noteq> i \<longrightarrow> f j d = d \<and> f j (f i d) = f i d"
  shows "seqs (map f is) d = f i d"
proof -
  obtain xs ys where s: "is = xs @ i # ys" using split_list[OF assms(1)] by blast
  then have "seqs (map f xs) d = d" "seqs (map f ys) (f i d) = f i d"
    using assms(2,4) by (auto intro!: seqs_idle)
  then show ?thesis using assms(3) by (simp add: s seqs_append)
qed

lemma process_upto_idle: "\<forall>j\<in>set is. \<not> sel j d \<Longrightarrow> process_upto k sel f is d = d"
  by (induction "is") auto

lemma process_upto_skip:
  "\<forall>j\<in>set xs. \<not> sel j d \<Longrightarrow> dv_status d = Running \<Longrightarrow> 0 < k \<Longrightarrow> process_upto k sel f (xs @ ys) d = process_upto k sel f ys d"
  by (induction xs) auto

lemma process_upto_one:
  assumes "i \<in> set is" "distinct is" "dv_status d = Running" "0 < k" "sel i d" "\<forall>j\<in>set is. j \<noteq> i \<longrightarrow> \<not> sel j d \<and> \<not> sel j (f i d)"
  shows "process_upto k sel f is d = f i d"
proof -
  obtain xs ys where s: "is = xs @ i # ys" using split_list[OF assms(1)] by blast
  then have "process_upto k sel f (xs @ i # ys) d = process_upto k sel f (i # ys) d"
    using assms(2-4,6) by (intro process_upto_skip) auto
  moreover have "process_upto (k - 1) sel f ys (f i d) = f i d"
    using s assms(2,6) by (intro process_upto_idle) auto
  ultimately show ?thesis using assms(3-5) by (simp add: s)
qed

text \<open>The sensor has only slot \<open>i\<close> in use, with the line \<open>l\<close>, which it has sent \<open>n\<close> times, at \<open>t\<close> last.\<close>

definition only_slot :: "nat \<Rightarrow> dev \<Rightarrow> bool" where
  "only_slot i d \<longleftrightarrow> i < CONFIG_SLOT_COUNT \<and> (\<forall>j<CONFIG_SLOT_COUNT. cs_active (cfg_at d j) \<longrightarrow> j = i)"

definition slot_line :: "nat \<Rightarrow> dev \<Rightarrow> string" where
  "slot_line i d = config_line (get_serial_number d) (cfg_at d i)
     (region d (config_slot_psram_addr i) (unat (cs_config_len (cfg_at d i))))"

definition config_sensor :: "platform \<Rightarrow> dev \<Rightarrow> bool" where
  "config_sensor P d \<longleftrightarrow> psram_up P d \<and> dev_wf d \<and> dv_status d = Running \<and> get_device_type d = DEVICE_TYPE_SENSOR"

definition offering :: "platform \<Rightarrow> nat \<Rightarrow> string \<Rightarrow> nat \<Rightarrow> s64 \<Rightarrow> dev \<Rightarrow> bool" where
  "offering P i l n t d \<longleftrightarrow> config_sensor P d \<and> only_slot i d \<and> cs_active (cfg_at d i) \<and> \<not> cs_is_applied (cfg_at d i) \<and>
     slot_line i d = l \<and> (cs_is_sent (cfg_at d i) \<longleftrightarrow> 0 < n) \<and>
     (if n = 0 then deadline_ms (cs_timeout (cfg_at d i)) = 0
      else cs_timeout (cfg_at d i) = \<lparr>deadline_ms = t + 30000, duration_ms = 30000, retries = word_of_nat n, max_retries = 3\<rparr>)"

definition config_ticks :: "platform \<Rightarrow> s64 list \<Rightarrow> dev \<Rightarrow> dev" where
  "config_ticks P ts d = fold (\<lambda>now d. sensor_config_tick P (d\<lparr>dv_now := now\<rparr>)) ts d"

lemma set_now_frames [simp]:
  "psram_up P (d\<lparr>dv_now := now\<rparr>) = psram_up P d" "region (d\<lparr>dv_now := now\<rparr>) a k = region d a k"
  "dev_wf (d\<lparr>dv_now := now\<rparr>) = dev_wf d"
  by (simp_all add: psram_up_def region_def dev_wf_def)

lemma upd_config_id: "f (cfg_at d i) = cfg_at d i \<Longrightarrow> upd_config i f d = d"
  by (simp add: upd_config_def)

lemma upd_config_twice:
  "i < length (cfg_slots d) \<Longrightarrow> upd_config i f (upd_config i g d) = upd_config i (\<lambda>x. f (g x)) d"
  by (simp add: upd_config_def)

lemma idle_tick:
  assumes "config_sensor P d" "\<forall>j<CONFIG_SLOT_COUNT. \<not> cs_active (cfg_at d j)"
  shows "sensor_config_tick P (d\<lparr>dv_now := now\<rparr>) = d\<lparr>dv_now := now\<rparr>"
proof -
  have "for_slots CONFIG_SLOT_COUNT sensor_config_timeouts (d\<lparr>dv_now := now\<rparr>) = d\<lparr>dv_now := now\<rparr>"
    unfolding for_slots_def using assms(2) by (intro seqs_idle) (auto simp: sensor_config_timeouts_def)
  moreover have "process_upto PROCESS_CONFIG_SLOTS
       (\<lambda>i d. cs_active (cfg_at d i) \<and> \<not> cs_is_sent (cfg_at d i) \<and> \<not> cs_is_applied (cfg_at d i))
       (sensor_config_emit P) [0..<CONFIG_SLOT_COUNT] (d\<lparr>dv_now := now\<rparr>) = d\<lparr>dv_now := now\<rparr>"
    using assms(2) by (intro process_upto_idle) auto
  ultimately show ?thesis using assms(1) by (simp add: sensor_config_tick_def config_sensor_def)
qed

lemma retry_config_frame:
  "dv_status (retry_config i d) = dv_status d" "j \<noteq> i \<Longrightarrow> cfg_at (retry_config i d) j = cfg_at d j"
  "dv_info (retry_config i d) = dv_info d"
  by (simp_all add: retry_config_def split_beta Let_def)
    (simp_all add: upd_config_def set_config_count_def config_slot_free_def)

lemma sensor_timeouts_frame:
  "dv_status (sensor_config_timeouts i d) = dv_status d" "j \<noteq> i \<Longrightarrow> cfg_at (sensor_config_timeouts i d) j = cfg_at d j"
  "dv_info (sensor_config_timeouts i d) = dv_info d"
  unfolding sensor_config_timeouts_def Let_def
  by (simp_all add: retry_config_frame) (simp_all add: upd_config_def)

lemma sensor_emit_frame:
  assumes "j \<noteq> i" shows "cfg_at (sensor_config_emit P i d) j = cfg_at d j"
proof -
  have "cfg_slots (snd (snd (d_psram_read P a n k x))) = cfg_slots x" "cfg_slots (snd (slm_at_tx_write P l x)) = cfg_slots x" for a n k l x
    by (simp_all add: d_psram_read_def slm_at_tx_write_def fault_def split_beta Let_def)
  then show ?thesis using assms by (simp add: sensor_config_emit_def start_config_timeout_def split_beta Let_def)
qed

lemma idle_ticks:
  assumes "\<forall>j<CONFIG_SLOT_COUNT. \<not> cs_active (cfg_at d j)" "config_sensor P d"
  shows "dv_uart (config_ticks P ts d) = dv_uart d \<and> cfg_slots (config_ticks P ts d) = cfg_slots d"
  using assms
proof (induction ts arbitrary: d)
  case (Cons u ts)
  have "config_ticks P (u # ts) d = config_ticks P ts (d\<lparr>dv_now := u\<rparr>)"
    using idle_tick[OF Cons.prems(2,1)] by (simp add: config_ticks_def)
  then show ?case using Cons.IH[of "d\<lparr>dv_now := u\<rparr>"] Cons.prems by (simp add: config_sensor_def)
qed (simp add: config_ticks_def)

lemma config_tick_one:
  assumes "config_sensor P d" "only_slot i d"
  defines "s \<equiv> sensor_config_timeouts i d"
  shows "sensor_config_tick P d =
    (if cs_active (cfg_at s i) \<and> \<not> cs_is_sent (cfg_at s i) \<and> \<not> cs_is_applied (cfg_at s i) then sensor_config_emit P i s else s)"
proof -
  let ?sel = "\<lambda>i d. cs_active (cfg_at d i) \<and> \<not> cs_is_sent (cfg_at d i) \<and> \<not> cs_is_applied (cfg_at d i)"
  have i: "i < CONFIG_SLOT_COUNT" and off: "\<And>j. j < CONFIG_SLOT_COUNT \<Longrightarrow> j \<noteq> i \<Longrightarrow> \<not> cs_active (cfg_at d j)"
    using assms(2) by (auto simp: only_slot_def)
  have run: "dv_status d = Running" "dv_status s = Running" and sens: "get_device_type d = DEVICE_TYPE_SENSOR"
    using assms(1) by (simp_all add: config_sensor_def s_def sensor_timeouts_frame)
  have offs: "\<not> cs_active (cfg_at s j)" "\<not> cs_active (cfg_at (sensor_config_emit P i s) j)" if "j < CONFIG_SLOT_COUNT" "j \<noteq> i" for j
    using off[OF that] that(2) by (simp_all add: s_def sensor_timeouts_frame sensor_emit_frame)
  have "for_slots CONFIG_SLOT_COUNT sensor_config_timeouts d = s"
    unfolding for_slots_def s_def
  proof (rule seqs_one)
    have "sensor_config_timeouts j x = x" if "\<not> cs_active (cfg_at x j)" for j x
      using that by (simp add: sensor_config_timeouts_def)
    then show "\<forall>j\<in>set [0..<CONFIG_SLOT_COUNT]. j \<noteq> i \<longrightarrow>
        sensor_config_timeouts j d = d \<and> sensor_config_timeouts j (sensor_config_timeouts i d) = sensor_config_timeouts i d"
      using off offs(1) by (simp add: s_def)
  qed (use i run in simp_all)
  moreover have "process_upto PROCESS_CONFIG_SLOTS ?sel (sensor_config_emit P) [0..<CONFIG_SLOT_COUNT] s =
      (if ?sel i s then sensor_config_emit P i s else s)"
  proof (cases "?sel i s")
    case True
    then have "process_upto PROCESS_CONFIG_SLOTS ?sel (sensor_config_emit P) [0..<CONFIG_SLOT_COUNT] s = sensor_config_emit P i s"
      using i run(2) offs by (intro process_upto_one) simp_all
    then show ?thesis using True by simp
  next
    case False
    then have "\<forall>j\<in>set [0..<CONFIG_SLOT_COUNT]. \<not> ?sel j s" using offs(1) by (metis atLeastLessThan_upt atLeastLessThan_iff)
    then show ?thesis unfolding if_not_P[OF False] by (rule process_upto_idle)
  qed
  ultimately show ?thesis using sens by (simp add: sensor_config_tick_def)
qed

lemma sensor_timeouts_sent:
  assumes "offering P i l n t d" "0 < n" "n \<le> 3" "t + 30000 \<noteq> 0" "t + 30000 \<le>s now"
  defines "s \<equiv> sensor_config_timeouts i (d\<lparr>dv_now := now\<rparr>)"
  shows "n = 3 \<Longrightarrow> \<not> cs_active (cfg_at s i) \<and> dv_uart s = dv_uart d \<and> config_sensor P s \<and> only_slot i s"
    "n < 3 \<Longrightarrow> s = upd_config i (\<lambda>x. x\<lparr>cs_timeout := \<lparr>deadline_ms = now + 30000, duration_ms = 30000,
       retries = word_of_nat (Suc n), max_retries = 3\<rparr>, cs_is_sent := False\<rparr>) (d\<lparr>dv_now := now\<rparr>)"
proof -
  have d: "cs_active (cfg_at d i)" "cs_is_sent (cfg_at d i)" "\<not> cs_is_applied (cfg_at d i)" "config_sensor P d" "only_slot i d"
    "cs_timeout (cfg_at d i) = \<lparr>deadline_ms = t + 30000, duration_ms = 30000, retries = word_of_nat n, max_retries = 3\<rparr>"
    using assms(1,2) by (auto simp: offering_def)
  have len: "i < length (cfg_slots d)" using d(4,5) cfg_len by (simp add: config_sensor_def only_slot_def)
  have r: "s = retry_config i (d\<lparr>dv_now := now\<rparr>)"
    using d assms(4,5) by (simp add: s_def sensor_config_timeouts_def nbtimeout_expired_def)
  have n: "n = 1 \<or> n = 2 \<or> n = 3" using assms(2,3) by linarith
  show "s = upd_config i (\<lambda>x. x\<lparr>cs_timeout := \<lparr>deadline_ms = now + 30000, duration_ms = 30000,
       retries = word_of_nat (Suc n), max_retries = 3\<rparr>, cs_is_sent := False\<rparr>) (d\<lparr>dv_now := now\<rparr>)" if "n < 3"
  proof -
    have "nbtimeout_retry now (cs_timeout (cfg_at d i)) = (False, \<lparr>deadline_ms = now + 30000, duration_ms = 30000,
       retries = word_of_nat (Suc n), max_retries = 3\<rparr>)"
      using that n by (auto simp: d(6) nbtimeout_retry_def nbtimeout_start_def)
    then show ?thesis using len by (simp add: r retry_config_def upd_config_twice)
  qed
  show "\<not> cs_active (cfg_at s i) \<and> dv_uart s = dv_uart d \<and> config_sensor P s \<and> only_slot i s" if "n = 3"
  proof (intro conjI)
    have e: "s = config_slot_free i (upd_config i (\<lambda>x. x\<lparr>cs_timeout := snd (nbtimeout_retry now (cs_timeout (cfg_at d i)))\<rparr>) (d\<lparr>dv_now := now\<rparr>))"
      using that unfolding r retry_config_def by (simp add: d(6) nbtimeout_retry_def Let_def)
    show "\<not> cs_active (cfg_at s i)" using len by (simp add: e config_slot_free_def)
    show "dv_uart s = dv_uart d" by (simp add: e config_slot_free_def set_config_count_def upd_config_def)
    have "dev_wf s" unfolding r using d(4) by (intro config_slot_ops_wf) (simp add: config_sensor_def)
    then show "config_sensor P s"
      using d(4) by (simp add: config_sensor_def e) (simp add: config_slot_free_def set_config_count_def upd_config_def)
    have "j \<noteq> i \<Longrightarrow> cfg_at s j = cfg_at d j" for j by (simp add: r retry_config_frame)
    then show "only_slot i s" using d(5) unfolding only_slot_def by metis
  qed
qed

lemma offer_tick:
  assumes "offering P i l n t d" "0 < n \<longrightarrow> t + 30000 \<noteq> 0 \<and> t + 30000 \<le>s now" "now + 30000 \<noteq> 0" "n \<le> 3"
    "\<And>out s. pf_uart_write P out s = (0, out @ s)"
  defines "e \<equiv> sensor_config_tick P (d\<lparr>dv_now := now\<rparr>)"
  shows "n < 3 \<Longrightarrow> offering P i l (Suc n) now e \<and> dv_uart e = dv_uart d @ l"
    "n = 3 \<Longrightarrow> \<not> cs_active (cfg_at e i) \<and> dv_uart e = dv_uart d \<and> config_sensor P e \<and> only_slot i e"
proof -
  let ?d = "d\<lparr>dv_now := now\<rparr>" and ?s = "sensor_config_timeouts i (d\<lparr>dv_now := now\<rparr>)"
  have d: "config_sensor P ?d" "only_slot i ?d" "cs_active (cfg_at d i)" "\<not> cs_is_applied (cfg_at d i)" "slot_line i d = l"
    using assms(1) by (auto simp: offering_def config_sensor_def only_slot_def)
  note tick = config_tick_one[OF d(1,2), folded e_def]
  show "\<not> cs_active (cfg_at e i) \<and> dv_uart e = dv_uart d \<and> config_sensor P e \<and> only_slot i e" if "n = 3"
    using sensor_timeouts_sent(1)[OF assms(1), of now] assms(2) that tick by simp
  have i: "i < CONFIG_SLOT_COUNT" using d(2) by (simp add: only_slot_def)
  have len: "i < length (cfg_slots d)" using d(1) i cfg_len by (simp add: config_sensor_def)
  show "offering P i l (Suc n) now e \<and> dv_uart e = dv_uart d @ l" if "n < 3"
  proof -
    let ?t = "\<lparr>deadline_ms = now + 30000, duration_ms = 30000, retries = word_of_nat (Suc n), max_retries = 3\<rparr>"
    let ?f = "\<lambda>x. x\<lparr>cs_timeout := if n = 0 then cs_timeout x else ?t, cs_is_sent := False\<rparr>"
    have s: "?s = upd_config i ?f ?d"
    proof (cases "n = 0")
      case True
      then have "\<not> cs_is_sent (cfg_at d i)" using assms(1) by (simp add: offering_def)
      then have "?s = ?d" "?f (cfg_at ?d i) = cfg_at ?d i" using True by (simp_all add: sensor_config_timeouts_def)
      then show ?thesis by (simp only: upd_config_id)
    next
      case False
      then show ?thesis using sensor_timeouts_sent(2)[OF assms(1), of now] assms(2) that by simp
    qed
    have at: "cfg_at ?s i = ?f (cfg_at d i)" using len by (simp add: s)
    have sz: "unat (cs_config_len (cfg_at ?s i)) \<le> MAX_CONFIG_SIZE"
      using d(1) nth_mem[OF len] unfolding at by (simp add: config_sensor_def dev_wf_def configs_wf_def)
    have "psram_up P ?s" "i < length (cfg_slots ?s)" using d(1) len by (simp_all add: s config_sensor_def)
    note emit = sensor_config_emit_line(1)[OF this(1) i this(2) sz assms(5)]
    have e: "e = sensor_config_emit P i ?s" using tick at d(3,4) by simp
    have sl: "slot_line i ?s = l"
      using d(5) unfolding slot_line_def at config_line_def by (simp add: s)
    have act: "nbtimeout_is_active (cs_timeout (?f (cfg_at d i))) \<longleftrightarrow> 0 < n"
      using assms(1,3) by (auto simp: offering_def nbtimeout_is_active_def)
    have uart: "?s\<lparr>dv_uart := dv_uart ?s @ l\<rparr> = upd_config i ?f (?d\<lparr>dv_uart := dv_uart d @ l\<rparr>)"
      by (simp add: s upd_config_def)
    have e': "e = upd_config i (\<lambda>x. x\<lparr>cs_timeout := ?t, cs_is_sent := True\<rparr>) (?d\<lparr>dv_uart := dv_uart d @ l\<rparr>)"
      unfolding e emit[folded slot_line_def, unfolded sl] uart at Let_def using act
      by (cases "n = 0") (use len in \<open>simp_all add: start_config_timeout_def nbtimeout_start_def nbtimeout_init_def upd_config_def\<close>)
    have wf: "dev_wf e" unfolding e using d(1) by (simp add: config_sensor_def config_steps_wf)
    have "config_sensor P e" "slot_line i e = l" "only_slot i e" "cs_active (cfg_at e i)" "\<not> cs_is_applied (cfg_at e i)"
      "cs_is_sent (cfg_at e i)" "cs_timeout (cfg_at e i) = ?t" "dv_uart e = dv_uart d @ l"
    proof -
      have at: "cfg_at e i = (cfg_at d i)\<lparr>cs_timeout := ?t, cs_is_sent := True\<rparr>" using len by (simp add: e')
      then show "cs_active (cfg_at e i)" "\<not> cs_is_applied (cfg_at e i)" "cs_is_sent (cfg_at e i)" "cs_timeout (cfg_at e i) = ?t"
        using d(3,4) by simp_all
      show "dv_uart e = dv_uart d @ l" by (simp add: e') (simp add: upd_config_def)
      show "config_sensor P e" using d(1) wf by (simp add: config_sensor_def e') (simp add: upd_config_def psram_up_def)
      show "slot_line i e = l" using d(5) unfolding slot_line_def config_line_def at
        by (simp add: e') (simp add: upd_config_def region_def)
      have "j \<noteq> i \<Longrightarrow> cfg_at e j = cfg_at d j" for j by (simp add: e')
      then show "only_slot i e" using d(2) unfolding only_slot_def by simp metis
    qed
    then show ?thesis by (simp add: offering_def)
  qed
qed

text \<open>A tick before the offer is 30 seconds old does nothing.\<close>

lemma early_tick:
  assumes "offering P i l n t d" "0 < n" "t + 30000 \<noteq> 0" "\<not> t + 30000 \<le>s now"
  shows "offering P i l n t (sensor_config_tick P (d\<lparr>dv_now := now\<rparr>)) \<and>
    dv_uart (sensor_config_tick P (d\<lparr>dv_now := now\<rparr>)) = dv_uart d"
proof -
  let ?d = "d\<lparr>dv_now := now\<rparr>"
  have d: "config_sensor P ?d" "only_slot i ?d" "cs_active (cfg_at d i)" "\<not> cs_is_applied (cfg_at d i)" "cs_is_sent (cfg_at d i)"
    "cs_timeout (cfg_at d i) = \<lparr>deadline_ms = t + 30000, duration_ms = 30000, retries = word_of_nat n, max_retries = 3\<rparr>"
    using assms(1,2) by (auto simp: offering_def config_sensor_def only_slot_def)
  have "sensor_config_timeouts i ?d = ?d"
    using d(3-6) assms(4) by (simp add: sensor_config_timeouts_def nbtimeout_expired_def Let_def)
  then have "sensor_config_tick P ?d = ?d" using config_tick_one[OF d(1,2)] d(5) by simp
  then show ?thesis
    using assms(1) d(1,2) by (simp add: offering_def slot_line_def config_line_def)
qed

text \<open>
  The schedule of the offers: after \<open>n\<close> offers, the last at \<open>t\<close>, each of the ticks \<open>ts\<close> that comes
  30 seconds or more after the last offer is due. The first three due ticks make an offer, the
  fourth gives up. The result is the number of further offers and whether it has not given up.
\<close>

fun schedule :: "nat \<Rightarrow> s64 \<Rightarrow> s64 list \<Rightarrow> nat \<times> bool" where
  "schedule n t [] = (0, True)"
| "schedule n t (u # us) = (
     if 0 < n \<and> \<not> t + 30000 \<le>s u then schedule n t us
     else if n = 3 then (0, False)
     else let (k, b) = schedule (Suc n) u us in (Suc k, b))"

lemma schedule_bound: "n \<le> 3 \<Longrightarrow> fst (schedule n t us) \<le> 3 - n"
proof (induction n t us rule: schedule.induct)
  case (2 n t u us)
  then show ?case by (cases "n = 3") (auto simp: split_beta Let_def)
qed simp

lemma later_due:
  fixes t u v :: s64
  assumes "u \<le>s v" "u \<le>s u + 30000" "v \<le>s v + 30000" shows "u + 30000 \<le>s v + 30000"
proof -
  have s: "sint (x + 30000) = sint x + 30000" if "x \<le>s x + 30000" for x :: s64
  proof -
    have lo: "- (2 ^ 63) \<le> sint x" "sint x < 2 ^ 63" using sint_range_size[of x] by (simp_all add: word_size)
    have "sint (x + 30000) = (sint x + 30000 + 2 ^ 63) mod 2 ^ 64 - 2 ^ 63"
      by (simp add: signed_take_bit_eq_take_bit_shift take_bit_eq_mod sint_word_ariths)
    moreover have "(sint x + 30000 + 2 ^ 63) mod 2 ^ 64 = sint x + 30000 + 2 ^ 63 - 2 ^ 64" if "\<not> sint x + 30000 < 2 ^ 63"
      using that lo by (subst mod_pos_geq) (simp_all add: mod_pos_pos_trivial)
    ultimately show ?thesis using that lo by (cases "sint x + 30000 < 2 ^ 63") (auto simp: word_sle_eq mod_pos_pos_trivial)
  qed
  show ?thesis using assms s[of u] s[of v] by (simp add: word_sle_eq)
qed

text \<open>Four ticks that are 30 seconds apart suffice to give up, whatever other ticks come between them.\<close>

lemma schedule_ends:
  assumes "n \<le> 3" "subseq us ts" "4 \<le> n + length us" "us \<noteq> []" "0 < n \<longrightarrow> t + 30000 \<le>s hd us"
    "successively (\<lambda>u v. u + 30000 \<le>s v) us" "sorted_wrt (\<lambda>u v. u \<le>s v) ts" "\<forall>u\<in>set ts. u \<le>s u + 30000"
  shows "\<not> snd (schedule n t ts)"
  using assms
proof (induction n t ts arbitrary: us rule: schedule.induct)
  case (1 n t)
  then show ?case by simp
next
  case (2 n t u ts)
  show ?case
  proof (cases "0 < n \<and> \<not> t + 30000 \<le>s u")
    case True
    then have "hd us \<noteq> u" using "2.prems"(5) by auto
    then have "subseq us ts" using "2.prems"(2,4) by (cases us) (auto elim: list_emb.cases)
    then show ?thesis using "2.IH"(1)[OF True "2.prems"(1)] "2.prems" True by simp
  next
    case due: False
    show ?thesis
    proof (cases "n = 3")
      case True
      then show ?thesis using due by simp
    next
      case False
      obtain v vs where us: "us = v # vs" using "2.prems"(4) by (cases us) auto
      have v: "v \<in> set (u # ts)" by (rule list_emb_set[OF "2.prems"(2)[unfolded us], of v]) simp_all
      have vs: "subseq vs ts" using "2.prems"(2) unfolding us by (cases "v = u") (auto dest: subseq_Cons')
      have "vs \<noteq> []" using "2.prems"(1,3) us False by auto
      have "u \<le>s v" using v "2.prems"(7) by (auto simp: word_sle_eq)
      then have "u + 30000 \<le>s v + 30000" using v "2.prems"(8) by (intro later_due) auto
      moreover have "v + 30000 \<le>s hd vs" using "2.prems"(6) \<open>vs \<noteq> []\<close> unfolding us by (cases vs) auto
      ultimately have "u + 30000 \<le>s hd vs" by (simp add: word_sle_eq)
      moreover have "successively (\<lambda>u v. u + 30000 \<le>s v) vs" using "2.prems"(6) us by (cases vs) auto
      ultimately have "\<not> snd (schedule (Suc n) u ts)"
        using "2.IH"(2)[OF due False, of vs] "2.prems" vs \<open>vs \<noteq> []\<close> False us by simp
      then show ?thesis using due False by (auto simp: split_beta Let_def)
    qed
  qed
qed

lemma config_ticks_from:
  assumes "offering P i l n t d" "n \<le> 3" "0 < n \<longrightarrow> t + 30000 \<noteq> 0" "\<forall>u\<in>set ts. u + 30000 \<noteq> 0"
    "\<And>out s. pf_uart_write P out s = (0, out @ s)"
  shows "dv_uart (config_ticks P ts d) = dv_uart d @ concat (replicate (fst (schedule n t ts)) l) \<and>
    (cs_active (cfg_at (config_ticks P ts d) i) \<longleftrightarrow> snd (schedule n t ts))"
  using assms(1-4)
proof (induction ts arbitrary: n t d)
  case Nil
  then show ?case by (simp add: config_ticks_def offering_def)
next
  case (Cons u ts)
  let ?e = "sensor_config_tick P (d\<lparr>dv_now := u\<rparr>)"
  have fold: "config_ticks P (u # ts) d = config_ticks P ts ?e" by (simp add: config_ticks_def)
  show ?case
  proof (cases "0 < n \<and> \<not> t + 30000 \<le>s u")
    case True
    then have e: "offering P i l n t ?e \<and> dv_uart ?e = dv_uart d"
      using early_tick[OF Cons.prems(1), of u] Cons.prems(3) by blast
    then show ?thesis using Cons.IH[of n t ?e] Cons.prems True by (simp add: fold)
  next
    case due: False
    have u: "0 < n \<longrightarrow> t + 30000 \<noteq> 0 \<and> t + 30000 \<le>s u" "u + 30000 \<noteq> 0" using Cons.prems(3,4) due by auto
    note e = offer_tick[OF Cons.prems(1) u Cons.prems(2) assms(5)]
    show ?thesis
    proof (cases "n = 3")
      case True
      have "\<forall>j<CONFIG_SLOT_COUNT. \<not> cs_active (cfg_at ?e j)" "config_sensor P ?e"
        using e(2)[OF True] by (auto simp: only_slot_def)
      then have "dv_uart (config_ticks P ts ?e) = dv_uart ?e \<and> cfg_slots (config_ticks P ts ?e) = cfg_slots ?e"
        by (rule idle_ticks)
      then show ?thesis using e(2)[OF True] True due by (simp add: fold)
    next
      case False
      then have n: "n < 3" using Cons.prems(2) by simp
      have "dv_uart (config_ticks P ts ?e) = dv_uart ?e @ concat (replicate (fst (schedule (Suc n) u ts)) l) \<and>
        (cs_active (cfg_at (config_ticks P ts ?e) i) \<longleftrightarrow> snd (schedule (Suc n) u ts))"
        using e(1)[OF n] n Cons.prems(4) u by (intro Cons.IH[of "Suc n" u]) simp_all
      moreover have "schedule n t (u # ts) = (Suc (fst (schedule (Suc n) u ts)), snd (schedule (Suc n) u ts))"
        using due False by (auto simp: split_beta Let_def)
      ultimately show ?thesis using e(1)[OF n] by (simp only: fold) simp
    qed
  qed
qed



end
