(* ===== verification/Network.thy ===== *)
theory Network
  imports Report_Props
begin

text \<open>
  Two nodes on the air: what one of them transmits in a transmission phase is what the other finds
  in its receive queues and hands to its handlers. On top of that the dialogue of a report between
  a sensor or anchor and its parent, from the announcement to the last acknowledgment.
\<close>

section \<open>Waiting packets of one priority\<close>

definition queued :: "u8 \<Rightarrow> bytes list \<Rightarrow> queues \<Rightarrow> bool" where
  "queued p bss q \<longleftrightarrow> (\<forall>j. tx_items q j = (if j = clamp_prio p then map (\<lambda>bs. tx_item bs (length bs)) bss else []))"

lemma queued_pending: "queued p bss q \<Longrightarrow> tx_pending q = map (\<lambda>bs. tx_item bs (length bs)) bss"
  using clamp_prio_cases[of p] unfolding pending_eq[symmetric] txq.pending_def queued_def by auto

lemma queued_put:
  assumes "msgq_ok P" "queued p bss q" "length bss < QUEUE_DEPTH"
  shows "queued p (bss @ [bs]) (snd (tx_queue_put P q bs (length bs) p))"
proof -
  have "length (tx_items q (clamp_prio p)) < QUEUE_DEPTH" using assms(2,3) by (simp add: queued_def)
  from txq.put_room[OF assms(1) this, of "tx_item bs (length bs)"] show ?thesis
    using assms(2) unfolding queued_def tx_queue_put_def by simp
qed

lemma put_keeps_rx: "rx_items (snd (tx_queue_put P q bs n p)) = rx_items q"
  by (rule ext) (simp add: tx_queue_put_def tx_put_item_def rx_items_def Let_def split_beta)

lemma rx_put_keeps_tx: "tx_items (snd (rx_queue_put P q it p)) = tx_items q"
  by (rule ext) (simp add: rx_queue_put_def tx_items_def Let_def split_beta)

lemma rx_get_keeps_tx: "tx_items (snd (snd (rx_queue_get P q it))) = tx_items q"
  by (rule ext) (simp add: rx_queue_get_def tx_items_def Let_def split_beta)

lemma tx_get_keeps_rx: "rx_items (snd (snd (tx_queue_get P q it))) = rx_items q"
  by (rule ext) (simp add: tx_queue_get_def rx_items_def Let_def split_beta)

lemma queued_cong: "tx_items q = tx_items q' \<Longrightarrow> queued p bss q = queued p bss q'"
  by (simp add: queued_def)

section \<open>Transmission\<close>

definition tx_phase :: "platform \<Rightarrow> dev \<Rightarrow> dev" where
  "tx_phase P d = snd (tx_process_upto P MAX_TX_QUEUE_PROCESS_PER_CYCLE d)"

definition frame_of :: "u16 \<Rightarrow> bytes \<Rightarrow> u16 \<times> u8 \<times> bytes" where
  "frame_of own bs = (own, packet_length_code (length bs) 0, bs)"

definition modem_accepts :: "platform \<Rightarrow> bool" where
  "modem_accepts P \<longleftrightarrow> (\<forall>code bs. pf_phy_tx P code bs = 0)"

text \<open>What a node has put on the air since an earlier state.\<close>

definition emitted :: "dev \<Rightarrow> dev \<Rightarrow> (u16 \<times> u8 \<times> bytes) list" where
  "emitted d d' = drop (length (dv_air d)) (dv_air d')"

lemma tx_process_all:
  assumes "msgq_ok P" "modem_accepts P" "tx_pending (dv_queues d) = map (\<lambda>bs. tx_item bs (length bs)) bss"
    "length bss \<le> n" "\<forall>bs\<in>set bss. length bs \<le> QUEUE_DATA_MAX"
  shows "\<exists>q. tx_process_upto P n d = (False, d\<lparr>dv_queues := q, dv_air := dv_air d @ map (frame_of (dv_radio_id d)) bss\<rparr>) \<and>
    tx_pending q = [] \<and> rx_items q = rx_items (dv_queues d)"
  using assms(3-5)
proof (induction n arbitrary: d bss)
  case 0
  then show ?case by (intro exI[of _ "dv_queues d"]) simp
next
  case (Suc n)
  show ?case
  proof (cases bss)
    case Nil
    then have "tx_pending (dv_queues d) = []" using Suc.prems(1) by simp
    then have "fst (tx_queue_get P (dv_queues d) no_tx_item) \<noteq> 0"
      "snd (tx_queue_get P (dv_queues d) no_tx_item) = (no_tx_item, dv_queues d)"
      using txq.get_none[OF assms(1)] unfolding pending_eq by blast+
    then show ?thesis using Nil \<open>tx_pending (dv_queues d) = []\<close> by (intro exI[of _ "dv_queues d"]) (simp add: split_beta Let_def)
  next
    case (Cons bs rest)
    then obtain q where q: "tx_queue_get P (dv_queues d) no_tx_item = (0, tx_item bs (length bs), q)"
      "tx_pending q = map (\<lambda>bs. tx_item bs (length bs)) rest"
      using txq.get_pending[OF assms(1), of "dv_queues d" "tx_item bs (length bs)" _ no_tx_item] Suc.prems(1)
      unfolding pending_eq by auto
    have rx: "rx_items q = rx_items (dv_queues d)" using tx_get_keeps_rx[of P "dv_queues d" no_tx_item] q(1) by simp
    have pay: "take (unat (tx_data_len (tx_item bs (length bs)))) (tx_data (tx_item bs (length bs))) = bs"
      using tx_item_payload[of "length bs" bs] Suc.prems(3) Cons by simp
    let ?d = "d\<lparr>dv_queues := q, dv_air := dv_air d @ [frame_of (dv_radio_id d) bs]\<rparr>"
    have "tx_process_upto P (Suc n) d =
        (let (rc, d) = transmit P bs 0 (d\<lparr>dv_queues := q\<rparr>) in if rc \<noteq> 0 then (True, d) else tx_process_upto P n d)"
      by (simp add: q(1) pay)
    then have step: "tx_process_upto P (Suc n) d = tx_process_upto P n ?d"
      using assms(2) by (simp add: transmit_def Let_def modem_accepts_def frame_of_def)
    obtain q' where "tx_process_upto P n ?d = (False, ?d\<lparr>dv_queues := q', dv_air := dv_air ?d @ map (frame_of (dv_radio_id ?d)) rest\<rparr>)"
      "tx_pending q' = []" "rx_items q' = rx_items (dv_queues ?d)"
      using Suc.IH[of ?d rest] Suc.prems(2,3) Cons q(2) by auto
    then show ?thesis using step Cons rx by auto
  qed
qed

lemma tx_phase_queued:
  assumes "msgq_ok P" "modem_accepts P" "queued p bss (dv_queues d)" "length bss \<le> 8" "\<forall>bs\<in>set bss. length bs \<le> QUEUE_DATA_MAX"
  shows "\<exists>q. tx_phase P d = d\<lparr>dv_queues := q, dv_air := dv_air d @ map (frame_of (dv_radio_id d)) bss\<rparr> \<and>
    tx_pending q = [] \<and> rx_items q = rx_items (dv_queues d)"
  using tx_process_all[OF assms(1,2) queued_pending[OF assms(3)] assms(4,5)] by (auto simp: tx_phase_def)

lemma queued_none: "tx_pending q = [] \<Longrightarrow> queued p [] q"
  by (auto simp: tx_pending_def queued_def tx_items_def)

section \<open>Reception\<close>

definition hear_frame :: "platform \<Rightarrow> s16 \<Rightarrow> dev \<Rightarrow> u16 \<times> u8 \<times> bytes \<Rightarrow> dev" where
  "hear_frame P r d f = (case f of (i, code, bs) \<Rightarrow> on_radio_event P (Pdc r bs) (on_radio_event P (Pcc i) d))"

text \<open>A node hears the frames of a reception window, then processes what it admitted.\<close>

definition hear :: "platform \<Rightarrow> s16 \<Rightarrow> (u16 \<times> u8 \<times> bytes) list \<Rightarrow> dev \<Rightarrow> dev" where
  "hear P r fs d = snd (main_sub_rx_process P (foldl (hear_frame P r) d fs))"

definition rx_queued :: "u8 \<Rightarrow> u16 \<Rightarrow> s16 \<Rightarrow> bytes list \<Rightarrow> queues \<Rightarrow> bool" where
  "rx_queued p i r bss q \<longleftrightarrow> (\<forall>j. rx_items q j = (if j = clamp_prio p then map (rx_item_of i r) bss else []))"

lemma rx_queued_pending: "rx_queued p i r bss q \<Longrightarrow> rx_pending q = map (rx_item_of i r) bss"
  using clamp_prio_cases[of p] unfolding pending_eq[symmetric] rxq.pending_def rx_queued_def by auto

lemma rx_queued_none: "rx_pending q = [] \<Longrightarrow> rx_queued p i r [] q"
  by (auto simp: rx_pending_def rx_queued_def rx_items_def)

lemma rx_item_data:
  assumes "length bs \<le> QUEUE_DATA_MAX"
  shows "rx_data (rx_item_of i r bs) = bs @ replicate (QUEUE_DATA_MAX - length bs) 0"
    "rx_sender_id (rx_item_of i r bs) = i" "rx_rssi_2 (rx_item_of i r bs) = r"
  using assms by (auto simp: rx_item_of_def Let_def)

lemma map_update_same:
  assumes "f y = f (xs ! k)" shows "map f (take n (xs[k := y])) = map f (take n xs)"
proof -
  have "map f (xs[k := y]) = map f xs"
    using list_update_id[of "map f xs" k] assms by (cases "k < length xs") (simp_all add: map_update list_update_beyond)
  then show ?thesis by (metis take_map)
qed

lemma known_sender_ids:
  "known_sender i d \<longleftrightarrow> get_temp_id d \<noteq> 0xFFFF \<and> get_temp_id d = i \<or>
     i \<in> set (map infra_id (infra_devs (dv_store d))) \<or> i \<in> set (map sensor_id (sensor_devs (dv_store d)))"
  unfolding known_sender_def by auto

lemma should_enqueue_store:
  "\<exists>st. snd (should_enqueue t i d) = d\<lparr>dv_store := st\<rparr> \<and> mesh_devs st = mesh_devs (dv_store d) \<and>
    map infra_id (infra_devs st) = map infra_id (infra_devs (dv_store d)) \<and>
    map sensor_id (sensor_devs st) = map sensor_id (sensor_devs (dv_store d))"
proof -
  have same: "\<exists>st. d = d\<lparr>dv_store := st\<rparr> \<and> mesh_devs st = mesh_devs (dv_store d) \<and> map infra_id (infra_devs st) = map infra_id (infra_devs (dv_store d)) \<and>
    map sensor_id (sensor_devs st) = map sensor_id (sensor_devs (dv_store d))"
    by (intro exI[of _ "dv_store d"]) simp
  have infra: "\<exists>st. upd_infra k (infra_alive n) d = d\<lparr>dv_store := st\<rparr> \<and>
    mesh_devs st = mesh_devs (dv_store d) \<and> map infra_id (infra_devs st) = map infra_id (infra_devs (dv_store d)) \<and>
    map sensor_id (sensor_devs st) = map sensor_id (sensor_devs (dv_store d))" for k n
    unfolding upd_infra_def by (intro exI conjI, rule refl) (simp_all add: infra_alive_def map_update_same)
  have sensor: "\<exists>st. upd_sensor k (sensor_alive n) d = d\<lparr>dv_store := st\<rparr> \<and>
    mesh_devs st = mesh_devs (dv_store d) \<and> map infra_id (infra_devs st) = map infra_id (infra_devs (dv_store d)) \<and>
    map sensor_id (sensor_devs st) = map sensor_id (sensor_devs (dv_store d))" for k n
    unfolding Device.upd_sensor_def by (intro exI conjI, rule refl) (simp_all add: map_update_same sensor_alive_def)
  show ?thesis
    using same infra sensor by (auto simp: should_enqueue_def is_known_device_def split: option.split)
qed

lemma hear_frame_admitted:
  assumes "msgq_ok P" "known_sender i d" "2 < length bs" "length bs \<le> QUEUE_DATA_MAX" "bs ! 2 = p"
    "rx_queued p i r bss (dv_queues d)" "length bss < QUEUE_DEPTH"
  shows "\<exists>q st. hear_frame P r d (frame_of i bs) = d\<lparr>dv_last_sender := i, dv_queues := q, dv_store := st\<rparr> \<and>
    tx_items q = tx_items (dv_queues d) \<and> rx_queued p i r (bss @ [bs]) q \<and> mesh_devs st = mesh_devs (dv_store d) \<and>
    (\<forall>j. known_sender j (hear_frame P r d (frame_of i bs)) = known_sender j d)"
proof -
  let ?d = "d\<lparr>dv_last_sender := i\<rparr>" and ?it = "rx_item_of i r bs"
  have se: "fst (should_enqueue (bs ! 0) i ?d)" using should_enqueue_spec(1)[of "bs ! 0" i ?d] assms(2) by (simp add: known_sender_def)
  obtain st where st: "snd (should_enqueue (bs ! 0) i ?d) = ?d\<lparr>dv_store := st\<rparr>" "mesh_devs st = mesh_devs (dv_store d)"
    "map infra_id (infra_devs st) = map infra_id (infra_devs (dv_store d))"
    "map sensor_id (sensor_devs st) = map sensor_id (sensor_devs (dv_store d))"
    using should_enqueue_store[of "bs ! 0" i ?d] by auto
  let ?q = "snd (rx_queue_put P (dv_queues d) ?it p)"
  have prio: "rx_data ?it ! 2 = p" using assms(3,5) by (simp add: rx_item_data(1)[OF assms(4)] nth_append)
  have eq: "hear_frame P r d (frame_of i bs) = d\<lparr>dv_last_sender := i, dv_queues := ?q, dv_store := st\<rparr>"
    using se st(1) assms(3) prio
    by (cases bs) (simp_all add: hear_frame_def frame_of_def on_radio_event_def on_pdc_def split_beta Let_def)
  have "length (rx_items (dv_queues d) (clamp_prio p)) < QUEUE_DEPTH" using assms(6,7) by (simp add: rx_queued_def)
  from rxq.put_room[OF assms(1) this, of ?it] have "rx_queued p i r (bss @ [bs]) ?q"
    using assms(6) by (simp add: rx_queued_def)
  moreover have "known_sender j (hear_frame P r d (frame_of i bs)) = known_sender j d" for j
    using st(3,4) unfolding eq known_sender_ids by (simp del: list.set_map)
  ultimately show ?thesis using eq st(2) rx_put_keeps_tx by blast
qed

lemma hear_frames:
  assumes "msgq_ok P" "known_sender i d" "rx_pending (dv_queues d) = []" "length bss \<le> QUEUE_DEPTH"
    "\<forall>bs\<in>set bss. 2 < length bs \<and> length bs \<le> QUEUE_DATA_MAX \<and> bs ! 2 = p"
  shows "\<exists>j q st. foldl (hear_frame P r) d (map (frame_of i) bss) = d\<lparr>dv_last_sender := j, dv_queues := q, dv_store := st\<rparr> \<and>
    tx_items q = tx_items (dv_queues d) \<and> rx_queued p i r bss q \<and> mesh_devs st = mesh_devs (dv_store d) \<and>
    (\<forall>i. known_sender i (d\<lparr>dv_last_sender := j, dv_queues := q, dv_store := st\<rparr>) = known_sender i d)"
  using assms(4,5)
proof (induction bss rule: rev_induct)
  case Nil
  have "d = d\<lparr>dv_last_sender := dv_last_sender d, dv_queues := dv_queues d, dv_store := dv_store d\<rparr>" by simp
  then show ?case using rx_queued_none[OF assms(3)] by (metis foldl_Nil list.simps(8))
next
  case (snoc bs bss)
  then obtain j q st where e: "foldl (hear_frame P r) d (map (frame_of i) bss) = d\<lparr>dv_last_sender := j, dv_queues := q, dv_store := st\<rparr>"
    "tx_items q = tx_items (dv_queues d)" "rx_queued p i r bss q" "mesh_devs st = mesh_devs (dv_store d)"
    "\<forall>i. known_sender i (d\<lparr>dv_last_sender := j, dv_queues := q, dv_store := st\<rparr>) = known_sender i d" by auto
  let ?e = "d\<lparr>dv_last_sender := j, dv_queues := q, dv_store := st\<rparr>"
  obtain q' st' where "hear_frame P r ?e (frame_of i bs) = ?e\<lparr>dv_last_sender := i, dv_queues := q', dv_store := st'\<rparr>"
    "tx_items q' = tx_items (dv_queues ?e)" "rx_queued p i r (bss @ [bs]) q'" "mesh_devs st' = mesh_devs (dv_store ?e)"
    "\<forall>j. known_sender j (hear_frame P r ?e (frame_of i bs)) = known_sender j ?e"
    using hear_frame_admitted[OF assms(1), of i ?e bs p r bss] snoc.prems e(3,5) assms(2) by auto
  then show ?case using e(1,2,4,5) by (intro exI[of _ i] exI[of _ q'] exI[of _ st']) simp
qed

text \<open>Processing what waits: \<open>I m\<close> holds when \<open>m\<close> of the packets have been handled.\<close>

lemma rx_process_steps:
  assumes "msgq_ok P" "rx_pending (dv_queues d) = map (rx_item_of i r) (drop m bss)" "length bss - m \<le> n" "I m d" "m \<le> length bss"
    and step: "\<And>m e. m < length bss \<Longrightarrow> I m e \<Longrightarrow> (let e' = process_rx P (rx_data (rx_item_of i r (bss ! m))) i r e in
      I (Suc m) e' \<and> (Suc m < length bss \<longrightarrow> dv_status e' = Running) \<and> rx_items (dv_queues e') = rx_items (dv_queues e))"
    and queues: "\<And>m e q. I m e \<Longrightarrow> tx_items q = tx_items (dv_queues e) \<Longrightarrow> I m (e\<lparr>dv_queues := q\<rparr>)"
  shows "I (length bss) (snd (rx_process_upto P n d)) \<and> rx_pending (dv_queues (snd (rx_process_upto P n d))) = []"
  using assms(2-5)
proof (induction n arbitrary: d m)
  case (Suc n)
  show ?case
  proof (cases "m < length bss")
    case False
    then have "rx_pending (dv_queues d) = []" "m = length bss" using Suc.prems by simp_all
    then have "fst (rx_queue_get P (dv_queues d) no_rx_item) \<noteq> 0"
      "snd (rx_queue_get P (dv_queues d) no_rx_item) = (no_rx_item, dv_queues d)"
      using rxq.get_none[OF assms(1)] unfolding pending_eq by blast+
    then show ?thesis using Suc.prems(3) \<open>m = length bss\<close> \<open>rx_pending (dv_queues d) = []\<close> by (simp add: split_beta Let_def)
  next
    case True
    let ?it = "rx_item_of i r (bss ! m)"
    have "rx_pending (dv_queues d) = ?it # map (rx_item_of i r) (drop (Suc m) bss)"
      using Suc.prems(1) True by (simp add: Cons_nth_drop_Suc[symmetric])
    then obtain q where q: "rx_queue_get P (dv_queues d) no_rx_item = (0, ?it, q)"
      "rx_pending q = map (rx_item_of i r) (drop (Suc m) bss)"
      using rxq.get_pending[OF assms(1), of "dv_queues d" ?it _ no_rx_item] unfolding pending_eq by auto
    let ?e = "d\<lparr>dv_queues := q\<rparr>"
    let ?e' = "process_rx P (rx_data ?it) i r ?e"
    have "I m ?e" using queues[OF Suc.prems(3)] rx_get_keeps_tx[of P "dv_queues d" no_rx_item] q(1) by simp
    from step[OF True this] have e': "I (Suc m) ?e'" "Suc m < length bss \<longrightarrow> dv_status ?e' = Running"
      "rx_items (dv_queues ?e') = rx_items q" by (simp_all add: Let_def)
    have pend: "rx_pending (dv_queues ?e') = map (rx_item_of i r) (drop (Suc m) bss)"
      using q(2) e'(3) unfolding pending_eq[symmetric] rxq.pending_def by metis
    have it: "rx_sender_id ?it = i" "rx_rssi_2 ?it = r" by (simp_all add: rx_item_of_def Let_def)
    show ?thesis
    proof (cases "dv_status ?e' = Running")
      case run: True
      have "I (length bss) (snd (rx_process_upto P n ?e')) \<and> rx_pending (dv_queues (snd (rx_process_upto P n ?e'))) = []"
        using Suc.IH[OF pend _ e'(1)] Suc.prems(2) True by simp
      then show ?thesis using run by (simp add: q(1) it Let_def split_beta)
    next
      case stop: False
      then have "Suc m = length bss" using e'(2) True by linarith
      then show ?thesis using e'(1) stop pend by (simp add: q(1) it Let_def split_beta)
    qed
  qed
qed simp

text \<open>What the handlers of reports look at stays as it is.\<close>

definition keeps :: "platform \<Rightarrow> dev \<Rightarrow> dev \<Rightarrow> bool" where
  "keeps P d e \<longleftrightarrow> dv_status e = dv_status d \<and> dv_info e = dv_info d \<and> dv_radio_id e = dv_radio_id d \<and>
     dv_reports e = dv_reports d \<and> dv_now e = dv_now d \<and> mesh_devs (dv_store e) = mesh_devs (dv_store d) \<and>
     dv_config e = dv_config d \<and> dv_uart e = dv_uart d \<and> (psram_up P d \<and> dev_wf d \<longrightarrow> psram_up P e) \<and> (dev_wf d \<longrightarrow> dev_wf e) \<and>
     (\<forall>i. known_sender i d \<longrightarrow> known_sender i e) \<and>
     (\<forall>a n. psram_up P d \<and> dev_wf d \<and> PSRAM_TRACKER_SIZE \<le> a \<longrightarrow> region e a n = region d a n)"

lemma keeps_trans: "keeps P a b \<Longrightarrow> keeps P b c \<Longrightarrow> keeps P a c"
  by (simp add: keeps_def)

lemma keeps_queues: "keeps P d (d\<lparr>dv_queues := q\<rparr>)" "keeps P d (d\<lparr>dv_queues := q, dv_air := a\<rparr>)"
  by (simp_all add: keeps_def psram_up_def region_def known_sender_def dev_wf_def)

lemma keeps_untrack: "keeps P d (d_untrack tid d)"
  using dev_wf_setters(10)[of d tid] by (simp add: keeps_def d_untrack_def psram_up_def region_def known_sender_def)

lemma hear_wf: "dev_wf d \<Longrightarrow> dev_wf (foldl (hear_frame P r) d fs)"
  by (induction fs arbitrary: d) (auto simp: hear_frame_def split_beta intro: on_radio_event_wf)

lemma hear_steps:
  assumes "msgq_ok P" "known_sender i d" "rx_pending (dv_queues d) = []" "length bss \<le> 8"
    "\<forall>bs\<in>set bss. 2 < length bs \<and> length bs \<le> QUEUE_DATA_MAX \<and> bs ! 2 = p"
    and base: "\<And>e. keeps P d e \<Longrightarrow> tx_items (dv_queues e) = tx_items (dv_queues d) \<Longrightarrow> dv_air e = dv_air d \<Longrightarrow> I 0 e"
    and step: "\<And>m e. m < length bss \<Longrightarrow> I m e \<Longrightarrow> (let bs = bss ! m;
        e' = process_rx P (bs @ replicate (QUEUE_DATA_MAX - length bs) 0) i r e in
      I (Suc m) e' \<and> (Suc m < length bss \<longrightarrow> dv_status e' = Running) \<and> rx_items (dv_queues e') = rx_items (dv_queues e))"
    and queues: "\<And>m e q. I m e \<Longrightarrow> tx_items q = tx_items (dv_queues e) \<Longrightarrow> I m (e\<lparr>dv_queues := q\<rparr>)"
  shows "I (length bss) (hear P r (map (frame_of i) bss) d) \<and> rx_pending (dv_queues (hear P r (map (frame_of i) bss) d)) = []"
proof -
  let ?e = "foldl (hear_frame P r) d (map (frame_of i) bss)"
  obtain j q st where e: "?e = d\<lparr>dv_last_sender := j, dv_queues := q, dv_store := st\<rparr>"
    "tx_items q = tx_items (dv_queues d)" "rx_queued p i r bss q" "mesh_devs st = mesh_devs (dv_store d)"
    "\<forall>i. known_sender i (d\<lparr>dv_last_sender := j, dv_queues := q, dv_store := st\<rparr>) = known_sender i d"
    using hear_frames[OF assms(1-3) _ assms(5)] assms(4) by fastforce
  have "keeps P d ?e"
    using hear_wf[of d P r "map (frame_of i) bss"] e(4,5) unfolding keeps_def e(1) by (simp add: psram_up_def region_def)
  then have I: "I 0 ?e" using base[of ?e] e(1,2) by simp
  have pend: "rx_pending (dv_queues ?e) = map (rx_item_of i r) (drop 0 bss)" using rx_queued_pending[OF e(3)] e(1) by simp
  show ?thesis unfolding hear_def main_sub_rx_process_def
  proof (rule rx_process_steps[where I = I and m = 0, OF assms(1) pend])
    fix m e assume m: "m < length bss" "I m e"
    then have "length (bss ! m) \<le> QUEUE_DATA_MAX" using assms(5) nth_mem by blast
    then show "let e' = process_rx P (rx_data (rx_item_of i r (bss ! m))) i r e in
      I (Suc m) e' \<and> (Suc m < length bss \<longrightarrow> dv_status e' = Running) \<and> rx_items (dv_queues e') = rx_items (dv_queues e)"
      using step[OF m] by (simp only: rx_item_data(1) Let_def) simp
  qed (use assms(4) I queues in auto)
qed

section \<open>Sending\<close>

text \<open>One more packet of priority \<open>p\<close> waits; what the handlers of reports look at stays.\<close>

definition sends :: "platform \<Rightarrow> u8 \<Rightarrow> bytes \<Rightarrow> dev \<Rightarrow> dev \<Rightarrow> bool" where
  "sends P p bs d e \<longleftrightarrow> keeps P d e \<and> dv_air e = dv_air d \<and> rx_items (dv_queues e) = rx_items (dv_queues d) \<and>
     (\<forall>bss. length bss < QUEUE_DEPTH \<and> queued p bss (dv_queues d) \<longrightarrow> queued p (bss @ [bs]) (dv_queues e))"

lemma sendsD:
  assumes "sends P p bs d e"
  shows "keeps P d e" "dv_air e = dv_air d" "rx_items (dv_queues e) = rx_items (dv_queues d)"
    "queued p bss (dv_queues d) \<Longrightarrow> length bss < QUEUE_DEPTH \<Longrightarrow> queued p (bss @ [bs]) (dv_queues e)"
  using assms by (simp_all add: sends_def)

lemma d_tx_sends: "msgq_ok P \<Longrightarrow> sends P p bs d (snd (d_tx P bs (length bs) p d))"
  using queued_put[of P p _ "dv_queues d" bs]
  by (simp add: sends_def d_tx_def split_beta Let_def keeps_queues put_keeps_rx)

lemma sends_plain: "msgq_ok P \<Longrightarrow> sends P p bs d (snd (send_plain P bs p d))"
  by (simp add: send_plain_def d_tx_sends)

lemma sends_after_keeps:
  assumes "keeps P d e" "dv_air e = dv_air d" "dv_queues e = dv_queues d" "sends P p bs e f"
  shows "sends P p bs d f"
  using assms keeps_trans[of P d e f] by (auto simp: sends_def)

lemma keeps_tracking:
  "keeps P d (snd (d_next_id d))" "keeps P d (d_track P dst prev tid pt dur maxr bs d)"
  "dv_queues (snd (d_next_id d)) = dv_queues d" "dv_queues (d_track P dst prev tid pt dur maxr bs d) = dv_queues d"
proof -
  show "dv_queues (snd (d_next_id d)) = dv_queues d" "dv_queues (d_track P dst prev tid pt dur maxr bs d) = dv_queues d"
    by (simp_all add: d_next_id_def d_track_def split_beta Let_def)
  have f: "keeps P d e" if "tx_frame d e" "psram_up P d \<Longrightarrow> dev_wf d \<Longrightarrow> psram_up P e"
    "\<And>a n. psram_up P d \<Longrightarrow> dev_wf d \<Longrightarrow> PSRAM_TRACKER_SIZE \<le> a \<Longrightarrow> region e a n = region d a n" for e
    using that tx_frame_wf[OF that(1)] by (auto simp: keeps_def tx_frame_def known_sender_def)
  show "keeps P d (snd (d_next_id d))" by (rule f) (simp_all add: tx_frame_next_id)
  show "keeps P d (d_track P dst prev tid pt dur maxr bs d)"
    by (rule f) (simp_all add: tx_frame_track d_track_region(1) d_track_region(2)[OF _ _ order_refl])
qed

lemma sends_tracked:
  assumes "msgq_ok P"
  shows "sends P p bs d (snd (send_tracked P dst pt tid bs p (snd (d_next_id d))))"
proof -
  let ?e = "snd (d_next_id d)" and ?t = "\<lambda>e. d_track P dst (get_device_id e) tid pt PACKET_TIMEOUT_MS PACKET_MAX_RETRIES bs e"
  have "keeps P d (?t ?e)" by (rule keeps_trans[OF keeps_tracking(1,2)])
  moreover have "dv_air (?t ?e) = dv_air d" by (simp add: d_track_def d_next_id_def split_beta Let_def)
  moreover have "dv_queues (?t ?e) = dv_queues d" by (simp add: keeps_tracking)
  ultimately show ?thesis
    unfolding send_tracked_def by (rule sends_after_keeps) (rule d_tx_sends[OF assms])
qed

text \<open>The packets of a report with the headers that they get.\<close>

definition stamped_init :: "u8 \<Rightarrow> u16 \<Rightarrow> report_init \<Rightarrow> dev \<Rightarrow> report_init" where
  "stamped_init p dst i d = i\<lparr>rpi_hdr := mk_hdr PACKET_REPORT_INIT p (fst (d_next_id d)) dst (ph_status (rpi_hdr i)) d\<rparr>"

definition stamped_chunk :: "u8 \<Rightarrow> u16 \<Rightarrow> report_chunk \<Rightarrow> dev \<Rightarrow> report_chunk" where
  "stamped_chunk p dst c d = c\<lparr>rpc_hdr := mk_hdr PACKET_REPORT_CHUNK p (fst (d_next_id d)) dst (ph_status (rpc_hdr c)) d\<rparr>"

lemma next_id_info [simp]: "dv_info (snd (d_next_id d)) = dv_info d"
  by (simp add: d_next_id_def split_beta Let_def)

lemma report_sends:
  assumes "msgq_ok P"
  shows "sends P p (enc_report_init (stamped_init p dst i d)) d (proc (send_report_init P i dst p) d)"
    "sends P p (enc_report_chunk (stamped_chunk p dst c d)) d (proc (send_report_chunk P c dst p) d)"
    "sends P p (enc_report_init_ack (ia\<lparr>rpia_hdr := mk_hdr PACKET_REPORT_INIT_ACK p tid dst (ph_status (rpia_hdr ia)) d\<rparr>)) d
       (proc (send_report_init_ack P ia dst p tid) d)"
    "sends P p (enc_report_chunk_ack (ca\<lparr>rpca_hdr := mk_hdr PACKET_REPORT_CHUNK_ACK p tid dst (ph_status (rpca_hdr ca)) d\<rparr>)) d
       (proc (send_report_chunk_ack P ca dst p tid) d)"
proof -
  have m: "mk_hdr pt pr t ds st (snd (d_next_id d)) = mk_hdr pt pr t ds st d" for pt pr t ds st by (simp add: mk_hdr_def)
  show "sends P p (enc_report_init (stamped_init p dst i d)) d (proc (send_report_init P i dst p) d)"
    "sends P p (enc_report_chunk (stamped_chunk p dst c d)) d (proc (send_report_chunk P c dst p) d)"
    using sends_tracked[OF assms]
    by (simp_all add: proc_def send_report_init_def send_report_chunk_def stamped_init_def stamped_chunk_def split_beta Let_def m)
qed (simp_all add: proc_def send_report_init_ack_def send_report_chunk_ack_def sends_plain[OF assms])

section \<open>The handlers of reports\<close>

text \<open>A step that changes nothing but reports and PSRAM.\<close>

definition only_data :: "dev \<Rightarrow> dev \<Rightarrow> bool" where
  "only_data d e \<longleftrightarrow> (\<exists>ps rs. e = d\<lparr>dv_psram := ps, dv_reports := rs\<rparr>)"

lemma only_data_intros:
  "only_data d d" "only_data d e \<Longrightarrow> only_data e f \<Longrightarrow> only_data d f" "only_data d (upd_slot i g d)"
  "only_data d (upd_sender k h d)" "only_data d (snd (d_psram_write P a bs d))" "only_data d (report_slot_free i n d)"
  "only_data d (update_report_count p b d)"
proof -
  show "only_data d d" unfolding only_data_def by (intro exI[of _ "dv_psram d"] exI[of _ "dv_reports d"]) simp
  show "only_data d e \<Longrightarrow> only_data e f \<Longrightarrow> only_data d f"
    by (auto simp: only_data_def) (intro exI, rule refl)
  have "e = d\<lparr>dv_psram := dv_psram e, dv_reports := dv_reports e\<rparr> \<Longrightarrow> only_data d e" for e unfolding only_data_def by blast
  note this[intro]
  show "only_data d (upd_slot i g d)" "only_data d (upd_sender k h d)" "only_data d (snd (d_psram_write P a bs d))"
    "only_data d (report_slot_free i n d)" "only_data d (update_report_count p b d)"
    by (auto simp: upd_slot_def upd_sender_def d_psram_write_def report_slot_free_def update_report_count_def
        free_sender_slot_def split_beta Let_def)
qed

lemmas only_data_after = only_data_intros(1) only_data_intros(2)[OF _ only_data_intros(3)] only_data_intros(2)[OF _ only_data_intros(4)]
  only_data_intros(2)[OF _ only_data_intros(5)] only_data_intros(2)[OF _ only_data_intros(6)]
  only_data_intros(2)[OF _ only_data_intros(7)]

lemma only_data_snd:
  "only_data d e \<Longrightarrow> only_data d (snd (a, e))"
  "(b \<Longrightarrow> only_data d (snd x)) \<Longrightarrow> (\<not> b \<Longrightarrow> only_data d (snd y)) \<Longrightarrow> only_data d (snd (if b then x else y))"
  by simp_all

lemma only_data_fields:
  assumes "only_data d e"
  shows "dv_status e = dv_status d" "dv_info e = dv_info d" "dv_radio_id e = dv_radio_id d" "dv_queues e = dv_queues d"
    "dv_air e = dv_air d" "known_sender i e = known_sender i d" "dv_now e = dv_now d" "dv_store e = dv_store d"
  using assms by (auto simp: only_data_def known_sender_def)

lemma crc_stages_only: "only_data d (snd (snd (crc_stages P stage addr rem first crc d)))"
proof (induction P stage addr rem first crc d rule: crc_stages.induct)
  case (1 P stage addr rem first crc d)
  let ?n = "if stage < rem then stage else rem"
  let ?r = "d_psram_read P addr ?n stage d"
  have r: "only_data d (snd (snd ?r))"
    unfolding only_data_def d_psram_read_def split_beta Let_def
    by (intro exI[of _ "snd (snd (psram_read P (dv_psram d) addr ?n))"] exI[of _ "dv_reports d"]) simp
  show ?case
  proof (cases "rem = 0 \<or> stage = 0 \<or> fst ?r \<noteq> 0")
    case True
    then show ?thesis using r only_data_intros(1) by (subst crc_stages.simps) (auto simp: split_beta Let_def)
  next
    case False
    then have "only_data (snd (snd ?r)) (snd (snd (crc_stages P stage (addr + ?n) (rem - ?n) False
        (if first then pf_crc32 P (take ?n (fst (snd ?r))) else pf_crc32_continue P crc (take ?n (fst (snd ?r)))) (snd (snd ?r)))))"
      using 1[OF _ refl refl prod.collapse prod.collapse] by simp
    then have "only_data d (snd (snd (crc_stages P stage (addr + ?n) (rem - ?n) False
        (if first then pf_crc32 P (take ?n (fst (snd ?r))) else pf_crc32_continue P crc (take ?n (fst (snd ?r)))) (snd (snd ?r)))))"
      by (rule only_data_intros(2)[OF r])
    then show ?thesis using False by (subst crc_stages.simps) (simp only: split_beta Let_def, simp)
  qed
qed

lemma complete_report_only: "only_data d e \<Longrightarrow> only_data d (snd (complete_report P idx e))"
proof (rule only_data_intros(2))
  show "only_data e (snd (complete_report P idx e))"
    unfolding complete_report_def split_beta Let_def by (auto intro!: only_data_after crc_stages_only)
qed

lemma validate_report_chunk_only:
  assumes "dev_wf d" shows "only_data d (snd (validate_report_chunk P pkt d))"
proof (cases "find_slot (rpc_gen_device_id pkt) (rpc_data_id pkt) d")
  case None
  then show ?thesis by (simp add: validate_report_chunk_def only_data_intros(1))
next
  case (Some idx)
  have "\<not> SEND_DATA_MAX < unat (sl_last_chunk_size (rep_at d idx))"
    using rep_at_ok[OF assms find_slotD(1)[OF Some assms]] by (simp add: slot_ok_def)
  then show ?thesis
    unfolding validate_report_chunk_def Some option.case
    by (simp only: Let_def split_beta) (intro only_data_snd complete_report_only only_data_after; simp split: if_splits)
qed

lemma header_bytes:
  "bs \<noteq> [] \<Longrightarrow> bs ! 0 = ph_packet_type (dec_header bs)" "2 < length bs \<Longrightarrow> bs ! 2 = ph_priority (dec_header bs)"
  by (cases bs) (simp_all add: dec_header_def rd_defs of_le_def enc_header_priority[symmetric])

lemma report_dispatch:
  "ph_packet_type (rpi_hdr i) = PACKET_REPORT_INIT \<Longrightarrow>
     process_rx P (enc_report_init i @ z) n r d = handle_report_init P i n r d"
  "ph_packet_type (rpia_hdr ia) = PACKET_REPORT_INIT_ACK \<Longrightarrow>
     process_rx P (enc_report_init_ack ia @ z) n r d = handle_report_init_ack P ia n r d"
  "ph_packet_type (rpc_hdr c) = PACKET_REPORT_CHUNK \<Longrightarrow> length (rpc_data c) = 180 \<Longrightarrow>
     process_rx P (enc_report_chunk c @ z) n r d = handle_report_chunk P c n r d"
  "ph_packet_type (rpca_hdr ca) = PACKET_REPORT_CHUNK_ACK \<Longrightarrow>
     process_rx P (enc_report_chunk_ack ca @ z) n r d = handle_report_chunk_ack P ca n r d"
proof -
  have ne: "enc_report_init i @ z \<noteq> []" "enc_report_init_ack ia @ z \<noteq> []" "enc_report_chunk c @ z \<noteq> []"
    "enc_report_chunk_ack ca @ z \<noteq> []"
    by (simp_all add: enc_report_init_def enc_report_init_ack_def enc_report_chunk_def enc_report_chunk_ack_def
        enc_header_def by_defs le_bytes_numeral)
  note b = ne[THEN header_bytes(1), unfolded wire_simps]
  show "ph_packet_type (rpi_hdr i) = PACKET_REPORT_INIT \<Longrightarrow>
     process_rx P (enc_report_init i @ z) n r d = handle_report_init P i n r d"
    using b(1) by (simp add: process_rx_def wire_simps)
  show "ph_packet_type (rpia_hdr ia) = PACKET_REPORT_INIT_ACK \<Longrightarrow>
     process_rx P (enc_report_init_ack ia @ z) n r d = handle_report_init_ack P ia n r d"
    using b(2) by (simp add: process_rx_def wire_simps)
  show "ph_packet_type (rpc_hdr c) = PACKET_REPORT_CHUNK \<Longrightarrow> length (rpc_data c) = 180 \<Longrightarrow>
     process_rx P (enc_report_chunk c @ z) n r d = handle_report_chunk P c n r d"
    using b(3) by (simp add: process_rx_def wire_simps)
  show "ph_packet_type (rpca_hdr ca) = PACKET_REPORT_CHUNK_ACK \<Longrightarrow>
     process_rx P (enc_report_chunk_ack ca @ z) n r d = handle_report_chunk_ack P ca n r d"
    using b(4) by (simp add: process_rx_def wire_simps)
qed

lemma report_frame_ok:
  "2 < length (enc_report_init i) \<and> length (enc_report_init i) \<le> QUEUE_DATA_MAX \<and> enc_report_init i ! 2 = ph_priority (rpi_hdr i)"
  "2 < length (enc_report_init_ack ia) \<and> length (enc_report_init_ack ia) \<le> QUEUE_DATA_MAX \<and> enc_report_init_ack ia ! 2 = ph_priority (rpia_hdr ia)"
  "length (rpc_data c) = 180 \<Longrightarrow> 2 < length (enc_report_chunk c) \<and> length (enc_report_chunk c) \<le> QUEUE_DATA_MAX \<and>
     enc_report_chunk c ! 2 = ph_priority (rpc_hdr c)"
  "2 < length (enc_report_chunk_ack ca) \<and> length (enc_report_chunk_ack ca) \<le> QUEUE_DATA_MAX \<and> enc_report_chunk_ack ca ! 2 = ph_priority (rpca_hdr ca)"
  using header_bytes(2)[of "enc_report_init i"] header_bytes(2)[of "enc_report_init_ack ia"] header_bytes(2)[of "enc_report_chunk c"]
    header_bytes(2)[of "enc_report_chunk_ack ca"] header_enc_report_init[of i "[]"] header_enc_report_init_ack[of ia "[]"]
    header_enc_report_chunk[of c "[]"] header_enc_report_chunk_ack[of ca "[]"]
  by simp_all

section \<open>The dialogue of a report\<close>

text \<open>A node that is up and idle: its queues are empty and the modem takes what it sends.\<close>

definition idle_node :: "platform \<Rightarrow> dev \<Rightarrow> bool" where
  "idle_node P d \<longleftrightarrow> msgq_ok P \<and> modem_accepts P \<and> psram_up P d \<and> dev_wf d \<and> dv_status d = Running \<and>
     tx_pending (dv_queues d) = [] \<and> rx_pending (dv_queues d) = [] \<and> dv_radio_id d = get_device_id d"

text \<open>The report \<open>bs\<close> waits in slot 0, with sizes that agree with each other and no sender yet.\<close>

definition has_report :: "bytes \<Rightarrow> dev \<Rightarrow> bool" where
  "has_report bs d \<longleftrightarrow> (let s = rep_at d 0 in sl_active s \<and>
     find_sender_slot (sl_gen_device_id s) (sl_data_id s) d = None \<and>
     region d (slot_psram_addr 0) (unat (sl_total_size s)) = bs \<and>
     unat (sl_total_size s) = (unat (sl_chunk_count s) - 1) * SEND_DATA_MAX + unat (sl_last_chunk_size s) \<and>
     0 < unat (sl_chunk_count s) \<and> 0 < unat (sl_last_chunk_size s))"

definition sends_report :: "report_slot \<Rightarrow> report_sender \<Rightarrow> bool" where
  "sends_report s x \<longleftrightarrow> sd_active x \<and> sd_gen_device_id x = sl_gen_device_id s \<and> sd_data_id x = sl_data_id s"

text \<open>Only sender \<open>k\<close> of a node has the report of slot \<open>s\<close> and is to send chunk \<open>n\<close> next.\<close>

definition sending :: "platform \<Rightarrow> dev \<Rightarrow> report_slot \<Rightarrow> bytes \<Rightarrow> nat \<Rightarrow> u16 \<Rightarrow> u8 \<Rightarrow> dev \<Rightarrow> bool" where
  "sending P d0 s bs k dst n d \<longleftrightarrow> psram_up P d \<and> dev_wf d \<and> dv_status d = Running \<and> dv_info d = dv_info d0 \<and>
     dv_radio_id d = dv_radio_id d0 \<and> (\<forall>i. known_sender i d0 \<longrightarrow> known_sender i d) \<and>
     region d (slot_psram_addr 0) (unat (sl_total_size s)) = bs \<and>
     find_slot (sl_gen_device_id s) (sl_data_id s) d = Some 0 \<and>
     k < MAX_ANCHORS \<and> (\<forall>j<MAX_ANCHORS. sends_report s (sender_at d j) \<longleftrightarrow> j = k) \<and>
     (\<exists>x t. sender_at d k = (fill_sender dst s x)\<lparr>sd_timeout := t, sd_next_chunk := n\<rparr>)"

lemma sending_keeps: "sending P d0 s bs k dst n d \<Longrightarrow> keeps P d e \<Longrightarrow> sending P d0 s bs k dst n e"
  unfolding sending_def keeps_def find_slot_def by (simp add: slot_psram_addr_def)

lemma find_idx_only: "\<forall>j<length xs. p (xs ! j) \<longleftrightarrow> j = k \<Longrightarrow> k < length xs \<Longrightarrow> find_idx p xs = Some k"
proof (induction xs arbitrary: k)
  case (Cons x xs)
  show ?case
  proof (cases k)
    case 0
    then show ?thesis using Cons.prems by auto
  next
    case (Suc j)
    have "\<forall>i<length xs. p (xs ! i) \<longleftrightarrow> i = j" "\<not> p x" using Cons.prems Suc by force+
    then show ?thesis using Cons.IH[of j] Cons.prems(2) Suc by simp
  qed
qed simp

lemma sending_find:
  assumes "sending P d0 s bs k dst n d" shows "find_sender_slot (sl_gen_device_id s) (sl_data_id s) d = Some k"
proof -
  have "length (rep_senders d) = MAX_ANCHORS" "k < MAX_ANCHORS" "\<forall>j<MAX_ANCHORS. sends_report s (sender_at d j) \<longleftrightarrow> j = k"
    using assms by (auto simp: sending_def dev_wf_def reports_wf_def)
  then show ?thesis unfolding find_sender_slot_def by (intro find_idx_only) (simp_all add: sends_report_def)
qed

lemma find_sender_slotD:
  assumes "find_sender_slot g i d = Some k" "dev_wf d"
  shows "k < MAX_ANCHORS" "sd_active (sender_at d k)" "sd_gen_device_id (sender_at d k) = g" "sd_data_id (sender_at d k) = i"
  using find_idx_less[OF assms(1)[unfolded find_sender_slot_def]] find_idx_nth[OF assms(1)[unfolded find_sender_slot_def]]
    assms(2) by (auto simp: dev_wf_def reports_wf_def)

lemma tx_step:
  assumes "msgq_ok P" "modem_accepts P" "queued p bss (dv_queues d)" "length bss \<le> 8" "\<forall>bs\<in>set bss. length bs \<le> QUEUE_DATA_MAX"
  shows "keeps P d (tx_phase P d)" "emitted d (tx_phase P d) = map (frame_of (dv_radio_id d)) bss"
    "tx_pending (dv_queues (tx_phase P d)) = []" "rx_items (dv_queues (tx_phase P d)) = rx_items (dv_queues d)"
proof -
  obtain q where q: "tx_phase P d = d\<lparr>dv_queues := q, dv_air := dv_air d @ map (frame_of (dv_radio_id d)) bss\<rparr>"
    "tx_pending q = []" "rx_items q = rx_items (dv_queues d)"
    using tx_phase_queued[OF assms] by blast
  then show "keeps P d (tx_phase P d)" "emitted d (tx_phase P d) = map (frame_of (dv_radio_id d)) bss"
    "tx_pending (dv_queues (tx_phase P d)) = []" "rx_items (dv_queues (tx_phase P d)) = rx_items (dv_queues d)"
    by (simp_all add: emitted_def keeps_queues)
qed

text \<open>The announcement.\<close>

lemma start_report_step:
  assumes "idle_node P d" "has_report bs d" "k < MAX_ANCHORS" "s = rep_at d 0" "dst = infra_id (infra_at d 0)"
  defines "d1 \<equiv> start_report P k 0 d"
  shows "\<exists>i. queued (sl_priority s) [enc_report_init i] (dv_queues d1) \<and> sending P d s bs k dst 0 d1 \<and>
    rx_items (dv_queues d1) = rx_items (dv_queues d) \<and>
    rpi_hdr i = mk_hdr PACKET_REPORT_INIT (sl_priority s) (ph_tracking_id (rpi_hdr i)) dst 0 d \<and>
    rpi_gen_device_id i = sl_gen_device_id s \<and> rpi_data_id i = sl_data_id s \<and> rpi_total_size i = sl_total_size s \<and>
    rpi_chunk_count i = sl_chunk_count s \<and> rpi_last_chunk_size i = sl_last_chunk_size s \<and> rpi_crc32 i = sl_crc32 s"
proof -
  have ok: "msgq_ok P" "psram_up P d" "dev_wf d" "dv_status d = Running" "tx_pending (dv_queues d) = []"
    using assms(1) by (simp_all add: idle_node_def)
  let ?e = "upd_sender k (fill_sender dst s) d" and ?p = "sl_priority s"
  let ?i = "stamped_init ?p dst (report_init_of s (dv_now d)) ?e"
  let ?f = "proc (send_report_init P (report_init_of s (dv_now d)) dst ?p) ?e"
  have snd: "sends P ?p (enc_report_init ?i) ?e ?f" by (rule report_sends(1)[OF ok(1)])
  have now: "dv_now ?e = dv_now d" "dv_queues ?e = dv_queues d" by (simp_all add: upd_sender_def)
  obtain t where d1: "d1 = upd_slot 0 (\<lambda>x. x\<lparr>sl_is_sent := True\<rparr>) (upd_sender k (\<lambda>x. x\<lparr>sd_timeout := t\<rparr>) ?f)"
    unfolding d1_def start_report_def Let_def assms(4,5)[symmetric] now by blast
  have q: "dv_queues d1 = dv_queues ?f" by (simp add: d1 upd_slot_def upd_sender_def)
  have "queued ?p [enc_report_init ?i] (dv_queues d1)"
    using sendsD(4)[OF snd, of "[]"] queued_none[OF ok(5), of ?p] unfolding q by (simp add: now)
  moreover have "rx_items (dv_queues d1) = rx_items (dv_queues d)" using sendsD(3)[OF snd] unfolding q by (simp add: now)
  moreover have "sending P d s bs k dst 0 d1"
  proof -
    have r: "sl_active (rep_at d 0)" "find_sender_slot (sl_gen_device_id s) (sl_data_id s) d = None"
      "region d (slot_psram_addr 0) (unat (sl_total_size s)) = bs"
      using assms(2,4) unfolding has_report_def Let_def by blast+
    have ks: "k < length (rep_senders d)" "0 < length (rep_slots d)"
      using ok(3) assms(3) by (simp_all add: dev_wf_def reports_wf_def)
    have s0: "find_slot (sl_gen_device_id s) (sl_data_id s) d = Some 0"
      using ks(2) r(1) assms(4) by (cases "rep_slots d") (simp_all add: find_slot_def)
    have e: "psram_up P ?e" "dev_wf ?e"
      using upd_sender_wf[OF ok(3) fill_sender_ok] rep_at_ok[OF ok(3), of 0] ok(2) assms(4) by simp_all
    have f: "keeps P ?e ?f" by (rule sendsD(1)[OF snd])
    have reps: "rep_slots ?f = rep_slots d" "rep_senders ?f = (rep_senders d)[k := fill_sender dst s (sender_at d k)]"
      using f by (simp_all add: keeps_def upd_sender_def)
    have rs: "rep_slots d1 = (rep_slots d)[0 := (rep_at d 0)\<lparr>sl_is_sent := True\<rparr>]"
      "rep_senders d1 = (rep_senders d)[k := (fill_sender dst s (sender_at d k))\<lparr>sd_timeout := t\<rparr>]"
      using ks by (simp_all add: d1 upd_slot_def upd_sender_def reps)
    have "\<forall>j<length (rep_senders d). \<not> sends_report s (sender_at d j)"
      using r(2) by (simp add: find_sender_slot_def find_idx_None_iff sends_report_def all_set_conv_all_nth)
    moreover have "length (rep_senders d) = MAX_ANCHORS" using ok(3) by (simp add: dev_wf_def reports_wf_def)
    ultimately have "\<forall>j<MAX_ANCHORS. sends_report s (sender_at d1 j) \<longleftrightarrow> j = k"
      using ks(1) unfolding rs by (auto simp: nth_list_update sends_report_def fill_sender_def)
    moreover have "find_slot (sl_gen_device_id s) (sl_data_id s) d1 = Some 0"
      using s0 unfolding find_slot_def rs by (subst find_idx_update) simp_all
    moreover have "sender_at d1 k = (fill_sender dst s (sender_at d k))\<lparr>sd_timeout := t, sd_next_chunk := 0\<rparr>"
      using ks(1) by (simp add: rs fill_sender_def)
    moreover have "psram_up P d1" "region d1 (slot_psram_addr 0) (unat (sl_total_size s)) = bs"
      using f e r(3) by (simp_all add: d1 keeps_def slot_psram_addr_def)
    moreover have "dev_wf d1" using start_report_wf[OF ok(3)] by (simp add: d1_def)
    moreover have "dv_status d1 = Running" "dv_info d1 = dv_info d" "dv_radio_id d1 = dv_radio_id d"
      "known_sender i d \<Longrightarrow> known_sender i d1" for i
      using f ok(4) by (simp_all add: d1 keeps_def upd_slot_def upd_sender_def known_sender_def)
    ultimately show ?thesis unfolding sending_def using assms(3) by blast
  qed
  ultimately show ?thesis
    by (intro exI[of _ ?i]) (simp add: stamped_init_def report_init_of_def mk_hdr_def zero_hdr_def upd_sender_def)
qed

text \<open>The receiver holds the chunks in \<open>S\<close> of the announced report.\<close>

definition holding :: "platform \<Rightarrow> dev \<Rightarrow> report_init \<Rightarrow> bytes \<Rightarrow> nat \<Rightarrow> nat set \<Rightarrow> dev \<Rightarrow> bool" where
  "holding P d0 i bs idx S d \<longleftrightarrow> report_has P i bs idx S d \<and> (sl_upstream_ready (rep_at d idx) \<longleftrightarrow> S = {..<chunks_of i}) \<and>
     (S = {..<chunks_of i} \<longrightarrow> kept_slot d idx) \<and> (\<forall>j. j \<noteq> idx \<longrightarrow> rep_at d j = rep_at d0 j) \<and>
     dv_now d = dv_now d0 \<and> mesh_devs (dv_store d) = mesh_devs (dv_store d0) \<and>
     dv_status d = Running \<and> dv_info d = dv_info d0 \<and> dv_radio_id d = dv_radio_id d0 \<and>
     (\<forall>j. known_sender j d0 \<longrightarrow> known_sender j d)"

lemma holding_keeps:
  assumes "holding P d0 i bs idx S d" "keeps P d e" shows "holding P d0 i bs idx S e"
proof -
  have "kept_slot e idx = kept_slot d idx" using assms(2) unfolding kept_slot_def keeps_def by simp
  then show ?thesis using assms unfolding holding_def report_has_def keeps_def find_slot_def by (simp add: slot_psram_addr_def)
qed

lemma validate_slot_only: "only_data d (snd (validate_slot i d))"
  by (auto simp: validate_slot_def alloc_slot_def split: option.splits intro!: only_data_after)

lemma receive_init_step:
  fixes P :: platform and d :: dev and r :: s16 and n :: u16
  assumes "idle_node P d" "announces P i bs" "ph_packet_type (rpi_hdr i) = PACKET_REPORT_INIT"
    "ph_device_id (rpi_hdr i) = get_device_id d" "ph_device_type (rpi_hdr i) \<in> {DEVICE_TYPE_ANCHOR, DEVICE_TYPE_SENSOR}"
    "get_device_type d \<in> {DEVICE_TYPE_GATEWAY, DEVICE_TYPE_ANCHOR}" "known_sender n d"
    "find_slot (rpi_gen_device_id i) (rpi_data_id i) d = None" "\<exists>x\<in>set (rep_slots d). \<not> sl_active x"
  defines "p \<equiv> ph_priority (rpi_hdr i)" and "d1 \<equiv> hear P r [frame_of n (enc_report_init i)] d"
  shows "\<exists>idx. queued p [enc_report_init_ack \<lparr>rpia_hdr = mk_hdr PACKET_REPORT_INIT_ACK p (ph_tracking_id (rpi_hdr i)) n
       STATUS_SUCCESS d, rpia_gen_device_id = rpi_gen_device_id i, rpia_data_id = rpi_data_id i\<rparr>] (dv_queues d1) \<and>
     rx_pending (dv_queues d1) = [] \<and> holding P d i bs idx {} d1"
proof -
  have ok: "msgq_ok P" "psram_up P d" "dev_wf d" "dv_status d = Running" "tx_pending (dv_queues d) = []" "rx_pending (dv_queues d) = []"
    using assms(1) by (simp_all add: idle_node_def)
  let ?ack = "enc_report_init_ack \<lparr>rpia_hdr = mk_hdr PACKET_REPORT_INIT_ACK p (ph_tracking_id (rpi_hdr i)) n
       STATUS_SUCCESS d, rpia_gen_device_id = rpi_gen_device_id i, rpia_data_id = rpi_data_id i\<rparr>"
  define I where "I m e \<longleftrightarrow> (if m = 0 then keeps P d e \<and> tx_items (dv_queues e) = tx_items (dv_queues d)
      else queued p [?ack] (dv_queues e) \<and> (\<exists>idx. holding P d i bs idx {} e))" for m :: nat and e
  have "I (length [enc_report_init i]) (hear P r (map (frame_of n) [enc_report_init i]) d) \<and>
      rx_pending (dv_queues (hear P r (map (frame_of n) [enc_report_init i]) d)) = []"
  proof (rule hear_steps[where p = p, OF ok(1) assms(7) ok(6)])
    fix m e assume m: "m < length [enc_report_init i]" "I m e"
    then have e: "keeps P d e" "tx_items (dv_queues e) = tx_items (dv_queues d)" "m = 0" by (simp_all add: I_def)
    have info: "dv_info e = dv_info d" "dv_reports e = dv_reports d" "psram_up P e" "dev_wf e" "dv_status e = Running"
      using e(1) ok(2-4) by (simp_all add: keeps_def)
    have none: "find_slot (rpi_gen_device_id i) (rpi_data_id i) e = None" using assms(8) info(2) by (simp add: find_slot_def)
    have free: "find_idx (\<lambda>x. \<not> sl_active x) (rep_slots e) \<noteq> None" using assms(9) info(2) by (simp add: find_idx_None_iff)
    have st: "fst (validate_slot i e) = STATUS_SUCCESS"
      using none free by (auto simp: validate_slot_def alloc_slot_def split: option.splits)
    obtain idx where has: "report_has P i bs idx {} (snd (validate_slot i e))" "\<not> sl_upstream_ready (rep_at (snd (validate_slot i e)) idx)"
      "\<And>j. j \<noteq> idx \<Longrightarrow> rep_at (snd (validate_slot i e)) j = rep_at e j"
      using validate_slot_has[OF info(3,4) assms(2) none st] by blast
    let ?v = "snd (validate_slot i e)"
    note v = only_data_fields[OF validate_slot_only[of e i]]
    let ?ia = "report_init_ack_of i STATUS_SUCCESS"
    let ?e' = "proc (send_report_init_ack P ?ia n p (ph_tracking_id (rpi_hdr i))) ?v"
    have valid: "valid_device_type (ph_device_type (rpi_hdr i))" "init_valid i"
      using assms(2,5) by (auto simp: valid_device_type_def announces_def)
    have "process_rx P (enc_report_init i @ z) n r e = ?e'" for z
      using report_dispatch(1)[OF assms(3)] valid assms(4-6) st
      by (auto simp: handle_report_init_def Let_def info(1) p_def split_beta)
    moreover have snd: "sends P p ?ack ?v ?e'"
      using report_sends(3)[OF ok(1), where p = p and ia = ?ia and tid = "ph_tracking_id (rpi_hdr i)" and dst = n and d = ?v] v(2) info(1)
      by (simp add: report_init_ack_of_def mk_hdr_def zero_hdr_def)
    moreover have "holding P d i bs idx {} ?v"
      using has v info e(1) announces_sizes(1)[OF assms(2)] by (auto simp: holding_def keeps_def lessThan_empty_iff eq_commute[of "{}"])
    then have "holding P d i bs idx {} ?e'" by (rule holding_keeps[OF _ sendsD(1)[OF snd]])
    moreover have "queued p [?ack] (dv_queues ?e')"
      using sendsD(4)[OF snd, of "[]"] queued_none[OF ok(5), of p] v(4) e(2) queued_cong[of "dv_queues e" "dv_queues d"] by simp
    ultimately show "let bs = [enc_report_init i] ! m; e' = process_rx P (bs @ replicate (QUEUE_DATA_MAX - length bs) 0) n r e
      in I (Suc m) e' \<and> (Suc m < length [enc_report_init i] \<longrightarrow> dv_status e' = Running) \<and> rx_items (dv_queues e') = rx_items (dv_queues e)"
      using sendsD(3)[OF snd] v(4) by (auto simp: e(3) Let_def I_def)
  next
    fix m e q assume "I m e" "tx_items q = tx_items (dv_queues e)"
    then show "I m (e\<lparr>dv_queues := q\<rparr>)"
      using keeps_trans[OF _ keeps_queues(1), of P d e q] holding_keeps[OF _ keeps_queues(1), of P d i bs _ "{}" e q]
        queued_cong[of q "dv_queues e" p] by (auto simp: I_def split: if_splits)
  qed (auto simp: I_def report_frame_ok p_def)
  then show ?thesis by (auto simp: I_def d1_def)
qed

text \<open>The chunks as they leave the sender, each with a header of its own.\<close>

definition chunk_of :: "report_init \<Rightarrow> bytes \<Rightarrow> nat \<Rightarrow> report_chunk \<Rightarrow> bool" where
  "chunk_of i bs j c \<longleftrightarrow> carries i bs j c \<and> length (rpc_data c) = 180 \<and> (let h = rpi_hdr i; g = rpc_hdr c in
     ph_packet_type g = PACKET_REPORT_CHUNK \<and> ph_device_type g = ph_device_type h \<and> ph_priority g = ph_priority h \<and>
     ph_device_id g = ph_device_id h)"

lemma sending_next:
  assumes "sending P d0 s bs k dst n d"
  shows "sending P d0 s bs k dst m (upd_sender k (\<lambda>y. y\<lparr>sd_next_chunk := m\<rparr>) d)"
proof -
  have a: "psram_up P d" "dev_wf d" "k < MAX_ANCHORS" "length (rep_senders d) = MAX_ANCHORS"
    using assms by (auto simp: sending_def dev_wf_def reports_wf_def)
  let ?d = "upd_sender k (\<lambda>y. y\<lparr>sd_next_chunk := m\<rparr>) d"
  obtain x t where x: "sender_at d k = (fill_sender dst s x)\<lparr>sd_timeout := t, sd_next_chunk := n\<rparr>"
    using assms unfolding sending_def by blast
  have k: "k < length (rep_senders d)" using a(3,4) by simp
  have "dev_wf ?d" using upd_sender_wf[OF a(2), of "\<lambda>y. y\<lparr>sd_next_chunk := m\<rparr>" k] by (simp add: sender_ok_def)
  moreover have "sends_report s (sender_at ?d j) = sends_report s (sender_at d j)" for j
    using k by (cases "j = k") (simp_all add: upd_sender_def sends_report_def)
  moreover have "sender_at ?d k = (fill_sender dst s x)\<lparr>sd_timeout := t, sd_next_chunk := m\<rparr>"
    using k x by (simp add: upd_sender_def)
  moreover have "dv_status ?d = dv_status d" "dv_info ?d = dv_info d" "dv_radio_id ?d = dv_radio_id d" "rep_slots ?d = rep_slots d"
    "known_sender i ?d = known_sender i d" for i by (simp_all add: upd_sender_def known_sender_def)
  ultimately show ?thesis using assms unfolding sending_def find_slot_def by (simp del: ex_simps) blast
qed

lemma chunk_of_packet:
  assumes "rpi_gen_device_id i = sd_gen_device_id x" "rpi_data_id i = sd_data_id x" "j < 2"
    "ph_priority (rpi_hdr i) = p" "ph_device_id (rpi_hdr i) = dst" "ph_device_type (rpi_hdr i) = get_device_type d"
  shows "chunk_of i bs j (stamped_chunk p dst (chunk_packet x bs j) d)"
proof -
  have "length (report_piece bs j) \<le> 180" by (simp add: report_piece_def)
  moreover have "unat (word_of_nat j :: u8) = j" using assms(3) by (simp add: unat_of_nat)
  ultimately show ?thesis
    using assms by (simp add: chunk_of_def carries_def stamped_chunk_def chunk_packet_def mk_hdr_def Let_def)
qed

lemma chunks_step:
  assumes "msgq_ok P" "sending P d0 s bs k dst 0 d" "queued (sl_priority s) [] (dv_queues d)" "x = sender_at d k"
    "rpi_gen_device_id i = sl_gen_device_id s" "rpi_data_id i = sl_data_id s"
    "ph_priority (rpi_hdr i) = sl_priority s" "ph_device_id (rpi_hdr i) = dst" "ph_device_type (rpi_hdr i) = get_device_type d0"
    "c \<le> 2"
  defines "e \<equiv> \<lambda>n. fold (after_chunk P dst k x bs) [0..<n] d"
  shows "\<exists>cs. length cs = c \<and> queued (sl_priority s) (map enc_report_chunk cs) (dv_queues (e c)) \<and>
    sending P d0 s bs k dst (word_of_nat c) (e c) \<and> rx_items (dv_queues (e c)) = rx_items (dv_queues d) \<and>
    (\<forall>j<c. chunk_of i bs j (cs ! j))"
  using assms(10)
proof (induction c)
  case 0
  then show ?case using assms(2,3) by (simp add: e_def)
next
  case (Suc c)
  then obtain cs where cs: "length cs = c" "queued (sl_priority s) (map enc_report_chunk cs) (dv_queues (e c))"
    "sending P d0 s bs k dst (word_of_nat c) (e c)" "rx_items (dv_queues (e c)) = rx_items (dv_queues d)"
    "\<forall>j<c. chunk_of i bs j (cs ! j)"
    by auto
  obtain y t where x: "x = (fill_sender dst s y)\<lparr>sd_timeout := t, sd_next_chunk := 0\<rparr>"
    using assms(2,4) by (auto simp: sending_def)
  then have f: "sd_gen_device_id x = sl_gen_device_id s" "sd_data_id x = sl_data_id s" "sd_priority x = sl_priority s"
    by (simp_all add: fill_sender_def)
  let ?c = "stamped_chunk (sl_priority s) dst (chunk_packet x bs c) (e c)"
  let ?f = "proc (send_report_chunk P (chunk_packet x bs c) dst (sl_priority s)) (e c)"
  have snd: "sends P (sl_priority s) (enc_report_chunk ?c) (e c) ?f" by (rule report_sends(2)[OF assms(1)])
  have es: "e (Suc c) = upd_sender k (\<lambda>y. y\<lparr>sd_next_chunk := word_of_nat (Suc c)\<rparr>) ?f"
    by (simp add: e_def after_chunk_def f)
  then have q: "dv_queues (e (Suc c)) = dv_queues ?f" by (simp add: upd_sender_def)
  have "sending P d0 s bs k dst (word_of_nat (Suc c)) (e (Suc c))"
    unfolding es by (rule sending_next[OF sending_keeps[OF cs(3) sendsD(1)[OF snd]]])
  moreover have "queued (sl_priority s) (map enc_report_chunk (cs @ [?c])) (dv_queues (e (Suc c)))"
    using sendsD(4)[OF snd cs(2)] cs(1) Suc.prems unfolding q by simp
  moreover have "chunk_of i bs c ?c"
    using assms(5-9) Suc.prems f cs(3) by (intro chunk_of_packet) (simp_all add: sending_def)
  then have "\<forall>j<Suc c. chunk_of i bs j ((cs @ [?c]) ! j)"
    using cs(1,5) by (auto simp: nth_append less_Suc_eq)
  ultimately show ?case using cs(1,4) sendsD(3)[OF snd] q by (intro exI[of _ "cs @ [?c]"]) simp
qed

lemma receive_init_ack_step:
  fixes P :: platform and d :: dev and r :: s16
  assumes "msgq_ok P" "sending P d0 s bs k dst 0 d" "known_sender dst d" "rx_pending (dv_queues d) = []" "tx_pending (dv_queues d) = []"
    "ph_packet_type (rpia_hdr ia) = PACKET_REPORT_INIT_ACK" "ph_device_id (rpia_hdr ia) = get_device_id d0"
    "ph_device_type (rpia_hdr ia) \<in> {DEVICE_TYPE_GATEWAY, DEVICE_TYPE_ANCHOR}" "ph_status (rpia_hdr ia) = STATUS_SUCCESS"
    "ph_priority (rpia_hdr ia) = sl_priority s" "rpia_gen_device_id ia = sl_gen_device_id s" "rpia_data_id ia = sl_data_id s"
    "get_device_type d0 \<in> {DEVICE_TYPE_SENSOR, DEVICE_TYPE_ANCHOR}" "announces P' i bs"
    "rpi_gen_device_id i = sl_gen_device_id s" "rpi_data_id i = sl_data_id s" "rpi_total_size i = sl_total_size s"
    "rpi_chunk_count i = sl_chunk_count s" "rpi_last_chunk_size i = sl_last_chunk_size s"
    "ph_priority (rpi_hdr i) = sl_priority s" "ph_device_id (rpi_hdr i) = dst" "ph_device_type (rpi_hdr i) = get_device_type d0"
  defines "d1 \<equiv> hear P r [frame_of dst (enc_report_init_ack ia)] d"
  shows "\<exists>cs. length cs = chunks_of i \<and> queued (sl_priority s) (map enc_report_chunk cs) (dv_queues d1) \<and>
    rx_pending (dv_queues d1) = [] \<and> sending P d0 s bs k dst (sl_chunk_count s) d1 \<and> (\<forall>j<chunks_of i. chunk_of i bs j (cs ! j))"
proof -
  let ?p = "sl_priority s"
  define I where "I m e \<longleftrightarrow> (if m = 0 then sending P d0 s bs k dst 0 e \<and> queued ?p [] (dv_queues e)
      else \<exists>cs. length cs = chunks_of i \<and> queued ?p (map enc_report_chunk cs) (dv_queues e) \<and>
        sending P d0 s bs k dst (sl_chunk_count s) e \<and> (\<forall>j<chunks_of i. chunk_of i bs j (cs ! j)))" for m :: nat and e
  have "I (length [enc_report_init_ack ia]) (hear P r (map (frame_of dst) [enc_report_init_ack ia]) d) \<and>
      rx_pending (dv_queues (hear P r (map (frame_of dst) [enc_report_init_ack ia]) d)) = []"
  proof (rule hear_steps[where p = ?p, OF assms(1,3,4)])
    fix e assume e: "keeps P d e" "tx_items (dv_queues e) = tx_items (dv_queues d)"
    then show "I 0 e" using sending_keeps[OF assms(2)] queued_none[OF assms(5), of ?p] queued_cong[OF e(2)] by (simp add: I_def)
  next
    fix m e q assume "I m e" "tx_items q = tx_items (dv_queues e)"
    then show "I m (e\<lparr>dv_queues := q\<rparr>)"
      using sending_keeps[OF _ keeps_queues(1)] queued_cong[of q "dv_queues e" ?p] by (auto simp: I_def split: if_splits)
  next
    fix m e assume m: "m < length [enc_report_init_ack ia]" "I m e"
    then have e: "m = 0" "sending P d0 s bs k dst 0 e" "queued ?p [] (dv_queues e)" by (simp_all add: I_def)
    let ?u = "d_untrack (ph_tracking_id (rpia_hdr ia)) e"
    let ?x = "sender_at ?u k"
    have u: "sending P d0 s bs k dst 0 ?u" "queued ?p [] (dv_queues ?u)" "rx_items (dv_queues ?u) = rx_items (dv_queues e)"
      using sending_keeps[OF e(2) keeps_untrack] e(3) by (simp_all add: d_untrack_def)
    obtain y t where x: "?x = (fill_sender dst s y)\<lparr>sd_timeout := t, sd_next_chunk := 0\<rparr>"
      using u(1) unfolding sending_def by blast
    have w: "psram_up P ?u" "dev_wf ?u" "k < MAX_ANCHORS" "region ?u (slot_psram_addr 0) (unat (sl_total_size s)) = bs"
      using u(1) by (simp_all add: sending_def)
    have f: "sd_dst_id ?x = dst" "sd_next_chunk ?x = 0" "sd_total_size ?x = sl_total_size s" "sd_chunk_count ?x = sl_chunk_count s"
      "sd_last_chunk_size ?x = sl_last_chunk_size s"
      by (simp_all add: x fill_sender_def)
    have "length bs = unat (sl_total_size s)" using w(4) length_region by metis
    then have "sender_sizes ?x"
      using assms(14) sender_at_ok[OF w(2,3)] unfolding announces_def init_valid_def sender_sizes_def f assms(17-19)
      by (auto simp: word_gt_0_no unat_gt_0)
    from send_next_chunk_lib[OF w(1-3) f(2) this, of dst]
    have send: "send_next_chunk P dst k ?u = (0, fold (after_chunk P dst k ?x bs) [0..<chunks_of i] ?u)"
      unfolding f w(4) assms(18) .
    have "chunks_of i \<le> 2" using announces_sizes(1)[OF assms(14)] by auto
    from chunks_step[OF assms(1) u(1,2) refl assms(15,16,20-22) this]
    obtain cs where cs: "length cs = chunks_of i"
      "queued ?p (map enc_report_chunk cs) (dv_queues (snd (send_next_chunk P dst k ?u)))"
      "sending P d0 s bs k dst (word_of_nat (chunks_of i)) (snd (send_next_chunk P dst k ?u))"
      "rx_items (dv_queues (snd (send_next_chunk P dst k ?u))) = rx_items (dv_queues ?u)"
      "\<forall>j<chunks_of i. chunk_of i bs j (cs ! j)"
      unfolding send snd_conv by blast
    have "dv_info e = dv_info d0" "dv_info ?u = dv_info d0" using e(2) u(1) by (simp_all add: sending_def)
    then have "process_rx P (enc_report_init_ack ia @ z) dst r e = proc (send_next_chunk P dst k) ?u" for z
      using report_dispatch(2)[OF assms(6)] assms(7-13) sending_find[OF u(1)] f(1)
      by (auto simp: handle_report_init_ack_def Let_def valid_device_type_def)
    then show "let bs = [enc_report_init_ack ia] ! m; e' = process_rx P (bs @ replicate (QUEUE_DATA_MAX - length bs) 0) dst r e
      in I (Suc m) e' \<and> (Suc m < length [enc_report_init_ack ia] \<longrightarrow> dv_status e' = Running) \<and> rx_items (dv_queues e') = rx_items (dv_queues e)"
      using cs u(3) assms(18) by (auto simp: e(1) Let_def I_def proc_def)
  qed (auto simp: report_frame_ok assms(10))
  then show ?thesis by (auto simp: I_def d1_def)
qed

definition chunk_ack :: "u16 \<Rightarrow> dev \<Rightarrow> report_chunk \<Rightarrow> report_chunk_ack" where
  "chunk_ack n d0 c = \<lparr>rpca_hdr = mk_hdr PACKET_REPORT_CHUNK_ACK (ph_priority (rpc_hdr c)) (ph_tracking_id (rpc_hdr c)) n
     STATUS_SUCCESS d0, rpca_gen_device_id = rpc_gen_device_id c, rpca_data_id = rpc_data_id c,
     rpca_chunk_index = rpc_chunk_index c\<rparr>"

lemma receive_chunks_step:
  fixes P :: platform and d :: dev and r :: s16
  assumes "msgq_ok P" "crc32_ok P" "announces P i bs" "holding P d0 i bs idx {} d" "known_sender n d"
    "rx_pending (dv_queues d) = []" "tx_pending (dv_queues d) = []"
    "length cs = chunks_of i" "\<forall>j<chunks_of i. chunk_of i bs j (cs ! j)"
    "ph_device_id (rpi_hdr i) = get_device_id d0" "ph_device_type (rpi_hdr i) \<in> {DEVICE_TYPE_ANCHOR, DEVICE_TYPE_SENSOR}"
    "get_device_type d0 \<in> {DEVICE_TYPE_GATEWAY, DEVICE_TYPE_ANCHOR}"
  defines "p \<equiv> ph_priority (rpi_hdr i)" and "d1 \<equiv> hear P r (map (frame_of n) (map enc_report_chunk cs)) d"
  shows "queued p (map (\<lambda>c. enc_report_chunk_ack (chunk_ack n d0 c)) cs) (dv_queues d1) \<and>
    rx_pending (dv_queues d1) = [] \<and> holding P d0 i bs idx {..<chunks_of i} d1"
proof -
  let ?bss = "map enc_report_chunk cs" and ?ack = "\<lambda>c. enc_report_chunk_ack (chunk_ack n d0 c)"
  have cs: "chunk_of i bs j (cs ! j)" if "j < length cs" for j using assms(8,9) that by simp
  have two: "length cs \<le> 2" "0 < length cs" using announces_sizes(1)[OF assms(3)] assms(8) by auto
  define I where "I m e \<longleftrightarrow> holding P d0 i bs idx {..<m} e \<and> queued p (map ?ack (take m cs)) (dv_queues e)" for m e
  have "I (length ?bss) (hear P r (map (frame_of n) ?bss) d) \<and> rx_pending (dv_queues (hear P r (map (frame_of n) ?bss) d)) = []"
  proof (rule hear_steps[where p = p, OF assms(1,5,6)])
    show "length ?bss \<le> 8" using two by simp
    show "\<forall>bs\<in>set ?bss. 2 < length bs \<and> length bs \<le> QUEUE_DATA_MAX \<and> bs ! 2 = p"
      using cs report_frame_ok(3) by (fastforce simp: in_set_conv_nth chunk_of_def Let_def p_def)
    fix e assume e: "keeps P d e" "tx_items (dv_queues e) = tx_items (dv_queues d)"
    then show "I 0 e" using holding_keeps[OF assms(4)] queued_none[OF assms(7), of p] queued_cong[OF e(2)] by (simp add: I_def)
  next
    fix m e q assume "I m e" "tx_items q = tx_items (dv_queues e)"
    then show "I m (e\<lparr>dv_queues := q\<rparr>)"
      using holding_keeps[OF _ keeps_queues(1)] queued_cong[of q "dv_queues e" p] by (auto simp: I_def)
  next
    fix m e assume m: "m < length ?bss" "I m e"
    let ?c = "cs ! m"
    have e: "holding P d0 i bs idx {..<m} e" "queued p (map ?ack (take m cs)) (dv_queues e)" "m < length cs"
      using m by (simp_all add: I_def)
    have c: "carries i bs m ?c" "length (rpc_data ?c) = 180" "ph_packet_type (rpc_hdr ?c) = PACKET_REPORT_CHUNK"
      "ph_device_type (rpc_hdr ?c) = ph_device_type (rpi_hdr i)" "ph_priority (rpc_hdr ?c) = p"
      "ph_device_id (rpc_hdr ?c) = ph_device_id (rpi_hdr i)"
      using cs[OF e(3)] by (simp_all add: chunk_of_def Let_def p_def)
    have h: "dv_status e = Running" "dv_info e = dv_info d0" "dev_wf e" using e(1) by (simp_all add: holding_def report_has_def)
    have inv: "report_inv P i bs (\<lambda>j. cs ! j) idx {..<m} e"
      using e(1) assms(2,3,8) cs by (simp add: report_inv_def holding_def chunk_of_def)
    let ?v = "snd (validate_report_chunk P ?c e)"
    have "m < chunks_of i" using e(3) assms(8) by simp
    note v1 = report_rx.step[OF inv this, simplified]
    note v = only_data_fields[OF validate_report_chunk_only[OF h(3), of P ?c]]
    have "find_slot (rpc_gen_device_id ?c) (rpc_data_id ?c) e = Some idx" "psram_up P e"
      using e(1) c(1) by (simp_all add: holding_def report_has_def carries_def)
    then have other: "rep_at ?v j = rep_at e j" if "j \<noteq> idx" for j
      using that by (intro validate_report_chunk_other[OF _ h(3) assms(2)]) simp_all
    have "insert m {..<m} = {..<Suc m}" by auto
    then have hold: "holding P d0 i bs idx {..<Suc m} ?v"
      using v1(2) v(1-3,6-8) e(1) other by (simp add: holding_def report_inv_def)
    let ?ca = "\<lparr>rpca_hdr = zero_hdr\<lparr>ph_status := STATUS_SUCCESS\<rparr>, rpca_gen_device_id = rpc_gen_device_id ?c,
       rpca_data_id = rpc_data_id ?c, rpca_chunk_index = rpc_chunk_index ?c\<rparr>"
    let ?e' = "proc (send_report_chunk_ack P ?ca n p (ph_tracking_id (rpc_hdr ?c))) ?v"
    have "process_rx P (enc_report_chunk ?c @ z) n r e = ?e'" for z
      using report_dispatch(3)[OF c(3,2)] c(4-6) assms(10-12) h(1,2) v(1) v1(1)
      by (auto simp: handle_report_chunk_def Let_def valid_device_type_def split_beta)
    moreover have snd: "sends P p (?ack ?c) ?v ?e'"
      using report_sends(4)[OF assms(1), where p = p and ca = ?ca and tid = "ph_tracking_id (rpc_hdr ?c)" and dst = n and d = ?v]
        v(2) h(2) c(5)
      by (simp add: chunk_ack_def mk_hdr_def zero_hdr_def)
    moreover have "I (Suc m) ?e'"
      using holding_keeps[OF hold sendsD(1)[OF snd]] sendsD(4)[OF snd, of "map ?ack (take m cs)"] e(2,3) v(4) two(1)
      by (simp add: I_def take_Suc_conv_app_nth)
    moreover have "dv_status ?e' = Running" using sendsD(1)[OF snd] v(1) h(1) by (simp add: keeps_def)
    ultimately show "let bs = ?bss ! m; e' = process_rx P (bs @ replicate (QUEUE_DATA_MAX - length bs) 0) n r e
      in I (Suc m) e' \<and> (Suc m < length ?bss \<longrightarrow> dv_status e' = Running) \<and> rx_items (dv_queues e') = rx_items (dv_queues e)"
      using sendsD(3)[OF snd] v(4) e(3) by (simp add: Let_def)
  qed
  then show ?thesis using assms(8) by (simp add: I_def d1_def)
qed

text \<open>The first acknowledgment ends the transfer; for a second one there is no sender any more.\<close>

lemma transfer_done:
  assumes "sending P d0 s bs k dst n d"
  defines "e \<equiv> report_transfer_done k d"
  shows "only_data d e" "find_sender_slot (sl_gen_device_id s) (sl_data_id s) e = None" "\<not> sl_active (rep_at e 0)"
    "\<not> sd_active (sender_at e k)"
proof -
  have d: "dev_wf d" "k < MAX_ANCHORS" "\<forall>j<MAX_ANCHORS. sends_report s (sender_at d j) \<longleftrightarrow> j = k"
    "find_slot (sl_gen_device_id s) (sl_data_id s) d = Some 0"
    using assms(1) by (simp_all add: sending_def)
  obtain x t where x: "sender_at d k = (fill_sender dst s x)\<lparr>sd_timeout := t, sd_next_chunk := n\<rparr>"
    using assms(1) unfolding sending_def by blast
  have l: "length (rep_senders d) = MAX_ANCHORS" "0 < length (rep_slots d)" using d(1) by (simp_all add: dev_wf_def reports_wf_def)
  have e: "e = free_sender_slot k (report_slot_free 0 k d)"
    using d(4) by (simp add: e_def report_transfer_done_def x fill_sender_def)
  show "only_data d e" unfolding e free_sender_slot_def by (intro only_data_after)
  have f: "rep_senders e = (rep_senders d)[k := (sender_at d k)\<lparr>sd_active := False\<rparr>]"
    using d(2) l(1) by (simp add: e free_sender_slot_def report_slot_free_def update_report_count_def upd_slot_def upd_sender_def Let_def)
  then show "\<not> sd_active (sender_at e k)" using d(2) l(1) by simp
  have "\<not> sends_report s (sender_at e j)" if "j < length (rep_senders e)" for j
    using d(2,3) l(1) that unfolding f by (cases "j = k") (simp_all add: sends_report_def)
  then show "find_sender_slot (sl_gen_device_id s) (sl_data_id s) e = None"
    by (simp add: find_sender_slot_def find_idx_None_iff sends_report_def all_set_conv_all_nth)
  show "\<not> sl_active (rep_at e 0)"
    using l(2) by (simp add: e free_sender_slot_def report_slot_free_def update_report_count_def upd_slot_def upd_sender_def Let_def)
qed

lemma receive_acks_step:
  fixes P :: platform and d :: dev and r :: s16
  assumes "msgq_ok P" "sending P d0 s bs k dst (sl_chunk_count s) d" "known_sender dst d" "rx_pending (dv_queues d) = []"
    "length as \<le> 2" "as \<noteq> []"
    "\<forall>a\<in>set as. ph_packet_type (rpca_hdr a) = PACKET_REPORT_CHUNK_ACK \<and> ph_device_id (rpca_hdr a) = get_device_id d0 \<and>
       valid_device_type (ph_device_type (rpca_hdr a)) \<and> ph_status (rpca_hdr a) = STATUS_SUCCESS \<and> ph_priority (rpca_hdr a) = p \<and>
       rpca_gen_device_id a = sl_gen_device_id s \<and> rpca_data_id a = sl_data_id s"
  defines "d1 \<equiv> hear P r (map (frame_of dst) (map enc_report_chunk_ack as)) d"
  shows "if length as = 1 then dv_status d1 = Running \<and> \<not> sl_active (rep_at d1 0) \<and> \<not> sd_active (sender_at d1 k)
     else dv_status d1 = Faulted"
proof -
  let ?bss = "map enc_report_chunk_ack as"
  define freed where "freed e \<longleftrightarrow> find_sender_slot (sl_gen_device_id s) (sl_data_id s) e = None \<and> \<not> sl_active (rep_at e 0) \<and>
    \<not> sd_active (sender_at e k) \<and> dv_status e = Running \<and> dv_info e = dv_info d0" for e
  define I where "I m e \<longleftrightarrow> (if m = 0 then sending P d0 s bs k dst (sl_chunk_count s) e
      else if m = 1 then freed e else dv_status e = Faulted)" for m :: nat and e
  have "I (length ?bss) (hear P r (map (frame_of dst) ?bss) d) \<and> rx_pending (dv_queues (hear P r (map (frame_of dst) ?bss) d)) = []"
  proof (rule hear_steps[where p = p, OF assms(1,3,4)])
    show "length ?bss \<le> 8" using assms(5) by simp
    show "\<forall>bs\<in>set ?bss. 2 < length bs \<and> length bs \<le> QUEUE_DATA_MAX \<and> bs ! 2 = p"
      using assms(7) report_frame_ok(4) by auto
    fix e assume "keeps P d e"
    then show "I 0 e" using sending_keeps[OF assms(2)] by (simp add: I_def)
  next
    fix m e q assume "I m e" "tx_items q = tx_items (dv_queues e)"
    then show "I m (e\<lparr>dv_queues := q\<rparr>)"
      using sending_keeps[OF _ keeps_queues(1)] by (auto simp: I_def freed_def find_sender_slot_def)
  next
    fix m e assume m: "m < length ?bss" "I m e"
    let ?a = "as ! m" and ?u = "d_untrack (ph_tracking_id (rpca_hdr (as ! m))) e"
    have a: "ph_packet_type (rpca_hdr ?a) = PACKET_REPORT_CHUNK_ACK" "ph_device_id (rpca_hdr ?a) = get_device_id d0"
      "valid_device_type (ph_device_type (rpca_hdr ?a))" "ph_status (rpca_hdr ?a) = STATUS_SUCCESS"
      "rpca_gen_device_id ?a = sl_gen_device_id s" "rpca_data_id ?a = sl_data_id s"
      using assms(7) m(1) by simp_all
    have u: "dv_reports ?u = dv_reports e" "rx_items (dv_queues ?u) = rx_items (dv_queues e)" "dv_info ?u = dv_info e"
      by (simp_all add: d_untrack_def)
    show "let bs = ?bss ! m; e' = process_rx P (bs @ replicate (QUEUE_DATA_MAX - length bs) 0) dst r e
      in I (Suc m) e' \<and> (Suc m < length ?bss \<longrightarrow> dv_status e' = Running) \<and> rx_items (dv_queues e') = rx_items (dv_queues e)"
    proof (cases "m = 0")
      case True
      then have e: "sending P d0 s bs k dst (sl_chunk_count s) e" using m(2) by (simp add: I_def)
      have su: "sending P d0 s bs k dst (sl_chunk_count s) ?u" by (rule sending_keeps[OF e keeps_untrack])
      then obtain x t where x: "sender_at ?u k = (fill_sender dst s x)\<lparr>sd_timeout := t, sd_next_chunk := sl_chunk_count s\<rparr>"
        unfolding sending_def by blast
      have i: "dv_info e = dv_info d0" using e by (simp add: sending_def)
      have "process_rx P (enc_report_chunk_ack ?a @ z) dst r e = report_transfer_done k ?u" for z
        using report_dispatch(4)[OF a(1)] a i sending_find[OF su]
        by (simp add: handle_report_chunk_ack_def Let_def x) (simp add: fill_sender_def)
      moreover note t = transfer_done[OF su]
      moreover have "freed (report_transfer_done k ?u)"
        using t only_data_fields[OF t(1)] su by (simp add: freed_def sending_def)
      ultimately show ?thesis
        using True m(1) u(2) only_data_fields(1,4)[OF t(1)] su by (simp add: I_def Let_def sending_def)
    next
      case False
      then have one: "m = 1" "length as = 2" using m(1) assms(5) by auto
      then have "freed e" using m(2) by (simp add: I_def)
      then have "find_sender_slot (sl_gen_device_id s) (sl_data_id s) ?u = None" "dv_info e = dv_info d0"
        using u(1) by (simp_all add: freed_def find_sender_slot_def)
      then have "process_rx P (enc_report_chunk_ack ?a @ z) dst r e = fault ?u" for z
        using report_dispatch(4)[OF a(1)] a by (simp add: handle_report_chunk_ack_def Let_def)
      then show ?thesis using one u(2) by (simp add: I_def Let_def fault_def)
    qed
  qed
  moreover have "length as \<noteq> 0" using assms(6) by simp
  then have "length as = 1 \<or> length as = 2" using assms(5) by linarith
  ultimately show ?thesis using assms(6) by (auto simp: I_def d1_def freed_def split: if_splits)
qed

lemma rx_pending_cong: "rx_items q = rx_items q' \<Longrightarrow> rx_pending q = rx_pending q'"
  unfolding pending_eq[symmetric] rxq.pending_def by simp

text \<open>
  Two idle nodes that know each other: a sensor or anchor \<open>A\<close> with the report \<open>bs\<close> in slot 0, and
  its parent \<open>B\<close>, a gateway or anchor that does not have the report yet and has a free slot.
\<close>

definition can_transfer :: "platform \<Rightarrow> platform \<Rightarrow> dev \<Rightarrow> dev \<Rightarrow> bytes \<Rightarrow> bool" where
  "can_transfer PA PB A B bs \<longleftrightarrow> idle_node PA A \<and> idle_node PB B \<and> crc32_ok PB \<and> has_report bs A \<and>
     get_device_type A \<in> {DEVICE_TYPE_SENSOR, DEVICE_TYPE_ANCHOR} \<and> get_device_type B \<in> {DEVICE_TYPE_GATEWAY, DEVICE_TYPE_ANCHOR} \<and>
     infra_id (infra_at A 0) = get_device_id B \<and> known_sender (get_device_id A) B \<and> known_sender (get_device_id B) A \<and>
     sl_crc32 (rep_at A 0) = pf_crc32 PB bs \<and> (\<exists>x\<in>set (rep_slots B). \<not> sl_active x) \<and>
     find_slot (sl_gen_device_id (rep_at A 0)) (sl_data_id (rep_at A 0)) B = None"

text \<open>The announcement of the report, and the answer to it.\<close>

definition announcement :: "dev \<Rightarrow> dev \<Rightarrow> report_init \<Rightarrow> bool" where
  "announcement A B i \<longleftrightarrow> (let s = rep_at A 0; h = rpi_hdr i in
     h = mk_hdr PACKET_REPORT_INIT (sl_priority s) (ph_tracking_id h) (get_device_id B) 0 A \<and>
     rpi_gen_device_id i = sl_gen_device_id s \<and> rpi_data_id i = sl_data_id s \<and> rpi_total_size i = sl_total_size s \<and>
     rpi_chunk_count i = sl_chunk_count s \<and> rpi_last_chunk_size i = sl_last_chunk_size s \<and> rpi_crc32 i = sl_crc32 s)"

definition init_ack :: "dev \<Rightarrow> dev \<Rightarrow> report_init \<Rightarrow> report_init_ack" where
  "init_ack A B i = \<lparr>rpia_hdr = mk_hdr PACKET_REPORT_INIT_ACK (ph_priority (rpi_hdr i)) (ph_tracking_id (rpi_hdr i))
     (get_device_id A) STATUS_SUCCESS B, rpia_gen_device_id = rpi_gen_device_id i, rpia_data_id = rpi_data_id i\<rparr>"

lemma announcementD:
  assumes "announcement A B i"
  shows "ph_packet_type (rpi_hdr i) = PACKET_REPORT_INIT" "ph_priority (rpi_hdr i) = sl_priority (rep_at A 0)"
    "ph_device_id (rpi_hdr i) = get_device_id B" "ph_device_type (rpi_hdr i) = get_device_type A"
    "rpi_gen_device_id i = sl_gen_device_id (rep_at A 0)" "rpi_data_id i = sl_data_id (rep_at A 0)"
    "rpi_total_size i = sl_total_size (rep_at A 0)" "rpi_chunk_count i = sl_chunk_count (rep_at A 0)"
    "rpi_last_chunk_size i = sl_last_chunk_size (rep_at A 0)"
proof -
  have h: "rpi_hdr i = mk_hdr PACKET_REPORT_INIT (sl_priority (rep_at A 0)) (ph_tracking_id (rpi_hdr i)) (get_device_id B) 0 A"
    using assms unfolding announcement_def Let_def by blast
  show "ph_packet_type (rpi_hdr i) = PACKET_REPORT_INIT" "ph_priority (rpi_hdr i) = sl_priority (rep_at A 0)"
    "ph_device_id (rpi_hdr i) = get_device_id B" "ph_device_type (rpi_hdr i) = get_device_type A"
    by (subst h, simp add: mk_hdr_def)+
qed (use assms in \<open>simp_all add: announcement_def Let_def\<close>)

lemma announcement_announces:
  assumes "can_transfer PA PB A B bs" "announcement A B i" shows "announces PB i bs"
proof -
  let ?s = "rep_at A 0"
  have "region A (slot_psram_addr 0) (unat (sl_total_size ?s)) = bs" "0 < unat (sl_chunk_count ?s)" "0 < unat (sl_last_chunk_size ?s)"
    "unat (sl_total_size ?s) = (unat (sl_chunk_count ?s) - 1) * SEND_DATA_MAX + unat (sl_last_chunk_size ?s)"
    using assms(1) unfolding can_transfer_def has_report_def Let_def by blast+
  moreover have "slot_ok ?s" using assms(1) by (intro rep_at_ok) (simp_all add: can_transfer_def idle_node_def)
  moreover have "length bs = unat (sl_total_size ?s)" using calculation(1) length_region by metis
  moreover have "rpi_crc32 i = pf_crc32 PB bs" using assms by (simp add: can_transfer_def announcement_def Let_def)
  ultimately show ?thesis
    unfolding announces_def init_valid_def slot_ok_def announcementD(5-9)[OF assms(2)]
    by (simp add: word_neq_0_conv[symmetric] unat_gt_0[symmetric])
qed

text \<open>The first half: the parent accepts the announcement.\<close>

lemma report_announced:
  fixes PA PB :: platform and A B :: dev and r :: s16 and bs :: bytes
  assumes "can_transfer PA PB A B bs" "k < MAX_ANCHORS"
  defines "A2 \<equiv> tx_phase PA (start_report PA k 0 A)"
  defines "B1 \<equiv> hear PB r (emitted (start_report PA k 0 A) A2) B"
  defines "B2 \<equiv> tx_phase PB B1"
  shows "\<exists>i idx. announcement A B i \<and> sending PA A (rep_at A 0) bs k (get_device_id B) 0 A2 \<and>
    tx_pending (dv_queues A2) = [] \<and> rx_pending (dv_queues A2) = [] \<and> holding PB B i bs idx {} B2 \<and>
    tx_pending (dv_queues B2) = [] \<and> rx_pending (dv_queues B2) = [] \<and>
    emitted B1 B2 = [frame_of (get_device_id B) (enc_report_init_ack (init_ack A B i))]"
proof -
  let ?s = "rep_at A 0" and ?p = "sl_priority (rep_at A 0)" and ?b = "get_device_id B" and ?a = "get_device_id A"
    and ?A1 = "start_report PA k 0 A"
  have c: "idle_node PA A" "idle_node PB B" "has_report bs A" "infra_id (infra_at A 0) = ?b" "known_sender ?a B"
    "get_device_type A \<in> {DEVICE_TYPE_SENSOR, DEVICE_TYPE_ANCHOR}" "get_device_type B \<in> {DEVICE_TYPE_GATEWAY, DEVICE_TYPE_ANCHOR}"
    "find_slot (sl_gen_device_id ?s) (sl_data_id ?s) B = None" "\<exists>x\<in>set (rep_slots B). \<not> sl_active x"
    using assms(1) unfolding can_transfer_def by blast+
  have ok: "msgq_ok PA" "modem_accepts PA" "msgq_ok PB" "modem_accepts PB" "dv_radio_id A = ?a" "dv_radio_id B = ?b"
    "rx_pending (dv_queues A) = []"
    using c(1,2) by (simp_all add: idle_node_def)
  obtain i where i: "queued ?p [enc_report_init i] (dv_queues ?A1)" "sending PA A ?s bs k ?b 0 ?A1"
    "rx_items (dv_queues ?A1) = rx_items (dv_queues A)" "announcement A B i"
    using start_report_step[OF c(1,3) assms(2) refl c(4)[symmetric]] unfolding announcement_def Let_def by blast
  note h = announcementD[OF i(4)]
  have r: "dv_radio_id ?A1 = ?a" using i(2) ok(5) by (simp add: sending_def)
  note t2 = tx_step[OF ok(1,2) i(1), folded A2_def, simplified]
  have A2: "sending PA A ?s bs k ?b 0 A2" "rx_pending (dv_queues A2) = []" "emitted ?A1 A2 = [frame_of ?a (enc_report_init i)]"
    using sending_keeps[OF i(2) t2(1)] t2(2) ok(7) r rx_pending_cong[OF trans[OF t2(4) i(3)]] by simp_all
  obtain idx where B1: "queued (ph_priority (rpi_hdr i)) [enc_report_init_ack (init_ack A B i)] (dv_queues B1)"
    "rx_pending (dv_queues B1) = []" "holding PB B i bs idx {} B1"
    using receive_init_step[OF c(2) announcement_announces[OF assms(1) i(4)] h(1,3) _ c(7,5) _ c(9), of r] c(6,8) h(4)
    unfolding B1_def A2(3) h(5,6) init_ack_def by auto
  have rB: "dv_radio_id B1 = ?b" using B1(3) ok(6) by (simp add: holding_def)
  note u2 = tx_step[OF ok(3,4) B1(1), folded B2_def, simplified]
  show ?thesis
    using i(4) A2(1,2) t2(3) holding_keeps[OF B1(3) u2(1)] u2(2,3) B1(2) rx_pending_cong[OF u2(4)] rB by auto
qed

text \<open>The second half: from the acknowledged announcement to the acknowledgments of the chunks.\<close>

lemma report_chunks_exchanged:
  fixes PA PB :: platform and A B A2 B2 :: dev and rA rB :: s16 and bs :: bytes
  assumes "can_transfer PA PB A B bs" "announcement A B i" "sending PA A (rep_at A 0) bs k (get_device_id B) 0 A2"
    "tx_pending (dv_queues A2) = []" "rx_pending (dv_queues A2) = []" "holding PB B i bs idx {} B2"
    "tx_pending (dv_queues B2) = []" "rx_pending (dv_queues B2) = []"
  defines "A3 \<equiv> hear PA rA [frame_of (get_device_id B) (enc_report_init_ack (init_ack A B i))] A2"
  defines "A4 \<equiv> tx_phase PA A3"
  defines "B3 \<equiv> hear PB rB (emitted A3 A4) B2"
  defines "B4 \<equiv> tx_phase PB B3"
  shows "\<exists>cs. length cs = chunks_of i \<and> (\<forall>j<chunks_of i. chunk_of i bs j (cs ! j)) \<and>
    sending PA A (rep_at A 0) bs k (get_device_id B) (sl_chunk_count (rep_at A 0)) A4 \<and> rx_pending (dv_queues A4) = [] \<and>
    holding PB B i bs idx {..<chunks_of i} B4 \<and>
    emitted B3 B4 = map (frame_of (get_device_id B)) (map enc_report_chunk_ack (map (chunk_ack (get_device_id A) B) cs))"
proof -
  let ?s = "rep_at A 0" and ?p = "sl_priority (rep_at A 0)" and ?b = "get_device_id B" and ?a = "get_device_id A"
  have c: "idle_node PA A" "idle_node PB B" "crc32_ok PB" "known_sender ?a B" "known_sender ?b A"
    "get_device_type A \<in> {DEVICE_TYPE_SENSOR, DEVICE_TYPE_ANCHOR}" "get_device_type B \<in> {DEVICE_TYPE_GATEWAY, DEVICE_TYPE_ANCHOR}"
    using assms(1) unfolding can_transfer_def by blast+
  have ok: "msgq_ok PA" "modem_accepts PA" "msgq_ok PB" "modem_accepts PB" "dv_radio_id A = ?a" "dv_radio_id B = ?b"
    using c(1,2) by (simp_all add: idle_node_def)
  note h = announcementD[OF assms(2)] and ann = announcement_announces[OF assms(1,2)]
  have k: "known_sender ?b A2" "known_sender ?a B2" using c(4,5) assms(3,6) by (simp_all add: sending_def holding_def)
  have "\<exists>cs. length cs = chunks_of i \<and> queued ?p (map enc_report_chunk cs) (dv_queues A3) \<and>
    rx_pending (dv_queues A3) = [] \<and> sending PA A ?s bs k ?b (sl_chunk_count ?s) A3 \<and> (\<forall>j<chunks_of i. chunk_of i bs j (cs ! j))"
    unfolding A3_def
    by (rule receive_init_ack_step[OF ok(1) assms(3) k(1) assms(5,4)])
       (use c(6,7) ann h in \<open>auto simp: init_ack_def mk_hdr_def\<close>)
  then obtain cs where A3: "length cs = chunks_of i" "queued ?p (map enc_report_chunk cs) (dv_queues A3)" "rx_pending (dv_queues A3) = []"
    "sending PA A ?s bs k ?b (sl_chunk_count ?s) A3" "\<forall>j<chunks_of i. chunk_of i bs j (cs ! j)" by blast
  have two: "chunks_of i \<le> 2" using announces_sizes(1)[OF ann] by auto
  have "length (map enc_report_chunk cs) \<le> 8" "\<forall>b\<in>set (map enc_report_chunk cs). length b \<le> QUEUE_DATA_MAX"
    using A3(1,5) two by (auto simp: in_set_conv_nth chunk_of_def)
  note t4 = tx_step[OF ok(1,2) A3(2) this, folded A4_def]
  have A4: "sending PA A ?s bs k ?b (sl_chunk_count ?s) A4" "rx_pending (dv_queues A4) = []"
    "emitted A3 A4 = map (frame_of ?a) (map enc_report_chunk cs)"
    using sending_keeps[OF A3(4) t4(1)] t4(2) A3(3,4) rx_pending_cong[OF t4(4)] ok(5) by (simp_all add: sending_def)
  let ?as = "map (chunk_ack ?a B) cs"
  have B3: "queued ?p (map enc_report_chunk_ack ?as) (dv_queues B3)" "holding PB B i bs idx {..<chunks_of i} B3"
    using receive_chunks_step[OF ok(3) c(3) ann assms(6) k(2) assms(8,7) A3(1,5) h(3) _ c(7), of rB] c(6) h(2,4)
    unfolding B3_def A4(3) by (auto simp: comp_def)
  have "length (map enc_report_chunk_ack ?as) \<le> 8" "\<forall>b\<in>set (map enc_report_chunk_ack ?as). length b \<le> QUEUE_DATA_MAX"
    using A3(1) two by auto
  note u4 = tx_step[OF ok(3,4) B3(1) this, folded B4_def]
  have "holding PB B i bs idx {..<chunks_of i} B4" "emitted B3 B4 = map (frame_of ?b) (map enc_report_chunk_ack ?as)"
    using holding_keeps[OF B3(2) u4(1)] u4(2) B3(2) ok(6) by (simp_all add: holding_def)
  then show ?thesis using A3(1,5) A4(1,2) by blast
qed

lemma report_delivered:
  fixes PA PB :: platform and A B :: dev and rA rB :: s16 and bs :: bytes
  assumes "can_transfer PA PB A B bs" "k < MAX_ANCHORS"
  defines "A1 \<equiv> start_report PA k 0 A"
  defines "A2 \<equiv> tx_phase PA A1"
  defines "B1 \<equiv> hear PB rB (emitted A1 A2) B"
  defines "B2 \<equiv> tx_phase PB B1"
  defines "A3 \<equiv> hear PA rA (emitted B1 B2) A2"
  defines "A4 \<equiv> tx_phase PA A3"
  defines "B3 \<equiv> hear PB rB (emitted A3 A4) B2"
  defines "B4 \<equiv> tx_phase PB B3"
  defines "A5 \<equiv> hear PA rA (emitted B3 B4) A4"
  shows "(\<exists>i idx. announcement A B i \<and> announces PB i bs \<and> holding PB B i bs idx {..<chunks_of i} B4) \<and>
    (if length bs \<le> 180 then dv_status A5 = Running \<and> \<not> sl_active (rep_at A5 0) \<and> \<not> sd_active (sender_at A5 k)
     else dv_status A5 = Faulted)"
proof -
  obtain i idx where 1: "announcement A B i" "sending PA A (rep_at A 0) bs k (get_device_id B) 0 A2" "tx_pending (dv_queues A2) = []"
    "rx_pending (dv_queues A2) = []" "holding PB B i bs idx {} B2" "tx_pending (dv_queues B2) = []" "rx_pending (dv_queues B2) = []"
    "emitted B1 B2 = [frame_of (get_device_id B) (enc_report_init_ack (init_ack A B i))]"
    using report_announced[OF assms(1,2), of rB] unfolding A1_def A2_def B1_def B2_def by blast
  obtain cs where 2: "length cs = chunks_of i" "\<forall>j<chunks_of i. chunk_of i bs j (cs ! j)"
    "sending PA A (rep_at A 0) bs k (get_device_id B) (sl_chunk_count (rep_at A 0)) A4" "rx_pending (dv_queues A4) = []"
    "holding PB B i bs idx {..<chunks_of i} B4"
    "emitted B3 B4 = map (frame_of (get_device_id B)) (map enc_report_chunk_ack (map (chunk_ack (get_device_id A) B) cs))"
    using report_chunks_exchanged[OF assms(1) 1(1-7), of rA rB] unfolding A3_def A4_def B3_def B4_def 1(8) by blast
  note h = announcementD[OF 1(1)] and ann = announcement_announces[OF assms(1) 1(1)]
  have two: "chunks_of i \<le> 2" "0 < chunks_of i" "chunks_of i = 1 \<longleftrightarrow> length bs \<le> 180" using announces_sizes(1)[OF ann] by auto
  have c: "msgq_ok PA" "known_sender (get_device_id B) A4" "get_device_type B \<in> {DEVICE_TYPE_GATEWAY, DEVICE_TYPE_ANCHOR}"
    using assms(1) 2(3) by (auto simp: can_transfer_def idle_node_def sending_def)
  have "announcement A B i \<and> announces PB i bs \<and> holding PB B i bs idx {..<chunks_of i} B4" using 1(1) ann 2(5) by blast
  moreover have "if length (map (chunk_ack (get_device_id A) B) cs) = 1
     then dv_status A5 = Running \<and> \<not> sl_active (rep_at A5 0) \<and> \<not> sd_active (sender_at A5 k) else dv_status A5 = Faulted"
    unfolding A5_def 2(6)
    by (rule receive_acks_step[where p = "sl_priority (rep_at A 0)", OF c(1) 2(3) c(2) 2(4)])
      (use 2(1,2) two c(3) h(2,5,6) in \<open>auto simp: in_set_conv_nth chunk_of_def carries_def chunk_ack_def mk_hdr_def Let_def
        valid_device_type_def\<close>)
  ultimately show ?thesis using two(3) 2(1) by auto
qed

text \<open>
  C4: A report crosses a hop. A sensor or anchor starts the transfer of the report in slot 0 to its
  parent, which does not have it yet; nothing else is waiting at the two. The announcement, its acknowledgment, the chunks and their
  acknowledgments go through the queues, the air and the handlers of both nodes. Then the parent
  has the bytes of the report, complete and ready for upstream. A sender of at most 180 bytes has
  freed its slot; one of more bytes gets a second acknowledgment, for which its sender is gone, and
  accesses index 255 of an array of eight.
\<close>

theorem report_dialogue:
  fixes PA PB :: platform and A B :: dev and rA rB :: s16 and bs :: bytes
  assumes "can_transfer PA PB A B bs" "k < MAX_ANCHORS"
  defines "A1 \<equiv> start_report PA k 0 A"
  defines "A2 \<equiv> tx_phase PA A1"
  defines "B1 \<equiv> hear PB rB (emitted A1 A2) B"
  defines "B2 \<equiv> tx_phase PB B1"
  defines "A3 \<equiv> hear PA rA (emitted B1 B2) A2"
  defines "A4 \<equiv> tx_phase PA A3"
  defines "B3 \<equiv> hear PB rB (emitted A3 A4) B2"
  defines "B4 \<equiv> tx_phase PB B3"
  defines "A5 \<equiv> hear PA rA (emitted B3 B4) A4"
  shows "(\<exists>idx. find_slot (sl_gen_device_id (rep_at A 0)) (sl_data_id (rep_at A 0)) B4 = Some idx \<and>
      sl_upstream_ready (rep_at B4 idx) \<and> region B4 (slot_psram_addr idx) (length bs) = bs) \<and>
    (if length bs \<le> 180 then dv_status A5 = Running \<and> \<not> sl_active (rep_at A5 0) \<and> \<not> sd_active (sender_at A5 k)
     else dv_status A5 = Faulted)"
proof -
  note D = report_delivered[OF assms(1,2), of rB rA, folded A1_def, folded A2_def, folded B1_def, folded B2_def, folded A3_def,
      folded A4_def, folded B3_def, folded B4_def, folded A5_def]
  then obtain i idx where i: "announcement A B i" "announces PB i bs" "holding PB B i bs idx {..<chunks_of i} B4" by blast
  have "find_slot (sl_gen_device_id (rep_at A 0)) (sl_data_id (rep_at A 0)) B4 = Some idx \<and> sl_upstream_ready (rep_at B4 idx) \<and>
      region B4 (slot_psram_addr idx) (length bs) = bs"
    using i(3) region_of_pieces[OF i(2)] announcementD(5,6)[OF i(1)] by (auto simp: holding_def report_has_def)
  then show ?thesis using D by blast
qed

text \<open>A sensor with a report of 200 bytes, and the anchor that it reports to.\<close>

definition reported_bytes :: bytes where
  "reported_bytes = region (boot_dev DEVICE_TYPE_SENSOR 9 2 ref_storage1) (slot_psram_addr 0) 200"

definition reporting_sensor :: dev where
  "reporting_sensor = upd_slot 0 (\<lambda>x. x\<lparr>sl_active := True, sl_gen_device_id := 9, sl_data_id := 1, sl_priority := PACKET_PRIORITY_HIGH,
     sl_total_size := 200, sl_chunk_count := 2, sl_last_chunk_size := 20, sl_crc32 := pf_crc32 ref_platform reported_bytes\<rparr>)
     (boot_dev DEVICE_TYPE_SENSOR 9 2 ref_storage1)"

definition reporting_parent :: dev where
  "reporting_parent = boot_dev DEVICE_TYPE_ANCHOR 7 1 ref_storage1\<lparr>dv_mesh :=
     \<lparr>mh_initialized = True, mh_temp_id = 9, mh_last_pair_request_ms = 0, mh_time_offset = 0\<rparr>\<rparr>"

lemma reported_bytes_length: "length reported_bytes = 200"
  by (simp add: reported_bytes_def region_def)

lemma ref_can_transfer: "can_transfer ref_platform ref_platform reporting_sensor reporting_parent reported_bytes"
proof -
  note P = platform_okD(1,4)[OF ref_platform_ok]
  have w: "dev_wf reporting_sensor" "dev_wf reporting_parent"
    unfolding reporting_sensor_def reporting_parent_def
     apply (rule upd_slot_wf[OF boot_dev_wf[OF storage_okD(1)[OF ref_storage1_ok(1)]]])
     apply (simp add: slot_ok_def)
    using boot_dev_wf[OF storage_okD(1)[OF ref_storage1_ok(1)], of DEVICE_TYPE_ANCHOR 7 1] by (simp add: dev_wf_def)
  have up: "psram_up ref_platform reporting_sensor" "psram_up ref_platform reporting_parent"
    unfolding reporting_sensor_def reporting_parent_def using ref_psram_up by (simp_all add: psram_up_def upd_slot_def)
  have m: "modem_accepts ref_platform" by (simp add: modem_accepts_def ref_platform_def)
  have q: "dv_queues reporting_sensor = queues_empty" "dv_queues reporting_parent = queues_empty"
    "dv_status reporting_sensor = Running" "dv_status reporting_parent = Running"
    "dv_radio_id reporting_sensor = get_device_id reporting_sensor" "dv_radio_id reporting_parent = get_device_id reporting_parent"
    by (simp_all add: reporting_sensor_def reporting_parent_def upd_slot_def boot_dev_def boot_info_def)
  have i: "idle_node ref_platform reporting_sensor" "idle_node ref_platform reporting_parent"
    unfolding idle_node_def q using P(1) w up m by (simp_all add: queues_empty_def tx_pending_def rx_pending_def)
  have k: "known_sender 9 reporting_parent" "known_sender 7 reporting_sensor"
    using ref_storage1_devs(1) by (simp_all add: known_sender_def reporting_parent_def reporting_sensor_def upd_slot_def boot_dev_def
        stamp_infra_eq new_infra_def ref_anchor_def)
  have slot: "rep_at reporting_sensor 0 = (rep_at ref_gateway 0)\<lparr>sl_active := True, sl_gen_device_id := 9, sl_data_id := 1,
     sl_priority := PACKET_PRIORITY_HIGH, sl_total_size := 200, sl_chunk_count := 2, sl_last_chunk_size := 20,
     sl_crc32 := pf_crc32 ref_platform reported_bytes\<rparr>"
    by (simp add: reporting_sensor_def ref_gateway_def upd_slot_def boot_dev_def boot_reports_def)
  have reg: "region reporting_sensor (slot_psram_addr 0) 200 = reported_bytes" by (simp add: reporting_sensor_def reported_bytes_def)
  have h: "has_report reported_bytes reporting_sensor"
    unfolding has_report_def Let_def slot using reg
    by (simp add: find_sender_slot_def find_idx_None_iff reporting_sensor_def upd_slot_def boot_dev_def boot_reports_def)
  have f: "find_slot g j reporting_parent = None" "\<exists>x\<in>set (rep_slots reporting_parent). \<not> sl_active x" for g j
    by (simp_all add: find_slot_def find_idx_None_iff reporting_parent_def boot_dev_def boot_reports_def)
  have ids: "get_device_id reporting_sensor = 9" "get_device_id reporting_parent = 7" "get_device_type reporting_sensor = DEVICE_TYPE_SENSOR"
    "get_device_type reporting_parent = DEVICE_TYPE_ANCHOR"
    by (simp_all add: reporting_sensor_def reporting_parent_def upd_slot_def boot_dev_def boot_info_def)
  have par: "infra_id (infra_at reporting_sensor 0) = 7"
    by (simp add: reporting_sensor_def upd_slot_def boot_dev_def ref_storage1_at0 stamp_infra_eq new_infra_def ref_anchor_def)
  have c: "sl_crc32 (rep_at reporting_sensor 0) = pf_crc32 ref_platform reported_bytes" unfolding slot by simp
  show ?thesis
    unfolding can_transfer_def ids par using i P(2) h k f c by simp
qed

theorem report_dialogue_witness:
  "let A1 = start_report ref_platform 0 0 reporting_sensor; A2 = tx_phase ref_platform A1;
       B1 = hear ref_platform 0 (emitted A1 A2) reporting_parent; B2 = tx_phase ref_platform B1;
       A3 = hear ref_platform 0 (emitted B1 B2) A2; A4 = tx_phase ref_platform A3;
       B3 = hear ref_platform 0 (emitted A3 A4) B2; B4 = tx_phase ref_platform B3;
       A5 = hear ref_platform 0 (emitted B3 B4) A4
   in dv_status A5 = Faulted"
  using report_dialogue[OF ref_can_transfer, of 0 0 0] by (simp add: reported_bytes_length)

end
