(* ===== verification/Report_Path.thy ===== *)
theory Report_Path
  imports Network Config_Offers
begin

text \<open>
  The way of a report from the host of a sensor to the host of the gateway (src/data.c,
  src/slm_at_main.c, src/main_sub.c): the command on the sensor's serial line, the tick that starts
  the transfer, the dialogue on the air, and the tick with which the gateway writes its line.
\<close>

section \<open>The command of the host\<close>

definition report_command :: "u64 \<Rightarrow> u16 \<Rightarrow> u64 \<Rightarrow> u32 \<Rightarrow> bytes \<Rightarrow> string" where
  "report_command sn i prio crc bs = ''AT#REPORT='' @ at_fields [hex_fixed True 16 (unat sn), hex_fixed True 4 (unat i),
     hex_fixed True 4 (length bs), hex_fixed True 16 (unat prio), hex_fixed True 8 (unat crc), hex_bytes bs]"

definition command_report :: "platform \<Rightarrow> u16 \<Rightarrow> bytes \<Rightarrow> at_structure" where
  "command_report P i bs = \<lparr>as_device_id = 0, as_device_type = 0, as_data_id = i, as_data_len = word_of_nat (length bs),
     as_data_crc32 = pf_crc32 P bs\<rparr>"

lemma hex_digit_no_eol: "n < 16 \<Longrightarrow> \<not> is_eol (hex_digit up n)"
proof -
  have "list_all (\<lambda>n. \<not> is_eol (hex_digit u n)) [0..<16]" for u
    by (cases u) (simp_all add: hex_digit_def is_eol_def upt_conv_Cons)
  then show "n < 16 \<Longrightarrow> \<not> is_eol (hex_digit up n)" by (simp add: list_all_iff)
qed

lemma hex_no_eol: "no_eol (hex_fixed up w v)" "no_eol (hex_bytes bs)"
proof -
  show "no_eol (hex_fixed up w v)" by (induction w arbitrary: v) (auto simp: hex_digit_no_eol)
  have "unat b div 16 < 16" for b :: u8 using unsigned_less[of b, where 'a = nat] by simp
  then show "no_eol (hex_bytes bs)" by (induction bs) (auto simp: hex_digit_no_eol)
qed

lemma at_fields_no_eol: "\<forall>f\<in>set fs. no_eol f \<Longrightarrow> no_eol (at_fields fs)"
proof (induction fs rule: at_fields.induct)
  case (3 f g fs)
  moreover have "\<not> is_eol QUOTE" "\<not> is_eol CHR '',''" by (simp_all add: is_eol_def)
  ultimately show ?case by (simp add: ball_Un)
qed (simp_all add: is_eol_def[of QUOTE] ball_Un)

lemma report_command_line: "at_lines (report_command sn i prio crc bs @ CRLF) = [report_command sn i prio crc bs]"
proof -
  let ?l = "report_command sn i prio crc bs"
  have "no_eol (at_fields [hex_fixed True 16 (unat sn), hex_fixed True 4 (unat i),
     hex_fixed True 4 (length bs), hex_fixed True 16 (unat prio), hex_fixed True 8 (unat crc), hex_bytes bs])"
    by (rule at_fields_no_eol) (simp add: hex_no_eol del: at_fields.simps)
  then have "no_eol ?l" unfolding report_command_def by (simp add: is_eol_def del: at_fields.simps)
  moreover have "?l \<noteq> []" by (simp add: report_command_def)
  moreover have "at_lines CRLF = []" using at_lines_eol[of CRLF "[]"] by (simp add: is_eol_def)
  ultimately show ?thesis using at_lines_line[of ?l CRLF] by (simp add: is_eol_def)
qed

lemma length_dec_str: "n < 10 ^ k \<Longrightarrow> 0 < k \<Longrightarrow> length (dec_str n) \<le> k"
proof (induction k arbitrary: n)
  case (Suc k)
  show ?case
  proof (cases "n < 10")
    case False
    have "n div 10 < 10 ^ k" using Suc.prems(1) by (simp add: less_mult_imp_div_less mult.commute)
    then show ?thesis using Suc False by (cases k) (auto simp: dec_str.simps[of n])
  qed (simp add: dec_str.simps[of n])
qed simp

lemma word_text: "length (dec_str (unat (w :: u16))) \<le> 5"
  using length_dec_str[of "unat w" 5] unsigned_less[of w, where 'a = nat] by simp

lemma report_response_fits: "length (CRLF @ report_response sn r @ CRLF) < SLM_UART_STRING_MESSAGE_SIZE_MAX"
  using word_text[of "as_data_id r"] word_text[of "as_data_len r"] by (simp add: report_response_def)

text \<open>An accepted command stores the report, and answers its description and OK.\<close>

lemma report_command_effect:
  assumes "get_device_type d = DEVICE_TYPE_SENSOR" "get_connected_device_id d \<noteq> 0xFFFF" "bs \<noteq> []" "length bs \<le> MAX_REPORT_SIZE"
    "dv_status d = Running" "fst (validate_at_report P (command_report P i bs) (ucast prio) bs d) = 0"
  shows "\<exists>out. slm_at_run_cycle P (Some (report_command (get_serial_number d) i prio (pf_crc32 P bs) bs @ CRLF)) d =
    snd (validate_at_report P (command_report P i bs) (ucast prio) bs d)\<lparr>dv_uart := out\<rparr>"
proof -
  let ?sn = "get_serial_number d"
  let ?fs = "[hex_fixed True 16 (unat ?sn), hex_fixed True 4 (unat i), hex_fixed True 4 (length bs), hex_fixed True 16 (unat prio),
     hex_fixed True 8 (unat (pf_crc32 P bs)), hex_bytes bs]"
  let ?l = "report_command ?sn i prio (pf_crc32 P bs) bs" and ?v = "validate_at_report P (command_report P i bs) (ucast prio) bs d"
  have len: "unat (word_of_nat (length bs) :: u16) = length bs" "(word_of_nat (length bs) :: u16) \<noteq> 0"
  proof -
    show "unat (word_of_nat (length bs) :: u16) = length bs" using assms(4) by (simp add: unat_of_nat)
    then show "(word_of_nat (length bs) :: u16) \<noteq> 0" using assms(3) by (metis length_0_conv unat_0)
  qed
  have "strstr ''AT#REPORT'' ?l = Some ?l" by (subst strstr.simps) (simp add: report_command_def del: at_fields.simps)
  moreover have "after ''AT#REPORT'' ?l = ''='' @ at_fields ?fs" by (simp add: after_def report_command_def del: at_fields.simps)
  moreover have "?l \<noteq> ''OK''" "?l \<noteq> ''ERROR''" by (simp_all add: report_command_def del: at_fields.simps)
  moreover have "parse_report P (''='' @ at_fields ?fs) = Some (?sn, command_report P i bs, ucast prio, bs)"
    using report_command_parses[of P True ?sn i "word_of_nat (length bs)" prio "pf_crc32 P bs" bs "[]"] len assms(4)
    by (simp add: command_report_def del: at_fields.simps)
  ultimately have "dispatch P ?l d = at_ok P (at_send_line P (report_response ?sn (command_report P i bs)) (snd ?v))"
    using assms(1,2,6) by (simp add: dispatch_def dispatch_sensor_def cmd_report_def split_beta Let_def del: at_fields.simps)
  then have "slm_at_run_cycle P (Some (?l @ CRLF)) d =
      at_ok P (at_send_line P (report_response ?sn (command_report P i bs)) (snd ?v))"
    unfolding slm_at_run_cycle_def option.case report_command_line by (simp add: assms(5))
  moreover have "\<exists>out. at_send_line P (report_response sn r) e = e\<lparr>dv_uart := out\<rparr>" for sn r e
    using report_response_fits[of sn r] by (auto simp: at_send_line_def slm_at_tx_write_def proc_def split_beta Let_def)
  moreover have "\<exists>out'. at_ok P (e\<lparr>dv_uart := out\<rparr>) = e\<lparr>dv_uart := out'\<rparr>" for e out
    by (auto simp: at_ok_def slm_at_tx_write_def proc_def split_beta Let_def)
  ultimately show ?thesis by metis
qed


section \<open>A sensor and its gateway\<close>

text \<open>No report is known, no sender is at work, and no timeout runs.\<close>

definition no_reports :: "dev \<Rightarrow> bool" where
  "no_reports d \<longleftrightarrow> (\<forall>x\<in>set (rep_slots d). \<not> sl_active x \<and> \<not> nbtimeout_is_active (sl_idle_timeout x)) \<and>
     (\<forall>x\<in>set (rep_senders d). \<not> sd_active x) \<and>
     rp_high_count (dv_reports d) = 0 \<and> rp_med_count (dv_reports d) = 0 \<and> rp_low_count (dv_reports d) = 0"

text \<open>
  An idle sensor \<open>A\<close> whose parent is the idle gateway \<open>B\<close>; entry \<open>m\<close> of the mesh table has the
  sensor with its serial number. The last condition keeps the clock away from the end of 64 bits.
\<close>

definition can_report :: "platform \<Rightarrow> platform \<Rightarrow> dev \<Rightarrow> dev \<Rightarrow> nat \<Rightarrow> bool" where
  "can_report PA PB A B m \<longleftrightarrow> idle_node PA A \<and> idle_node PB B \<and> crc32_ok PB \<and> no_reports A \<and> no_reports B \<and>
     get_device_type A = DEVICE_TYPE_SENSOR \<and> get_device_type B = DEVICE_TYPE_GATEWAY \<and>
     get_device_id A \<noteq> 0 \<and> get_connected_device_id A \<noteq> 0xFFFF \<and> infra_id (infra_at A 0) = get_device_id B \<and>
     known_sender (get_device_id A) B \<and> known_sender (get_device_id B) A \<and>
     find_mesh (get_device_id A) B = Some m \<and> ms_serial_num (mesh_at B m) = get_serial_number A \<and>
     \<not> dv_now B + ucast DATA_DUP_TIMEOUT_MS \<le>s dv_now B"

lemma command_report_fields:
  "as_data_id (command_report P i bs) = i" "as_data_crc32 (command_report P i bs) = pf_crc32 P bs"
  "length bs \<le> MAX_REPORT_SIZE \<Longrightarrow> unat (as_data_len (command_report P i bs)) = length bs"
  by (simp_all add: command_report_def unat_of_nat)

text \<open>The first report that a node stores lies in slot 0.\<close>

abbreviation fresh_slot :: "report_slot \<Rightarrow> report_slot" where
  "fresh_slot x \<equiv> x\<lparr>sl_is_sent := False, sl_upstream_ready := False, sl_is_transfered := False\<rparr>"

lemma first_report_stored:
  fixes P :: platform and d :: dev and i :: u16 and prio :: u8 and bs :: bytes
  assumes "psram_up P d" "dev_wf d" "no_reports d" "bs \<noteq> []" "length bs \<le> MAX_REPORT_SIZE"
  defines "r \<equiv> command_report P i bs" and "d' \<equiv> snd (validate_at_report P (command_report P i bs) prio bs d)"
  shows "fst (validate_at_report P r prio bs d) = 0" "region d' (slot_psram_addr 0) (length bs) = bs"
    "rep_slots d' = (rep_slots d)[0 := fill_at_slot r prio (get_device_id d) (fresh_slot (rep_at d 0))]"
    "rep_senders d' = rep_senders d" "psram_up P d'" "only_data d d'"
    "prio \<in> {PACKET_PRIORITY_HIGH, PACKET_PRIORITY_MEDIUM, PACKET_PRIORITY_LOW} \<Longrightarrow> report_prio d' = Some prio"
proof -
  let ?e = "upd_slot 0 fresh_slot d"
  have slots: "0 < length (rep_slots d)" using rep_len[OF assms(2)] by simp
  have free: "find_slot g j d = None" "find_idx (\<lambda>x. \<not> sl_active x) (rep_slots d) = Some 0" for g j
    using assms(3) slots by (auto simp: no_reports_def find_slot_def find_idx_None_iff, cases "rep_slots d", auto)
  note len = command_report_fields(3)[OF assms(5), of P i]
  have v: "validate_at_report P r prio bs d = store_at_report P r prio bs 0 ?e"
    using free len assms(4,5) by (simp add: validate_at_report_def r_def alloc_slot_def unat_eq_zero[symmetric])
  have e: "psram_up P ?e" "dev_wf ?e" using assms(1) upd_slot_wf[OF assms(2), of fresh_slot] by (simp_all add: slot_ok_def)
  note s = store_at_report_ok[OF e, of 0 bs r, unfolded r_def, OF _ len[symmetric] assms(5), where prio = prio, simplified, folded r_def]
  have d': "d' = snd (store_at_report P r prio bs 0 ?e)" using v by (simp add: d'_def r_def)
  have own: "get_device_id ?e = get_device_id d" "rep_at ?e 0 = fresh_slot (rep_at d 0)"
    using slots by (simp_all add: upd_slot_def)
  show "fst (validate_at_report P r prio bs d) = 0" "region d' (slot_psram_addr 0) (length bs) = bs"
    using s(1,3) by (simp_all add: v d')
  show "rep_slots d' = (rep_slots d)[0 := fill_at_slot r prio (get_device_id d) (fresh_slot (rep_at d 0))]"
    unfolding d' s(6) own by (simp add: upd_slot_def)
  let ?f = "update_report_count prio True (upd_slot 0 (fill_at_slot r prio (get_device_id ?e)) ?e)"
  have w: "d' = snd (d_psram_write P (slot_psram_addr 0) (take (unat (as_data_len r)) bs) ?f)"
    using s(1) unfolding d' store_at_report_def Let_def split_beta by (simp split: if_splits)
  show "rep_senders d' = rep_senders d" unfolding w by (simp add: update_report_count_def upd_slot_def)
  show "psram_up P d'" unfolding w psram_write_keeps using assms(1) by simp
  show "only_data d d'" unfolding w by (intro only_data_after)
  show "report_prio d' = Some prio" if "prio \<in> {PACKET_PRIORITY_HIGH, PACKET_PRIORITY_MEDIUM, PACKET_PRIORITY_LOW}"
    using that assms(3) unfolding w by (auto simp: report_prio_def update_report_count_def upd_slot_def no_reports_def bump_count_def)
qed


lemma no_reportsD:
  assumes "no_reports d" "dev_wf d"
  shows "find_slot g j d = None" "find_sender_slot g j d = None" "\<exists>x\<in>set (rep_slots d). \<not> sl_active x"
    "i < DATA_SLOT_COUNT \<Longrightarrow> \<not> sl_active (rep_at d i)" "k < MAX_ANCHORS \<Longrightarrow> \<not> sd_active (sender_at d k)"
    "i < DATA_SLOT_COUNT \<Longrightarrow> \<not> nbtimeout_is_active (sl_idle_timeout (rep_at d i))"
proof -
  have l: "length (rep_slots d) = DATA_SLOT_COUNT" "length (rep_senders d) = MAX_ANCHORS"
    using assms(2) by (simp_all add: dev_wf_def reports_wf_def)
  show "find_slot g j d = None" "find_sender_slot g j d = None"
    using assms(1) by (auto simp: no_reports_def find_slot_def find_sender_slot_def find_idx_None_iff)
  show a: "i < DATA_SLOT_COUNT \<Longrightarrow> \<not> sl_active (rep_at d i)" "k < MAX_ANCHORS \<Longrightarrow> \<not> sd_active (sender_at d k)"
    "i < DATA_SLOT_COUNT \<Longrightarrow> \<not> nbtimeout_is_active (sl_idle_timeout (rep_at d i))" for i k
    using assms(1) l nth_mem unfolding no_reports_def by metis+
  have "rep_at d 0 \<in> set (rep_slots d)" using l by simp
  then show "\<exists>x\<in>set (rep_slots d). \<not> sl_active x" using assms(1) unfolding no_reports_def by blast
qed

lemma store_fields:
  assumes "only_data d d'"
  shows "dv_store d' = dv_store d" "dv_queues d' = dv_queues d" "dv_info d' = dv_info d" "dv_status d' = dv_status d"
    "dv_radio_id d' = dv_radio_id d" "dv_mesh d' = dv_mesh d"
  using assms by (auto simp: only_data_def)

text \<open>After the command the report waits in slot 0 of the sensor, ready for the transfer.\<close>

lemma command_prepares:
  fixes PA PB :: platform and A B :: dev and i :: u16 and prio :: u64 and bs :: bytes
  assumes "can_report PA PB A B m" "bs \<noteq> []" "length bs \<le> MAX_REPORT_SIZE" "pf_crc32 PA bs = pf_crc32 PB bs"
  defines "s \<equiv> fill_at_slot (command_report PA i bs) (ucast prio) (get_device_id A) (fresh_slot (rep_at A 0))"
    and "A0 \<equiv> slm_at_run_cycle PA (Some (report_command (get_serial_number A) i prio (pf_crc32 PA bs) bs @ CRLF)) A"
  shows "can_transfer PA PB A0 B bs" "rep_slots A0 = (rep_slots A)[0 := s]" "rep_senders A0 = rep_senders A"
    "get_device_type A0 = DEVICE_TYPE_SENSOR" "dv_status A0 = Running" "dev_wf A0"
    "ucast prio \<in> {PACKET_PRIORITY_HIGH, PACKET_PRIORITY_MEDIUM, PACKET_PRIORITY_LOW} \<Longrightarrow> report_prio A0 = Some (ucast prio)"
proof -
  have c: "idle_node PA A" "no_reports A" "get_device_type A = DEVICE_TYPE_SENSOR" "get_connected_device_id A \<noteq> 0xFFFF"
    "idle_node PB B" "crc32_ok PB" "no_reports B" "infra_id (infra_at A 0) = get_device_id B" "get_device_type B = DEVICE_TYPE_GATEWAY"
    "known_sender (get_device_id A) B" "known_sender (get_device_id B) A"
    using assms(1) by (simp_all add: can_report_def)
  have a: "psram_up PA A" "dev_wf A" "dv_status A = Running" "dev_wf B" using c(1,5) by (simp_all add: idle_node_def)
  let ?d = "snd (validate_at_report PA (command_report PA i bs) (ucast prio) bs A)"
  note st = first_report_stored[OF a(1,2) c(2) assms(2,3), where i = i and prio = "ucast prio"]
  note f = store_fields[OF st(6)]
  obtain out where A0: "A0 = ?d\<lparr>dv_uart := out\<rparr>"
    using report_command_effect[OF c(3,4) assms(2,3) a(3) st(1)] unfolding A0_def by blast
  have slots: "0 < length (rep_slots A)" using rep_len[OF a(2)] by simp
  show r: "rep_slots A0 = (rep_slots A)[0 := s]" "rep_senders A0 = rep_senders A" using st(3,4) by (simp_all add: A0 s_def)
  show t: "get_device_type A0 = DEVICE_TYPE_SENSOR" "dv_status A0 = Running" using f(3,4) c(3) a(3) by (simp_all add: A0)
  show wf: "dev_wf A0" unfolding A0_def by (rule slm_at_run_cycle_wf[OF a(2)])
  show "report_prio A0 = Some (ucast prio)" if "ucast prio \<in> {PACKET_PRIORITY_HIGH, PACKET_PRIORITY_MEDIUM, PACKET_PRIORITY_LOW}"
  proof -
    have "report_prio A0 = report_prio ?d" unfolding A0 report_prio_def by simp
    then show ?thesis using st(7)[OF that] by simp
  qed
  have s0: "rep_at A0 0 = s" using r(1) slots by simp
  have idle: "idle_node PA A0"
    using c(1) f wf st(5) t(2) by (simp add: idle_node_def A0 psram_up_def)
  have "announces PA (report_init_of s now) bs" for now
    unfolding s_def using assms(2,3) command_report_fields(3)[OF assms(3), of PA i]
    by (intro fill_at_slot_announces) (simp_all add: command_report_fields)
  from this[of 0] have ann: "length bs = unat (sl_total_size s)"
    "length bs = (unat (sl_chunk_count s) - 1) * SEND_DATA_MAX + unat (sl_last_chunk_size s)"
    "0 < unat (sl_chunk_count s)" "0 < unat (sl_last_chunk_size s)"
    by (auto simp: announces_def init_valid_def report_init_of_def unat_gt_0)
  have act: "sl_active s" "sl_crc32 s = pf_crc32 PB bs"
    using assms(4) by (simp_all add: s_def fill_at_slot_def Let_def command_report_fields)
  have "region A0 (slot_psram_addr 0) (length bs) = bs" using st(2) by (simp add: A0 region_def)
  then have has: "has_report bs A0"
    unfolding has_report_def Let_def s0 ann(1)[symmetric] using ann act(1) no_reportsD(2)[OF c(2) a(2)]
    by (simp add: find_sender_slot_def r(2))
  have k: "known_sender j A0 = known_sender j A" for j using f(1,6) by (simp add: known_sender_def A0)
  have i: "get_device_id A0 = get_device_id A" "infra_id (infra_at A0 0) = get_device_id B" using f(1,3) c(8) by (simp_all add: A0)
  show "can_transfer PA PB A0 B bs"
    unfolding can_transfer_def s0 k i using idle c(5,6,9-11) has t act(2) no_reportsD(1,3)[OF c(7) a(4)] by simp
qed


section \<open>The ticks at both ends\<close>

lemma free_idle_none:
  assumes "\<forall>j<DATA_SLOT_COUNT. sl_active (rep_at d j) \<longrightarrow> \<not> nbtimeout_expired (dv_now d) (sl_idle_timeout (rep_at d j))"
  shows "for_slots DATA_SLOT_COUNT free_idle_report d = d" "for_slots DATA_SLOT_COUNT gateway_report_timeouts d = d"
  unfolding for_slots_def using assms by (auto intro!: seqs_idle simp: free_idle_report_def gateway_report_timeouts_def Let_def)

lemma start_report_slots:
  assumes "msgq_ok P"
  shows "rep_slots (start_report P k j d) = (rep_slots d)[j := (rep_at d j)\<lparr>sl_is_sent := True\<rparr>]"
    "\<exists>x. rep_senders (start_report P k j d) = (rep_senders d)[k := x]" "dv_status (start_report P k j d) = dv_status d"
proof -
  let ?e = "upd_sender k (fill_sender (infra_id (infra_at d 0)) (rep_at d j)) d"
  let ?f = "proc (send_report_init P (report_init_of (rep_at d j) (dv_now ?e)) (infra_id (infra_at d 0)) (sl_priority (rep_at d j))) ?e"
  have "dv_reports ?f = dv_reports ?e" "dv_status ?f = dv_status ?e"
    using sendsD(1)[OF report_sends(1)[OF assms]] by (simp_all add: keeps_def)
  then show "rep_slots (start_report P k j d) = (rep_slots d)[j := (rep_at d j)\<lparr>sl_is_sent := True\<rparr>]"
    "\<exists>x. rep_senders (start_report P k j d) = (rep_senders d)[k := x]" "dv_status (start_report P k j d) = dv_status d"
    unfolding start_report_def Let_def by (auto simp: upd_slot_def upd_sender_def)
qed

text \<open>
  The sensor's tick gives the stored report to its first sender; a report whose id has a low byte
  of zero counts as invalid and is freed.
\<close>

lemma sensor_tick:
  fixes PA PB :: platform and A B :: dev and i :: u16 and prio :: u64 and bs :: bytes
  assumes "can_report PA PB A B m" "bs \<noteq> []" "length bs \<le> MAX_REPORT_SIZE" "pf_crc32 PA bs = pf_crc32 PB bs"
    "ucast prio \<in> {PACKET_PRIORITY_HIGH, PACKET_PRIORITY_MEDIUM, PACKET_PRIORITY_LOW}"
  defines "A0 \<equiv> slm_at_run_cycle PA (Some (report_command (get_serial_number A) i prio (pf_crc32 PA bs) bs @ CRLF)) A"
  shows "(ucast i :: u8) \<noteq> 0 \<Longrightarrow> report_tick PA A0 = start_report PA 0 0 A0"
    "(ucast i :: u8) = 0 \<Longrightarrow> rep_slots (report_tick PA A0) = (rep_slots A0)[0 := rep_at (report_tick PA A0) 0] \<and>
       \<not> sl_active (rep_at (report_tick PA A0) 0) \<and> dv_queues (report_tick PA A0) = dv_queues A0"
proof -
  let ?s = "fill_at_slot (command_report PA i bs) (ucast prio) (get_device_id A) (fresh_slot (rep_at A 0))"
  note p = command_prepares[OF assms(1-4), where i = i and prio = prio, folded A0_def]
  have a: "idle_node PA A" "no_reports A" "get_device_id A \<noteq> 0" using assms(1) by (simp_all add: can_report_def)
  then have wf: "dev_wf A" "msgq_ok PA" by (simp_all add: idle_node_def)
  have l: "length (rep_slots A) = DATA_SLOT_COUNT" using rep_len[OF wf(1)] .
  have s0: "rep_at A0 0 = ?s" using p(2) l by simp
  have other: "rep_at A0 j = rep_at A j" if "j \<noteq> 0" for j using that p(2) by simp
  have s: "sl_active ?s" "sl_upstream_ready ?s" "\<not> sl_is_sent ?s" "sl_priority ?s = ucast prio" "sl_gen_device_id ?s \<noteq> 0"
    "sl_data_id ?s = ucast i" "sl_idle_timeout ?s = sl_idle_timeout (rep_at A 0)"
    using a(3) by (simp_all add: fill_at_slot_def Let_def command_report_def)
  have "announces PA (report_init_of ?s 0) bs"
    using assms(2,3) command_report_fields(3)[OF assms(3), of PA i]
    by (intro fill_at_slot_announces) (simp_all add: command_report_fields)
  then have sizes: "sl_total_size ?s \<noteq> 0" "sl_chunk_count ?s \<noteq> 0" by (auto simp: announces_def init_valid_def report_init_of_def)
  have timers: "\<not> nbtimeout_expired t (sl_idle_timeout (rep_at A0 j))" if "j < DATA_SLOT_COUNT" for j t
  proof -
    have "sl_idle_timeout (rep_at A0 j) = sl_idle_timeout (rep_at A j)" using other[of j] s0 s(7) by (cases "j = 0") simp_all
    then show ?thesis using no_reportsD(6)[OF a(2) wf(1) that] by (simp add: nbtimeout_is_active_def nbtimeout_expired_def)
  qed
  have slots0: "rep_slots A0 = ?s # tl (rep_slots A)" using p(2) l by (cases "rep_slots A") simp_all
  have next0: "next_report A0 = Some 0"
    unfolding next_report_def p(7)[OF assms(5)] option.case slots0 using s by simp
  have senders: "\<not> sd_active (sender_at A0 k)" if "k < MAX_ANCHORS" for k
    using no_reportsD(5)[OF a(2) wf(1) that] by (simp add: p(3))
  have upt: "[0..<MAX_ANCHORS] = 0 # 1 # [2..<MAX_ANCHORS]" by (simp add: upt_conv_Cons eval_nat_numeral)
  have t: "report_tick PA A0 = loop_steps (report_sender_step PA True) (0 # 1 # [2..<MAX_ANCHORS]) A0"
    using free_idle_none(1)[of A0] timers p(4)
    unfolding report_tick_def sensor_report_tick_def upt by simp
  show "report_tick PA A0 = start_report PA 0 0 A0" if "(ucast i :: u8) \<noteq> 0"
  proof -
    let ?A1 = "start_report PA 0 0 A0"
    have "report_sender_step PA True 0 A0 = (True, ?A1)"
      unfolding report_sender_step_def next0 using senders[of 0] s(5,6) sizes that s0 by simp
    note st = start_report_slots[OF wf(2), of 0 0 A0]
    have "next_report ?A1 = None"
    proof (cases "report_prio ?A1")
      case (Some q)
      have "\<not> (sl_active x \<and> \<not> sl_is_sent x)" if "x \<in> set (rep_slots ?A1)" for x
        using that no_reportsD(4)[OF a(2) wf(1)] l unfolding st(1) p(2)
        by (auto simp: in_set_conv_nth nth_list_update split: if_splits)
      then show ?thesis by (auto simp: next_report_def Some find_idx_None_iff)
    qed (simp add: next_report_def)
    moreover have "\<not> sd_active (sender_at ?A1 1)" using senders[of 1] st(2) by auto
    ultimately have "report_sender_step PA True 1 ?A1 = (False, ?A1)" by (simp add: report_sender_step_def)
    then show ?thesis using \<open>report_sender_step PA True 0 A0 = (True, ?A1)\<close> st(3) p(5) unfolding t by simp
  qed
  show "rep_slots (report_tick PA A0) = (rep_slots A0)[0 := rep_at (report_tick PA A0) 0] \<and>
      \<not> sl_active (rep_at (report_tick PA A0) 0) \<and> dv_queues (report_tick PA A0) = dv_queues A0" if "(ucast i :: u8) = 0"
  proof -
    have "report_sender_step PA True 0 A0 = (False, report_slot_free 0 NO_SENDER (update_report_count (sl_priority ?s) False A0))"
      unfolding report_sender_step_def next0 using senders[of 0] s(6) that s0 by (simp add: Let_def)
    then have "report_tick PA A0 = report_slot_free 0 NO_SENDER (update_report_count (sl_priority ?s) False A0)"
      using p(5) unfolding t by simp
    then show ?thesis using l p(2)
      by (simp add: report_slot_free_def update_report_count_def upd_slot_def Let_def)
  qed
qed


lemma loop_steps_to:
  assumes "\<forall>j\<in>set xs. step j d = (True, d)" "dv_status d = Running" "step i d = (False, e)"
  shows "loop_steps step (xs @ i # ys) d = e"
  using assms by (induction xs) auto

lemma upt_at: "i < n \<Longrightarrow> [0..<n] = [0..<i] @ i # [Suc i..<n]"
  using upt_add_eq_append[of 0 i "n - i"] by (simp add: upt_conv_Cons)

lemma length_report_line:
  assumes "length bs \<le> MAX_REPORT_SIZE" shows "length (report_line sn x bs) < SLM_UART_AT_COMMAND_LEN"
proof -
  let ?fs = "[hex_fixed True 16 (unat sn), hex_fixed True 4 (unat (sl_data_id x)), hex_fixed False 16 (unat (sl_report_time_ms x)),
     hex_fixed True 4 (unat (sl_total_size x)), hex_fixed True 8 (unat (sl_crc32 x)), hex_bytes bs]"
  have "length (at_fields ?fs) + 1 = sum_list (map (\<lambda>f. length f + 3) ?fs)" by (rule length_at_fields) simp
  also have "\<dots> = 66 + 2 * length bs" by simp
  finally show ?thesis using assms unfolding report_line_def by simp
qed

text \<open>A gateway that holds one complete report writes it to its host, under the serial number of its mesh table.\<close>

lemma gateway_tick:
  fixes P :: platform and B d :: dev and i :: report_init and bs :: bytes
  assumes "holding P B i bs idx {..<chunks_of i} d" "announces P i bs" "no_reports B" "dev_wf B"
    "get_device_type B = DEVICE_TYPE_GATEWAY" "find_mesh (rpi_gen_device_id i) B = Some m"
    "\<not> dv_now B + ucast DATA_DUP_TIMEOUT_MS \<le>s dv_now B" "\<And>out s. pf_uart_write P out s = (0, out @ s)"
  shows "dv_uart (report_tick P d) = dv_uart d @ report_line (ms_serial_num (mesh_at B m)) (rep_at d idx) bs"
    "slot_for i (rep_at d idx)" "sl_data_id (rep_at d idx) = rpi_data_id i"
proof -
  have h: "psram_up P d" "dev_wf d" "find_slot (rpi_gen_device_id i) (rpi_data_id i) d = Some idx" "slot_for i (rep_at d idx)"
    "sl_upstream_ready (rep_at d idx)" "\<forall>j. j \<noteq> idx \<longrightarrow> rep_at d j = rep_at B j" "dv_now d = dv_now B" "dv_status d = Running"
    "mesh_devs (dv_store d) = mesh_devs (dv_store B)" "dv_info d = dv_info B" "kept_slot d idx"
    "region d (slot_psram_addr idx) (length bs) = bs"
    using assms(1) region_of_pieces[OF assms(2)] by (auto simp: holding_def report_has_def)
  note idx = find_slotD[OF h(3,2)]
  show "slot_for i (rep_at d idx)" "sl_data_id (rep_at d idx) = rpi_data_id i" by (rule h(4), rule idx(4))
  have x: "unat (sl_total_size (rep_at d idx)) = length bs" "\<not> sl_is_sent (rep_at d idx)"
    using h(4) assms(2) by (simp_all add: slot_for_def announces_def)
  have off: "\<not> sl_active (rep_at d j)" if "j < DATA_SLOT_COUNT" "j \<noteq> idx" for j
    using no_reportsD(4)[OF assms(3,4) that(1)] h(6) that(2) by simp
  have gw: "get_device_type d = DEVICE_TYPE_GATEWAY" using h(10) assms(5) by simp
  have "sl_idle_timeout (rep_at d idx) = nbtimeout_start (dv_now d) (nbtimeout_init DATA_DUP_TIMEOUT_MS 0)"
    using h(11) gw by (simp add: kept_slot_def)
  then have "\<not> nbtimeout_expired (dv_now d) (sl_idle_timeout (rep_at d idx))"
    using assms(7) h(7) by (simp add: nbtimeout_expired_def nbtimeout_start_def nbtimeout_init_def)
  then have idle: "\<forall>j<DATA_SLOT_COUNT. sl_active (rep_at d j) \<longrightarrow> \<not> nbtimeout_expired (dv_now d) (sl_idle_timeout (rep_at d j))"
    using off by blast
  have m: "m < length (mesh_devs (dv_store B))" "mesh_devs (dv_store d) ! m = mesh_devs (dv_store B) ! m"
    using find_idx_less[OF assms(6)] h(9) by simp_all
  have sn: "mesh_at d m = mesh_at B m" "m < MAX_DEVICES"
  proof -
    have "mesh_devs s ! m = st_mesh s ! m" if "m < length (mesh_devs s)" for s using that by simp
    then show "mesh_at d m = mesh_at B m" using m h(9) by metis
    have "storage_wf (dv_store B)" using assms(4) by (simp add: dev_wf_def)
    then have "length (st_mesh (dv_store B)) = MAX_DEVICES" by (simp add: storage_wf_def)
    then show "m < MAX_DEVICES" using m(1) by simp
  qed
  have gen: "report_sn_idx (sl_gen_device_id (rep_at d idx)) d = m"
    using assms(6) h(9) idx(3) by (simp add: report_sn_idx_def)
  let ?l = "report_line (ms_serial_num (mesh_at B m)) (rep_at d idx) bs"
  have len: "length bs \<le> MAX_REPORT_SIZE" by (rule announces_sizes(3)[OF assms(2)])
  note rd = rep_mem.read_slot[OF h(1) idx(1) len len, unfolded h(12)]
  have emit: "gateway_report_emit P idx d = (False, upd_slot idx (\<lambda>x. x\<lparr>sl_is_sent := True\<rparr>) (d\<lparr>dv_uart := dv_uart d @ ?l\<rparr>))"
    using idx(2) h(5) x rd gen sn length_report_line[OF len, of "ms_serial_num (mesh_at B m)" "rep_at d idx"] assms(8)
    by (simp add: gateway_report_emit_def slm_at_tx_write_def Let_def)
  have upt: "[0..<DATA_SLOT_COUNT] = [0..<idx] @ idx # [Suc idx..<DATA_SLOT_COUNT]"
    by (rule upt_at[OF idx(1)])
  have skip: "\<forall>j\<in>set [0..<idx]. gateway_report_emit P j d = (True, d)"
    using off idx(1) by (auto simp: gateway_report_emit_def Let_def)
  have "loop_steps (gateway_report_emit P) [0..<DATA_SLOT_COUNT] d = upd_slot idx (\<lambda>x. x\<lparr>sl_is_sent := True\<rparr>) (d\<lparr>dv_uart := dv_uart d @ ?l\<rparr>)"
    unfolding upt by (rule loop_steps_to[where step = "gateway_report_emit P", OF skip h(8) emit])
  then have "report_tick P d = upd_slot idx (\<lambda>x. x\<lparr>sl_is_sent := True\<rparr>) (d\<lparr>dv_uart := dv_uart d @ ?l\<rparr>)"
    using gw free_idle_none[OF idle] by (simp add: report_tick_def gateway_report_tick_def)
  then show "dv_uart (report_tick P d) = dv_uart d @ ?l" by (simp add: upd_slot_def)
qed

section \<open>From host to host\<close>

text \<open>
  C2: A report reaches the other end. The host of a sensor sends the command AT#REPORT with an id
  whose low byte is not zero and a payload of 1 to 256 bytes; the ticks of both nodes and the
  dialogue on the air follow. Then the gateway has written one more line to its host, and this line
  reads back as the sensor's serial number, the low byte of the id, and the length, checksum and
  bytes of the payload. If the low byte of the id is zero, the sensor drops the report it has stored.
\<close>

theorem report_reaches_host:
  fixes PA PB :: platform and A B :: dev and i :: u16 and prio :: u64 and bs :: bytes and rA rB :: s16
  assumes "can_report PA PB A B m" "bs \<noteq> []" "length bs \<le> MAX_REPORT_SIZE" "pf_crc32 PA bs = pf_crc32 PB bs"
    "ucast prio \<in> {PACKET_PRIORITY_HIGH, PACKET_PRIORITY_MEDIUM, PACKET_PRIORITY_LOW}"
    "\<And>out s. pf_uart_write PB out s = (0, out @ s)"
  defines "A0 \<equiv> slm_at_run_cycle PA (Some (report_command (get_serial_number A) i prio (pf_crc32 PA bs) bs @ CRLF)) A"
  defines "A1 \<equiv> report_tick PA A0"
  defines "A2 \<equiv> tx_phase PA A1"
  defines "B1 \<equiv> hear PB rB (emitted A1 A2) B"
  defines "B2 \<equiv> tx_phase PB B1"
  defines "A3 \<equiv> hear PA rA (emitted B1 B2) A2"
  defines "A4 \<equiv> tx_phase PA A3"
  defines "B3 \<equiv> hear PB rB (emitted A3 A4) B2"
  defines "B4 \<equiv> tx_phase PB B3"
  defines "B5 \<equiv> report_tick PB B4"
  shows "if (ucast i :: u8) = 0 then \<not> sl_active (rep_at A1 0) \<and> dv_queues A1 = dv_queues A0
    else \<exists>line. dv_uart B5 = dv_uart B4 @ line \<and> field_hex_u64 line 0 = Some (get_serial_number A) \<and>
      field_hex_u64 line 1 = Some (ucast (ucast i :: u8)) \<and> field_hex_u64 line 3 = Some (word_of_nat (length bs)) \<and>
      field_hex_u64 line 4 = Some (ucast (pf_crc32 PA bs)) \<and>
      (\<exists>hex. field_get 5 line = Some hex \<and> hex_decode hex (length bs) = Some bs)"
proof (cases "(ucast i :: u8) = 0")
  case True
  then show ?thesis using sensor_tick(2)[OF assms(1-5), of i] by (simp add: A1_def A0_def)
next
  case False
  note p = command_prepares[OF assms(1-4), where i = i and prio = prio, folded A0_def]
  note tick = sensor_tick(1)[OF assms(1-5) False, folded A0_def, folded A1_def]
  have c: "no_reports B" "dev_wf B" "get_device_type B = DEVICE_TYPE_GATEWAY" "find_mesh (get_device_id A) B = Some m"
    "ms_serial_num (mesh_at B m) = get_serial_number A" "\<not> dv_now B + ucast DATA_DUP_TIMEOUT_MS \<le>s dv_now B" "dev_wf A"
    using assms(1) by (simp_all add: can_report_def idle_node_def)
  obtain j idx where j: "announcement A0 B j" "announces PB j bs" "holding PB B j bs idx {..<chunks_of j} B4"
    using report_delivered[OF p(1), where k = 0 and rA = rA and rB = rB, simplified, folded tick, folded A2_def, folded B1_def, folded B2_def,
        folded A3_def, folded A4_def, folded B3_def, folded B4_def] by blast
  have s: "rep_at A0 0 = fill_at_slot (command_report PA i bs) (ucast prio) (get_device_id A) (fresh_slot (rep_at A 0))"
    using p(2) rep_len[OF c(7)] by simp
  have ids: "rpi_gen_device_id j = get_device_id A" "rpi_data_id j = ucast i" "rpi_crc32 j = pf_crc32 PA bs"
    using announcementD(5,6)[OF j(1)] j(2) assms(4) unfolding s
    by (simp_all add: fill_at_slot_def Let_def command_report_def announces_def)
  note g = gateway_tick[OF j(3,2) c(1-3) _ c(6) assms(6), folded B5_def, unfolded ids, OF c(4)]
  let ?x = "rep_at B4 idx"
  have x: "sl_total_size ?x = rpi_total_size j" "sl_crc32 ?x = pf_crc32 PA bs" "sl_data_id ?x = ucast i"
    using g(2,3) ids by (simp_all add: slot_for_def)
  have "ucast (rpi_total_size j) = (word_of_nat (unat (rpi_total_size j)) :: u64)" by simp
  then have size: "ucast (rpi_total_size j) = (word_of_nat (length bs) :: u64)" using j(2) by (simp add: announces_def)
  show ?thesis
    using report_line_reads_back[of "get_serial_number A" ?x bs] False
    by (intro if_not_P[THEN iffD2] exI[of _ "report_line (get_serial_number A) ?x bs"])
      (simp_all add: g(1) c(5) x size)
qed


text \<open>A sensor (device 9) whose parent is a gateway (device 7) that has it in its mesh table.\<close>

definition host_sensor :: dev where
  "host_sensor = (boot_dev DEVICE_TYPE_SENSOR 9 1 ref_storage1)
     \<lparr>dv_info := (boot_info DEVICE_TYPE_SENSOR 9 1)\<lparr>di_connected_device_id := 7\<rparr>\<rparr>"

definition host_gateway :: dev where
  "host_gateway = (boot_dev DEVICE_TYPE_GATEWAY 7 0 (ref_storage1\<lparr>st_mesh := (st_mesh ref_storage1)[0 :=
     \<lparr>ms_device_type = DEVICE_TYPE_SENSOR, ms_device_id = 9, ms_serial_num = 9, ms_connected_device_id = 7, ms_hop_num = 1\<rparr>]\<rparr>))
     \<lparr>dv_mesh := \<lparr>mh_initialized = True, mh_temp_id = 9, mh_last_pair_request_ms = 0, mh_time_offset = 0\<rparr>\<rparr>"

lemma ref_can_report: "can_report ref_platform ref_platform host_sensor host_gateway 0"
proof -
  note P = platform_okD(1,4)[OF ref_platform_ok] and st = storage_okD(1)[OF ref_storage1_ok(1)]
  have sw: "storage_wf (ref_storage1\<lparr>st_mesh := (st_mesh ref_storage1)[0 := x]\<rparr>)" for x using st by (simp add: storage_wf_def)
  have w: "dev_wf host_sensor" "dev_wf host_gateway"
    using boot_dev_wf[OF st, of DEVICE_TYPE_SENSOR 9 1] boot_dev_wf[OF sw, of DEVICE_TYPE_GATEWAY 7 0]
    by (simp_all add: host_sensor_def host_gateway_def dev_wf_def)
  have up: "psram_up ref_platform host_sensor" "psram_up ref_platform host_gateway"
    unfolding host_sensor_def host_gateway_def using ref_psram_up by (simp_all add: psram_up_def)
  have m: "modem_accepts ref_platform" by (simp add: modem_accepts_def ref_platform_def)
  have i: "idle_node ref_platform host_sensor" "idle_node ref_platform host_gateway"
    unfolding idle_node_def using P(1) w up m
    by (simp_all add: host_sensor_def host_gateway_def boot_dev_def boot_info_def queues_empty_def tx_pending_def rx_pending_def)
  have n: "no_reports host_sensor" "no_reports host_gateway"
    by (simp_all add: no_reports_def host_sensor_def host_gateway_def boot_dev_def boot_reports_def nbtimeout_is_active_def nbtimeout_init_def)
  have l: "length (st_mesh ref_storage1) = MAX_DEVICES" using st by (simp add: storage_wf_def)
  have f: "find_mesh 9 host_gateway = Some 0" "ms_serial_num (mesh_at host_gateway 0) = 9"
    using ref_storage1_ok(3) l by (cases "st_mesh ref_storage1"; simp add: host_gateway_def boot_dev_def)+
  have k: "known_sender 9 host_gateway" "known_sender 7 host_sensor"
    using ref_storage1_devs(1) by (simp_all add: known_sender_def host_gateway_def host_sensor_def boot_dev_def
        stamp_infra_eq new_infra_def ref_anchor_def)
  have ids: "get_device_id host_sensor = 9" "get_device_id host_gateway = 7" "get_device_type host_sensor = DEVICE_TYPE_SENSOR"
    "get_device_type host_gateway = DEVICE_TYPE_GATEWAY" "get_connected_device_id host_sensor = 7" "get_serial_number host_sensor = 9"
    "dv_now host_gateway = 1000"
    by (simp_all add: host_sensor_def host_gateway_def boot_dev_def boot_info_def)
  have par: "infra_id (infra_at host_sensor 0) = 7"
    by (simp add: host_sensor_def boot_dev_def ref_storage1_at0 stamp_infra_eq new_infra_def ref_anchor_def)
  show ?thesis unfolding can_report_def ids par using i P(2) n f k by simp
qed

theorem report_reaches_host_witness:
  "let A0 = slm_at_run_cycle ref_platform (Some (report_command 9 3 1 (pf_crc32 ref_platform [1, 2]) [1, 2] @ CRLF)) host_sensor;
       A1 = report_tick ref_platform A0; A2 = tx_phase ref_platform A1;
       B1 = hear ref_platform 0 (emitted A1 A2) host_gateway; B2 = tx_phase ref_platform B1;
       A3 = hear ref_platform 0 (emitted B1 B2) A2; A4 = tx_phase ref_platform A3;
       B3 = hear ref_platform 0 (emitted A3 A4) B2; B4 = tx_phase ref_platform B3; B5 = report_tick ref_platform B4
   in \<exists>line hex. dv_uart B5 = dv_uart B4 @ line \<and> field_get 5 line = Some hex \<and> hex_decode hex 2 = Some [1, 2]"
proof -
  have sn: "get_serial_number host_sensor = 9" by (simp add: host_sensor_def boot_info_def)
  have uart: "pf_uart_write ref_platform out s = (0, out @ s)" for out s by (simp add: ref_platform_def)
  have p: "[1, 2] \<noteq> ([] :: bytes)" "length ([1, 2] :: bytes) \<le> MAX_REPORT_SIZE"
    "(ucast (1 :: u64) :: u8) \<in> {PACKET_PRIORITY_HIGH, PACKET_PRIORITY_MEDIUM, PACKET_PRIORITY_LOW}" by simp_all
  have n: "(ucast (3 :: u16) :: u8) \<noteq> 0" and l: "length ([1, 2] :: bytes) = 2" by simp_all
  show ?thesis
    using report_reaches_host[OF ref_can_report p(1,2) refl p(3) uart, where i = 3 and rA = 0 and rB = 0, unfolded sn if_not_P[OF n] l] unfolding Let_def by blast
qed

end
