(* ===== verification/Config_Path.thy ===== *)
theory Config_Path
  imports Report_Path
begin

text \<open>
  The way of a configuration from the host of the gateway to the host of a sensor next to it
  (src/config.c, src/slm_at_main.c, src/main_sub.c): the command on the gateway's serial line, the
  tick that sends it, the packet on the air, and the tick with which the sensor writes its line.
\<close>

section \<open>The command of the host\<close>

definition config_command :: "u64 \<Rightarrow> u16 \<Rightarrow> u32 \<Rightarrow> bytes \<Rightarrow> string" where
  "config_command sn i crc bs = ''AT#CONFIG='' @ at_fields [hex_fixed True 16 (unat sn), hex_fixed True 4 (unat i),
     hex_fixed True 4 (length bs), hex_fixed True 8 (unat crc), hex_bytes bs]"

definition command_config :: "platform \<Rightarrow> mesh \<Rightarrow> u16 \<Rightarrow> bytes \<Rightarrow> at_structure" where
  "command_config P m i bs = \<lparr>as_device_id = ms_device_id m, as_device_type = ms_device_type m, as_data_id = i,
     as_data_len = word_of_nat (length bs), as_data_crc32 = pf_crc32 P bs\<rparr>"

lemma strstr_Cons:
  "strstr pat (c # s) = (if take (length pat) (c # s) = pat then Some (c # s) else strstr pat s)"
  by (subst strstr.simps) simp

lemma strstr_none: "c \<notin> set s \<Longrightarrow> strstr (c # pat) s = None"
  by (induction s) (auto simp: strstr.simps[of "c # pat" "[]"] strstr_Cons)

lemma hex_no_hash: "CHR ''#'' \<notin> set (hex_fixed up w v)" "CHR ''#'' \<notin> set (hex_bytes bs)"
proof -
  have "list_all (\<lambda>n. hex_digit u n \<noteq> CHR ''#'') [0..<16]" for u by (cases u) (simp_all add: hex_digit_def upt_conv_Cons)
  then have d: "n < 16 \<Longrightarrow> CHR ''#'' \<noteq> hex_digit u n" "n < 16 \<Longrightarrow> hex_digit u n \<noteq> CHR ''#''" for n u
    unfolding list_all_iff by (metis atLeastLessThan_iff atLeastLessThan_upt le0)+
  show "CHR ''#'' \<notin> set (hex_fixed up w v)" by (induction w arbitrary: v) (simp_all add: d)
  have "unat b div 16 < 16" for b :: u8 using unsigned_less[of b, where 'a = nat] by simp
  then show "CHR ''#'' \<notin> set (hex_bytes bs)" by (induction bs) (simp_all add: d)
qed

lemma at_fields_no_hash: "\<forall>f\<in>set fs. CHR ''#'' \<notin> set f \<Longrightarrow> CHR ''#'' \<notin> set (at_fields fs)"
  by (induction fs rule: at_fields.induct) simp_all

lemma config_command_line: "at_lines (config_command sn i crc bs @ CRLF) = [config_command sn i crc bs]"
proof -
  let ?l = "config_command sn i crc bs"
  have "no_eol (at_fields [hex_fixed True 16 (unat sn), hex_fixed True 4 (unat i), hex_fixed True 4 (length bs),
     hex_fixed True 8 (unat crc), hex_bytes bs])"
    by (rule at_fields_no_eol) (simp add: hex_no_eol del: at_fields.simps)
  then have "no_eol ?l" unfolding config_command_def by (simp add: is_eol_def del: at_fields.simps)
  moreover have "?l \<noteq> []" by (simp add: config_command_def)
  moreover have "at_lines CRLF = []" using at_lines_eol[of CRLF "[]"] by (simp add: is_eol_def)
  ultimately show ?thesis using at_lines_line[of ?l CRLF] by (simp add: is_eol_def)
qed

lemma config_response_fits: "length (CRLF @ config_response sn c @ CRLF) < SLM_UART_STRING_MESSAGE_SIZE_MAX"
  using word_text[of "as_data_id c"] word_text[of "as_data_len c"] by (simp add: config_response_def)

text \<open>An accepted command stores the configuration for the device with the serial number, and answers OK.\<close>

lemma config_command_effect:
  fixes P :: platform and d :: dev and i :: u16 and bs :: bytes and sn :: u64 and m :: nat
  assumes "get_device_type d = DEVICE_TYPE_GATEWAY" "bs \<noteq> []" "length bs \<le> MAX_CONFIG_SIZE" "dv_status d = Running"
    "find_idx (\<lambda>x. ms_serial_num x = sn) (mesh_devs (dv_store d)) = Some m"
    "find_hop_num (ms_device_id (mesh_at d m)) (ms_device_type (mesh_at d m)) d \<noteq> 0xFF"
  defines "v \<equiv> validate_at_config P (command_config P (mesh_at d m) i bs) bs d"
  assumes "0 \<le> fst v"
  shows "\<exists>out. slm_at_run_cycle P (Some (config_command sn i (pf_crc32 P bs) bs @ CRLF)) d = snd v\<lparr>dv_uart := out\<rparr>"
proof -
  let ?fs = "[hex_fixed True 16 (unat sn), hex_fixed True 4 (unat i), hex_fixed True 4 (length bs),
     hex_fixed True 8 (unat (pf_crc32 P bs)), hex_bytes bs]"
  let ?l = "config_command sn i (pf_crc32 P bs) bs" and ?c = "command_config P (mesh_at d m) i bs"
  have len: "unat (word_of_nat (length bs) :: u8) = length bs" using assms(3) by (simp add: unat_of_nat)
  then have len0: "(word_of_nat (length bs) :: u8) \<noteq> 0" using assms(2) by (metis length_0_conv unat_0)
  have len16: "ucast (word_of_nat (length bs) :: u8) = (word_of_nat (length bs) :: u16)"
  proof -
    have "ucast x = (word_of_nat (unat x) :: u16)" for x :: u8 by simp
    then show ?thesis using len by metis
  qed
  have "CHR ''#'' \<notin> set (at_fields ?fs)" by (rule at_fields_no_hash) (simp add: hex_no_hash del: at_fields.simps)
  then have "strstr ''#REPORT'' ?l = None"
    using strstr_none by (simp add: config_command_def strstr_Cons del: at_fields.simps)
  moreover have "strstr ''AT#CONFIG'' ?l = Some ?l" by (subst strstr.simps) (simp add: config_command_def del: at_fields.simps)
  moreover have "after ''AT#CONFIG'' ?l = ''='' @ at_fields ?fs" by (simp add: after_def config_command_def del: at_fields.simps)
  moreover have "?l \<noteq> ''OK''" "?l \<noteq> ''ERROR''" by (simp_all add: config_command_def del: at_fields.simps)
  moreover have "parse_config P (''='' @ at_fields ?fs) = Some (sn, \<lparr>as_device_id = 0, as_device_type = 0, as_data_id = i,
      as_data_len = word_of_nat (length bs), as_data_crc32 = pf_crc32 P bs\<rparr>, bs)"
    using config_fields_parse[of "''=''" P sn i "word_of_nat (length bs)" "pf_crc32 P bs" bs "[]"] len len0 len16 assms(3)
    by (simp del: at_fields.simps)
  ultimately have "dispatch P ?l d = at_ok P (at_send_line P (config_response sn ?c) (snd v))"
    using assms(1,5,6,8) by (simp add: dispatch_def dispatch_gateway_def cmd_config_def split_beta Let_def command_config_def v_def
        del: at_fields.simps)
  then have "slm_at_run_cycle P (Some (?l @ CRLF)) d = at_ok P (at_send_line P (config_response sn ?c) (snd v))"
    unfolding slm_at_run_cycle_def option.case config_command_line by (simp add: assms(4))
  moreover have "\<exists>out. at_send_line P (config_response sn c) e = e\<lparr>dv_uart := out\<rparr>" for sn c e
    using config_response_fits[of sn c] by (auto simp: at_send_line_def slm_at_tx_write_def proc_def split_beta Let_def)
  moreover have "\<exists>out'. at_ok P (e\<lparr>dv_uart := out\<rparr>) = e\<lparr>dv_uart := out'\<rparr>" for e out
    by (auto simp: at_ok_def slm_at_tx_write_def proc_def split_beta Let_def)
  ultimately show ?thesis by metis
qed


section \<open>The gateway\<close>

definition no_configs :: "dev \<Rightarrow> bool" where
  "no_configs d \<longleftrightarrow> (\<forall>x\<in>set (cfg_slots d). \<not> cs_active x)"

text \<open>
  An idle gateway \<open>A\<close> that has the idle sensor \<open>B\<close> next to it: entry \<open>m\<close> of its mesh table is the
  first with the sensor's serial number and names the gateway as the sensor's parent.
\<close>

definition can_configure :: "platform \<Rightarrow> platform \<Rightarrow> dev \<Rightarrow> dev \<Rightarrow> nat \<Rightarrow> bool" where
  "can_configure PA PB A B m \<longleftrightarrow> idle_node PA A \<and> idle_node PB B \<and> no_configs A \<and> no_configs B \<and>
     get_device_type A = DEVICE_TYPE_GATEWAY \<and> get_device_type B = DEVICE_TYPE_SENSOR \<and>
     find_idx (\<lambda>x. ms_serial_num x = get_serial_number B) (mesh_devs (dv_store A)) = Some m \<and>
     ms_device_id (mesh_at A m) = get_device_id B \<and> ms_device_type (mesh_at A m) = DEVICE_TYPE_SENSOR \<and>
     find_hop_num (get_device_id B) DEVICE_TYPE_SENSOR A = 0 \<and> known_sender (get_device_id A) B"

abbreviation reopened :: "config_slot \<Rightarrow> config_slot" where
  "reopened s \<equiv> s\<lparr>cs_active := True, cs_is_sent := False, cs_is_applied := False, cs_is_transfered := False\<rparr>"

abbreviation configured :: "at_structure \<Rightarrow> config_slot \<Rightarrow> config_slot" where
  "configured c s \<equiv> (reopened s)\<lparr>cs_dst_device_id := as_device_id c, cs_dst_device_type := as_device_type c,
     cs_config_id := as_data_id c, cs_config_len := ucast (as_data_len c), cs_config_crc32 := as_data_crc32 c\<rparr>"

text \<open>A new configuration lies in slot 0; the slot's previous contents decide what is in it.\<close>

lemma first_config_stored:
  fixes P :: platform and d :: dev and c :: at_structure and bs :: bytes
  assumes "psram_up P d" "dev_wf d" "no_configs d" "unat (as_data_len c) = length bs" "bs \<noteq> []" "length bs \<le> MAX_CONFIG_SIZE"
  defines "v \<equiv> validate_at_config P c bs d" and "old \<equiv> cfg_at d 0"
  defines "same \<equiv> cs_config_crc32 old = as_data_crc32 c \<and> ucast (cs_config_len old) = as_data_len c"
  shows "fst v = 0" "\<exists>ps cf. snd v = d\<lparr>dv_psram := ps, dv_config := cf\<rparr>" "psram_up P (snd v)" "0 < cf_active_count (dv_config (snd v))"
    "cfg_slots (snd v) = (cfg_slots d)[0 := if same then reopened old else configured c old]"
    "\<not> same \<Longrightarrow> region (snd v) (config_slot_psram_addr 0) (length bs) = bs"
proof -
  let ?g = "\<lambda>s. s\<lparr>cs_is_sent := False, cs_is_applied := False, cs_is_transfered := False\<rparr>"
  let ?n = "\<lambda>n :: u16. if n < 0xFFFF then n + 1 else n"
  let ?d = "upd_config 0 reopened (set_config_count ?n (upd_config 0 ?g d))"
  let ?e = "upd_config 0 (\<lambda>s. s\<lparr>cs_dst_device_id := as_device_id c, cs_dst_device_type := as_device_type c,
     cs_config_id := as_data_id c, cs_config_len := ucast (as_data_len c), cs_config_crc32 := as_data_crc32 c\<rparr>) ?d"
  have slots: "0 < length (cfg_slots d)" using cfg_len[OF assms(2)] by simp
  have free: "find_idx (\<lambda>s. \<not> cs_active s) (cfg_slots d) = Some 0"
    using assms(3) slots by (cases "cfg_slots d") (simp_all add: no_configs_def)
  have none: "find_idx (\<lambda>s. cs_active s \<and> cs_dst_device_id s = as_device_id c \<and> cs_dst_device_type s = as_device_type c) (cfg_slots d) = None"
    using assms(3) by (simp add: find_idx_None_iff no_configs_def)
  have len: "as_data_len c \<noteq> 0" using assms(4,5) by auto
  have s0: "cfg_at ?d 0 = reopened old" using slots by (simp add: old_def)
  have v: "v = store_at_config P c bs 0 (set_config_count ?n (upd_config 0 ?g d))"
    using free none len assms(4,6) by (simp add: v_def validate_at_config_def alloc_config_slot_def)
  have up: "psram_up P ?e" using assms(1) by simp
  note w = cfg_mem.write_slot[OF up, of 0 bs, simplified, OF assms(6)]
  have w0: "d_psram_write P (config_slot_psram_addr 0) bs ?e = (0, snd (d_psram_write P (config_slot_psram_addr 0) bs ?e))"
    by (rule prod_eqI) (simp_all add: w(1))
  have e: "v = (if same then (0, ?d) else (0, snd (d_psram_write P (config_slot_psram_addr 0) bs ?e)))"
    using assms(4) w(1) s0 unfolding v store_at_config_def Let_def split_beta same_def by simp
  have count: "0 < ?n n" for n
    by (cases "n < 0xFFFF") (auto simp: word_less_nat_alt unat_word_ariths)
  show "fst v = 0" by (simp add: e)
  show "psram_up P (snd v)" using up w(3) assms(1) by (simp add: e)
  show "\<not> same \<Longrightarrow> region (snd v) (config_slot_psram_addr 0) (length bs) = bs" using w(2) by (simp add: e)
  show "cfg_slots (snd v) = (cfg_slots d)[0 := if same then reopened old else configured c old]"
    using slots by (simp add: e old_def) (simp add: upd_config_def)
  show "\<exists>ps cf. snd v = d\<lparr>dv_psram := ps, dv_config := cf\<rparr>"
    by (intro exI[of _ "dv_psram (snd v)"] exI[of _ "dv_config (snd v)"], cases same)
      (simp_all add: e d_psram_write_def split_beta Let_def upd_config_def set_config_count_def)
  show "0 < cf_active_count (dv_config (snd v))"
    using count[of "cf_active_count (dv_config d)"]
    by (simp add: e) (simp add: upd_config_def set_config_count_def split: if_splits)
qed

lemma find_hop_num_cong:
  assumes "dv_store d = dv_store e" "dv_info d = dv_info e" shows "find_hop_num i t d = find_hop_num i t e"
  unfolding find_hop_num_def assms ..

text \<open>The packet that a configuration of slot \<open>s\<close> becomes, with its header.\<close>

definition stamped_config :: "config_slot \<Rightarrow> bytes \<Rightarrow> dev \<Rightarrow> config_t" where
  "stamped_config s bs d = (config_pkt_of s (bs @ replicate (MAX_CONFIG_SIZE - length bs) 0))
     \<lparr>cfg_hdr := mk_hdr PACKET_CONFIG PACKET_PRIORITY_HIGH (fst (d_next_id d)) (cs_dst_device_id s) 0 d\<rparr>"

lemma config_sends:
  assumes "msgq_ok P" "length bs \<le> MAX_CONFIG_SIZE"
  shows "sends P PACKET_PRIORITY_HIGH (enc_config_t (stamped_config s bs d)) d (proc (send_config P
       (config_pkt_of s (bs @ replicate (MAX_CONFIG_SIZE - length bs) 0)) (cs_dst_device_id s) PACKET_PRIORITY_HIGH) d)"
proof -
  have m: "mk_hdr pt pr t ds st (snd (d_next_id d)) = mk_hdr pt pr t ds st d" for pt pr t ds st by (simp add: mk_hdr_def)
  have "ph_status (cfg_hdr (config_pkt_of s x)) = 0" for x by (simp add: config_pkt_of_def zero_hdr_def)
  then show ?thesis
    using sends_tracked[OF assms(1)] by (simp add: proc_def send_config_def stamped_config_def split_beta Let_def m)
qed

text \<open>The gateway's tick sends the only configuration that waits, straight to the sensor.\<close>

lemma gateway_sends_config:
  fixes P :: platform and d :: dev
  assumes "idle_node P d" "get_device_type d = DEVICE_TYPE_GATEWAY" "0 < cf_active_count (dv_config d)"
    "\<forall>j<CONFIG_SLOT_COUNT. cs_active (cfg_at d j) \<longleftrightarrow> j = 0" "\<not> cs_is_sent (cfg_at d 0)"
    "find_hop_num (cs_dst_device_id (cfg_at d 0)) (cs_dst_device_type (cfg_at d 0)) d = 0"
    "unat (cs_config_len (cfg_at d 0)) = length bs" "region d (config_slot_psram_addr 0) (length bs) = bs"
  defines "pkt \<equiv> stamped_config (cfg_at d 0) bs d" and "d1 \<equiv> config_tick P d"
  shows "emitted d1 (tx_phase P d1) = [frame_of (get_device_id d) (enc_config_t pkt)]"
proof -
  have ok: "msgq_ok P" "modem_accepts P" "psram_up P d" "dev_wf d" "dv_status d = Running" "tx_pending (dv_queues d) = []"
    "dv_radio_id d = get_device_id d"
    using assms(1) by (simp_all add: idle_node_def)
  have len: "length bs \<le> MAX_CONFIG_SIZE"
  proof -
    have "\<forall>s\<in>set (cfg_slots d). unat (cs_config_len s) \<le> MAX_CONFIG_SIZE" using ok(4) by (simp add: dev_wf_def configs_wf_def)
    moreover have "cfg_at d 0 \<in> set (cfg_slots d)" using cfg_len[OF ok(4)] by simp
    ultimately show ?thesis using assms(7) by metis
  qed
  let ?p = "config_pkt_of (cfg_at d 0) (bs @ replicate (MAX_CONFIG_SIZE - length bs) 0)"
  let ?e = "proc (send_config P ?p (cs_dst_device_id (cfg_at d 0)) PACKET_PRIORITY_HIGH) d"
  note snd_ = config_sends[OF ok(1) len, of "cfg_at d 0" d, folded pkt_def]
  note k = sendsD(1)[OF snd_, unfolded keeps_def]
  have rd: "d_psram_read P (config_slot_psram_addr 0) (length bs) MAX_CONFIG_SIZE d
      = (0, bs @ replicate (MAX_CONFIG_SIZE - length bs) 0, d)"
    using cfg_mem.read_slot[OF ok(3) _ len len, of 0] assms(8) by simp
  have send: "gateway_config_send P 0 d = mark_config_sent 0 GATEWAY_CONFIG_TIMEOUT_MS 0 ?e"
    using assms(6,7) rd by (simp add: gateway_config_send_def Let_def)
  have tmo: "for_slots CONFIG_SLOT_COUNT (gateway_config_timeouts P) d = d"
    unfolding for_slots_def using assms(4,5) by (intro seqs_idle) (auto simp: gateway_config_timeouts_def Let_def)
  have "cfg_at (gateway_config_send P 0 d) j = cfg_at d j" if "j \<noteq> 0" for j
    using that k unfolding send mark_config_sent_def start_config_timeout_def by simp
  then have tick: "d1 = mark_config_sent 0 GATEWAY_CONFIG_TIMEOUT_MS 0 ?e"
    unfolding d1_def config_tick_def gateway_config_tick_def tmo send[symmetric]
    using assms(2-5) ok(5) by (subst process_upto_one[of 0]) simp_all
  have f: "dv_queues d1 = dv_queues ?e" "dv_radio_id d1 = get_device_id d"
    using k ok(7) by (simp_all add: tick mark_config_sent_def start_config_timeout_def upd_config_def)
  have q: "queued PACKET_PRIORITY_HIGH [enc_config_t pkt] (dv_queues d1)"
    using sendsD(4)[OF snd_ queued_none[OF ok(6)]] by (simp add: f(1))
  have "length (enc_config_t pkt) \<le> QUEUE_DATA_MAX"
    using len by (simp add: pkt_def stamped_config_def config_pkt_of_def zero_route_def)
  then show ?thesis using tx_step(2)[OF ok(1,2) q] f(2) by simp
qed

section \<open>The sensor\<close>

lemma config_dispatch:
  assumes "ph_packet_type (cfg_hdr c) = PACKET_CONFIG" "length (cfg_route_info c) = MAX_DEPTH" "length (cfg_config c) = MAX_CONFIG_SIZE"
  shows "process_rx P (enc_config_t c @ z) n r d = handle_config P c n r d"
    "2 < length (enc_config_t c) \<and> length (enc_config_t c) \<le> QUEUE_DATA_MAX \<and> enc_config_t c ! 2 = ph_priority (cfg_hdr c)"
proof -
  have l: "length (enc_config_t c) = 158" using assms(2,3) by simp
  then have "enc_config_t c @ z \<noteq> []" by (cases "enc_config_t c") simp_all
  then show "process_rx P (enc_config_t c @ z) n r d = handle_config P c n r d"
    using header_bytes(1)[of "enc_config_t c @ z", unfolded wire_simps] assms by (simp add: process_rx_def wire_simps)
  show "2 < length (enc_config_t c) \<and> length (enc_config_t c) \<le> QUEUE_DATA_MAX \<and> enc_config_t c ! 2 = ph_priority (cfg_hdr c)"
    using header_bytes(2)[of "enc_config_t c"] header_enc_config_t[of c "[]"] l by simp
qed

text \<open>A configuration that waits in slot 0 of a sensor, as the first and only one.\<close>

definition waits_for_host :: "platform \<Rightarrow> dev \<Rightarrow> config_t \<Rightarrow> dev \<Rightarrow> bool" where
  "waits_for_host P d pkt e \<longleftrightarrow> dev_wf e \<and> psram_up P e \<and> dv_status e = Running \<and> dv_info e = dv_info d \<and> dv_uart e = dv_uart d \<and>
     0 < cf_active_count (dv_config e) \<and> only_slot 0 e \<and> config_stored pkt 0 e"

lemma waits_keeps:
  assumes "waits_for_host P d pkt e" "keeps P e f" shows "waits_for_host P d pkt f"
proof -
  have "region f (config_slot_psram_addr 0) n = region e (config_slot_psram_addr 0) n" for n
    using assms by (simp add: waits_for_host_def keeps_def config_slot_psram_addr_def)
  then show ?thesis
    using assms by (simp add: waits_for_host_def keeps_def config_stored_def config_listed_def only_slot_def find_config_slot_def)
qed

lemma sensor_stores_config:
  fixes P :: platform and d :: dev and pkt :: config_t and src :: u16 and r :: s16
  assumes "msgq_ok P" "psram_up P d" "dev_wf d" "dv_status d = Running" "no_configs d" "get_device_type d = DEVICE_TYPE_SENSOR"
    "cfg_hdr pkt = mk_hdr PACKET_CONFIG PACKET_PRIORITY_HIGH tid (get_device_id d) 0 a" "get_device_type a = DEVICE_TYPE_GATEWAY"
    "cfg_dst_device_id pkt = get_device_id d" "config_payload pkt \<noteq> []" "length (config_payload pkt) = unat (cfg_config_len pkt)"
    "unat (cfg_config_len pkt) \<le> MAX_CONFIG_SIZE" "cfg_config_crc32 pkt = pf_crc32 P (config_payload pkt)"
  shows "waits_for_host P d pkt (handle_config P pkt src r d)"
    "rx_items (dv_queues (handle_config P pkt src r d)) = rx_items (dv_queues d)"
proof -
  let ?v = "validate_config P pkt d" and ?h = "handle_config P pkt src r d"
  let ?g = "\<lambda>s. s\<lparr>cs_is_sent := False, cs_is_applied := False, cs_is_transfered := False\<rparr>"
  let ?n = "\<lambda>n :: u16. if n < 0xFFFF then n + 1 else n"
  let ?d = "upd_config 0 (fill_config_slot pkt) (set_config_count ?n (upd_config 0 ?g d))"
  have slots: "0 < length (cfg_slots d)" using cfg_len[OF assms(3)] by simp
  have none: "find_config_slot (cfg_dst_device_id pkt) d = None"
    using assms(5) by (simp add: find_config_slot_def find_idx_None_iff no_configs_def)
  have free: "find_idx (\<lambda>s. \<not> cs_active s) (cfg_slots d) = Some 0"
    using assms(5) slots by (cases "cfg_slots d") (simp_all add: no_configs_def)
  have v: "?v = store_config P pkt 0 (set_config_count ?n (upd_config 0 ?g d))"
    using free none assms(6,9) by (simp add: validate_config_def alloc_config_slot_def)
  have up: "psram_up P ?d" using assms(2) by simp
  note w = cfg_mem.write_slot[OF up, of 0 "config_payload pkt", simplified, OF assms(12)[folded assms(11)]]
  let ?e = "snd (d_psram_write P (config_slot_psram_addr 0) (config_payload pkt) ?d)"
  have e: "?v = (STATUS_SUCCESS, Some 0, ?e)"
    using w(1) assms(13) unfolding v store_config_def Let_def split_beta by simp
  have len: "cfg_config_len pkt \<noteq> 0" using assms(10,11) by (metis length_0_conv unsigned_0)
  have off: "\<not> cs_is_applied (cfg_at ?e 0)" using slots by (simp add: fill_config_slot_def)
  have h: "?h = proc (send_config_ack P (config_ack_of pkt STATUS_SUCCESS) src (ph_priority (cfg_hdr pkt)) (ph_tracking_id (cfg_hdr pkt))) ?e"
    using assms(6-8,12) len e by (simp add: handle_config_def mk_hdr_def valid_device_type_def Let_def)
  have s: "sends P PACKET_PRIORITY_HIGH (enc_config_ack ((config_ack_of pkt STATUS_SUCCESS)\<lparr>cfa_hdr := mk_hdr PACKET_CONFIG_ACK PACKET_PRIORITY_HIGH
      (ph_tracking_id (cfg_hdr pkt)) src (ph_status (cfa_hdr (config_ack_of pkt STATUS_SUCCESS))) ?e\<rparr>)) ?e ?h"
    unfolding h using sends_plain[OF assms(1)] by (simp add: proc_def send_config_ack_def assms(7) mk_hdr_def)
  have wf: "dev_wf ?e" using validate_config_wf[OF assms(3,12), of P] by (simp add: e)
  have slots_e: "cfg_slots ?e = (cfg_slots d)[0 := fill_config_slot pkt (?g (cfg_at d 0))]"
    using slots by (simp add: upd_config_def)
  have fill: "cs_active (fill_config_slot pkt x)" "cs_dst_device_id (fill_config_slot pkt x) = cfg_dst_device_id pkt" for x
    by (simp_all add: fill_config_slot_def)
  have "find_config_slot (cfg_dst_device_id pkt) ?e = Some 0"
    unfolding find_config_slot_def slots_e
    by (rule find_idx_new[OF none[unfolded find_config_slot_def] slots]) (simp add: fill)
  then have st: "config_stored pkt 0 ?e"
    using slots w(2) unfolding config_stored_def config_listed_def slots_e by (simp add: fill_config_slot_def)
  have only: "only_slot 0 ?e"
    using assms(5) cfg_len[OF assms(3)] unfolding only_slot_def slots_e
    by (auto simp: no_configs_def nth_list_update all_set_conv_all_nth)
  have rest: "dv_status ?e = Running" "dv_info ?e = dv_info d" "dv_uart ?e = dv_uart d" "dv_queues ?e = dv_queues d"
    "cf_active_count (dv_config ?e) = ?n (cf_active_count (dv_config d))"
    using assms(4) by (simp_all add: d_psram_write_def split_beta Let_def upd_config_def set_config_count_def)
  have count: "0 < ?n n" for n
    by (cases "n < 0xFFFF") (auto simp: word_less_nat_alt unat_word_ariths)
  have "waits_for_host P d pkt ?e"
    unfolding waits_for_host_def rest using wf w(3) only st count by simp
  then show "waits_for_host P d pkt ?h" by (rule waits_keeps[OF _ sendsD(1)[OF s]])
  show "rx_items (dv_queues ?h) = rx_items (dv_queues d)" using sendsD(3)[OF s] rest(4) by simp
qed

lemma sensor_hears_config:
  fixes P :: platform and d :: dev and pkt :: config_t and i :: u16 and r :: s16
  assumes "idle_node P d" "no_configs d" "get_device_type d = DEVICE_TYPE_SENSOR" "known_sender i d"
    "cfg_hdr pkt = mk_hdr PACKET_CONFIG PACKET_PRIORITY_HIGH tid (get_device_id d) 0 a" "get_device_type a = DEVICE_TYPE_GATEWAY"
    "cfg_dst_device_id pkt = get_device_id d" "config_payload pkt \<noteq> []" "length (config_payload pkt) = unat (cfg_config_len pkt)"
    "unat (cfg_config_len pkt) \<le> MAX_CONFIG_SIZE" "cfg_config_crc32 pkt = pf_crc32 P (config_payload pkt)"
    "length (cfg_route_info pkt) = MAX_DEPTH" "length (cfg_config pkt) = MAX_CONFIG_SIZE"
  shows "waits_for_host P d pkt (hear P r [frame_of i (enc_config_t pkt)] d)"
proof -
  have ok: "msgq_ok P" "psram_up P d" "dev_wf d" "dv_status d = Running" "rx_pending (dv_queues d) = []"
    using assms(1) by (simp_all add: idle_node_def)
  have hdr: "ph_packet_type (cfg_hdr pkt) = PACKET_CONFIG" "ph_priority (cfg_hdr pkt) = PACKET_PRIORITY_HIGH"
    using assms(5) by (simp_all add: mk_hdr_def)
  note disp = config_dispatch(1)[OF hdr(1) assms(12,13)] and frame = config_dispatch(2)[OF hdr(1) assms(12,13), unfolded hdr(2)]
  let ?I = "\<lambda>m e. if m = 0 then keeps P d e else waits_for_host P d pkt e" and ?bss = "[enc_config_t pkt]"
  have "?I (length ?bss) (hear P r (map (frame_of i) ?bss) d) \<and> rx_pending (dv_queues (hear P r (map (frame_of i) ?bss) d)) = []"
  proof (rule hear_steps[where I = ?I and p = PACKET_PRIORITY_HIGH, OF ok(1) assms(4) ok(5)])
    fix m e assume m: "m < length ?bss" "?I m e"
    then have k: "keeps P d e" by simp
    then have e: "psram_up P e" "dev_wf e" "dv_status e = Running" "no_configs e" "get_device_type e = DEVICE_TYPE_SENSOR"
      "get_device_id d = get_device_id e" "dv_info e = dv_info d" "dv_uart e = dv_uart d"
      using ok assms(2,3) by (simp_all add: keeps_def no_configs_def)
    note h = sensor_stores_config[OF ok(1) e(1-5) assms(5)[unfolded e(6)] assms(6) assms(7)[unfolded e(6)] assms(8-11), where src = i and r = r]
    have "waits_for_host P d pkt (handle_config P pkt i r e)" using h(1) e(7,8) by (simp add: waits_for_host_def)
    then show "let bs = ?bss ! m; e' = process_rx P (bs @ replicate (QUEUE_DATA_MAX - length bs) 0) i r e in
        ?I (Suc m) e' \<and> (Suc m < length ?bss \<longrightarrow> dv_status e' = Running) \<and> rx_items (dv_queues e') = rx_items (dv_queues e)"
      using m(1) h(2) by (simp add: disp)
  next
    fix m e q assume "?I m e"
    then show "?I m (e\<lparr>dv_queues := q\<rparr>)" using keeps_trans[OF _ keeps_queues(1)] waits_keeps[OF _ keeps_queues(1)] by auto
  qed (use frame in simp_all)
  then show ?thesis by simp
qed

text \<open>The tick of the sensor writes the line, and the line has everything that was in the packet.\<close>

lemma sensor_offers_config:
  fixes P :: platform and d e :: dev and pkt :: config_t
  assumes "waits_for_host P d pkt e" "get_device_type d = DEVICE_TYPE_SENSOR" "config_payload pkt \<noteq> []"
    "length (config_payload pkt) = unat (cfg_config_len pkt)" "unat (cfg_config_len pkt) \<le> MAX_CONFIG_SIZE"
    "cfg_config_crc32 pkt = pf_crc32 P (config_payload pkt)" "\<And>out s. pf_uart_write P out s = (0, out @ s)"
  shows "\<exists>line. dv_uart (config_tick P e) = dv_uart d @ line \<and>
    parse_config P line = Some (get_serial_number d, \<lparr>as_device_id = 0, as_device_type = 0, as_data_id = cfg_data_id pkt,
      as_data_len = ucast (cfg_config_len pkt), as_data_crc32 = cfg_config_crc32 pkt\<rparr>, config_payload pkt)"
proof -
  have w: "dev_wf e" "psram_up P e" "dv_status e = Running" "dv_info e = dv_info d" "dv_uart e = dv_uart d"
    "0 < cf_active_count (dv_config e)" "only_slot 0 e" "config_stored pkt 0 e"
    using assms(1) by (simp_all add: waits_for_host_def)
  have s: "cs_active (cfg_at e 0)" "\<not> cs_is_sent (cfg_at e 0)" "\<not> cs_is_applied (cfg_at e 0)" "cs_config_id (cfg_at e 0) = cfg_data_id pkt"
    "cs_config_len (cfg_at e 0) = cfg_config_len pkt" "cs_config_crc32 (cfg_at e 0) = cfg_config_crc32 pkt"
    "region e (config_slot_psram_addr 0) (unat (cfg_config_len pkt)) = config_payload pkt"
    using w(8) assms(4) by (simp_all add: config_stored_def config_listed_def)
  have "config_sensor P e" using w(1-4) assms(2) by (simp add: config_sensor_def)
  note one = config_tick_one[OF this w(7)]
  have "sensor_config_timeouts 0 e = e" using s(2) by (simp add: sensor_config_timeouts_def)
  then have tick: "config_tick P e = sensor_config_emit P 0 e"
    using one s(1-3) w(4,6) assms(2) by (simp add: config_tick_def)
  have len: "0 < length (cfg_slots e)" using cfg_len[OF w(1)] by simp
  have "unat (cs_config_len (cfg_at e 0)) \<le> MAX_CONFIG_SIZE" using s(5) assms(5) by simp
  note line = sensor_config_emit_line(2)[OF w(2) _ len this assms(7), unfolded s(5,7)]
  have "cfg_config_len pkt \<noteq> 0" using assms(3,4) by (metis length_0_conv unsigned_0)
  then have "parse_config P (config_line (get_serial_number e) (cfg_at e 0) (config_payload pkt)) = Some (get_serial_number d,
      \<lparr>as_device_id = 0, as_device_type = 0, as_data_id = cfg_data_id pkt, as_data_len = ucast (cfg_config_len pkt),
        as_data_crc32 = cfg_config_crc32 pkt\<rparr>, config_payload pkt)"
    using s(4-6) assms(4-6) w(4) by (simp add: config_line_parses_back)
  then show ?thesis using line w(5) tick by auto
qed

section \<open>From host to host\<close>

text \<open>
  C3: A configuration reaches the other end. The host of a gateway sends the command AT#CONFIG with
  the serial number of a sensor next to the gateway and a payload of 1 to 128 bytes; the ticks of
  both nodes and one packet on the air follow. Then the sensor has written one more line to its
  host, which parses into the sensor's serial number and exactly the id, length, checksum and bytes
  of the command. The exception: if slot 0, though free, still has the length and checksum of the new
  payload from an earlier use, the slot keeps the destination and the id of that use.
\<close>

theorem config_reaches_sensor_host:
  fixes PA PB :: platform and A B :: dev and i :: u16 and bs :: bytes and r :: s16
  assumes "can_configure PA PB A B m" "bs \<noteq> []" "length bs \<le> MAX_CONFIG_SIZE" "pf_crc32 PA bs = pf_crc32 PB bs"
    "\<And>out s. pf_uart_write PB out s = (0, out @ s)"
  defines "A0 \<equiv> slm_at_run_cycle PA (Some (config_command (get_serial_number B) i (pf_crc32 PA bs) bs @ CRLF)) A"
  defines "A1 \<equiv> config_tick PA A0"
  defines "A2 \<equiv> tx_phase PA A1"
  defines "B1 \<equiv> hear PB r (emitted A1 A2) B"
  defines "B2 \<equiv> config_tick PB B1"
  shows "if cs_config_crc32 (cfg_at A 0) = pf_crc32 PA bs \<and> unat (cs_config_len (cfg_at A 0)) = length bs
    then (\<forall>j<CONFIG_SLOT_COUNT. cs_active (cfg_at A0 j) \<longleftrightarrow> j = 0) \<and> cs_config_id (cfg_at A0 0) = cs_config_id (cfg_at A 0) \<and>
      cs_dst_device_id (cfg_at A0 0) = cs_dst_device_id (cfg_at A 0) \<and> \<not> cs_is_sent (cfg_at A0 0)
    else \<exists>line. dv_uart B2 = dv_uart B @ line \<and>
      parse_config PB line = Some (get_serial_number B, \<lparr>as_device_id = 0, as_device_type = 0, as_data_id = i,
        as_data_len = word_of_nat (length bs), as_data_crc32 = pf_crc32 PA bs\<rparr>, bs)"
proof -
  have c: "idle_node PA A" "idle_node PB B" "no_configs A" "no_configs B" "get_device_type A = DEVICE_TYPE_GATEWAY"
    "get_device_type B = DEVICE_TYPE_SENSOR" "find_idx (\<lambda>x. ms_serial_num x = get_serial_number B) (mesh_devs (dv_store A)) = Some m"
    "ms_device_id (mesh_at A m) = get_device_id B" "ms_device_type (mesh_at A m) = DEVICE_TYPE_SENSOR"
    "find_hop_num (get_device_id B) DEVICE_TYPE_SENSOR A = 0" "known_sender (get_device_id A) B"
    using assms(1) by (simp_all add: can_configure_def)
  have a: "psram_up PA A" "dev_wf A" "dv_status A = Running" using c(1) by (simp_all add: idle_node_def)
  let ?c = "command_config PA (mesh_at A m) i bs" and ?old = "cfg_at A 0"
  let ?same = "cs_config_crc32 ?old = as_data_crc32 ?c \<and> ucast (cs_config_len ?old) = as_data_len ?c"
  have cf: "as_data_crc32 ?c = pf_crc32 PA bs" "unat (as_data_len ?c) = length bs" "as_device_id ?c = get_device_id B"
    "as_device_type ?c = DEVICE_TYPE_SENSOR" "as_data_id ?c = i" "as_data_len ?c = word_of_nat (length bs)"
    using assms(3) c(8,9) by (simp_all add: command_config_def unat_of_nat)
  note st = first_config_stored[OF a(1,2) c(3) cf(2) assms(2,3)]
  let ?v = "snd (validate_at_config PA ?c bs A)"
  have hop: "find_hop_num (ms_device_id (mesh_at A m)) (ms_device_type (mesh_at A m)) A \<noteq> 0xFF" using c(8-10) by simp
  obtain out where A0: "A0 = ?v\<lparr>dv_uart := out\<rparr>"
    using config_command_effect[OF c(5) assms(2,3) a(3) c(7) hop, where P = PA and i = i] st(1) unfolding A0_def by fastforce
  have same: "?same \<longleftrightarrow> cs_config_crc32 ?old = pf_crc32 PA bs \<and> unat (cs_config_len ?old) = length bs"
  proof -
    have "unat (ucast x :: u16) = unat x" for x :: u8
      using unsigned_less[of x, where 'a = nat] by (simp add: unsigned_ucast_eq take_bit_nat_eq_self)
    then have "ucast x = as_data_len ?c \<longleftrightarrow> unat x = length bs" for x :: u8 by (simp add: cf(2)[symmetric] word_unat_eq_iff)
    then show ?thesis using cf(1) by simp
  qed
  have slots: "cfg_slots A0 = (cfg_slots A)[0 := if ?same then reopened ?old else configured ?c ?old]" using st(5) by (simp add: A0)
  have l: "length (cfg_slots A) = CONFIG_SLOT_COUNT" by (rule cfg_len[OF a(2)])
  then have s0: "cfg_at A0 0 = (if ?same then reopened ?old else configured ?c ?old)" by (simp add: slots)
  have act: "\<forall>j<CONFIG_SLOT_COUNT. cs_active (cfg_at A0 j) \<longleftrightarrow> j = 0"
    using c(3) l unfolding slots by (auto simp: no_configs_def nth_list_update all_set_conv_all_nth)
  show ?thesis
  proof (cases ?same)
    case True
    then show ?thesis using same act s0 by simp
  next
    case False
    let ?s = "configured ?c ?old"
    have s: "cfg_at A0 0 = ?s" unfolding s0 if_not_P[OF False] ..
    obtain ps cfs where f: "?v = A\<lparr>dv_psram := ps, dv_config := cfs\<rparr>" using st(2) by blast
    have wf: "dev_wf A0" unfolding A0_def by (rule slm_at_run_cycle_wf[OF a(2)])
    have idle: "idle_node PA A0"
      using c(1) wf st(3) by (simp add: idle_node_def A0 psram_up_def f)
    have clen: "unat (cs_config_len ?s) = length bs" using assms(3) by (simp add: cf(6) unat_of_nat unsigned_ucast_eq take_bit_eq_mod)
    have reg: "region A0 (config_slot_psram_addr 0) (length bs) = bs" using st(6) False by (simp add: A0 region_def)
    have "dv_store A0 = dv_store A" "dv_info A0 = dv_info A" by (simp_all add: A0 f)
    then have "find_hop_num (get_device_id B) DEVICE_TYPE_SENSOR A0 = 0" using c(10) find_hop_num_cong by metis
    then have hop0: "find_hop_num (cs_dst_device_id (cfg_at A0 0)) (cs_dst_device_type (cfg_at A0 0)) A0 = 0"
      using cf(3,4) by (simp add: s)
    let ?pkt = "stamped_config ?s bs A0"
    have count: "0 < cf_active_count (dv_config A0)" using st(4) by (simp add: A0)
    have own: "get_device_type A0 = DEVICE_TYPE_GATEWAY" "get_device_id A0 = get_device_id A" using c(5) by (simp_all add: A0 f)
    have em: "emitted A1 A2 = [frame_of (get_device_id A) (enc_config_t ?pkt)]"
      using gateway_sends_config[OF idle own(1) count act _ hop0, of bs] clen reg own(2) unfolding A1_def A2_def s by simp
    have pay: "config_payload ?pkt = bs" "cfg_config_len ?pkt = cs_config_len ?s" "cfg_config_crc32 ?pkt = pf_crc32 PB bs"
      "cfg_dst_device_id ?pkt = get_device_id B" "cfg_data_id ?pkt = i" "length (cfg_route_info ?pkt) = MAX_DEPTH"
      "length (cfg_config ?pkt) = MAX_CONFIG_SIZE"
      "cfg_hdr ?pkt = mk_hdr PACKET_CONFIG PACKET_PRIORITY_HIGH (fst (d_next_id A0)) (get_device_id B) 0 A0"
      using assms(3,4) cf clen by (simp_all add: stamped_config_def config_pkt_of_def config_payload_def zero_route_def)
    have lens: "unat (cfg_config_len ?pkt) = length bs" using clen pay(2) by simp
    have "waits_for_host PB B ?pkt B1"
      unfolding B1_def em
      by (rule sensor_hears_config[OF c(2,4,6,11) pay(8) own(1) pay(4)]) (use assms(2,3) pay lens in simp_all)
    then obtain line where "dv_uart B2 = dv_uart B @ line" "parse_config PB line = Some (get_serial_number B, \<lparr>as_device_id = 0,
        as_device_type = 0, as_data_id = cfg_data_id ?pkt, as_data_len = ucast (cfg_config_len ?pkt), as_data_crc32 = cfg_config_crc32 ?pkt\<rparr>,
        config_payload ?pkt)"
      using sensor_offers_config[of PB B ?pkt B1] c(6) assms(2,3,5) pay(1,3) lens unfolding B2_def by auto
    moreover have "ucast (cfg_config_len ?pkt) = (word_of_nat (length bs) :: u16)" using lens by (simp flip: lens)
    ultimately show ?thesis using False same pay assms(4) by auto
  qed
qed

lemma ref_can_configure: "can_configure ref_platform ref_platform host_gateway host_sensor 0"
proof -
  have r: "idle_node ref_platform host_sensor" "idle_node ref_platform host_gateway" "known_sender (get_device_id host_gateway) host_sensor"
    "get_device_type host_sensor = DEVICE_TYPE_SENSOR" "get_device_type host_gateway = DEVICE_TYPE_GATEWAY"
    using ref_can_report by (simp_all add: can_report_def)
  have n: "no_configs host_sensor" "no_configs host_gateway"
    by (simp_all add: no_configs_def host_sensor_def host_gateway_def boot_dev_def boot_configs_def)
  have ids: "get_device_id host_sensor = 9" "get_device_id host_gateway = 7" "get_serial_number host_sensor = 9"
    by (simp_all add: host_sensor_def host_gateway_def boot_dev_def boot_info_def)
  let ?m = "\<lparr>ms_device_type = DEVICE_TYPE_SENSOR, ms_device_id = 9, ms_serial_num = 9, ms_connected_device_id = 7, ms_hop_num = 1\<rparr>"
  have "length (st_mesh ref_storage1) = MAX_DEVICES" using storage_okD(1)[OF ref_storage1_ok(1)] by (simp add: storage_wf_def)
  then obtain ms where m: "mesh_devs (dv_store host_gateway) = ?m # ms" "mesh_at host_gateway 0 = ?m"
    using ref_storage1_ok(3) by (cases "st_mesh ref_storage1") (simp_all add: host_gateway_def boot_dev_def)
  show ?thesis unfolding can_configure_def ids find_hop_num_def m using r n by (simp add: ids m)
qed

theorem config_reaches_sensor_host_witness:
  "let A0 = slm_at_run_cycle ref_platform (Some (config_command 9 3 (pf_crc32 ref_platform [1, 2]) [1, 2] @ CRLF)) host_gateway;
       A1 = config_tick ref_platform A0; A2 = tx_phase ref_platform A1;
       B1 = hear ref_platform 0 (emitted A1 A2) host_sensor; B2 = config_tick ref_platform B1
   in \<exists>line. dv_uart B2 = dv_uart host_sensor @ line \<and>
     parse_config ref_platform line = Some (9, \<lparr>as_device_id = 0, as_device_type = 0, as_data_id = 3,
        as_data_len = word_of_nat (length ([1, 2] :: bytes)), as_data_crc32 = pf_crc32 ref_platform [1, 2]\<rparr>, [1, 2])"
proof -
  have sn: "get_serial_number host_sensor = 9" by (simp add: host_sensor_def boot_info_def)
  have uart: "pf_uart_write ref_platform out s = (0, out @ s)" for out s by (simp add: ref_platform_def)
  have p: "[1, 2] \<noteq> ([] :: bytes)" "length ([1, 2] :: bytes) \<le> MAX_CONFIG_SIZE" by simp_all
  have n: "\<not> (cs_config_crc32 (cfg_at host_gateway 0) = pf_crc32 ref_platform [1, 2] \<and>
      unat (cs_config_len (cfg_at host_gateway 0)) = length ([1, 2] :: bytes))"
    by (simp add: host_gateway_def boot_dev_def boot_configs_def)
  show ?thesis
    using config_reaches_sensor_host[OF ref_can_configure p refl uart, where i = 3 and r = 0, unfolded sn if_not_P[OF n]]
    unfolding Let_def by blast
qed

end
