(* ===== verification/Join.thy ===== *)
theory Join
  imports Network
begin

text \<open>
  How an anchor joins a gateway: the pairing dialogue of two nodes on the air, from the broadcast
  request over the collection window to the confirmation, and the announcement of the new device
  that follows it.
\<close>

section \<open>One packet\<close>

lemma hear_one:
  assumes "msgq_ok P" "pairing_packet (bs ! 0) \<or> known_sender i d" "rx_pending (dv_queues d) = []"
    "2 < length bs" "length bs \<le> QUEUE_DATA_MAX"
  shows "\<exists>q st. snd (should_enqueue (bs ! 0) i (d\<lparr>dv_last_sender := i\<rparr>)) = d\<lparr>dv_last_sender := i, dv_store := st\<rparr> \<and>
    tx_items q = tx_items (dv_queues d) \<and> rx_pending q = [] \<and>
    (let e = process_rx P (bs @ replicate (QUEUE_DATA_MAX - length bs) 0) i r (d\<lparr>dv_last_sender := i, dv_store := st, dv_queues := q\<rparr>)
     in rx_items (dv_queues e) = rx_items q \<longrightarrow> hear P r [frame_of i bs] d = e)"
proof -
  let ?d = "d\<lparr>dv_last_sender := i\<rparr>" and ?it = "rx_item_of i r bs" and ?p = "bs ! 2"
  have se: "fst (should_enqueue (bs ! 0) i ?d)"
    using should_enqueue_spec(1)[of "bs ! 0" i ?d] assms(2) by (simp add: known_sender_def)
  obtain st where st: "snd (should_enqueue (bs ! 0) i ?d) = ?d\<lparr>dv_store := st\<rparr>"
    using should_enqueue_store[of "bs ! 0" i ?d] by auto
  let ?q = "snd (rx_queue_put P (dv_queues d) ?it ?p)"
  let ?f = "d\<lparr>dv_last_sender := i, dv_store := st, dv_queues := ?q\<rparr>"
  have prio: "rx_data ?it ! 2 = ?p" using assms(4) by (simp add: rx_item_data(1)[OF assms(5)] nth_append)
  have eq: "hear_frame P r d (frame_of i bs) = ?f"
    using se st(1) assms(4) prio
    by (cases bs) (simp_all add: hear_frame_def frame_of_def on_radio_event_def on_pdc_def split_beta Let_def)
  have "rx_queued ?p i r [] (dv_queues d)" by (rule rx_queued_none[OF assms(3)])
  then have empty: "rx_items (dv_queues d) j = []" for j by (simp add: rx_queued_def)
  then have "length (rx_items (dv_queues d) (clamp_prio ?p)) < QUEUE_DEPTH" by simp
  from rxq.put_room[OF assms(1) this, of ?it] have "rx_queued ?p i r [bs] ?q"
    using empty by (simp add: rx_queued_def)
  then have pend: "rx_pending ?q = [?it]" using rx_queued_pending[of ?p i r "[bs]"] by simp
  then obtain q where q: "rx_queue_get P ?q no_rx_item = (0, ?it, q)" "rx_pending q = []"
    using rxq.get_pending[OF assms(1), of ?q ?it "[]" no_rx_item] unfolding pending_eq by auto
  have tx: "tx_items q = tx_items (dv_queues d)"
    using rx_get_keeps_tx[of P ?q no_rx_item] rx_put_keeps_tx[of P "dv_queues d" ?it ?p] q(1) by simp
  let ?e = "process_rx P (bs @ replicate (QUEUE_DATA_MAX - length bs) 0) i r (d\<lparr>dv_last_sender := i, dv_store := st, dv_queues := q\<rparr>)"
  have "hear P r [frame_of i bs] d = ?e" if "rx_items (dv_queues ?e) = rx_items q"
  proof -
    have pe: "rx_pending (dv_queues ?e) = []" using q(2) that unfolding pending_eq[symmetric] rxq.pending_def by metis
    have none: "fst (rx_queue_get P (dv_queues ?e) no_rx_item) \<noteq> 0"
      "snd (rx_queue_get P (dv_queues ?e) no_rx_item) = (no_rx_item, dv_queues ?e)"
      using rxq.get_none[OF assms(1)] pe unfolding pending_eq by blast+
    have last: "snd (rx_process_upto P (Suc n) ?e) = ?e" for n using none by (simp add: split_beta Let_def)
    have "snd (rx_process_upto P (Suc (Suc n)) ?f) = ?e" for n
    proof -
      have "snd (rx_process_upto P (Suc (Suc n)) ?f) = (if dv_status ?e \<noteq> Running then ?e else snd (rx_process_upto P (Suc n) ?e))"
        by (simp add: rx_process_upto.simps(2)[of P "Suc n" ?f] q(1) rx_item_data[OF assms(5)] split_beta Let_def
            del: rx_process_upto.simps)
      then show ?thesis using last by simp
    qed
    then show ?thesis by (simp add: hear_def main_sub_rx_process_def eq numeral_eq_Suc del: rx_process_upto.simps)
  qed
  then show ?thesis using st tx q(2) by (intro exI[of _ q] exI[of _ st]) (simp add: Let_def)
qed

text \<open>A transmission phase with one waiting packet.\<close>

lemma tx_one:
  assumes "msgq_ok P" "modem_accepts P" "queued p [bs] (dv_queues d)" "length bs \<le> QUEUE_DATA_MAX" "rx_pending (dv_queues d) = []"
  shows "\<exists>q a. tx_phase P d = d\<lparr>dv_queues := q, dv_air := a\<rparr> \<and> tx_pending q = [] \<and> rx_pending q = []"
    "emitted d (tx_phase P d) = [frame_of (dv_radio_id d) bs]"
proof -
  obtain q where q: "tx_phase P d = d\<lparr>dv_queues := q, dv_air := dv_air d @ map (frame_of (dv_radio_id d)) [bs]\<rparr>"
    "tx_pending q = []" "rx_items q = rx_items (dv_queues d)"
    using tx_phase_queued[OF assms(1-3)] assms(4) by auto
  moreover have "rx_pending q = []" using q(3) assms(5) unfolding pending_eq[symmetric] rxq.pending_def by metis
  ultimately show "\<exists>q a. tx_phase P d = d\<lparr>dv_queues := q, dv_air := a\<rparr> \<and> tx_pending q = [] \<and> rx_pending q = []"
    "emitted d (tx_phase P d) = [frame_of (dv_radio_id d) bs]"
    by (auto simp: emitted_def)
qed

lemma pairing_admitted: "pairing_packet t \<Longrightarrow> snd (should_enqueue t i d) = d"
  by (auto simp: should_enqueue_def pairing_packet_def)

section \<open>An exchange of two nodes\<close>

text \<open>A step that leaves what pairing looks at: identity, tables, candidates and the clock.\<close>

definition same_node :: "dev \<Rightarrow> dev \<Rightarrow> bool" where
  "same_node d e \<longleftrightarrow> dv_status e = dv_status d \<and> dv_info e = dv_info d \<and> dv_radio_id e = dv_radio_id d \<and>
     dv_now e = dv_now d \<and> dv_store e = dv_store d \<and> dv_pair e = dv_pair d"

definition at_rest :: "platform \<Rightarrow> dev \<Rightarrow> bool" where
  "at_rest P d \<longleftrightarrow> msgq_ok P \<and> modem_accepts P \<and> dv_status d = Running \<and> tx_pending (dv_queues d) = [] \<and>
     rx_pending (dv_queues d) = [] \<and> dv_radio_id d = get_device_id d"

definition saying :: "platform \<Rightarrow> bytes \<Rightarrow> dev \<Rightarrow> bool" where
  "saying P bs d \<longleftrightarrow> msgq_ok P \<and> modem_accepts P \<and> dv_status d = Running \<and>
     queued PACKET_PRIORITY_HIGH [bs] (dv_queues d) \<and> rx_pending (dv_queues d) = [] \<and> dv_radio_id d = get_device_id d"

lemma same_node_trans: "same_node a b \<Longrightarrow> same_node b c \<Longrightarrow> same_node a c"
  by (simp add: same_node_def)

lemma tx_frame_same: "tx_frame d e \<Longrightarrow> same_node d e"
  by (simp add: tx_frame_def same_node_def)

lemma saying_rests:
  assumes "saying P bs d" "length bs \<le> QUEUE_DATA_MAX"
  shows "at_rest P (tx_phase P d)" "same_node d (tx_phase P d)" "emitted d (tx_phase P d) = [frame_of (get_device_id d) bs]"
  using assms(1) tx_one[of P PACKET_PRIORITY_HIGH bs d, OF _ _ _ assms(2)]
  by (auto simp: saying_def at_rest_def same_node_def)

lemma says:
  assumes "at_rest P d" "sends P PACKET_PRIORITY_HIGH bs d e"
  shows "saying P bs e" "rx_items (dv_queues e) = rx_items (dv_queues d)"
proof -
  have q: "queued PACKET_PRIORITY_HIGH ([] @ [bs]) (dv_queues e)"
    using assms(1) by (intro sendsD(4)[OF assms(2) queued_none]) (simp_all add: at_rest_def)
  show rx: "rx_items (dv_queues e) = rx_items (dv_queues d)" by (rule sendsD(3)[OF assms(2)])
  then have "rx_pending (dv_queues e) = rx_pending (dv_queues d)" by (rule rx_pending_cong)
  then show "saying P bs e" using assms(1) q sendsD(1)[OF assms(2)] by (simp add: saying_def at_rest_def keeps_def)
qed

lemma hear_at_rest:
  assumes "at_rest P d" "pairing_packet (bs ! 0) \<or> known_sender i d" "2 < length bs" "length bs \<le> QUEUE_DATA_MAX"
  shows "\<exists>e. at_rest P e \<and> dv_info e = dv_info d \<and> dv_store e = dv_store (snd (should_enqueue (bs ! 0) i (d\<lparr>dv_last_sender := i\<rparr>))) \<and>
    dv_now e = dv_now d \<and> dv_pair e = dv_pair d \<and>
    (let e' = process_rx P (bs @ replicate (QUEUE_DATA_MAX - length bs) 0) i r e
     in rx_items (dv_queues e') = rx_items (dv_queues e) \<longrightarrow> hear P r [frame_of i bs] d = e')"
proof -
  have ok: "msgq_ok P" "rx_pending (dv_queues d) = []" using assms(1) by (simp_all add: at_rest_def)
  obtain q st where h: "snd (should_enqueue (bs ! 0) i (d\<lparr>dv_last_sender := i\<rparr>)) = d\<lparr>dv_last_sender := i, dv_store := st\<rparr>"
    "tx_items q = tx_items (dv_queues d)" "rx_pending q = []"
    "let e = process_rx P (bs @ replicate (QUEUE_DATA_MAX - length bs) 0) i r (d\<lparr>dv_last_sender := i, dv_store := st, dv_queues := q\<rparr>)
     in rx_items (dv_queues e) = rx_items q \<longrightarrow> hear P r [frame_of i bs] d = e"
    using hear_one[OF ok(1) assms(2) ok(2) assms(3,4), of r] by blast
  have "tx_pending q = tx_pending (dv_queues d)" using h(2) unfolding pending_eq[symmetric] txq.pending_def by simp
  then have "at_rest P (d\<lparr>dv_last_sender := i, dv_store := st, dv_queues := q\<rparr>)" using assms(1) h(3) by (simp add: at_rest_def)
  then show ?thesis using h(1,4) by (intro exI[of _ "d\<lparr>dv_last_sender := i, dv_store := st, dv_queues := q\<rparr>"]) simp
qed

text \<open>A pairing packet of one node reaches the handler of the other.\<close>

lemma exchange:
  assumes "saying PX bs X" "at_rest PY Y" "pairing_packet (bs ! 0)" "2 < length bs" "length bs \<le> QUEUE_DATA_MAX"
  obtains e where "same_node Y e" "at_rest PY e"
    "rx_items (dv_queues (process_rx PY (bs @ replicate (QUEUE_DATA_MAX - length bs) 0) (get_device_id X) r e)) = rx_items (dv_queues e) \<Longrightarrow>
      hear PY r (emitted X (tx_phase PX X)) Y = process_rx PY (bs @ replicate (QUEUE_DATA_MAX - length bs) 0) (get_device_id X) r e"
proof -
  have "dv_store (snd (should_enqueue (bs ! 0) (get_device_id X) (Y\<lparr>dv_last_sender := get_device_id X\<rparr>))) = dv_store Y"
    by (simp add: pairing_admitted[OF assms(3)])
  then show ?thesis
    using hear_at_rest[OF assms(2) disjI1[OF assms(3)] assms(4,5), of "get_device_id X" r] assms(2) that
    unfolding saying_rests(3)[OF assms(1,5)] by (fastforce simp: same_node_def at_rest_def Let_def)
qed

section \<open>The packets of pairing\<close>

lemma random_keeps: "keeps P d (snd (generate_random_number P d))"
  "dv_queues (snd (generate_random_number P d)) = dv_queues d" "dv_air (snd (generate_random_number P d)) = dv_air d"
  "dv_info (snd (generate_random_number P d)) = dv_info d"
  by (simp_all add: generate_random_number_def d_random_def keeps_def psram_up_def region_def known_sender_def dev_wf_def)

definition request_of :: "platform \<Rightarrow> dev \<Rightarrow> pair_request" where
  "request_of P d = (let (rnd, e) = generate_random_number P d in
     \<lparr>prq_hdr = mk_hdr PACKET_PAIR_REQUEST PACKET_PRIORITY_HIGH (fst (d_next_id e)) 0 STATUS_SUCCESS d,
      prq_random_num = rnd, prq_hash = compute_pair_hash (get_device_id d) rnd\<rparr>)"

definition confirm_of :: "u16 \<Rightarrow> dev \<Rightarrow> pair_confirm" where
  "confirm_of dst d = \<lparr>pcf_hdr = mk_hdr PACKET_PAIR_CONFIRM PACKET_PRIORITY_HIGH (fst (d_next_id d)) dst STATUS_SUCCESS d,
     pcf_version = get_firmware_version d, pcf_hop_num = get_hop_number d\<rparr>"

definition joined_of :: "joined_network \<Rightarrow> u16 \<Rightarrow> dev \<Rightarrow> joined_network" where
  "joined_of jn dst d = jn\<lparr>jn_hdr := mk_hdr PACKET_JOINED_NETWORK PACKET_PRIORITY_HIGH (fst (d_next_id d)) dst STATUS_SUCCESS d\<rparr>"

lemma joined_of_eq:
  "joined_of jn dst d = \<lparr>jn_hdr = mk_hdr PACKET_JOINED_NETWORK PACKET_PRIORITY_HIGH (fst (d_next_id d)) dst STATUS_SUCCESS d,
     jn_device_type = jn_device_type jn, jn_device_id = jn_device_id jn, jn_serial_num = jn_serial_num jn,
     jn_version = jn_version jn, jn_connected_device_id = jn_connected_device_id jn, jn_hop_num = jn_hop_num jn,
     jn_sensor_count = jn_sensor_count jn\<rparr>"
  by (cases jn) (simp add: joined_of_def)

lemma pairing_sends:
  assumes "msgq_ok P"
  shows "sends P PACKET_PRIORITY_HIGH (enc_pair_request (request_of P d)) d (proc (send_pair_request P False) d)"
    "sends P PACKET_PRIORITY_HIGH (enc_pair_response \<lparr>prs_hdr = mk_hdr PACKET_PAIR_RESPONSE PACKET_PRIORITY_HIGH tid dst st d,
       prs_hop_num = get_hop_number d\<rparr>) d (proc (send_pair_response P dst tid st) d)"
    "sends P PACKET_PRIORITY_HIGH (enc_pair_confirm (confirm_of dst d)) d (proc (send_pair_confirm P dst STATUS_SUCCESS) d)"
    "sends P PACKET_PRIORITY_HIGH (enc_pair_ack \<lparr>pak_hdr = mk_hdr PACKET_PAIR_ACK PACKET_PRIORITY_HIGH tid dst st d,
       pak_version = 0, pak_hop_num = get_hop_number d\<rparr>) d (proc (send_pair_ack P dst tid st) d)"
    "sends P PACKET_PRIORITY_HIGH (enc_joined_network (joined_of jn dst d)) d (proc (send_joined_network P jn dst STATUS_SUCCESS) d)"
proof -
  have m: "mk_hdr pt pr t ds s (snd (d_next_id d)) = mk_hdr pt pr t ds s d" for pt pr t ds s d by (simp add: mk_hdr_def)
  let ?e = "snd (d_next_id (snd (generate_random_number P d)))"
  have k: "keeps P d ?e" "dv_air ?e = dv_air d" "dv_queues ?e = dv_queues d"
    using keeps_trans[OF random_keeps(1) keeps_tracking(1)] by (simp_all add: d_next_id_def random_keeps split_beta Let_def)
  have i: "mk_hdr pt pr t ds s ?e = mk_hdr pt pr t ds s d" for pt pr t ds s by (simp add: mk_hdr_def random_keeps)
  show "sends P PACKET_PRIORITY_HIGH (enc_pair_request (request_of P d)) d (proc (send_pair_request P False) d)"
    using sends_after_keeps[OF k d_tx_sends[OF assms, of PACKET_PRIORITY_HIGH "enc_pair_request (request_of P d)" ?e]]
    by (simp add: proc_def send_pair_request_def request_of_def split_beta Let_def i random_keeps)
  show "sends P PACKET_PRIORITY_HIGH (enc_pair_confirm (confirm_of dst d)) d (proc (send_pair_confirm P dst STATUS_SUCCESS) d)"
    "sends P PACKET_PRIORITY_HIGH (enc_joined_network (joined_of jn dst d)) d (proc (send_joined_network P jn dst STATUS_SUCCESS) d)"
    using sends_tracked[OF assms]
    by (simp_all add: proc_def send_pair_confirm_def send_joined_network_def confirm_of_def joined_of_eq split_beta Let_def m)
qed (simp_all add: proc_def send_pair_response_def send_pair_ack_def sends_plain[OF assms])

lemma pairing_dispatch:
  "ph_packet_type (prq_hdr rq) = PACKET_PAIR_REQUEST \<Longrightarrow>
     process_rx P (enc_pair_request rq @ z) n r d = handle_pair_request P rq n r d \<and> pairing_packet (enc_pair_request rq ! 0)"
  "ph_packet_type (prs_hdr rs) = PACKET_PAIR_RESPONSE \<Longrightarrow>
     process_rx P (enc_pair_response rs @ z) n r d = handle_pair_response P rs n r d \<and> pairing_packet (enc_pair_response rs ! 0)"
  "ph_packet_type (pcf_hdr cf) = PACKET_PAIR_CONFIRM \<Longrightarrow>
     process_rx P (enc_pair_confirm cf @ z) n r d = handle_pair_confirm P cf n r d \<and> pairing_packet (enc_pair_confirm cf ! 0)"
  "ph_packet_type (pak_hdr ak) = PACKET_PAIR_ACK \<Longrightarrow>
     process_rx P (enc_pair_ack ak @ z) n r d = handle_pair_ack P ak n r d \<and> pairing_packet (enc_pair_ack ak ! 0)"
  "ph_packet_type (jn_hdr jn) = PACKET_JOINED_NETWORK \<Longrightarrow>
     process_rx P (enc_joined_network jn @ z) n r d = handle_joined_network P jn n r d"
proof -
  have first: "bs ! 0 = ph_packet_type (dec_header (bs @ z)) \<and> (bs @ z) ! 0 = bs ! 0" if "2 < length bs" for bs z
    using header_bytes(1)[of "bs @ z"] that by (cases bs) simp_all
  show "ph_packet_type (prq_hdr rq) = PACKET_PAIR_REQUEST \<Longrightarrow>
     process_rx P (enc_pair_request rq @ z) n r d = handle_pair_request P rq n r d \<and> pairing_packet (enc_pair_request rq ! 0)"
    using first[of "enc_pair_request rq" z] by (simp add: process_rx_def wire_simps pairing_packet_def)
  show "ph_packet_type (prs_hdr rs) = PACKET_PAIR_RESPONSE \<Longrightarrow>
     process_rx P (enc_pair_response rs @ z) n r d = handle_pair_response P rs n r d \<and> pairing_packet (enc_pair_response rs ! 0)"
    using first[of "enc_pair_response rs" z] by (simp add: process_rx_def wire_simps pairing_packet_def)
  show "ph_packet_type (pcf_hdr cf) = PACKET_PAIR_CONFIRM \<Longrightarrow>
     process_rx P (enc_pair_confirm cf @ z) n r d = handle_pair_confirm P cf n r d \<and> pairing_packet (enc_pair_confirm cf ! 0)"
    using first[of "enc_pair_confirm cf" z] by (simp add: process_rx_def wire_simps pairing_packet_def)
  show "ph_packet_type (pak_hdr ak) = PACKET_PAIR_ACK \<Longrightarrow>
     process_rx P (enc_pair_ack ak @ z) n r d = handle_pair_ack P ak n r d \<and> pairing_packet (enc_pair_ack ak ! 0)"
    using first[of "enc_pair_ack ak" z] by (simp add: process_rx_def wire_simps pairing_packet_def)
  show "ph_packet_type (jn_hdr jn) = PACKET_JOINED_NETWORK \<Longrightarrow>
     process_rx P (enc_joined_network jn @ z) n r d = handle_joined_network P jn n r d"
    using first[of "enc_joined_network jn" z] by (simp add: process_rx_def wire_simps)
qed

section \<open>The steps\<close>

text \<open>An unpaired anchor that is not collecting responses, and a gateway with room for it.\<close>

definition unpaired :: "platform \<Rightarrow> dev \<Rightarrow> bool" where
  "unpaired P d \<longleftrightarrow> at_rest P d \<and> dev_wf d \<and> node_ok P d \<and> get_device_type d = DEVICE_TYPE_ANCHOR \<and> infra_count d = 0 \<and>
     get_hop_number d = 0xFF \<and> \<not> pr_collecting (dv_pair d) \<and> pr_idx (dv_pair d) \<le> 0"

definition takes_anchor :: "platform \<Rightarrow> u16 \<Rightarrow> dev \<Rightarrow> bool" where
  "takes_anchor P i d \<longleftrightarrow> at_rest P d \<and> node_ok P d \<and> get_device_type d = DEVICE_TYPE_GATEWAY \<and> get_hop_number d < 4 \<and>
     infra_count d < MAX_ANCHORS \<and> mesh_count d < MAX_DEVICES \<and> unat (get_mesh_devices_count d) < MAX_DEVICES \<and>
     (\<forall>x\<in>set (infra_devs (dv_store d)). infra_id x \<noteq> i) \<and> (\<forall>m\<in>set (mesh_devs (dv_store d)). ms_device_id m \<noteq> i)"

lemma takes_anchor_same: "takes_anchor P i d \<Longrightarrow> same_node d e \<Longrightarrow> at_rest P e \<Longrightarrow> takes_anchor P i e"
  unfolding takes_anchor_def same_node_def by simp

text \<open>The request and its answer.\<close>

lemma answer_step:
  assumes "takes_anchor P i d" "ph_device_type (prq_hdr rq) = DEVICE_TYPE_ANCHOR" "prq_hash rq = compute_pair_hash i (prq_random_num rq)"
  defines "rs \<equiv> \<lparr>prs_hdr = mk_hdr PACKET_PAIR_RESPONSE PACKET_PRIORITY_HIGH (ph_tracking_id (prq_hdr rq)) i STATUS_SUCCESS d,
     prs_hop_num = get_hop_number d\<rparr>"
  shows "saying P (enc_pair_response rs) (handle_pair_request P rq i r d)" "same_node d (handle_pair_request P rq i r d)"
    "rx_items (dv_queues (handle_pair_request P rq i r d)) = rx_items (dv_queues d)"
proof -
  have h: "handle_pair_request P rq i r d = proc (send_pair_response P i (ph_tracking_id (prq_hdr rq)) STATUS_SUCCESS) d"
    using assms(1-3) by (auto simp: takes_anchor_def handle_pair_request_def check_infra_storage_sem Let_def valid_device_type_def)
  have ok: "msgq_ok P" "at_rest P d" using assms(1) by (simp_all add: takes_anchor_def at_rest_def)
  note s = says[OF ok(2) pairing_sends(2)[OF ok(1)]]
  show "saying P (enc_pair_response rs) (handle_pair_request P rq i r d)"
    "rx_items (dv_queues (handle_pair_request P rq i r d)) = rx_items (dv_queues d)"
    unfolding h rs_def by (rule s)+
  show "same_node d (handle_pair_request P rq i r d)"
    unfolding h by (rule tx_frame_same) (rule tx_frame_procs)
qed

text \<open>The response is collected, and confirmed when the window is over.\<close>

definition collected :: "platform \<Rightarrow> dev \<Rightarrow> u16 \<Rightarrow> u8 \<Rightarrow> dev \<Rightarrow> bool" where
  "collected P d i h e \<longleftrightarrow> at_rest P e \<and> dv_info e = dv_info d \<and> dv_store e = dv_store d \<and>
     (let p = dv_pair e in pr_collecting p \<and> pr_count p = 1 \<and> pr_idx p \<le> 0 \<and>
        pr_timer p = nbtimeout_start (dv_now d) (nbtimeout_init PAIR_RESPONSE_COLLECT_WINDOW_MS 0) \<and>
        cd_sender_id (pr_candidates p ! 0) = i \<and> cd_hop_num (pr_candidates p ! 0) = h \<and>
        length (pr_candidates p) = MAX_PAIR_RESPONSE_CANDIDATES)"

lemma collect_step:
  fixes i :: u16 and r :: s16
  assumes "unpaired P d" "same_node d e" "at_rest P e" "ph_device_id (prs_hdr rs) = get_device_id d"
    "ph_device_type (prs_hdr rs) = DEVICE_TYPE_GATEWAY" "ph_status (prs_hdr rs) = STATUS_SUCCESS" "prs_hop_num rs < 4"
  defines "f \<equiv> handle_pair_response P rs i r e"
  shows "collected P d i (prs_hop_num rs) f" "rx_items (dv_queues f) = rx_items (dv_queues e)"
proof -
  have hop: "prs_hop_num rs \<noteq> 0xFF" "\<not> MAX_DEPTH \<le> unat (prs_hop_num rs)" using assms(7) by (auto simp: word_less_nat_alt)
  have len: "length (pr_candidates (dv_pair d)) = MAX_PAIR_RESPONSE_CANDIDATES"
    using assms(1) by (simp add: unpaired_def dev_wf_def pairing_wf_def)
  let ?u = "d_untrack (ph_tracking_id (prs_hdr rs)) e"
  have st: "check_infra_storage i False ?u = STATUS_SUCCESS"
    using assms(1,2) by (simp add: unpaired_def same_node_def check_infra_storage_sem)
  have f: "f = set_pair (collect_response rs i r (dv_now d)) ?u"
    using assms(1-6) hop st by (simp add: f_def handle_pair_response_def Let_def unpaired_def same_node_def valid_device_type_def)
  have u: "dv_now ?u = dv_now d" "dv_pair ?u = dv_pair d" "dv_store ?u = dv_store d" "dv_info ?u = dv_info d"
    "dv_queues ?u = dv_queues e" "dv_status ?u = dv_status e" "dv_radio_id ?u = dv_radio_id e"
    using assms(2) by (simp_all add: d_untrack_def same_node_def)
  show "rx_items (dv_queues f) = rx_items (dv_queues e)" using u by (simp add: f set_pair_def)
  show "collected P d i (prs_hop_num rs) f"
    using assms(1,2,3) len u
    by (simp add: f set_pair_def at_rest_def same_node_def unpaired_def collect_response_def collected_def Let_def)
qed


lemma sort_one: "length xs \<noteq> 0 \<Longrightarrow> bubble_sort gt 1 xs = xs"
  by (simp add: bubble_sort_def)

lemma confirm_step:
  fixes t :: s64
  assumes "unpaired P d0" "collected P d0 i h d" "h < 4"
    "nbtimeout_expired t (nbtimeout_start (dv_now d0) (nbtimeout_init PAIR_RESPONSE_COLLECT_WINDOW_MS 0))"
  defines "f \<equiv> mesh_pairing_tick P (mesh_pairing_tick P (d\<lparr>dv_now := t\<rparr>))"
  shows "\<exists>c. saying P (enc_pair_confirm c) f \<and> pcf_hdr c = mk_hdr PACKET_PAIR_CONFIRM PACKET_PRIORITY_HIGH (ph_tracking_id (pcf_hdr c)) i STATUS_SUCCESS d0 \<and>
      pcf_version c = get_firmware_version d0 \<and> pcf_hop_num c = get_hop_number d0" "dv_info f = dv_info d0" "dv_store f = dv_store d0"
proof -
  let ?d = "d\<lparr>dv_now := t\<rparr>"
  have d: "at_rest P d" "dv_info d = dv_info d0" "dv_store d = dv_store d0" "pr_collecting (dv_pair d)" "pr_count (dv_pair d) = 1"
    "\<not> 0 < pr_idx (dv_pair d)" "cd_sender_id (pr_candidates (dv_pair d) ! 0) = i" "cd_hop_num (pr_candidates (dv_pair d) ! 0) = h"
    "nbtimeout_expired t (pr_timer (dv_pair d))" "length (pr_candidates (dv_pair d)) = MAX_PAIR_RESPONSE_CANDIDATES"
    using assms(2,4) by (simp_all add: collected_def Let_def)
  have u: "get_device_type d0 = DEVICE_TYPE_ANCHOR" "infra_count d0 = 0" using assms(1) by (simp_all add: unpaired_def)
  let ?p = "(dv_pair d)\<lparr>pr_collecting := False, pr_timer := nbtimeout_stop (pr_timer (dv_pair d)), pr_process_next := True, pr_idx := 1\<rparr>"
  have one: "mesh_pairing_tick P ?d = ?d\<lparr>dv_pair := ?p\<rparr>"
    using d u sort_one[of "pr_candidates (dv_pair d)" candidate_gt]
    by (simp add: mesh_pairing_tick_def pairing_window_expired_def sort_candidates_def set_pair_def Let_def at_rest_def)
  let ?e = "?d\<lparr>dv_pair := ?p\<lparr>pr_process_next := False\<rparr>\<rparr>"
  have e: "at_rest P ?e" using d(1) by (simp add: at_rest_def)
  have "check_infra_storage i False ?e = STATUS_SUCCESS" using d(3) u(2) by (simp add: check_infra_storage_sem)
  moreover have "h \<noteq> 0xFF" using assms(3) by auto
  ultimately have f: "f = set_pair (\<lambda>p. p\<lparr>pr_idx := pr_idx p - 1\<rparr>) (proc (send_pair_confirm P i STATUS_SUCCESS) ?e)"
    using d u unfolding f_def one by (simp add: mesh_pairing_tick_def select_and_confirm_def set_pair_def Let_def at_rest_def)
  have "msgq_ok P" using d(1) by (simp add: at_rest_def)
  note s = says(1)[OF e pairing_sends(3)[OF this, of i ?e]]
  then have "saying P (enc_pair_confirm (confirm_of i ?e)) f" by (simp add: f set_pair_def saying_def)
  then show "\<exists>c. saying P (enc_pair_confirm c) f \<and> pcf_hdr c = mk_hdr PACKET_PAIR_CONFIRM PACKET_PRIORITY_HIGH (ph_tracking_id (pcf_hdr c)) i STATUS_SUCCESS d0 \<and>
      pcf_version c = get_firmware_version d0 \<and> pcf_hop_num c = get_hop_number d0"
    using d(2) by (intro exI[of _ "confirm_of i ?e"]) (simp add: confirm_of_def mk_hdr_def)
  show "dv_info f = dv_info d0" "dv_store f = dv_store d0" using d(2,3) by (simp_all add: f)
qed

text \<open>The gateway stores the anchor and acknowledges.\<close>

lemma store_step:
  fixes i :: u16 and r :: s16
  assumes "eeprom_ok P" "takes_anchor P i d" "ph_device_id (pcf_hdr cf) = get_device_id d"
    "ph_device_type (pcf_hdr cf) = DEVICE_TYPE_ANCHOR" "ph_status (pcf_hdr cf) = STATUS_SUCCESS" "pcf_hop_num cf = 0xFF"
  defines "f \<equiv> handle_pair_confirm P cf i r d"
  defines "en \<equiv> mk_infra_entry DEVICE_TYPE_ANCHOR i (get_hop_number d + 1) (pcf_version cf) r"
  shows "saying P (enc_pair_ack \<lparr>pak_hdr = mk_hdr PACKET_PAIR_ACK PACKET_PRIORITY_HIGH (ph_tracking_id (pcf_hdr cf)) i STATUS_SUCCESS d,
      pak_version = 0, pak_hop_num = get_hop_number d\<rparr>) f"
    "dv_info f = dv_info d" "node_ok P f" "mset (infra_devs (dv_store f)) = add_mset (stamp_infra P (new_infra en)) (mset (infra_devs (dv_store d)))"
    "mesh_devs (dv_store f) = mesh_devs (dv_store d)" "mesh_count f = mesh_count d" "rx_items (dv_queues f) = rx_items (dv_queues d)"
proof -
  let ?a = "proc (on_store (\<lambda>s. storage_infra_add P s en)) d" and ?tid = "ph_tracking_id (pcf_hdr cf)"
  have d: "node_ok P d" "get_device_type d = DEVICE_TYPE_GATEWAY" "dv_status d = Running" "infra_count d < MAX_ANCHORS"
    "\<forall>x\<in>set (infra_devs (dv_store d)). infra_id x \<noteq> i"
    using assms(2) by (simp_all add: takes_anchor_def at_rest_def)
  note st = pair_confirm_stored[OF assms(1) d(1-3) assms(3-5) d(5,4), of r, unfolded assms(6), simplified, folded f_def en_def]
  note f = st(1)
  have a: "at_rest P ?a" "mk_hdr pt p t i s ?a = mk_hdr pt p t i s d" for pt p t s
    using assms(2) by (simp_all add: takes_anchor_def at_rest_def mk_hdr_def on_store_def proc_def split_beta Let_def)
  have "msgq_ok P" using a(1) by (simp add: at_rest_def)
  note s = says[OF a(1) pairing_sends(4)[OF this, of ?tid i STATUS_SUCCESS ?a], folded f, unfolded a(2)]
  then show "saying P (enc_pair_ack \<lparr>pak_hdr = mk_hdr PACKET_PAIR_ACK PACKET_PRIORITY_HIGH ?tid i STATUS_SUCCESS d,
      pak_version = 0, pak_hop_num = get_hop_number d\<rparr>) f" "rx_items (dv_queues f) = rx_items (dv_queues d)"
    by simp_all
  show "dv_info f = dv_info d" "node_ok P f" "mset (infra_devs (dv_store f)) = add_mset (stamp_infra P (new_infra en)) (mset (infra_devs (dv_store d)))"
    "mesh_devs (dv_store f) = mesh_devs (dv_store d)" "mesh_count f = mesh_count d"
    using st(2,3) by (simp_all add: f) (simp_all add: storage_infra_add_def frame_simps)
qed

text \<open>The anchor links to the gateway and announces itself.\<close>

lemma link_step:
  fixes i :: u16 and r :: s16
  assumes "eeprom_ok P" "at_rest P d" "node_ok P d" "get_device_type d = DEVICE_TYPE_ANCHOR" "infra_count d = 0" "get_hop_number d = 0xFF"
    "ph_device_id (pak_hdr ak) = get_device_id d" "ph_device_type (pak_hdr ak) = DEVICE_TYPE_GATEWAY"
    "ph_status (pak_hdr ak) = STATUS_SUCCESS" "pak_hop_num ak < 4"
  defines "f \<equiv> handle_pair_ack P ak i r d"
  defines "en \<equiv> mk_infra_entry DEVICE_TYPE_GATEWAY i (pak_hop_num ak) (pak_version ak) r"
  shows "\<exists>jn. saying P (enc_joined_network jn) f \<and>
      jn_hdr jn = mk_hdr PACKET_JOINED_NETWORK PACKET_PRIORITY_HIGH (ph_tracking_id (jn_hdr jn)) i STATUS_SUCCESS d \<and>
      jn_device_type jn = DEVICE_TYPE_ANCHOR \<and> jn_device_id jn = get_device_id d \<and> jn_serial_num jn = get_serial_number d \<and>
      jn_connected_device_id jn = i \<and> jn_hop_num jn = pak_hop_num ak + 1"
    "get_hop_number f = pak_hop_num ak + 1" "get_connected_device_id f = i" "get_device_id f = get_device_id d"
    "get_device_type f = DEVICE_TYPE_ANCHOR" "node_ok P f" "infra_devs (dv_store f) = [stamp_infra P (new_infra en)]"
    "rx_items (dv_queues f) = rx_items (dv_queues d)"
proof -
  let ?u = "d_untrack (ph_tracking_id (pak_hdr ak)) d"
  let ?a = "proc (on_store (\<lambda>s. storage_infra_add P s en)) ?u"
  let ?i = "set_hop_number (pak_hop_num ak + 1) (set_connected_device_id i ?a)"
  have "dv_status d = Running" using assms(2) by (simp add: at_rest_def)
  note ln = pair_ack_linked[OF assms(1,3,4) this assms(7) disjI1[OF assms(8)] assms(9,5,6,10), of i r, unfolded assms(8), folded f_def en_def]
  note f0 = ln(1) and cnt = ln(4) and b = ln(5)
  obtain jn where f: "f = proc (send_joined_network P jn i STATUS_SUCCESS) ?i" and
    jn: "jn_device_type jn = DEVICE_TYPE_ANCHOR" "jn_device_id jn = get_device_id d" "jn_serial_num jn = get_serial_number d"
      "jn_connected_device_id jn = i" "jn_hop_num jn = pak_hop_num ak + 1"
    using assms(4) cnt b unfolding f0 send_joined_def Let_def by (simp add: set_hop_number_def set_connected_device_id_def)
  have r: "at_rest P ?i" "dv_queues ?i = dv_queues d" "get_device_id ?i = get_device_id d" "get_device_type ?i = DEVICE_TYPE_ANCHOR"
    using assms(2,4)
    by (simp_all add: at_rest_def set_hop_number_def set_connected_device_id_def d_untrack_def on_store_def proc_def split_beta Let_def)
  have "msgq_ok P" using assms(2) by (simp add: at_rest_def)
  note s = says[OF r(1) pairing_sends(5)[OF this, of jn i ?i], folded f]
  then show "\<exists>jn. saying P (enc_joined_network jn) f \<and>
      jn_hdr jn = mk_hdr PACKET_JOINED_NETWORK PACKET_PRIORITY_HIGH (ph_tracking_id (jn_hdr jn)) i STATUS_SUCCESS d \<and>
      jn_device_type jn = DEVICE_TYPE_ANCHOR \<and> jn_device_id jn = get_device_id d \<and> jn_serial_num jn = get_serial_number d \<and>
      jn_connected_device_id jn = i \<and> jn_hop_num jn = pak_hop_num ak + 1"
    using jn r(4) assms(4) by (intro exI[of _ "joined_of jn i ?i"]) (simp add: joined_of_def mk_hdr_def)
  show "rx_items (dv_queues f) = rx_items (dv_queues d)" using s(2) r(2) by simp
  show "get_hop_number f = pak_hop_num ak + 1" "get_connected_device_id f = i" "get_device_id f = get_device_id d"
    "get_device_type f = DEVICE_TYPE_ANCHOR" "node_ok P f" "infra_devs (dv_store f) = [stamp_infra P (new_infra en)]"
    using ln(2,3) r(3,4) by (simp_all add: f)
qed

text \<open>The gateway enters the new device into its mesh table.\<close>

definition tables :: "dev \<Rightarrow> run_status \<times> device_info \<times> mesh list \<times> nat \<times> infra_entry list \<times> (nat \<Rightarrow> rx_data_item list)" where
  "tables d = (dv_status d, dv_info d, mesh_devs (dv_store d), mesh_count d, map in_entry (infra_devs (dv_store d)),
     rx_items (dv_queues d))"

definition same_entries :: "platform \<Rightarrow> dev \<Rightarrow> dev \<Rightarrow> bool" where
  "same_entries P d e \<longleftrightarrow> tables e = tables d \<and> (node_ok P d \<longrightarrow> node_ok P e)"

lemma same_entries_trans: "same_entries P a b \<Longrightarrow> same_entries P b c \<Longrightarrow> same_entries P a c"
  by (simp add: same_entries_def)

lemma same_entriesD:
  assumes "same_entries P d e"
  shows "dv_status e = dv_status d" "dv_info e = dv_info d" "mesh_devs (dv_store e) = mesh_devs (dv_store d)"
    "mesh_count e = mesh_count d" "map in_entry (infra_devs (dv_store e)) = map in_entry (infra_devs (dv_store d))"
    "rx_items (dv_queues e) = rx_items (dv_queues d)" "node_ok P d \<Longrightarrow> node_ok P e"
  using assms unfolding same_entries_def tables_def prod.inject by blast+

lemma same_entries_infra:
  assumes "\<And>x. in_entry (g x) = in_entry x" shows "same_entries P d (upd_infra k g d)"
  using upd_infra_entries[of g k d, OF assms] upd_infra_ok[of P d g k, OF _ assms]
  by (simp add: same_entries_def tables_def) (simp add: upd_infra_def)

lemma same_entries_tx:
  assumes "tx_frame d e" "rx_items (dv_queues e) = rx_items (dv_queues d)" shows "same_entries P d e"
  using assms by (simp add: same_entries_def tables_def tx_frame_def)

lemma ping_known_same: "same_entries P d (ping_known_devices P g st d)"
proof -
  have rx: "rx_items (dv_queues (proc (send_ping_device P i g st) e)) = rx_items (dv_queues e)" for i e
    by (simp add: proc_def send_ping_device_def send_tracked_def d_tx_def put_keeps_rx keeps_tracking split_beta Let_def)
  have step: "same_entries P e (if b then mark_ping_sent k (proc (send_ping_device P i g st) e) else e)" for b k i e
  proof (cases b)
    case True
    have "same_entries P e (proc (send_ping_device P i g st) e)" by (rule same_entries_tx[OF tx_frame_procs(4) rx])
    moreover have "same_entries P (proc (send_ping_device P i g st) e) (mark_ping_sent k (proc (send_ping_device P i g st) e))"
      unfolding mark_ping_sent_def by (rule same_entries_infra) simp
    ultimately show ?thesis using True same_entries_trans by simp
  qed (simp add: same_entries_def)
  have "same_entries P e (foldl (\<lambda>d i. let x = infra_at d i in
       if get_hop_number d < infra_hop x
       then mark_ping_sent i (proc (send_ping_device P (infra_id x) g st) d) else d) e is)" for e "is"
  proof (induction "is" arbitrary: e)
    case (Cons i "is")
    show ?case using same_entries_trans[OF step Cons.IH] by (simp add: Let_def)
  qed (simp add: same_entries_def)
  then show ?thesis by (simp add: ping_known_devices_def)
qed

lemma known_same:
  assumes "\<exists>x\<in>set (infra_devs (dv_store d)). infra_id x = i"
  shows "same_entries P d (snd (should_enqueue t i d))"
proof -
  obtain k where "find_infra i d = Some k"
    using assms find_idx_None_iff[of "\<lambda>x. infra_id x = i" "infra_devs (dv_store d)"] by (cases "find_infra i d") auto
  moreover have "same_entries P d (upd_infra k (infra_alive (dv_now d)) d)"
    by (rule same_entries_infra) (simp add: infra_alive_def)
  ultimately show ?thesis by (auto simp: should_enqueue_def is_known_device_def same_entries_def)
qed

lemma enter_step:
  fixes i :: u16 and r :: s16
  assumes "eeprom_ok P" "at_rest P d" "node_ok P d" "get_device_type d = DEVICE_TYPE_GATEWAY" "mesh_count d < MAX_DEVICES"
    "\<forall>m\<in>set (mesh_devs (dv_store d)). ms_device_id m \<noteq> jn_device_id jn" "ph_device_id (jn_hdr jn) = get_device_id d"
    "ph_device_type (jn_hdr jn) = DEVICE_TYPE_ANCHOR" "ph_status (jn_hdr jn) = STATUS_SUCCESS"
  defines "f \<equiv> handle_joined_network P jn i r d"
  shows "dv_status f = Running" "dv_info f = dv_info d" "node_ok P f" "rx_items (dv_queues f) = rx_items (dv_queues d)"
    "mesh_devs (dv_store f) = mesh_devs (dv_store d) @ [mesh_of_entry (mesh_entry_of_joined jn)]"
    "map in_entry (infra_devs (dv_store f)) = map in_entry (infra_devs (dv_store d))"
proof -
  let ?a = "proc (on_store (\<lambda>s. storage_mesh_add P s (mesh_entry_of_joined jn))) d"
  let ?p = "ping_known_devices P (jn_device_id jn) STATUS_SUCCESS ?a"
  let ?ack = "proc (send_joined_network_ack P (jn_device_id jn) (jn_device_type jn) i (ph_tracking_id (jn_hdr jn)) STATUS_SUCCESS)"
  have "check_mesh_storage (jn_device_id jn) d = STATUS_SUCCESS"
    using assms(5,6) by (auto simp: check_mesh_storage_def find_idx_None_iff simp del: not_None_eq)
  then have f: "f = ?ack ?p"
    using assms(2,4,7-9) by (simp add: f_def at_rest_def handle_joined_network_def Let_def valid_device_type_def)
  note add = storage_mesh_add_lemma[OF assms(1,3,5), of "mesh_entry_of_joined jn"]
  have "rx_items (dv_queues (?ack e)) = rx_items (dv_queues e)" for e
    by (simp add: proc_def send_joined_network_ack_def send_plain_def d_tx_def put_keeps_rx split_beta Let_def)
  then have "same_entries P ?p (?ack ?p)" by (intro same_entries_tx[OF tx_frame_procs(11)])
  then have s: "same_entries P ?a f" unfolding f by (rule same_entries_trans[OF ping_known_same])
  have inf: "infra_devs (dv_store ?a) = infra_devs (dv_store d)"
    by (simp add: storage_mesh_add_def split_beta Let_def)
  show "dv_status f = Running" "dv_info f = dv_info d" "node_ok P f" "rx_items (dv_queues f) = rx_items (dv_queues d)"
    "mesh_devs (dv_store f) = mesh_devs (dv_store d) @ [mesh_of_entry (mesh_entry_of_joined jn)]"
    "map in_entry (infra_devs (dv_store f)) = map in_entry (infra_devs (dv_store d))"
    using same_entriesD[OF s] add(2,3) inf assms(2) unfolding at_rest_def by simp_all
qed

section \<open>The dialogue\<close>

text \<open>Up to the collected response.\<close>

lemma pairing_offered:
  fixes rA rG :: s16
  assumes "unpaired PA A" "takes_anchor PG (get_device_id A) G"
  defines "A1 \<equiv> proc (send_pair_request PA False) A"
  defines "A2 \<equiv> tx_phase PA A1"
  defines "G1 \<equiv> hear PG rG (emitted A1 A2) G"
  defines "G2 \<equiv> tx_phase PG G1"
  defines "A3 \<equiv> hear PA rA (emitted G1 G2) A2"
  shows "collected PA A (get_device_id G) (get_hop_number G) A3" "same_node G G2" "at_rest PG G2"
proof -
  have A: "at_rest PA A" "get_device_type A = DEVICE_TYPE_ANCHOR" "msgq_ok PA"
    using assms(1) by (simp_all add: unpaired_def at_rest_def)
  have G: "get_device_type G = DEVICE_TYPE_GATEWAY" "get_hop_number G < 4" "at_rest PG G" using assms(2) by (simp_all add: takes_anchor_def)
  let ?rq = "request_of PA A"
  have rq: "ph_packet_type (prq_hdr ?rq) = PACKET_PAIR_REQUEST" "ph_device_type (prq_hdr ?rq) = DEVICE_TYPE_ANCHOR"
    "prq_hash ?rq = compute_pair_hash (get_device_id A) (prq_random_num ?rq)"
    using A(2) by (simp_all add: request_of_def mk_hdr_def split_beta Let_def)
  have a1: "saying PA (enc_pair_request ?rq) A1" unfolding A1_def by (rule says(1)[OF A(1) pairing_sends(1)[OF A(3)]])
  have sa1: "same_node A A1" unfolding A1_def by (rule tx_frame_same) (rule tx_frame_procs)
  note a2 = saying_rests(1,2)[OF a1, folded A2_def]
  have sa2: "same_node A A2" using same_node_trans[OF sa1] a2(2) by simp
  obtain e1 where e1: "same_node G e1" "at_rest PG e1" and g1: "rx_items (dv_queues (handle_pair_request PG ?rq (get_device_id A1) rG e1)) = rx_items (dv_queues e1)
      \<Longrightarrow> G1 = handle_pair_request PG ?rq (get_device_id A1) rG e1"
    by (rule exchange[OF a1, of PG G rG]) (use G(3) pairing_dispatch(1)[OF rq(1)] in \<open>simp_all add: G1_def A2_def\<close>)
  have id1: "get_device_id A1 = get_device_id A" using sa1 by (simp add: same_node_def)
  note an = answer_step[OF takes_anchor_same[OF assms(2) e1] rq(2,3), of rG]
  have G1: "G1 = handle_pair_request PG ?rq (get_device_id A) rG e1" using g1 an(3) unfolding id1 by simp
  have sg1: "same_node G G1" using same_node_trans[OF e1(1) an(2)] G1 by simp
  define rs where "rs = \<lparr>prs_hdr = mk_hdr PACKET_PAIR_RESPONSE PACKET_PRIORITY_HIGH (ph_tracking_id (prq_hdr ?rq)) (get_device_id A) STATUS_SUCCESS G,
     prs_hop_num = get_hop_number G\<rparr>"
  have hG: "mk_hdr pt p tid i st e1 = mk_hdr pt p tid i st G" "get_hop_number e1 = get_hop_number G" for pt p tid i st
    using e1(1) by (simp_all add: same_node_def mk_hdr_def)
  have sg: "saying PG (enc_pair_response rs) G1" using an(1) unfolding G1 rs_def hG .
  note g2 = saying_rests(1,2)[OF sg, folded G2_def]
  show "at_rest PG G2" "same_node G G2" using g2 same_node_trans[OF sg1] by simp_all
  have rs: "ph_packet_type (prs_hdr rs) = PACKET_PAIR_RESPONSE" "ph_device_id (prs_hdr rs) = get_device_id A"
    "ph_device_type (prs_hdr rs) = DEVICE_TYPE_GATEWAY" "ph_status (prs_hdr rs) = STATUS_SUCCESS" "prs_hop_num rs < 4"
    "prs_hop_num rs = get_hop_number G"
    using G(1,2) by (simp_all add: rs_def mk_hdr_def)
  have idG: "get_device_id G1 = get_device_id G" using sg1 by (simp add: same_node_def)
  obtain e2 where e2: "same_node A2 e2" "at_rest PA e2" and a3: "rx_items (dv_queues (handle_pair_response PA rs (get_device_id G1) rA e2)) = rx_items (dv_queues e2)
      \<Longrightarrow> A3 = handle_pair_response PA rs (get_device_id G1) rA e2"
    by (rule exchange[OF sg, of PA A2 rA]) (use a2(1) pairing_dispatch(2)[OF rs(1)] in \<open>simp_all add: A3_def G2_def\<close>)
  note co = collect_step[OF assms(1) same_node_trans[OF sa2 e2(1)] e2(2) rs(2-5), of "get_device_id G" rA]
  have "A3 = handle_pair_response PA rs (get_device_id G) rA e2" using a3 co(2) unfolding idG by simp
  then show "collected PA A (get_device_id G) (get_hop_number G) A3" using co(1) rs(6) by simp
qed

text \<open>The confirmation, which the gateway acknowledges.\<close>

definition ack_of :: "u8 \<Rightarrow> dev \<Rightarrow> dev \<Rightarrow> pair_ack" where
  "ack_of tid A G = \<lparr>pak_hdr = mk_hdr PACKET_PAIR_ACK PACKET_PRIORITY_HIGH tid (get_device_id A) STATUS_SUCCESS G,
     pak_version = 0, pak_hop_num = get_hop_number G\<rparr>"

lemma pairing_confirmed:
  fixes rG :: s16 and t :: s64
  assumes "unpaired PA A" "takes_anchor PG (get_device_id A) G" "eeprom_ok PG"
    "nbtimeout_expired t (nbtimeout_start (dv_now A) (nbtimeout_init PAIR_RESPONSE_COLLECT_WINDOW_MS 0))"
    "collected PA A (get_device_id G) (get_hop_number G) A3" "same_node G G2" "at_rest PG G2"
  defines "A4 \<equiv> mesh_pairing_tick PA (mesh_pairing_tick PA (A3\<lparr>dv_now := t\<rparr>))"
  defines "A5 \<equiv> tx_phase PA A4"
  defines "G3 \<equiv> hear PG rG (emitted A4 A5) G2"
  shows "at_rest PA A5" "dv_info A5 = dv_info A" "dv_store A5 = dv_store A" "\<exists>tid. saying PG (enc_pair_ack (ack_of tid A G)) G3"
    "dv_info G3 = dv_info G" "node_ok PG G3" "mesh_devs (dv_store G3) = mesh_devs (dv_store G)" "mesh_count G3 = mesh_count G"
    "mset (infra_devs (dv_store G3)) = add_mset (stamp_infra PG (new_infra (mk_infra_entry DEVICE_TYPE_ANCHOR (get_device_id A)
        (get_hop_number G + 1) (get_firmware_version A) rG))) (mset (infra_devs (dv_store G)))"
proof -
  have A: "get_device_type A = DEVICE_TYPE_ANCHOR" "get_hop_number A = 0xFF" using assms(1) by (simp_all add: unpaired_def)
  have G: "get_hop_number G < 4" using assms(2) by (simp add: takes_anchor_def)
  note cs = confirm_step[OF assms(1,5) G assms(4), folded A4_def]
  obtain c where c: "saying PA (enc_pair_confirm c) A4" "pcf_hdr c = mk_hdr PACKET_PAIR_CONFIRM PACKET_PRIORITY_HIGH (ph_tracking_id (pcf_hdr c)) (get_device_id G) STATUS_SUCCESS A"
    "pcf_version c = get_firmware_version A" "pcf_hop_num c = get_hop_number A"
    using cs(1) by blast
  have ch: "ph_packet_type (pcf_hdr c) = PACKET_PAIR_CONFIRM" "ph_device_id (pcf_hdr c) = get_device_id G"
    "ph_device_type (pcf_hdr c) = DEVICE_TYPE_ANCHOR" "ph_status (pcf_hdr c) = STATUS_SUCCESS"
    using A(1) by (subst c(2), simp add: mk_hdr_def)+
  have a5: "at_rest PA A5" "same_node A4 A5" using saying_rests(1,2)[OF c(1)] by (simp_all add: A5_def)
  then show "at_rest PA A5" "dv_info A5 = dv_info A" "dv_store A5 = dv_store A" using cs(2,3) by (simp_all add: same_node_def)
  obtain e3 where e3: "same_node G2 e3" "at_rest PG e3" and g3: "rx_items (dv_queues (handle_pair_confirm PG c (get_device_id A4) rG e3)) = rx_items (dv_queues e3)
      \<Longrightarrow> G3 = handle_pair_confirm PG c (get_device_id A4) rG e3"
    by (rule exchange[OF c(1), of PG G2 rG]) (use assms(7) pairing_dispatch(3)[OF ch(1)] in \<open>simp_all add: G3_def A5_def\<close>)
  have se: "same_node G e3" by (rule same_node_trans[OF assms(6) e3(1)])
  then have se': "dv_info e3 = dv_info G" "dv_store e3 = dv_store G" by (simp_all add: same_node_def)
  have c4: "ph_device_id (pcf_hdr c) = get_device_id e3" "pcf_hop_num c = 0xFF" using ch(2) c(4) A(2) se' by simp_all
  note st = store_step[OF assms(3) takes_anchor_same[OF assms(2) se e3(2)] c4(1) ch(3,4) c4(2), of rG, unfolded se' c(3)]
  have G3: "G3 = handle_pair_confirm PG c (get_device_id A) rG e3" using g3 st(7) cs(2) by simp
  have "mk_hdr pt p tid i s e3 = mk_hdr pt p tid i s G" for pt p tid i s using se'(1) by (simp add: mk_hdr_def)
  then show "\<exists>tid. saying PG (enc_pair_ack (ack_of tid A G)) G3" using st(1) unfolding G3 ack_of_def by auto
  show "dv_info G3 = dv_info G" "node_ok PG G3" "mesh_devs (dv_store G3) = mesh_devs (dv_store G)" "mesh_count G3 = mesh_count G"
    "mset (infra_devs (dv_store G3)) = add_mset (stamp_infra PG (new_infra (mk_infra_entry DEVICE_TYPE_ANCHOR (get_device_id A)
        (get_hop_number G + 1) (get_firmware_version A) rG))) (mset (infra_devs (dv_store G)))"
    using st(2-6) unfolding G3 by simp_all
qed

text \<open>The acknowledgment, on which the anchor links to the gateway.\<close>

definition announces_joining :: "dev \<Rightarrow> dev \<Rightarrow> joined_network \<Rightarrow> bool" where
  "announces_joining A G jn \<longleftrightarrow> ph_packet_type (jn_hdr jn) = PACKET_JOINED_NETWORK \<and> ph_device_id (jn_hdr jn) = get_device_id G \<and>
     ph_device_type (jn_hdr jn) = DEVICE_TYPE_ANCHOR \<and> ph_status (jn_hdr jn) = STATUS_SUCCESS \<and>
     jn_device_type jn = DEVICE_TYPE_ANCHOR \<and> jn_device_id jn = get_device_id A \<and> jn_serial_num jn = get_serial_number A \<and>
     jn_connected_device_id jn = get_device_id G \<and> jn_hop_num jn = get_hop_number G + 1"

lemma pairing_acknowledged:
  fixes rA :: s16
  assumes "eeprom_ok PA" "unpaired PA A" "takes_anchor PG (get_device_id A) G" "saying PG (enc_pair_ack (ack_of tid A G)) G3"
    "dv_info G3 = dv_info G" "at_rest PA A5" "dv_info A5 = dv_info A" "dv_store A5 = dv_store A"
  defines "A6 \<equiv> hear PA rA (emitted G3 (tx_phase PG G3)) A5"
  shows "\<exists>jn. saying PA (enc_joined_network jn) A6 \<and> announces_joining A G jn"
    "get_hop_number A6 = get_hop_number G + 1" "get_connected_device_id A6 = get_device_id G" "get_device_id A6 = get_device_id A"
    "node_ok PA A6"
    "infra_devs (dv_store A6) = [stamp_infra PA (new_infra (mk_infra_entry DEVICE_TYPE_GATEWAY (get_device_id G) (get_hop_number G) 0 rA))]"
proof -
  let ?ak = "ack_of tid A G"
  have A: "node_ok PA A" "get_device_type A = DEVICE_TYPE_ANCHOR" "infra_count A = 0" "get_hop_number A = 0xFF"
    using assms(2) by (simp_all add: unpaired_def)
  have ak: "ph_packet_type (pak_hdr ?ak) = PACKET_PAIR_ACK" "ph_device_id (pak_hdr ?ak) = get_device_id A"
    "ph_device_type (pak_hdr ?ak) = DEVICE_TYPE_GATEWAY" "ph_status (pak_hdr ?ak) = STATUS_SUCCESS" "pak_hop_num ?ak < 4"
    "pak_hop_num ?ak = get_hop_number G" "pak_version ?ak = 0"
    using assms(3) by (simp_all add: ack_of_def mk_hdr_def takes_anchor_def)
  obtain e4 where e4: "same_node A5 e4" "at_rest PA e4" and a6: "rx_items (dv_queues (handle_pair_ack PA ?ak (get_device_id G3) rA e4)) = rx_items (dv_queues e4)
      \<Longrightarrow> A6 = handle_pair_ack PA ?ak (get_device_id G3) rA e4"
    by (rule exchange[OF assms(4), of PA A5 rA]) (use assms(6) pairing_dispatch(4)[OF ak(1)] in \<open>simp_all add: A6_def\<close>)
  have e: "dv_info e4 = dv_info A" "dv_store e4 = dv_store A" using e4(1) assms(7,8) by (simp_all add: same_node_def)
  note ln = link_step[where d = e4 and ak = ?ak and P = PA and i = "get_device_id G" and r = rA, OF assms(1) e4(2), unfolded e ak(6,7),
      OF A ak(2-4) ak(5)[unfolded ak(6)]]
  have A6: "A6 = handle_pair_ack PA ?ak (get_device_id G) rA e4" using a6 ln(8) assms(5) by simp
  then show "\<exists>jn. saying PA (enc_joined_network jn) A6 \<and> announces_joining A G jn"
    using ln(1) e(1) A(2) unfolding announces_joining_def by (metis packet_header.select_convs mk_hdr_def)
  show "get_hop_number A6 = get_hop_number G + 1" "get_connected_device_id A6 = get_device_id G" "get_device_id A6 = get_device_id A"
    "node_ok PA A6"
    "infra_devs (dv_store A6) = [stamp_infra PA (new_infra (mk_infra_entry DEVICE_TYPE_GATEWAY (get_device_id G) (get_hop_number G) 0 rA))]"
    using ln(2-4,6,7) unfolding A6 by simp_all
qed

text \<open>The announcement, which the gateway enters into its mesh table.\<close>

lemma pairing_announced:
  fixes rG :: s16
  assumes "eeprom_ok PG" "takes_anchor PG (get_device_id A) G" "saying PA (enc_joined_network jn) A6" "announces_joining A G jn"
    "get_device_id A6 = get_device_id A" "at_rest PG G4" "node_ok PG G4" "dv_info G4 = dv_info G"
    "mesh_devs (dv_store G4) = mesh_devs (dv_store G)" "mesh_count G4 = mesh_count G"
    "stamp_infra PG (new_infra (mk_infra_entry t (get_device_id A) h v r)) \<in># mset (infra_devs (dv_store G4))"
  defines "G5 \<equiv> hear PG rG (emitted A6 (tx_phase PA A6)) G4"
  shows "dv_status G5 = Running" "node_ok PG G5" "map in_entry (infra_devs (dv_store G5)) = map in_entry (infra_devs (dv_store G4))"
    "mesh_devs (dv_store G5) = mesh_devs (dv_store G) @ [\<lparr>ms_device_type = DEVICE_TYPE_ANCHOR, ms_device_id = get_device_id A,
       ms_serial_num = get_serial_number A, ms_connected_device_id = get_device_id G, ms_hop_num = get_hop_number G + 1\<rparr>]"
proof -
  let ?i = "get_device_id A" and ?bs = "enc_joined_network jn"
  have j: "ph_packet_type (jn_hdr jn) = PACKET_JOINED_NETWORK" "jn_device_id jn = ?i" "ph_device_id (jn_hdr jn) = get_device_id G"
    "ph_device_type (jn_hdr jn) = DEVICE_TYPE_ANCHOR" "ph_status (jn_hdr jn) = STATUS_SUCCESS"
    using assms(4) by (simp_all add: announces_joining_def)
  have known: "\<exists>x\<in>set (infra_devs (dv_store (G4\<lparr>dv_last_sender := i\<rparr>))). infra_id x = ?i" for i
    using assms(11) by (intro bexI[of _ "stamp_infra PG (new_infra (mk_infra_entry t ?i h v r))"]) (simp_all add: mk_infra_entry_def)
  then have "known_sender ?i G4" by (simp add: known_sender_def)
  then obtain e where e: "at_rest PG e" "dv_info e = dv_info G4"
    "dv_store e = dv_store (snd (should_enqueue (?bs ! 0) ?i (G4\<lparr>dv_last_sender := ?i\<rparr>)))"
    and g5: "rx_items (dv_queues (handle_joined_network PG jn ?i rG e)) = rx_items (dv_queues e) \<Longrightarrow> G5 = handle_joined_network PG jn ?i rG e"
    using hear_at_rest[OF assms(6), of ?bs ?i rG] pairing_dispatch(5)[OF j(1), of PG _ ?i rG] saying_rests(3)[OF assms(3)] assms(5)
    by (auto simp: G5_def Let_def)
  note k = same_entriesD[OF known_same[OF known[of ?i], of PG "?bs ! 0"], folded e(3)]
  have G: "get_device_type G = DEVICE_TYPE_GATEWAY" "mesh_count G < MAX_DEVICES" "\<forall>m\<in>set (mesh_devs (dv_store G)). ms_device_id m \<noteq> ?i"
    using assms(2) by (simp_all add: takes_anchor_def)
  have st: "node_ok PG e" "mesh_devs (dv_store e) = mesh_devs (dv_store G)" "mesh_count e = mesh_count G"
    "map in_entry (infra_devs (dv_store e)) = map in_entry (infra_devs (dv_store G4))"
    using k(3,4,5,7) assms(7-10) by simp_all
  have pre: "get_device_type e = DEVICE_TYPE_GATEWAY" "mesh_count e < MAX_DEVICES" "ph_device_id (jn_hdr jn) = get_device_id e"
    using G(1,2) j(3) e(2) assms(8) st(3) by simp_all
  have new: "\<forall>m\<in>set (mesh_devs (dv_store e)). ms_device_id m \<noteq> jn_device_id jn" unfolding st(2) j(2) by (rule G(3))
  note en = enter_step[where i = ?i and r = rG, OF assms(1) e(1) st(1) pre(1,2) new pre(3) j(4,5)]
  have G5: "G5 = handle_joined_network PG jn ?i rG e" by (rule g5[OF en(4)])
  show "dv_status G5 = Running" "node_ok PG G5" "map in_entry (infra_devs (dv_store G5)) = map in_entry (infra_devs (dv_store G4))"
    "mesh_devs (dv_store G5) = mesh_devs (dv_store G) @ [\<lparr>ms_device_type = DEVICE_TYPE_ANCHOR, ms_device_id = ?i,
       ms_serial_num = get_serial_number A, ms_connected_device_id = get_device_id G, ms_hop_num = get_hop_number G + 1\<rparr>]"
    using en(1,3,5,6) st(2,4) assms(4) unfolding G5
    by (simp_all add: announces_joining_def mesh_of_entry_def mesh_entry_of_joined_def)
qed

text \<open>
  C1: An anchor joins a gateway. The anchor broadcasts a PAIR_REQUEST; the gateway, which has room
  and does not know it, answers; the anchor collects the response until its window is over and
  confirms it from its tick; the gateway stores it and acknowledges; the anchor links to the
  gateway and announces itself. Every packet goes through the queues, the air and the dispatch of
  both nodes. Then the anchor's only peer is the gateway and its hop number is one more than the
  gateway's; the gateway has the anchor in its table of neighbours at that hop number and, with its
  serial number and parent, at the end of its mesh table; and both EEPROMs agree with the tables.
\<close>

theorem anchor_joins:
  fixes PA PG :: platform and A G :: dev and rA rG :: s16 and t :: s64
  assumes "unpaired PA A" "takes_anchor PG (get_device_id A) G" "eeprom_ok PA" "eeprom_ok PG"
    "nbtimeout_expired t (nbtimeout_start (dv_now A) (nbtimeout_init PAIR_RESPONSE_COLLECT_WINDOW_MS 0))"
  defines "A1 \<equiv> proc (send_pair_request PA False) A"
  defines "A2 \<equiv> tx_phase PA A1"
  defines "G1 \<equiv> hear PG rG (emitted A1 A2) G"
  defines "G2 \<equiv> tx_phase PG G1"
  defines "A3 \<equiv> hear PA rA (emitted G1 G2) A2"
  defines "A4 \<equiv> mesh_pairing_tick PA (mesh_pairing_tick PA (A3\<lparr>dv_now := t\<rparr>))"
  defines "A5 \<equiv> tx_phase PA A4"
  defines "G3 \<equiv> hear PG rG (emitted A4 A5) G2"
  defines "G4 \<equiv> tx_phase PG G3"
  defines "A6 \<equiv> hear PA rA (emitted G3 G4) A5"
  defines "A7 \<equiv> tx_phase PA A6"
  defines "G5 \<equiv> hear PG rG (emitted A6 A7) G4"
  defines "hop \<equiv> get_hop_number G + 1"
  shows "dv_status A7 = Running \<and> node_ok PA A7 \<and> get_hop_number A7 = hop \<and> get_connected_device_id A7 = get_device_id G \<and>
      map in_entry (infra_devs (dv_store A7))
        = [stamped PA (mk_infra_entry DEVICE_TYPE_GATEWAY (get_device_id G) (get_hop_number G) 0 rA)] \<and>
    dv_status G5 = Running \<and> node_ok PG G5 \<and>
      mset (map in_entry (infra_devs (dv_store G5)))
        = add_mset (stamped PG (mk_infra_entry DEVICE_TYPE_ANCHOR (get_device_id A) hop (get_firmware_version A) rG))
            (mset (map in_entry (infra_devs (dv_store G)))) \<and>
      mesh_devs (dv_store G5) = mesh_devs (dv_store G) @ [\<lparr>ms_device_type = DEVICE_TYPE_ANCHOR, ms_device_id = get_device_id A,
        ms_serial_num = get_serial_number A, ms_connected_device_id = get_device_id G, ms_hop_num = hop\<rparr>]"
proof -
  note col = pairing_offered(1)[where rA = rA and rG = rG, OF assms(1,2), folded A1_def, folded A2_def, folded G1_def, folded G2_def, folded A3_def]
    and g2 = pairing_offered(2,3)[where rG = rG, OF assms(1,2), folded A1_def, folded A2_def, folded G1_def, folded G2_def]
  note a5 = pairing_confirmed(1-3)[OF assms(1,2,4,5) col g2, folded A4_def, folded A5_def]
    and cf = pairing_confirmed(4-9)[where rG = rG, OF assms(1,2,4,5) col g2, folded A4_def, folded A5_def, folded G3_def]
  obtain tid where ack: "saying PG (enc_pair_ack (ack_of tid A G)) G3" using cf(1) by blast
  have g4: "at_rest PG G4" "same_node G3 G4" using saying_rests(1,2)[OF ack] by (simp_all add: G4_def)
  note ln = pairing_acknowledged[where rA = rA, OF assms(3,1,2) ack cf(2) a5, folded G4_def, folded A6_def]
  obtain jn where jn: "saying PA (enc_joined_network jn) A6" "announces_joining A G jn" using ln(1) by blast
  have same: "dv_info G4 = dv_info G" "dv_store G4 = dv_store G3" using g4(2) cf(2) by (simp_all add: same_node_def)
  let ?ea = "mk_infra_entry DEVICE_TYPE_ANCHOR (get_device_id A) hop (get_firmware_version A) rG"
  have infra: "mset (infra_devs (dv_store G4)) = add_mset (stamp_infra PG (new_infra ?ea)) (mset (infra_devs (dv_store G)))"
    using cf(6) unfolding same hop_def .
  have in4: "stamp_infra PG (new_infra ?ea) \<in># mset (infra_devs (dv_store G4))" unfolding infra by simp
  have cf4: "node_ok PG G4" "mesh_devs (dv_store G4) = mesh_devs (dv_store G)" "mesh_count G4 = mesh_count G"
    using cf(3-5) unfolding same by simp_all
  note an = pairing_announced[where rG = rG, OF assms(4,2) jn ln(4) g4(1) cf4(1) same(1) cf4(2,3) in4, folded A7_def, folded G5_def]
  have "map in_entry (infra_devs (dv_store G5)) = map in_entry (infra_devs (dv_store G4))" by (rule an(3))
  then have "mset (map in_entry (infra_devs (dv_store G5))) = image_mset in_entry (mset (infra_devs (dv_store G4)))" by simp
  also have "\<dots> = add_mset (stamped PG ?ea) (mset (map in_entry (infra_devs (dv_store G))))" unfolding infra by (simp add: stamped_def)
  finally have "mset (map in_entry (infra_devs (dv_store G5))) = add_mset (stamped PG ?ea) (mset (map in_entry (infra_devs (dv_store G))))" .
  moreover have "dv_status A7 = Running" "dv_info A7 = dv_info A6" "dv_store A7 = dv_store A6"
    using saying_rests(1,2)[OF jn(1)] by (simp_all add: A7_def same_node_def at_rest_def)
  ultimately show ?thesis using ln(2,3,5,6) an(1,2,4) unfolding hop_def by (simp add: stamped_def)
qed

lemma boot_at_rest: "at_rest ref_platform (boot_dev ty i h s)"
proof -
  have "modem_accepts ref_platform" by (simp add: modem_accepts_def ref_platform_def)
  then show ?thesis
    using platform_okD(1)[OF ref_platform_ok]
    by (simp add: at_rest_def boot_dev_def boot_info_def queues_empty_def tx_pending_def rx_pending_def)
qed

lemma ref_pairing:
  "unpaired ref_platform ref_anchor_node" "takes_anchor ref_platform 9 ref_gateway" "get_device_id ref_anchor_node = 9"
proof -
  have s: "storage_ok ref_platform ref_storage" "infra_devs ref_storage = []" "mesh_devs ref_storage = []"
    using ref_storage_ok ref_storage_counts by simp_all
  show "unpaired ref_platform ref_anchor_node"
    using boot_at_rest boot_dev_wf[OF storage_okD(1)[OF s(1)]] s ref_storage_counts
    by (simp add: unpaired_def ref_anchor_node_def) (simp add: boot_pairing_def)
  show "takes_anchor ref_platform 9 ref_gateway"
    using boot_at_rest s ref_storage_counts
    by (simp add: takes_anchor_def ref_gateway_def) (simp add: boot_dev_def boot_info_def)
  show "get_device_id ref_anchor_node = 9" by (simp add: ref_anchor_node_def)
qed

theorem anchor_joins_witness:
  "let P = ref_platform; A = ref_anchor_node; G = ref_gateway;
       A1 = proc (send_pair_request P False) A; A2 = tx_phase P A1; G1 = hear P 0 (emitted A1 A2) G; G2 = tx_phase P G1;
       A3 = hear P 0 (emitted G1 G2) A2; A4 = mesh_pairing_tick P (mesh_pairing_tick P (A3\<lparr>dv_now := 5000\<rparr>));
       A5 = tx_phase P A4; G3 = hear P 0 (emitted A4 A5) G2; G4 = tx_phase P G3; A6 = hear P 0 (emitted G3 G4) A5;
       A7 = tx_phase P A6; G5 = hear P 0 (emitted A6 A7) G4
   in get_hop_number A7 = 1 \<and> get_connected_device_id A7 = 1 \<and>
     mesh_devs (dv_store G5) = [\<lparr>ms_device_type = DEVICE_TYPE_ANCHOR, ms_device_id = 9, ms_serial_num = get_serial_number A,
       ms_connected_device_id = 1, ms_hop_num = 1\<rparr>]"
proof -
  have "nbtimeout_expired 5000 (nbtimeout_start (dv_now ref_anchor_node) (nbtimeout_init PAIR_RESPONSE_COLLECT_WINDOW_MS 0))"
    by (simp add: nbtimeout_expired_def nbtimeout_start_def nbtimeout_init_def ref_anchor_node_def boot_dev_def)
  note J = anchor_joins[where A = ref_anchor_node and G = ref_gateway and t = 5000 and rA = 0 and rG = 0, unfolded ref_pairing(3),
      OF ref_pairing(1,2) platform_okD(2)[OF ref_platform_ok] platform_okD(2)[OF ref_platform_ok] this]
  have "get_hop_number ref_gateway = 0" "get_device_id ref_gateway = 1" "mesh_devs (dv_store ref_gateway) = []"
    using ref_storage_counts by (simp_all add: ref_gateway_def)
  from J[unfolded this add_0 append_Nil] show ?thesis unfolding Let_def by (elim conjE) (intro conjI)
qed

end
