(* ===== verification/Routing_Props.thy ===== *)
theory Routing_Props
  imports Config_Path Join
begin

text \<open>
  The search for a route (src/mesh_layers/mesh_routing.c with the tick of src/config.c): the gateway
  asks for the way to the destination of a configuration, the anchor next to it that has the sensor
  answers with itself as the only hop, and the gateway sends the configuration there. An answer that
  another anchor forwards has lost its route.
\<close>

section \<open>Packets\<close>

lemma route_dispatch:
  "ph_packet_type (rdc_hdr pd) = PACKET_ROUTE_DISCOVERY \<Longrightarrow>
     process_rx P (enc_route_discovery pd @ z) n r d = handle_route_discovery P pd n r d"
  "ph_packet_type (rda_hdr pa) = PACKET_ROUTE_DISCOVERY_ACK \<Longrightarrow>
     process_rx P (enc_route_discovery_ack pa @ z) n r d = handle_route_discovery_ack P pa n r d"
  "ph_packet_type (rti_hdr pi) = PACKET_ROUTE_INFO \<Longrightarrow> length (rti_route_info pi) = MAX_DEPTH \<Longrightarrow>
     process_rx P (enc_route_info pi @ z) n r d = handle_route_info P pi n r d"
  "ph_packet_type (ria_hdr pia) = PACKET_ROUTE_INFO_ACK \<Longrightarrow>
     process_rx P (enc_route_info_ack pia @ z) n r d = handle_route_info_ack P pia n r d"
proof -
  have ne: "enc_route_discovery pd @ z \<noteq> []" "enc_route_discovery_ack pa @ z \<noteq> []" "enc_route_info pi @ z \<noteq> []"
    "enc_route_info_ack pia @ z \<noteq> []"
    by (simp_all add: enc_route_discovery_def enc_route_discovery_ack_def enc_route_info_def enc_route_info_ack_def
        enc_header_def by_defs le_bytes_numeral)
  note b = ne[THEN header_bytes(1), unfolded wire_simps]
  show "ph_packet_type (rdc_hdr pd) = PACKET_ROUTE_DISCOVERY \<Longrightarrow>
     process_rx P (enc_route_discovery pd @ z) n r d = handle_route_discovery P pd n r d"
    using b(1) by (simp add: process_rx_def wire_simps)
  show "ph_packet_type (rda_hdr pa) = PACKET_ROUTE_DISCOVERY_ACK \<Longrightarrow>
     process_rx P (enc_route_discovery_ack pa @ z) n r d = handle_route_discovery_ack P pa n r d"
    using b(2) by (simp add: process_rx_def wire_simps)
  show "ph_packet_type (rti_hdr pi) = PACKET_ROUTE_INFO \<Longrightarrow> length (rti_route_info pi) = MAX_DEPTH \<Longrightarrow>
     process_rx P (enc_route_info pi @ z) n r d = handle_route_info P pi n r d"
    using b(3) by (simp add: process_rx_def wire_simps)
  show "ph_packet_type (ria_hdr pia) = PACKET_ROUTE_INFO_ACK \<Longrightarrow>
     process_rx P (enc_route_info_ack pia @ z) n r d = handle_route_info_ack P pia n r d"
    using b(4) by (simp add: process_rx_def wire_simps)
qed

lemma route_frame_ok:
  "2 < length (enc_route_discovery pd) \<and> length (enc_route_discovery pd) \<le> QUEUE_DATA_MAX \<and> enc_route_discovery pd ! 2 = ph_priority (rdc_hdr pd)"
  "2 < length (enc_route_discovery_ack pa) \<and> length (enc_route_discovery_ack pa) \<le> QUEUE_DATA_MAX \<and>
     enc_route_discovery_ack pa ! 2 = ph_priority (rda_hdr pa)"
  "length (rti_route_info pi) = MAX_DEPTH \<Longrightarrow> 2 < length (enc_route_info pi) \<and> length (enc_route_info pi) \<le> QUEUE_DATA_MAX \<and>
     enc_route_info pi ! 2 = ph_priority (rti_hdr pi)"
  "2 < length (enc_route_info_ack pia) \<and> length (enc_route_info_ack pia) \<le> QUEUE_DATA_MAX \<and> enc_route_info_ack pia ! 2 = ph_priority (ria_hdr pia)"
  using header_bytes(2)[of "enc_route_discovery pd"] header_bytes(2)[of "enc_route_discovery_ack pa"] header_bytes(2)[of "enc_route_info pi"]
    header_bytes(2)[of "enc_route_info_ack pia"] header_enc_route_discovery[of pd "[]"] header_enc_route_discovery_ack[of pa "[]"]
    header_enc_route_info[of pi "[]"] header_enc_route_info_ack[of pia "[]"]
  by simp_all

text \<open>The packets with the headers that they get.\<close>

definition discovery_of :: "route_discovery \<Rightarrow> u16 \<Rightarrow> u8 \<Rightarrow> dev \<Rightarrow> route_discovery" where
  "discovery_of rd dst t d = rd\<lparr>rdc_hdr := mk_hdr PACKET_ROUTE_DISCOVERY PACKET_PRIORITY_HIGH t dst STATUS_SUCCESS d\<rparr>"

definition info_of :: "route_info \<Rightarrow> u16 \<Rightarrow> u8 \<Rightarrow> dev \<Rightarrow> route_info" where
  "info_of ri dst t d = ri\<lparr>rti_hdr := mk_hdr PACKET_ROUTE_INFO PACKET_PRIORITY_HIGH t dst STATUS_SUCCESS d\<rparr>"

definition info_ack_of :: "route_info \<Rightarrow> u16 \<Rightarrow> u8 \<Rightarrow> dev \<Rightarrow> route_info_ack" where
  "info_ack_of ri dst t d = \<lparr>ria_hdr = mk_hdr PACKET_ROUTE_INFO_ACK PACKET_PRIORITY_HIGH t dst STATUS_SUCCESS d,
     ria_device_id = rti_device_id ri, ria_device_type = rti_device_type ri, ria_data_type = rti_data_type ri, ria_data_id = rti_data_id ri\<rparr>"

definition discovery_ack_of :: "route_discovery \<Rightarrow> u16 \<Rightarrow> u8 \<Rightarrow> dev \<Rightarrow> route_discovery_ack" where
  "discovery_ack_of rd dst t d = \<lparr>rda_hdr = mk_hdr PACKET_ROUTE_DISCOVERY_ACK PACKET_PRIORITY_HIGH t dst STATUS_SUCCESS d,
     rda_device_id = rdc_device_id rd, rda_device_type = rdc_device_type rd, rda_hop_num = rdc_hop_num rd\<rparr>"

definition config_of :: "config_t \<Rightarrow> u16 \<Rightarrow> u8 \<Rightarrow> dev \<Rightarrow> config_t" where
  "config_of c dst t d = c\<lparr>cfg_hdr := mk_hdr PACKET_CONFIG PACKET_PRIORITY_HIGH t dst (ph_status (cfg_hdr c)) d\<rparr>"

lemma route_sends:
  assumes "msgq_ok P"
  shows "\<exists>t. sends P PACKET_PRIORITY_HIGH (enc_route_discovery (discovery_of rd dst t d)) d (proc (send_route_discovery P rd dst STATUS_SUCCESS) d)"
    "\<exists>t. sends P PACKET_PRIORITY_HIGH (enc_route_info (info_of ri dst t d)) d (proc (send_route_info P ri dst STATUS_SUCCESS) d)"
    "\<exists>t. sends P PACKET_PRIORITY_HIGH (enc_config_t (config_of c dst t d)) d (proc (send_config P c dst STATUS_SUCCESS) d)"
    "sends P PACKET_PRIORITY_HIGH (enc_route_discovery_ack (discovery_ack_of rd dst tid d)) d (proc (send_route_discovery_ack P rd dst tid STATUS_SUCCESS) d)"
    "sends P PACKET_PRIORITY_HIGH (enc_route_info_ack (info_ack_of ri dst tid d)) d (proc (send_route_info_ack P ri dst tid STATUS_SUCCESS) d)"
proof -
  have m: "mk_hdr pt pr t ds st (snd (d_next_id d)) = mk_hdr pt pr t ds st d" for pt pr t ds st by (simp add: mk_hdr_def)
  show "\<exists>t. sends P PACKET_PRIORITY_HIGH (enc_route_discovery (discovery_of rd dst t d)) d (proc (send_route_discovery P rd dst STATUS_SUCCESS) d)"
    using sends_tracked[OF assms]
    by (intro exI[of _ "fst (d_next_id d)"], cases rd) (simp add: proc_def send_route_discovery_def discovery_of_def split_beta Let_def m)
  show "\<exists>t. sends P PACKET_PRIORITY_HIGH (enc_route_info (info_of ri dst t d)) d (proc (send_route_info P ri dst STATUS_SUCCESS) d)"
    using sends_tracked[OF assms]
    by (intro exI[of _ "fst (d_next_id d)"], cases ri) (simp add: proc_def send_route_info_def info_of_def split_beta Let_def m)
  show "\<exists>t. sends P PACKET_PRIORITY_HIGH (enc_config_t (config_of c dst t d)) d (proc (send_config P c dst STATUS_SUCCESS) d)"
    using sends_tracked[OF assms]
    by (intro exI[of _ "fst (d_next_id d)"]) (simp add: proc_def send_config_def config_of_def split_beta Let_def m)
qed (simp_all add: proc_def send_route_discovery_ack_def send_route_info_ack_def discovery_ack_of_def info_ack_of_def sends_plain[OF assms])

lemma length_reverse_route: "length r = MAX_DEPTH \<Longrightarrow> length (reverse_route r) = MAX_DEPTH"
  by (auto simp: reverse_route_def Let_def split: option.split dest: find_idx_less)

section \<open>The question\<close>

text \<open>The gateway's tick asks for the way to the destination of the only configuration that waits.\<close>

lemma gateway_asks:
  fixes P :: platform and d :: dev
  assumes "idle_node P d" "get_device_type d = DEVICE_TYPE_GATEWAY" "0 < cf_active_count (dv_config d)"
    "\<forall>j<CONFIG_SLOT_COUNT. cs_active (cfg_at d j) \<longleftrightarrow> j = 0" "\<not> cs_is_sent (cfg_at d 0)" "infra_count d = 1"
    "find_hop_num (cs_dst_device_id (cfg_at d 0)) (cs_dst_device_type (cfg_at d 0)) d = h" "h \<noteq> 0" "h \<noteq> 0xFF"
  defines "rd \<equiv> \<lparr>rdc_hdr = zero_hdr, rdc_device_id = cs_dst_device_id (cfg_at d 0), rdc_device_type = cs_dst_device_type (cfg_at d 0),
     rdc_hop_num = h, rdc_data_type = DATA_TYPE_CONFIG, rdc_data_id = 0\<rparr>"
  defines "d1 \<equiv> config_tick P d" and "d2 \<equiv> tx_phase P (config_tick P d)"
  shows "\<exists>t. emitted d1 d2 = [frame_of (get_device_id d) (enc_route_discovery (discovery_of rd (infra_id (infra_at d 0)) t d))]"
    "idle_node P d2" "dv_info d2 = dv_info d" "region d2 (config_slot_psram_addr 0) n = region d (config_slot_psram_addr 0) n"
    "known_sender i d \<Longrightarrow> known_sender i d2"
    "\<exists>x. cfg_at d2 0 = (cfg_at d 0)\<lparr>cs_timeout := x, cs_is_sent := True\<rparr>"
proof -
  have ok: "msgq_ok P" "modem_accepts P" "psram_up P d" "dev_wf d" "dv_status d = Running" "tx_pending (dv_queues d) = []"
    "rx_pending (dv_queues d) = []" "dv_radio_id d = get_device_id d"
    using assms(1) by (simp_all add: idle_node_def)
  let ?e = "proc (send_route_discovery P rd (infra_id (infra_at d 0)) STATUS_SUCCESS) d"
  obtain t where s: "sends P PACKET_PRIORITY_HIGH (enc_route_discovery (discovery_of rd (infra_id (infra_at d 0)) t d)) d ?e"
    using route_sends(1)[OF ok(1)] by blast
  note k = sendsD(1)[OF s]
  have send: "gateway_config_send P 0 d = mark_config_sent 0 GATEWAY_CONFIG_TIMEOUT_MS 0 ?e"
    using assms(6-9) by (simp add: gateway_config_send_def broadcast_route_discovery_def rd_def Let_def)
  have tmo: "for_slots CONFIG_SLOT_COUNT (gateway_config_timeouts P) d = d"
    unfolding for_slots_def using assms(4,5) by (intro seqs_idle) (auto simp: gateway_config_timeouts_def Let_def)
  have "cfg_at (gateway_config_send P 0 d) j = cfg_at d j" if "j \<noteq> 0" for j
    using that k unfolding send mark_config_sent_def start_config_timeout_def by (simp add: keeps_def)
  then have tick: "d1 = mark_config_sent 0 GATEWAY_CONFIG_TIMEOUT_MS 0 ?e"
    unfolding d1_def config_tick_def gateway_config_tick_def tmo send[symmetric]
    using assms(2-5) ok(5) by (subst process_upto_one[of 0]) simp_all
  have l: "0 < length (cfg_slots ?e)" using k cfg_len[OF ok(4)] by (simp add: keeps_def)
  define x where "x = nbtimeout_start (dv_now ?e) (nbtimeout_init GATEWAY_CONFIG_TIMEOUT_MS 0)"
  have x: "d1 = upd_config 0 (\<lambda>y. y\<lparr>cs_timeout := x, cs_is_sent := True\<rparr>) ?e"
    using l unfolding tick x_def by (simp add: mark_config_sent_def start_config_timeout_def upd_config_def)
  have f: "dv_queues d1 = dv_queues ?e" "dv_radio_id d1 = get_device_id d" "dv_info d1 = dv_info d" "dv_status d1 = Running"
    "psram_up P d1" "\<And>a n. PSRAM_TRACKER_SIZE \<le> a \<Longrightarrow> region d1 a n = region d a n"
    "\<And>i. known_sender i d \<Longrightarrow> known_sender i d1"
    using k ok(3-5,8) by (simp_all add: x keeps_def) (simp_all add: upd_config_def known_sender_def)
  have wf: "dev_wf d1" unfolding d1_def by (rule config_tick_wf[OF ok(4)])
  have q: "queued PACKET_PRIORITY_HIGH [enc_route_discovery (discovery_of rd (infra_id (infra_at d 0)) t d)] (dv_queues d1)"
    using sendsD(4)[OF s queued_none[OF ok(6)]] by (simp add: f(1))
  have len: "\<forall>bs\<in>set [enc_route_discovery (discovery_of rd (infra_id (infra_at d 0)) t d)]. length bs \<le> QUEUE_DATA_MAX" by simp
  note tx = tx_step[OF ok(1,2) q _ len, folded d1_def, unfolded d2_def[symmetric, folded d1_def]]
  show "\<exists>t. emitted d1 d2 = [frame_of (get_device_id d) (enc_route_discovery (discovery_of rd (infra_id (infra_at d 0)) t d))]"
    using tx(2) f(2) unfolding d2_def d1_def by auto
  have d2: "d2 = tx_phase P d1" by (simp add: d2_def d1_def)
  have t: "keeps P d1 d2" "tx_pending (dv_queues d2) = []" "rx_items (dv_queues d2) = rx_items (dv_queues d1)"
    using tx(1,3,4) unfolding d2 by simp_all
  have "rx_items (dv_queues d2) = rx_items (dv_queues d)" using t(3) f(1) sendsD(3)[OF s] by simp
  then have rx: "rx_pending (dv_queues d2) = []" using ok(7) rx_pending_cong by metis
  show "idle_node P d2" using t(1,2) rx ok(1,2) f(2-5) wf by (simp add: idle_node_def keeps_def)
  show "dv_info d2 = dv_info d" "known_sender i d \<Longrightarrow> known_sender i d2" using t(1) f(3,7) by (simp_all add: keeps_def)
  show "region d2 (config_slot_psram_addr 0) n = region d (config_slot_psram_addr 0) n"
    using t(1) f(5,6) wf by (simp add: keeps_def config_slot_psram_addr_def)
  have "cfg_at d1 0 = (cfg_at d 0)\<lparr>cs_timeout := x, cs_is_sent := True\<rparr>" using k l by (simp add: x keeps_def)
  then show "\<exists>x. cfg_at d2 0 = (cfg_at d 0)\<lparr>cs_timeout := x, cs_is_sent := True\<rparr>" using t(1) by (auto simp: keeps_def)
qed

section \<open>The answer\<close>

text \<open>An idle node hears one frame of a node that it knows; its peers stay who they are.\<close>

lemma hears_known:
  assumes "idle_node P d" "known_sender g d" "0 < infra_count d" "2 < length bs" "length bs \<le> QUEUE_DATA_MAX"
  obtains e where "at_rest P e" "dv_info e = dv_info d" "infra_id (infra_at e 0) = infra_id (infra_at d 0)"
    "\<And>i. find_sensor i d \<noteq> None \<Longrightarrow> find_sensor i e \<noteq> None"
    "let e' = process_rx P (bs @ replicate (QUEUE_DATA_MAX - length bs) 0) g r e
     in rx_items (dv_queues e') = rx_items (dv_queues e) \<longrightarrow> hear P r [frame_of g bs] d = e'"
proof -
  have ok: "at_rest P d" "dev_wf d" using assms(1) by (simp_all add: idle_node_def at_rest_def)
  obtain e where e: "at_rest P e" "dv_info e = dv_info d" "dv_store e = dv_store (snd (should_enqueue (bs ! 0) g (d\<lparr>dv_last_sender := g\<rparr>)))"
    "let e' = process_rx P (bs @ replicate (QUEUE_DATA_MAX - length bs) 0) g r e
     in rx_items (dv_queues e') = rx_items (dv_queues e) \<longrightarrow> hear P r [frame_of g bs] d = e'"
    using hear_at_rest[OF ok(1) disjI2[OF assms(2)] assms(4,5)] by blast
  obtain st where "snd (should_enqueue (bs ! 0) g (d\<lparr>dv_last_sender := g\<rparr>)) = d\<lparr>dv_last_sender := g, dv_store := st\<rparr>"
    and ids: "map infra_id (infra_devs st) = map infra_id (infra_devs (dv_store d))"
    "map sensor_id (sensor_devs st) = map sensor_id (sensor_devs (dv_store d))"
    using should_enqueue_store[of "bs ! 0" g "d\<lparr>dv_last_sender := g\<rparr>"] by auto
  then have st: "dv_store e = st" using e(3) by simp
  have "0 < length (infra_devs (dv_store d))" using assms(3) ok(2) by (simp add: dev_wf_def storage_wf_def)
  then have n: "0 < length (infra_devs st)" "0 < length (infra_devs (dv_store d))"
    using arg_cong[OF ids(1), of length] by (simp_all only: length_map)
  have "map infra_id (infra_devs st) ! 0 = map infra_id (infra_devs (dv_store d)) ! 0" by (simp only: ids(1))
  then have par: "infra_id (infra_at e 0) = infra_id (infra_at d 0)" using n by (simp add: st)
  have "find_sensor i e \<noteq> None" if "find_sensor i d \<noteq> None" for i
  proof -
    have "i \<in> set (map sensor_id (sensor_devs (dv_store d)))"
      using that unfolding find_idx_None_iff set_map by (metis image_eqI)
    then show ?thesis unfolding ids(2)[symmetric] by (auto simp: find_idx_None_iff st)
  qed
  then show ?thesis using e(1,2,4) par by (intro that[of e])
qed

text \<open>The anchor that has the sensor answers with a route of itself, then acknowledges the question.\<close>

lemma anchor_answers:
  fixes P :: platform and d G :: dev and pd :: route_discovery and g :: u16 and r :: s16
  assumes "idle_node P d" "get_device_type d = DEVICE_TYPE_ANCHOR" "known_sender g d" "0 < infra_count d" "infra_id (infra_at d 0) = g"
    "rdc_hdr pd = mk_hdr PACKET_ROUTE_DISCOVERY PACKET_PRIORITY_HIGH tid (get_device_id d) STATUS_SUCCESS G"
    "get_device_type G = DEVICE_TYPE_GATEWAY" "rdc_device_type pd = DEVICE_TYPE_SENSOR" "find_sensor (rdc_device_id pd) d \<noteq> None"
  defines "ri \<equiv> \<lparr>rti_hdr = zero_hdr, rti_device_id = rdc_device_id pd, rti_device_type = rdc_device_type pd,
      rti_data_type = rdc_data_type pd, rti_data_id = rdc_data_id pd,
      rti_route_info = \<lparr>ri_device_id = get_device_id d, ri_hop_num = get_hop_number d\<rparr> # replicate (MAX_DEPTH - 1) no_route_entry\<rparr>"
  defines "d1 \<equiv> hear P r [frame_of g (enc_route_discovery pd)] d"
  shows "\<exists>t. emitted d1 (tx_phase P d1) = map (frame_of (get_device_id d))
    [enc_route_info (info_of ri g t d), enc_route_discovery_ack (discovery_ack_of pd g tid d)]"
proof -
  have ok: "msgq_ok P" "modem_accepts P" "psram_up P d" "dev_wf d" "dv_status d = Running" "tx_pending (dv_queues d) = []"
    "rx_pending (dv_queues d) = []" "dv_radio_id d = get_device_id d"
    using assms(1) by (simp_all add: idle_node_def)
  let ?bs = "enc_route_discovery pd"
  have fr: "2 < length ?bs" "length ?bs \<le> QUEUE_DATA_MAX" using route_frame_ok(1)[of pd] by simp_all
  obtain e where e: "at_rest P e" "dv_info e = dv_info d" "infra_id (infra_at e 0) = infra_id (infra_at d 0)"
    "\<And>i. find_sensor i d \<noteq> None \<Longrightarrow> find_sensor i e \<noteq> None"
    "let e' = process_rx P (?bs @ replicate (QUEUE_DATA_MAX - length ?bs) 0) g r e
     in rx_items (dv_queues e') = rx_items (dv_queues e) \<longrightarrow> hear P r [frame_of g ?bs] d = e'"
    by (rule hears_known[OF assms(1,3,4) fr]) (rule that)
  have par: "infra_id (infra_at e 0) = g" using e(3) assms(5) by simp
  have found: "find_sensor (rdc_device_id pd) e \<noteq> None" by (rule e(4)[OF assms(9)])
  have h: "process_rx P (?bs @ z) g r e = proc (send_route_discovery_ack P pd g tid STATUS_SUCCESS) (proc (send_route_info P ri g STATUS_SUCCESS) e)" for z
    using assms(2,6-8) found e(2)
    by (simp add: route_dispatch(1) handle_route_discovery_def found_route_def mk_hdr_def valid_device_type_def par ri_def Let_def)
  obtain t where s1: "sends P PACKET_PRIORITY_HIGH (enc_route_info (info_of ri g t e)) e (proc (send_route_info P ri g STATUS_SUCCESS) e)"
    using route_sends(2)[OF ok(1)] by blast
  let ?f = "proc (send_route_discovery_ack P pd g tid STATUS_SUCCESS) (proc (send_route_info P ri g STATUS_SUCCESS) e)"
  have i: "dv_info (proc (send_route_info P ri g STATUS_SUCCESS) e) = dv_info d" using e(2) by simp
  have s2: "sends P PACKET_PRIORITY_HIGH (enc_route_discovery_ack (discovery_ack_of pd g tid d)) (proc (send_route_info P ri g STATUS_SUCCESS) e) ?f"
    using route_sends(4)[OF ok(1), of pd g tid "proc (send_route_info P ri g STATUS_SUCCESS) e"] i by (simp add: discovery_ack_of_def mk_hdr_def)
  have q: "queued PACKET_PRIORITY_HIGH [enc_route_info (info_of ri g t d), enc_route_discovery_ack (discovery_ack_of pd g tid d)] (dv_queues ?f)"
  proof -
    have "queued PACKET_PRIORITY_HIGH [] (dv_queues e)" using e(1) by (intro queued_none) (simp add: at_rest_def)
    from sendsD(4)[OF s1 this] have "queued PACKET_PRIORITY_HIGH [enc_route_info (info_of ri g t e)] (dv_queues (proc (send_route_info P ri g STATUS_SUCCESS) e))" by simp
    from sendsD(4)[OF s2 this] e(2) show ?thesis by (simp add: info_of_def mk_hdr_def)
  qed
  have "rx_items (dv_queues ?f) = rx_items (dv_queues e)" using sendsD(3)[OF s1] sendsD(3)[OF s2] by simp
  then have d1: "d1 = ?f" using e(5) unfolding d1_def h Let_def by blast
  have "dv_radio_id ?f = get_device_id d"
    using keeps_trans[OF sendsD(1)[OF s1] sendsD(1)[OF s2]] e(1,2) by (simp add: at_rest_def keeps_def)
  moreover have "length (rti_route_info (info_of ri g t d)) = MAX_DEPTH" by (simp add: info_of_def ri_def)
  then have "length (enc_route_info (info_of ri g t d)) = 25" by simp
  ultimately show ?thesis using tx_step(2)[OF ok(1,2) q] unfolding d1 by (intro exI[of _ t]) simp
qed

text \<open>
  An anchor that gets an answer on its way sends one of its own. The route that it received is not
  copied and it does not add itself, so the new route is zero (see \<open>build_route_info\<close>).
\<close>

lemma forwarded_route:
  "build_route_info pi d = \<lparr>rti_hdr = zero_hdr, rti_device_id = rti_device_id pi, rti_device_type = rti_device_type pi,
     rti_data_type = rti_data_type pi, rti_data_id = rti_data_id pi, rti_route_info = zero_route\<rparr>"
  "reverse_route zero_route = zero_route"
proof -
  have none: "find_idx (\<lambda>e. ri_device_id e = 0xFFFF \<and> ri_hop_num e = 0xFF) zero_route = None"
    "find_idx (\<lambda>e. ri_device_id e = 0xFFFF) zero_route = None"
    by (simp_all add: zero_route_def find_idx_None_iff)
  show "build_route_info pi d = \<lparr>rti_hdr = zero_hdr, rti_device_id = rti_device_id pi, rti_device_type = rti_device_type pi,
     rti_data_type = rti_data_type pi, rti_data_id = rti_data_id pi, rti_route_info = zero_route\<rparr>"
    by (simp add: build_route_info_def none(1) Let_def)
  show "reverse_route zero_route = zero_route" unfolding reverse_route_def none(2) by (simp add: zero_route_def Let_def)
qed

lemma anchor_forwards:
  fixes P :: platform and d A :: dev and pi :: route_info and a g :: u16 and r :: s16
  assumes "idle_node P d" "get_device_type d = DEVICE_TYPE_ANCHOR" "known_sender a d" "0 < infra_count d" "infra_id (infra_at d 0) = g"
    "rti_hdr pi = mk_hdr PACKET_ROUTE_INFO PACKET_PRIORITY_HIGH tid (get_device_id d) STATUS_SUCCESS A"
    "get_device_type A = DEVICE_TYPE_ANCHOR" "length (rti_route_info pi) = MAX_DEPTH"
  defines "d1 \<equiv> hear P r [frame_of a (enc_route_info pi)] d"
  shows "\<exists>t. emitted d1 (tx_phase P d1) = map (frame_of (get_device_id d))
    [enc_route_info (info_of (build_route_info pi d) g t d), enc_route_info_ack (info_ack_of pi a tid d)]"
proof -
  have ok: "msgq_ok P" "modem_accepts P" using assms(1) by (simp_all add: idle_node_def)
  let ?bs = "enc_route_info pi" and ?ri = "build_route_info pi d"
  have fr: "2 < length ?bs" "length ?bs \<le> QUEUE_DATA_MAX" using route_frame_ok(3)[OF assms(8)] by simp_all
  obtain e where e: "at_rest P e" "dv_info e = dv_info d" "infra_id (infra_at e 0) = infra_id (infra_at d 0)"
    "\<And>i. find_sensor i d \<noteq> None \<Longrightarrow> find_sensor i e \<noteq> None"
    "let e' = process_rx P (?bs @ replicate (QUEUE_DATA_MAX - length ?bs) 0) a r e
     in rx_items (dv_queues e') = rx_items (dv_queues e) \<longrightarrow> hear P r [frame_of a ?bs] d = e'"
    by (rule hears_known[OF assms(1,3,4) fr]) (rule that)
  let ?s = "proc (send_route_info P ?ri g STATUS_SUCCESS) e"
  let ?f = "proc (send_route_info_ack P pi a tid STATUS_SUCCESS) ?s"
  have "build_route_info pi e = ?ri" by (simp add: forwarded_route(1))
  then have h: "process_rx P (?bs @ z) a r e = ?f" for z
    using assms(2,5-8) e(1-3) by (simp add: route_dispatch(3) handle_route_info_def mk_hdr_def valid_device_type_def at_rest_def Let_def)
  obtain t where s1: "sends P PACKET_PRIORITY_HIGH (enc_route_info (info_of ?ri g t e)) e ?s"
    using route_sends(2)[OF ok(1)] by blast
  have s2: "sends P PACKET_PRIORITY_HIGH (enc_route_info_ack (info_ack_of pi a tid d)) ?s ?f"
    using route_sends(5)[OF ok(1), of pi a tid ?s] e(2) by (simp add: info_ack_of_def mk_hdr_def)
  have q: "queued PACKET_PRIORITY_HIGH [enc_route_info (info_of ?ri g t d), enc_route_info_ack (info_ack_of pi a tid d)] (dv_queues ?f)"
  proof -
    have "queued PACKET_PRIORITY_HIGH [] (dv_queues e)" using e(1) by (intro queued_none) (simp add: at_rest_def)
    from sendsD(4)[OF s1 this] have "queued PACKET_PRIORITY_HIGH [enc_route_info (info_of ?ri g t e)] (dv_queues ?s)" by simp
    from sendsD(4)[OF s2 this] e(2) show ?thesis by (simp add: info_of_def mk_hdr_def)
  qed
  have "rx_items (dv_queues ?f) = rx_items (dv_queues e)" using sendsD(3)[OF s1] sendsD(3)[OF s2] by simp
  then have d1: "d1 = ?f" using e(5) unfolding d1_def h Let_def by blast
  have "dv_radio_id ?f = get_device_id d"
    using keeps_trans[OF sendsD(1)[OF s1] sendsD(1)[OF s2]] e(1,2) by (simp add: at_rest_def keeps_def)
  moreover have "length (rti_route_info (info_of ?ri g t d)) = MAX_DEPTH" by (simp add: info_of_def forwarded_route(1) zero_route_def)
  then have "length (enc_route_info (info_of ?ri g t d)) = 25" by simp
  ultimately show ?thesis using tx_step(2)[OF ok q] unfolding d1 by (intro exI[of _ t]) simp
qed

section \<open>The gateway follows the answer\<close>

lemma gateway_follows:
  fixes P :: platform and d A :: dev and pi :: route_info and a :: u16 and r :: s16 and b2 :: bytes
  assumes "idle_node P d" "get_device_type d = DEVICE_TYPE_GATEWAY" "known_sender a d"
    "rti_hdr pi = mk_hdr PACKET_ROUTE_INFO PACKET_PRIORITY_HIGH tid (get_device_id d) STATUS_SUCCESS A"
    "get_device_type A = DEVICE_TYPE_ANCHOR" "rti_data_type pi = DATA_TYPE_CONFIG" "unat (rti_data_id pi) < CONFIG_SLOT_COUNT"
    "length (rti_route_info pi) = MAX_DEPTH"
    "\<not> cs_is_transfered (cfg_at d (unat (rti_data_id pi)))" "cs_config_len (cfg_at d (unat (rti_data_id pi))) \<noteq> 0"
    "2 < length b2" "length b2 \<le> QUEUE_DATA_MAX" "b2 ! 2 = PACKET_PRIORITY_HIGH"
    "\<And>e. process_rx P (b2 @ replicate (QUEUE_DATA_MAX - length b2) 0) a r e = e \<or>
      (\<exists>t. process_rx P (b2 @ replicate (QUEUE_DATA_MAX - length b2) 0) a r e = d_untrack t e)"
  defines "k \<equiv> unat (rti_data_id pi)" and "d1 \<equiv> hear P r (map (frame_of a) [enc_route_info pi, b2]) d"
  defines "s \<equiv> cfg_at d (unat (rti_data_id pi))" and "route \<equiv> reverse_route (rti_route_info pi)"
  defines "c \<equiv> (config_pkt_of s (region d (config_slot_psram_addr k) (unat (cs_config_len s)) @
      replicate (MAX_CONFIG_SIZE - unat (cs_config_len s)) 0))\<lparr>cfg_dst_device_id := rti_device_id pi,
        cfg_dst_device_type := rti_device_type pi, cfg_data_type := rti_data_type pi, cfg_route_info := route\<rparr>"
  shows "\<exists>t. emitted d1 (tx_phase P d1) = map (frame_of (get_device_id d))
      [enc_config_t (config_of c (ri_device_id (route ! 0)) t d), enc_route_info_ack (info_ack_of pi a tid d)]"
    "cs_is_transfered (cfg_at d1 k)"
proof -
  have ok: "msgq_ok P" "modem_accepts P" "psram_up P d" "dev_wf d" "dv_status d = Running" "tx_pending (dv_queues d) = []"
    "rx_pending (dv_queues d) = []" "dv_radio_id d = get_device_id d"
    using assms(1) by (simp_all add: idle_node_def)
  let ?f = "\<lambda>s. s\<lparr>cs_is_transfered := True\<rparr>" and ?bss = "[enc_route_info pi, b2]" and ?dst = "ri_device_id (route ! 0)"
  let ?out = "\<lambda>t. [enc_config_t (config_of c ?dst t d), enc_route_info_ack (info_ack_of pi a tid d)]"
  let ?I = "\<lambda>m e. if m = 0 then keeps P d e \<and> tx_items (dv_queues e) = tx_items (dv_queues d)
    else \<exists>t. keeps P (upd_config k ?f d) e \<and> queued PACKET_PRIORITY_HIGH (?out t) (dv_queues e)"
  have k: "k < CONFIG_SLOT_COUNT" "k < length (cfg_slots d)" using assms(7) cfg_len[OF ok(4)] by (simp_all add: k_def)
  have len: "unat (cs_config_len s) \<le> MAX_CONFIG_SIZE"
    using ok(4) nth_mem[OF k(2)] by (simp add: s_def k_def dev_wf_def configs_wf_def)
  have first: "\<exists>t. keeps P (upd_config k ?f d) (process_rx P (enc_route_info pi @ z) a r e) \<and>
      queued PACKET_PRIORITY_HIGH (?out t) (dv_queues (process_rx P (enc_route_info pi @ z) a r e)) \<and>
      rx_items (dv_queues (process_rx P (enc_route_info pi @ z) a r e)) = rx_items (dv_queues e)"
    if e: "keeps P d e" "tx_items (dv_queues e) = tx_items (dv_queues d)" for e z
  proof -
    have up: "psram_up P e" "dev_wf e" "dv_config e = dv_config d" "dv_info e = dv_info d" "dv_status e = Running"
      "\<And>n. region e (config_slot_psram_addr k) n = region d (config_slot_psram_addr k) n"
      using e(1) ok(3-5) by (simp_all add: keeps_def config_slot_psram_addr_def)
    note rd = cfg_mem.read_slot[OF up(1) k(1) len len, unfolded up(6)]
    let ?u = "upd_config k ?f e" and ?ack = "proc (send_route_info_ack P pi a tid STATUS_SUCCESS)"
    have u: "dv_info ?u = dv_info d" "dv_status ?u = Running" "dv_queues ?u = dv_queues e" using up(4,5) by (simp_all add: upd_config_def)
    have c: "cfg_config_len c \<noteq> 0" "cfg_route_info c = route" "ph_status (cfg_hdr c) = 0"
      using assms(10) by (simp_all add: c_def s_def config_pkt_of_def zero_hdr_def)
    have b: "build_config_pkt P pi e = (c, ?u)"
      using assms(7,9) rd up(3) unfolding build_config_pkt_def k_def[symmetric] c_def route_def s_def by (simp add: Let_def k_def)
    have g: "gateway_route_info P pi e = (STATUS_SUCCESS, proc (send_config P c ?dst STATUS_SUCCESS) ?u)"
      using assms(4,6) c u(2) b by (simp add: gateway_route_info_def mk_hdr_def)
    have run: "dv_status (proc (send_config P c ?dst STATUS_SUCCESS) ?u) = Running" using u(2) by simp
    have h: "process_rx P (enc_route_info pi @ z) a r e = ?ack (proc (send_config P c ?dst STATUS_SUCCESS) ?u)"
      using assms(2,4,5,8) g run up(4) by (simp add: route_dispatch(3) handle_route_info_def mk_hdr_def valid_device_type_def Let_def)
    obtain t where s1: "sends P PACKET_PRIORITY_HIGH (enc_config_t (config_of c ?dst t ?u)) ?u (proc (send_config P c ?dst STATUS_SUCCESS) ?u)"
      using route_sends(3)[OF ok(1)] by blast
    have i: "dv_info (proc (send_config P c ?dst STATUS_SUCCESS) ?u) = dv_info d" using u(1) by simp
    note s2 = route_sends(5)[OF ok(1), of pi a tid "proc (send_config P c ?dst STATUS_SUCCESS) ?u"]
    have hd: "config_of c ?dst t ?u = config_of c ?dst t d"
      "info_ack_of pi a tid (proc (send_config P c ?dst STATUS_SUCCESS) ?u) = info_ack_of pi a tid d"
      using u(1) i by (simp_all add: config_of_def info_ack_of_def mk_hdr_def)
    have "queued PACKET_PRIORITY_HIGH [] (dv_queues ?u)" using queued_none[OF ok(6)] u(3) by (simp add: queued_cong[OF e(2)])
    from sendsD(4)[OF s1 this] have "queued PACKET_PRIORITY_HIGH [enc_config_t (config_of c ?dst t d)] (dv_queues (proc (send_config P c ?dst STATUS_SUCCESS) ?u))"
      by (simp add: hd)
    from sendsD(4)[OF s2 this] have q: "queued PACKET_PRIORITY_HIGH (?out t) (dv_queues (?ack (proc (send_config P c ?dst STATUS_SUCCESS) ?u)))"
      by (simp add: hd)
    have "dev_wf ?u" using up(2) by (rule upd_config_wf) simp
    then have "keeps P (upd_config k ?f d) ?u"
      using e(1) ok(3,4) up(1) by (simp add: keeps_def) (simp add: upd_config_def keeps_def known_sender_def)
    then have "keeps P (upd_config k ?f d) (?ack (proc (send_config P c ?dst STATUS_SUCCESS) ?u))"
      using keeps_trans[OF _ keeps_trans[OF sendsD(1)[OF s1] sendsD(1)[OF s2]]] by blast
    moreover have "rx_items (dv_queues (?ack (proc (send_config P c ?dst STATUS_SUCCESS) ?u))) = rx_items (dv_queues e)"
      using sendsD(3)[OF s1] sendsD(3)[OF s2] u(3) by simp
    ultimately show ?thesis unfolding h using q by blast
  qed
  have run: "dv_status e = Running" if "keeps P (upd_config k ?f d) e" for e using that ok(5) by (simp add: keeps_def) (simp add: upd_config_def)
  have "?I (length ?bss) (hear P r (map (frame_of a) ?bss) d) \<and> rx_pending (dv_queues (hear P r (map (frame_of a) ?bss) d)) = []"
  proof (rule hear_steps[where I = ?I and p = PACKET_PRIORITY_HIGH, OF ok(1) assms(3) ok(7)])
    fix m e assume m: "m < length ?bss" "?I m e"
    show "let bs = ?bss ! m; e' = process_rx P (bs @ replicate (QUEUE_DATA_MAX - length bs) 0) a r e in
        ?I (Suc m) e' \<and> (Suc m < length ?bss \<longrightarrow> dv_status e' = Running) \<and> rx_items (dv_queues e') = rx_items (dv_queues e)"
    proof (cases "m = 0")
      case True
      then obtain t where t: "keeps P (upd_config k ?f d) (process_rx P (enc_route_info pi @ replicate (QUEUE_DATA_MAX - length (enc_route_info pi)) 0) a r e)"
        "queued PACKET_PRIORITY_HIGH (?out t) (dv_queues (process_rx P (enc_route_info pi @ replicate (QUEUE_DATA_MAX - length (enc_route_info pi)) 0) a r e))"
        "rx_items (dv_queues (process_rx P (enc_route_info pi @ replicate (QUEUE_DATA_MAX - length (enc_route_info pi)) 0) a r e)) = rx_items (dv_queues e)"
        using m(2) first[of e] by auto
      then show ?thesis using True run[OF t(1)] unfolding Let_def by auto
    next
      case False
      then have m1: "m = 1" using m(1) by simp
      then obtain t where t: "keeps P (upd_config k ?f d) e" "queued PACKET_PRIORITY_HIGH (?out t) (dv_queues e)" using m(2) by auto
      have same: "dv_queues (d_untrack t e) = dv_queues e" for t by (simp add: d_untrack_def)
      have "keeps P (upd_config k ?f d) (d_untrack u e)" for u by (rule keeps_trans[OF t(1) keeps_untrack])
      then show ?thesis using m1 t assms(14)[of e] by (auto simp: Let_def same)
    qed
  next
    fix m e q assume "?I m e" "tx_items q = tx_items (dv_queues e)"
    then show "?I m (e\<lparr>dv_queues := q\<rparr>)"
    proof (cases "m = 0")
      case False
      then obtain t where "keeps P (upd_config k ?f d) e" "queued PACKET_PRIORITY_HIGH (?out t) (dv_queues e)" using \<open>?I m e\<close> by auto
      moreover have "queued PACKET_PRIORITY_HIGH (?out t) q = queued PACKET_PRIORITY_HIGH (?out t) (dv_queues e)"
        by (rule queued_cong) fact
      ultimately show ?thesis using False keeps_trans[OF _ keeps_queues(1)] by (simp only: if_False) (intro exI[of _ t], simp)
    qed (use keeps_trans[OF _ keeps_queues(1)] in simp)
  qed (use assms(8,11-13) route_frame_ok(3)[OF assms(8)] in \<open>simp_all add: assms(4) mk_hdr_def\<close>)
  then obtain t where t: "keeps P (upd_config k ?f d) d1" "queued PACKET_PRIORITY_HIGH (?out t) (dv_queues d1)" unfolding d1_def by auto
  have "length (cfg_route_info (config_of c ?dst t d)) = MAX_DEPTH" "length (cfg_config (config_of c ?dst t d)) = MAX_CONFIG_SIZE"
    using len length_reverse_route[OF assms(8)] by (simp_all add: config_of_def c_def route_def config_pkt_of_def)
  then have l: "\<forall>bs\<in>set (?out t). length bs \<le> QUEUE_DATA_MAX" by simp
  have "dv_radio_id d1 = get_device_id d" using t(1) ok(8) by (simp add: keeps_def) (simp add: upd_config_def)
  then show "\<exists>t. emitted d1 (tx_phase P d1) = map (frame_of (get_device_id d)) (?out t)"
    using tx_step(2)[OF ok(1,2) t(2) _ l] by (intro exI[of _ t]) simp
  have "cfg_at d1 k = cfg_at (upd_config k ?f d) k" using t(1) by (simp add: keeps_def)
  then show "cs_is_transfered (cfg_at d1 k)" using k(2) by simp
qed

section \<open>The whole search\<close>

definition can_route :: "platform \<Rightarrow> platform \<Rightarrow> dev \<Rightarrow> dev \<Rightarrow> bool" where
  "can_route PA PG A G \<longleftrightarrow> idle_node PA A \<and> idle_node PG G \<and> get_device_type A = DEVICE_TYPE_ANCHOR \<and>
     get_device_type G = DEVICE_TYPE_GATEWAY \<and> known_sender (get_device_id G) A \<and> known_sender (get_device_id A) G \<and>
     0 < infra_count A \<and> infra_id (infra_at A 0) = get_device_id G"

text \<open>The only configuration of the gateway, in slot 0, is for a sensor that is not next to it.\<close>

definition far_config :: "dev \<Rightarrow> bool" where
  "far_config G \<longleftrightarrow> 0 < cf_active_count (dv_config G) \<and> (\<forall>j<CONFIG_SLOT_COUNT. cs_active (cfg_at G j) \<longleftrightarrow> j = 0) \<and>
     \<not> cs_is_sent (cfg_at G 0) \<and> \<not> cs_is_transfered (cfg_at G 0) \<and> cs_config_len (cfg_at G 0) \<noteq> 0 \<and>
     cs_dst_device_type (cfg_at G 0) = DEVICE_TYPE_SENSOR \<and>
     find_hop_num (cs_dst_device_id (cfg_at G 0)) DEVICE_TYPE_SENSOR G \<notin> {0, 0xFF}"

text \<open>The packet that slot \<open>k\<close> becomes with a route.\<close>

definition routed_config :: "nat \<Rightarrow> route_info_entry list \<Rightarrow> dev \<Rightarrow> config_t" where
  "routed_config k route d = (let s = cfg_at d k; n = unat (cs_config_len s) in
     (config_pkt_of s (region d (config_slot_psram_addr k) n @ replicate (MAX_CONFIG_SIZE - n) 0))\<lparr>cfg_route_info := route\<rparr>)"

text \<open>
  C25: A configuration finds its way to the anchor of the sensor. A gateway with one anchor next to it
  has a configuration, in slot 0, for a sensor that is farther away, and the channel loses nothing.
  The gateway's tick asks the anchor for the way; the anchor, which has the sensor in its table,
  answers with a route of itself and acknowledges the question; the gateway, when it hears that, sends
  exactly the bytes of the configuration, with its id, length and checksum, to that anchor, with this
  route, acknowledges the answer, and marks the slot as transferred.
\<close>

theorem route_search:
  fixes PA PG :: platform and A G :: dev and r r' :: s16
  assumes "can_route PA PG A G" "far_config G" "infra_count G = 1" "infra_id (infra_at G 0) = get_device_id A"
    "find_sensor (cs_dst_device_id (cfg_at G 0)) A \<noteq> None" "get_device_id A \<noteq> 0xFFFF"
  defines "G0 \<equiv> config_tick PG G"
  defines "G1 \<equiv> tx_phase PG G0"
  defines "A1 \<equiv> hear PA r (emitted G0 G1) A"
  defines "A2 \<equiv> tx_phase PA A1"
  defines "G2 \<equiv> hear PG r' (emitted A1 A2) G1"
  defines "route \<equiv> [\<lparr>ri_device_id = get_device_id A, ri_hop_num = get_hop_number A\<rparr>, no_route_entry, no_route_entry, no_route_entry]"
  shows "\<exists>t ack. emitted G2 (tx_phase PG G2) = map (frame_of (get_device_id G))
      [enc_config_t (config_of (routed_config 0 route G) (get_device_id A) t G), enc_route_info_ack ack] \<and>
    cs_is_transfered (cfg_at G2 0)"
proof -
  have c: "idle_node PA A" "idle_node PG G" "get_device_type A = DEVICE_TYPE_ANCHOR" "get_device_type G = DEVICE_TYPE_GATEWAY"
    "known_sender (get_device_id G) A" "known_sender (get_device_id A) G" "0 < infra_count A" "infra_id (infra_at A 0) = get_device_id G"
    using assms(1) by (simp_all add: can_route_def)
  let ?s = "cfg_at G 0" and ?h = "find_hop_num (cs_dst_device_id (cfg_at G 0)) DEVICE_TYPE_SENSOR G"
  have f: "0 < cf_active_count (dv_config G)" "\<forall>j<CONFIG_SLOT_COUNT. cs_active (cfg_at G j) \<longleftrightarrow> j = 0" "\<not> cs_is_sent ?s"
    "\<not> cs_is_transfered ?s" "cs_config_len ?s \<noteq> 0" "cs_dst_device_type ?s = DEVICE_TYPE_SENSOR" "?h \<noteq> 0" "?h \<noteq> 0xFF"
    using assms(2) by (simp_all add: far_config_def)
  let ?rd = "\<lparr>rdc_hdr = zero_hdr, rdc_device_id = cs_dst_device_id ?s, rdc_device_type = cs_dst_device_type ?s,
     rdc_hop_num = ?h, rdc_data_type = DATA_TYPE_CONFIG, rdc_data_id = 0\<rparr>"
  have hop: "find_hop_num (cs_dst_device_id ?s) (cs_dst_device_type ?s) G = ?h" by (simp add: f(6))
  note ask = gateway_asks[OF c(2,4) f(1-3) assms(3) hop f(7,8), unfolded assms(4), folded G0_def G1_def]
  obtain t1 where q: "emitted G0 G1 = [frame_of (get_device_id G) (enc_route_discovery (discovery_of ?rd (get_device_id A) t1 G))]"
    using ask(1) unfolding G1_def G0_def by blast
  have g1: "idle_node PG G1" "dv_info G1 = dv_info G" "known_sender (get_device_id A) G1"
    "\<And>n. region G1 (config_slot_psram_addr 0) n = region G (config_slot_psram_addr 0) n"
    using ask(2,3) ask(5)[OF c(6)] ask(4) unfolding G1_def G0_def by simp_all
  obtain x where x: "cfg_at G1 0 = ?s\<lparr>cs_timeout := x, cs_is_sent := True\<rparr>" using ask(6) unfolding G1_def G0_def by blast
  let ?pd = "discovery_of ?rd (get_device_id A) t1 G"
  have pd: "rdc_hdr ?pd = mk_hdr PACKET_ROUTE_DISCOVERY PACKET_PRIORITY_HIGH t1 (get_device_id A) STATUS_SUCCESS G"
    "rdc_device_type ?pd = DEVICE_TYPE_SENSOR" "find_sensor (rdc_device_id ?pd) A \<noteq> None"
    using f(6) assms(5) by (simp_all add: discovery_of_def)
  obtain t2 where a: "emitted A1 A2 = map (frame_of (get_device_id A))
    [enc_route_info (info_of \<lparr>rti_hdr = zero_hdr, rti_device_id = rdc_device_id ?pd, rti_device_type = rdc_device_type ?pd,
      rti_data_type = rdc_data_type ?pd, rti_data_id = rdc_data_id ?pd,
      rti_route_info = \<lparr>ri_device_id = get_device_id A, ri_hop_num = get_hop_number A\<rparr> # replicate (MAX_DEPTH - 1) no_route_entry\<rparr>
        (get_device_id G) t2 A), enc_route_discovery_ack (discovery_ack_of ?pd (get_device_id G) t1 A)]"
    using anchor_answers[OF c(1,3,5,7,8) pd(1) c(4) pd(2,3), of r] unfolding A2_def A1_def q by blast
  let ?pi = "\<lparr>rti_hdr = mk_hdr PACKET_ROUTE_INFO PACKET_PRIORITY_HIGH t2 (get_device_id G) STATUS_SUCCESS A,
      rti_device_id = cs_dst_device_id ?s, rti_device_type = DEVICE_TYPE_SENSOR, rti_data_type = DATA_TYPE_CONFIG, rti_data_id = 0,
      rti_route_info = route\<rparr>"
  let ?da = "discovery_ack_of ?pd (get_device_id G) t1 A"
  have four: "replicate 3 y = [y, y, y]" for y :: route_info_entry by (simp add: numeral_eq_Suc)
  have em: "emitted A1 A2 = map (frame_of (get_device_id A)) [enc_route_info ?pi, enc_route_discovery_ack ?da]"
    unfolding a by (simp add: info_of_def discovery_of_def f(6) route_def four)
  have b2: "process_rx PG (enc_route_discovery_ack ?da @ z) n r' e = e \<or>
      (\<exists>t. process_rx PG (enc_route_discovery_ack ?da @ z) n r' e = d_untrack t e)" for z n e
    by (subst (1 2) route_dispatch(2)) (auto simp: discovery_ack_of_def mk_hdr_def handle_route_discovery_ack_def)
  have rev: "reverse_route route = route"
    using assms(6) by (simp add: reverse_route_def route_def no_route_entry_def four)
  have hdr: "rti_hdr ?pi = mk_hdr PACKET_ROUTE_INFO PACKET_PRIORITY_HIGH t2 (get_device_id G1) STATUS_SUCCESS A"
    by (simp add: g1(2))
  have rest: "get_device_type G1 = DEVICE_TYPE_GATEWAY" "rti_data_type ?pi = DATA_TYPE_CONFIG" "unat (rti_data_id ?pi) < CONFIG_SLOT_COUNT"
    "length (rti_route_info ?pi) = MAX_DEPTH" "\<not> cs_is_transfered (cfg_at G1 (unat (rti_data_id ?pi)))"
    "cs_config_len (cfg_at G1 (unat (rti_data_id ?pi))) \<noteq> 0"
    using c(4) g1(2) x f(4,5) by (simp_all add: route_def)
  have fr: "2 < length (enc_route_discovery_ack ?da)" "length (enc_route_discovery_ack ?da) \<le> QUEUE_DATA_MAX"
    "enc_route_discovery_ack ?da ! 2 = PACKET_PRIORITY_HIGH"
    using route_frame_ok(2)[of ?da] by (simp_all add: discovery_ack_of_def mk_hdr_def)
  note go = gateway_follows[OF g1(1) rest(1) g1(3) hdr c(3) rest(2-6) fr b2]
  have G2: "G2 = hear PG r' (map (frame_of (get_device_id A)) [enc_route_info ?pi, enc_route_discovery_ack ?da]) G1"
    unfolding G2_def em ..
  let ?n = "unat (cs_config_len ?s)"
  let ?c = "(config_pkt_of (cfg_at G1 0) (region G1 (config_slot_psram_addr 0) (unat (cs_config_len (cfg_at G1 0))) @
      replicate (MAX_CONFIG_SIZE - unat (cs_config_len (cfg_at G1 0))) 0))\<lparr>cfg_dst_device_id := cs_dst_device_id ?s,
        cfg_dst_device_type := DEVICE_TYPE_SENSOR, cfg_data_type := DATA_TYPE_CONFIG, cfg_route_info := reverse_route route\<rparr>"
  have cfg: "?c = routed_config 0 route G"
    using x f(6) g1(4) rev by (simp add: routed_config_def config_pkt_of_def Let_def)
  have dst: "ri_device_id (reverse_route route ! 0) = get_device_id A" unfolding rev by (simp add: route_def)
  have own: "config_of c d t G1 = config_of c d t G" "get_device_id G1 = get_device_id G" for c d t
    using g1(2) by (simp_all add: config_of_def mk_hdr_def)
  obtain t where "emitted G2 (tx_phase PG G2) = map (frame_of (get_device_id G1))
      [enc_config_t (config_of ?c (ri_device_id (reverse_route route ! 0)) t G1), enc_route_info_ack (info_ack_of ?pi (get_device_id A) t2 G1)]"
    using go(1) unfolding G2 by auto
  then have "emitted G2 (tx_phase PG G2) = map (frame_of (get_device_id G))
      [enc_config_t (config_of (routed_config 0 route G) (get_device_id A) t G), enc_route_info_ack (info_ack_of ?pi (get_device_id A) t2 G1)]"
    unfolding cfg dst own .
  moreover have "cs_is_transfered (cfg_at G2 0)" using go(2) unfolding G2 by simp
  ultimately show ?thesis by blast
qed

definition route_gateway :: dev where
  "route_gateway = (boot_dev DEVICE_TYPE_GATEWAY 1 0 (ref_storage1\<lparr>st_mesh := (st_mesh ref_storage1)[
       0 := \<lparr>ms_device_type = DEVICE_TYPE_SENSOR, ms_device_id = 9, ms_serial_num = 9, ms_connected_device_id = 7, ms_hop_num = 2\<rparr>,
       1 := \<lparr>ms_device_type = DEVICE_TYPE_ANCHOR, ms_device_id = 7, ms_serial_num = 7, ms_connected_device_id = 1, ms_hop_num = 1\<rparr>],
       st_mesh_count := 2\<rparr>))
     \<lparr>dv_config := \<lparr>cf_slots = (cf_slots boot_configs)[0 := \<lparr>cs_active = True, cs_is_sent = False, cs_is_applied = False,
         cs_is_transfered = False, cs_dst_device_id = 9, cs_dst_device_type = DEVICE_TYPE_SENSOR, cs_config_id = 3, cs_config_len = 2,
         cs_config_crc32 = 5, cs_timeout = nbtimeout_init 0 0\<rparr>], cf_active_count = 1\<rparr>\<rparr>"

definition route_anchor :: dev where
  "route_anchor = boot_dev DEVICE_TYPE_ANCHOR 7 1 (ref_storage1\<lparr>
     st_infra := (st_infra ref_storage1)[0 := new_infra (ref_anchor\<lparr>ie_device_id := 1\<rparr>)],
     st_sensors := (st_sensors ref_storage1)[0 := \<lparr>sn_entry = \<lparr>se_device_id = 9, se_version = 0, se_crc32 = 0\<rparr>,
       sn_last_comm_ms = 0, sn_comm_failures = 0, sn_ping_sent = False\<rparr>], st_sensor_count := 1\<rparr>)"

lemma ref_can_route: "can_route ref_platform ref_platform route_anchor route_gateway"
  "far_config route_gateway" "infra_count route_gateway = 1" "infra_id (infra_at route_gateway 0) = get_device_id route_anchor"
  "find_sensor 9 route_anchor \<noteq> None" "get_device_id route_anchor = 7" "get_device_id route_gateway = 1"
  "cs_dst_device_id (cfg_at route_gateway 0) = 9"
proof -
  note P = platform_okD(1,4)[OF ref_platform_ok] and st = storage_okD(1)[OF ref_storage1_ok(1)]
  have l: "length (st_mesh ref_storage1) = MAX_DEVICES" "length (st_infra ref_storage1) = MAX_ANCHORS" "length (st_sensors ref_storage1) = MAX_SENSORS"
    using st by (simp_all add: storage_wf_def)
  let ?m0 = "\<lparr>ms_device_type = DEVICE_TYPE_SENSOR, ms_device_id = 9, ms_serial_num = 9, ms_connected_device_id = 7, ms_hop_num = 2\<rparr>"
  let ?m1 = "\<lparr>ms_device_type = DEVICE_TYPE_ANCHOR, ms_device_id = 7, ms_serial_num = 7, ms_connected_device_id = 1, ms_hop_num = 1\<rparr>"
  have w: "dev_wf route_anchor" "dev_wf route_gateway"
  proof -
    show "dev_wf route_anchor" unfolding route_anchor_def using st by (intro boot_dev_wf) (simp add: storage_wf_def)
    have "dev_wf (boot_dev DEVICE_TYPE_GATEWAY 1 0 (ref_storage1\<lparr>st_mesh := (st_mesh ref_storage1)[0 := ?m0, 1 := ?m1], st_mesh_count := 2\<rparr>))"
      using st by (intro boot_dev_wf) (simp add: storage_wf_def)
    moreover have "configs_wf \<lparr>cf_slots = (cf_slots boot_configs)[0 := y], cf_active_count = 1\<rparr>" if "unat (cs_config_len y) \<le> 128" for y
    proof -
      have "\<forall>s\<in>set (cf_slots boot_configs). unat (cs_config_len s) \<le> 128" "length (cf_slots boot_configs) = CONFIG_SLOT_COUNT"
        by (simp_all add: boot_configs_def)
      moreover have "s = y \<or> s \<in> set (cf_slots boot_configs)" if "s \<in> set ((cf_slots boot_configs)[0 := y])" for s
        using that set_update_subset_insert[of "cf_slots boot_configs" 0 y] by blast
      ultimately show ?thesis using that by (auto simp: configs_wf_def)
    qed
    ultimately show "dev_wf route_gateway" unfolding route_gateway_def dev_wf_def by simp
  qed
  have up: "psram_up ref_platform route_anchor" "psram_up ref_platform route_gateway"
    unfolding route_anchor_def route_gateway_def using ref_psram_up by (simp_all add: psram_up_def)
  have m: "modem_accepts ref_platform" by (simp add: modem_accepts_def ref_platform_def)
  have i: "idle_node ref_platform route_anchor" "idle_node ref_platform route_gateway"
    unfolding idle_node_def using P(1) w up m
    by (simp_all add: route_anchor_def route_gateway_def boot_dev_def boot_info_def queues_empty_def tx_pending_def rx_pending_def)
  show ids: "get_device_id route_anchor = 7" "get_device_id route_gateway = 1" "cs_dst_device_id (cfg_at route_gateway 0) = 9"
    by (simp_all add: route_gateway_def route_anchor_def boot_configs_def)
  obtain x xs where x: "st_infra ref_storage1 = x # xs" using l(2) by (cases "st_infra ref_storage1") simp_all
  obtain y ys where y: "st_sensors ref_storage1 = y # ys" using l(3) by (cases "st_sensors ref_storage1") simp_all
  obtain a b zs where z: "st_mesh ref_storage1 = a # b # zs"
    using l(1) by (cases "st_mesh ref_storage1" rule: remdups_adj.cases) simp_all
  have n: "st_infra_count ref_storage1 = 1" by (rule ref_storage1_ok(2))
  show c: "infra_count route_gateway = 1" "infra_id (infra_at route_gateway 0) = get_device_id route_anchor"
    by (simp_all add: ids(1) route_gateway_def boot_dev_def n ref_storage1_at0 stamp_infra_eq new_infra_def ref_anchor_def)
  have t: "get_device_type route_anchor = DEVICE_TYPE_ANCHOR" "get_device_type route_gateway = DEVICE_TYPE_GATEWAY"
    by (simp_all add: route_gateway_def route_anchor_def)
  have a: "infra_count route_anchor = 1" "infra_id (infra_at route_anchor 0) = 1" "infra_devs (dv_store route_anchor) = [new_infra (ref_anchor\<lparr>ie_device_id := 1\<rparr>)]"
    by (simp_all add: route_anchor_def n x new_infra_def)
  show "find_sensor 9 route_anchor \<noteq> None" by (simp add: route_anchor_def y)
  have g: "infra_devs (dv_store route_gateway) = [stamp_infra ref_platform (new_infra ref_anchor)]"
    using ref_storage1_devs(1) by (simp add: route_gateway_def)
  have "known_sender 1 route_anchor" "known_sender 7 route_gateway"
    unfolding known_sender_def a(3) g by (simp_all add: new_infra_def stamp_infra_eq ref_anchor_def)
  then show "can_route ref_platform ref_platform route_anchor route_gateway"
    unfolding can_route_def ids using i t a(1,2) by simp
  have md: "mesh_devs (dv_store route_gateway) = [?m0, ?m1]" "mesh_at route_gateway 0 = ?m0" "mesh_at route_gateway 1 = ?m1"
    by (simp_all add: route_gateway_def z)
  have hop: "find_hop_num 9 DEVICE_TYPE_SENSOR route_gateway = 1"
    unfolding find_hop_num_def md by (simp add: ids md md(3)[unfolded One_nat_def] Let_def)
  have act: "cs_active (cfg_at route_gateway j) \<longleftrightarrow> j = 0" if "j < CONFIG_SLOT_COUNT" for j
    using that by (cases "j = 0") (simp_all add: route_gateway_def boot_configs_def)
  then show "far_config route_gateway"
    unfolding far_config_def ids(3) hop by (simp add: route_gateway_def boot_configs_def)
qed

theorem route_search_witness:
  "let G0 = config_tick ref_platform route_gateway; G1 = tx_phase ref_platform G0;
       A1 = hear ref_platform 0 (emitted G0 G1) route_anchor; A2 = tx_phase ref_platform A1;
       G2 = hear ref_platform 0 (emitted A1 A2) G1
   in length (emitted G2 (tx_phase ref_platform G2)) = 2 \<and> cs_is_transfered (cfg_at G2 0)"
proof -
  have s: "find_sensor (cs_dst_device_id (cfg_at route_gateway 0)) route_anchor \<noteq> None" using ref_can_route(5,8) by simp
  have "get_device_id route_anchor \<noteq> 0xFFFF" by (simp add: ref_can_route(6))
  from route_search[OF ref_can_route(1-4) s this, of 0 0] show ?thesis
    unfolding Let_def by (metis length_map length_Cons list.size(3) One_nat_def numeral_2_eq_2)
qed

text \<open>
  C26: The answer of an anchor that is farther away is lost on its way. When an anchor next to the
  gateway gets a ROUTE_INFO answer from another anchor, whatever its route, it forwards one with a
  route of zeros; the gateway, when it hears that, sends the configuration to device 0, which no node
  that has another id takes, and marks the slot as transferred.
\<close>

theorem forwarded_answer_lost:
  fixes PB PG :: platform and A B G :: dev and pi :: route_info and a :: u16 and r r' :: s16
  assumes "can_route PB PG B G" "known_sender a B"
    "rti_hdr pi = mk_hdr PACKET_ROUTE_INFO PACKET_PRIORITY_HIGH tid (get_device_id B) STATUS_SUCCESS A"
    "get_device_type A = DEVICE_TYPE_ANCHOR" "rti_data_type pi = DATA_TYPE_CONFIG" "length (rti_route_info pi) = MAX_DEPTH"
    "unat (rti_data_id pi) < CONFIG_SLOT_COUNT" "\<not> cs_is_transfered (cfg_at G (unat (rti_data_id pi)))"
    "cs_config_len (cfg_at G (unat (rti_data_id pi))) \<noteq> 0"
  defines "k \<equiv> unat (rti_data_id pi)"
  defines "B1 \<equiv> hear PB r [frame_of a (enc_route_info pi)] B"
  defines "G1 \<equiv> hear PG r' (emitted B1 (tx_phase PB B1)) G"
  defines "c \<equiv> (routed_config k zero_route G)\<lparr>cfg_dst_device_id := rti_device_id pi, cfg_dst_device_type := rti_device_type pi\<rparr>"
  shows "\<exists>t ack. emitted G1 (tx_phase PG G1) = map (frame_of (get_device_id G))
      [enc_config_t (config_of c 0 t G), enc_route_info_ack ack] \<and>
    (\<forall>P n r d. get_device_id d \<noteq> 0 \<longrightarrow> handle_config P (config_of c 0 t G) n r d = d) \<and> cs_is_transfered (cfg_at G1 k)"
proof -
  have c: "idle_node PB B" "idle_node PG G" "get_device_type B = DEVICE_TYPE_ANCHOR" "get_device_type G = DEVICE_TYPE_GATEWAY"
    "known_sender (get_device_id B) G" "0 < infra_count B" "infra_id (infra_at B 0) = get_device_id G"
    using assms(1) by (simp_all add: can_route_def)
  obtain t where em: "emitted B1 (tx_phase PB B1) = map (frame_of (get_device_id B))
    [enc_route_info (info_of (build_route_info pi B) (get_device_id G) t B), enc_route_info_ack (info_ack_of pi a tid B)]"
    using anchor_forwards[OF c(1,3) assms(2) c(6,7) assms(3,4,6)] unfolding B1_def by blast
  let ?pi = "info_of (build_route_info pi B) (get_device_id G) t B" and ?ack = "info_ack_of pi a tid B"
  have pi: "rti_hdr ?pi = mk_hdr PACKET_ROUTE_INFO PACKET_PRIORITY_HIGH t (get_device_id G) STATUS_SUCCESS B"
    "rti_data_type ?pi = DATA_TYPE_CONFIG" "unat (rti_data_id ?pi) < CONFIG_SLOT_COUNT" "length (rti_route_info ?pi) = MAX_DEPTH"
    "\<not> cs_is_transfered (cfg_at G (unat (rti_data_id ?pi)))" "cs_config_len (cfg_at G (unat (rti_data_id ?pi))) \<noteq> 0"
    "rti_route_info ?pi = zero_route" "rti_data_id ?pi = rti_data_id pi" "rti_device_id ?pi = rti_device_id pi" "rti_device_type ?pi = rti_device_type pi"
    using assms(5,7-9) by (simp_all add: info_of_def forwarded_route(1) zero_route_def)
  have fr: "2 < length (enc_route_info_ack ?ack)" "length (enc_route_info_ack ?ack) \<le> QUEUE_DATA_MAX" "enc_route_info_ack ?ack ! 2 = PACKET_PRIORITY_HIGH"
    using route_frame_ok(4)[of ?ack] by (simp_all add: info_ack_of_def mk_hdr_def)
  have b2: "process_rx PG (enc_route_info_ack ?ack @ z) n r' e = e \<or>
      (\<exists>t. process_rx PG (enc_route_info_ack ?ack @ z) n r' e = d_untrack t e)" for z n e
    by (subst (1 2) route_dispatch(4)) (auto simp: info_ack_of_def mk_hdr_def handle_route_info_ack_def)
  note go = gateway_follows[OF c(2,4,5) pi(1) c(3) pi(2-6) fr b2, unfolded pi(7-10) pi(2) forwarded_route(2)]
  have dst: "ri_device_id (zero_route ! 0) = 0" by (simp add: zero_route_def)
  have G1: "G1 = hear PG r' (map (frame_of (get_device_id B)) [enc_route_info ?pi, enc_route_info_ack ?ack]) G"
    unfolding G1_def em ..
  have eq: "(config_pkt_of (cfg_at G k) (region G (config_slot_psram_addr k) (unat (cs_config_len (cfg_at G k))) @
      replicate (MAX_CONFIG_SIZE - unat (cs_config_len (cfg_at G k))) 0))\<lparr>cfg_dst_device_id := rti_device_id pi,
        cfg_dst_device_type := rti_device_type pi, cfg_data_type := DATA_TYPE_CONFIG, cfg_route_info := zero_route\<rparr> = c"
    by (simp add: c_def routed_config_def config_pkt_of_def Let_def)
  obtain u where "emitted G1 (tx_phase PG G1) = map (frame_of (get_device_id G))
      [enc_config_t (config_of c 0 u G), enc_route_info_ack (info_ack_of ?pi (get_device_id B) t G)]"
    using go(1) unfolding G1 dst k_def[symmetric] eq by blast
  moreover have "\<forall>P n r d. get_device_id d \<noteq> 0 \<longrightarrow> handle_config P (config_of c 0 u G) n r d = d"
    by (simp add: handle_config_def config_of_def mk_hdr_def Let_def)
  moreover have "cs_is_transfered (cfg_at G1 k)" using go(2) unfolding G1 k_def .
  ultimately show ?thesis by blast
qed

theorem forwarded_answer_lost_witness:
  "let B1 = hear ref_platform 0 [frame_of 9 (enc_route_info \<lparr>rti_hdr = mk_hdr PACKET_ROUTE_INFO PACKET_PRIORITY_HIGH 5 7 STATUS_SUCCESS route_anchor,
        rti_device_id = 9, rti_device_type = DEVICE_TYPE_SENSOR, rti_data_type = DATA_TYPE_CONFIG, rti_data_id = 0,
        rti_route_info = \<lparr>ri_device_id = 8, ri_hop_num = 2\<rparr> # replicate 3 no_route_entry\<rparr>)] route_anchor;
       G1 = hear ref_platform 0 (emitted B1 (tx_phase ref_platform B1)) route_gateway
   in length (emitted G1 (tx_phase ref_platform G1)) = 2 \<and> cs_is_transfered (cfg_at G1 0)"
proof -
  let ?pi = "\<lparr>rti_hdr = mk_hdr PACKET_ROUTE_INFO PACKET_PRIORITY_HIGH 5 7 STATUS_SUCCESS route_anchor,
        rti_device_id = 9, rti_device_type = DEVICE_TYPE_SENSOR, rti_data_type = DATA_TYPE_CONFIG, rti_data_id = 0,
        rti_route_info = \<lparr>ri_device_id = 8, ri_hop_num = 2\<rparr> # replicate 3 no_route_entry\<rparr>"
  have h: "rti_hdr ?pi = mk_hdr PACKET_ROUTE_INFO PACKET_PRIORITY_HIGH 5 (get_device_id route_anchor) STATUS_SUCCESS route_anchor"
    by (simp add: ref_can_route(6))
  have p: "get_device_type route_anchor = DEVICE_TYPE_ANCHOR" "known_sender 9 route_anchor" using ref_can_route(1,5)
    by (auto simp: can_route_def known_sender_def find_idx_None_iff)
  have f: "\<not> cs_is_transfered (cfg_at route_gateway 0)" "cs_config_len (cfg_at route_gateway 0) \<noteq> 0"
    using ref_can_route(2) by (simp_all add: far_config_def)
  have k: "rti_data_type ?pi = DATA_TYPE_CONFIG" "length (rti_route_info ?pi) = MAX_DEPTH" "unat (rti_data_id ?pi) < CONFIG_SLOT_COUNT"
    "\<not> cs_is_transfered (cfg_at route_gateway (unat (rti_data_id ?pi)))" "cs_config_len (cfg_at route_gateway (unat (rti_data_id ?pi))) \<noteq> 0"
    "unat (rti_data_id ?pi) = 0"
    using f by simp_all
  show ?thesis
    using forwarded_answer_lost[OF ref_can_route(1) p(2) h p(1) k(1-5), of 0 0] unfolding Let_def k(6)
    by (metis length_map length_Cons list.size(3) One_nat_def numeral_2_eq_2)
qed

end
