(* ===== verification/Radio_Phy.thy ===== *)
theory Radio_Phy
  imports Main_Sub
begin

text \<open>
  The modem side of the radio (src/radio.c): the event handler with its semaphores, the physical
  header of a transmission, and the start-up of the modem in src/main.c. The modem is a parameter:
  the results of the calls, and the events that it delivers while the main loop waits.
\<close>

section \<open>State and events\<close>

text \<open>\<open>operation_sem\<close> and \<open>deinit_sem\<close> are binary semaphores.\<close>

record phy =
  ph_radio_exit :: bool
  ph_operation_sem :: bool
  ph_deinit_sem :: bool
  ph_modem_time :: u64

text \<open>The events with the fields that the callbacks use; \<open>err\<close> is the error code of an event.\<close>

datatype phy_event = Evt_Init int | Evt_Deinit int | Evt_Activate int | Evt_Deactivate int | Evt_Configure int
  | Evt_Radio_Config int | Evt_Completed int | Evt_Canceled int | Evt_Rssi | Evt_Pcc bytes | Evt_Pcc_Error
  | Evt_Pdc s16 bytes | Evt_Pdc_Error | Evt_Time int | Evt_Capability int | Evt_Bands int | Evt_Latency int
  | Evt_Link_Config int | Evt_Stf_Config | Evt_Test_Rf_Tx_Cw

section \<open>The physical header\<close>

text \<open>\<open>struct phy_ctrl_field_common\<close>; the bit fields are laid out from the least significant bit.\<close>

record phy_header =
  hf_packet_length :: u8
  hf_packet_length_type :: u8
  hf_header_format :: u8
  hf_short_network_id :: u8
  hf_transmitter_id_hi :: u8
  hf_transmitter_id_lo :: u8
  hf_df_mcs :: u8
  hf_reserved :: u8
  hf_transmit_power :: u8

definition enc_phy_header :: "phy_header \<Rightarrow> bytes" where
  "enc_phy_header h =
    [(hf_packet_length h AND 0x0F) OR push_bit 4 (hf_packet_length_type h AND 1) OR push_bit 5 (hf_header_format h AND 7),
     hf_short_network_id h, hf_transmitter_id_hi h, hf_transmitter_id_lo h,
     (hf_df_mcs h AND 7) OR push_bit 3 (hf_reserved h AND 1) OR push_bit 4 (hf_transmit_power h AND 0x0F), 0, 0, 0]"

text \<open>The header of \<open>transmit\<close>; network id, power and coding scheme are build options.\<close>

definition tx_header :: "u32 \<Rightarrow> u8 \<Rightarrow> u8 \<Rightarrow> nat \<Rightarrow> u8 \<Rightarrow> dev \<Rightarrow> phy_header" where
  "tx_header network_id tx_power mcs len packet_length d =
    \<lparr>hf_packet_length = packet_length_code len packet_length, hf_packet_length_type = 0, hf_header_format = 0,
     hf_short_network_id = ucast (network_id AND 0xFF),
     hf_transmitter_id_hi = ucast (drop_bit 8 (dv_radio_id d)), hf_transmitter_id_lo = ucast (dv_radio_id d AND 0xFF),
     hf_df_mcs = mcs, hf_reserved = 0, hf_transmit_power = tx_power\<rparr>"

section \<open>The request to receive\<close>

text \<open>
  The parameters that \<open>receive\<close> computes: those that it sets to constants of the modem's interface are
  left out. The network id and the carrier are build options, \<open>rate\<close> is the modem's ticks per
  millisecond (69120 in its documentation), \<open>modem\<close> its answer to the request.
\<close>

record rx_params =
  xp_handle :: u32
  xp_network_id :: u32
  xp_carrier :: u16
  xp_duration :: u32
  xp_short_network_id :: u8
  xp_receiver_identity :: u16

definition rx_params_of :: "u32 \<Rightarrow> u16 \<Rightarrow> u32 \<Rightarrow> u32 \<Rightarrow> u32 \<Rightarrow> rx_params" where
  "rx_params_of network_id carrier rate handle ms = \<lparr>xp_handle = handle, xp_network_id = network_id, xp_carrier = carrier,
     xp_duration = ms * rate, xp_short_network_id = ucast (network_id AND 0xFF), xp_receiver_identity = 0\<rparr>"

definition receive :: "(rx_params \<Rightarrow> int) \<Rightarrow> u32 \<Rightarrow> u16 \<Rightarrow> u32 \<Rightarrow> u32 \<Rightarrow> u32 \<Rightarrow> int" where
  "receive modem network_id carrier rate handle ms = modem (rx_params_of network_id carrier rate handle ms)"

text \<open>
  The window is as long as asked for up to 62137 ms, and wraps around from there on; main_sub.c asks for
  100 ms. The receiver's filter is the short network id that a transmission in the network carries.
\<close>

lemma receive_window:
  "unat ms \<le> 62137 \<Longrightarrow> unat (xp_duration (rx_params_of net car 69120 h ms)) = unat ms * 69120"
  "unat (xp_duration (rx_params_of net car 69120 h 62138)) < 69120"
  "xp_short_network_id (rx_params_of net car rate h ms) = hf_short_network_id (tx_header net pw mcs len pl d)"
  by (simp_all add: rx_params_of_def tx_header_def unat_mult_lem[THEN iffD1])

section \<open>Callbacks\<close>

definition give_operation :: "phy \<Rightarrow> phy" where
  "give_operation p = p\<lparr>ph_operation_sem := True\<rparr>"

definition on_init :: "int \<Rightarrow> phy \<Rightarrow> phy" where
  "on_init err p = (if err \<noteq> 0 then p\<lparr>ph_radio_exit := True\<rparr> else give_operation p)"

definition on_deinit :: "int \<Rightarrow> phy \<Rightarrow> phy" where
  "on_deinit err p = (if err \<noteq> 0 then p else p\<lparr>ph_deinit_sem := True\<rparr>)"

definition on_activate :: "int \<Rightarrow> phy \<Rightarrow> phy" where
  "on_activate err p = (if err \<noteq> 0 then p\<lparr>ph_radio_exit := True\<rparr> else give_operation p)"

definition on_deactivate :: "int \<Rightarrow> phy \<Rightarrow> phy" where
  "on_deactivate err p = (if err \<noteq> 0 then p else p\<lparr>ph_deinit_sem := True\<rparr>)"

definition on_configure :: "int \<Rightarrow> phy \<Rightarrow> phy" where
  "on_configure err p = (if err \<noteq> 0 then p else give_operation p)"

definition on_radio_config :: "int \<Rightarrow> phy \<Rightarrow> phy" where
  "on_radio_config err p = (if err \<noteq> 0 then p else give_operation p)"

definition on_cancel :: "int \<Rightarrow> phy \<Rightarrow> phy" where
  "on_cancel err p = give_operation p"

definition on_op_complete :: "int \<Rightarrow> phy \<Rightarrow> phy" where
  "on_op_complete err p = give_operation p"

text \<open>The transmitter that the header of a received packet names.\<close>

definition on_pcc :: "bytes \<Rightarrow> dev \<Rightarrow> dev" where
  "on_pcc hdr d = d\<lparr>dv_last_sender := push_bit 8 (ucast (hdr ! 2)) OR ucast (hdr ! 3)\<rparr>"

text \<open>The callbacks that only log change nothing.\<close>

fun phy_effect :: "phy_event \<Rightarrow> phy \<Rightarrow> phy" where
  "phy_effect (Evt_Init err) p = on_init err p"
| "phy_effect (Evt_Deinit err) p = on_deinit err p"
| "phy_effect (Evt_Activate err) p = on_activate err p"
| "phy_effect (Evt_Deactivate err) p = on_deactivate err p"
| "phy_effect (Evt_Configure err) p = on_configure err p"
| "phy_effect (Evt_Radio_Config err) p = on_radio_config err p"
| "phy_effect (Evt_Completed err) p = on_op_complete err p"
| "phy_effect (Evt_Canceled err) p = on_cancel err p"
| "phy_effect _ p = p"

definition dect_phy_event_handler :: "platform \<Rightarrow> u64 \<Rightarrow> phy_event \<Rightarrow> phy \<times> dev \<Rightarrow> phy \<times> dev" where
  "dect_phy_event_handler P time ev s = (
     let p = phy_effect ev ((fst s)\<lparr>ph_modem_time := time\<rparr>) in
     (p, case ev of Evt_Pcc hdr \<Rightarrow> on_pcc hdr (snd s) | Evt_Pdc rssi_2 data \<Rightarrow> on_pdc P rssi_2 data (snd s) | _ \<Rightarrow> snd s))"

section \<open>Start-up\<close>

text \<open>\<open>k_sem_take(&operation_sem, K_FOREVER)\<close>: None if none of the events gives the semaphore.\<close>

primrec operation_wait :: "phy_event list \<Rightarrow> phy \<Rightarrow> (phy_event list \<times> phy) option" where
  "operation_wait [] p = (if ph_operation_sem p then Some ([], p\<lparr>ph_operation_sem := False\<rparr>) else None)"
| "operation_wait (ev # evs) p = (if ph_operation_sem p then Some (ev # evs, p\<lparr>ph_operation_sem := False\<rparr>)
     else operation_wait evs (phy_effect ev p))"

record phy_calls =
  pc_lib_init :: int
  pc_handler_set :: int
  pc_phy_init :: int
  pc_phy_configure :: int
  pc_phy_activate :: int

text \<open>One request to the modem: its result, then the wait for its answer.\<close>

definition phy_request :: "int \<Rightarrow> phy_event list \<Rightarrow> phy \<Rightarrow> (int \<times> phy_event list \<times> phy) option" where
  "phy_request err evs p = (
     if err \<noteq> 0 then Some (err, evs, p)
     else case operation_wait evs p of
       None \<Rightarrow> None
     | Some (evs, p) \<Rightarrow> Some (if ph_radio_exit p then - EIO else 0, evs, p))"

text \<open>\<open>main\<close> up to the modem being active. The error of the capability request is only logged.\<close>

definition radio_start :: "phy_calls \<Rightarrow> phy_event list \<Rightarrow> phy \<Rightarrow> (int \<times> phy_event list \<times> phy) option" where
  "radio_start C evs p = (
     if pc_lib_init C \<noteq> 0 then Some (pc_lib_init C, evs, p)
     else if pc_handler_set C \<noteq> 0 then Some (pc_handler_set C, evs, p)
     else case phy_request (pc_phy_init C) evs p of
       None \<Rightarrow> None
     | Some (err, evs, p) \<Rightarrow>
         if err \<noteq> 0 then Some (err, evs, p)
         else case phy_request (pc_phy_configure C) evs p of
           None \<Rightarrow> None
         | Some (err, evs, p) \<Rightarrow>
             if err \<noteq> 0 then Some (err, evs, p) else phy_request (pc_phy_activate C) evs p)"

section \<open>What the transmitter writes the receiver reads\<close>

lemma id_halves: "(push_bit 8 (ucast (ucast (drop_bit 8 i) :: u8)) OR ucast (ucast (i AND 0xFF) :: u8) :: u16) = i"
  for i :: u16
proof (rule bit_word_eqI)
  fix n assume "n < LENGTH(16)"
  moreover have "bit (0xFF :: u16) n \<longleftrightarrow> n < 8"
    using bit_mask_iff[of 8 n, where 'a = u16] by (auto simp: mask_eq_exp_minus_1)
  ultimately show "bit (push_bit 8 (ucast (ucast (drop_bit 8 i) :: u8)) OR ucast (ucast (i AND 0xFF) :: u8) :: u16) n = bit i n"
    by (auto simp: bit_simps)
qed

text \<open>
  A packet names its transmitter. Whatever the build options, length and requested length code,
  a node that receives the header of a transmission takes the transmitter's radio identity as the
  sender of the packet that follows, and the length field holds the length code.
\<close>

theorem pcc_names_transmitter:
  "dv_last_sender (snd (dect_phy_event_handler P time (Evt_Pcc (enc_phy_header (tx_header net pw mcs len pl a))) (p, b))) = dv_radio_id a \<and>
   enc_phy_header (tx_header net pw mcs len pl a) ! 0 = packet_length_code len pl"
proof -
  have "packet_length_code len pl \<le> 15" by (simp add: packet_length_code_def Let_def not_less)
  then have "unat (packet_length_code len pl) < 16" by (simp add: word_le_nat_alt)
  moreover have "packet_length_code len pl AND 0x0F = take_bit 4 (packet_length_code len pl)"
    by (simp add: take_bit_eq_mask mask_eq_exp_minus_1)
  ultimately have "packet_length_code len pl AND 0x0F = packet_length_code len pl"
    by (simp add: word_unat_eq_iff unsigned_take_bit_eq take_bit_nat_eq_self)
  then show ?thesis
    by (simp add: dect_phy_event_handler_def on_pcc_def enc_phy_header_def tx_header_def id_halves numeral_2_eq_2 numeral_3_eq_3)
qed

section \<open>The start ends or waits for ever\<close>

definition no_operation :: "phy_event \<Rightarrow> bool" where
  "no_operation ev \<longleftrightarrow> (\<forall>p. ph_operation_sem (phy_effect ev p) = ph_operation_sem p \<and> ph_radio_exit (phy_effect ev p) = ph_radio_exit p)"

definition quiet :: "phy \<Rightarrow> bool" where
  "quiet p \<longleftrightarrow> \<not> ph_operation_sem p \<and> \<not> ph_radio_exit p"

lemma wait_skip:
  assumes "\<forall>ev\<in>set q. no_operation ev" "\<not> ph_operation_sem p"
  shows "\<exists>p'. operation_wait (q @ evs) p = operation_wait evs p' \<and> \<not> ph_operation_sem p' \<and> ph_radio_exit p' = ph_radio_exit p"
  using assms
proof (induction q arbitrary: p)
  case (Cons ev q)
  have "\<not> ph_operation_sem (phy_effect ev p)" "ph_radio_exit (phy_effect ev p) = ph_radio_exit p"
    using Cons.prems by (simp_all add: no_operation_def)
  then show ?case using Cons.IH[of "phy_effect ev p"] Cons.prems by simp
qed auto

lemma wait_none: "\<forall>ev\<in>set q. no_operation ev \<Longrightarrow> \<not> ph_operation_sem p \<Longrightarrow> operation_wait q p = None"
  using wait_skip[of q p "[]"] by auto

lemma request_answered:
  assumes "\<forall>ev\<in>set q. no_operation ev" "quiet p" "\<And>p. quiet p \<Longrightarrow> quiet ((phy_effect ev p)\<lparr>ph_operation_sem := False\<rparr>) \<and> ph_operation_sem (phy_effect ev p)"
  obtains p' where "phy_request 0 (q @ ev # evs) p = Some (0, evs, p')" "quiet p'"
proof -
  obtain p1 where p1: "operation_wait (q @ ev # evs) p = operation_wait (ev # evs) p1" "quiet p1"
    using wait_skip[OF assms(1), of p "ev # evs"] assms(2) by (auto simp: quiet_def)
  let ?p' = "(phy_effect ev p1)\<lparr>ph_operation_sem := False\<rparr>"
  have "operation_wait (ev # evs) p1 = Some (evs, ?p')" using p1(2) assms(3)[OF p1(2)] by (cases evs) (auto simp: quiet_def)
  then have "phy_request 0 (q @ ev # evs) p = Some (0, evs, ?p')" "quiet ?p'"
    using p1(1) assms(3)[OF p1(2)] by (auto simp: phy_request_def quiet_def)
  then show ?thesis by (rule that)
qed

lemma request_blocked:
  assumes "\<forall>ev\<in>set (q @ q'). no_operation ev" "quiet p" "\<And>p. \<not> ph_operation_sem p \<Longrightarrow> \<not> ph_operation_sem (phy_effect ev p)"
  shows "phy_request 0 (q @ ev # q') p = None"
proof -
  obtain p1 where "operation_wait (q @ ev # q') p = operation_wait (ev # q') p1" "\<not> ph_operation_sem p1"
    using wait_skip[of q p "ev # q'"] assms(1,2) by (auto simp: quiet_def)
  then show ?thesis using wait_none[of q' "phy_effect ev p1"] assms(1,3) by (simp add: phy_request_def)
qed

text \<open>
  C40: The start of the modem succeeds or never returns. When the requests are accepted and the modem
  answers each of them, with any events in between that give no semaphore, the start returns 0 if all
  answers are good; if one reports an error, \<open>main\<close> waits for the semaphore for ever and the check of
  \<open>radio_exit\<close> behind the wait is not reached.
\<close>

theorem radio_start_or_hang:
  assumes "pc_lib_init C = 0" "pc_handler_set C = 0" "pc_phy_init C = 0" "pc_phy_configure C = 0" "pc_phy_activate C = 0"
    "\<not> ph_operation_sem p" "\<not> ph_radio_exit p" "\<forall>ev\<in>set (q1 @ q2 @ q3 @ q4). no_operation ev" "err \<noteq> 0"
  shows "map_option (\<lambda>r. (fst r, fst (snd r))) (radio_start C (q1 @ Evt_Init 0 # q2 @ Evt_Configure 0 # q3 @ Evt_Activate 0 # q4) p) = Some (0, q4) \<and>
    radio_start C (q1 @ Evt_Init err # q2) p = None \<and>
    radio_start C (q1 @ Evt_Init 0 # q2 @ Evt_Configure err # q3) p = None \<and>
    radio_start C (q1 @ Evt_Init 0 # q2 @ Evt_Configure 0 # q3 @ Evt_Activate err # q4) p = None"
proof -
  have p: "quiet p" using assms(6,7) by (simp add: quiet_def)
  have good: "quiet p \<Longrightarrow> quiet ((phy_effect ev p)\<lparr>ph_operation_sem := False\<rparr>) \<and> ph_operation_sem (phy_effect ev p)"
    if "ev \<in> {Evt_Init 0, Evt_Configure 0, Evt_Activate 0}" for ev p
    using that by (auto simp: quiet_def on_init_def on_configure_def on_activate_def give_operation_def)
  have bad: "\<not> ph_operation_sem p \<Longrightarrow> \<not> ph_operation_sem (phy_effect ev p)"
    if "ev \<in> {Evt_Init err, Evt_Configure err, Evt_Activate err}" for ev p
    using that assms(9) by (auto simp: on_init_def on_configure_def on_activate_def)
  have q: "\<forall>ev\<in>set q1. no_operation ev" "\<forall>ev\<in>set q2. no_operation ev" "\<forall>ev\<in>set q3. no_operation ev"
    "\<forall>ev\<in>set (q1 @ q2). no_operation ev" "\<forall>ev\<in>set (q2 @ q3). no_operation ev" "\<forall>ev\<in>set (q3 @ q4). no_operation ev"
    using assms(8) by auto
  note start = radio_start_def assms(1-5)
  have init: "\<exists>p'. quiet p' \<and> phy_request 0 (q1 @ Evt_Init 0 # evs) p = Some (0, evs, p')" for evs
    by (rule request_answered[OF q(1) p good[of "Evt_Init 0"], of evs]) auto
  have conf: "\<exists>p'. quiet p' \<and> phy_request 0 (q2 @ Evt_Configure 0 # evs) u = Some (0, evs, p')" if "quiet u" for evs u
    by (rule request_answered[OF q(2) that good[of "Evt_Configure 0"], of evs]) auto
  have act: "\<exists>p'. phy_request 0 (q3 @ Evt_Activate 0 # evs) u = Some (0, evs, p')" if "quiet u" for evs u
    by (rule request_answered[OF q(3) that good[of "Evt_Activate 0"], of evs]) auto
  have "phy_request 0 (q1 @ Evt_Init err # q2) p = None" by (rule request_blocked[OF q(4) p bad]) auto
  moreover have "quiet u \<Longrightarrow> phy_request 0 (q2 @ Evt_Configure err # q3) u = None" for u
    by (rule request_blocked[OF q(5) _ bad]) auto
  moreover have "quiet u \<Longrightarrow> phy_request 0 (q3 @ Evt_Activate err # q4) u = None" for u
    by (rule request_blocked[OF q(6) _ bad]) auto
  moreover obtain u where u: "quiet u" "phy_request 0 (q1 @ Evt_Init 0 # q2 @ Evt_Configure 0 # q3 @ Evt_Activate 0 # q4) p =
      Some (0, q2 @ Evt_Configure 0 # q3 @ Evt_Activate 0 # q4, u)"
    using init by blast
  moreover obtain v where "quiet v" "phy_request 0 (q2 @ Evt_Configure 0 # q3 @ Evt_Activate 0 # q4) u = Some (0, q3 @ Evt_Activate 0 # q4, v)"
    using conf[OF u(1)] by blast
  moreover obtain w where "phy_request 0 (q3 @ Evt_Activate 0 # q4) v = Some (0, q4, w)"
    using act \<open>quiet v\<close> by blast
  moreover obtain u' where u': "quiet u'" "phy_request 0 (q1 @ Evt_Init 0 # q2 @ Evt_Configure err # q3) p =
      Some (0, q2 @ Evt_Configure err # q3, u')"
    using init by blast
  moreover obtain u2 where u2: "quiet u2" "phy_request 0 (q1 @ Evt_Init 0 # q2 @ Evt_Configure 0 # q3 @ Evt_Activate err # q4) p =
      Some (0, q2 @ Evt_Configure 0 # q3 @ Evt_Activate err # q4, u2)"
    using init by blast
  moreover obtain v2 where "quiet v2" "phy_request 0 (q2 @ Evt_Configure 0 # q3 @ Evt_Activate err # q4) u2 = Some (0, q3 @ Evt_Activate err # q4, v2)"
    using conf[OF u2(1)] by blast
  ultimately show ?thesis by (simp add: start)
qed

theorem radio_start_or_hang_witness:
  "radio_start \<lparr>pc_lib_init = 0, pc_handler_set = 0, pc_phy_init = 0, pc_phy_configure = 0, pc_phy_activate = 0\<rparr>
     [Evt_Rssi, Evt_Init 1, Evt_Capability 0] \<lparr>ph_radio_exit = False, ph_operation_sem = False, ph_deinit_sem = False, ph_modem_time = 0\<rparr> = None"
proof -
  have "\<forall>ev\<in>set ([Evt_Rssi] @ [Evt_Capability 0] @ [] @ []). no_operation ev" by (simp add: no_operation_def)
  then show ?thesis
    using radio_start_or_hang[of "\<lparr>pc_lib_init = 0, pc_handler_set = 0, pc_phy_init = 0, pc_phy_configure = 0, pc_phy_activate = 0\<rparr>"
      "\<lparr>ph_radio_exit = False, ph_operation_sem = False, ph_deinit_sem = False, ph_modem_time = 0\<rparr>"
      "[Evt_Rssi]" "[Evt_Capability 0]" "[]" "[]" 1] by simp
qed

end
