(* ===== verification/At_Uart.thy ===== *)
theory At_Uart
  imports Prelude
begin

text \<open>
  The UART transport of the AT interface (src/slm_at_uart.c): interrupt callback, the two work
  items, and the calls of the main loop. Zephyr's ring buffers and UART driver are parameters; the
  interrupts and work items that run while the main loop blocks are explicit lists of inputs.
\<close>

abbreviation (input) UART_SLM_AT_TX_BUF_LEN :: nat where "UART_SLM_AT_TX_BUF_LEN \<equiv> 2048"
abbreviation (input) UART_SLM_AT_BUF_LEN :: nat where "UART_SLM_AT_BUF_LEN \<equiv> 512"
abbreviation (input) UART_SLM_AT_RINGBUF_SIZE :: nat where "UART_SLM_AT_RINGBUF_SIZE \<equiv> 4096"
abbreviation (input) AT_MESSAGE_SIZE :: nat where "AT_MESSAGE_SIZE \<equiv> 1024"

section \<open>The parameters\<close>

text \<open>A ring buffer: its bytes, oldest first, and how many of them are claimed for reading.\<close>

record ring =
  rb_data :: bytes
  rb_claimed :: nat

text \<open>The two DMA buffers, the calls to the driver, and what the driver reports.\<close>

datatype dma_buffer = Dma_Buf | Dma_Buf2

datatype uart_request = Callback_Set | Rx_Enable dma_buffer | Rx_Disable | Rx_Buf_Rsp dma_buffer | Tx bytes

datatype uart_event = Tx_Done nat | Tx_Aborted nat | Rx_Rdy bytes | Rx_Buf_Request | Rx_Buf_Released dma_buffer
  | Rx_Disabled | Rx_Stopped int | Other_Event

text \<open>
  \<open>ue_put cap r bs\<close> is \<open>ring_buf_put\<close> on a ring of \<open>cap\<close> bytes, \<open>ue_get\<close>, \<open>ue_claim\<close> and
  \<open>ue_finish\<close> are \<open>ring_buf_get\<close>, \<open>ring_buf_get_claim\<close> and \<open>ring_buf_get_finish\<close>, \<open>ue_space\<close> and
  \<open>ue_empty\<close> the queries. \<open>ue_result h c\<close> is the driver's result of call \<open>c\<close> after the calls \<open>h\<close>.
\<close>

record uart_env =
  ue_ready :: bool
  ue_put :: "nat \<Rightarrow> ring \<Rightarrow> bytes \<Rightarrow> nat \<times> ring"
  ue_get :: "ring \<Rightarrow> nat \<Rightarrow> bytes \<times> ring"
  ue_claim :: "ring \<Rightarrow> nat \<Rightarrow> bytes \<times> ring"
  ue_finish :: "ring \<Rightarrow> nat \<Rightarrow> int \<times> ring"
  ue_space :: "nat \<Rightarrow> ring \<Rightarrow> nat"
  ue_empty :: "ring \<Rightarrow> bool"
  ue_result :: "(uart_request \<times> int) list \<Rightarrow> uart_request \<Rightarrow> int"

text \<open>
  The documented behaviour of a ring buffer: \<open>put\<close> stores what fits, \<open>get\<close> takes from the front,
  \<open>claim\<close> hands out bytes after those already claimed, possibly fewer than there are because the
  buffer wraps, and \<open>finish\<close> removes bytes that were claimed.
\<close>

definition ring_ok :: "uart_env \<Rightarrow> bool" where
  "ring_ok E \<longleftrightarrow>
     (\<forall>c r bs. let n = min (length bs) (c - length (rb_data r)) in
        ue_put E c r bs = (n, r\<lparr>rb_data := rb_data r @ take n bs\<rparr>)) \<and>
     (\<forall>r n. ue_get E r n = (take n (rb_data r), r\<lparr>rb_data := drop n (rb_data r)\<rparr>)) \<and>
     (\<forall>r n. \<exists>k\<le>n. let bs = take k (drop (rb_claimed r) (rb_data r)) in
        ue_claim E r n = (bs, r\<lparr>rb_claimed := rb_claimed r + length bs\<rparr>) \<and>
        (0 < n \<and> rb_claimed r < length (rb_data r) \<longrightarrow> bs \<noteq> [])) \<and>
     (\<forall>r n. n \<le> rb_claimed r \<longrightarrow> ue_finish E r n = (0, r\<lparr>rb_data := drop n (rb_data r), rb_claimed := 0\<rparr>)) \<and>
     (\<forall>r n. rb_claimed r < n \<longrightarrow> fst (ue_finish E r n) \<noteq> 0 \<and> snd (ue_finish E r n) = r) \<and>
     (\<forall>c r. ue_space E c r = c - length (rb_data r)) \<and>
     (\<forall>r. ue_empty E r \<longleftrightarrow> rb_data r = [])"

section \<open>State\<close>

text \<open>
  The statics of the module. The binary semaphores are booleans; \<open>ut_rx_work\<close> and
  \<open>ut_recovery_work\<close> say whether the delayable work items are scheduled. The last three fields are
  the driver's side and are never read by the code: \<open>ut_calls\<close> is the history of the calls with
  their results, \<open>ut_active\<close> the buffer of the transmission in progress, i.e. of the last accepted
  \<open>uart_tx\<close>, and \<open>ut_wire\<close> the bytes that the driver has put on the line.
\<close>

record uart =
  ut_rx :: ring
  ut_tx :: ring
  ut_rx_retry_pending :: bool
  ut_recovery_pending :: bool
  ut_next_buf :: "dma_buffer option"
  ut_msg_size :: nat
  ut_msg_buf :: bytes
  ut_msg_ready :: bool
  ut_msg_sem :: bool
  ut_tx_done_sem :: bool
  ut_rx_work :: bool
  ut_recovery_work :: bool
  ut_calls :: "(uart_request \<times> int) list"
  ut_active :: "bytes option"
  ut_wire :: bytes

fun accepted :: "uart_request \<Rightarrow> int \<Rightarrow> bytes option \<Rightarrow> bytes option" where
  "accepted (Tx bs) err a = (if err = 0 then Some bs else a)"
| "accepted c err a = a"

definition uart_call :: "uart_env \<Rightarrow> uart_request \<Rightarrow> uart \<Rightarrow> int \<times> uart" where
  "uart_call E c s = (let err = ue_result E (ut_calls s) c in
     (err, s\<lparr>ut_calls := ut_calls s @ [(c, err)], ut_active := accepted c err (ut_active s)\<rparr>))"

section \<open>Transmission\<close>

definition slm_at_tx_start :: "uart_env \<Rightarrow> uart \<Rightarrow> int \<times> uart" where
  "slm_at_tx_start E s = (
     let (bs, r) = ue_claim E (ut_tx s) UART_SLM_AT_TX_BUF_LEN;
         (err, s) = uart_call E (Tx bs) (s\<lparr>ut_tx := r\<rparr>) in
     if err \<noteq> 0 then (err, s\<lparr>ut_tx := snd (ue_finish E (ut_tx s) 0)\<rparr>) else (0, s))"

text \<open>\<open>UART_TX_DONE\<close> and \<open>UART_TX_ABORTED\<close>: continue with what is queued, or allow the next start.\<close>

definition tx_finished :: "uart_env \<Rightarrow> nat \<Rightarrow> uart \<Rightarrow> uart" where
  "tx_finished E n s = (
     let (err, r) = ue_finish E (ut_tx s) n;
         s = s\<lparr>ut_tx := r\<rparr> in
     if \<not> ue_empty E (ut_tx s) then snd (slm_at_tx_start E s) else s\<lparr>ut_tx_done_sem := True\<rparr>)"

section \<open>Reception\<close>

definition rx_disable :: "uart_env \<Rightarrow> uart \<Rightarrow> uart" where
  "rx_disable E s = (snd (uart_call E Rx_Disable s))\<lparr>ut_rx_retry_pending := True\<rparr>"

definition rx_ready :: "uart_env \<Rightarrow> bytes \<Rightarrow> uart \<Rightarrow> uart" where
  "rx_ready E bs s = (
     let (ret, r) = ue_put E UART_SLM_AT_RINGBUF_SIZE (ut_rx s) bs;
         s = s\<lparr>ut_rx := r\<rparr>;
         s = (if ret < length bs \<and> \<not> ut_rx_retry_pending s then rx_disable E s else s);
         s = (if \<not> ut_rx_retry_pending s \<and>
                 ue_space E UART_SLM_AT_RINGBUF_SIZE (ut_rx s) < UART_SLM_AT_RINGBUF_SIZE div 8
              then rx_disable E s else s) in
     s\<lparr>ut_rx_work := True\<rparr>)"

fun slm_at_uart_callback :: "uart_env \<Rightarrow> uart_event \<Rightarrow> uart \<Rightarrow> uart" where
  "slm_at_uart_callback E (Tx_Done n) s = tx_finished E n s"
| "slm_at_uart_callback E (Tx_Aborted n) s = tx_finished E n s"
| "slm_at_uart_callback E (Rx_Rdy bs) s = rx_ready E bs s"
| "slm_at_uart_callback E Rx_Buf_Request s = (case ut_next_buf s of
     None \<Rightarrow> s | Some b \<Rightarrow> snd (uart_call E (Rx_Buf_Rsp b) s))"
| "slm_at_uart_callback E (Rx_Buf_Released b) s = s\<lparr>ut_next_buf := Some b\<rparr>"
| "slm_at_uart_callback E Rx_Disabled s = (
     if ut_rx_retry_pending s \<and> \<not> ut_recovery_pending s
     then s\<lparr>ut_recovery_work := True, ut_rx_retry_pending := False, ut_recovery_pending := True\<rparr> else s)"
| "slm_at_uart_callback E (Rx_Stopped reason) s = (if reason \<noteq> 0 then s\<lparr>ut_rx_retry_pending := True\<rparr> else s)"
| "slm_at_uart_callback E Other_Event s = s"

definition slm_at_async_uart_rx_enable :: "uart_env \<Rightarrow> uart \<Rightarrow> int \<times> uart" where
  "slm_at_async_uart_rx_enable E s = (
     let (_, s) = uart_call E Callback_Set (s\<lparr>ut_next_buf := Some Dma_Buf2\<rparr>);
         (err, s) = uart_call E (Rx_Enable Dma_Buf) s in
     (err, s\<lparr>ut_rx_retry_pending := False\<rparr>))"

text \<open>The recovery work item; running it uses up its scheduling.\<close>

definition slm_at_uart_recovery :: "uart_env \<Rightarrow> uart \<Rightarrow> uart" where
  "slm_at_uart_recovery E s = (
     let s = s\<lparr>ut_recovery_work := False\<rparr> in
     if UART_SLM_AT_RINGBUF_SIZE div 2 \<le> ue_space E UART_SLM_AT_RINGBUF_SIZE (ut_rx s)
     then (snd (slm_at_async_uart_rx_enable E s))\<lparr>ut_recovery_pending := False\<rparr>
     else s\<lparr>ut_recovery_work := True\<rparr>)"

text \<open>The reception work item: one message is moved from the ring to the message slot.\<close>

definition slm_at_consume_ringbuf :: "uart_env \<Rightarrow> uart \<Rightarrow> uart" where
  "slm_at_consume_ringbuf E s = (
     let s = s\<lparr>ut_rx_work := False\<rparr>;
         s = (if ut_msg_sem s \<and> \<not> ut_msg_ready s then
                let (bs, r) = ue_get E (ut_rx s) AT_MESSAGE_SIZE; s = s\<lparr>ut_rx := r\<rparr> in
                if bs \<noteq> [] then s\<lparr>ut_msg_size := length bs, ut_msg_ready := True,
                  ut_msg_buf := bs @ drop (length bs) (ut_msg_buf s)\<rparr> else s
              else s) in
     if \<not> ue_empty E (ut_rx s) then s\<lparr>ut_rx_work := True\<rparr> else s)"

definition empty_ring :: ring where "empty_ring = \<lparr>rb_data = [], rb_claimed = 0\<rparr>"

definition slm_at_uart_init :: "uart_env \<Rightarrow> uart \<Rightarrow> int \<times> uart" where
  "slm_at_uart_init E s = (
     if \<not> ue_ready E then (- ENODEV, s)
     else let s = s\<lparr>ut_msg_size := 0, ut_msg_buf := replicate AT_MESSAGE_SIZE 0, ut_msg_ready := False,
                ut_rx := empty_ring, ut_tx := empty_ring, ut_rx_work := False, ut_recovery_work := False\<rparr>;
              (_, s) = slm_at_async_uart_rx_enable E s in
       (0, s\<lparr>ut_tx_done_sem := True, ut_msg_sem := True\<rparr>))"

section \<open>The calls of the main loop\<close>

text \<open>
  What the driver has done when it raises an event: \<open>UART_TX_DONE\<close> says that the whole buffer of the
  transmission in progress is on the line, \<open>UART_TX_ABORTED\<close> that its first \<open>n\<close> bytes are. No
  transmission event comes when none is in progress (None).
\<close>

fun driver_raises :: "uart_event \<Rightarrow> uart \<Rightarrow> uart option" where
  "driver_raises (Tx_Done n) s = (case ut_active s of
       Some bs \<Rightarrow> if n = length bs then Some (s\<lparr>ut_active := None, ut_wire := ut_wire s @ bs\<rparr>) else None
     | None \<Rightarrow> None)"
| "driver_raises (Tx_Aborted n) s = (case ut_active s of
       Some bs \<Rightarrow> if n \<le> length bs then Some (s\<lparr>ut_active := None, ut_wire := ut_wire s @ take n bs\<rparr>) else None
     | None \<Rightarrow> None)"
| "driver_raises ev s = Some s"

text \<open>What may run between two steps of the main loop; an event that the driver cannot raise does not occur.\<close>

datatype uart_input = Irq uart_event | Rx_Work | Recovery_Work

fun uart_effect :: "uart_env \<Rightarrow> uart_input \<Rightarrow> uart \<Rightarrow> uart" where
  "uart_effect E (Irq ev) s = (case driver_raises ev s of None \<Rightarrow> s | Some s \<Rightarrow> slm_at_uart_callback E ev s)"
| "uart_effect E Rx_Work s = (if ut_rx_work s then slm_at_consume_ringbuf E s else s)"
| "uart_effect E Recovery_Work s = (if ut_recovery_work s then slm_at_uart_recovery E s else s)"

text \<open>\<open>k_sem_take(&tx_done_sem, K_FOREVER)\<close>: None if none of the inputs gives the semaphore.\<close>

primrec tx_wait :: "uart_env \<Rightarrow> uart_input list \<Rightarrow> uart \<Rightarrow> (uart_input list \<times> uart) option" where
  "tx_wait E [] s = (if ut_tx_done_sem s then Some ([], s\<lparr>ut_tx_done_sem := False\<rparr>) else None)"
| "tx_wait E (i # is) s = (if ut_tx_done_sem s then Some (i # is, s\<lparr>ut_tx_done_sem := False\<rparr>)
     else tx_wait E is (uart_effect E i s))"

lemma tx_wait_less:
  "tx_wait E is s = Some (is', s') \<Longrightarrow> \<not> ut_tx_done_sem s' \<and>
     (length is' < length is \<or> is' = is \<and> ut_tx_done_sem s)"
  by (induction "is" arbitrary: s) (force split: if_splits)+

lemma tx_start_sem [simp]: "ut_tx_done_sem (snd (slm_at_tx_start E s)) = ut_tx_done_sem s"
  by (simp add: slm_at_tx_start_def uart_call_def split_beta Let_def)

text \<open>The loop of \<open>slm_at_tx_write\<close>: put what fits, wait and start a transmission when nothing does.\<close>

function tx_put_loop :: "uart_env \<Rightarrow> uart_input list \<Rightarrow> bytes \<Rightarrow> uart \<Rightarrow> (int \<times> uart_input list \<times> uart) option" where
  "tx_put_loop E is data s = (
     if data = [] then Some (0, is, s)
     else let (ret, r) = ue_put E UART_SLM_AT_TX_BUF_LEN (ut_tx s) data; s = s\<lparr>ut_tx := r\<rparr> in
     if ret \<noteq> 0 then tx_put_loop E is (drop ret data) s
     else (case tx_wait E is s of
         None \<Rightarrow> None
       | Some (is', s) \<Rightarrow>
           let (err, s) = slm_at_tx_start E s in
           if err \<noteq> 0 then Some (err, is', s\<lparr>ut_tx_done_sem := True\<rparr>)
           else tx_put_loop E is' data s))"
  by pat_completeness auto
termination
proof (relation "measures [\<lambda>(E, is, data, s). length data, \<lambda>(E, is, data, s). length is,
    \<lambda>(E, is, data, s). if ut_tx_done_sem s then 1 else 0]")
  fix E "is" data s x ret r s1 y is' s2 z err s3
  assume "tx_wait E is s1 = Some y" "(is', s2) = y" "z = slm_at_tx_start E s2" "(err, s3) = z"
    "(ret, r) = x" "s1 = s\<lparr>ut_tx := r\<rparr>"
  then have "ut_tx_done_sem s3 = ut_tx_done_sem s2" "ut_tx_done_sem s1 = ut_tx_done_sem s"
    "tx_wait E is s1 = Some (is', s2)"
    using tx_start_sem[of E s2] by (metis snd_conv, simp, simp)
  then show "((E, is', data, s3), E, is, data, s) \<in> measures [\<lambda>(E, is, data, s). length data,
      \<lambda>(E, is, data, s). length is, \<lambda>(E, is, data, s). if ut_tx_done_sem s then 1 else 0]"
    using tx_wait_less[of E "is" s1 is' s2] by auto
qed (auto simp: length_greater_0_conv[symmetric] simp del: length_greater_0_conv)

declare tx_put_loop.simps [simp del]

definition slm_at_tx_write :: "uart_env \<Rightarrow> uart_input list \<Rightarrow> bytes \<Rightarrow> uart \<Rightarrow> (int \<times> uart_input list \<times> uart) option" where
  "slm_at_tx_write E is data s = (case tx_put_loop E is data s of
       None \<Rightarrow> None
     | Some (err, is, s) \<Rightarrow>
         if err \<noteq> 0 then Some (err, is, s)
         else if ut_tx_done_sem s then
           let (err, s) = slm_at_tx_start E (s\<lparr>ut_tx_done_sem := False\<rparr>) in
           if err = 1 then Some (0, is, s\<lparr>ut_tx_done_sem := True\<rparr>)
           else if err \<noteq> 0 then Some (err, is, s\<lparr>ut_tx_done_sem := True\<rparr>)
           else Some (0, is, s)
         else Some (0, is, s))"

text \<open>\<open>bg i\<close> is what runs during the \<open>i\<close>-th sleep of 10 ms.\<close>

primrec wait_ticks :: "(nat \<Rightarrow> uart \<Rightarrow> uart) \<Rightarrow> nat \<Rightarrow> nat \<Rightarrow> uart \<Rightarrow> bool \<times> uart" where
  "wait_ticks bg i 0 s = (ut_msg_ready s, s)"
| "wait_ticks bg i (Suc n) s = (if ut_msg_ready s then (True, s) else wait_ticks bg (Suc i) n (bg i s))"

definition slm_at_wait_for_message :: "(nat \<Rightarrow> uart \<Rightarrow> uart) \<Rightarrow> nat \<Rightarrow> uart \<Rightarrow> bool \<times> uart" where
  "slm_at_wait_for_message bg w_time s = (
     if w_time = 0 then (ut_msg_ready s, s) else wait_ticks bg 0 (w_time div 10 + 1) s)"

text \<open>The text before the terminating zero, and the state after it.\<close>

definition slm_at_get_message_copy :: "uart \<Rightarrow> bytes \<times> uart" where
  "slm_at_get_message_copy s = (
     if ut_msg_sem s
     then (take (min (ut_msg_size s) (AT_MESSAGE_SIZE - 1)) (ut_msg_buf s), s\<lparr>ut_msg_ready := False\<rparr>)
     else ([], s))"

end
