(* ===== verification/At_Uart_Props.thy ===== *)
theory At_Uart_Props
  imports At_Uart
begin

text \<open>
  Properties of the UART transport: what the host sends reaches the AT interface in order and
  without loss, apart from one byte of a full message, and what the node writes goes out in order.
\<close>

section \<open>Ring buffers\<close>

lemma take_min_length: "take (min (length xs) n) xs = take n xs" "take (min n (length xs)) xs = take n xs"
  by (simp_all add: min_def)

lemma ring_okD:
  assumes "ring_ok E"
  shows "ue_put E c r bs = (min (length bs) (c - length (rb_data r)),
      r\<lparr>rb_data := rb_data r @ take (c - length (rb_data r)) bs\<rparr>)"
    "ue_get E r n = (take n (rb_data r), r\<lparr>rb_data := drop n (rb_data r)\<rparr>)"
    "n \<le> rb_claimed r \<Longrightarrow> ue_finish E r n = (0, r\<lparr>rb_data := drop n (rb_data r), rb_claimed := 0\<rparr>)"
    "rb_claimed r < n \<Longrightarrow> fst (ue_finish E r n) \<noteq> 0 \<and> snd (ue_finish E r n) = r"
    "ue_space E c r = c - length (rb_data r)" "ue_empty E r \<longleftrightarrow> rb_data r = []"
    "rb_data (snd (ue_claim E r n)) = rb_data r"
proof -
  show "ue_put E c r bs = (min (length bs) (c - length (rb_data r)),
      r\<lparr>rb_data := rb_data r @ take (c - length (rb_data r)) bs\<rparr>)"
    using assms by (simp add: ring_ok_def Let_def take_min_length)
  obtain k where "ue_claim E r n = (take k (drop (rb_claimed r) (rb_data r)),
      r\<lparr>rb_claimed := rb_claimed r + length (take k (drop (rb_claimed r) (rb_data r)))\<rparr>)"
    using assms unfolding ring_ok_def Let_def by blast
  then show "rb_data (snd (ue_claim E r n)) = rb_data r" by simp
qed (use assms in \<open>simp_all add: ring_ok_def\<close>)

section \<open>Reception\<close>

text \<open>The main loop reads when a message is ready, as \<open>slm_at_run_cycle\<close> does; the rest happens to it.\<close>

datatype host_step = Input uart_input | Read

primrec uart_run :: "uart_env \<Rightarrow> host_step list \<Rightarrow> uart \<Rightarrow> bytes list \<times> uart" where
  "uart_run E [] s = ([], s)"
| "uart_run E (x # xs) s = (case x of
      Input i \<Rightarrow> uart_run E xs (uart_effect E i s)
    | Read \<Rightarrow> if fst (slm_at_wait_for_message (\<lambda>_ s. s) 0 s)
        then let (m, s) = slm_at_get_message_copy s; (ms, s) = uart_run E xs s in (m # ms, s)
        else uart_run E xs s)"

fun rx_bytes :: "host_step \<Rightarrow> bytes" where
  "rx_bytes (Input (Irq (Rx_Rdy bs))) = bs"
| "rx_bytes _ = []"

text \<open>The room in the receive buffer, and whether reception is on.\<close>

definition rx_free :: "uart \<Rightarrow> nat" where
  "rx_free s = UART_SLM_AT_RINGBUF_SIZE - length (rb_data (ut_rx s))"

definition receiving :: "uart \<Rightarrow> bool" where
  "receiving s \<longleftrightarrow> \<not> ut_rx_retry_pending s \<and> \<not> ut_recovery_pending s"

text \<open>
  What the ring takes of a received chunk: all of it while reception is on, otherwise what fits.
\<close>

primrec rx_accepted :: "uart_env \<Rightarrow> host_step list \<Rightarrow> uart \<Rightarrow> bytes" where
  "rx_accepted E [] s = []"
| "rx_accepted E (x # xs) s = (if receiving s then rx_bytes x else take (rx_free s) (rx_bytes x)) @
     rx_accepted E xs (snd (uart_run E [x] s))"

text \<open>While reception is on there is room for a whole DMA buffer.\<close>

definition rx_inv :: "uart \<Rightarrow> bool" where
  "rx_inv s \<longleftrightarrow> (receiving s \<longrightarrow> UART_SLM_AT_BUF_LEN \<le> rx_free s) \<and> length (rb_data (ut_rx s)) \<le> UART_SLM_AT_RINGBUF_SIZE \<and>
     ut_msg_sem s \<and> length (ut_msg_buf s) = AT_MESSAGE_SIZE \<and> ut_msg_size s \<le> AT_MESSAGE_SIZE"

definition pending_message :: "uart \<Rightarrow> bytes" where
  "pending_message s = (if ut_msg_ready s then take (ut_msg_size s) (ut_msg_buf s) else [])"

definition rx_stream :: "uart \<Rightarrow> bytes" where
  "rx_stream s = pending_message s @ rb_data (ut_rx s)"

lemma uart_call_frame [simp]:
  "ut_rx (snd (uart_call E c s)) = ut_rx s" "ut_rx_retry_pending (snd (uart_call E c s)) = ut_rx_retry_pending s"
  "ut_recovery_pending (snd (uart_call E c s)) = ut_recovery_pending s" "ut_msg_sem (snd (uart_call E c s)) = ut_msg_sem s"
  "ut_msg_buf (snd (uart_call E c s)) = ut_msg_buf s" "ut_msg_size (snd (uart_call E c s)) = ut_msg_size s"
  "ut_msg_ready (snd (uart_call E c s)) = ut_msg_ready s" "ut_tx (snd (uart_call E c s)) = ut_tx s"
  "ut_wire (snd (uart_call E c s)) = ut_wire s" "ut_tx_done_sem (snd (uart_call E c s)) = ut_tx_done_sem s"
  by (simp_all add: uart_call_def Let_def)

lemma tx_frame [simp]:
  "ut_rx (snd (slm_at_tx_start E s)) = ut_rx s" "ut_rx_retry_pending (snd (slm_at_tx_start E s)) = ut_rx_retry_pending s"
  "ut_recovery_pending (snd (slm_at_tx_start E s)) = ut_recovery_pending s" "ut_msg_sem (snd (slm_at_tx_start E s)) = ut_msg_sem s"
  "ut_msg_buf (snd (slm_at_tx_start E s)) = ut_msg_buf s" "ut_msg_size (snd (slm_at_tx_start E s)) = ut_msg_size s"
  "ut_msg_ready (snd (slm_at_tx_start E s)) = ut_msg_ready s"
  "ut_rx (tx_finished E n s) = ut_rx s" "ut_rx_retry_pending (tx_finished E n s) = ut_rx_retry_pending s"
  "ut_recovery_pending (tx_finished E n s) = ut_recovery_pending s" "ut_msg_sem (tx_finished E n s) = ut_msg_sem s"
  "ut_msg_buf (tx_finished E n s) = ut_msg_buf s" "ut_msg_size (tx_finished E n s) = ut_msg_size s"
  "ut_msg_ready (tx_finished E n s) = ut_msg_ready s"
  by (simp_all add: tx_finished_def slm_at_tx_start_def split_beta Let_def)

text \<open>
  A chunk that does not fit fills the ring, so the second test of \<open>UART_RX_RDY\<close> would switch
  reception off even without the first.
\<close>

lemma rx_ready_low_water:
  fixes s :: uart and bs :: bytes
  assumes "ring_ok E" "length (rb_data (ut_rx s)) \<le> UART_SLM_AT_RINGBUF_SIZE"
  defines "t \<equiv> s\<lparr>ut_rx := (ut_rx s)\<lparr>rb_data := rb_data (ut_rx s) @ take (rx_free s) bs\<rparr>\<rparr>"
  shows "rx_ready E bs s = (if \<not> ut_rx_retry_pending s \<and> rx_free t < UART_SLM_AT_BUF_LEN then rx_disable E t else t)\<lparr>ut_rx_work := True\<rparr>"
    "length (rb_data (ut_rx t)) \<le> UART_SLM_AT_RINGBUF_SIZE"
proof -
  have put: "ue_put E UART_SLM_AT_RINGBUF_SIZE (ut_rx s) bs = (min (length bs) (rx_free s), ut_rx t)"
    by (simp add: ring_okD(1)[OF assms(1)] rx_free_def t_def)
  have full: "rx_free t = 0" if "rx_free s < length bs" using that assms(2) by (simp add: t_def rx_free_def)
  have f: "ut_rx_retry_pending t = ut_rx_retry_pending s" "ut_rx_retry_pending (rx_disable E t)" "s\<lparr>ut_rx := ut_rx t\<rparr> = t"
    by (simp_all add: t_def rx_disable_def)
  have space: "ue_space E UART_SLM_AT_RINGBUF_SIZE (ut_rx t) = rx_free t"
    by (simp add: ring_okD(5)[OF assms(1)] rx_free_def)
  have "min (length bs) (rx_free s) < length bs \<longleftrightarrow> rx_free s < length bs" by auto
  then show "rx_ready E bs s = (if \<not> ut_rx_retry_pending s \<and> rx_free t < UART_SLM_AT_BUF_LEN then rx_disable E t else t)\<lparr>ut_rx_work := True\<rparr>"
    using full f space unfolding rx_ready_def put by (cases "rx_free s < length bs") simp_all
  show "length (rb_data (ut_rx t)) \<le> UART_SLM_AT_RINGBUF_SIZE" using assms(2) by (simp add: t_def rx_free_def)
qed

lemma rx_ready_step:
  assumes "ring_ok E" "rx_inv s" "length bs \<le> UART_SLM_AT_BUF_LEN"
  shows "rx_inv (rx_ready E bs s) \<and>
    rx_stream (rx_ready E bs s) = rx_stream s @ (if receiving s then bs else take (rx_free s) bs)"
proof -
  have l: "length (rb_data (ut_rx s)) \<le> UART_SLM_AT_RINGBUF_SIZE" using assms(2) by (simp add: rx_inv_def)
  have "receiving s \<Longrightarrow> take (rx_free s) bs = bs" using assms(2,3) by (simp add: rx_inv_def)
  then show ?thesis
    using assms(2) rx_ready_low_water(2)[OF assms(1) l, of bs] unfolding rx_ready_low_water(1)[OF assms(1) l]
    by (auto simp: rx_inv_def rx_stream_def pending_message_def rx_disable_def receiving_def rx_free_def)
qed

lemma consume_step:
  assumes "ring_ok E" "rx_inv s"
  shows "rx_inv (slm_at_consume_ringbuf E s) \<and> rx_stream (slm_at_consume_ringbuf E s) = rx_stream s"
proof (cases "ut_msg_ready s \<or> rb_data (ut_rx s) = []")
  case True
  then have "slm_at_consume_ringbuf E s = s\<lparr>ut_rx_work := rb_data (ut_rx s) \<noteq> []\<rparr>"
    using assms(2) by (cases "ut_msg_ready s") (simp_all add: slm_at_consume_ringbuf_def ring_okD[OF assms(1)] rx_inv_def Let_def)
  then show ?thesis using assms(2) by (simp add: rx_inv_def receiving_def rx_free_def rx_stream_def pending_message_def)
next
  case False
  let ?xs = "rb_data (ut_rx s)"
  have e: "slm_at_consume_ringbuf E s = s\<lparr>ut_rx_work := drop AT_MESSAGE_SIZE ?xs \<noteq> [],
      ut_rx := (ut_rx s)\<lparr>rb_data := drop AT_MESSAGE_SIZE ?xs\<rparr>, ut_msg_size := length (take AT_MESSAGE_SIZE ?xs), ut_msg_ready := True,
      ut_msg_buf := take AT_MESSAGE_SIZE ?xs @ drop (length (take AT_MESSAGE_SIZE ?xs)) (ut_msg_buf s)\<rparr>"
    using False assms(2) by (simp add: slm_at_consume_ringbuf_def ring_okD[OF assms(1)] rx_inv_def Let_def)
  show ?thesis
    using False assms(2) unfolding e
    by (auto simp: rx_inv_def receiving_def rx_free_def rx_stream_def pending_message_def take_min_length)
qed

lemma recovery_step:
  assumes "ring_ok E" "rx_inv s"
  shows "rx_inv (slm_at_uart_recovery E s) \<and> rx_stream (slm_at_uart_recovery E s) = rx_stream s"
  using assms(2)
  by (auto simp: slm_at_uart_recovery_def slm_at_async_uart_rx_enable_def ring_okD(5)[OF assms(1)] rx_inv_def rx_stream_def
      pending_message_def receiving_def rx_free_def split_beta Let_def)

lemma driver_raises_frame:
  assumes "driver_raises ev s = Some t"
  shows "ut_rx t = ut_rx s" "ut_rx_retry_pending t = ut_rx_retry_pending s" "ut_recovery_pending t = ut_recovery_pending s"
    "ut_msg_sem t = ut_msg_sem s" "ut_msg_buf t = ut_msg_buf s" "ut_msg_size t = ut_msg_size s" "ut_msg_ready t = ut_msg_ready s"
    "ut_tx t = ut_tx s" "ut_tx_done_sem t = ut_tx_done_sem s"
  using assms by (cases "(ev, s)" rule: driver_raises.cases; auto split: option.splits if_splits)+

lemma rx_effect:
  assumes "ring_ok E" "rx_inv s" "length (rx_bytes (Input i)) \<le> UART_SLM_AT_BUF_LEN"
  shows "rx_inv (uart_effect E i s) \<and> rx_stream (uart_effect E i s) = rx_stream s @
    (if receiving s then rx_bytes (Input i) else take (rx_free s) (rx_bytes (Input i)))"
proof (cases i)
  case (Irq ev)
  show ?thesis
  proof (cases "driver_raises ev s")
    case None
    then show ?thesis using assms(2) Irq by (cases ev) simp_all
  next
    case (Some t)
    note f = driver_raises_frame[OF Some]
    have t: "rx_inv t" "rx_stream t = rx_stream s" "receiving t = receiving s" "rx_free t = rx_free s"
      using assms(2) f by (simp_all add: rx_inv_def rx_stream_def pending_message_def receiving_def rx_free_def)
    have e: "uart_effect E i s = slm_at_uart_callback E ev t" using Irq Some by simp
    have keep: ?thesis
      if "rx_inv (slm_at_uart_callback E ev t)" "rx_stream (slm_at_uart_callback E ev t) = rx_stream t" "rx_bytes (Input (Irq ev)) = []"
      using that t(2) Irq Some by simp
    show ?thesis
    proof (cases ev)
      case (Rx_Rdy bs)
      then show ?thesis using rx_ready_step[OF assms(1) t(1), of bs] assms(3) Irq e t by simp
    qed (rule keep; use t(1) in \<open>simp add: rx_inv_def rx_stream_def pending_message_def receiving_def rx_free_def split: option.split\<close>)+
  qed
next
  case Rx_Work
  then show ?thesis using consume_step[OF assms(1,2)] assms(2) by simp
next
  case Recovery_Work
  then show ?thesis using recovery_step[OF assms(1,2)] assms(2) by simp
qed

lemma read_step:
  assumes "rx_inv s" "ut_msg_ready s"
  shows "fst (slm_at_get_message_copy s) = take (AT_MESSAGE_SIZE - 1) (pending_message s) \<and>
    rx_inv (snd (slm_at_get_message_copy s)) \<and> pending_message s @ rx_stream (snd (slm_at_get_message_copy s)) = rx_stream s"
  using assms
  by (auto simp: slm_at_get_message_copy_def rx_inv_def pending_message_def rx_stream_def receiving_def rx_free_def min.commute)

lemma uart_run_stream:
  assumes "ring_ok E" "rx_inv s" "\<forall>x\<in>set xs. length (rx_bytes x) \<le> UART_SLM_AT_BUF_LEN"
  shows "\<exists>ms. fst (uart_run E xs s) = map (take (AT_MESSAGE_SIZE - 1)) ms \<and> (\<forall>m\<in>set ms. length m \<le> AT_MESSAGE_SIZE) \<and>
    concat ms @ rx_stream (snd (uart_run E xs s)) = rx_stream s @ rx_accepted E xs s"
  using assms(2,3)
proof (induction xs arbitrary: s)
  case Nil
  then show ?case by (intro exI[of _ "[]"]) simp
next
  case (Cons x xs)
  show ?case
  proof (cases x)
    case (Input i)
    note st = rx_effect[OF assms(1) Cons.prems(1), of i]
    then show ?thesis using Cons.IH[of "uart_effect E i s"] Cons.prems(2) Input by auto
  next
    case Read
    show ?thesis
    proof (cases "ut_msg_ready s")
      case False
      then show ?thesis using Cons.IH[of s] Cons.prems Read by (auto simp: slm_at_wait_for_message_def)
    next
      case True
      let ?g = "slm_at_get_message_copy s"
      note g = read_step[OF Cons.prems(1) True]
      obtain ms where ms: "fst (uart_run E xs (snd ?g)) = map (take (AT_MESSAGE_SIZE - 1)) ms"
        "\<forall>m\<in>set ms. length m \<le> AT_MESSAGE_SIZE"
        "concat ms @ rx_stream (snd (uart_run E xs (snd ?g))) = rx_stream (snd ?g) @ rx_accepted E xs (snd ?g)"
        using Cons.IH[of "snd ?g"] g Cons.prems(2) by auto
      have "length (pending_message s) \<le> AT_MESSAGE_SIZE"
        using Cons.prems(1) by (simp add: pending_message_def rx_inv_def)
      then show ?thesis using ms g Read True
        by (intro exI[of _ "pending_message s # ms"]) (auto simp: slm_at_wait_for_message_def split_beta Let_def)
    qed
  qed
qed

text \<open>
  C38: What the firmware reads is what its receive buffer has taken. From a successful initialisation
  on, whatever interleaving of interrupts, work items and reads happens, the messages handed out, the
  one in the message slot and the ring make up, in order, exactly the bytes accepted from the
  driver, which delivers at most one DMA buffer of 512 bytes at a time: every byte while reception is
  on, and of a chunk that comes after reception was switched off the part that still fits. Messages
  have at most 1024 bytes; what the main loop gets of one are its first 1023 bytes.
\<close>

theorem uart_rx_stream:
  assumes "ring_ok E" "slm_at_uart_init E s0 = (0, s)" "\<forall>x\<in>set xs. length (rx_bytes x) \<le> UART_SLM_AT_BUF_LEN"
  shows "\<exists>ms. fst (uart_run E xs s) = map (take (AT_MESSAGE_SIZE - 1)) ms \<and> (\<forall>m\<in>set ms. length m \<le> AT_MESSAGE_SIZE) \<and>
    concat ms @ rx_stream (snd (uart_run E xs s)) = rx_accepted E xs s"
proof -
  have s: "rx_inv s" "rx_stream s = []"
    using assms(2) by (auto simp: slm_at_uart_init_def slm_at_async_uart_rx_enable_def split_beta Let_def empty_ring_def
        rx_inv_def receiving_def rx_free_def rx_stream_def pending_message_def split: if_splits)
  show ?thesis using uart_run_stream[OF assms(1) s(1) assms(3)] s(2) by simp
qed

section \<open>A ring buffer as documented\<close>

definition ref_uart :: uart_env where
  "ref_uart = \<lparr>ue_ready = True,
     ue_put = (\<lambda>c r bs. (min (length bs) (c - length (rb_data r)), r\<lparr>rb_data := rb_data r @ take (c - length (rb_data r)) bs\<rparr>)),
     ue_get = (\<lambda>r n. (take n (rb_data r), r\<lparr>rb_data := drop n (rb_data r)\<rparr>)),
     ue_claim = (\<lambda>r n. let bs = take n (drop (rb_claimed r) (rb_data r)) in (bs, r\<lparr>rb_claimed := rb_claimed r + length bs\<rparr>)),
     ue_finish = (\<lambda>r n. if n \<le> rb_claimed r then (0, r\<lparr>rb_data := drop n (rb_data r), rb_claimed := 0\<rparr>) else (- EINVAL, r)),
     ue_space = (\<lambda>c r. c - length (rb_data r)), ue_empty = (\<lambda>r. rb_data r = []), ue_result = (\<lambda>h c. 0)\<rparr>"

lemma ref_uart_ok: "ring_ok ref_uart"
proof -
  have put: "ue_put ref_uart c r bs = (min (length bs) (c - length (rb_data r)),
      r\<lparr>rb_data := rb_data r @ take (min (length bs) (c - length (rb_data r))) bs\<rparr>)" for c r bs
    by (simp add: ref_uart_def min_def)
  have claim: "\<exists>k\<le>n. let bs = take k (drop (rb_claimed r) (rb_data r)) in
      ue_claim ref_uart r n = (bs, r\<lparr>rb_claimed := rb_claimed r + length bs\<rparr>) \<and>
      (0 < n \<and> rb_claimed r < length (rb_data r) \<longrightarrow> bs \<noteq> [])" for r n
    by (rule exI[of _ n]) (simp add: ref_uart_def)
  show ?thesis
    unfolding ring_ok_def Let_def by (intro conjI allI put claim[unfolded Let_def]) (simp_all add: ref_uart_def)
qed

text \<open>A run in which the host sends \<open>AT\<close>: one message is read.\<close>

definition ref_run :: "host_step list" where
  "ref_run = [Input (Irq (Rx_Rdy [65, 84])), Input Rx_Work, Read]"

lemma ref_run_result:
  assumes "ut_rx s = empty_ring" "\<not> ut_rx_retry_pending s" "\<not> ut_msg_ready s" "ut_msg_sem s" "length (ut_msg_buf s) = 1024"
  shows "fst (uart_run ref_uart ref_run s) = [[65, 84]]" "rx_stream (snd (uart_run ref_uart ref_run s)) = []"
    "rx_accepted ref_uart ref_run s = [65, 84]"
proof -
  let ?a = "rx_ready ref_uart [65, 84] s"
  have a: "rb_data (ut_rx ?a) = [65, 84]" "ut_rx_work ?a" "\<not> ut_msg_ready ?a" "ut_msg_sem ?a" "length (ut_msg_buf ?a) = 1024"
    using assms by (simp_all add: rx_ready_def ref_uart_def empty_ring_def)
  let ?b = "slm_at_consume_ringbuf ref_uart ?a"
  have b: "rb_data (ut_rx ?b) = []" "ut_msg_ready ?b" "ut_msg_sem ?b" "ut_msg_size ?b = 2" "take 2 (ut_msg_buf ?b) = [65, 84]"
    using a by (simp_all add: slm_at_consume_ringbuf_def ref_uart_def Let_def)
  have run: "uart_run ref_uart ref_run s = ([[65, 84]], ?b\<lparr>ut_msg_ready := False\<rparr>)"
    using a(2) b by (simp add: ref_run_def slm_at_wait_for_message_def slm_at_get_message_copy_def min_def)
  show "fst (uart_run ref_uart ref_run s) = [[65, 84]]" by (simp add: run)
  show "rx_stream (snd (uart_run ref_uart ref_run s)) = []" using b(1) by (simp add: run rx_stream_def pending_message_def)
  show "rx_accepted ref_uart ref_run s = [65, 84]" using assms(1) by (simp add: ref_run_def rx_free_def empty_ring_def)
qed

lemma ref_init:
  fixes s0 :: uart
  defines "s \<equiv> snd (slm_at_uart_init ref_uart s0)"
  shows "slm_at_uart_init ref_uart s0 = (0, s)" "ut_rx s = empty_ring" "\<not> ut_rx_retry_pending s" "\<not> ut_msg_ready s"
    "ut_msg_sem s" "length (ut_msg_buf s) = 1024" "ut_tx s = empty_ring" "ut_tx_done_sem s" "ut_wire s = ut_wire s0"
    "ut_active s = ut_active s0"
  by (simp_all add: s_def slm_at_uart_init_def slm_at_async_uart_rx_enable_def split_beta Let_def ref_uart_def uart_call_def)

theorem uart_rx_stream_witness:
  "\<exists>ms. [[65, 84]] = map (take 1023) ms \<and> concat ms = ([65, 84] :: bytes)"
proof -
  obtain s0 :: uart where True by simp
  note s = ref_init[of s0]
  note run = ref_run_result[OF s(2-6)]
  have "\<forall>x\<in>set ref_run. length (rx_bytes x) \<le> UART_SLM_AT_BUF_LEN" by (simp add: ref_run_def)
  from uart_rx_stream[OF ref_uart_ok s(1) this] obtain ms :: "bytes list"
    where "[[65, 84]] = map (take (AT_MESSAGE_SIZE - 1)) ms" "concat ms = [65, 84]"
    unfolding run append_Nil2 by metis
  then show ?thesis by (intro exI[of _ ms]) simp
qed

section \<open>Transmission\<close>

text \<open>
  What is on the line and what waits. The transmission in progress consists of the claimed bytes at
  the front of the ring, and while it runs the semaphore is taken.
\<close>

definition tx_stream :: "uart \<Rightarrow> bytes" where
  "tx_stream s = ut_wire s @ rb_data (ut_tx s)"

definition tx_inv :: "uart \<Rightarrow> bool" where
  "tx_inv s \<longleftrightarrow> (case ut_active s of
       None \<Rightarrow> rb_claimed (ut_tx s) = 0
     | Some bs \<Rightarrow> \<not> ut_tx_done_sem s \<and> rb_claimed (ut_tx s) = length bs \<and> bs = take (length bs) (rb_data (ut_tx s)))"

text \<open>With a driver that refuses no transmission: someone will see to what waits.\<close>

definition tx_accepts :: "uart_env \<Rightarrow> bool" where
  "tx_accepts E \<longleftrightarrow> (\<forall>h bs. ue_result E h (Tx bs) = 0)"

definition tx_awake :: "uart \<Rightarrow> bool" where
  "tx_awake s \<longleftrightarrow> ut_active s = None \<longrightarrow> ut_tx_done_sem s"

definition tx_drained :: "uart \<Rightarrow> bool" where
  "tx_drained s \<longleftrightarrow> ut_active s = None \<longrightarrow> ut_tx_done_sem s \<and> rb_data (ut_tx s) = []"

lemma ring_claim:
  assumes "ring_ok E" "rb_claimed r = 0"
  obtains k where "ue_claim E r n = (take k (rb_data r), r\<lparr>rb_claimed := length (take k (rb_data r))\<rparr>)"
proof -
  obtain k where "ue_claim E r n = (take k (drop (rb_claimed r) (rb_data r)),
      r\<lparr>rb_claimed := rb_claimed r + length (take k (drop (rb_claimed r) (rb_data r)))\<rparr>)"
    using assms(1) unfolding ring_ok_def Let_def by blast
  then show ?thesis using assms(2) by (intro that[of k]) simp
qed

lemma tx_start_step:
  assumes "ring_ok E" "rb_claimed (ut_tx s) = 0" "ut_active s = None" "\<not> ut_tx_done_sem s"
  defines "t \<equiv> snd (slm_at_tx_start E s)"
  shows "tx_inv t" "tx_stream t = tx_stream s" "\<not> ut_tx_done_sem t" "fst (slm_at_tx_start E s) \<noteq> 0 \<Longrightarrow> ut_active t = None"
    "tx_accepts E \<Longrightarrow> ut_active t \<noteq> None" "ut_wire t = ut_wire s"
proof -
  obtain k where k: "ue_claim E (ut_tx s) UART_SLM_AT_TX_BUF_LEN =
      (take k (rb_data (ut_tx s)), (ut_tx s)\<lparr>rb_claimed := length (take k (rb_data (ut_tx s)))\<rparr>)"
    using ring_claim[OF assms(1,2)] by blast
  let ?bs = "take k (rb_data (ut_tx s))"
  let ?err = "ue_result E (ut_calls s) (Tx ?bs)"
  have t: "t = (if ?err \<noteq> 0 then s\<lparr>ut_calls := ut_calls s @ [(Tx ?bs, ?err)]\<rparr>
      else s\<lparr>ut_tx := (ut_tx s)\<lparr>rb_claimed := length ?bs\<rparr>, ut_calls := ut_calls s @ [(Tx ?bs, 0)], ut_active := Some ?bs\<rparr>)"
    "fst (slm_at_tx_start E s) = ?err"
    using assms(2) ring_okD(3)[OF assms(1), of 0]
    by (simp_all add: t_def slm_at_tx_start_def k uart_call_def Let_def)
  have "take (length ?bs) xs = take k xs" if "xs = rb_data (ut_tx s)" for xs using that by (simp add: min_def)
  then show "tx_inv t" "tx_stream t = tx_stream s" "\<not> ut_tx_done_sem t" "ut_wire t = ut_wire s"
    using assms(2-4) by (simp_all add: t tx_inv_def tx_stream_def del: length_take)
  show "fst (slm_at_tx_start E s) \<noteq> 0 \<Longrightarrow> ut_active t = None" using assms(3) by (simp add: t)
  show "tx_accepts E \<Longrightarrow> ut_active t \<noteq> None" by (simp add: t tx_accepts_def)
qed

lemma tx_finished_step:
  assumes "ring_ok E" "ut_active s = None" "n \<le> rb_claimed (ut_tx s)" "\<not> ut_tx_done_sem s"
  defines "t \<equiv> tx_finished E n s"
  shows "tx_inv t" "tx_stream t = ut_wire s @ drop n (rb_data (ut_tx s))" "tx_accepts E \<Longrightarrow> tx_drained t"
proof -
  let ?s = "s\<lparr>ut_tx := (ut_tx s)\<lparr>rb_data := drop n (rb_data (ut_tx s)), rb_claimed := 0\<rparr>\<rparr>"
  have e: "t = (if rb_data (ut_tx ?s) \<noteq> [] then snd (slm_at_tx_start E ?s) else ?s\<lparr>ut_tx_done_sem := True\<rparr>)"
    by (simp add: t_def tx_finished_def ring_okD(3)[OF assms(1,3)] ring_okD(6)[OF assms(1)] Let_def)
  have s: "rb_claimed (ut_tx ?s) = 0" "ut_active ?s = None" "\<not> ut_tx_done_sem ?s" using assms(2,4) by simp_all
  note st = tx_start_step[OF assms(1) s]
  show "tx_inv t" "tx_stream t = ut_wire s @ drop n (rb_data (ut_tx s))" "tx_accepts E \<Longrightarrow> tx_drained t"
    using st assms(2) unfolding e by (auto simp: tx_inv_def tx_stream_def tx_drained_def)
qed

lemma tx_effect:
  assumes "ring_ok E" "tx_inv s"
  shows "tx_inv (uart_effect E i s) \<and> tx_stream (uart_effect E i s) = tx_stream s \<and>
    (tx_accepts E \<longrightarrow> (tx_awake s \<longrightarrow> tx_awake (uart_effect E i s)) \<and> (tx_drained s \<longrightarrow> tx_drained (uart_effect E i s)))"
proof -
  have fin: ?thesis if ev: "i = Irq ev" "ev = Tx_Done n \<or> ev = Tx_Aborted n" for ev n
  proof (cases "driver_raises ev s")
    case None
    then show ?thesis using assms(2) ev(1) by simp
  next
    case (Some t)
    then obtain bs where bs: "ut_active s = Some bs" "n \<le> length bs" "t = s\<lparr>ut_active := None, ut_wire := ut_wire s @ take n bs\<rparr>"
      using ev(2) by (auto split: option.splits if_splits)
    then have a: "bs = take (length bs) (rb_data (ut_tx s))" "n \<le> rb_claimed (ut_tx t)" "\<not> ut_tx_done_sem t" "ut_active t = None"
      using assms(2) by (simp_all add: tx_inv_def)
    note f = tx_finished_step[OF assms(1) a(4,2,3)]
    have "uart_effect E i s = tx_finished E n t" using ev Some by auto
    moreover have "take n bs = take n (rb_data (ut_tx s))" using a(1) bs(2) by (metis min.absorb1 take_take)
    then have "tx_stream (tx_finished E n t) = tx_stream s" unfolding f(2) by (simp add: bs(3) tx_stream_def)
    ultimately show ?thesis using f(1,3) by (auto simp: tx_awake_def tx_drained_def)
  qed
  have frame: ?thesis if "ut_tx (uart_effect E i s) = ut_tx s" "ut_wire (uart_effect E i s) = ut_wire s"
    "ut_active (uart_effect E i s) = ut_active s" "ut_tx_done_sem (uart_effect E i s) = ut_tx_done_sem s"
    using assms(2) that by (cases "ut_active s") (simp_all add: tx_inv_def tx_stream_def tx_awake_def tx_drained_def)
  note defs = uart_call_def slm_at_async_uart_rx_enable_def rx_disable_def
  show ?thesis
  proof (cases i)
    case (Irq ev)
    then show ?thesis
    proof (cases ev)
      case (Rx_Rdy bs)
      then show ?thesis using Irq by (intro frame) (simp_all add: rx_ready_def defs split_beta Let_def)
    next
      case (Tx_Done n)
      show ?thesis by (rule fin[OF Irq]) (simp add: Tx_Done)
    next
      case (Tx_Aborted n)
      show ?thesis by (rule fin[OF Irq]) (simp add: Tx_Aborted)
    qed (rule frame; use Irq in \<open>simp add: defs Let_def split: option.split\<close>)+
  next
    case Rx_Work
    then show ?thesis by (intro frame) (simp_all add: slm_at_consume_ringbuf_def split_beta Let_def)
  next
    case Recovery_Work
    then show ?thesis by (intro frame) (simp_all add: slm_at_uart_recovery_def defs split_beta Let_def)
  qed
qed

lemma tx_put_step:
  fixes data :: bytes and s :: uart
  assumes "ring_ok E" "tx_inv s"
  defines "p \<equiv> ue_put E UART_SLM_AT_TX_BUF_LEN (ut_tx s) data"
  defines "t \<equiv> s\<lparr>ut_tx := snd p\<rparr>"
  shows "tx_inv t" "tx_stream t = tx_stream s @ take (fst p) data" "tx_awake t = tx_awake s"
proof -
  note p = ring_okD(1)[OF assms(1), of UART_SLM_AT_TX_BUF_LEN "ut_tx s" data, folded p_def]
  have "length bs \<le> length (rb_data (ut_tx s))" if "bs = take (length bs) (rb_data (ut_tx s))" for bs
    by (metis that length_take min.cobounded1)
  then show "tx_inv t" using assms(2) by (auto simp: tx_inv_def t_def p split: option.splits)
  show "tx_stream t = tx_stream s @ take (fst p) data" "tx_awake t = tx_awake s"
    by (simp_all add: t_def p tx_stream_def tx_awake_def take_min_length)
qed

lemma tx_wait_step:
  assumes "ring_ok E" "tx_inv s" "tx_wait E is s = Some (is', s')"
  shows "tx_stream s' = tx_stream s \<and> rb_claimed (ut_tx s') = 0 \<and> ut_active s' = None \<and> \<not> ut_tx_done_sem s'"
  using assms(2,3)
proof (induction "is" arbitrary: s)
  case Nil
  then show ?case by (auto simp: tx_inv_def tx_stream_def split: if_splits option.splits)
next
  case (Cons i "is")
  show ?case
  proof (cases "ut_tx_done_sem s")
    case True
    then show ?thesis using Cons.prems by (auto simp: tx_inv_def tx_stream_def split: option.splits)
  next
    case False
    then show ?thesis using Cons.IH[of "uart_effect E i s"] Cons.prems tx_effect[OF assms(1) Cons.prems(1), of i] by simp
  qed
qed

lemma tx_put_loop_step:
  assumes "ring_ok E" "tx_put_loop E is data s = Some (err, is', s')" "tx_inv s"
  shows "tx_inv s' \<and> (\<exists>k. tx_stream s' = tx_stream s @ take k data \<and> (err = 0 \<longrightarrow> length data \<le> k)) \<and>
    (tx_accepts E \<and> tx_awake s \<longrightarrow> err = 0 \<and> tx_awake s')"
  using assms
proof (induction E "is" data s rule: tx_put_loop.induct)
  case (1 E "is" data s)
  let ?p = "ue_put E UART_SLM_AT_TX_BUF_LEN (ut_tx s) data"
  let ?s = "s\<lparr>ut_tx := snd ?p\<rparr>"
  note st = tx_put_step[OF "1.prems"(1,3), of data]
  show ?case
  proof (cases "data = []")
    case True
    then show ?thesis using "1.prems"(2,3) by (auto simp: tx_put_loop.simps)
  next
    case nonempty: False
    show ?thesis
    proof (cases "fst ?p = 0")
      case False
      then have "tx_put_loop E is (drop (fst ?p) data) ?s = Some (err, is', s')"
        using "1.prems"(2) nonempty by (subst (asm) tx_put_loop.simps) (simp add: split_beta Let_def)
      note ih = "1.IH"(1)[OF nonempty refl prod.collapse refl False "1.prems"(1) this st(1)]
      then obtain k where "tx_stream s' = tx_stream ?s @ take k (drop (fst ?p) data)" "err = 0 \<longrightarrow> length (drop (fst ?p) data) \<le> k"
        by blast
      then have "tx_stream s' = tx_stream s @ take (fst ?p + k) data \<and> (err = 0 \<longrightarrow> length data \<le> fst ?p + k)"
        using st(2) by (auto simp: take_add)
      then show ?thesis using ih st(3) by blast
    next
      case True
      then obtain x s2 where w: "tx_wait E is ?s = Some (x, s2)"
        using "1.prems"(2) nonempty by (subst (asm) tx_put_loop.simps) (auto simp: split_beta Let_def split: option.splits)
      note w2 = tx_wait_step[OF "1.prems"(1) st(1) w]
      let ?t = "slm_at_tx_start E s2"
      note t = tx_start_step[OF "1.prems"(1), of s2]
      have st2: "tx_stream (snd ?t) = tx_stream s" using w2 t(2) st(2) True by simp
      show ?thesis
      proof (cases "fst ?t = 0")
        case False
        then have s': "s' = (snd ?t)\<lparr>ut_tx_done_sem := True\<rparr>" "err \<noteq> 0"
          using "1.prems"(2) nonempty True w by (subst (asm) tx_put_loop.simps, simp add: split_beta Let_def)+
        have "ut_active (snd ?t) = None" using t(4) w2 False by simp
        then have "tx_inv s'" "tx_stream s' = tx_stream s @ take 0 data" "\<not> tx_accepts E"
          using t(1,5) w2 st2 by (auto simp: s' tx_inv_def tx_stream_def)
        then show ?thesis using s'(2) by blast
      next
        case f: True
        then have l: "tx_put_loop E x data (snd ?t) = Some (err, is', s')"
          using "1.prems"(2) nonempty True w by (subst (asm) tx_put_loop.simps) (simp add: split_beta Let_def)
        have "tx_inv (snd ?t)" "tx_accepts E \<Longrightarrow> tx_awake (snd ?t)" using t(1,5) w2 by (simp_all add: tx_awake_def)
        then show ?thesis
          using "1.IH"(2)[OF nonempty refl prod.collapse refl _ w refl refl prod.collapse _ "1.prems"(1) l] True f st2 by auto
      qed
    qed
  qed
qed

lemma tx_write_step:
  assumes "ring_ok E" "slm_at_tx_write E is data s = Some (err, is', s')" "tx_inv s"
  shows "tx_inv s' \<and> (\<exists>k. tx_stream s' = tx_stream s @ take k data \<and> (err = 0 \<longrightarrow> length data \<le> k)) \<and>
    (tx_accepts E \<and> tx_drained s \<longrightarrow> err = 0 \<and> tx_drained s')"
proof -
  obtain e x t where l: "tx_put_loop E is data s = Some (e, x, t)"
    using assms(2) by (auto simp: slm_at_tx_write_def split: option.splits)
  note st = tx_put_loop_step[OF assms(1) l assms(3)]
  then obtain k where k: "tx_stream t = tx_stream s @ take k data" "e = 0 \<longrightarrow> length data \<le> k" by blast
  have aw: "tx_accepts E \<and> tx_drained s \<longrightarrow> e = 0 \<and> tx_awake t" using st by (auto simp: tx_awake_def tx_drained_def)
  have "tx_inv s' \<and> tx_stream s' = tx_stream t \<and> (err = 0 \<longrightarrow> e = 0) \<and> (tx_accepts E \<and> tx_drained s \<longrightarrow> err = 0 \<and> tx_drained s')"
  proof (cases "e = 0 \<and> ut_tx_done_sem t")
    case False
    then have "s' = t" "err = e" using assms(2) by (auto simp: slm_at_tx_write_def l split: if_splits)
    then show ?thesis using st aw False by (auto simp: tx_awake_def tx_drained_def)
  next
    case True
    let ?t = "t\<lparr>ut_tx_done_sem := False\<rparr>"
    let ?r = "slm_at_tx_start E ?t"
    have t: "rb_claimed (ut_tx ?t) = 0" "ut_active ?t = None" "\<not> ut_tx_done_sem ?t" "tx_stream ?t = tx_stream t"
      using st True by (auto simp: tx_inv_def tx_stream_def split: option.splits)
    note r = tx_start_step[OF assms(1) t(1-3)]
    have w: "err = (if fst ?r = 1 then 0 else fst ?r) \<and> s' = (if fst ?r = 0 then snd ?r else (snd ?r)\<lparr>ut_tx_done_sem := True\<rparr>)"
      using assms(2) True by (auto simp: slm_at_tx_write_def l split_beta Let_def split: if_splits)
    have "tx_inv s' \<and> tx_stream s' = tx_stream t"
      using r(1,2,4) t(4) w by (auto simp: tx_inv_def tx_stream_def)
    moreover have "tx_accepts E \<longrightarrow> fst ?r = 0 \<and> ut_active (snd ?r) \<noteq> None" using r(4,5) by blast
    ultimately show ?thesis using w True by (auto simp: tx_drained_def)
  qed
  then show ?thesis using k by metis
qed

text \<open>
  A history of the transport: the writes of the main loop with what runs while they wait, and what
  runs between them. The result of each write is recorded with its data; None is a write that never
  gets the semaphore.
\<close>

datatype tx_event = Write bytes "uart_input list" | Background uart_input

fun tx_run :: "uart_env \<Rightarrow> tx_event list \<Rightarrow> uart \<Rightarrow> ((int \<times> bytes) list \<times> uart) option" where
  "tx_run E [] s = Some ([], s)"
| "tx_run E (Background i # xs) s = tx_run E xs (uart_effect E i s)"
| "tx_run E (Write data is # xs) s = (case slm_at_tx_write E is data s of
       None \<Rightarrow> None
     | Some (err, _, s) \<Rightarrow> map_option (\<lambda>(ws, s). ((err, data) # ws, s)) (tx_run E xs s))"

text \<open>What each write has taken in: all of its data if it succeeded, a beginning otherwise.\<close>

definition taken_in :: "(int \<times> bytes) list \<Rightarrow> bytes list \<Rightarrow> bool" where
  "taken_in = list_all2 (\<lambda>(err, data) w. \<exists>k. w = take k data \<and> (err = 0 \<longrightarrow> w = data))"

lemma tx_run_step:
  assumes "ring_ok E" "tx_run E xs s = Some (ws, s')" "tx_inv s"
  shows "tx_inv s' \<and> (\<exists>sent. taken_in ws sent \<and>
      tx_stream s' = tx_stream s @ concat sent) \<and> (tx_accepts E \<and> tx_drained s \<longrightarrow> tx_drained s')"
  using assms(2,3)
proof (induction xs arbitrary: s ws)
  case Nil
  then show ?case by (auto simp: taken_in_def intro: exI[of _ "[]"])
next
  case (Cons x xs)
  show ?case
  proof (cases x)
    case (Background i)
    note e = tx_effect[OF assms(1) Cons.prems(2), of i]
    have "tx_run E xs (uart_effect E i s) = Some (ws, s')" using Cons.prems(1) Background by simp
    from Cons.IH[OF this] e show ?thesis by auto
  next
    case (Write data "is")
    then obtain err is' t us where w: "slm_at_tx_write E is data s = Some (err, is', t)" "tx_run E xs t = Some (us, s')"
      "ws = (err, data) # us"
      using Cons.prems(1) by (auto split: option.splits)
    note st = tx_write_step[OF assms(1) w(1) Cons.prems(2)]
    obtain k where k: "tx_stream t = tx_stream s @ take k data" "err = 0 \<longrightarrow> length data \<le> k" using st by blast
    note ih = Cons.IH[OF w(2)]
    obtain sent where s: "taken_in us sent"
      "tx_stream s' = tx_stream t @ concat sent"
      using ih st by blast
    have "taken_in ws (take k data # sent)"
      using s(1) k(2) by (auto simp: w(3) taken_in_def)
    moreover have "tx_stream s' = tx_stream s @ concat (take k data # sent)" using s(2) k(1) by simp
    ultimately show ?thesis using ih st by blast
  qed
qed

text \<open>
  C39: What is written goes out on the line, in order. From a successful initialisation on, through
  any sequence of writes, interrupts and work items, the bytes that the driver has put on the line
  followed by those that wait are exactly what the writes have taken in, one after the other: all
  of the data of a write that succeeds, a beginning of it otherwise. A transmission in progress
  sends the front of what waits; and if the driver refuses no transmission, one is in progress
  whenever something waits, so nothing stays behind.
\<close>

theorem uart_tx_in_order:
  assumes "ring_ok E" "slm_at_uart_init E s0 = (0, s)" "ut_active s0 = None" "ut_wire s0 = []" "tx_run E xs s = Some (ws, s')"
  shows "(\<exists>sent. taken_in ws sent \<and>
      ut_wire s' @ rb_data (ut_tx s') = concat sent) \<and>
    (\<forall>bs. ut_active s' = Some bs \<longrightarrow> bs = take (length bs) (rb_data (ut_tx s'))) \<and>
    ((\<forall>h bs. ue_result E h (Tx bs) = 0) \<and> ut_active s' = None \<longrightarrow> rb_data (ut_tx s') = [])"
proof -
  have "tx_inv s" "tx_stream s = []" "tx_drained s"
    using assms(2-4) by (auto simp: slm_at_uart_init_def slm_at_async_uart_rx_enable_def uart_call_def split_beta Let_def empty_ring_def
        tx_inv_def tx_stream_def tx_drained_def split: if_splits)
  then show ?thesis
    using tx_run_step[OF assms(1,5)] by (auto simp: tx_inv_def tx_stream_def tx_accepts_def tx_drained_def)
qed

text \<open>A run that writes \<open>OK\<close>: the driver gets both bytes and reports them as sent.\<close>

theorem uart_tx_in_order_witness:
  "\<exists>ws (s' :: uart) sent. taken_in ws sent \<and> map snd ws = [[79, 75 :: u8]] \<and>
     ut_wire s' @ rb_data (ut_tx s') = concat sent \<and> ut_wire s' = [79, 75]"
proof -
  obtain z :: uart where True by simp
  define s0 where "s0 = z\<lparr>ut_active := None, ut_wire := []\<rparr>"
  define s where "s = snd (slm_at_uart_init ref_uart s0)"
  have s: "slm_at_uart_init ref_uart s0 = (0, s)" "ut_tx s = empty_ring" "ut_tx_done_sem s" "ut_wire s = []" "ut_active s = None"
    "ut_active s0 = None" "ut_wire s0 = []"
    using ref_init(1,7-10)[of s0] by (simp_all add: s_def s0_def)
  let ?xs = "[Write [79, 75] [], Background (Irq (Tx_Done 2))]"
  let ?t = "s\<lparr>ut_tx := \<lparr>rb_data = [79, 75], rb_claimed = 0\<rparr>\<rparr>"
  have "tx_put_loop ref_uart [] [79, 75] s = Some (0, [], ?t)"
    using s(2) by (simp add: tx_put_loop.simps ref_uart_def empty_ring_def)
  then have run: "\<exists>s'. tx_run ref_uart ?xs s = Some ([(0, [79, 75])], s') \<and> ut_wire s' = [79, 75]"
    using s(3-5) by (simp add: slm_at_tx_write_def slm_at_tx_start_def uart_call_def tx_finished_def ref_uart_def Let_def)
  then obtain s' where s': "tx_run ref_uart ?xs s = Some ([(0, [79, 75])], s')" "ut_wire s' = [79, 75]" by blast
  from uart_tx_in_order[OF ref_uart_ok s(1,6,7) s'(1), THEN conjunct1] obtain sent
    where "taken_in [(0, [79, 75])] sent"
      "ut_wire s' @ rb_data (ut_tx s') = concat sent"
    by blast
  moreover have "map snd [(0 :: int, [79, 75 :: u8])] = [[79, 75]]" by simp
  ultimately show ?thesis
    using s'(2) by (intro exI[of _ "[(0, [79, 75])]"] exI[of _ s'] exI[of _ sent]) simp
qed

section \<open>Where it stops\<close>

text \<open>
  If the driver refuses the next transmission inside the callback, nobody starts one again: the
  semaphore stays taken, and every later write only queues.
\<close>

theorem uart_tx_stalls:
  assumes "ring_ok E" "n \<le> rb_claimed (ut_tx s)" "n < length (rb_data (ut_tx s))" "\<not> ut_tx_done_sem s"
    "\<And>h bs. ue_result E h (Tx bs) \<noteq> 0"
  shows "\<not> ut_tx_done_sem (slm_at_uart_callback E (Tx_Done n) s)" "rb_claimed (ut_tx (slm_at_uart_callback E (Tx_Done n) s)) = 0"
    "rb_data (ut_tx (slm_at_uart_callback E (Tx_Done n) s)) = drop n (rb_data (ut_tx s))"
  using assms ring_okD(3)[OF assms(1), of 0]
  by (simp_all add: tx_finished_def slm_at_tx_start_def uart_call_def ring_okD[OF assms(1)] split_beta Let_def)

text \<open>A recovery whose \<open>uart_rx_enable\<close> fails is not repeated: reception stays off.\<close>

theorem uart_recovery_gives_up:
  assumes "ring_ok E" "length (rb_data (ut_rx s)) \<le> 2048" "\<And>h b. ue_result E h (Rx_Enable b) \<noteq> 0"
  shows "\<not> ut_recovery_work (slm_at_uart_recovery E s)" "receiving (slm_at_uart_recovery E s)"
  using assms(2,3) by (auto simp: slm_at_uart_recovery_def slm_at_async_uart_rx_enable_def uart_call_def receiving_def
      ring_okD(5)[OF assms(1)] split_beta Let_def)

end
