(* ===== verification/At_Sub.thy ===== *)
theory At_Sub
  imports At_Text
begin

text \<open>
  The argument extraction helpers of the AT interface (src/slm_at_sub.c): numbers and fields of a
  line by their position. A C string is the list of its characters before the NUL; the working
  copy \<open>temp_buf\<close> gets a NUL for every separator.
\<close>

abbreviation (input) ENOEXEC :: int where "ENOEXEC \<equiv> 8"
abbreviation (input) ALL_POSITIONS :: u32 where "ALL_POSITIONS \<equiv> 0xFFFFFFFF"
abbreviation (input) NUL :: char where "NUL \<equiv> CHR 0x00"
abbreviation (input) INT64_MAX :: int where "INT64_MAX \<equiv> 0x7FFFFFFFFFFFFFFF"

section \<open>The C library\<close>

definition isdigit :: "char \<Rightarrow> bool" where
  "isdigit c \<longleftrightarrow> (let n = of_char c :: nat in 48 \<le> n \<and> n \<le> 57)"

definition isxdigit :: "char \<Rightarrow> bool" where
  "isxdigit c \<longleftrightarrow> hex_nibble c \<noteq> None"

definition c_string :: "string \<Rightarrow> string" where
  "c_string s = takeWhile (\<lambda>c. c \<noteq> NUL) s"

definition digits_value :: "int \<Rightarrow> string \<Rightarrow> int" where
  "digits_value base ds = foldl (\<lambda>v c. v * base + int (the (hex_nibble c))) 0 ds"

definition signed_value :: "int \<Rightarrow> (char \<Rightarrow> bool) \<Rightarrow> string \<Rightarrow> int" where
  "signed_value base digit s = (case s of
       [] \<Rightarrow> 0
     | c # cs \<Rightarrow> if c = CHR ''-'' then - digits_value base (takeWhile digit cs) else digits_value base (takeWhile digit s))"

text \<open>\<open>atoll\<close>: a value that \<open>long long\<close> cannot hold is undefined behaviour, None here.\<close>

definition atoll :: "string \<Rightarrow> int option" where
  "atoll s = (let v = signed_value 10 isdigit s in if - INT64_MAX - 1 \<le> v \<and> v \<le> INT64_MAX then Some v else None)"

text \<open>\<open>strtoll\<close> with base 16 saturates; a prefix \<open>0x\<close> cannot occur, the \<open>x\<close> is a separator here.\<close>

definition strtoll16 :: "string \<Rightarrow> int" where
  "strtoll16 s = max (- INT64_MAX - 1) (min INT64_MAX (signed_value 16 isxdigit s))"

section \<open>The functions\<close>

text \<open>
  The scanning loop from index \<open>i\<close> on: characters that are not \<open>tok\<close> become NUL, the start of each
  run of the others is noted, at most 16 of them, the last place being overwritten from then on.
\<close>

primrec scan_tokens :: "(char \<Rightarrow> bool) \<Rightarrow> nat \<Rightarrow> string \<Rightarrow> bool \<Rightarrow> nat \<Rightarrow> nat list \<Rightarrow> string \<times> nat \<times> nat list" where
  "scan_tokens tok i [] flag j pos = ([], j, pos)"
| "scan_tokens tok i (c # cs) flag j pos = (
     if \<not> tok c then let (buf, r) = scan_tokens tok (Suc i) cs True j pos in (NUL # buf, r)
     else if flag then let (buf, r) = scan_tokens tok (Suc i) cs False (if j < 15 then Suc j else j) (pos[j := i]) in (c # buf, r)
     else let (buf, r) = scan_tokens tok (Suc i) cs False j pos in (c # buf, r))"

definition is_number_char :: "char \<Rightarrow> bool" where
  "is_number_char c \<longleftrightarrow> isdigit c \<or> c = CHR ''-''"

definition is_hex_char :: "char \<Rightarrow> bool" where
  "is_hex_char c \<longleftrightarrow> isxdigit c \<or> c = CHR ''-''"

text \<open>The errno result and \<open>*data\<close>; None is undefined behaviour.\<close>

definition slm_at_extract_int :: "string \<Rightarrow> u32 \<Rightarrow> (int \<times> int) option" where
  "slm_at_extract_int str position = (
     if SLM_UART_STRING_MESSAGE_SIZE_MAX < length str then Some (- ENOEXEC, 0)
     else let (buf, j, pos) = scan_tokens is_number_char 0 str True 0 (replicate 16 0) in
     if unat position < j
     then map_option (Pair 0) (atoll (c_string (drop (pos ! unat (position AND 0x0F)) buf)))
     else Some (- ENOEXEC, 0))"

definition slm_at_extract_hex_int :: "string \<Rightarrow> u32 \<Rightarrow> int \<times> int" where
  "slm_at_extract_hex_int str position = (
     if SLM_UART_STRING_MESSAGE_SIZE_MAX < length str then (- ENOEXEC, 0)
     else let (buf, j, pos) = scan_tokens is_hex_char 0 str True 0 (replicate 16 0) in
     if unat position < j
     then (0, strtoll16 (c_string (drop (pos ! unat (position AND 0x0F)) buf)))
     else (- ENOEXEC, 0))"

definition is_field_char :: "char \<Rightarrow> bool" where
  "is_field_char c \<longleftrightarrow> c \<notin> {CHR '','', CHR ''='', CHR '':'', CHR 0x0D, CHR 0x0A}"

text \<open>The errno result and what was copied to \<open>estr\<close>.\<close>

definition slm_at_extract_string :: "string \<Rightarrow> u32 \<Rightarrow> int \<times> string option" where
  "slm_at_extract_string str position = (
     if SLM_UART_STRING_MESSAGE_SIZE_MAX < length str then (- ENOEXEC, None)
     else let (buf, j, pos) = (if position \<noteq> ALL_POSITIONS then scan_tokens is_field_char 0 str True 0 (replicate 16 0)
                               else (str, 0, replicate 16 0)) in
     (0, Some (c_string (drop (pos ! unat (position AND 0x0F)) buf))))"

section \<open>Scanning\<close>

definition tokens_text :: "(string \<times> string) list \<Rightarrow> string" where
  "tokens_text ps = concat (map (\<lambda>(sep, t). sep @ t) ps)"

lemma scan_separators:
  assumes "\<forall>c\<in>set xs. \<not> tok c" "xs \<noteq> [] \<or> flag"
  shows "scan_tokens tok i (xs @ ys) flag j pos =
    (let (buf, r) = scan_tokens tok (i + length xs) ys True j pos in (replicate (length xs) NUL @ buf, r))"
  using assms
proof (induction xs arbitrary: i flag)
  case (Cons x xs)
  then show ?case using Cons.IH[of True "Suc i"] by (simp add: split_beta Let_def)
qed (simp add: split_beta Let_def)

lemma scan_token_rest:
  assumes "\<forall>c\<in>set t. tok c"
  shows "scan_tokens tok i (t @ ys) False j pos =
    (let (buf, r) = scan_tokens tok (i + length t) ys False j pos in (t @ buf, r))"
  using assms
proof (induction t arbitrary: i)
  case (Cons x xs)
  then show ?case using Cons.IH[of "Suc i"] by (simp add: split_beta Let_def)
qed (simp add: split_beta Let_def)

lemma scan_token:
  assumes "\<forall>c\<in>set t. tok c" "t \<noteq> []"
  shows "scan_tokens tok i (t @ ys) True j pos =
    (let (buf, r) = scan_tokens tok (i + length t) ys False (if j < 15 then Suc j else j) (pos[j := i]) in (t @ buf, r))"
proof -
  obtain x xs where t: "t = x # xs" using assms(2) by (cases t) auto
  then show ?thesis using assms(1) scan_token_rest[of xs tok "Suc i" ys] by (simp add: split_beta Let_def)
qed

lemma length_scan: "length (fst (scan_tokens tok i s flag j pos)) = length s"
  by (induction s arbitrary: i flag j pos) (simp_all add: split_beta Let_def)

lemma scan_head:
  "s \<noteq> [] \<Longrightarrow> \<not> tok (hd s) \<Longrightarrow> hd (fst (scan_tokens tok i s flag j pos)) = NUL"
  by (cases s) (simp_all add: split_beta Let_def)

lemma c_string_token:
  assumes "NUL \<notin> set t" "xs = [] \<or> hd xs = NUL" shows "c_string (t @ xs) = t"
proof -
  have "takeWhile (\<lambda>c. c \<noteq> NUL) xs = []" using assms(2) by (cases xs) auto
  moreover have "takeWhile (\<lambda>c. c \<noteq> NUL) (t @ xs) = t @ takeWhile (\<lambda>c. c \<noteq> NUL) xs"
    using assms(1) by (intro takeWhile_append2) auto
  ultimately show ?thesis by (simp add: c_string_def)
qed

text \<open>What a scan notes: token \<open>k\<close> can be read at place \<open>j + k\<close>.\<close>

definition noted :: "nat \<Rightarrow> nat \<Rightarrow> string list \<Rightarrow> string \<times> nat \<times> nat list \<Rightarrow> bool" where
  "noted i j ts r \<longleftrightarrow> fst (snd r) = min 15 (j + length ts) \<and>
     (\<forall>k<length ts. j + k < 15 \<longrightarrow> i \<le> snd (snd r) ! (j + k) \<and> c_string (drop (snd (snd r) ! (j + k) - i) (fst r)) = ts ! k)"

lemma scan_keeps:
  "m < j \<Longrightarrow> m < 15 \<Longrightarrow> snd (snd (scan_tokens tok i s flag j pos)) ! m = pos ! m"
  by (induction s arbitrary: i flag j pos) (simp_all add: split_beta Let_def)

lemma scan_notes:
  assumes "\<forall>(sep, t)\<in>set ps. (\<forall>c\<in>set sep. \<not> tok c) \<and> (\<forall>c\<in>set t. tok c) \<and> t \<noteq> [] \<and> NUL \<notin> set t"
    "\<forall>(sep, t)\<in>set (tl ps). sep \<noteq> []" "\<forall>c\<in>set rest. \<not> tok c" "flag \<or> ps = [] \<or> fst (hd ps) \<noteq> []" "j \<le> 15" "length pos = 16"
  shows "noted i j (map snd ps) (scan_tokens tok i (tokens_text ps @ rest) flag j pos)"
  using assms(1,2,4-6)
proof (induction ps arbitrary: i flag j pos)
  case Nil
  have "fst (snd (scan_tokens tok i rest flag j pos)) = j" if "\<forall>c\<in>set rest. \<not> tok c" for i flag j pos
    using that by (induction rest arbitrary: i flag) (simp_all add: split_beta Let_def)
  then show ?case using assms(3) Nil.prems by (simp add: noted_def tokens_text_def)
next
  case (Cons p ps)
  obtain sep t where p: "p = (sep, t)" by (cases p)
  let ?i = "i + length sep + length t" and ?j = "if j < 15 then Suc j else j"
  let ?r = "scan_tokens tok ?i (tokens_text ps @ rest) False ?j (pos[j := i + length sep])"
  have t: "\<forall>c\<in>set sep. \<not> tok c" "\<forall>c\<in>set t. tok c" "t \<noteq> []" "NUL \<notin> set t" "sep \<noteq> [] \<or> flag"
    using Cons.prems(1,3) by (auto simp: p)
  have e: "scan_tokens tok i (tokens_text (p # ps) @ rest) flag j pos = (replicate (length sep) NUL @ t @ fst ?r, snd ?r)"
    using scan_separators[OF t(1,5), of i "t @ tokens_text ps @ rest" j pos] scan_token[OF t(2,3), of "i + length sep" "tokens_text ps @ rest" j pos]
    by (simp add: tokens_text_def p split_beta Let_def)
  have hd: "fst (hd ps) \<noteq> []" if "ps \<noteq> []" using Cons.prems(2) that by (cases ps) auto
  have "\<forall>(sep, t)\<in>set (tl ps). sep \<noteq> []" using Cons.prems(2) by (cases ps) auto
  then have IH: "noted ?i ?j (map snd ps) ?r"
    using hd Cons.prems(1,5) Cons.prems(4) by (intro Cons.IH) auto
  have "fst ?r = [] \<or> hd (fst ?r) = NUL"
  proof (cases "tokens_text ps @ rest = []")
    case True
    then show ?thesis using length_scan[of tok ?i "tokens_text ps @ rest" False ?j "pos[j := i + length sep]"] by simp
  next
    case False
    have "\<not> tok (hd (tokens_text ps @ rest))"
      using hd Cons.prems(1) assms(3) False by (cases ps) (auto simp: tokens_text_def hd_append split: prod.splits)
    then show ?thesis using scan_head[OF False] by blast
  qed
  note tok = c_string_token[OF t(4) this]
  show ?case
    unfolding e noted_def fst_conv snd_conv
  proof (intro conjI allI impI)
    show "fst (snd ?r) = min 15 (j + length (map snd (p # ps)))" using IH Cons.prems(4) by (auto simp: noted_def)
    fix k assume k: "k < length (map snd (p # ps))" "j + k < 15"
    have "i \<le> snd (snd ?r) ! (j + k) \<and>
      c_string (drop (snd (snd ?r) ! (j + k) - i) (replicate (length sep) NUL @ t @ fst ?r)) = map snd (p # ps) ! k"
    proof (cases k)
      case 0
      then have "snd (snd ?r) ! j = i + length sep"
        using scan_keeps[of j ?j tok ?i _ False "pos[j := i + length sep]"] k(2) Cons.prems(5) by simp
      then show ?thesis using tok 0 by (simp add: p)
    next
      case (Suc k')
      then have "?i \<le> snd (snd ?r) ! (j + k)" "c_string (drop (snd (snd ?r) ! (j + k) - ?i) (fst ?r)) = map snd ps ! k'"
        using IH k by (auto simp: noted_def)
      moreover have "drop (m - i) (replicate (length sep) NUL @ t @ fst ?r) = drop (m - ?i) (fst ?r)" if "?i \<le> m" for m
        using that by simp
      ultimately show ?thesis using Suc by simp
    qed
    then show "i \<le> snd (snd ?r) ! (j + k)"
      "c_string (drop (snd (snd ?r) ! (j + k) - i) (replicate (length sep) NUL @ t @ fst ?r)) = map snd (p # ps) ! k"
      by blast+
  qed
qed

section \<open>The functions on lines of tokens\<close>

text \<open>A signed number as \<open>printf\<close> writes it.\<close>

definition int_str :: "int \<Rightarrow> string" where
  "int_str n = (if n < 0 then CHR ''-'' # dec_str (nat (- n)) else dec_str (nat n))"

lemma dec_str_digit:
  assumes "n < 10"
  shows "isdigit (''0123456789'' ! n) \<and> hex_nibble (''0123456789'' ! n) = Some n \<and> ''0123456789'' ! n \<notin> {NUL, CHR ''-''}"
proof -
  have "list_all (\<lambda>n. isdigit (''0123456789'' ! n) \<and> hex_nibble (''0123456789'' ! n) = Some n \<and>
      ''0123456789'' ! n \<notin> {NUL, CHR ''-''}) [0..<10]"
    by (simp add: isdigit_def hex_nibble_def upt_conv_Cons)
  then show ?thesis using assms by (simp add: list_all_iff)
qed

lemma dec_str_props:
  "(\<forall>c\<in>set (dec_str n). isdigit c \<and> c \<noteq> NUL \<and> c \<noteq> CHR ''-'') \<and> dec_str n \<noteq> [] \<and> digits_value 10 (dec_str n) = int n"
proof (induction n rule: dec_str.induct)
  case (1 n)
  show ?case
  proof (cases "n < 10")
    case True
    then show ?thesis using dec_str_digit[OF True] by (simp add: dec_str.simps[of n] digits_value_def)
  next
    case False
    have d: "n mod 10 < 10" by simp
    have "int (n div 10 * 10 + n mod 10) = int n" by simp
    then have "int (n div 10) * 10 + int (n mod 10) = int n" by (simp only: of_nat_add of_nat_mult of_nat_numeral)
    then show ?thesis using "1.IH"[OF False] dec_str_digit[OF d] False
      by (simp add: dec_str.simps[of n] digits_value_def)
  qed
qed

lemma int_str_props:
  "\<forall>c\<in>set (int_str n). is_number_char c" "int_str n \<noteq> []" "NUL \<notin> set (int_str n)" "signed_value 10 isdigit (int_str n) = n"
proof -
  note d = dec_str_props[of "nat (- n)"] and e = dec_str_props[of "nat n"]
  show "\<forall>c\<in>set (int_str n). is_number_char c" "int_str n \<noteq> []" "NUL \<notin> set (int_str n)"
    using d e by (auto simp: int_str_def is_number_char_def)
  have tw: "takeWhile isdigit (dec_str m) = dec_str m" for m using dec_str_props[of m] by (simp add: takeWhile_eq_all_conv)
  show "signed_value 10 isdigit (int_str n) = n"
  proof (cases "n < 0")
    case True
    then show ?thesis using d by (simp add: int_str_def signed_value_def tw)
  next
    case False
    obtain c cs where c: "dec_str (nat n) = c # cs" using e by (cases "dec_str (nat n)") simp_all
    then have "c \<noteq> CHR ''-''" using e by simp
    then have "signed_value 10 isdigit (dec_str (nat n)) = digits_value 10 (takeWhile isdigit (dec_str (nat n)))"
      by (simp add: signed_value_def c)
    then show ?thesis using e False by (simp add: int_str_def tw)
  qed
qed

lemma extract_tokens:
  assumes "\<forall>(sep, t)\<in>set ps. (\<forall>c\<in>set sep. \<not> tok c) \<and> (\<forall>c\<in>set t. tok c) \<and> t \<noteq> [] \<and> NUL \<notin> set t"
    "\<forall>(sep, t)\<in>set (tl ps). sep \<noteq> []" "\<forall>c\<in>set rest. \<not> tok c"
  defines "r \<equiv> scan_tokens tok 0 (tokens_text ps @ rest) True 0 (replicate 16 0)"
  shows "fst (snd r) = min 15 (length ps)"
    "k < length ps \<Longrightarrow> k < 15 \<Longrightarrow> c_string (drop (snd (snd r) ! k) (fst r)) = snd (ps ! k)"
proof -
  have "noted 0 0 (map snd ps) r" unfolding r_def using assms(1-3) by (intro scan_notes) auto
  then show "fst (snd r) = min 15 (length ps)"
    "k < length ps \<Longrightarrow> k < 15 \<Longrightarrow> c_string (drop (snd (snd r) ! k) (fst r)) = snd (ps ! k)"
    by (auto simp: noted_def)
qed

lemma position_low: "unat (position :: u32) < 15 \<Longrightarrow> unat (position AND 0x0F) = unat position"
proof -
  assume "unat position < 15"
  moreover have "position AND 0x0F = take_bit 4 position" by (simp add: take_bit_eq_mask mask_eq_exp_minus_1)
  ultimately show ?thesis by (simp add: unsigned_take_bit_eq take_bit_nat_eq_self)
qed

text \<open>
  In a line of at most 256 characters that holds printed numbers between other text, position
  \<open>k\<close> is the \<open>k\<close>-th number exactly, as long as it is one of the first 15 that are noted; every
  other position is refused with ENOEXEC and zero.
\<close>

theorem extract_int_nth:
  assumes "\<forall>(sep, n)\<in>set ps. \<forall>c\<in>set sep. \<not> is_number_char c" "\<forall>(sep, n)\<in>set (tl ps). sep \<noteq> []" "\<forall>c\<in>set rest. \<not> is_number_char c"
    "\<forall>(sep, n)\<in>set ps. - INT64_MAX - 1 \<le> n \<and> n \<le> INT64_MAX"
  defines "s \<equiv> tokens_text (map (\<lambda>(sep, n). (sep, int_str n)) ps) @ rest"
  assumes "length s \<le> SLM_UART_STRING_MESSAGE_SIZE_MAX"
  shows "slm_at_extract_int s position =
    Some (if unat position < length ps \<and> unat position < 15 then (0, snd (ps ! unat position)) else (- ENOEXEC, 0))"
proof -
  let ?ps = "map (\<lambda>(sep, n). (sep, int_str n)) ps"
  let ?r = "scan_tokens is_number_char 0 s True 0 (replicate 16 0)"
  have a: "\<forall>(sep, t)\<in>set ?ps. (\<forall>c\<in>set sep. \<not> is_number_char c) \<and> (\<forall>c\<in>set t. is_number_char c) \<and> t \<noteq> [] \<and> NUL \<notin> set t"
    using assms(1) int_str_props(1-3) by auto
  have b: "\<forall>(sep, t)\<in>set (tl ?ps). sep \<noteq> []" using assms(2) by (cases ps) auto
  note x = extract_tokens[OF a b assms(3), folded s_def]
  have v: "atoll (int_str (snd (ps ! k))) = Some (snd (ps ! k))" if "k < length ps" for k
    using assms(4) nth_mem[OF that] by (auto simp: atoll_def int_str_props(4) Let_def)
  show ?thesis
    using assms(6) x(1) x(2)[where k = "unat position"] v[of "unat position"] position_low[of position]
    by (auto simp: slm_at_extract_int_def split_beta Let_def)
qed

theorem extract_int_nth_witness:
  "slm_at_extract_int (''#ID: '' @ dec_str 12 @ '', '' @ CHR ''-'' # dec_str 7) 1 = Some (0, - 7)"
proof -
  have "\<forall>(sep, n)\<in>set [(''#ID: '', 12), ('', '', - 7 :: int)]. \<forall>c\<in>set sep. \<not> is_number_char c"
    by (simp add: is_number_char_def isdigit_def)
  then show ?thesis
    using extract_int_nth[of "[(''#ID: '', 12), ('', '', - 7)]" "[]" 1] by (simp add: tokens_text_def int_str_def dec_str.simps)
qed

text \<open>A field that is not there is no error: what is copied is the text from the beginning.\<close>

theorem extract_string_no_error:
  "length s \<le> SLM_UART_STRING_MESSAGE_SIZE_MAX \<Longrightarrow> fst (slm_at_extract_string s position) = 0"
  by (simp add: slm_at_extract_string_def split_beta Let_def)

end
