(* ===== verification/Sensor_Structure.thy ===== *)
theory Sensor_Structure
  imports Prelude
begin

text \<open>
  The application payloads of src/tools/sensor_structure.c that the firmware carries as opaque bytes:
  the packed layout of every structure as a value of a datatype of C types, with sizes and offsets.
  The static assertions of the file are lemmas. The anonymous unions have the name \<open>info\<close> here.
\<close>

section \<open>Packed layouts\<close>

datatype ctype = U8 | I8 | U16 | I16 | U32 | Char | Array ctype nat
  | Struct "(string \<times> ctype) list" | Union "(string \<times> ctype) list"

fun sizeof :: "ctype \<Rightarrow> nat" where
  "sizeof U8 = 1" | "sizeof I8 = 1" | "sizeof Char = 1"
| "sizeof U16 = 2" | "sizeof I16 = 2" | "sizeof U32 = 4"
| "sizeof (Array t n) = n * sizeof t"
| "sizeof (Struct fs) = (\<Sum>(f, t) \<leftarrow> fs. sizeof t)"
| "sizeof (Union fs) = foldr (\<lambda>(f, t) n. max (sizeof t) n) fs 0"

text \<open>Offset and type of a field of a packed structure.\<close>

primrec struct_field :: "(string \<times> ctype) list \<Rightarrow> string \<Rightarrow> (nat \<times> ctype) option" where
  "struct_field [] f = None"
| "struct_field (x # xs) f = (if fst x = f then Some (0, snd x)
     else map_option (\<lambda>(a, t). (sizeof (snd x) + a, t)) (struct_field xs f))"

fun offset_of :: "ctype \<Rightarrow> string list \<Rightarrow> (nat \<times> ctype) option" where
  "offset_of t [] = Some (0, t)"
| "offset_of (Struct fs) (f # p) = (case struct_field fs f of None \<Rightarrow> None
     | Some (a, t) \<Rightarrow> map_option (\<lambda>(b, u). (a + b, u)) (offset_of t p))"
| "offset_of (Union fs) (f # p) = (case map_of fs f of None \<Rightarrow> None | Some t \<Rightarrow> offset_of t p)"
| "offset_of t (f # p) = None"

section \<open>The structures\<close>

abbreviation SENSOR_REPORT_INFO_MAX :: nat where "SENSOR_REPORT_INFO_MAX \<equiv> 16"
abbreviation SENSOR_CONFIG_INFO_MAX :: nat where "SENSOR_CONFIG_INFO_MAX \<equiv> 16"
abbreviation SENSOR_LARGE_DATA_INFO_MAX :: nat where "SENSOR_LARGE_DATA_INFO_MAX \<equiv> 200 * 1024"
abbreviation SENSOR_DATA_STR_SN_MAX :: nat where "SENSOR_DATA_STR_SN_MAX \<equiv> 12"
abbreviation SENSOR_REPORT_CONFIG_NAME_MAX :: nat where "SENSOR_REPORT_CONFIG_NAME_MAX \<equiv> 6"

definition sensor_report_info_3100 :: ctype where
  "sensor_report_info_3100 = Struct [
    (''temperature1'', I16), (''humidity1'', U16), (''vibration_level'', U16), (''vibration_frequency'', U8)]"

definition sensor_report_info_3101 :: ctype where
  "sensor_report_info_3101 = Struct [
    (''temperature1'', I16), (''humidity1'', U16), (''temperature2'', I16), (''humidity2'', U16),
    (''vibration_level'', U16), (''vibration_frequency'', U8)]"

definition sensor_report_info_3102 :: ctype where
  "sensor_report_info_3102 = Struct [
    (''temperature1'', I16), (''humidity1'', U16), (''gas1'', U16), (''gas2'', U16), (''gas3'', U16),
    (''vibration_level'', U16), (''vibration_frequency'', U8)]"

definition sensor_report_info_3103 :: ctype where
  "sensor_report_info_3103 = Struct [
    (''temperature1'', I16), (''humidity1'', U16), (''temperature2'', I16), (''humidity2'', U16),
    (''vibration_level'', U16), (''vibration_frequency'', U8)]"

definition sensor_report_info_3104 :: ctype where
  "sensor_report_info_3104 = Struct [
    (''temperature1'', I16), (''humidity1'', U16), (''temperature2'', I16), (''humidity2'', U16), (''current'', U16),
    (''vibration_level'', U16), (''vibration_frequency'', U8)]"

definition sensor_report_info_3105 :: ctype where
  "sensor_report_info_3105 = Struct [
    (''temperature1'', I16), (''humidity1'', U16), (''temperature2'', I16), (''humidity2'', U16),
    (''ultrasound_level'', U16), (''ultrasound_frequency'', U8), (''vibration_level'', U16),
    (''vibration_frequency'', U8)]"

definition sensor_report_info_3200 :: ctype where
  "sensor_report_info_3200 = Struct [
    (''temperature1'', I16), (''humidity1'', U16), (''ultrasound_level'', U16), (''ultrasound_frequency'', U8)]"

definition sensor_report_info_3300 :: ctype where
  "sensor_report_info_3300 = Struct [
    (''temperature1'', I16), (''humidity1'', U16), (''temperature2'', I16), (''humidity2'', U16),
    (''ultrasound_level'', U16), (''ultrasound_frequency'', U8), (''vibration_level'', U16),
    (''vibration_frequency'', U8)]"

definition sensor_large_data_info_3300 :: ctype where
  "sensor_large_data_info_3300 = Struct [
    (''report_info_3300'', sensor_report_info_3300),
    (''sound_record'', Array U8 (SENSOR_LARGE_DATA_INFO_MAX - sizeof sensor_report_info_3300 - 29))]"

definition sensor_config_info_3100 :: ctype where
  "sensor_config_info_3100 = Struct [
    (''temperature_max1'', I8), (''temperature_min1'', I8), (''humidity_max1'', U8), (''humidity_min1'', U8),
    (''vibration_level_max'', U16), (''random_number'', U8)]"

definition sensor_config_info_3101 :: ctype where
  "sensor_config_info_3101 = Struct [
    (''temperature_max1'', I8), (''temperature_min1'', I8), (''humidity_max1'', U8), (''humidity_min1'', U8),
    (''temperature_max2'', I8), (''temperature_min2'', I8), (''humidity_max2'', U8), (''humidity_min2'', U8),
    (''vibration_level_max'', U16), (''random_number'', U8)]"

definition sensor_config_info_3102 :: ctype where
  "sensor_config_info_3102 = Struct [
    (''temperature_max1'', I8), (''temperature_min1'', I8), (''humidity_max1'', U8), (''humidity_min1'', U8),
    (''gas1_max'', U16), (''gas2_max'', U16), (''gas3_max'', U16), (''vibration_level_max'', U16),
    (''random_number'', U8)]"

definition sensor_config_info_3103 :: ctype where
  "sensor_config_info_3103 = Struct [
    (''temperature_max1'', I8), (''temperature_min1'', I8), (''humidity_max1'', U8), (''humidity_min1'', U8),
    (''temperature_max2'', I8), (''temperature_min2'', I8), (''humidity_max2'', U8), (''humidity_min2'', U8),
    (''vibration_level_max'', U16), (''random_number'', U8)]"

definition sensor_config_info_3104 :: ctype where
  "sensor_config_info_3104 = Struct [
    (''temperature_max1'', I8), (''temperature_min1'', I8), (''humidity_max1'', U8), (''humidity_min1'', U8),
    (''temperature_max2'', I8), (''temperature_min2'', I8), (''humidity_max2'', U8), (''humidity_min2'', U8),
    (''current_max'', U16), (''current_min'', U16), (''vibration_level_max'', U16), (''random_number'', U8)]"

definition sensor_config_info_3105 :: ctype where
  "sensor_config_info_3105 = Struct [
    (''temperature_max1'', I8), (''temperature_min1'', I8), (''humidity_max1'', U8), (''humidity_min1'', U8),
    (''temperature_max2'', I8), (''temperature_min2'', I8), (''humidity_max2'', U8), (''humidity_min2'', U8),
    (''ultrasound_level_max'', U16), (''ultrasound_center_frequency'', U8), (''vibration_level_max'', U16),
    (''random_number'', U8)]"

definition sensor_config_info_3200 :: ctype where
  "sensor_config_info_3200 = Struct [
    (''temperature_max1'', I8), (''temperature_min1'', I8), (''humidity_max1'', U8), (''humidity_min1'', U8),
    (''ultrasound_level_max'', U16), (''ultrasound_center_frequency'', U8), (''random_number'', U8)]"

definition sensor_config_info_3300 :: ctype where
  "sensor_config_info_3300 = Struct [
    (''temperature_max1'', I8), (''temperature_min1'', I8), (''humidity_max1'', U8), (''humidity_min1'', U8),
    (''temperature_max2'', I8), (''temperature_min2'', I8), (''humidity_max2'', U8), (''humidity_min2'', U8),
    (''ultrasound_level_max'', U16), (''ultrasound_center_frequency'', U8), (''vibration_level_max'', U16),
    (''random_number'', U8)]"

definition sensor_data_structure :: ctype where
  "sensor_data_structure = Struct [
    (''name'', Array Char SENSOR_REPORT_CONFIG_NAME_MAX), (''sn'', Array Char SENSOR_DATA_STR_SN_MAX),
    (''report_type'', U16), (''firmware_version'', U16), (''battery_level'', U8), (''alarm_flags'', U16),
    (''report_flags'', U8), (''report_crc16'', U16), (''info'', Union [
    (''report_info'', Array U8 SENSOR_REPORT_INFO_MAX), (''report_info_3100'', sensor_report_info_3100),
    (''report_info_3101'', sensor_report_info_3101), (''report_info_3102'', sensor_report_info_3102),
    (''report_info_3103'', sensor_report_info_3103), (''report_info_3104'', sensor_report_info_3104),
    (''report_info_3105'', sensor_report_info_3105), (''report_info_3200'', sensor_report_info_3200),
    (''report_info_3300'', sensor_report_info_3300)])]"

definition sensor_config_structure :: ctype where
  "sensor_config_structure = Struct [
    (''name'', Array Char SENSOR_REPORT_CONFIG_NAME_MAX), (''dest_id'', Array U8 6), (''command'', U8),
    (''new_firmware_version'', U16), (''battery_level_min'', U8), (''sleep_time_sec'', U16), (''config_flags'', U8),
    (''config_crc16'', U16), (''info'', Union [(''config_info'', Array U8 SENSOR_CONFIG_INFO_MAX),
    (''report_info_3100'', sensor_report_info_3100), (''report_info_3101'', sensor_report_info_3101),
    (''report_info_3102'', sensor_report_info_3102), (''report_info_3103'', sensor_report_info_3103),
    (''report_info_3104'', sensor_report_info_3104), (''report_info_3105'', sensor_report_info_3105),
    (''report_info_3200'', sensor_report_info_3200), (''config_info_3300'', sensor_config_info_3300)])]"

definition sensor_large_data_structure :: ctype where
  "sensor_large_data_structure = Struct [
    (''name'', Array Char SENSOR_REPORT_CONFIG_NAME_MAX), (''sn'', Array Char SENSOR_DATA_STR_SN_MAX),
    (''data_type'', U16), (''firmware_version'', U16), (''battery_level'', U8), (''total_size'', U32),
    (''large_data_crc16'', U16), (''info'', Union [(''data_info'', Array U8 (SENSOR_LARGE_DATA_INFO_MAX - 29)),
    (''data_info_3300'', sensor_large_data_info_3300)])]"

lemmas sensor_structure_defs =
  sensor_report_info_3100_def sensor_report_info_3101_def sensor_report_info_3102_def sensor_report_info_3103_def
  sensor_report_info_3104_def sensor_report_info_3105_def sensor_report_info_3200_def sensor_report_info_3300_def
  sensor_config_info_3100_def sensor_config_info_3101_def sensor_config_info_3102_def sensor_config_info_3103_def
  sensor_config_info_3104_def sensor_config_info_3105_def sensor_config_info_3200_def sensor_config_info_3300_def
  sensor_large_data_info_3300_def sensor_data_structure_def sensor_config_structure_def sensor_large_data_structure_def

section \<open>Fields lie inside their structure\<close>

lemma union_member_size: "map_of fs f = Some t \<Longrightarrow> sizeof t \<le> sizeof (Union fs)"
  by (induction fs) (auto split: if_splits)

lemma struct_field_inside: "struct_field fs f = Some (a, t) \<Longrightarrow> a + sizeof t \<le> sizeof (Struct fs)"
  by (induction fs arbitrary: a) (auto split: if_splits)

lemma offset_inside: "offset_of t p = Some (a, u) \<Longrightarrow> a + sizeof u \<le> sizeof t"
proof (induction t p arbitrary: a u rule: offset_of.induct)
  case (2 fs f p)
  then obtain b t c where *: "struct_field fs f = Some (b, t)" "offset_of t p = Some (c, u)" "a = b + c"
    by (auto split: option.splits)
  show ?case using 2(1)[OF *(1) refl *(2)] struct_field_inside[OF *(1)] *(3) by simp
next
  case (3 fs f p)
  then obtain t where *: "map_of fs f = Some t" "offset_of t p = Some (a, u)" by (auto split: option.splits)
  show ?case using 3(1)[OF *] union_member_size[OF *(1)] by (simp del: sizeof.simps)
qed simp_all

section \<open>The sizes are the ones the assertions lock\<close>

lemma report_info_sizes:
  "sizeof sensor_report_info_3100 = 7" "sizeof sensor_report_info_3101 = 11" "sizeof sensor_report_info_3102 = 13"
  "sizeof sensor_report_info_3103 = 11" "sizeof sensor_report_info_3104 = 13" "sizeof sensor_report_info_3105 = 14"
  "sizeof sensor_report_info_3200 = 7" "sizeof sensor_report_info_3300 = 14"
  by (simp_all add: sensor_structure_defs)

lemma config_info_sizes:
  "sizeof sensor_config_info_3100 = 7" "sizeof sensor_config_info_3101 = 11" "sizeof sensor_config_info_3102 = 13"
  "sizeof sensor_config_info_3103 = 11" "sizeof sensor_config_info_3104 = 15" "sizeof sensor_config_info_3105 = 14"
  "sizeof sensor_config_info_3200 = 8" "sizeof sensor_config_info_3300 = 14"
  by (simp_all add: sensor_structure_defs)

lemma large_info_size: "sizeof sensor_large_data_info_3300 = SENSOR_LARGE_DATA_INFO_MAX - 29"
  by (simp add: sensor_large_data_info_3300_def report_info_sizes)

lemma structure_sizes:
  "sizeof sensor_data_structure = 28 + SENSOR_REPORT_INFO_MAX" "sizeof sensor_config_structure = 21 + SENSOR_CONFIG_INFO_MAX"
  "sizeof sensor_large_data_structure = SENSOR_LARGE_DATA_INFO_MAX"
  by (simp_all add: sensor_data_structure_def sensor_config_structure_def sensor_large_data_structure_def report_info_sizes
      config_info_sizes large_info_size)

end
