(* ===== verification/Pairing_Choice.thy ===== *)
theory Pairing_Choice
  imports Handler_Props
begin

text \<open>
  Which of the collected responses a node confirms (src/mesh_layers/mesh_pairing.c): the sort of
  the candidates is an instance of the bubble sort, and the first of the sorted candidates is
  confirmed by the tick after the one that ends the window.
\<close>

interpretation candidate_order: exchange_order candidate_gt
  by unfold_locales (auto simp: candidate_gt_def word_sless_alt)

text \<open>Nearer to the gateway, or as near and at least as strong.\<close>

definition no_worse :: "response_candidate \<Rightarrow> response_candidate \<Rightarrow> bool" where
  "no_worse b c \<longleftrightarrow> cd_hop_num b < cd_hop_num c \<or> cd_hop_num b = cd_hop_num c \<and> cd_rssi_2 c \<le>s cd_rssi_2 b"

lemma no_worse_gt: "no_worse b c \<longleftrightarrow> \<not> candidate_gt b c"
  by (auto simp: no_worse_def candidate_gt_def word_sless_alt word_sle_eq not_less)

text \<open>A node that has no peer and whose collection window is over.\<close>

definition window_over :: "dev \<Rightarrow> bool" where
  "window_over d \<longleftrightarrow> dv_status d = Running \<and> infra_count d = 0 \<and>
     (get_device_type d = DEVICE_TYPE_ANCHOR \<or> get_device_type d = DEVICE_TYPE_SENSOR) \<and>
     (let p = dv_pair d in pr_collecting p \<and> nbtimeout_expired (dv_now d) (pr_timer p) \<and> 0 < pr_count p \<and> pr_idx p \<le> 0)"

abbreviation candidates :: "dev \<Rightarrow> response_candidate list" where
  "candidates d \<equiv> take (nat (pr_count (dv_pair d))) (pr_candidates (dv_pair d))"

lemma window_over_tick:
  assumes "dev_wf d" "window_over d"
  shows "\<exists>p. mesh_pairing_tick P d = d\<lparr>dv_pair := p\<rparr> \<and> pr_process_next p \<and> \<not> pr_collecting p \<and> 0 < pr_idx p \<and> pr_idx p = pr_count p \<and>
    pr_candidates p = bubble_sort candidate_gt (nat (pr_count (dv_pair d))) (pr_candidates (dv_pair d))"
proof -
  let ?n = "if pr_count (dv_pair d) < 8 then pr_count (dv_pair d) else 8"
  let ?p = "(sort_candidates ((dv_pair d)\<lparr>pr_collecting := False, pr_timer := nbtimeout_stop (pr_timer (dv_pair d))\<rparr>))
    \<lparr>pr_count := ?n, pr_process_next := True, pr_idx := ?n\<rparr>"
  have w: "infra_count d = 0" "get_device_type d \<noteq> DEVICE_TYPE_GATEWAY" "pr_collecting (dv_pair d)" "dv_status d = Running"
    "nbtimeout_expired (dv_now d) (pr_timer (dv_pair d))" "\<not> 0 < pr_idx (dv_pair d)" "0 < pr_count (dv_pair d)"
    using assms(2) by (auto simp: window_over_def Let_def)
  have "pairing_window_expired d = d\<lparr>dv_pair := ?p\<rparr>"
    using w(1) by (simp add: pairing_window_expired_def set_pair_def sort_candidates_def Let_def)
  then have "mesh_pairing_tick P d = d\<lparr>dv_pair := ?p\<rparr>" using w by (simp add: mesh_pairing_tick_def)
  then show ?thesis using w(7) by (intro exI[of _ ?p]) (simp add: sort_candidates_def)
qed

lemma confirm_first:
  assumes "window_over d" "pr_process_next p" "\<not> pr_collecting p" "0 < pr_idx p" "pr_idx p = pr_count p" "cd_hop_num (pr_candidates p ! 0) \<noteq> 0xFF"
  shows "dv_queues (mesh_pairing_tick P (d\<lparr>dv_pair := p\<rparr>)) = dv_queues (proc (send_pair_confirm P (cd_sender_id (pr_candidates p ! 0)) STATUS_SUCCESS) d)"
    "dv_tracker (mesh_pairing_tick P (d\<lparr>dv_pair := p\<rparr>)) = dv_tracker (proc (send_pair_confirm P (cd_sender_id (pr_candidates p ! 0)) STATUS_SUCCESS) d)"
proof -
  let ?c = "pr_candidates p ! 0" and ?e = "d\<lparr>dv_pair := p\<lparr>pr_process_next := False\<rparr>\<rparr>"
  let ?f = "proc (send_pair_confirm P (cd_sender_id ?c) STATUS_SUCCESS)"
  have q: "dv_queues (?f ?e) = dv_queues (?f d)" "dv_tracker (?f ?e) = dv_tracker (?f d)"
    by (simp_all add: proc_def send_pair_confirm_def send_tracked_def d_tx_def d_track_def d_next_id_def mk_hdr_def split_beta Let_def)
  have "check_infra_storage (cd_sender_id ?c) False ?e = STATUS_SUCCESS" using assms(1) by (simp add: window_over_def check_infra_storage_sem)
  then have sel: "select_and_confirm P 0 ?e = (if get_device_type d = DEVICE_TYPE_SENSOR then set_pair (\<lambda>p. p\<lparr>pr_count := 0\<rparr>) (?f ?e) else ?f ?e)"
    using assms(6) by (simp add: select_and_confirm_def Let_def)
  have pair: "dv_pair (set_pair g x) = g (dv_pair x)" for g x by (simp add: set_pair_def)
  have e: "set_pair (\<lambda>p. p\<lparr>pr_process_next := False\<rparr>) (d\<lparr>dv_pair := p\<rparr>) = ?e" by (simp add: set_pair_def)
  have run: "dv_status d = Running" using assms(1) by (simp add: window_over_def)
  have "mesh_pairing_tick P (d\<lparr>dv_pair := p\<rparr>) = set_pair (\<lambda>p. p\<lparr>pr_idx := pr_idx p - 1\<rparr>) (select_and_confirm P 0 ?e)"
    using assms(1-5) run sel by (auto simp: mesh_pairing_tick_def window_over_def pair e Let_def)
  then show "dv_queues (mesh_pairing_tick P (d\<lparr>dv_pair := p\<rparr>)) = dv_queues (?f d)" "dv_tracker (mesh_pairing_tick P (d\<lparr>dv_pair := p\<rparr>)) = dv_tracker (?f d)"
    using q unfolding sel by (simp_all add: set_pair_def)
qed

text \<open>
  C7: A node without a peer whose collection window is over confirms the best of the responses it
  has collected: two ticks later exactly one packet is queued and tracked, a PAIR_CONFIRM to a
  candidate of minimal hop number and, among those, of the strongest signal; the order in which
  the responses came in does not matter.
\<close>

theorem best_response_confirmed:
  fixes P :: platform
  assumes "dev_wf d" "window_over d" "\<forall>c\<in>set (candidates d). cd_hop_num c \<noteq> 0xFF"
  defines "f \<equiv> mesh_pairing_tick P (mesh_pairing_tick P d)"
  shows "\<exists>b\<in>set (candidates d). (\<forall>c\<in>set (candidates d). no_worse b c) \<and>
    dv_queues f = dv_queues (proc (send_pair_confirm P (cd_sender_id b) STATUS_SUCCESS) d) \<and>
    dv_tracker f = dv_tracker (proc (send_pair_confirm P (cd_sender_id b) STATUS_SUCCESS) d)"
proof -
  let ?n = "nat (pr_count (dv_pair d))" and ?xs = "pr_candidates (dv_pair d)"
  obtain p where p: "mesh_pairing_tick P d = d\<lparr>dv_pair := p\<rparr>" "pr_process_next p" "\<not> pr_collecting p" "0 < pr_idx p" "pr_idx p = pr_count p"
    "pr_candidates p = bubble_sort candidate_gt ?n ?xs"
    using window_over_tick[OF assms(1,2), of P] by blast
  have n: "?n \<le> length ?xs" "0 < ?n" using assms(1,2) unfolding dev_wf_def pairing_wf_def window_over_def Let_def by linarith+
  let ?b = "pr_candidates p ! 0"
  have "?b \<in> set (take ?n (pr_candidates p))" using n p(6) by (auto simp: in_set_conv_nth intro!: exI[of _ 0])
  then have b: "?b \<in> set (candidates d)" using n(1) p(6) by (simp add: set_take_bubble_sort)
  moreover have "\<forall>c\<in>set (candidates d). no_worse ?b c"
    using candidate_order.bubble_sort_first_best[OF n] unfolding no_worse_gt p(6) by blast
  moreover have "cd_hop_num ?b \<noteq> 0xFF" using assms(3) b by blast
  note confirm_first[OF assms(2) p(2-5) this, of P, folded p(1), folded f_def]
  ultimately show ?thesis by blast
qed

definition two_responses :: dev where
  "two_responses = (boot_dev DEVICE_TYPE_ANCHOR 9 0xFF ref_storage)\<lparr>dv_pair := boot_pairing\<lparr>pr_collecting := True, pr_count := 2,
     pr_timer := nbtimeout_start 0 (nbtimeout_init 500 0),
     pr_candidates := (pr_candidates boot_pairing)
       [0 := \<lparr>cd_sender_id = 7, cd_device_type = DEVICE_TYPE_ANCHOR, cd_hop_num = 1, cd_rssi_2 = - 60\<rparr>,
        1 := \<lparr>cd_sender_id = 1, cd_device_type = DEVICE_TYPE_GATEWAY, cd_hop_num = 0, cd_rssi_2 = - 90\<rparr>]\<rparr>\<rparr>"

theorem best_response_confirmed_witness:
  "dv_queues (mesh_pairing_tick ref_platform (mesh_pairing_tick ref_platform two_responses))
    = dv_queues (proc (send_pair_confirm ref_platform 1 STATUS_SUCCESS) two_responses)"
proof -
  have len: "length (pr_candidates boot_pairing) = 16" by (simp add: boot_pairing_def)
  have w: "dev_wf two_responses"
    using boot_dev_wf[OF storage_okD(1)[OF ref_storage_ok], of DEVICE_TYPE_ANCHOR 9 "0xFF"] len
    by (simp add: two_responses_def dev_wf_def pairing_wf_def)
  have o: "window_over two_responses"
    using ref_storage_counts
    by (simp add: two_responses_def window_over_def nbtimeout_expired_def nbtimeout_start_def nbtimeout_init_def)
      (simp add: boot_dev_def boot_pairing_def)
  have c: "candidates two_responses = [\<lparr>cd_sender_id = 7, cd_device_type = DEVICE_TYPE_ANCHOR, cd_hop_num = 1, cd_rssi_2 = - 60\<rparr>,
      \<lparr>cd_sender_id = 1, cd_device_type = DEVICE_TYPE_GATEWAY, cd_hop_num = 0, cd_rssi_2 = - 90\<rparr>]"
    using len by (simp add: two_responses_def numeral_2_eq_2 take_Suc_conv_app_nth)
  from best_response_confirmed[where P = ref_platform, OF w o] show ?thesis
    unfolding c by (auto simp: no_worse_def)
qed

end
