(* ===== verification/Buttons.thy ===== *)
theory Buttons
  imports Large_Handlers Node_Steps
begin

text \<open>
  The test buttons and the status LED (src/testing/buttons.c, src/testing/led.c): the press queue,
  the debouncing thread, the handlers that make up reports, configurations and large data, and the
  blinking. The GPIO driver and the message queue are parameters.
\<close>

abbreviation (input) BUTTON_COUNT :: nat where "BUTTON_COUNT \<equiv> 4"
abbreviation (input) DEBOUNCE_MS :: s64 where "DEBOUNCE_MS \<equiv> 50"
abbreviation (input) PACKET_PRIORITY_LOW_REPORT :: u8 where "PACKET_PRIORITY_LOW_REPORT \<equiv> PACKET_PRIORITY_LOW"

section \<open>State\<close>

datatype button_handler = Factory_Reset_Button | Report_Button | Config_Button

text \<open>The table of the four buttons and the static \<open>data_id\<close> of the report button.\<close>

record buttons =
  bt_handler :: "button_handler option list"
  bt_last_press_ms :: "s64 list"
  bt_data_id :: u16

definition buttons_reset :: buttons where
  "buttons_reset = \<lparr>bt_handler = replicate BUTTON_COUNT None, bt_last_press_ms = replicate BUTTON_COUNT 0, bt_data_id = 1\<rparr>"

definition find_button :: "nat \<Rightarrow> nat option" where
  "find_button idx = find_idx (\<lambda>i. i = idx) [1..<Suc BUTTON_COUNT]"

text \<open>The interrupt: a press is dropped if the queue is full.\<close>

definition button_isr :: "(nat list \<Rightarrow> nat \<Rightarrow> int \<times> nat list) \<Rightarrow> nat \<Rightarrow> nat list \<Rightarrow> nat list" where
  "button_isr put idx q = snd (put q idx)"

definition button_register_handler :: "nat \<Rightarrow> button_handler option \<Rightarrow> buttons \<Rightarrow> int \<times> buttons" where
  "button_register_handler idx h b = (case find_button idx of
       None \<Rightarrow> (- EINVAL, b)
     | Some i \<Rightarrow> (0, b\<lparr>bt_handler := (bt_handler b)[i := h]\<rparr>))"

text \<open>The results of the GPIO calls for one button, in the order in which they are made.\<close>

record gpio_results =
  gr_ready :: bool
  gr_configure :: int
  gr_interrupt :: int
  gr_add_callback :: int

fun button_gpio_init :: "gpio_results list \<Rightarrow> int" where
  "button_gpio_init [] = 0"
| "button_gpio_init (r # rs) = (
     if \<not> gr_ready r then - ENODEV
     else if gr_configure r \<noteq> 0 then gr_configure r
     else if gr_interrupt r \<noteq> 0 then gr_interrupt r
     else if gr_add_callback r \<noteq> 0 then gr_add_callback r
     else button_gpio_init rs)"

definition buttons_init :: "gpio_results list \<Rightarrow> buttons \<Rightarrow> int \<times> buttons" where
  "buttons_init rs b = (
     let b = snd (button_register_handler 1 (Some Factory_Reset_Button) b);
         b = snd (button_register_handler 2 (Some Report_Button) b);
         b = snd (button_register_handler 3 (Some Config_Button) b);
         b = snd (button_register_handler 4 None b) in
     (button_gpio_init (take BUTTON_COUNT rs), b))"

section \<open>The handlers\<close>

definition sleep_ms :: "s64 \<Rightarrow> dev \<Rightarrow> dev" where
  "sleep_ms ms d = d\<lparr>dv_now := dv_now d + ms\<rparr>"

definition default_button0_handler :: "platform \<Rightarrow> dev \<Rightarrow> dev" where
  "default_button0_handler P d = sys_reboot (sleep_ms 500 (factory_reset P (sleep_ms 1000 d)))"

text \<open>The dummy data: every byte is the low byte of its index.\<close>

definition pattern_bytes :: "nat \<Rightarrow> nat \<Rightarrow> bytes" where
  "pattern_bytes written n = map (\<lambda>i. word_of_nat (written + i)) [0..<n]"

text \<open>\<open>(data_id == 255) ? (data_id = 1) : data_id++\<close>: the value and the variable afterwards.\<close>

definition next_report_id :: "u16 \<Rightarrow> u16 \<times> u16" where
  "next_report_id i = (if i = 255 then (1, 1) else (i, i + 1))"

definition default_button1_handler :: "platform \<Rightarrow> buttons \<times> dev \<Rightarrow> buttons \<times> dev" where
  "default_button1_handler P s = (
     let (b, d) = s in
     if get_device_type d \<noteq> DEVICE_TYPE_SENSOR then s
     else let (i, next) = next_report_id (bt_data_id b); chunk = pattern_bytes 0 256 in
       (b\<lparr>bt_data_id := next\<rparr>, snd (validate_at_report P \<lparr>as_device_id = get_device_id d,
          as_device_type = get_device_type d, as_data_id = i, as_data_len = 256, as_data_crc32 = pf_crc32 P chunk\<rparr>
          PACKET_PRIORITY_LOW chunk d)))"

text \<open>The copy of the page allocator in src/testing/buttons.c.\<close>

definition test_alloc_large_data_slot :: "nat \<Rightarrow> dev \<Rightarrow> nat option \<times> dev" where
  "test_alloc_large_data_slot sz d = (
     case find_idx (\<lambda>x. \<not> lg_active x) (lg_slots d) of
       None \<Rightarrow> (None, d)
     | Some idx \<Rightarrow> (case find_pages sz (lg_pages d) 0 0 of
         None \<Rightarrow> (None, d)
       | Some (start, n) \<Rightarrow> (Some idx, upd_lg idx (\<lambda>x. x\<lparr>lg_active := True, lg_base_addr := page_addr start\<rparr>)
           (upd_large (\<lambda>l. l\<lparr>ld_page_empty := mark_pages False start n (ld_page_empty l)\<rparr>) d))))"

definition fill_test_large :: "u16 \<Rightarrow> nat \<Rightarrow> u16 \<Rightarrow> large_slot \<Rightarrow> large_slot" where
  "fill_test_large dev_id sz data_id x = x\<lparr>lg_active := True, lg_upstream_ready := False, lg_is_sent := False,
     lg_is_transfered := False, lg_priority := PACKET_PRIORITY_HIGH, lg_gen_device_id := dev_id, lg_data_id := ucast data_id,
     lg_total_size := word_of_nat sz,
     lg_page_count := word_of_nat ((sz + LARGE_DATA_CHUNK_SIZE * LARGE_DATA_CHUNKS_PER_PAGE - 1) div
        (LARGE_DATA_CHUNK_SIZE * LARGE_DATA_CHUNKS_PER_PAGE)),
     lg_last_chunk_size := word_of_nat (if sz mod LARGE_DATA_CHUNK_SIZE = 0 then LARGE_DATA_CHUNK_SIZE else sz mod LARGE_DATA_CHUNK_SIZE),
     lg_total_chunks := word_of_nat ((sz + LARGE_DATA_CHUNK_SIZE - 1) div LARGE_DATA_CHUNK_SIZE),
     lg_crc32 := 0, lg_received_count := 0\<rparr>"

text \<open>The writing loop with its buffer of 1024 bytes; False if a write failed.\<close>

function write_test_large :: "platform \<Rightarrow> nat \<Rightarrow> nat \<Rightarrow> nat \<Rightarrow> dev \<Rightarrow> bool \<times> dev" where
  "write_test_large P idx sz written d = (
     if sz \<le> written then (True, d)
     else let n = (if sz - written < 1024 then sz - written else 1024); chunk = pattern_bytes written n;
              d = upd_lg idx (\<lambda>x. x\<lparr>lg_crc32 := if written = 0 then pf_crc32 P chunk
                    else pf_crc32_continue P (lg_crc32 x) chunk\<rparr>) d;
              (err, d) = d_psram_write P (unat (lg_base_addr (lg_at d idx) + word_of_nat written)) chunk d in
       if err \<noteq> 0 then (False, upd_lg idx (\<lambda>x. x\<lparr>lg_active := False\<rparr>) d)
       else write_test_large P idx sz (written + n) d)"
  by pat_completeness auto
termination
  by (relation "measure (\<lambda>(P, idx, sz, written, d). sz - written)") auto

declare write_test_large.simps [simp del]

definition create_ld :: "platform \<Rightarrow> nat \<Rightarrow> u16 \<Rightarrow> dev \<Rightarrow> nat option \<times> dev" where
  "create_ld P sz data_id d = (case test_alloc_large_data_slot sz d of
       (None, d) \<Rightarrow> (None, d)
     | (Some idx, d) \<Rightarrow>
         let (ok, d) = write_test_large P idx sz 0 (upd_lg idx (fill_test_large (get_device_id d) sz data_id) d) in
         (if ok then Some idx else None, d))"

abbreviation (input) TEST_LARGE_SIZE :: nat where "TEST_LARGE_SIZE \<equiv> 102400"

definition test_large_data :: "platform \<Rightarrow> dev \<Rightarrow> dev" where
  "test_large_data P d = (case create_ld P TEST_LARGE_SIZE 1 d of
       (None, d) \<Rightarrow> d
     | (Some i, d) \<Rightarrow> (case create_ld P TEST_LARGE_SIZE 2 d of
           (None, d) \<Rightarrow> d
         | (Some j, d) \<Rightarrow> upd_lg j (\<lambda>x. x\<lparr>lg_upstream_ready := True\<rparr>) (upd_lg i (\<lambda>x. x\<lparr>lg_upstream_ready := True\<rparr>) d)))"

text \<open>
  \<open>sensor_config_t\<close>. It is packed, but the structure \<open>config_info_3105\<close> inside it is not and has
  two bytes of padding. The values of the padding and the width of the enumeration \<open>config_flags\<close>,
  one byte with short enumerations and four without, are choices of the compiler.
\<close>

record config_layout =
  cl_short_enums :: bool
  cl_pad_frequency :: u8
  cl_pad_end :: u8

definition test_config_bytes :: "platform \<Rightarrow> config_layout \<Rightarrow> bytes" where
  "test_config_bytes P L = (
     let bs = [20] @ by16 60 @ (if cl_short_enums L then [0] else [0, 0, 0, 0]) @ [30, 15, 70, 30, 28, 18, 65, 35] @
              by16 1000 @ [40, cl_pad_frequency L] @ by16 500 @ [0xFF, cl_pad_end L] in
     bs @ by16 (pf_crc16 P 0xFFFF bs))"

definition test_serial_number :: u64 where
  "test_serial_number = push_bit 40 19152 OR 0x00DEADBEEF"

text \<open>The hop number of a mesh entry, for a sensor that of the device it is connected to.\<close>

definition test_hop_num :: "mesh \<Rightarrow> dev \<Rightarrow> u8" where
  "test_hop_num m d = (
     if ms_device_type m = DEVICE_TYPE_SENSOR then
       (case find_idx (\<lambda>x. ms_device_id x = ms_connected_device_id m) (mesh_devs (dv_store d)) of
          Some j \<Rightarrow> ms_hop_num (mesh_at d j) | None \<Rightarrow> ms_hop_num m)
     else ms_hop_num m)"

text \<open>Slot 0 is used whatever it holds, and stays marked as active and sent if the device is not found.\<close>

definition test_config :: "platform \<Rightarrow> config_layout \<Rightarrow> dev \<Rightarrow> dev" where
  "test_config P L d = (
     let d = upd_config 0 (\<lambda>s. s\<lparr>cs_active := True, cs_is_sent := True\<rparr>) d in
     case find_idx (\<lambda>m. ms_serial_num m = test_serial_number) (mesh_devs (dv_store d)) of
       None \<Rightarrow> d
     | Some i \<Rightarrow>
         let m = mesh_at d i; hop = test_hop_num m d; bs = test_config_bytes P L in
         if ms_device_id m = 0xFFFF \<or> hop = 0xFF then d
         else let d = upd_config 0 (\<lambda>s. s\<lparr>cs_dst_device_id := ms_device_id m, cs_dst_device_type := ms_device_type m,
                    cs_config_len := word_of_nat (length bs), cs_config_crc32 := pf_crc32 P bs\<rparr>) d;
                  (err, d) = d_psram_write P (config_slot_psram_addr 0) bs d in
         if err \<noteq> 0 then upd_config 0 (\<lambda>s. s\<lparr>cs_active := False\<rparr>) d
         else broadcast_route_discovery P \<lparr>rdc_hdr = zero_hdr, rdc_device_id = ms_device_id m,
           rdc_device_type = ms_device_type m, rdc_hop_num = hop, rdc_data_type = DATA_TYPE_CONFIG, rdc_data_id = 0\<rparr> d)"

definition default_button2_handler :: "platform \<Rightarrow> config_layout \<Rightarrow> dev \<Rightarrow> dev" where
  "default_button2_handler P L d = (
     if get_device_type d = DEVICE_TYPE_GATEWAY then test_config P L d
     else if get_device_type d = DEVICE_TYPE_SENSOR then test_large_data P d
     else d)"

section \<open>The thread\<close>

fun run_handler :: "platform \<Rightarrow> config_layout \<Rightarrow> button_handler option \<Rightarrow> buttons \<times> dev \<Rightarrow> buttons \<times> dev" where
  "run_handler P L None s = s"
| "run_handler P L (Some Factory_Reset_Button) s = (fst s, default_button0_handler P (snd s))"
| "run_handler P L (Some Report_Button) s = default_button1_handler P s"
| "run_handler P L (Some Config_Button) s = (fst s, default_button2_handler P L (snd s))"

text \<open>One round of the loop for a press that was taken from the queue.\<close>

definition button_press :: "platform \<Rightarrow> config_layout \<Rightarrow> nat \<Rightarrow> buttons \<times> dev \<Rightarrow> buttons \<times> dev" where
  "button_press P L idx s = (case find_button idx of
       None \<Rightarrow> s
     | Some i \<Rightarrow>
         let (b, d) = s; now = dv_now d in
         if now - bt_last_press_ms b ! i <s DEBOUNCE_MS then s
         else run_handler P L (bt_handler b ! i) (b\<lparr>bt_last_press_ms := (bt_last_press_ms b)[i := now]\<rparr>, d))"

section \<open>The LED\<close>

text \<open>One round of the LED thread: whether the LED is on, and the pin value that is set.\<close>

definition led_round :: "u8 \<Rightarrow> bool \<Rightarrow> bool \<times> bool option" where
  "led_round hop_num led_on = (
     if hop_num = 0xFF then (\<not> led_on, Some (\<not> led_on))
     else if led_on then (False, Some False)
     else (led_on, None))"

definition led_init :: "bool \<Rightarrow> int \<Rightarrow> int" where
  "led_init ready configure = (if \<not> ready then - ENODEV else configure)"

section \<open>Well-formedness\<close>

lemma sleep_wf [wf_intros]: "dev_wf d \<Longrightarrow> dev_wf (sleep_ms ms d)"
  by (simp add: sleep_ms_def dev_wf_def)

lemma test_alloc_eq: "test_alloc_large_data_slot = alloc_large_data_slot"
  by (intro ext) (simp add: test_alloc_large_data_slot_def alloc_large_data_slot_def)

lemma test_alloc_wf [wf_intros]: "dev_wf d \<Longrightarrow> dev_wf (snd (test_alloc_large_data_slot sz d))"
  by (simp add: test_alloc_eq alloc_large_data_slot_wf)

lemma write_test_large_wf [wf_intros]: "dev_wf d \<Longrightarrow> dev_wf (snd (write_test_large P idx sz written d))"
proof (induction "sz - written" arbitrary: written d rule: less_induct)
  case less
  have IH: "dev_wf (snd (write_test_large P idx sz w e))" if "dev_wf e" "written < sz" "written < w" for w e
    using that by (intro less.hyps) auto
  show ?case
  proof (cases "sz \<le> written")
    case True
    then show ?thesis using less.prems by (simp add: write_test_large.simps)
  next
    case False
    then show ?thesis using less.prems
      by (subst write_test_large.simps) (auto simp: split_beta Let_def intro!: IH upd_lg_flags_wf io_wf(1))
  qed
qed

lemma fill_test_large_wf:
  assumes "dev_wf d" "sz \<le> LARGE_DATA_MAX_TRANSFER_SIZE"
  shows "dev_wf (upd_lg idx (fill_test_large i sz k) d)"
proof (rule upd_lg_wf[OF assms(1)])
  have "(sz + LARGE_DATA_CHUNK_SIZE - 1) div LARGE_DATA_CHUNK_SIZE \<le> LARGE_DATA_MAX_CHUNKS" using assms(2) by simp
  then have "unat (word_of_nat ((sz + LARGE_DATA_CHUNK_SIZE - 1) div LARGE_DATA_CHUNK_SIZE) :: u16) \<le> LARGE_DATA_MAX_CHUNKS"
    unfolding unat_of_nat using order_trans[OF mod_less_eq_dividend] by blast
  moreover have "unat (word_of_nat sz :: u32) \<le> LARGE_DATA_MAX_TRANSFER_SIZE"
    unfolding unat_of_nat using assms(2) order_trans[OF mod_less_eq_dividend] by blast
  ultimately show "large_slot_ok x \<Longrightarrow> large_slot_ok (fill_test_large i sz k x)" for x
    by (simp add: large_slot_ok_def fill_test_large_def)
qed

lemma create_ld_wf: "dev_wf d \<Longrightarrow> sz \<le> LARGE_DATA_MAX_TRANSFER_SIZE \<Longrightarrow> dev_wf (snd (create_ld P sz k d))"
  using test_alloc_wf[of d sz]
  by (auto simp: create_ld_def split_beta Let_def split: prod.splits option.splits intro!: write_test_large_wf fill_test_large_wf)

lemma test_large_data_wf [wf_intros]:
  assumes "dev_wf d" shows "dev_wf (test_large_data P d)"
proof -
  have wf: "dev_wf (snd (create_ld P TEST_LARGE_SIZE k e))" if "dev_wf e" for e k using that by (intro create_ld_wf) simp_all
  obtain i e where 1: "create_ld P TEST_LARGE_SIZE 1 d = (i, e)" by fastforce
  obtain j g where 2: "create_ld P TEST_LARGE_SIZE 2 e = (j, g)" by fastforce
  have "dev_wf e" using wf[OF assms, of 1] 1 by simp
  moreover have "dev_wf g" using wf[OF calculation, of 2] 2 by simp
  ultimately show ?thesis
    by (cases i; cases j) (simp_all add: test_large_data_def 1 2 upd_lg_flags_wf)
qed

lemma length_test_config: "length (test_config_bytes P L) \<le> MAX_CONFIG_SIZE"
  by (simp add: test_config_bytes_def Let_def)

lemma test_config_wf [wf_intros]:
  assumes "dev_wf d" shows "dev_wf (test_config P L d)"
proof -
  have "unat (word_of_nat (length (test_config_bytes P L)) :: u8) \<le> MAX_CONFIG_SIZE"
    unfolding unat_of_nat using length_test_config[of P L] order_trans[OF mod_less_eq_dividend] by blast
  then show ?thesis using assms unfolding test_config_def Let_def split_beta
    by (auto split: option.splits intro!: wf_intros)
qed

lemma default_button0_wf [wf_intros]: "dev_wf d \<Longrightarrow> dev_wf (default_button0_handler P d)"
  by (simp add: default_button0_handler_def sleep_wf factory_reset_wf dev_wf_setters(8))

lemma default_button1_wf: "dev_wf (snd s) \<Longrightarrow> dev_wf (snd (default_button1_handler P s))"
  by (auto simp: default_button1_handler_def Let_def split_beta intro!: validate_at_report_wf)

lemma default_button2_wf [wf_intros]: "dev_wf d \<Longrightarrow> dev_wf (default_button2_handler P L d)"
  by (simp add: default_button2_handler_def test_config_wf test_large_data_wf)

lemma run_handler_wf: "dev_wf (snd s) \<Longrightarrow> dev_wf (snd (run_handler P L h s))"
  by (cases "(P, L, h, s)" rule: run_handler.cases)
    (simp_all add: default_button0_wf default_button1_wf default_button2_wf)

lemma button_press_wf: "dev_wf (snd s) \<Longrightarrow> dev_wf (snd (button_press P L idx s))"
  by (auto simp: button_press_def Let_def split_beta split: option.split intro!: run_handler_wf)

end
