(* ===== verification/Board.thy ===== *)
theory Board
  imports Buttons
begin

text \<open>
  The whole board over time (src/main.c, src/testing/buttons.c): the events of the main loop and the
  presses of the test buttons in any order. A handler of the button thread runs between two steps
  of the main loop; the states that a board can get into from power-on keep the invariant.
\<close>

datatype board_event = Main_Loop node_event | Press nat

fun board_effect :: "platform \<Rightarrow> config_layout \<Rightarrow> board_event \<Rightarrow> buttons \<times> dev \<Rightarrow> buttons \<times> dev" where
  "board_effect P L (Main_Loop ev) s = (fst s, node_effect P ev (snd s))"
| "board_effect P L (Press idx) s = button_press P L idx s"

text \<open>\<open>main\<close> registers the handlers after the modules have started; the errors of the GPIO are only logged.\<close>

definition board_start :: "platform \<Rightarrow> gpio_results list \<Rightarrow> dev \<Rightarrow> int \<times> buttons \<times> dev" where
  "board_start P rs d = (let (err, d) = node_start P d in
     if err \<noteq> 0 then (err, buttons_reset, d) else (0, snd (buttons_init rs buttons_reset), d))"

inductive board_step :: "platform \<Rightarrow> config_layout \<Rightarrow> board_event \<Rightarrow> buttons \<times> dev \<Rightarrow> buttons \<times> dev \<Rightarrow> bool" for P L where
  board_stepI: "dv_status (snd s) = Running \<Longrightarrow> board_step P L ev s (board_effect P L ev s)"

inductive_simps board_step_simps: "board_step P L ev s t"

inductive board_reach :: "platform \<Rightarrow> config_layout \<Rightarrow> buttons \<times> dev \<Rightarrow> bool" for P L where
  board_reach_start: "board_start P rs (power_on s ps now) = (0, b, d) \<Longrightarrow> storage_wf s \<Longrightarrow> storage_wf (dv_store d) \<Longrightarrow>
    board_reach P L (b, d)"
| board_reach_step: "board_reach P L s \<Longrightarrow> board_step P L ev s t \<Longrightarrow> board_reach P L t"

section \<open>The invariant\<close>

definition buttons_wf :: "buttons \<Rightarrow> bool" where
  "buttons_wf b \<longleftrightarrow> length (bt_last_press_ms b) = BUTTON_COUNT \<and> bt_data_id b \<le> 255 \<and>
     bt_handler b = [Some Factory_Reset_Button, Some Report_Button, Some Config_Button, None]"

lemma buttons_init_wf: "buttons_wf (snd (buttons_init rs buttons_reset))"
proof -
  have "(1 :: u16) \<le> 255" by (simp add: word_le_nat_alt)
  then show ?thesis
    by (simp add: buttons_init_def button_register_handler_def find_button_def buttons_reset_def buttons_wf_def
        upt_conv_Cons numeral_eq_Suc)
qed

lemma default_button1_buttons: "buttons_wf (fst s) \<Longrightarrow> buttons_wf (fst (default_button1_handler P s))"
proof -
  have "i + 1 \<le> (255 :: u16)" if "i \<le> 255" "i \<noteq> 255" for i using that by (metis inc_le order_le_less)
  then show "buttons_wf (fst s) \<Longrightarrow> buttons_wf (fst (default_button1_handler P s))"
    by (auto simp: default_button1_handler_def next_report_id_def buttons_wf_def Let_def split_beta)
qed

lemma button_press_buttons:
  assumes "buttons_wf (fst s)" shows "buttons_wf (fst (button_press P L idx s))"
proof -
  have "buttons_wf (fst t) \<Longrightarrow> buttons_wf (fst (run_handler P L h t))" for h t
    by (cases "(P, L, h, t)" rule: run_handler.cases) (simp_all add: default_button1_buttons)
  moreover have "buttons_wf ((fst s)\<lparr>bt_last_press_ms := (bt_last_press_ms (fst s))[i := n]\<rparr>)" for i n
    using assms by (simp add: buttons_wf_def)
  ultimately show ?thesis using assms by (auto simp: button_press_def Let_def split_beta split: option.split)
qed

text \<open>
  C32: Whatever the modem receives, the host sends, the clock does and the user presses, in any order
  and for any platform, a board that started with tables that fit its arrays stays in the invariant
  of its components: all arrays keep their sizes, all counts and stored lengths stay inside them,
  every tracked, configured, reported or transferred length fits its memory, each button keeps its
  handler, and the id of the test report stays between 0 and 255.
\<close>

theorem board_reach_wf:
  assumes "board_reach P L s" shows "dev_wf (snd s) \<and> buttons_wf (fst s)"
  using assms
proof (induction rule: board_reach.induct)
  case (board_reach_start rs s ps now b d)
  then have "node_start P (power_on s ps now) = (0, d)" "b = snd (buttons_init rs buttons_reset)"
    by (auto simp: board_start_def split: prod.splits if_splits)
  then show ?case using node_start_wf power_on_wf board_reach_start(2,3) buttons_init_wf by simp
next
  case (board_reach_step s ev t)
  then show ?case by (cases ev) (auto simp: board_step_simps node_effect_wf button_press_wf button_press_buttons)
qed

theorem board_reach_wf_witness:
  "\<exists>s. board_reach ref_platform \<lparr>cl_short_enums = True, cl_pad_frequency = 0, cl_pad_end = 0\<rparr> s \<and> dev_wf (snd s) \<and>
     bt_handler (fst s) ! 1 = Some Report_Button"
proof -
  let ?L = "\<lparr>cl_short_enums = True, cl_pad_frequency = 0, cl_pad_end = 0\<rparr>"
  obtain d where "node_start ref_platform (power_on (boot_storage (st_ee ref_storage1)) ref_psram 0) = (0, d)" "storage_wf (dv_store d)"
    using ref_start by blast
  then have "board_start ref_platform [] (power_on (boot_storage (st_ee ref_storage1)) ref_psram 0) =
      (0, snd (buttons_init [] buttons_reset), d)" by (simp add: board_start_def)
  then have "board_reach ref_platform ?L (snd (buttons_init [] buttons_reset), d)"
    by (rule board_reach_start[OF _ boot_storage_wf]) fact
  note this board_reach_wf[OF this]
  then show ?thesis by (intro exI[of _ "(snd (buttons_init [] buttons_reset), d)"]) (simp add: buttons_wf_def)
qed

text \<open>Bouncing contacts: of two presses of a button within the debounce time the second one changes nothing.\<close>

lemma press_debounced:
  assumes "idx \<in> {1..BUTTON_COUNT}" "length (bt_last_press_ms b) = BUTTON_COUNT" "dv_now d - bt_last_press_ms b ! (idx - 1) <s DEBOUNCE_MS"
  shows "button_press P L idx (b, d) = (b, d)"
proof -
  have "find_button idx = Some (idx - 1)"
    using assms(1) by (auto simp: find_button_def upt_conv_Cons numeral_eq_Suc le_Suc_eq)
  then show ?thesis using assms(3) by (simp add: button_press_def)
qed

end
