(* ===== verification/Spec2Isabelle.thy ===== *)
theory Spec2Isabelle
  imports Radio_Props Large_Props Config_Offers Routing_Props Radio_Phy At_Uart_Props At_Sub
    Sensor_Structure Join Pairing_Choice Report_Path Config_Path Board
begin

text \<open>
  Verification of the DECT NR+ mesh firmware in src/src.

  THE PROGRAM. One firmware runs on gateways, anchors and sensors; strap pins choose the role. A
  device joins the mesh by pairing with up to two neighbours nearer to the gateway; anchors relay.
  Reports and large data travel from the sensors to the gateway hop by hop, configurations the
  other way along a source route. Packets that expect an acknowledgment are tracked and repeated.
  Each host (of the gateway and of the sensors) speaks AT commands over a UART. Tables of known
  devices live in an EEPROM, payloads in an external PSRAM. The main loop alternates reception
  windows and transmission phases of the radio with the ticks of all modules.

  HOW IT IS MODELLED. The module-level statics of a C file are a record (Device collects them in the
  record \<open>dev\<close>, one node); a function is a HOL function of the same name from the state and its
  arguments to its result and the new state. Integers keep their widths as words; \<open>int\<close> is used for
  errno results and loop indices that can be negative. Packed structs are records with their
  encoding \<open>enc_x\<close> and decoding \<open>dec_x\<close>. What src does not contain (Zephyr's message queues, ring
  buffers, EEPROM, SPI, GPIO and UART drivers, CRC and random-number functions, the modem) is the
  record \<open>platform\<close>, an argument of the operations; documented behaviour that a property relies on
  is a named predicate (\<open>msgq_ok\<close>, \<open>eeprom_ok\<close>, \<open>psram_chip_ok\<close>), satisfied by
  \<open>ref_platform\<close>. An access outside an array or a reboot is the status \<open>Faulted\<close> or \<open>Rebooted\<close> of
  the node (\<open>None\<close> in the storage), after which it takes no further steps; so the theorems say where
  the code stays inside its arrays.

  THE THEORIES AND WHAT THEY MODEL (file names under src/src).
    Prelude, Node_Loops: machine integers, first-match loops, shapes of the loops over slots.
    Platform: the parameters. Protocol: protocol.h. Bubble_Sort: the sort that storage.c and
    mesh_pairing.c write out twice. Timeout: timeout.c. Queue: queue.c. Psram: psram.c.
    Tracker: tracker.c (its tick, whose callback works on the node, is in Main_Sub).
    Storage: storage.c. Device: the node; setters of product_info.c and mesh.c.
    Product_Info: product_info.c. Mesh: mesh.c (mesh_tick is in Main_Sub).
    Mesh_Tx, Data_Tx: the send functions of mesh_layers/, config.c, data.c and large_data.c.
    Pairing, Session, Routing: mesh_layers/mesh_pairing.c, mesh_session.c, mesh_routing.c.
    At_Text, At_Main: slm_at_main.c. At_Sub: slm_at_sub.c. At_Uart: slm_at_uart.c with its
    interrupts and work items as inputs in any order.
    Config, Config_Handlers: config.c. Reports, Report_Handlers: data.c.
    Large_Data, Large_Handlers, Large_At: large_data.c.
    Main_Sub: main_sub.c with the queueing and transmission of radio.c. Radio_Phy: the modem's
    callbacks and the physical header in radio.c, and the start of the modem in main.c.
    Node_Steps: the endless loop of main.c. Buttons: testing/buttons.c and testing/led.c. Board: the
    loop and the presses of the buttons as one system.
    Sensor_Structure: tools/sensor_structure.c, as layouts whose sizes are those of its static
    assertions.

  INTERFACES. A locale states each contract between components, and is interpreted on the model.
    \<open>exchange_order\<close> (Bubble_Sort): an exchange test that is a strict weak order; instances
      \<open>infra_order\<close> (storage) and \<open>candidate_order\<close> (pairing).
    \<open>byte_store\<close> (Byte_Store): a memory that reads back what was written; instances \<open>eeprom\<close> and
      \<open>psram\<close>, used by the tables and by the tracker.
    \<open>device_table\<close> (Storage_Lemmas): a table of encoded entries in the EEPROM; instances
      \<open>infra_tab\<close> and \<open>sensor_tab\<close>.
    \<open>prio_queue\<close> (Queue): three bounded queues served by priority; instances \<open>rxq\<close> and \<open>txq\<close>.
    \<open>slot_memory\<close> (Slot_Memory): slots of equal size in a PSRAM partition; instances \<open>cfg_mem\<close>,
      \<open>rep_mem\<close> and \<open>page_mem\<close>.
    \<open>chunk_receiver\<close> (Slot_Memory): a receiver that accepts the pieces of a payload in any order;
      instances \<open>report_rx\<close> and \<open>large_rx\<close>.

  WHAT THE LEMMAS SHOW.
    Tables (Storage_Lemmas, Storage_Correct, Storage_Sync, Storage_Reload, Storage_Props): RAM and
    EEPROM agree after every operation, the infrastructure table is sorted, and storage_init
    restores the tables after a reboot.
    Transport: PSRAM accesses are those of a flat memory, the bounds test refuses what ends beyond
    the chip unless the 32-bit sum wraps around, queues serve by priority and then in order, tracked
    payloads come back unchanged (Psram, Queue, Tracker_Props). What the firmware reads from the
    UART is in order what its receive buffer accepts, which is every byte while reception is on,
    but for the last byte of a full message; what it writes goes to the driver, and through it to
    the line, in order, each write as far as it was taken in (At_Uart_Props).
    Mesh: the derived hop number, the removal of silent peers, infrastructure devices and sensors,
    at the third failure in a row (Mesh_Props); what each pairing and session handler stores and
    answers (Handler_Props); the choice of the parent (Pairing_Choice).
    Transfers: reassembly in any order with repetitions, checksums, what becomes of a report and of
    a configuration on every branch, the bytes of other reports that a chunk packet can reach
    because handle_report_init does not check the sizes against each other, exclusive pages
    (Report_Props, Large_Props), a configuration reaches the sensor's host (Config_Props) or is
    given up after three offers at least 30 seconds apart, whenever the ticks come (Config_Offers).
    A node: \<open>node_step\<close> and \<open>node_reach\<close> (Node_Steps) describe what the endless loop can get into
    for every behaviour of modem and host; the invariant \<open>dev_wf\<close> holds there, and \<open>board_reach\<close>
    (Board) adds the user's presses. Transmission order and admission of packets are in
    Radio_Props; the start of the modem is in Radio_Phy.
    Two nodes (Network, Join): what one transmits the other receives, if the channel loses
    nothing; a report crosses a hop, and an anchor joins a gateway, in complete dialogues. Report_Path
    goes from the host of a sensor to the host of the gateway, Config_Path the other way. In
    Routing_Props the gateway asks for the anchor of a sensor and sends the configuration along the
    route of the answer; an answer that another anchor forwards has lost its route, and the
    configuration then goes to device 0.

  TIME. The clock \<open>dv_now\<close> moves with the events and waits that the lists below contain, and by
  the ten seconds that main_sub_run sleeps after an error.

  BOUNDS AND FUEL. No definition takes fuel chosen by hand: the splitting loops of psram.c, the CRC
  stages of data.c, the line splitter and the write loop of the UART end by measures on the bytes
  left. \<open>main_sub\<close> handles at most eight packets a cycle in the source, and \<open>rx_process_upto\<close> and
  \<open>tx_process_upto\<close> take that bound. A reception window and a wait take the events that happen
  in them as a list, and the lists are universally quantified in the theorems.

  NOT MODELLED. spi_bus.c wraps each transfer into a kernel mutex; the model runs one transfer at a
  time.
  log_color.h and the log messages have no effect on the state. Enumerations of
  tools/sensor_structure.c only name constants. The Python tools are the other end of the UART.
  The interrupts of the GPIO and the threads of buttons and LED run at the boundaries of the main
  loop's operations in the model (\<open>board_step\<close>), not in the middle of one.
  A page or slot that the code frees twice, and what the channel does to two nodes
  transmitting at once, are outside the theorems.
\<close>

end
